(* ===== verification/Ductile_Prelude.thy ===== *)
theory Ductile_Prelude
  imports Main "HOL-Library.Char_ord" "HOL-Library.List_Lexorder" "HOL-Library.Sublist"
begin

text \<open>
  Shared vocabulary of the development: the part of Go's \<^verbatim>\<open>strings\<close> and
  \<^verbatim>\<open>strconv\<close> packages that the sources under \<^verbatim>\<open>src/internal\<close> use, selection
  from ordered tables (the \<^verbatim>\<open>ORDER BY ... LIMIT 1\<close> of the SQL queries), and the
  collections of rewrite rules the component theories extend.

  A Go \<^verbatim>\<open>string\<close> is a byte sequence, here a \<^typ>\<open>string\<close> (a list of 8-bit
  characters). White space and letter case are those of ASCII; the additional Unicode
  white space and case pairs that Go also knows are outside the model. The order on
  strings is the byte-wise lexicographic one, which is both Go's \<^verbatim>\<open><\<close> and SQLite's
  BINARY collation.
\<close>

named_theorems go_string "equations of the modelled Go string functions"
named_theorems table_op "rules for selection from and update of tables"

type_synonym ('e, 'a) result = "'e + 'a"

section \<open>Results\<close>

definition bind_result :: "'e + 'a \<Rightarrow> ('a \<Rightarrow> 'e + 'b) \<Rightarrow> 'e + 'b" where
  "bind_result r f = (case r of Inl e \<Rightarrow> Inl e | Inr x \<Rightarrow> f x)"

lemma bind_result_simps [simp]:
  "bind_result (Inl e) f = Inl e"
  "bind_result (Inr x) f = f x"
  by (simp_all add: bind_result_def)

lemma bind_result_Inr_iff:
  "bind_result r f = Inr y \<longleftrightarrow> (\<exists>x. r = Inr x \<and> f x = Inr y)"
  by (cases r) auto

lemma bind_result_Inl_iff:
  "bind_result r f = Inl e \<longleftrightarrow> r = Inl e \<or> (\<exists>x. r = Inr x \<and> f x = Inl e)"
  by (cases r) auto

section \<open>Strings\<close>

definition is_space :: "char \<Rightarrow> bool" where
  "is_space c \<longleftrightarrow> (of_char c :: nat) \<in> {9, 10, 11, 12, 13, 32}"

definition trim_space :: "string \<Rightarrow> string" where
  "trim_space s = rev (dropWhile is_space (rev (dropWhile is_space s)))"

definition lower_char :: "char \<Rightarrow> char" where
  "lower_char c =
     (if 65 \<le> (of_char c :: nat) \<and> (of_char c :: nat) \<le> 90
      then char_of ((of_char c :: nat) + 32) else c)"

definition to_lower :: "string \<Rightarrow> string" where
  "to_lower s = map lower_char s"

text \<open>\<^verbatim>\<open>strings.Split\<close> with a one-byte separator: never the empty list.\<close>

fun split_on :: "char \<Rightarrow> string \<Rightarrow> string list" where
  "split_on c [] = [[]]"
| "split_on c (x # xs) =
     (if x = c then [] # split_on c xs
      else case split_on c xs of [] \<Rightarrow> [[x]] | p # ps \<Rightarrow> (x # p) # ps)"

text \<open>\<^verbatim>\<open>strings.Fields\<close>: the maximal runs of non-space characters.\<close>

fun fields_from :: "string \<Rightarrow> string \<Rightarrow> string list" where
  "fields_from acc [] = (if acc = [] then [] else [rev acc])"
| "fields_from acc (x # xs) =
     (if is_space x then (if acc = [] then fields_from [] xs else rev acc # fields_from [] xs)
      else fields_from (x # acc) xs)"

definition fields :: "string \<Rightarrow> string list" where
  "fields s = fields_from [] s"

fun join_on :: "string \<Rightarrow> string list \<Rightarrow> string" where
  "join_on sep [] = []"
| "join_on sep [x] = x"
| "join_on sep (x # y # ys) = x @ sep @ join_on sep (y # ys)"

text \<open>Decimal printing of non-negative and signed integers (\<^verbatim>\<open>%d\<close>).\<close>

definition digit_char :: "int \<Rightarrow> char" where
  "digit_char d =
     (if d = 0 then CHR ''0'' else if d = 1 then CHR ''1'' else if d = 2 then CHR ''2''
      else if d = 3 then CHR ''3'' else if d = 4 then CHR ''4'' else if d = 5 then CHR ''5''
      else if d = 6 then CHR ''6'' else if d = 7 then CHR ''7'' else if d = 8 then CHR ''8''
      else CHR ''9'')"

function dec_str :: "int \<Rightarrow> string" where
  "dec_str n = (if n < 10 then [digit_char n] else dec_str (n div 10) @ [digit_char (n mod 10)])"
  by pat_completeness auto
termination
  by (relation "measure nat") auto

declare dec_str.simps [simp del]

definition int_str :: "int \<Rightarrow> string" where
  "int_str i = (if i < 0 then CHR ''-'' # dec_str (- i) else dec_str i)"

definition pad_left :: "nat \<Rightarrow> string \<Rightarrow> string" where
  "pad_left w s = replicate (w - length s) (CHR ''0'') @ s"

text \<open>\<^verbatim>\<open>strconv.Atoi\<close> without the range check: an optional sign and at least one digit.\<close>

definition is_digit :: "char \<Rightarrow> bool" where
  "is_digit c \<longleftrightarrow> 48 \<le> (of_char c :: nat) \<and> (of_char c :: nat) \<le> 57"

definition digit_val :: "char \<Rightarrow> int" where
  "digit_val c = int ((of_char c :: nat) - 48)"

definition digits_val :: "string \<Rightarrow> int" where
  "digits_val s = foldl (\<lambda>acc c. 10 * acc + digit_val c) 0 s"

definition atoi_nat :: "string \<Rightarrow> int option" where
  "atoi_nat s = (if s \<noteq> [] \<and> list_all is_digit s then Some (digits_val s) else None)"

definition in_int64 :: "int \<Rightarrow> bool" where
  "in_int64 v \<longleftrightarrow> - (2 ^ 63) \<le> v \<and> v < 2 ^ 63"

text \<open>Arithmetic on \<^verbatim>\<open>int64\<close> wraps around.\<close>

definition wrap64 :: "int \<Rightarrow> int" where
  "wrap64 v = (v + 2 ^ 63) mod 2 ^ 64 - 2 ^ 63"

definition atoi :: "string \<Rightarrow> int option" where
  "atoi s =
     (let r = (case s of [] \<Rightarrow> None
               | c # cs \<Rightarrow> if c = CHR ''-'' then map_option uminus (atoi_nat cs)
                          else if c = CHR ''+'' then atoi_nat cs
                          else atoi_nat (c # cs))
      in case r of None \<Rightarrow> None | Some v \<Rightarrow> if in_int64 v then Some v else None)"

subsection \<open>Facts about trimming and splitting\<close>

lemma dropWhile_hd_not: "dropWhile P xs = y # ys \<Longrightarrow> \<not> P y"
  by (induction xs) (auto split: if_splits)

lemma dropWhile_idem: "dropWhile P (dropWhile P xs) = dropWhile P xs"
  by (induction xs) auto

lemma dropWhile_rev_keeps_hd:
  assumes "xs = [] \<or> \<not> P (hd xs)"
  shows "dropWhile P (rev (dropWhile P (rev xs))) = rev (dropWhile P (rev xs))"
proof (cases "dropWhile P (rev xs)")
  case Nil
  then show ?thesis by (simp only: Nil rev.simps dropWhile.simps)
next
  case (Cons y ys)
  then obtain zs where rev_xs: "rev xs = zs @ y # ys"
    by (metis takeWhile_dropWhile_id)
  then have xs: "xs = rev ys @ y # rev zs"
    by (metis append.assoc append_Cons append_Nil rev.simps(2) rev_append rev_rev_ident)
  have "\<not> P y" using Cons by (rule dropWhile_hd_not)
  with xs assms have "\<not> P (hd (rev ys @ [y]))"
    by (cases "rev ys") auto
  then show ?thesis using Cons by (cases "rev ys") auto
qed

lemma trim_space_idem [simp]: "trim_space (trim_space s) = trim_space s"
proof -
  let ?a = "dropWhile is_space s"
  have hd_ok: "?a = [] \<or> \<not> is_space (hd ?a)"
    by (cases ?a) (auto dest: dropWhile_hd_not)
  show ?thesis
    by (simp add: trim_space_def dropWhile_rev_keeps_hd [of ?a is_space, OF hd_ok] dropWhile_idem)
qed

lemma trim_space_Nil [simp, go_string]: "trim_space [] = []"
  by (simp add: trim_space_def)

lemma split_on_not_Nil [simp]: "split_on c s \<noteq> []"
  by (induction s) (auto split: list.splits)

lemma split_on_no_sep: "c \<notin> set s \<Longrightarrow> split_on c s = [s]"
  by (induction s) auto

lemma split_on_parts: "p \<in> set (split_on c s) \<Longrightarrow> c \<notin> set p"
  by (induction s arbitrary: p) (auto split: if_splits list.splits)

lemma join_split_on: "join_on [c] (split_on c s) = s"
proof (induction s)
  case Nil
  show ?case by simp
next
  case (Cons x xs)
  obtain p ps where ps: "split_on c xs = p # ps"
    by (metis neq_Nil_conv split_on_not_Nil)
  with Cons.IH show ?case by (cases ps) auto
qed

section \<open>Selection from tables\<close>

text \<open>
  A table is the list of its rows in \<^verbatim>\<open>rowid\<close> order. \<^verbatim>\<open>ORDER BY k ASC, rowid ASC
  LIMIT 1\<close> is the first row with the least key, \<^verbatim>\<open>ORDER BY k DESC, rowid DESC LIMIT 1\<close>
  the last row with the greatest key.
\<close>

fun first_min :: "('a \<Rightarrow> 'k::linorder) \<Rightarrow> 'a list \<Rightarrow> 'a option" where
  "first_min k [] = None"
| "first_min k (x # xs) =
     (case first_min k xs of None \<Rightarrow> Some x | Some y \<Rightarrow> if k x \<le> k y then Some x else Some y)"

fun last_max :: "('a \<Rightarrow> 'k::linorder) \<Rightarrow> 'a list \<Rightarrow> 'a option" where
  "last_max k [] = None"
| "last_max k (x # xs) =
     (case last_max k xs of None \<Rightarrow> Some x | Some y \<Rightarrow> if k y < k x then Some x else Some y)"

lemma first_min_None_iff [simp]: "first_min k xs = None \<longleftrightarrow> xs = []"
  by (cases xs) (auto split: option.splits)

lemma last_max_None_iff [simp]: "last_max k xs = None \<longleftrightarrow> xs = []"
  by (cases xs) (auto split: option.splits)

lemma first_min_in: "first_min k xs = Some x \<Longrightarrow> x \<in> set xs"
  by (induction xs arbitrary: x) (auto split: option.splits if_splits)

lemma last_max_in: "last_max k xs = Some x \<Longrightarrow> x \<in> set xs"
  by (induction xs arbitrary: x) (auto split: option.splits if_splits)

lemma first_min_le: "first_min k xs = Some x \<Longrightarrow> y \<in> set xs \<Longrightarrow> k x \<le> k y"
  by (induction xs arbitrary: x) (auto split: option.splits if_splits intro: order_trans)

lemma last_max_ge: "last_max k xs = Some x \<Longrightarrow> y \<in> set xs \<Longrightarrow> k y \<le> k x"
  by (induction xs arbitrary: x)
    (auto split: option.splits if_splits intro: order_trans dest: less_imp_le)

text \<open>Rows before the selected one have a strictly greater key: the FIFO tie-break.\<close>

lemma first_min_split:
  "first_min k xs = Some x \<Longrightarrow>
   \<exists>ys zs. xs = ys @ x # zs \<and> (\<forall>y\<in>set ys. k x < k y) \<and> (\<forall>z\<in>set zs. k x \<le> k z)"
proof (induction xs arbitrary: x)
  case Nil
  then show ?case by simp
next
  case (Cons a xs)
  show ?case
  proof (cases "first_min k xs")
    case None
    with Cons.prems have "a # xs = [] @ x # []" by simp
    then show ?thesis by fastforce
  next
    case (Some y)
    show ?thesis
    proof (cases "k a \<le> k y")
      case True
      with Some Cons.prems have "x = a" by simp
      moreover have "\<forall>z\<in>set xs. k a \<le> k z"
        using True Some by (blast dest: first_min_le intro: order_trans)
      ultimately show ?thesis by (metis append_Nil empty_iff empty_set)
    next
      case False
      with Some Cons.prems have x: "x = y" by simp
      from Cons.IH [OF Some] obtain ys zs where
        "xs = ys @ y # zs" "\<forall>u\<in>set ys. k y < k u" "\<forall>z\<in>set zs. k y \<le> k z" by blast
      with False x have "a # xs = (a # ys) @ x # zs" "\<forall>u\<in>set (a # ys). k x < k u"
        "\<forall>z\<in>set zs. k x \<le> k z" by auto
      then show ?thesis by blast
    qed
  qed
qed

section \<open>Updating rows by primary key\<close>

definition update_where :: "('a \<Rightarrow> bool) \<Rightarrow> ('a \<Rightarrow> 'a) \<Rightarrow> 'a list \<Rightarrow> 'a list" where
  "update_where p f xs = map (\<lambda>x. if p x then f x else x) xs"

lemma length_update_where [simp, table_op]: "length (update_where p f xs) = length xs"
  by (simp add: update_where_def)

lemma update_where_Nil [simp]: "update_where p f [] = []"
  by (simp add: update_where_def)

lemma update_where_Cons [simp]:
  "update_where p f (x # xs) = (if p x then f x else x) # update_where p f xs"
  by (simp add: update_where_def)

lemma in_update_where:
  "y \<in> set (update_where p f xs) \<longleftrightarrow> (\<exists>x\<in>set xs. y = (if p x then f x else x))"
  by (auto simp: update_where_def)

lemma map_update_where [table_op]:
  "(\<And>x. p x \<Longrightarrow> g (f x) = g x) \<Longrightarrow> map g (update_where p f xs) = map g xs"
  by (auto simp: update_where_def)

lemma update_where_none [table_op]: "(\<And>x. x \<in> set xs \<Longrightarrow> \<not> p x) \<Longrightarrow> update_where p f xs = xs"
  by (auto simp: update_where_def map_idI)

lemma distinct_map_in_eq:
  "distinct (map g xs) \<Longrightarrow> x \<in> set xs \<Longrightarrow> y \<in> set xs \<Longrightarrow> g x = g y \<Longrightarrow> x = y"
  by (simp add: distinct_map inj_on_def)

lemma filter_cong_set: "(\<And>x. x \<in> set xs \<Longrightarrow> P x = Q x) \<Longrightarrow> filter P xs = filter Q xs"
  by (rule filter_cong) simp_all

lemma last_filter_append_match:
  "P x \<Longrightarrow> last (filter P (xs @ [x])) = x" "P x \<Longrightarrow> filter P (xs @ [x]) \<noteq> []"
  by simp_all

lemma sort_key_increasing: "sorted_wrt (<) (map k xs) \<Longrightarrow> sort_key k xs = xs" for k :: "'a \<Rightarrow> 'b::linorder"
  by (rule sort_key_id_if_sorted) (erule sorted_wrt_mono_rel [rotated], simp)

lemma filter_key_take_drop:
  assumes "distinct (map g ys)"
  shows "filter (\<lambda>y. g y \<notin> g ` set (take n ys)) ys = drop n ys"
    and "filter (\<lambda>y. g y \<in> g ` set (take n ys)) ys = take n ys"
proof -
  have split: "distinct (map g (take n ys) @ map g (drop n ys))"
    using assms by (simp flip: map_append)
  then have out: "g y \<notin> g ` set (take n ys)" if "y \<in> set (drop n ys)" for y
    using that by fastforce
  have "filter P ys = filter P (take n ys) @ filter P (drop n ys)" for P
    by (metis append_take_drop_id filter_append)
  moreover have "filter (\<lambda>y. g y \<notin> g ` set (take n ys)) (drop n ys) = drop n ys"
    "filter (\<lambda>y. g y \<in> g ` set (take n ys)) (drop n ys) = []"
    using out by (auto simp: filter_empty_conv intro: filter_True)
  moreover have "filter (\<lambda>y. g y \<notin> g ` set (take n ys)) (take n ys) = []"
    "filter (\<lambda>y. g y \<in> g ` set (take n ys)) (take n ys) = take n ys"
    by (auto simp: filter_empty_conv intro: filter_True)
  ultimately show "filter (\<lambda>y. g y \<notin> g ` set (take n ys)) ys = drop n ys"
    "filter (\<lambda>y. g y \<in> g ` set (take n ys)) ys = take n ys"
    by simp_all
qed

lemma wrap64_bounds: "- (2 ^ 63) \<le> wrap64 v" "wrap64 v < 2 ^ 63"
  by (simp_all add: wrap64_def)

lemma wrap64_id: "- (2 ^ 63) \<le> v \<Longrightarrow> v < 2 ^ 63 \<Longrightarrow> wrap64 v = v"
  by (simp add: wrap64_def)

end
