(* ===== verification/Go_Time.thy ===== *)
theory Go_Time
  imports Ductile_Prelude
begin

text \<open>
  The part of Go's \<^verbatim>\<open>time\<close> package the runtime uses. An instant is the number of
  nanoseconds since 1970-01-01T00:00:00Z (the sources call \<^verbatim>\<open>.UTC()\<close> before they format
  or compare); a duration is a number of nanoseconds. \<open>rfc3339nano\<close> is
  \<^verbatim>\<open>t.Format(time.RFC3339Nano)\<close>, the text every timestamp column of the database holds:
  date, time of day, and a fraction from which trailing zeros are removed.
  SQL compares these columns as text, which is \<open>ts_le\<close> and \<open>ts_less\<close> here.
\<close>

type_synonym instant = int
type_synonym duration = int

abbreviation (input) second :: duration where "second \<equiv> 1000000000"
abbreviation (input) minute :: duration where "minute \<equiv> 60000000000"
abbreviation (input) hour :: duration where "hour \<equiv> 3600000000000"
abbreviation (input) day :: duration where "day \<equiv> 86400000000000"

text \<open>The zero value of \<^verbatim>\<open>time.Time\<close>: the first of January of the year one.\<close>

definition zero_time :: instant where "zero_time = - 62135596800 * second"

section \<open>Civil dates\<close>

text \<open>Year, month and day of the proleptic Gregorian calendar from days since the epoch.\<close>

definition civil_from_days :: "int \<Rightarrow> int \<times> int \<times> int" where
  "civil_from_days z0 =
     (let z = z0 + 719468;
          era = z div 146097;
          doe = z mod 146097;
          yoe = (doe - doe div 1460 + doe div 36524 - doe div 146096) div 365;
          doy = doe - (365 * yoe + yoe div 4 - yoe div 100);
          mp = (5 * doy + 2) div 153;
          d = doy - (153 * mp + 2) div 5 + 1;
          m = (if mp < 10 then mp + 3 else mp - 9);
          y = yoe + era * 400
      in (if m \<le> 2 then y + 1 else y, m, d))"

definition day_number :: "instant \<Rightarrow> int" where
  "day_number t = t div day"

definition t_hour :: "instant \<Rightarrow> int" where
  "t_hour t = (t mod day) div hour"

definition t_minute :: "instant \<Rightarrow> int" where
  "t_minute t = (t mod hour) div minute"

definition t_second :: "instant \<Rightarrow> int" where
  "t_second t = (t mod minute) div second"

definition t_nano :: "instant \<Rightarrow> int" where
  "t_nano t = t mod second"

definition t_month :: "instant \<Rightarrow> int" where
  "t_month t = fst (snd (civil_from_days (day_number t)))"

definition t_day :: "instant \<Rightarrow> int" where
  "t_day t = snd (snd (civil_from_days (day_number t)))"

text \<open>\<^verbatim>\<open>time.Weekday\<close>: Sunday is 0; day 0 of the epoch was a Thursday.\<close>

definition t_weekday :: "instant \<Rightarrow> int" where
  "t_weekday t = (day_number t + 4) mod 7"

text \<open>\<^verbatim>\<open>t.Truncate(time.Minute)\<close> on a UTC time.\<close>

definition truncate_minute :: "instant \<Rightarrow> instant" where
  "truncate_minute t = t - t mod minute"

section \<open>Formatting\<close>

definition strip_zeros :: "string \<Rightarrow> string" where
  "strip_zeros s = rev (dropWhile (\<lambda>c. c = CHR ''0'') (rev s))"

definition frac_text :: "int \<Rightarrow> string" where
  "frac_text ns = (if ns = 0 then [] else CHR ''.'' # strip_zeros (pad_left 9 (int_str ns)))"

definition two :: "int \<Rightarrow> string" where
  "two i = pad_left 2 (int_str i)"

definition rfc3339 :: "instant \<Rightarrow> string" where
  "rfc3339 t =
     (case civil_from_days (day_number t) of (y, m, d) \<Rightarrow>
        pad_left 4 (int_str y) @ ''-'' @ two m @ ''-'' @ two d @ ''T'' @
        two (t_hour t) @ '':'' @ two (t_minute t) @ '':'' @ two (t_second t) @ ''Z'')"

definition rfc3339nano :: "instant \<Rightarrow> string" where
  "rfc3339nano t =
     (case civil_from_days (day_number t) of (y, m, d) \<Rightarrow>
        pad_left 4 (int_str y) @ ''-'' @ two m @ ''-'' @ two d @ ''T'' @
        two (t_hour t) @ '':'' @ two (t_minute t) @ '':'' @ two (t_second t) @
        frac_text (t_nano t) @ ''Z'')"

definition ts_le :: "instant \<Rightarrow> instant \<Rightarrow> bool" where
  "ts_le a b \<longleftrightarrow> rfc3339nano a \<le> rfc3339nano b"

definition ts_less :: "instant \<Rightarrow> instant \<Rightarrow> bool" where
  "ts_less a b \<longleftrightarrow> rfc3339nano a < rfc3339nano b"

lemma ts_le_refl [simp]: "ts_le a a"
  by (simp add: ts_le_def)

lemma not_ts_less [simp]: "\<not> ts_less a b \<longleftrightarrow> ts_le b a"
  by (simp add: ts_le_def ts_less_def not_less)

lemma ts_le_trans: "ts_le a b \<Longrightarrow> ts_le b c \<Longrightarrow> ts_le a c"
  by (auto simp: ts_le_def)

section \<open>Bounds of the clock fields\<close>

lemma t_minute_bounds: "0 \<le> t_minute t \<and> t_minute t \<le> 59"
proof -
  have "0 \<le> t mod hour" "t mod hour < hour" by simp_all
  then show ?thesis unfolding t_minute_def by linarith
qed

lemma t_hour_bounds: "0 \<le> t_hour t \<and> t_hour t \<le> 23"
proof -
  have "0 \<le> t mod day" "t mod day < day" by simp_all
  then show ?thesis unfolding t_hour_def by linarith
qed

lemma t_weekday_bounds: "0 \<le> t_weekday t \<and> t_weekday t \<le> 6"
proof -
  have "0 \<le> (day_number t + 4) mod 7" "(day_number t + 4) mod 7 < 7" by simp_all
  then show ?thesis unfolding t_weekday_def by linarith
qed

lemma truncate_minute_le: "truncate_minute t \<le> t"
  by (simp add: truncate_minute_def)

lemma truncate_minute_gt: "t - minute < truncate_minute t"
proof -
  have "t mod minute < minute" by simp
  then show ?thesis unfolding truncate_minute_def by linarith
qed

lemma truncate_minute_mod [simp]: "truncate_minute t mod minute = 0"
  by (simp add: truncate_minute_def minus_mod_eq_mult_div)

lemma truncate_minute_add [simp]:
  "truncate_minute (truncate_minute t + k * minute) = truncate_minute t + k * minute"
  unfolding truncate_minute_def by (simp add: mod_simps)

end
