(* ===== verification/Job_Queue.thy ===== *)
theory Job_Queue
  imports Go_Time
begin

text \<open>
  The durable job queue, \<^verbatim>\<open>src/internal/queue\<close> (\<^verbatim>\<open>types.go\<close> and \<^verbatim>\<open>queue.go\<close>) over
  the tables of \<^verbatim>\<open>src/internal/storage/schema.sql\<close>. The database is a record of tables,
  each the list of its rows in \<^verbatim>\<open>rowid\<close> order; every operation of \<^verbatim>\<open>Queue\<close> is a
  function from the database (and the clock, and a fresh UUID where the code draws one) to
  the new database and the value or error the Go method returns. A transaction that fails
  returns the database unchanged. Failures of the disk or of the SQL engine are not
  modelled; violations of the schema's UNIQUE constraints are.
  A timestamp column holds the text \<open>rfc3339nano t\<close>; the model keeps the instant
  \<open>t\<close> and compares columns by their texts, as SQL does.
\<close>

section \<open>Data\<close>

datatype status = StatusQueued | StatusRunning | StatusSucceeded | StatusSkipped
  | StatusFailed | StatusTimedOut | StatusDead

fun status_text :: "status \<Rightarrow> string" where
  "status_text StatusQueued = ''queued''"
| "status_text StatusRunning = ''running''"
| "status_text StatusSucceeded = ''succeeded''"
| "status_text StatusSkipped = ''skipped''"
| "status_text StatusFailed = ''failed''"
| "status_text StatusTimedOut = ''timed_out''"
| "status_text StatusDead = ''dead''"

definition terminal_status :: "status \<Rightarrow> bool" where
  "terminal_status s \<longleftrightarrow>
     s = StatusSucceeded \<or> s = StatusSkipped \<or> s = StatusFailed \<or> s = StatusTimedOut \<or> s = StatusDead"

definition outstanding_status :: "status \<Rightarrow> bool" where
  "outstanding_status s \<longleftrightarrow> s = StatusQueued \<or> s = StatusRunning"

record job =
  j_id :: string
  j_plugin :: string
  j_command :: string
  j_payload :: "string option"
  j_status :: status
  j_attempt :: int
  j_max_attempts :: int
  j_submitted_by :: string
  j_dedupe_key :: "string option"
  j_created_at :: instant
  j_started_at :: "instant option"
  j_completed_at :: "instant option"
  j_next_retry_at :: "instant option"
  j_last_error :: "string option"
  j_parent_job_id :: "string option"
  j_source_event_id :: "string option"
  j_event_context_id :: "string option"
  j_enqueued_config_snapshot_id :: "string option"
  j_started_config_snapshot_id :: "string option"

record job_transition =
  jt_job_id :: string
  jt_from :: "status option"
  jt_to :: status
  jt_reason :: "string option"
  jt_created_at :: instant

record job_attempt =
  ja_job_id :: string
  ja_attempt :: int
  ja_created_at :: instant

record job_log_row =
  jl_id :: string
  jl_job_id :: string
  jl_plugin :: string
  jl_command :: string
  jl_status :: status
  jl_result :: "string option"
  jl_attempt :: int
  jl_submitted_by :: string
  jl_created_at :: instant
  jl_completed_at :: instant
  jl_last_error :: "string option"
  jl_stderr :: "string option"
  jl_parent_job_id :: "string option"
  jl_source_event_id :: "string option"
  jl_event_context_id :: "string option"
  jl_enqueued_config_snapshot_id :: "string option"
  jl_started_config_snapshot_id :: "string option"

text \<open>The Go types are strings whose zero value is the empty string, the first constructor.\<close>

datatype circuit_state = CircuitUnset | CircuitClosed | CircuitOpen | CircuitHalfOpen

datatype breaker_reason = ReasonUnset | FailureThreshold | Success | CooldownElapsed | ManualReset

record circuit_breaker =
  cb_plugin :: string
  cb_command :: string
  cb_state :: circuit_state
  cb_failure_count :: int
  cb_opened_at :: "instant option"
  cb_last_failure :: "instant option"
  cb_last_job_id :: "string option"
  cb_updated_at :: instant

record circuit_breaker_transition =
  bt_id :: string
  bt_plugin :: string
  bt_command :: string
  bt_from_state :: "circuit_state option"
  bt_to_state :: circuit_state
  bt_failure_count :: int
  bt_reason :: breaker_reason
  bt_job_id :: "string option"
  bt_created_at :: instant

datatype schedule_entry_status = EntryUnset | EntryActive | EntryPausedManual | EntryPausedInvalid | EntryExhausted

record schedule_entry_state =
  se_plugin :: string
  se_schedule_id :: string
  se_command :: string
  se_status :: schedule_entry_status
  se_reason :: "string option"
  se_last_fired_at :: "instant option"
  se_last_success_job_id :: "string option"
  se_last_success_at :: "instant option"
  se_next_run_at :: "instant option"
  se_updated_at :: instant

record enqueue_request =
  rq_plugin :: string
  rq_command :: string
  rq_payload :: string
  rq_max_attempts :: int
  rq_submitted_by :: string
  rq_dedupe_key :: "string option"
  rq_dedupe_ttl :: "duration option"
  rq_parent_job_id :: "string option"
  rq_event_context_id :: "string option"
  rq_source_event_id :: "string option"
  rq_enqueued_config_snapshot_id :: string

record command_result =
  cr_job_id :: string
  cr_status :: status
  cr_completed_at :: instant

record job_lineage =
  ln_job_id :: string
  ln_cached_status :: status
  ln_cached_attempt :: int
  ln_transitions :: "job_transition list"
  ln_attempts :: "job_attempt list"
  ln_latest_status :: "status option"
  ln_status_matches_latest :: bool
  ln_attempt_facts_match :: bool
  ln_has_legacy_missing_data :: bool

datatype queue_error =
    PluginEmpty | CommandEmpty | SubmittedByEmpty | JobIDEmpty | ScheduleIDEmpty
  | ToStateEmpty | ReasonEmpty
  | DedupeDropError string string
  | SourceEventConflictError string string string string
  | ErrJobNotFound
  | LoadJobForCompletion
  | InvalidTerminalStatus status
  | RecordJobAttemptFailed
  | CancelCountMismatch

record queue_db =
  job_queue :: "job list"
  job_transitions :: "job_transition list"
  job_attempts :: "job_attempt list"
  job_log :: "job_log_row list"
  circuit_breakers :: "string \<times> string \<Rightarrow> circuit_breaker option"
  circuit_breaker_transitions :: "circuit_breaker_transition list"
  schedule_entries :: "string \<times> string \<Rightarrow> schedule_entry_state option"

definition empty_db :: queue_db where
  "empty_db = \<lparr>job_queue = [], job_transitions = [], job_attempts = [], job_log = [],
     circuit_breakers = Map.empty, circuit_breaker_transitions = [], schedule_entries = Map.empty\<rparr>"

text \<open>The fields of \<^verbatim>\<open>Queue\<close>; \<open>snapshot_provider\<close> is the value the provider returns,
  if one is configured.\<close>

record queue_conf =
  dedupe_ttl :: duration
  snapshot_provider :: "string option"

definition new_queue :: "duration option \<Rightarrow> string option \<Rightarrow> queue_conf" where
  "new_queue ttl prov =
     \<lparr>dedupe_ttl = (case ttl of None \<Rightarrow> 24 * hour | Some d \<Rightarrow> if d > 0 then d else 24 * hour),
      snapshot_provider = prov\<rparr>"

section \<open>The fact logs\<close>

definition record_job_transition ::
  "string \<Rightarrow> status option \<Rightarrow> status \<Rightarrow> string option \<Rightarrow> instant \<Rightarrow> queue_db \<Rightarrow> queue_db" where
  "record_job_transition jid frm tos reason at db =
     db\<lparr>job_transitions := job_transitions db @
          [\<lparr>jt_job_id = jid, jt_from = frm, jt_to = tos,
            jt_reason = (case reason of None \<Rightarrow> None
                         | Some r \<Rightarrow> if trim_space r = [] then None else Some r),
            jt_created_at = at\<rparr>]\<rparr>"

definition record_job_attempt :: "string \<Rightarrow> int \<Rightarrow> instant \<Rightarrow> queue_db \<Rightarrow> queue_db option" where
  "record_job_attempt jid n at db =
     (if \<exists>a\<in>set (job_attempts db). ja_job_id a = jid \<and> ja_attempt a = n then None
      else Some (db\<lparr>job_attempts := job_attempts db @
                      [\<lparr>ja_job_id = jid, ja_attempt = n, ja_created_at = at\<rparr>]\<rparr>))"

section \<open>Counting\<close>

definition depth :: "queue_db \<Rightarrow> nat" where
  "depth db = length (filter (\<lambda>j. outstanding_status (j_status j)) (job_queue db))"

definition running_count :: "string \<Rightarrow> queue_db \<Rightarrow> nat" where
  "running_count p db =
     length (filter (\<lambda>j. j_status j = StatusRunning \<and> j_plugin j = p) (job_queue db))"

text \<open>\<^verbatim>\<open>SELECT plugin, COUNT(*) ... GROUP BY plugin\<close>: one row per plugin with a running job.\<close>

definition running_counts_by_plugin :: "queue_db \<Rightarrow> (string \<times> nat) list" where
  "running_counts_by_plugin db =
     map (\<lambda>p. (p, running_count p db))
       (remdups (map j_plugin (filter (\<lambda>j. j_status j = StatusRunning) (job_queue db))))"

definition count_outstanding_jobs :: "string \<Rightarrow> string \<Rightarrow> queue_db \<Rightarrow> queue_error + nat" where
  "count_outstanding_jobs p c db =
     (if p = [] then Inl PluginEmpty
      else if c = [] then Inl CommandEmpty
      else Inr (length (filter (\<lambda>j. j_plugin j = p \<and> j_command j = c \<and> outstanding_status (j_status j))
                          (job_queue db))))"

definition count_outstanding_jobs_by_submitter ::
  "string \<Rightarrow> string \<Rightarrow> string \<Rightarrow> queue_db \<Rightarrow> queue_error + nat" where
  "count_outstanding_jobs_by_submitter p c s db =
     (if p = [] then Inl PluginEmpty
      else if c = [] then Inl CommandEmpty
      else if s = [] then Inl SubmittedByEmpty
      else Inr (length (filter (\<lambda>j. j_plugin j = p \<and> j_command j = c \<and> j_submitted_by j = s \<and>
                                    outstanding_status (j_status j)) (job_queue db))))"

section \<open>Cancelling\<close>

definition outstanding_for :: "string \<Rightarrow> string \<Rightarrow> job \<Rightarrow> bool" where
  "outstanding_for p c j \<longleftrightarrow> j_plugin j = p \<and> j_command j = c \<and> outstanding_status (j_status j)"

definition cancel_outstanding_jobs ::
  "instant \<Rightarrow> string \<Rightarrow> string \<Rightarrow> string \<Rightarrow> queue_db \<Rightarrow> queue_db \<times> (queue_error + nat)" where
  "cancel_outstanding_jobs now p c reason0 db =
     (if p = [] then (db, Inl PluginEmpty)
      else if c = [] then (db, Inl CommandEmpty)
      else
        let reason = (if trim_space reason0 = [] then ''cancelled by scheduler'' else reason0);
            jobs = filter (outstanding_for p c) (job_queue db);
            db1 = fold (\<lambda>j d. record_job_transition (j_id j) (Some (j_status j)) StatusDead (Some reason) now d)
                    jobs db;
            affected = length (filter (outstanding_for p c) (job_queue db1));
            db2 = db1\<lparr>job_queue := update_where (outstanding_for p c)
                        (\<lambda>j. j\<lparr>j_status := StatusDead, j_completed_at := Some now,
                              j_last_error := Some reason\<rparr>) (job_queue db1)\<rparr>
        in if affected \<noteq> length jobs then (db, Inl CancelCountMismatch)
           else (db2, Inr affected))"

section \<open>Enqueue and deduplication\<close>

definition find_recent_succeeded_by_dedupe_key ::
  "instant \<Rightarrow> string \<Rightarrow> string \<Rightarrow> string \<Rightarrow> duration \<Rightarrow> queue_db \<Rightarrow> string option" where
  "find_recent_succeeded_by_dedupe_key now p c key ttl db =
     map_option j_id
       (last_max (\<lambda>j. case j_completed_at j of Some t \<Rightarrow> rfc3339nano t | None \<Rightarrow> [])
         (filter (\<lambda>j. j_dedupe_key j = Some key \<and> j_plugin j = p \<and> j_command j = c \<and>
                      j_status j = StatusSucceeded \<and>
                      (case j_completed_at j of None \<Rightarrow> False | Some t \<Rightarrow> ts_le (now - ttl) t))
            (job_queue db)))"

definition find_outstanding_by_dedupe_key ::
  "string \<Rightarrow> string \<Rightarrow> string \<Rightarrow> queue_db \<Rightarrow> string option" where
  "find_outstanding_by_dedupe_key p c key db =
     map_option j_id
       (last_max (\<lambda>j. rfc3339nano (j_created_at j))
         (filter (\<lambda>j. j_dedupe_key j = Some key \<and> j_plugin j = p \<and> j_command j = c \<and>
                      outstanding_status (j_status j)) (job_queue db)))"

text \<open>The check at the head of \<^verbatim>\<open>Enqueue\<close>: the key and the job that shadows the request.\<close>

definition dedupe_hit :: "queue_conf \<Rightarrow> instant \<Rightarrow> enqueue_request \<Rightarrow> queue_db \<Rightarrow> (string \<times> string) option" where
  "dedupe_hit q now req db =
     (case rq_dedupe_key req of None \<Rightarrow> None
      | Some k \<Rightarrow>
         let key = trim_space k;
             ttl = (case rq_dedupe_ttl req of Some d \<Rightarrow> d | None \<Rightarrow> dedupe_ttl q);
             p = rq_plugin req; c = rq_command req;
             outstanding = (if rq_dedupe_ttl req \<noteq> None
                            then find_outstanding_by_dedupe_key p c key db else None);
             recent = (if ttl > 0 then find_recent_succeeded_by_dedupe_key now p c key ttl db else None)
         in if key = [] then None
            else case outstanding of Some e \<Rightarrow> Some (key, e)
                 | None \<Rightarrow> map_option (Pair key) recent)"

text \<open>
  \<^verbatim>\<open>INSERT OR IGNORE\<close> ignores a row that violates the primary key or the partial unique index
  \<^verbatim>\<open>job_queue_event_source_idx\<close>; SQL never takes NULL for equal, so a row without parent or
  source event conflicts with nothing through the index.
\<close>

definition same_source_event :: "job \<Rightarrow> job \<Rightarrow> bool" where
  "same_source_event a b \<longleftrightarrow>
     j_source_event_id a \<noteq> None \<and> j_source_event_id a = j_source_event_id b \<and>
     j_parent_job_id a \<noteq> None \<and> j_parent_job_id a = j_parent_job_id b \<and>
     j_plugin a = j_plugin b \<and> j_command a = j_command b"

definition insert_conflict :: "queue_db \<Rightarrow> job \<Rightarrow> bool" where
  "insert_conflict db row \<longleftrightarrow>
     (\<exists>j\<in>set (job_queue db). j_id j = j_id row \<or> same_source_event j row)"

definition snapshot_value :: "queue_conf \<Rightarrow> string \<Rightarrow> string option" where
  "snapshot_value q explicit =
     (let s = (if trim_space explicit = [] then
                 (case snapshot_provider q of None \<Rightarrow> [] | Some v \<Rightarrow> trim_space v)
               else trim_space explicit)
      in if s = [] then None else Some s)"

definition enqueue_row :: "queue_conf \<Rightarrow> string \<Rightarrow> instant \<Rightarrow> enqueue_request \<Rightarrow> job" where
  "enqueue_row q jid now req =
     \<lparr>j_id = jid, j_plugin = rq_plugin req, j_command = rq_command req,
      j_payload = (if rq_payload req = [] then None else Some (rq_payload req)),
      j_status = StatusQueued, j_attempt = 1,
      j_max_attempts = (if rq_max_attempts req \<le> 0 then 4 else rq_max_attempts req),
      j_submitted_by = rq_submitted_by req, j_dedupe_key = rq_dedupe_key req,
      j_created_at = now, j_started_at = None, j_completed_at = None, j_next_retry_at = None,
      j_last_error = None, j_parent_job_id = rq_parent_job_id req,
      j_source_event_id = rq_source_event_id req, j_event_context_id = rq_event_context_id req,
      j_enqueued_config_snapshot_id = snapshot_value q (rq_enqueued_config_snapshot_id req),
      j_started_config_snapshot_id = None\<rparr>"

definition enqueue ::
  "queue_conf \<Rightarrow> string \<Rightarrow> instant \<Rightarrow> enqueue_request \<Rightarrow> queue_db \<Rightarrow> queue_db \<times> (queue_error + string)" where
  "enqueue q jid now req db =
     (if rq_plugin req = [] then (db, Inl PluginEmpty)
      else if rq_command req = [] then (db, Inl CommandEmpty)
      else if rq_submitted_by req = [] then (db, Inl SubmittedByEmpty)
      else case dedupe_hit q now req db of
        Some (key, existing) \<Rightarrow> (db, Inl (DedupeDropError key existing))
      | None \<Rightarrow>
          let row = enqueue_row q jid now req in
          if insert_conflict db row then
            (case rq_source_event_id req of
               Some ev \<Rightarrow>
                 if trim_space ev \<noteq> [] then
                   (db, Inl (SourceEventConflictError
                      (case rq_parent_job_id req of None \<Rightarrow> [] | Some p \<Rightarrow> p) ev
                      (rq_plugin req) (rq_command req)))
                 else (db, Inr jid)
             | None \<Rightarrow> (db, Inr jid))
          else
            (record_job_transition jid None StatusQueued None now
               (db\<lparr>job_queue := job_queue db @ [row]\<rparr>), Inr jid))"

datatype dedupe_status = DedupeStatusNone | DedupeStatusOutstanding | DedupeStatusRecentSuccess

definition dedupe_status_of ::
  "queue_conf \<Rightarrow> instant \<Rightarrow> string \<Rightarrow> string \<Rightarrow> string \<Rightarrow> queue_db \<Rightarrow> dedupe_status \<times> string" where
  "dedupe_status_of q now p c k db =
     (let key = trim_space k in
      if key = [] \<or> trim_space p = [] \<or> trim_space c = [] then (DedupeStatusNone, [])
      else case find_outstanding_by_dedupe_key p c key db of
        Some e \<Rightarrow> (DedupeStatusOutstanding, e)
      | None \<Rightarrow>
         (case (if dedupe_ttl q > 0
                then find_recent_succeeded_by_dedupe_key now p c key (dedupe_ttl q) db else None) of
            Some e \<Rightarrow> (DedupeStatusRecentSuccess, e)
          | None \<Rightarrow> (DedupeStatusNone, [])))"

section \<open>Dequeue\<close>

definition due :: "instant \<Rightarrow> job \<Rightarrow> bool" where
  "due now j \<longleftrightarrow> (case j_next_retry_at j of None \<Rightarrow> True | Some t \<Rightarrow> ts_le t now)"

definition target_running :: "queue_db \<Rightarrow> job \<Rightarrow> bool" where
  "target_running db cand \<longleftrightarrow>
     (\<exists>r\<in>set (job_queue db). j_status r = StatusRunning \<and> j_dedupe_key r = j_dedupe_key cand \<and>
        j_plugin r = j_plugin cand \<and> j_command r = j_command cand)"

definition eligible :: "instant \<Rightarrow> string list \<Rightarrow> string list \<Rightarrow> queue_db \<Rightarrow> job \<Rightarrow> bool" where
  "eligible now skip_plugins active_keys db j \<longleftrightarrow>
     j_status j = StatusQueued \<and> due now j \<and>
     j_plugin j \<notin> set skip_plugins \<and>
     (case j_dedupe_key j of None \<Rightarrow> True | Some k \<Rightarrow> k \<notin> set active_keys) \<and>
     (j_dedupe_key j = None \<or> \<not> target_running db j)"

definition dequeue_candidate :: "instant \<Rightarrow> string list \<Rightarrow> string list \<Rightarrow> queue_db \<Rightarrow> job option" where
  "dequeue_candidate now skip_plugins active_keys db =
     first_min (\<lambda>j. rfc3339nano (j_created_at j))
       (filter (eligible now skip_plugins active_keys db) (job_queue db))"

definition start_job :: "queue_conf \<Rightarrow> instant \<Rightarrow> job \<Rightarrow> job" where
  "start_job q now j =
     j\<lparr>j_status := StatusRunning, j_started_at := Some now,
       j_started_config_snapshot_id := snapshot_value q []\<rparr>"

definition dequeue_eligible ::
  "queue_conf \<Rightarrow> instant \<Rightarrow> string list \<Rightarrow> string list \<Rightarrow> queue_db \<Rightarrow> queue_db \<times> (queue_error + job option)" where
  "dequeue_eligible q now skip_plugins active_keys db =
     (case dequeue_candidate now skip_plugins active_keys db of
        None \<Rightarrow> (db, Inr None)
      | Some j \<Rightarrow>
          let db1 = db\<lparr>job_queue := update_where (\<lambda>x. j_id x = j_id j) (start_job q now) (job_queue db)\<rparr>;
              db2 = record_job_transition (j_id j) (Some StatusQueued) StatusRunning None now db1
          in case record_job_attempt (j_id j) (j_attempt j) now db2 of
               None \<Rightarrow> (db, Inl RecordJobAttemptFailed)
             | Some db3 \<Rightarrow> (db3, Inr (Some (start_job q now j))))"

definition dequeue :: "queue_conf \<Rightarrow> instant \<Rightarrow> queue_db \<Rightarrow> queue_db \<times> (queue_error + job option)" where
  "dequeue q now db = dequeue_eligible q now [] [] db"

definition find_jobs_by_status :: "status \<Rightarrow> queue_db \<Rightarrow> job list" where
  "find_jobs_by_status s db = filter (\<lambda>j. j_status j = s) (job_queue db)"

section \<open>Completion and recovery\<close>

definition max_stderr_bytes :: int where
  "max_stderr_bytes = 64 * 1024"

definition truncate_stderr :: "string \<Rightarrow> string" where
  "truncate_stderr s = (if int (length s) > max_stderr_bytes then take (nat max_stderr_bytes) s else s)"

definition find_job :: "string \<Rightarrow> queue_db \<Rightarrow> job option" where
  "find_job jid db = find (\<lambda>j. j_id j = jid) (job_queue db)"

definition log_id :: "string \<Rightarrow> int \<Rightarrow> string" where
  "log_id jid n = jid @ ''-'' @ int_str n"

definition completion_log ::
  "job \<Rightarrow> status \<Rightarrow> string \<Rightarrow> string option \<Rightarrow> string option \<Rightarrow> instant \<Rightarrow> job_log_row" where
  "completion_log j st result last_error stderr now =
     \<lparr>jl_id = log_id (j_id j) (j_attempt j), jl_job_id = j_id j, jl_plugin = j_plugin j,
      jl_command = j_command j, jl_status = st,
      jl_result = (if result = [] then None else Some result), jl_attempt = j_attempt j,
      jl_submitted_by = j_submitted_by j, jl_created_at = j_created_at j, jl_completed_at = now,
      jl_last_error = last_error, jl_stderr = map_option truncate_stderr stderr,
      jl_parent_job_id = j_parent_job_id j, jl_source_event_id = j_source_event_id j,
      jl_event_context_id = j_event_context_id j,
      jl_enqueued_config_snapshot_id = j_enqueued_config_snapshot_id j,
      jl_started_config_snapshot_id = j_started_config_snapshot_id j\<rparr>"

definition insert_log :: "job_log_row \<Rightarrow> queue_db \<Rightarrow> queue_db" where
  "insert_log row db =
     (if \<exists>l\<in>set (job_log db). jl_id l = jl_id row then db
      else db\<lparr>job_log := job_log db @ [row]\<rparr>)"

definition complete_with_result ::
  "instant \<Rightarrow> string \<Rightarrow> status \<Rightarrow> string \<Rightarrow> string option \<Rightarrow> string option \<Rightarrow> queue_db
   \<Rightarrow> queue_db \<times> (queue_error + unit)" where
  "complete_with_result now jid st result last_error stderr db =
     (if jid = [] then (db, Inl JobIDEmpty)
      else if st \<noteq> StatusSucceeded \<and> st \<noteq> StatusSkipped \<and> st \<noteq> StatusFailed \<and>
              st \<noteq> StatusTimedOut \<and> st \<noteq> StatusDead then (db, Inl (InvalidTerminalStatus st))
      else case find_job jid db of
        None \<Rightarrow> (db, Inl LoadJobForCompletion)
      | Some j \<Rightarrow>
          let db1 = (if j_status j \<noteq> st
                     then record_job_transition jid (Some (j_status j)) st last_error now db else db);
              db2 = db1\<lparr>job_queue := update_where (\<lambda>x. j_id x = jid)
                          (\<lambda>x. x\<lparr>j_status := st, j_completed_at := Some now, j_last_error := last_error\<rparr>)
                          (job_queue db1)\<rparr>
          in (insert_log (completion_log j st result last_error stderr now) db2, Inr ()))"

definition complete ::
  "instant \<Rightarrow> string \<Rightarrow> status \<Rightarrow> string option \<Rightarrow> string option \<Rightarrow> queue_db \<Rightarrow> queue_db \<times> (queue_error + unit)" where
  "complete now jid st last_error stderr db = complete_with_result now jid st [] last_error stderr db"

definition update_job_for_recovery ::
  "instant \<Rightarrow> string \<Rightarrow> status \<Rightarrow> int \<Rightarrow> instant option \<Rightarrow> string \<Rightarrow> queue_db
   \<Rightarrow> queue_db \<times> (queue_error + unit)" where
  "update_job_for_recovery now jid new_status new_attempt next_retry last_error db =
     (let err = (if last_error = [] then None else Some last_error) in
      case find_job jid db of
        None \<Rightarrow> (db, Inl ErrJobNotFound)
      | Some j \<Rightarrow>
          let db1 = (if j_status j \<noteq> new_status
                     then record_job_transition jid (Some (j_status j)) new_status err now db else db)
          in (db1\<lparr>job_queue := update_where (\<lambda>x. j_id x = jid)
                    (\<lambda>x. x\<lparr>j_status := new_status, j_attempt := new_attempt,
                          j_next_retry_at := next_retry, j_last_error := err\<rparr>)
                    (job_queue db1)\<rparr>, Inr ()))"

section \<open>Latest results, lineage and the job tree\<close>

definition latest_completed_command_result ::
  "string \<Rightarrow> string \<Rightarrow> string \<Rightarrow> queue_db \<Rightarrow> queue_error + command_result option" where
  "latest_completed_command_result p c s db =
     (if p = [] then Inl PluginEmpty
      else if c = [] then Inl CommandEmpty
      else if s = [] then Inl SubmittedByEmpty
      else Inr
        (case last_max (\<lambda>j. case j_completed_at j of Some t \<Rightarrow> rfc3339nano t | None \<Rightarrow> [])
                (filter (\<lambda>j. j_plugin j = p \<and> j_command j = c \<and> j_submitted_by j = s \<and>
                             j_completed_at j \<noteq> None \<and>
                             (j_status j = StatusSucceeded \<or> j_status j = StatusFailed \<or>
                              j_status j = StatusTimedOut \<or> j_status j = StatusDead)) (job_queue db)) of
           None \<Rightarrow> None
         | Some j \<Rightarrow> (case j_completed_at j of None \<Rightarrow> None
                      | Some t \<Rightarrow> Some \<lparr>cr_job_id = j_id j, cr_status = j_status j, cr_completed_at = t\<rparr>)))"

definition get_job_lineage :: "string \<Rightarrow> queue_db \<Rightarrow> queue_error + job_lineage" where
  "get_job_lineage jid db =
     (if jid = [] then Inl JobIDEmpty
      else case find_job jid db of
        None \<Rightarrow> Inl ErrJobNotFound
      | Some j \<Rightarrow>
          let ts = sort_key (\<lambda>t. rfc3339nano (jt_created_at t))
                     (filter (\<lambda>t. jt_job_id t = jid) (job_transitions db));
              as = sort_key (\<lambda>a. rfc3339nano (ja_created_at a))
                     (filter (\<lambda>a. ja_job_id a = jid) (job_attempts db));
              latest = (if ts = [] then None else Some (jt_to (last ts)))
          in Inr \<lparr>ln_job_id = jid, ln_cached_status = j_status j, ln_cached_attempt = j_attempt j,
                  ln_transitions = ts, ln_attempts = as, ln_latest_status = latest,
                  ln_status_matches_latest = (latest = Some (j_status j)),
                  ln_attempt_facts_match =
                    (if as = [] then j_attempt j = 1 else ja_attempt (last as) = j_attempt j),
                  ln_has_legacy_missing_data = (ts = [])\<rparr>)"

record job_result =
  jr_job_id :: string
  jr_parent_job_id :: "string option"
  jr_status :: status
  jr_plugin :: string
  jr_command :: string
  jr_step_id :: string
  jr_result :: "string option"
  jr_last_error :: "string option"
  jr_started_at :: "instant option"
  jr_completed_at :: "instant option"
  jr_submitted_by :: string

text \<open>
  The two LEFT JOINs: the log row of the job's current attempt, and the step id of its event
  context. The \<^verbatim>\<open>event_context\<close> table belongs to the context store; \<open>step_of\<close> is its
  \<^verbatim>\<open>step_id\<close> column by context id.
\<close>

definition log_result :: "queue_db \<Rightarrow> job \<Rightarrow> string option" where
  "log_result db j =
     (case find (\<lambda>l. jl_job_id l = j_id j \<and> jl_attempt l = j_attempt j) (job_log db) of
        None \<Rightarrow> None | Some l \<Rightarrow> jl_result l)"

definition job_result_of :: "(string \<Rightarrow> string option) \<Rightarrow> string \<Rightarrow> queue_db \<Rightarrow> job \<Rightarrow> job_result" where
  "job_result_of step_of submitter db j =
     \<lparr>jr_job_id = j_id j, jr_parent_job_id = j_parent_job_id j, jr_status = j_status j,
      jr_plugin = j_plugin j, jr_command = j_command j,
      jr_step_id = (case j_event_context_id j of None \<Rightarrow> []
                    | Some c \<Rightarrow> (case step_of c of None \<Rightarrow> [] | Some s \<Rightarrow> s)),
      jr_result = log_result db j, jr_last_error = j_last_error j,
      jr_started_at = j_started_at j, jr_completed_at = j_completed_at j,
      jr_submitted_by = submitter\<rparr>"

definition get_job_by_id :: "(string \<Rightarrow> string option) \<Rightarrow> string \<Rightarrow> queue_db \<Rightarrow> queue_error + job_result" where
  "get_job_by_id step_of jid db =
     (if jid = [] then Inl JobIDEmpty
      else case find_job jid db of
        None \<Rightarrow> Inl ErrJobNotFound
      | Some j \<Rightarrow> Inr (job_result_of step_of (j_submitted_by j) db j))"

definition children_of :: "queue_db \<Rightarrow> job \<Rightarrow> job list" where
  "children_of db j = filter (\<lambda>x. j_parent_job_id x = Some (j_id j)) (job_queue db)"

text \<open>
  The recursive CTE takes the rows of the tree level by level. The bound on the number of
  levels is reached only if the parent links of the table have a cycle, where SQLite would
  not return either: without one, a path has at most one level per row.
\<close>

fun job_tree_levels :: "nat \<Rightarrow> queue_db \<Rightarrow> job list \<Rightarrow> job list" where
  "job_tree_levels 0 db level = []"
| "job_tree_levels (Suc n) db level =
     (if level = [] then [] else level @ job_tree_levels n db (concat (map (children_of db) level)))"

definition get_job_tree :: "(string \<Rightarrow> string option) \<Rightarrow> string \<Rightarrow> queue_db \<Rightarrow> job_result list" where
  "get_job_tree step_of root db =
     map (job_result_of step_of [] db)
       (job_tree_levels (length (job_queue db)) db (filter (\<lambda>j. j_id j = root) (job_queue db)))"

record list_jobs_filter =
  lf_plugin :: string
  lf_command :: string
  lf_status :: "status option"
  lf_limit :: int

definition list_jobs :: "list_jobs_filter \<Rightarrow> queue_db \<Rightarrow> job list \<times> nat" where
  "list_jobs f db =
     (let limit = (if lf_limit f \<le> 0 then 50 else lf_limit f);
          matching = filter (\<lambda>j. (lf_plugin f \<noteq> [] \<longrightarrow> j_plugin j = lf_plugin f) \<and>
                                  (lf_command f \<noteq> [] \<longrightarrow> j_command j = lf_command f) \<and>
                                  (lf_status f \<noteq> None \<longrightarrow> lf_status f = Some (j_status j))) (job_queue db)
      in (take (nat limit) (rev (sort_key (\<lambda>j. rfc3339nano (j_created_at j)) matching)),
          length matching))"

section \<open>Schedule entries and circuit breakers\<close>

text \<open>The two tables are maps from their primary keys; a read returns the key columns with the row.\<close>

definition get_schedule_entry_state :: "string \<Rightarrow> string \<Rightarrow> queue_db \<Rightarrow> queue_error + schedule_entry_state option" where
  "get_schedule_entry_state p sid db =
     (if p = [] then Inl PluginEmpty
      else if sid = [] then Inl ScheduleIDEmpty
      else Inr (map_option (\<lambda>e. e\<lparr>se_plugin := p, se_schedule_id := sid\<rparr>) (schedule_entries db (p, sid))))"

definition upsert_schedule_entry_state ::
  "instant \<Rightarrow> schedule_entry_state \<Rightarrow> queue_db \<Rightarrow> queue_db \<times> (queue_error + unit)" where
  "upsert_schedule_entry_state now s db =
     (if se_plugin s = [] then (db, Inl PluginEmpty)
      else if se_schedule_id s = [] then (db, Inl ScheduleIDEmpty)
      else if se_command s = [] then (db, Inl CommandEmpty)
      else
        let s1 = s\<lparr>se_status := (if se_status s = EntryUnset then EntryActive else se_status s),
                   se_updated_at := now\<rparr>
        in (db\<lparr>schedule_entries := (schedule_entries db)((se_plugin s, se_schedule_id s) \<mapsto> s1)\<rparr>, Inr ()))"

definition get_circuit_breaker :: "string \<Rightarrow> string \<Rightarrow> queue_db \<Rightarrow> queue_error + circuit_breaker option" where
  "get_circuit_breaker p c db =
     (if p = [] then Inl PluginEmpty
      else if c = [] then Inl CommandEmpty
      else Inr (map_option (\<lambda>b. b\<lparr>cb_plugin := p, cb_command := c\<rparr>) (circuit_breakers db (p, c))))"

definition upsert_circuit_breaker ::
  "instant \<Rightarrow> circuit_breaker \<Rightarrow> queue_db \<Rightarrow> queue_db \<times> (queue_error + unit)" where
  "upsert_circuit_breaker now cb db =
     (if cb_plugin cb = [] then (db, Inl PluginEmpty)
      else if cb_command cb = [] then (db, Inl CommandEmpty)
      else
        let cb1 = cb\<lparr>cb_state := (if cb_state cb = CircuitUnset then CircuitClosed else cb_state cb),
                     cb_updated_at := now\<rparr>
        in (db\<lparr>circuit_breakers := (circuit_breakers db)((cb_plugin cb, cb_command cb) \<mapsto> cb1)\<rparr>, Inr ()))"

text \<open>The transition carries a fresh id; its \<^verbatim>\<open>created_at\<close> is the clock, since no caller sets it.\<close>

definition record_circuit_breaker_transition ::
  "circuit_breaker_transition \<Rightarrow> queue_db \<Rightarrow> queue_db \<times> (queue_error + unit)" where
  "record_circuit_breaker_transition t db =
     (if bt_plugin t = [] then (db, Inl PluginEmpty)
      else if bt_command t = [] then (db, Inl CommandEmpty)
      else if bt_to_state t = CircuitUnset then (db, Inl ToStateEmpty)
      else if bt_reason t = ReasonUnset then (db, Inl ReasonEmpty)
      else
        let t1 = t\<lparr>bt_job_id := (case bt_job_id t of None \<Rightarrow> None
                                 | Some i \<Rightarrow> if trim_space i = [] then None else Some (trim_space i))\<rparr>
        in (db\<lparr>circuit_breaker_transitions := circuit_breaker_transitions db @ [t1]\<rparr>, Inr ()))"

definition reset_circuit_breaker ::
  "instant \<Rightarrow> string \<Rightarrow> string \<Rightarrow> string \<Rightarrow> queue_db \<Rightarrow> queue_db \<times> (queue_error + unit)" where
  "reset_circuit_breaker now tid p c db =
     (case get_circuit_breaker p c db of
        Inl e \<Rightarrow> (db, Inl e)
      | Inr previous \<Rightarrow>
         (case upsert_circuit_breaker now
                 \<lparr>cb_plugin = p, cb_command = c, cb_state = CircuitClosed, cb_failure_count = 0,
                  cb_opened_at = None, cb_last_failure = None, cb_last_job_id = None,
                  cb_updated_at = now\<rparr> db of
            (db1, Inl e) \<Rightarrow> (db1, Inl e)
          | (db1, Inr _) \<Rightarrow>
              record_circuit_breaker_transition
                \<lparr>bt_id = tid, bt_plugin = p, bt_command = c,
                 bt_from_state = map_option cb_state previous, bt_to_state = CircuitClosed,
                 bt_failure_count = 0, bt_reason = ManualReset, bt_job_id = None,
                 bt_created_at = now\<rparr> db1))"

section \<open>Retention\<close>

definition prune_job_logs :: "instant \<Rightarrow> duration \<Rightarrow> queue_db \<Rightarrow> queue_db" where
  "prune_job_logs now retention db =
     (if retention \<le> 0 then db
      else db\<lparr>job_log := filter (\<lambda>l. \<not> ts_less (jl_completed_at l) (now - retention)) (job_log db)\<rparr>)"

definition prune_job_queue :: "instant \<Rightarrow> duration \<Rightarrow> queue_db \<Rightarrow> queue_db" where
  "prune_job_queue now retention db =
     (if retention \<le> 0 then db
      else db\<lparr>job_queue := filter (\<lambda>j. \<not> (terminal_status (j_status j) \<and>
               (case j_completed_at j of None \<Rightarrow> False | Some t \<Rightarrow> ts_less t (now - retention))))
             (job_queue db)\<rparr>)"

definition prune_job_transitions :: "instant \<Rightarrow> duration \<Rightarrow> queue_db \<Rightarrow> queue_db" where
  "prune_job_transitions now retention db =
     (if retention \<le> 0 then db
      else db\<lparr>job_transitions := filter (\<lambda>t. \<not> ts_less (jt_created_at t) (now - retention)) (job_transitions db)\<rparr>)"

definition prune_job_attempts :: "instant \<Rightarrow> duration \<Rightarrow> queue_db \<Rightarrow> queue_db" where
  "prune_job_attempts now retention db =
     (if retention \<le> 0 then db
      else db\<lparr>job_attempts := filter (\<lambda>a. \<not> ts_less (ja_created_at a) (now - retention)) (job_attempts db)\<rparr>)"

definition prune_breaker_transitions :: "instant \<Rightarrow> duration \<Rightarrow> queue_db \<Rightarrow> queue_db" where
  "prune_breaker_transitions now retention db =
     (if retention \<le> 0 then db
      else db\<lparr>circuit_breaker_transitions :=
                filter (\<lambda>t. \<not> ts_less (bt_created_at t) (now - retention)) (circuit_breaker_transitions db)\<rparr>)"

end
