(* ===== verification/Queue_Invariants.thy ===== *)
theory Queue_Invariants
  imports Job_Queue
begin

text \<open>
  Well-formedness of the queue database and its preservation by every operation of
  \<^verbatim>\<open>src/internal/queue/queue.go\<close>: primary keys and the source-event index are unique, the
  attempt facts lie below the attempt counters, at most one job per concurrency key and
  target is running, and the append-only transition log replays to the cached status.
  The operations form a step relation; the invariants hold in every reachable database.
\<close>

section \<open>Invariants\<close>

definition ids_unique :: "queue_db \<Rightarrow> bool" where
  "ids_unique db \<longleftrightarrow> distinct (map j_id (job_queue db))"

definition source_unique :: "queue_db \<Rightarrow> bool" where
  "source_unique db \<longleftrightarrow>
     (\<forall>a\<in>set (job_queue db). \<forall>b\<in>set (job_queue db). same_source_event a b \<longrightarrow> j_id a = j_id b)"

definition attempts_bounded :: "queue_db \<Rightarrow> bool" where
  "attempts_bounded db \<longleftrightarrow>
     (\<forall>j\<in>set (job_queue db). \<forall>a\<in>set (job_attempts db). ja_job_id a = j_id j \<longrightarrow>
        ja_attempt a \<le> j_attempt j \<and> (j_status j = StatusQueued \<longrightarrow> ja_attempt a < j_attempt j))"

definition same_target :: "job \<Rightarrow> job \<Rightarrow> bool" where
  "same_target a b \<longleftrightarrow> j_dedupe_key a \<noteq> None \<and> j_dedupe_key a = j_dedupe_key b \<and>
     j_plugin a = j_plugin b \<and> j_command a = j_command b"

definition exclusive_targets :: "queue_db \<Rightarrow> bool" where
  "exclusive_targets db \<longleftrightarrow>
     (\<forall>a\<in>set (job_queue db). \<forall>b\<in>set (job_queue db).
        j_status a = StatusRunning \<and> j_status b = StatusRunning \<and> same_target a b \<longrightarrow> j_id a = j_id b)"

definition facts_unique :: "queue_db \<Rightarrow> bool" where
  "facts_unique db \<longleftrightarrow>
     distinct (map (\<lambda>a. (ja_job_id a, ja_attempt a)) (job_attempts db)) \<and> distinct (map jl_id (job_log db))"

definition wf_queue :: "queue_db \<Rightarrow> bool" where
  "wf_queue db \<longleftrightarrow> ids_unique db \<and> source_unique db \<and> attempts_bounded db \<and>
     exclusive_targets db \<and> facts_unique db"

lemmas wf_defs = ids_unique_def source_unique_def attempts_bounded_def exclusive_targets_def facts_unique_def

text \<open>The transition log of one job, and what it means that it replays to a status.\<close>

definition transitions_of :: "string \<Rightarrow> queue_db \<Rightarrow> job_transition list" where
  "transitions_of jid db = filter (\<lambda>t. jt_job_id t = jid) (job_transitions db)"

fun replay :: "status option \<Rightarrow> job_transition list \<Rightarrow> status option option" where
  "replay s [] = Some s"
| "replay s (t # ts) = (if jt_from t = s then replay (Some (jt_to t)) ts else None)"

definition lineage_ok :: "queue_db \<Rightarrow> bool" where
  "lineage_ok db \<longleftrightarrow>
     (\<forall>j\<in>set (job_queue db). replay None (transitions_of (j_id j) db) = Some (Some (j_status j)))"

section \<open>The steps\<close>

text \<open>
  \<open>fact_step\<close> has one rule per state-changing operation except the pruning of the
  transition log, which \<open>queue_step\<close> adds. The guards are what the callers provide: a UUID
  that occurs in no table, a recovery that raises the attempt counter
  (\<^verbatim>\<open>job.Attempt + 1\<close> in \<^verbatim>\<open>failOrRetry\<close> and \<^verbatim>\<open>recoverOrphanedJobs\<close>) and does not
  set the status to running.
\<close>

definition fresh_id :: "string \<Rightarrow> queue_db \<Rightarrow> bool" where
  "fresh_id jid db \<longleftrightarrow>
     (\<forall>j\<in>set (job_queue db). j_id j \<noteq> jid) \<and> (\<forall>a\<in>set (job_attempts db). ja_job_id a \<noteq> jid) \<and>
     (\<forall>t\<in>set (job_transitions db). jt_job_id t \<noteq> jid)"

inductive fact_step :: "queue_db \<Rightarrow> queue_db \<Rightarrow> bool" where
  step_enqueue: "fresh_id jid db \<Longrightarrow> fact_step db (fst (enqueue q jid now req db))"
| step_dequeue: "fact_step db (fst (dequeue_eligible q now skip keys db))"
| step_cancel: "fact_step db (fst (cancel_outstanding_jobs now p c reason db))"
| step_complete: "fact_step db (fst (complete_with_result now jid st result err stderr db))"
| step_recover: "find_job jid db = Some j \<Longrightarrow> j_attempt j < n \<Longrightarrow> st \<noteq> StatusRunning \<Longrightarrow>
     fact_step db (fst (update_job_for_recovery now jid st n retry err db))"
| step_prune_logs: "fact_step db (prune_job_logs now r db)"
| step_prune_queue: "fact_step db (prune_job_queue now r db)"
| step_prune_attempts: "fact_step db (prune_job_attempts now r db)"

inductive queue_step :: "queue_db \<Rightarrow> queue_db \<Rightarrow> bool" where
  queue_fact: "fact_step db db' \<Longrightarrow> queue_step db db'"
| queue_prune_transitions: "queue_step db (prune_job_transitions now r db)"

inductive fact_reachable :: "queue_db \<Rightarrow> bool" where
  fact_start: "fact_reachable empty_db"
| fact_next: "fact_reachable db \<Longrightarrow> fact_step db db' \<Longrightarrow> fact_reachable db'"

inductive queue_reachable :: "queue_db \<Rightarrow> bool" where
  queue_start: "queue_reachable empty_db"
| queue_next: "queue_reachable db \<Longrightarrow> queue_step db db' \<Longrightarrow> queue_reachable db'"

section \<open>Frame facts\<close>

lemma record_job_transition_frame [simp]:
  "job_queue (record_job_transition i f t r n db) = job_queue db"
  "job_attempts (record_job_transition i f t r n db) = job_attempts db"
  "job_log (record_job_transition i f t r n db) = job_log db"
  "circuit_breakers (record_job_transition i f t r n db) = circuit_breakers db"
  "schedule_entries (record_job_transition i f t r n db) = schedule_entries db"
  by (simp_all add: record_job_transition_def)

lemma fold_record_frame [simp]:
  "job_queue (fold (\<lambda>j d. record_job_transition (f j) (g j) (h j) (r j) n d) js db) = job_queue db"
  "job_attempts (fold (\<lambda>j d. record_job_transition (f j) (g j) (h j) (r j) n d) js db) = job_attempts db"
  "job_log (fold (\<lambda>j d. record_job_transition (f j) (g j) (h j) (r j) n d) js db) = job_log db"
  by (induction js arbitrary: db) simp_all

lemma insert_log_frame [simp]:
  "job_queue (insert_log row db) = job_queue db"
  "job_attempts (insert_log row db) = job_attempts db"
  "job_transitions (insert_log row db) = job_transitions db"
  by (simp_all add: insert_log_def)

lemma find_job_Some: "find_job jid db = Some j \<Longrightarrow> j \<in> set (job_queue db) \<and> j_id j = jid"
  by (auto simp: find_job_def find_Some_iff)

lemma find_job_in:
  assumes "ids_unique db" "j \<in> set (job_queue db)"
  shows "find_job (j_id j) db = Some j"
proof -
  obtain k where k: "find_job (j_id j) db = Some k"
    using assms(2) by (cases "find_job (j_id j) db") (auto simp: find_job_def find_None_iff)
  then have "k = j"
    using assms by (auto dest!: find_job_Some simp: ids_unique_def dest: distinct_map_in_eq)
  with k show ?thesis by simp
qed

lemma outstanding_or_terminal: "outstanding_status s \<longleftrightarrow> \<not> terminal_status s"
  by (cases s) (simp_all add: outstanding_status_def terminal_status_def)

section \<open>Updates that keep a job's identity\<close>

definition keeps_identity :: "(job \<Rightarrow> job) \<Rightarrow> bool" where
  "keeps_identity f \<longleftrightarrow>
     (\<forall>j. j_id (f j) = j_id j \<and> j_plugin (f j) = j_plugin j \<and> j_command (f j) = j_command j \<and>
          j_dedupe_key (f j) = j_dedupe_key j \<and> j_parent_job_id (f j) = j_parent_job_id j \<and>
          j_source_event_id (f j) = j_source_event_id j)"

lemma keeps_identityD:
  "keeps_identity f \<Longrightarrow> j_id (f j) = j_id j"
  "keeps_identity f \<Longrightarrow> j_plugin (f j) = j_plugin j"
  "keeps_identity f \<Longrightarrow> j_command (f j) = j_command j"
  "keeps_identity f \<Longrightarrow> j_dedupe_key (f j) = j_dedupe_key j"
  "keeps_identity f \<Longrightarrow> same_source_event (f j) k = same_source_event j k"
  "keeps_identity f \<Longrightarrow> same_source_event k (f j) = same_source_event k j"
  "keeps_identity f \<Longrightarrow> same_target (f j) k = same_target j k"
  "keeps_identity f \<Longrightarrow> same_target k (f j) = same_target k j"
  by (auto simp: keeps_identity_def same_source_event_def same_target_def)

lemma ids_unique_update:
  "keeps_identity f \<Longrightarrow> ids_unique db \<Longrightarrow> job_queue db' = update_where p f (job_queue db) \<Longrightarrow> ids_unique db'"
  by (simp add: ids_unique_def map_update_where keeps_identityD)

lemma source_unique_update:
  assumes "keeps_identity f" "source_unique db" "job_queue db' = update_where p f (job_queue db)"
  shows "source_unique db'"
  using assms(2) unfolding source_unique_def assms(3)
  by (auto simp: in_update_where keeps_identityD [OF assms(1)] split: if_splits)

lemma exclusive_update:
  assumes "keeps_identity f" "exclusive_targets db" "job_queue db' = update_where p f (job_queue db)"
    and "\<And>j. j \<in> set (job_queue db) \<Longrightarrow> p j \<Longrightarrow> j_status (f j) \<noteq> StatusRunning"
  shows "exclusive_targets db'"
  using assms(2) unfolding exclusive_targets_def assms(3)
  by (auto simp: in_update_where keeps_identityD [OF assms(1)] dest: assms(4) split: if_splits)

lemma attempts_update:
  assumes "keeps_identity f" "attempts_bounded db" "job_queue db' = update_where p f (job_queue db)"
    "job_attempts db' = job_attempts db"
    and "\<And>j. j \<in> set (job_queue db) \<Longrightarrow> p j \<Longrightarrow> j_attempt j \<le> j_attempt (f j) \<and>
           (j_status (f j) = StatusQueued \<longrightarrow> j_attempt j < j_attempt (f j))"
  shows "attempts_bounded db'"
proof -
  have "ja_attempt a \<le> j_attempt y \<and> (j_status y = StatusQueued \<longrightarrow> ja_attempt a < j_attempt y)"
    if y: "y \<in> set (job_queue db')" and a: "a \<in> set (job_attempts db')" "ja_job_id a = j_id y" for y a
  proof -
    obtain x where x: "x \<in> set (job_queue db)" "y = (if p x then f x else x)"
      using y assms(3) by (auto simp: in_update_where)
    then have "ja_job_id a = j_id x" using a(2) by (simp add: keeps_identityD [OF assms(1)] split: if_splits)
    then have "ja_attempt a \<le> j_attempt x \<and> (j_status x = StatusQueued \<longrightarrow> ja_attempt a < j_attempt x)"
      using assms(2) x(1) a(1) assms(4) by (simp add: attempts_bounded_def)
    then show ?thesis using x(2) assms(5) [OF x(1)] by (cases "p x") auto
  qed
  then show ?thesis by (simp add: attempts_bounded_def)
qed

lemma wf_queue_update:
  assumes wf: "wf_queue db" and f: "keeps_identity f"
    and q: "job_queue db' = update_where p f (job_queue db)"
    and a: "job_attempts db' = job_attempts db" and l: "distinct (map jl_id (job_log db'))"
    and run: "\<And>j. j \<in> set (job_queue db) \<Longrightarrow> p j \<Longrightarrow> j_status (f j) \<noteq> StatusRunning"
    and att: "\<And>j. j \<in> set (job_queue db) \<Longrightarrow> p j \<Longrightarrow> j_attempt j \<le> j_attempt (f j) \<and>
           (j_status (f j) = StatusQueued \<longrightarrow> j_attempt j < j_attempt (f j))"
  shows "wf_queue db'"
proof -
  from wf have parts: "ids_unique db" "source_unique db" "attempts_bounded db" "exclusive_targets db"
    "facts_unique db" by (simp_all add: wf_queue_def)
  have "facts_unique db'" using parts(5) l by (simp add: facts_unique_def a)
  then show ?thesis
    using ids_unique_update [OF f parts(1) q] source_unique_update [OF f parts(2) q]
      attempts_update [OF f parts(3) q a att] exclusive_update [OF f parts(4) q run]
    by (simp add: wf_queue_def)
qed

section \<open>Preservation by each operation\<close>

lemma enqueue_cases:
  "fst (enqueue q jid now req db) = db \<or>
   (let row = enqueue_row q jid now req in
    \<not> insert_conflict db row \<and> dedupe_hit q now req db = None \<and>
    fst (enqueue q jid now req db) =
      record_job_transition jid None StatusQueued None now (db\<lparr>job_queue := job_queue db @ [row]\<rparr>))"
  by (auto simp: enqueue_def Let_def split: option.splits)

lemma enqueue_row_sel [simp]:
  "j_id (enqueue_row q jid now req) = jid"
  "j_status (enqueue_row q jid now req) = StatusQueued"
  "j_attempt (enqueue_row q jid now req) = 1"
  "j_plugin (enqueue_row q jid now req) = rq_plugin req"
  "j_command (enqueue_row q jid now req) = rq_command req"
  "j_dedupe_key (enqueue_row q jid now req) = rq_dedupe_key req"
  by (simp_all add: enqueue_row_def)

lemma same_source_event_sym: "same_source_event a b \<longleftrightarrow> same_source_event b a"
  by (auto simp: same_source_event_def)

lemma wf_enqueue:
  assumes wf: "wf_queue db" and fresh: "fresh_id jid db"
  shows "wf_queue (fst (enqueue q jid now req db))"
proof -
  let ?row = "enqueue_row q jid now req"
  let ?db = "record_job_transition jid None StatusQueued None now (db\<lparr>job_queue := job_queue db @ [?row]\<rparr>)"
  have "wf_queue ?db" if nc: "\<not> insert_conflict db ?row"
  proof -
    have idn: "jid \<notin> j_id ` set (job_queue db)" using fresh by (auto simp: fresh_id_def)
    have na: "\<forall>a\<in>set (job_attempts db). ja_job_id a \<noteq> jid" using fresh by (simp add: fresh_id_def)
    have ns: "\<forall>j\<in>set (job_queue db). \<not> same_source_event j ?row \<and> \<not> same_source_event ?row j"
      using nc same_source_event_sym by (auto simp: insert_conflict_def)
    have "ids_unique ?db" using wf idn by (simp add: wf_queue_def ids_unique_def)
    moreover have "source_unique ?db" using wf ns by (auto simp: wf_queue_def source_unique_def)
    moreover have "attempts_bounded ?db" using wf na by (auto simp: wf_queue_def attempts_bounded_def)
    moreover have "exclusive_targets ?db" using wf by (auto simp: wf_queue_def exclusive_targets_def)
    moreover have "facts_unique ?db" using wf by (simp add: wf_queue_def facts_unique_def)
    ultimately show ?thesis by (simp add: wf_queue_def)
  qed
  then show ?thesis using enqueue_cases [of q jid now req db] wf by (auto simp: Let_def)
qed

lemma dequeue_candidate_props:
  assumes "dequeue_candidate now skip keys db = Some j"
  shows "j \<in> set (job_queue db)" "eligible now skip keys db j" "j_status j = StatusQueued"
  using first_min_in [OF assms [unfolded dequeue_candidate_def]] by (auto simp: eligible_def)

lemma start_job_keeps_identity: "keeps_identity (start_job q now)"
  by (simp add: keeps_identity_def start_job_def)

lemma start_job_sel [simp]:
  "j_status (start_job q now j) = StatusRunning" "j_attempt (start_job q now j) = j_attempt j"
  "j_id (start_job q now j) = j_id j"
  by (simp_all add: start_job_def)

definition started_db :: "queue_conf \<Rightarrow> instant \<Rightarrow> job \<Rightarrow> queue_db \<Rightarrow> queue_db" where
  "started_db q now j db =
     (record_job_transition (j_id j) (Some StatusQueued) StatusRunning None now
        (db\<lparr>job_queue := update_where (\<lambda>x. j_id x = j_id j) (start_job q now) (job_queue db)\<rparr>))
     \<lparr>job_attempts := job_attempts db @
        [\<lparr>ja_job_id = j_id j, ja_attempt = j_attempt j, ja_created_at = now\<rparr>]\<rparr>"

lemma started_db_sel [simp]:
  "job_queue (started_db q now j db) = update_where (\<lambda>x. j_id x = j_id j) (start_job q now) (job_queue db)"
  "job_attempts (started_db q now j db) = job_attempts db @
     [\<lparr>ja_job_id = j_id j, ja_attempt = j_attempt j, ja_created_at = now\<rparr>]"
  "job_log (started_db q now j db) = job_log db"
  by (simp_all add: started_db_def)

lemma dequeue_eligible_eq:
  "dequeue_eligible q now skip keys db =
     (case dequeue_candidate now skip keys db of
        None \<Rightarrow> (db, Inr None)
      | Some j \<Rightarrow> if \<exists>a\<in>set (job_attempts db). ja_job_id a = j_id j \<and> ja_attempt a = j_attempt j
                  then (db, Inl RecordJobAttemptFailed)
                  else (started_db q now j db, Inr (Some (start_job q now j))))"
  by (auto simp: dequeue_eligible_def record_job_attempt_def started_db_def Let_def split: option.splits)

text \<open>In a well-formed database the attempt fact of a queued job is always new.\<close>

lemma attempt_fact_new:
  assumes "attempts_bounded db" "j \<in> set (job_queue db)" "j_status j = StatusQueued"
  shows "\<not> (\<exists>a\<in>set (job_attempts db). ja_job_id a = j_id j \<and> ja_attempt a = j_attempt j)"
  using assms by (force simp: attempts_bounded_def)

lemma dequeue_eligible_wf_eq:
  assumes "attempts_bounded db"
  shows "dequeue_eligible q now skip keys db =
     (case dequeue_candidate now skip keys db of
        None \<Rightarrow> (db, Inr None)
      | Some j \<Rightarrow> (started_db q now j db, Inr (Some (start_job q now j))))"
  by (auto simp: dequeue_eligible_eq split: option.splits
      dest: attempt_fact_new [OF assms dequeue_candidate_props(1,3)])

lemma exclusive_started:
  assumes ex: "exclusive_targets db" and ids: "ids_unique db"
    and j: "j \<in> set (job_queue db)" "eligible now skip keys db j"
  shows "exclusive_targets (started_db q now j db)"
proof -
  have none: False if "x \<in> set (job_queue db)" "j_status x = StatusRunning" "same_target x j" for x
    using j(2) that by (auto simp: eligible_def target_running_def same_target_def)
  have "j_id u = j_id v"
    if u: "u \<in> set (job_queue (started_db q now j db))" "j_status u = StatusRunning"
      and v: "v \<in> set (job_queue (started_db q now j db))" "j_status v = StatusRunning"
      and uv: "same_target u v" for u v
  proof -
    from u(1) obtain x where x: "x \<in> set (job_queue db)" "u = (if j_id x = j_id j then start_job q now x else x)"
      by (auto simp: in_update_where)
    from v(1) obtain y where y: "y \<in> set (job_queue db)" "v = (if j_id y = j_id j then start_job q now y else y)"
      by (auto simp: in_update_where)
    have xy: "same_target x y" "same_target y x"
      using uv x(2) y(2) by (auto simp: keeps_identityD [OF start_job_keeps_identity] same_target_def split: if_splits)
    have same: "z = j" if "z \<in> set (job_queue db)" "j_id z = j_id j" for z
      using ids that j(1) by (auto simp: ids_unique_def dest: distinct_map_in_eq)
    consider "j_id x = j_id j" "j_id y = j_id j" | "j_id x = j_id j" "j_id y \<noteq> j_id j"
      | "j_id x \<noteq> j_id j" "j_id y = j_id j" | "j_id x \<noteq> j_id j" "j_id y \<noteq> j_id j" by blast
    then show ?thesis
    proof cases
      case 1
      with x y show ?thesis by simp
    next
      case 2
      with same [OF x(1)] xy(2) have "same_target y j" by simp
      moreover have "j_status y = StatusRunning" using 2 y(2) v(2) by simp
      ultimately show ?thesis using none [OF y(1)] by blast
    next
      case 3
      with same [OF y(1)] xy(1) have "same_target x j" by simp
      moreover have "j_status x = StatusRunning" using 3 x(2) u(2) by simp
      ultimately show ?thesis using none [OF x(1)] by blast
    next
      case 4
      then have "u = x" "v = y" using x(2) y(2) by simp_all
      with ex x(1) y(1) u(2) v(2) xy(1) show ?thesis unfolding exclusive_targets_def by blast
    qed
  qed
  then show ?thesis unfolding exclusive_targets_def by blast
qed

lemma attempts_started:
  assumes att: "attempts_bounded db" and ids: "ids_unique db" and j: "j \<in> set (job_queue db)"
  shows "attempts_bounded (started_db q now j db)"
proof -
  have "ja_attempt a \<le> j_attempt u \<and> (j_status u = StatusQueued \<longrightarrow> ja_attempt a < j_attempt u)"
    if u: "u \<in> set (job_queue (started_db q now j db))"
      and a: "a \<in> set (job_attempts (started_db q now j db))" "ja_job_id a = j_id u" for u a
  proof -
    from u obtain x where x: "x \<in> set (job_queue db)" "u = (if j_id x = j_id j then start_job q now x else x)"
      by (auto simp: in_update_where)
    have id: "j_id u = j_id x" and n: "j_attempt u = j_attempt x" using x(2) by simp_all
    show ?thesis
    proof (cases "a \<in> set (job_attempts db)")
      case True
      then have "ja_attempt a \<le> j_attempt x \<and> (j_status x = StatusQueued \<longrightarrow> ja_attempt a < j_attempt x)"
        using att x(1) a(2) id unfolding attempts_bounded_def by simp
      then show ?thesis using n x(2) by (cases "j_id x = j_id j") simp_all
    next
      case False
      then have a': "ja_job_id a = j_id j" "ja_attempt a = j_attempt j" using a(1) by simp_all
      then have "x = j" using distinct_map_in_eq [OF ids [unfolded ids_unique_def] x(1) j] a(2) id by simp
      then show ?thesis using a' n x(2) by simp
    qed
  qed
  then show ?thesis unfolding attempts_bounded_def by blast
qed

lemma wf_dequeue:
  assumes wf: "wf_queue db"
  shows "wf_queue (fst (dequeue_eligible q now skip keys db))"
proof (cases "dequeue_candidate now skip keys db")
  case None
  with wf show ?thesis by (simp add: dequeue_eligible_eq)
next
  case (Some j)
  note cand = dequeue_candidate_props [OF Some]
  from wf have parts: "ids_unique db" "source_unique db" "attempts_bounded db" "exclusive_targets db"
    "facts_unique db" by (simp_all add: wf_queue_def)
  have new: "\<not> (\<exists>a\<in>set (job_attempts db). ja_job_id a = j_id j \<and> ja_attempt a = j_attempt j)"
    by (rule attempt_fact_new [OF parts(3) cand(1,3)])
  then have "facts_unique (started_db q now j db)"
    using parts(5) by (auto simp: facts_unique_def)
  moreover have "ids_unique (started_db q now j db)"
    by (rule ids_unique_update [OF start_job_keeps_identity parts(1) started_db_sel(1)])
  moreover have "source_unique (started_db q now j db)"
    by (rule source_unique_update [OF start_job_keeps_identity parts(2) started_db_sel(1)])
  ultimately have "wf_queue (started_db q now j db)"
    using exclusive_started [OF parts(4,1) cand(1,2)] attempts_started [OF parts(3,1) cand(1)]
    by (simp add: wf_queue_def)
  then show ?thesis using Some by (simp add: dequeue_eligible_wf_eq [OF parts(3)])
qed

lemma wf_same_tables:
  assumes "wf_queue db" "job_queue db' = job_queue db" "job_attempts db' = job_attempts db"
    "distinct (map jl_id (job_log db'))"
  shows "wf_queue db'"
  using assms by (simp add: wf_queue_def wf_defs)

lemma cancel_cases:
  "fst (cancel_outstanding_jobs now p c reason db) = db \<or>
   (\<exists>r. fst (cancel_outstanding_jobs now p c reason db) =
      (fold (\<lambda>j d. record_job_transition (j_id j) (Some (j_status j)) StatusDead (Some r) now d)
        (filter (outstanding_for p c) (job_queue db)) db)
      \<lparr>job_queue := update_where (outstanding_for p c)
         (\<lambda>j. j\<lparr>j_status := StatusDead, j_completed_at := Some now, j_last_error := Some r\<rparr>)
         (job_queue db)\<rparr>)"
  by (auto simp: cancel_outstanding_jobs_def Let_def)

lemma wf_cancel:
  assumes wf: "wf_queue db"
  shows "wf_queue (fst (cancel_outstanding_jobs now p c reason db))"
  using cancel_cases [of now p c reason db]
proof (elim disjE exE)
  assume "fst (cancel_outstanding_jobs now p c reason db) = db"
  with wf show ?thesis by simp
next
  fix r
  assume eq: "fst (cancel_outstanding_jobs now p c reason db) =
      (fold (\<lambda>j d. record_job_transition (j_id j) (Some (j_status j)) StatusDead (Some r) now d)
        (filter (outstanding_for p c) (job_queue db)) db)
      \<lparr>job_queue := update_where (outstanding_for p c)
         (\<lambda>j. j\<lparr>j_status := StatusDead, j_completed_at := Some now, j_last_error := Some r\<rparr>)
         (job_queue db)\<rparr>"
  show ?thesis
    unfolding eq
    by (rule wf_queue_update [OF wf, where p = "outstanding_for p c" and
          f = "\<lambda>j. j\<lparr>j_status := StatusDead, j_completed_at := Some now, j_last_error := Some r\<rparr>"])
      (use wf in \<open>simp_all add: keeps_identity_def wf_queue_def facts_unique_def\<close>)
qed

text \<open>What completion does to the tables, when it does anything.\<close>

definition completed_job :: "instant \<Rightarrow> status \<Rightarrow> string option \<Rightarrow> job \<Rightarrow> job" where
  "completed_job now st err j = j\<lparr>j_status := st, j_completed_at := Some now, j_last_error := err\<rparr>"

definition recovered_job :: "status \<Rightarrow> int \<Rightarrow> instant option \<Rightarrow> string option \<Rightarrow> job \<Rightarrow> job" where
  "recovered_job st n retry err j =
     j\<lparr>j_status := st, j_attempt := n, j_next_retry_at := retry, j_last_error := err\<rparr>"

lemma complete_eq:
  "complete_with_result now jid st result err stderr db =
     (if jid = [] then (db, Inl JobIDEmpty)
      else if \<not> terminal_status st then (db, Inl (InvalidTerminalStatus st))
      else case find_job jid db of
        None \<Rightarrow> (db, Inl LoadJobForCompletion)
      | Some j \<Rightarrow> (insert_log (completion_log j st result err stderr now)
          ((if j_status j \<noteq> st then record_job_transition jid (Some (j_status j)) st err now db else db)
           \<lparr>job_queue := update_where (\<lambda>x. j_id x = jid) (completed_job now st err) (job_queue db)\<rparr>), Inr ()))"
  by (auto simp: complete_with_result_def terminal_status_def completed_job_def [abs_def] Let_def split: option.splits)

lemma recovery_eq:
  "update_job_for_recovery now jid st n retry err db =
     (case find_job jid db of
        None \<Rightarrow> (db, Inl ErrJobNotFound)
      | Some j \<Rightarrow>
         ((if j_status j \<noteq> st
           then record_job_transition jid (Some (j_status j)) st (if err = [] then None else Some err) now db
           else db)
          \<lparr>job_queue := update_where (\<lambda>x. j_id x = jid)
             (recovered_job st n retry (if err = [] then None else Some err)) (job_queue db)\<rparr>, Inr ()))"
  by (simp add: update_job_for_recovery_def recovered_job_def [abs_def] Let_def split: option.splits)

lemma job_updates_keep_identity [simp]:
  "keeps_identity (completed_job now st err)" "keeps_identity (recovered_job st n retry e)"
  by (simp_all add: keeps_identity_def completed_job_def recovered_job_def)

lemma job_update_sel [simp]:
  "j_status (completed_job now st err j) = st" "j_attempt (completed_job now st err j) = j_attempt j"
  "j_completed_at (completed_job now st err j) = Some now"
  "j_status (recovered_job st n retry e j) = st" "j_attempt (recovered_job st n retry e j) = n"
  by (simp_all add: completed_job_def recovered_job_def)

lemma distinct_insert_log:
  "distinct (map jl_id (job_log db)) \<Longrightarrow> distinct (map jl_id (job_log (insert_log row db)))"
  by (auto simp: insert_log_def)

lemma wf_complete:
  assumes wf: "wf_queue db"
  shows "wf_queue (fst (complete_with_result now jid st result err stderr db))"
proof (cases "jid = [] \<or> \<not> terminal_status st \<or> find_job jid db = None")
  case True
  with wf show ?thesis by (auto simp: complete_eq)
next
  case False
  then obtain j where j: "jid \<noteq> []" "terminal_status st" "find_job jid db = Some j" by auto
  let ?db = "fst (complete_with_result now jid st result err stderr db)"
  have st: "st \<noteq> StatusRunning" "st \<noteq> StatusQueued" using j(2) by (auto simp: terminal_status_def)
  show ?thesis
    by (rule wf_queue_update [OF wf, where p = "\<lambda>x. j_id x = jid" and f = "completed_job now st err"])
      (use wf j st in \<open>simp_all add: complete_eq distinct_insert_log wf_queue_def facts_unique_def\<close>)
qed

lemma wf_recovery:
  assumes wf: "wf_queue db" and j: "find_job jid db = Some j" "j_attempt j < n" "st \<noteq> StatusRunning"
  shows "wf_queue (fst (update_job_for_recovery now jid st n retry err db))"
proof -
  have same: "x = j" if "x \<in> set (job_queue db)" "j_id x = jid" for x
    using wf that find_job_Some [OF j(1)] by (auto simp: wf_queue_def ids_unique_def dest: distinct_map_in_eq)
  show ?thesis
    by (rule wf_queue_update [OF wf, where p = "\<lambda>x. j_id x = jid"
          and f = "recovered_job st n retry (if err = [] then None else Some err)"])
      (use wf j in \<open>auto simp: recovery_eq wf_queue_def facts_unique_def dest: same\<close>)
qed

lemma wf_filter:
  assumes "wf_queue db" "job_queue db' = filter P (job_queue db)" "job_attempts db' = filter Q (job_attempts db)"
    "job_log db' = filter R (job_log db)"
  shows "wf_queue db'"
  using assms by (auto simp: wf_queue_def wf_defs distinct_map_filter)

lemma filter_all_True: "xs = filter (\<lambda>_. True) xs"
  by simp

lemma wf_prunes:
  assumes "wf_queue db"
  shows "wf_queue (prune_job_logs now r db)" "wf_queue (prune_job_queue now r db)"
    "wf_queue (prune_job_transitions now r db)" "wf_queue (prune_job_attempts now r db)"
  using assms
  by (auto simp: prune_job_logs_def prune_job_queue_def prune_job_transitions_def prune_job_attempts_def
      wf_queue_def wf_defs distinct_map_filter)

lemma wf_empty: "wf_queue empty_db"
  by (simp add: wf_queue_def wf_defs empty_db_def)

lemma wf_fact_step: "fact_step db db' \<Longrightarrow> wf_queue db \<Longrightarrow> wf_queue db'"
  by (induction rule: fact_step.induct)
    (blast intro: wf_enqueue wf_dequeue wf_cancel wf_complete wf_recovery wf_prunes)+

lemma wf_queue_step: "queue_step db db' \<Longrightarrow> wf_queue db \<Longrightarrow> wf_queue db'"
  by (induction rule: queue_step.induct) (blast intro: wf_fact_step wf_prunes)+

lemma reachable_wf: "queue_reachable db \<Longrightarrow> wf_queue db"
  by (induction rule: queue_reachable.induct) (blast intro: wf_empty wf_queue_step)+

section \<open>The transition log replays to the cached status\<close>

lemma replay_snoc:
  "replay s (ts @ [t]) =
     (case replay s ts of None \<Rightarrow> None | Some u \<Rightarrow> if jt_from t = u then Some (Some (jt_to t)) else None)"
  by (induction s ts rule: replay.induct) auto

lemma replay_last: "replay s ts = Some u \<Longrightarrow> ts \<noteq> [] \<Longrightarrow> u = Some (jt_to (last ts))"
  by (induction s ts arbitrary: u rule: replay.induct) (auto split: if_splits)

lemma transitions_of_update [simp]:
  "transitions_of k (db\<lparr>job_queue := js\<rparr>) = transitions_of k db"
  "transitions_of k (db\<lparr>job_attempts := as\<rparr>) = transitions_of k db"
  "transitions_of k (insert_log row db) = transitions_of k db"
  by (simp_all add: transitions_of_def)

lemma transitions_of_record:
  "transitions_of k (record_job_transition i f t r now db) =
     transitions_of k db @
       (if i = k then [\<lparr>jt_job_id = i, jt_from = f, jt_to = t,
          jt_reason = (case r of None \<Rightarrow> None | Some x \<Rightarrow> if trim_space x = [] then None else Some x),
          jt_created_at = now\<rparr>] else [])"
  by (simp add: transitions_of_def record_job_transition_def)

lemma replay_record:
  "replay None (transitions_of k db) = Some (Some s) \<Longrightarrow>
   replay None (transitions_of k (record_job_transition k (Some s) t r now db)) = Some (Some t)"
  by (simp add: transitions_of_record replay_snoc)

lemma lineage_set_status:
  assumes lin: "lineage_ok db" and ids: "ids_unique db" and j: "find_job jid db = Some j"
    and f: "\<And>x. j_id (f x) = j_id x" "\<And>x. j_status (f x) = st"
  shows "lineage_ok ((if j_status j \<noteq> st then record_job_transition jid (Some (j_status j)) st r now db else db)
     \<lparr>job_queue := update_where (\<lambda>x. j_id x = jid) f (job_queue db)\<rparr>)" (is "lineage_ok ?db")
proof -
  have jj: "replay None (transitions_of jid db) = Some (Some (j_status j))"
    using lin find_job_Some [OF j] by (auto simp: lineage_ok_def)
  have upd: "replay None (transitions_of jid ?db) = Some (Some st)"
    using jj replay_record [OF jj] by simp
  have other: "transitions_of k ?db = transitions_of k db" if "k \<noteq> jid" for k
    using that by (simp add: transitions_of_record)
  have "replay None (transitions_of (j_id u) ?db) = Some (Some (j_status u))"
    if "u \<in> set (job_queue ?db)" for u
  proof -
    from that obtain x where x: "x \<in> set (job_queue db)" "u = (if j_id x = jid then f x else x)"
      by (auto simp: in_update_where)
    show ?thesis
    proof (cases "j_id x = jid")
      case True
      with x(2) f upd show ?thesis by simp
    next
      case False
      with x(2) have "u = x" by simp
      with False lin x(1) other [of "j_id x"] show ?thesis unfolding lineage_ok_def by auto
    qed
  qed
  then show ?thesis unfolding lineage_ok_def by blast
qed

lemma lineage_frame:
  "lineage_ok db \<Longrightarrow> set (job_queue db') \<subseteq> set (job_queue db) \<Longrightarrow> job_transitions db' = job_transitions db
   \<Longrightarrow> lineage_ok db'"
  unfolding lineage_ok_def transitions_of_def by (metis subsetD)

lemma lineage_enqueue:
  assumes lin: "lineage_ok db" and fresh: "fresh_id jid db"
  shows "lineage_ok (fst (enqueue q jid now req db))"
proof -
  let ?row = "enqueue_row q jid now req"
  let ?db = "record_job_transition jid None StatusQueued None now (db\<lparr>job_queue := job_queue db @ [?row]\<rparr>)"
  have none: "transitions_of jid db = []"
    using fresh by (auto simp: fresh_id_def transitions_of_def filter_empty_conv)
  have "lineage_ok ?db"
    using lin fresh none by (auto simp: lineage_ok_def transitions_of_record fresh_id_def)
  then show ?thesis using enqueue_cases [of q jid now req db] lin by (auto simp: Let_def)
qed

lemma lineage_dequeue:
  assumes lin: "lineage_ok db" and wf: "wf_queue db"
  shows "lineage_ok (fst (dequeue_eligible q now skip keys db))"
proof (cases "dequeue_candidate now skip keys db")
  case None
  with lin show ?thesis by (simp add: dequeue_eligible_eq)
next
  case (Some j)
  note cand = dequeue_candidate_props [OF Some]
  have ids: "ids_unique db" and att: "attempts_bounded db" using wf by (simp_all add: wf_queue_def)
  have "lineage_ok ((if j_status j \<noteq> StatusRunning
       then record_job_transition (j_id j) (Some (j_status j)) StatusRunning None now db else db)
     \<lparr>job_queue := update_where (\<lambda>x. j_id x = j_id j) (start_job q now) (job_queue db)\<rparr>)" (is "lineage_ok ?db")
    by (rule lineage_set_status [OF lin ids find_job_in [OF ids cand(1)]]) simp_all
  then have "lineage_ok (started_db q now j db)"
    by (rule lineage_frame) (simp_all add: cand(3) started_db_def record_job_transition_def)
  then show ?thesis using Some by (simp add: dequeue_eligible_wf_eq [OF att])
qed

lemma lineage_complete:
  assumes lin: "lineage_ok db" and wf: "wf_queue db"
  shows "lineage_ok (fst (complete_with_result now jid st result err stderr db))"
proof (cases "jid = [] \<or> \<not> terminal_status st \<or> find_job jid db = None")
  case True
  with lin show ?thesis by (auto simp: complete_eq)
next
  case False
  then obtain j where j: "jid \<noteq> []" "terminal_status st" "find_job jid db = Some j" by auto
  have ids: "ids_unique db" using wf by (simp add: wf_queue_def)
  have "lineage_ok ((if j_status j \<noteq> st then record_job_transition jid (Some (j_status j)) st err now db else db)
     \<lparr>job_queue := update_where (\<lambda>x. j_id x = jid) (completed_job now st err) (job_queue db)\<rparr>)"
    by (rule lineage_set_status [OF lin ids j(3)]) (simp_all add: completed_job_def)
  then show ?thesis
    by (rule lineage_frame) (use j in \<open>simp_all add: complete_eq\<close>)
qed

lemma lineage_recovery:
  assumes lin: "lineage_ok db" and wf: "wf_queue db" and j: "find_job jid db = Some j"
  shows "lineage_ok (fst (update_job_for_recovery now jid st n retry err db))"
proof -
  have ids: "ids_unique db" using wf by (simp add: wf_queue_def)
  show ?thesis
    unfolding recovery_eq j option.case fst_conv
    by (rule lineage_set_status [OF lin ids j]) (simp_all add: recovered_job_def)
qed

lemma transitions_of_empty [simp]: "transitions_of k empty_db = []"
  by (simp add: transitions_of_def empty_db_def)

lemma transitions_of_fold_record:
  "transitions_of k (fold (\<lambda>j d. record_job_transition (j_id j) (Some (j_status j)) StatusDead (Some r) now d) js db) =
     transitions_of k db @ concat (map (\<lambda>j. transitions_of k
       (record_job_transition (j_id j) (Some (j_status j)) StatusDead (Some r) now empty_db)) js)"
  by (induction js arbitrary: db) (simp_all add: transitions_of_record)

lemma concat_map_unique:
  assumes "distinct (map g js)" "j \<in> set js" "\<And>x. g x \<noteq> g j \<Longrightarrow> h x = []"
  shows "concat (map h js) = h j"
  using assms
proof (induction js)
  case Nil
  then show ?case by simp
next
  case (Cons x js)
  show ?case
  proof (cases "x = j")
    case True
    then have "\<forall>y\<in>set js. g y \<noteq> g j" using Cons.prems(1) by (auto simp: image_iff)
    then have "concat (map h js) = []" using Cons.prems(3) by simp
    with True show ?thesis by simp
  next
    case False
    then have "j \<in> set js" "g x \<noteq> g j" using Cons.prems(1,2) by (auto simp: image_iff)
    with Cons show ?thesis by simp
  qed
qed

lemma cancelled_transitions:
  assumes "ids_unique db" "j \<in> set (job_queue db)" "outstanding_for p c j"
  shows "transitions_of (j_id j)
     (fold (\<lambda>j d. record_job_transition (j_id j) (Some (j_status j)) StatusDead (Some r) now d)
        (filter (outstanding_for p c) (job_queue db)) db) =
     transitions_of (j_id j) (record_job_transition (j_id j) (Some (j_status j)) StatusDead (Some r) now db)"
proof -
  let ?js = "filter (outstanding_for p c) (job_queue db)"
  have "concat (map (\<lambda>x. transitions_of (j_id j)
       (record_job_transition (j_id x) (Some (j_status x)) StatusDead (Some r) now empty_db)) ?js) =
     transitions_of (j_id j) (record_job_transition (j_id j) (Some (j_status j)) StatusDead (Some r) now empty_db)"
    by (rule concat_map_unique [where g = j_id])
      (use assms in \<open>auto simp: ids_unique_def distinct_map_filter transitions_of_record\<close>)
  then show ?thesis
    by (simp add: transitions_of_fold_record transitions_of_record)
qed

lemma kept_transitions:
  assumes "ids_unique db" "j \<in> set (job_queue db)" "\<not> outstanding_for p c j"
  shows "transitions_of (j_id j)
     (fold (\<lambda>j d. record_job_transition (j_id j) (Some (j_status j)) StatusDead (Some r) now d)
        (filter (outstanding_for p c) (job_queue db)) db) = transitions_of (j_id j) db"
proof -
  have "j_id x \<noteq> j_id j" if "x \<in> set (job_queue db)" "outstanding_for p c x" for x
    using assms that distinct_map_in_eq [of j_id "job_queue db" x j] by (auto simp: ids_unique_def)
  then show ?thesis
    by (auto simp: transitions_of_fold_record transitions_of_record)
qed

lemma lineage_cancel:
  assumes lin: "lineage_ok db" and wf: "wf_queue db"
  shows "lineage_ok (fst (cancel_outstanding_jobs now p c reason db))"
  using cancel_cases [of now p c reason db]
proof (elim disjE exE)
  assume "fst (cancel_outstanding_jobs now p c reason db) = db"
  with lin show ?thesis by simp
next
  fix r
  let ?f = "\<lambda>j. j\<lparr>j_status := StatusDead, j_completed_at := Some now, j_last_error := Some r\<rparr>"
  let ?log = "fold (\<lambda>j d. record_job_transition (j_id j) (Some (j_status j)) StatusDead (Some r) now d)
        (filter (outstanding_for p c) (job_queue db)) db"
  assume eq: "fst (cancel_outstanding_jobs now p c reason db) =
      ?log\<lparr>job_queue := update_where (outstanding_for p c) ?f (job_queue db)\<rparr>"
  have ids: "ids_unique db" using wf by (simp add: wf_queue_def)
  have "replay None (transitions_of (j_id u) ?log) = Some (Some (j_status u))"
    if "u \<in> set (update_where (outstanding_for p c) ?f (job_queue db))" for u
  proof -
    from that obtain x where x: "x \<in> set (job_queue db)" "u = (if outstanding_for p c x then ?f x else x)"
      by (auto simp: in_update_where)
    have rx: "replay None (transitions_of (j_id x) db) = Some (Some (j_status x))"
      using lin x(1) by (simp add: lineage_ok_def)
    show ?thesis
    proof (cases "outstanding_for p c x")
      case True
      with x(2) show ?thesis
        using cancelled_transitions [OF ids x(1) True, of r now] replay_record [OF rx, of StatusDead "Some r" now]
        by simp
    next
      case False
      with x(2) show ?thesis using kept_transitions [OF ids x(1) False, of r now] rx by simp
    qed
  qed
  then show ?thesis unfolding eq lineage_ok_def by simp
qed

lemma lineage_prunes:
  assumes "lineage_ok db"
  shows "lineage_ok (prune_job_logs now r db)" "lineage_ok (prune_job_queue now r db)"
    "lineage_ok (prune_job_attempts now r db)"
  by (rule lineage_frame [OF assms],
      auto simp: prune_job_logs_def prune_job_queue_def prune_job_attempts_def)+

lemma lineage_fact_step: "fact_step db db' \<Longrightarrow> wf_queue db \<Longrightarrow> lineage_ok db \<Longrightarrow> lineage_ok db'"
  by (induction rule: fact_step.induct)
    (blast intro: lineage_enqueue lineage_dequeue lineage_cancel lineage_complete lineage_recovery lineage_prunes)+

lemma fact_reachable_inv: "fact_reachable db \<Longrightarrow> wf_queue db \<and> lineage_ok db"
proof (induction rule: fact_reachable.induct)
  case fact_start
  show ?case by (simp add: wf_empty) (simp add: lineage_ok_def empty_db_def)
next
  case (fact_next db db')
  then show ?case by (blast intro: wf_fact_step lineage_fact_step)
qed

end
