(* ===== verification/Queue_Properties.thy ===== *)
theory Queue_Properties
  imports Queue_Invariants
begin

text \<open>
  What the job queue promises its callers (\<^verbatim>\<open>src/internal/queue/queue.go\<close>): unique keys and
  mutual exclusion in every reachable database, first-come-first-served dequeue that never
  fails, deduplication, redelivery safety of the source-event index, the effect of
  completion, cancellation and retention, and the faithfulness of the transition log.
\<close>

section \<open>Concrete data for the witnesses\<close>

definition demo_conf :: queue_conf where
  "demo_conf = new_queue None None"

definition demo_req :: "string \<Rightarrow> string \<Rightarrow> enqueue_request" where
  "demo_req p c = \<lparr>rq_plugin = p, rq_command = c, rq_payload = [], rq_max_attempts = 0,
     rq_submitted_by = ''api'', rq_dedupe_key = None, rq_dedupe_ttl = None, rq_parent_job_id = None,
     rq_event_context_id = None, rq_source_event_id = None, rq_enqueued_config_snapshot_id = []\<rparr>"

definition demo_keyed :: "string \<Rightarrow> enqueue_request" where
  "demo_keyed k = (demo_req ''mail'' ''poll'')\<lparr>rq_dedupe_key := Some k, rq_dedupe_ttl := Some hour\<rparr>"

text \<open>2023-11-14T22:13:20Z.\<close>

definition t0 :: instant where
  "t0 = 1700000000000000000"

definition demo_db1 :: queue_db where
  "demo_db1 = fst (enqueue demo_conf ''j1'' t0 (demo_keyed ''k'') empty_db)"

definition demo_db2 :: queue_db where
  "demo_db2 = fst (dequeue_eligible demo_conf (t0 + second) [] [] demo_db1)"

lemmas demo_defs = demo_conf_def new_queue_def demo_req_def demo_keyed_def t0_def

lemma demo_row:
  "enqueue_row demo_conf ''j1'' t0 (demo_keyed ''k'') =
     \<lparr>j_id = ''j1'', j_plugin = ''mail'', j_command = ''poll'', j_payload = None,
      j_status = StatusQueued, j_attempt = 1, j_max_attempts = 4, j_submitted_by = ''api'',
      j_dedupe_key = Some ''k'', j_created_at = t0, j_started_at = None, j_completed_at = None,
      j_next_retry_at = None, j_last_error = None, j_parent_job_id = None, j_source_event_id = None,
      j_event_context_id = None, j_enqueued_config_snapshot_id = None, j_started_config_snapshot_id = None\<rparr>"
  by (simp add: enqueue_row_def demo_keyed_def demo_req_def demo_conf_def new_queue_def snapshot_value_def)

lemma demo_trim: "trim_space ''k'' = ''k''"
  by (simp add: trim_space_def is_space_def)

lemma demo_db1_eq:
  "demo_db1 = empty_db\<lparr>job_queue := [enqueue_row demo_conf ''j1'' t0 (demo_keyed ''k'')],
     job_transitions := [\<lparr>jt_job_id = ''j1'', jt_from = None, jt_to = StatusQueued, jt_reason = None, jt_created_at = t0\<rparr>]\<rparr>"
  by (simp add: demo_db1_def enqueue_def dedupe_hit_def demo_keyed_def demo_req_def demo_trim
      find_outstanding_by_dedupe_key_def find_recent_succeeded_by_dedupe_key_def empty_db_def
      insert_conflict_def record_job_transition_def Let_def)

lemma demo_candidate:
  "dequeue_candidate (t0 + second) [] [] demo_db1 = Some (enqueue_row demo_conf ''j1'' t0 (demo_keyed ''k''))"
  by (simp add: dequeue_candidate_def demo_db1_eq demo_row eligible_def due_def target_running_def empty_db_def)

lemma demo_db1_reachable: "fact_reachable demo_db1" "queue_reachable demo_db1"
proof -
  have fresh: "fresh_id ''j1'' empty_db" by (simp add: fresh_id_def empty_db_def)
  show "fact_reachable demo_db1"
    unfolding demo_db1_def by (rule fact_next [OF fact_start step_enqueue [OF fresh]])
  show "queue_reachable demo_db1"
    unfolding demo_db1_def by (rule queue_next [OF queue_start queue_fact [OF step_enqueue [OF fresh]]])
qed

lemma demo_db2_reachable: "fact_reachable demo_db2" "queue_reachable demo_db2"
  unfolding demo_db2_def
  by (rule fact_next [OF demo_db1_reachable(1) step_dequeue],
      rule queue_next [OF demo_db1_reachable(2) queue_fact [OF step_dequeue]])

lemma demo_db2_eq: "demo_db2 = started_db demo_conf (t0 + second) (enqueue_row demo_conf ''j1'' t0 (demo_keyed ''k'')) demo_db1"
  by (simp add: demo_db2_def dequeue_eligible_eq demo_candidate) (simp add: demo_db1_eq empty_db_def)

section \<open>Reachable databases\<close>

text \<open>C1. In every database reachable through the queue's operations (enqueue with a fresh
  UUID, dequeue, cancel, complete, recovery that raises the attempt counter, and all retention
  prunes) job ids are unique, the (parent, source event, plugin, command) index has no
  duplicates, attempt facts never exceed a job's attempt counter and stay strictly below it
  while the job is queued, at most one job per concurrency key and target is running, and the
  fact and log tables have unique keys.\<close>

theorem queue_reachable_wf: "queue_reachable db \<Longrightarrow> wf_queue db"
  by (rule reachable_wf)

theorem queue_reachable_wf_witness: "queue_reachable demo_db2 \<and> wf_queue demo_db2"
  using queue_reachable_wf [OF demo_db2_reachable(2)] demo_db2_reachable(2) by blast

text \<open>C2. Dequeue is first come first served among the jobs that may run, in the order the database keeps. The claimed job was
  queued with its retry time reached, belongs to no skipped plugin, and if it has a dedupe key then that key is not among
  the active ones and no job of the same key, plugin and command was running; every eligible row inserted before
  it has a strictly later creation text and every one after it a creation text at least as late.\<close>

theorem dequeue_claims_oldest:
  assumes "dequeue_eligible q now skip keys db = (db', Inr (Some j))"
  shows "\<exists>j0 before after. filter (eligible now skip keys db) (job_queue db) = before @ j0 # after \<and>
    j = start_job q now j0 \<and>
    j_status j0 = StatusQueued \<and> (\<forall>t. j_next_retry_at j0 = Some t \<longrightarrow> ts_le t now) \<and> j_plugin j0 \<notin> set skip \<and>
    (\<forall>k. j_dedupe_key j0 = Some k \<longrightarrow> k \<notin> set keys \<and>
       (\<forall>x\<in>set (job_queue db). j_status x = StatusRunning \<longrightarrow>
          (j_dedupe_key x, j_plugin x, j_command x) \<noteq> (Some k, j_plugin j0, j_command j0))) \<and>
    (\<forall>x\<in>set before. ts_less (j_created_at j0) (j_created_at x)) \<and>
    (\<forall>x\<in>set after. ts_le (j_created_at j0) (j_created_at x))"
proof -
  obtain j0 where j0: "dequeue_candidate now skip keys db = Some j0" "j = start_job q now j0"
    using assms by (auto simp: dequeue_eligible_eq split: option.splits if_splits)
  from first_min_split [OF j0(1) [unfolded dequeue_candidate_def]] obtain before after where
    split: "filter (eligible now skip keys db) (job_queue db) = before @ j0 # after"
    and order: "\<forall>x\<in>set before. ts_less (j_created_at j0) (j_created_at x)" "\<forall>x\<in>set after. ts_le (j_created_at j0) (j_created_at x)"
    unfolding ts_less_def ts_le_def by blast
  have "j0 \<in> set (filter (eligible now skip keys db) (job_queue db))" by (simp add: split)
  then have el: "eligible now skip keys db j0" by simp
  have "j_status j0 = StatusQueued \<and> (\<forall>t. j_next_retry_at j0 = Some t \<longrightarrow> ts_le t now) \<and> j_plugin j0 \<notin> set skip"
    using el by (auto simp: eligible_def due_def)
  moreover have "\<forall>k. j_dedupe_key j0 = Some k \<longrightarrow> k \<notin> set keys \<and>
       (\<forall>x\<in>set (job_queue db). j_status x = StatusRunning \<longrightarrow>
          (j_dedupe_key x, j_plugin x, j_command x) \<noteq> (Some k, j_plugin j0, j_command j0))"
    using el by (fastforce simp: eligible_def target_running_def same_target_def)
  ultimately show ?thesis using split order j0(2) by blast
qed

theorem dequeue_claims_oldest_witness:
  "\<exists>j0 before after. filter (eligible (t0 + second) [] [] demo_db1) (job_queue demo_db1) = before @ j0 # after \<and>
    start_job demo_conf (t0 + second) (enqueue_row demo_conf ''j1'' t0 (demo_keyed ''k'')) = start_job demo_conf (t0 + second) j0"
proof -
  have "dequeue_eligible demo_conf (t0 + second) [] [] demo_db1 =
    (demo_db2, Inr (Some (start_job demo_conf (t0 + second) (enqueue_row demo_conf ''j1'' t0 (demo_keyed ''k'')))))"
    by (simp add: dequeue_eligible_eq demo_candidate demo_db2_eq) (simp add: demo_db1_eq empty_db_def)
  from dequeue_claims_oldest [OF this] show ?thesis by blast
qed

text \<open>C3. Dequeue makes progress: on a reachable database it never fails with the UNIQUE
  constraint of the attempt log, it returns a job exactly when some job is eligible, and that
  job is then running with its attempt recorded and its start logged.\<close>

theorem dequeue_progress:
  assumes "queue_reachable db"
  shows "(\<exists>j\<in>set (job_queue db). eligible now skip keys db j) \<longleftrightarrow>
     (\<exists>j db'. dequeue_eligible q now skip keys db = (db', Inr (Some j)) \<and> j_status j = StatusRunning \<and>
        j \<in> set (job_queue db') \<and>
        \<lparr>ja_job_id = j_id j, ja_attempt = j_attempt j, ja_created_at = now\<rparr> \<in> set (job_attempts db'))"
proof -
  have att: "attempts_bounded db" using reachable_wf [OF assms] by (simp add: wf_queue_def)
  show ?thesis
  proof (cases "dequeue_candidate now skip keys db")
    case None
    then have "\<not> (\<exists>j\<in>set (job_queue db). eligible now skip keys db j)"
      by (simp add: dequeue_candidate_def filter_empty_conv)
    with None show ?thesis by (simp add: dequeue_eligible_eq)
  next
    case (Some j)
    note cand = dequeue_candidate_props [OF Some]
    have "start_job q now j \<in> set (job_queue (started_db q now j db))"
      using cand(1) by (auto simp: in_update_where)
    then show ?thesis using cand Some by (auto simp: dequeue_eligible_wf_eq [OF att])
  qed
qed

theorem dequeue_progress_witness:
  "\<exists>j db'. dequeue_eligible demo_conf (t0 + second) [] [] demo_db1 = (db', Inr (Some j)) \<and> j_status j = StatusRunning"
proof -
  have "eligible (t0 + second) [] [] demo_db1 (enqueue_row demo_conf ''j1'' t0 (demo_keyed ''k''))"
    using dequeue_candidate_props(2) [OF demo_candidate] .
  then have "\<exists>j\<in>set (job_queue demo_db1). eligible (t0 + second) [] [] demo_db1 j"
    using dequeue_candidate_props(1) [OF demo_candidate] by blast
  then show ?thesis
    unfolding dequeue_progress [OF demo_db1_reachable(2), where q = demo_conf] by blast
qed

section \<open>Enqueue\<close>

lemma find_outstanding_iff:
  "(\<exists>e. find_outstanding_by_dedupe_key p c key db = Some e) \<longleftrightarrow>
   (\<exists>j\<in>set (job_queue db). j_dedupe_key j = Some key \<and> j_plugin j = p \<and> j_command j = c \<and>
      outstanding_status (j_status j))"
proof -
  let ?P = "\<lambda>j. j_dedupe_key j = Some key \<and> j_plugin j = p \<and> j_command j = c \<and> outstanding_status (j_status j)"
  have "(\<exists>e. find_outstanding_by_dedupe_key p c key db = Some e) \<longleftrightarrow>
      last_max (\<lambda>j. rfc3339nano (j_created_at j)) (filter ?P (job_queue db)) \<noteq> None"
    by (auto simp: find_outstanding_by_dedupe_key_def simp del: last_max_None_iff)
  also have "\<dots> \<longleftrightarrow> (\<exists>j\<in>set (job_queue db). ?P j)"
    unfolding last_max_None_iff filter_empty_conv by blast
  finally show ?thesis .
qed

lemma find_recent_iff:
  "(\<exists>e. find_recent_succeeded_by_dedupe_key now p c key ttl db = Some e) \<longleftrightarrow>
   (\<exists>j\<in>set (job_queue db). \<exists>t. j_dedupe_key j = Some key \<and> j_plugin j = p \<and> j_command j = c \<and>
      j_status j = StatusSucceeded \<and> j_completed_at j = Some t \<and> ts_le (now - ttl) t)"
proof -
  let ?P = "\<lambda>j. j_dedupe_key j = Some key \<and> j_plugin j = p \<and> j_command j = c \<and>
     j_status j = StatusSucceeded \<and> (case j_completed_at j of None \<Rightarrow> False | Some t \<Rightarrow> ts_le (now - ttl) t)"
  have "(\<exists>e. find_recent_succeeded_by_dedupe_key now p c key ttl db = Some e) \<longleftrightarrow>
      last_max (\<lambda>j. case j_completed_at j of Some t \<Rightarrow> rfc3339nano t | None \<Rightarrow> []) (filter ?P (job_queue db)) \<noteq> None"
    by (auto simp: find_recent_succeeded_by_dedupe_key_def simp del: last_max_None_iff)
  also have "\<dots> \<longleftrightarrow> (\<exists>j\<in>set (job_queue db). ?P j)"
    unfolding last_max_None_iff filter_empty_conv by blast
  finally show ?thesis by (auto split: option.splits)
qed

text \<open>C4. An enqueue that carries a dedupe key and a TTL is dropped with a
  \<^verbatim>\<open>DedupeDropError\<close> exactly when the table holds a job with that (trimmed) key, plugin and
  command that is queued or running, or that succeeded no earlier than the TTL ago; otherwise it
  never reports a duplicate. A dropped enqueue writes nothing.\<close>

theorem enqueue_dedupe:
  assumes "rq_plugin req \<noteq> []" "rq_command req \<noteq> []" "rq_submitted_by req \<noteq> []"
    and "rq_dedupe_key req = Some k" "trim_space k \<noteq> []" "rq_dedupe_ttl req = Some ttl"
  shows "(\<exists>e. enqueue q jid now req db = (db, Inl (DedupeDropError (trim_space k) e))) \<longleftrightarrow>
    (\<exists>j\<in>set (job_queue db). j_dedupe_key j = Some (trim_space k) \<and> j_plugin j = rq_plugin req \<and>
       j_command j = rq_command req \<and>
       (outstanding_status (j_status j) \<or>
        (ttl > 0 \<and> j_status j = StatusSucceeded \<and> (\<exists>t. j_completed_at j = Some t \<and> ts_le (now - ttl) t))))"
proof -
  let ?o = "find_outstanding_by_dedupe_key (rq_plugin req) (rq_command req) (trim_space k) db"
  let ?r = "find_recent_succeeded_by_dedupe_key now (rq_plugin req) (rq_command req) (trim_space k) ttl db"
  have hit: "dedupe_hit q now req db =
     (case ?o of Some e \<Rightarrow> Some (trim_space k, e) | None \<Rightarrow> if ttl > 0 then map_option (Pair (trim_space k)) ?r else None)"
    using assms(4-6) by (simp add: dedupe_hit_def Let_def split: option.splits)
  have "(\<exists>e. enqueue q jid now req db = (db, Inl (DedupeDropError (trim_space k) e))) \<longleftrightarrow>
     (\<exists>e. dedupe_hit q now req db = Some (trim_space k, e))"
    using assms(1-3) by (auto simp: enqueue_def Let_def split: option.splits if_splits)
  also have "\<dots> \<longleftrightarrow> (\<exists>e. ?o = Some e) \<or> (ttl > 0 \<and> (\<exists>e. ?r = Some e))"
    unfolding hit by (cases ?o; cases ?r) auto
  finally show ?thesis unfolding find_outstanding_iff find_recent_iff by blast
qed

theorem enqueue_dedupe_witness:
  "\<exists>e. enqueue demo_conf ''j2'' (t0 + second) (demo_keyed ''k'') demo_db1 =
     (demo_db1, Inl (DedupeDropError (trim_space ''k'') e))"
proof -
  have "\<exists>j\<in>set (job_queue demo_db1). j_dedupe_key j = Some (trim_space ''k'') \<and>
      j_plugin j = rq_plugin (demo_keyed ''k'') \<and> j_command j = rq_command (demo_keyed ''k'') \<and>
      (outstanding_status (j_status j) \<or> (hour > 0 \<and> j_status j = StatusSucceeded \<and>
        (\<exists>t. j_completed_at j = Some t \<and> ts_le (t0 + second - hour) t)))"
    by (simp add: demo_db1_eq demo_row demo_trim demo_keyed_def demo_req_def outstanding_status_def)
  then show ?thesis
    by (subst enqueue_dedupe [of "demo_keyed ''k''" "''k''" hour]) (simp_all add: demo_keyed_def demo_req_def demo_trim)
qed

lemma enqueue_inserted:
  assumes "enqueue q jid now req db = (db1, Inr jid)" and "fresh_id jid db" and "rq_dedupe_key req = None"
    and "rq_source_event_id req = Some ev" "trim_space ev \<noteq> []"
  shows "rq_plugin req \<noteq> [] \<and> rq_command req \<noteq> [] \<and> rq_submitted_by req \<noteq> [] \<and>
    job_queue db1 = job_queue db @ [enqueue_row q jid now req]"
  using assms by (auto simp: enqueue_def dedupe_hit_def Let_def split: if_splits)

text \<open>Redelivery of one source event to one target is idempotent: once a routed request
  (parent job and source event set, no dedupe key) has been inserted, repeating it under any
  id and at any time reports a \<^verbatim>\<open>SourceEventConflictError\<close> and leaves the database unchanged.\<close>

theorem enqueue_redelivery:
  assumes first: "enqueue q jid now req db = (db1, Inr jid)" and fresh: "fresh_id jid db"
    and req: "rq_dedupe_key req = None" "rq_parent_job_id req = Some p" "rq_source_event_id req = Some ev"
      "trim_space ev \<noteq> []"
  shows "enqueue q' jid' now' req db1 =
     (db1, Inl (SourceEventConflictError p ev (rq_plugin req) (rq_command req)))"
proof -
  note ins = enqueue_inserted [OF first fresh req(1,3,4)]
  have "insert_conflict db1 (enqueue_row q' jid' now' req)"
    using req ins by (simp add: insert_conflict_def same_source_event_def enqueue_row_def)
  then show ?thesis using ins req by (simp add: enqueue_def dedupe_hit_def)
qed

definition demo_routed :: "string \<Rightarrow> enqueue_request" where
  "demo_routed p = (demo_req p ''handle'')\<lparr>rq_parent_job_id := Some ''root'', rq_source_event_id := Some ''ev''\<rparr>"

definition demo_routed_db :: queue_db where
  "demo_routed_db = fst (enqueue demo_conf ''j1'' t0 (demo_routed ''mail'') empty_db)"

lemma demo_routed_sel [simp]:
  "rq_dedupe_key (demo_routed p) = None" "rq_parent_job_id (demo_routed p) = Some ''root''"
  "rq_source_event_id (demo_routed p) = Some ''ev''" "rq_plugin (demo_routed p) = p"
  "rq_command (demo_routed p) = ''handle''" "rq_submitted_by (demo_routed p) = ''api''"
  by (simp_all add: demo_routed_def demo_req_def)

lemma demo_routed_first:
  "enqueue demo_conf ''j1'' t0 (demo_routed ''mail'') empty_db = (demo_routed_db, Inr ''j1'')"
  "fresh_id ''j1'' empty_db" "trim_space ''ev'' \<noteq> []"
  by (simp_all add: demo_routed_db_def enqueue_def dedupe_hit_def insert_conflict_def empty_db_def fresh_id_def
      trim_space_def is_space_def)

theorem enqueue_redelivery_witness:
  "enqueue demo_conf ''j2'' (t0 + 1) (demo_routed ''mail'') demo_routed_db =
     (demo_routed_db, Inl (SourceEventConflictError ''root'' ''ev'' ''mail'' ''handle''))"
  using enqueue_redelivery [OF demo_routed_first(1,2) _ _ _ demo_routed_first(3),
      of "''root''" demo_conf "''j2''" "t0 + 1"] by simp

text \<open>Fan-out is not serialised by the source-event index: one source event of one parent,
  enqueued for two different targets (another plugin or another command), yields two rows.\<close>

theorem enqueue_fan_out:
  assumes first: "enqueue q jid now req db = (db1, Inr jid)" and fresh: "fresh_id jid db"
    and req: "rq_dedupe_key req = None" "rq_source_event_id req = Some ev" "trim_space ev \<noteq> []"
    and req2: "req2 = req\<lparr>rq_plugin := p2, rq_command := c2\<rparr>" "p2 \<noteq> []" "c2 \<noteq> []"
    and other: "\<forall>j\<in>set (job_queue db1). (j_plugin j, j_command j) \<noteq> (p2, c2)"
    and fresh2: "fresh_id jid2 db1"
  shows "job_queue (fst (enqueue q jid2 now2 req2 db1)) =
     job_queue db @ [enqueue_row q jid now req, enqueue_row q jid2 now2 req2]"
proof -
  note ins = enqueue_inserted [OF first fresh req]
  have "\<not> insert_conflict db1 (enqueue_row q jid2 now2 req2)"
    using other fresh2 req2(1) by (auto simp: insert_conflict_def same_source_event_def fresh_id_def)
  then show ?thesis using ins req req2 by (simp add: enqueue_def dedupe_hit_def Let_def)
qed

theorem enqueue_fan_out_witness:
  "job_queue (fst (enqueue demo_conf ''j2'' (t0 + 1) (demo_routed ''chat'') demo_routed_db)) =
     [enqueue_row demo_conf ''j1'' t0 (demo_routed ''mail''), enqueue_row demo_conf ''j2'' (t0 + 1) (demo_routed ''chat'')]"
proof -
  have r2: "demo_routed ''chat'' = (demo_routed ''mail'')\<lparr>rq_plugin := ''chat'', rq_command := ''handle''\<rparr>"
    by (simp add: demo_routed_def demo_req_def)
  have q: "job_queue demo_routed_db = [enqueue_row demo_conf ''j1'' t0 (demo_routed ''mail'')]"
    using enqueue_inserted [OF demo_routed_first(1,2) _ _ demo_routed_first(3)] by (simp add: empty_db_def)
  have f: "fresh_id ''j2'' demo_routed_db"
    by (simp add: fresh_id_def q) (simp add: demo_routed_db_def enqueue_def dedupe_hit_def insert_conflict_def
        empty_db_def record_job_transition_def)
  show ?thesis
    using enqueue_fan_out [OF demo_routed_first(1,2) _ _ demo_routed_first(3) r2 _ _ _ f, of "t0 + 1"]
    by (simp add: q empty_db_def)
qed

end
