(* ===== verification/Go_Value.thy ===== *)
theory Go_Value
  imports Complex_Main Ductile_Prelude
begin

text \<open>
  Dynamically typed Go values (\<^verbatim>\<open>any\<close>) as the runtime meets them: decoded from JSON
  (numbers are \<^verbatim>\<open>float64\<close>) or from YAML (integers are \<^verbatim>\<open>int\<close>). A finite
  \<^verbatim>\<open>float64\<close> is its rational value; NaN and the infinities have no JSON form. A
  \<^verbatim>\<open>map[string]any\<close> is the list of its entries in strictly increasing key order
  (\<open>wf_val\<close>), so that \<^verbatim>\<open>reflect.DeepEqual\<close> on decoded values is equality: values of
  different dynamic types differ, numbers included.
\<close>

datatype gval =
    GNil
  | GBool bool
  | GInt int
  | GFloat rat
  | GStr string
  | GList "gval list"
  | GMap "(string \<times> gval) list"

type_synonym gmap = "(string \<times> gval) list"

section \<open>Maps\<close>

abbreviation map_get :: "(string \<times> 'v) list \<Rightarrow> string \<Rightarrow> 'v option" where
  "map_get \<equiv> map_of"

fun map_put :: "string \<Rightarrow> 'v \<Rightarrow> (string \<times> 'v) list \<Rightarrow> (string \<times> 'v) list" where
  "map_put k v [] = [(k, v)]"
| "map_put k v ((k', v') # m) =
     (if k = k' then (k, v) # m
      else if k < k' then (k, v) # (k', v') # m
      else (k', v') # map_put k v m)"

abbreviation keys_sorted :: "(string \<times> 'v) list \<Rightarrow> bool" where
  "keys_sorted m \<equiv> sorted_wrt (<) (map fst m)"

lemma map_get_put [simp]: "map_get (map_put k v m) k' = (if k' = k then Some v else map_get m k')"
  by (induction k v m rule: map_put.induct) auto

lemma set_map_put: "set (map_put k v m) \<subseteq> insert (k, v) (set m)"
  by (induction k v m rule: map_put.induct) auto

lemma keys_map_put: "fst ` set (map_put k v m) = insert k (fst ` set m)"
  by (induction k v m rule: map_put.induct) auto

lemma keys_sorted_map_put: "keys_sorted m \<Longrightarrow> keys_sorted (map_put k v m)"
proof (induction k v m rule: map_put.induct)
  case (2 k v k' v' m)
  show ?case
  proof (cases "k = k' \<or> k < k'")
    case True
    with 2 show ?thesis by auto
  next
    case False
    then have "k' < k" by auto
    moreover have "fst ` set (map_put k v m) = insert k (fst ` set m)" by (rule keys_map_put)
    ultimately show ?thesis using False 2 by auto
  qed
qed simp

lemma map_put_not_Nil [simp]: "map_put k v m \<noteq> []"
  by (induction k v m rule: map_put.induct) auto

lemma entries_from_keys:
  "distinct (map fst m) \<Longrightarrow> map (\<lambda>k. (k, the (map_get m k))) (map fst m) = m"
  by (auto simp: comp_def intro!: map_idI)

lemma keys_sorted_ext:
  assumes "keys_sorted m" "keys_sorted n" and "\<And>k. map_get m k = map_get n k"
  shows "m = n"
proof -
  have d: "distinct (map fst m)" "distinct (map fst n)"
    using assms(1,2) by (auto simp: strict_sorted_iff)
  have eq: "map_get m = map_get n" using assms(3) by (rule ext)
  then have "fst ` set m = fst ` set n" by (metis dom_map_of_conv_image_fst)
  then have "map fst m = map fst n"
    by (intro strict_sorted_equal assms) simp_all
  then show ?thesis
    using entries_from_keys [OF d(1)] entries_from_keys [OF d(2)] eq by metis
qed

section \<open>Well-formed values\<close>

fun wf_val :: "gval \<Rightarrow> bool" where
  "wf_val (GList vs) \<longleftrightarrow> (\<forall>v\<in>set vs. wf_val v)"
| "wf_val (GMap m) \<longleftrightarrow> keys_sorted m \<and> (\<forall>e\<in>set m. wf_val (snd e))"
| "wf_val _ \<longleftrightarrow> True"

lemma wf_val_get: "wf_val (GMap m) \<Longrightarrow> map_get m k = Some v \<Longrightarrow> wf_val v"
  by (force dest: map_of_SomeD)

lemma wf_val_put: "wf_val (GMap m) \<Longrightarrow> wf_val v \<Longrightarrow> wf_val (GMap (map_put k v m))"
  using set_map_put [of k v m] by (auto simp: keys_sorted_map_put)

section \<open>Numbers\<close>

text \<open>\<^verbatim>\<open>float64(n)\<close> of an integer: exact below \<open>2^53\<close>, else rounded to 53
  significant bits, ties to even.\<close>

function excess_bits :: "int \<Rightarrow> nat" where
  "excess_bits a = (if a < 2 ^ 53 then 0 else Suc (excess_bits (a div 2)))"
  by pat_completeness auto
termination
  by (relation "measure nat") auto

declare excess_bits.simps [simp del]

definition f64_of_int :: "int \<Rightarrow> int" where
  "f64_of_int n =
     (let a = \<bar>n\<bar>; e = excess_bits a; q = a div 2 ^ e; r = a mod 2 ^ e;
          up = (2 * r > 2 ^ e \<or> (2 * r = 2 ^ e \<and> odd q \<and> e > 0))
      in sgn n * ((if up then q + 1 else q) * 2 ^ e))"

lemma f64_of_int_small: "\<bar>n\<bar> < 2 ^ 53 \<Longrightarrow> f64_of_int n = n"
  by (simp add: f64_of_int_def excess_bits.simps [of "\<bar>n\<bar>"] mult_sgn_abs)

text \<open>\<^verbatim>\<open>int(f)\<close> truncates towards zero; out of the range of \<^verbatim>\<open>int\<close> the result is the
  least \<^verbatim>\<open>int\<close>, as on amd64.\<close>

definition int_of_f64 :: "rat \<Rightarrow> int" where
  "int_of_f64 r =
     (let t = (if r < 0 then - \<lfloor>- r\<rfloor> else \<lfloor>r\<rfloor>) in if in_int64 t then t else - (2 ^ 63))"

lemma int_of_f64_of_int [simp]: "in_int64 n \<Longrightarrow> int_of_f64 (of_int n) = n"
  by (simp add: int_of_f64_def)

section \<open>Cloning through JSON\<close>

text \<open>\<^verbatim>\<open>json.Unmarshal(json.Marshal(v))\<close>: the structure is kept and every number comes
  back as a \<^verbatim>\<open>float64\<close>.\<close>

fun json_clone :: "gval \<Rightarrow> gval" where
  "json_clone (GInt n) = GFloat (of_int (f64_of_int n))"
| "json_clone (GList vs) = GList (map json_clone vs)"
| "json_clone (GMap m) = GMap (map (\<lambda>(k, v). (k, json_clone v)) m)"
| "json_clone v = v"

fun json_val :: "gval \<Rightarrow> bool" where
  "json_val (GInt n) \<longleftrightarrow> False"
| "json_val (GList vs) \<longleftrightarrow> (\<forall>v\<in>set vs. json_val v)"
| "json_val (GMap m) \<longleftrightarrow> (\<forall>e\<in>set m. json_val (snd e))"
| "json_val _ \<longleftrightarrow> True"

lemma json_clone_id: "json_val v \<Longrightarrow> json_clone v = v"
proof (induction v rule: json_clone.induct)
  case (2 vs)
  then show ?case by (simp add: map_idI)
next
  case (3 m)
  have "map (\<lambda>(k, v). (k, json_clone v)) m = map (\<lambda>x. x) m"
    using 3 by (intro map_cong) (auto simp: case_prod_beta)
  then show ?case by simp
qed simp_all

lemma json_val_clone: "json_val (json_clone v)"
  by (induction v rule: json_clone.induct) auto

end
