(* ===== verification/Conditions.thy ===== *)
theory Conditions
  imports Go_Value
begin

text \<open>
  The predicate language of pipelines, \<^verbatim>\<open>src/internal/router/conditions\<close>: dotted paths over
  the payload, context and config of an event (\<^verbatim>\<open>paths.go\<close>), the atomic operators
  (\<^verbatim>\<open>ops.go\<close>), the evaluator (\<^verbatim>\<open>eval.go\<close>) and the load-time validator
  (\<^verbatim>\<open>validate.go\<close>). The regular-expression engine is the parameter \<open>rx\<close>:
  \<open>rx p\<close> is \<open>None\<close> when \<^verbatim>\<open>regexp.Compile(p)\<close> fails and otherwise the predicate
  \<^verbatim>\<open>MatchString\<close>; a compiled regexp is kept as its pattern.
  A scope root that is a nil map is an empty map here: a path below it is absent either way.
\<close>

section \<open>Data\<close>

type_synonym regex_engine = "string \<Rightarrow> (string \<Rightarrow> bool) option"

datatype condition = Condition
  (c_path: string) (c_op: string) (c_value: gval)
  (c_all: "condition list") (c_any: "condition list") (c_not: "condition option")
  (c_regex: "string option")

record scope =
  s_payload :: gmap
  s_context :: gmap
  s_config :: gmap

datatype cond_error =
    PathEmpty | UnsupportedRoot string | EmptySegment
  | RequiresArray string | NumericPathValue string | NumericComparison string
  | StringPathValue string | StringComparison string | InvalidRegex string | UnsupportedOperator string

definition supported_operators :: "string list" where
  "supported_operators = [''exists'', ''eq'', ''neq'', ''in'', ''gt'', ''gte'', ''lt'', ''lte'',
     ''contains'', ''startswith'', ''endswith'', ''regex'']"

section \<open>Paths\<close>

fun walk_path :: "gval \<Rightarrow> string list \<Rightarrow> cond_error + (bool \<times> gval)" where
  "walk_path current [] = Inr (True, current)"
| "walk_path current (seg # rest) =
     (if trim_space seg = [] then Inl EmptySegment
      else case current of
        GMap obj \<Rightarrow> (case map_get obj seg of None \<Rightarrow> Inr (False, GNil) | Some nxt \<Rightarrow> walk_path nxt rest)
      | _ \<Rightarrow> Inr (False, GNil))"

definition scope_root :: "scope \<Rightarrow> string \<Rightarrow> gmap option" where
  "scope_root s r =
     (if r = ''payload'' then Some (s_payload s)
      else if r = ''context'' then Some (s_context s)
      else if r = ''config'' then Some (s_config s)
      else None)"

definition resolve_path :: "scope \<Rightarrow> string \<Rightarrow> cond_error + (bool \<times> gval)" where
  "resolve_path s path =
     (let trimmed = trim_space path in
      if trimmed = [] then Inl PathEmpty
      else case split_on (CHR ''.'') trimmed of
        [] \<Rightarrow> Inl PathEmpty
      | rt # rest \<Rightarrow>
         (case scope_root s rt of
            None \<Rightarrow> Inl (UnsupportedRoot rt)
          | Some m \<Rightarrow> walk_path (GMap m) rest))"

fun references_root :: "string \<Rightarrow> condition \<Rightarrow> bool" where
  "references_root rt (Condition p op v al an nt rc) \<longleftrightarrow>
     (trim_space p \<noteq> [] \<and> takeWhile (\<lambda>c. c \<noteq> CHR ''.'') (trim_space p) = rt) \<or>
     (\<exists>c\<in>set al. references_root rt c) \<or>
     (\<exists>c\<in>set an. references_root rt c) \<or>
     (case nt of None \<Rightarrow> False | Some c \<Rightarrow> references_root rt c)"

section \<open>Atomic operators\<close>

definition as_number :: "gval \<Rightarrow> rat option" where
  "as_number v = (case v of GInt n \<Rightarrow> Some (of_int (f64_of_int n)) | GFloat r \<Rightarrow> Some r | _ \<Rightarrow> None)"

definition compare_numbers :: "string \<Rightarrow> rat \<Rightarrow> rat \<Rightarrow> bool" where
  "compare_numbers op l r =
     (if op = ''gt'' then l > r else if op = ''gte'' then l \<ge> r
      else if op = ''lt'' then l < r else if op = ''lte'' then l \<le> r else False)"

definition compare_strings :: "string \<Rightarrow> string \<Rightarrow> string \<Rightarrow> bool" where
  "compare_strings op l r =
     (let lf = to_lower l; rf = to_lower r in
      if op = ''contains'' then sublist rf lf
      else if op = ''startswith'' then prefix rf lf
      else if op = ''endswith'' then suffix rf lf
      else False)"

definition string_operands :: "string \<Rightarrow> gval \<Rightarrow> gval \<Rightarrow> cond_error + (string \<times> string)" where
  "string_operands op actual value =
     (case actual of
        GStr l \<Rightarrow> (case value of GStr r \<Rightarrow> Inr (l, r) | _ \<Rightarrow> Inl (StringComparison op))
      | _ \<Rightarrow> Inl (StringPathValue op))"

definition anchored :: "string \<Rightarrow> string" where
  "anchored p = ''^(?:'' @ p @ '')$''"

definition apply_operator ::
  "regex_engine \<Rightarrow> string \<Rightarrow> gval \<Rightarrow> string option \<Rightarrow> bool \<Rightarrow> gval \<Rightarrow> cond_error + bool" where
  "apply_operator rx op value rc present actual =
     (if op = ''exists'' then Inr present
      else if op = ''eq'' then Inr (actual = value)
      else if op = ''neq'' then Inr (actual \<noteq> value)
      else if op = ''in'' then
        (case value of GList vs \<Rightarrow> Inr (actual \<in> set vs) | _ \<Rightarrow> Inl (RequiresArray op))
      else if op \<in> {''gt'', ''gte'', ''lt'', ''lte''} then
        (case as_number actual of
           None \<Rightarrow> Inl (NumericPathValue op)
         | Some l \<Rightarrow> (case as_number value of
                        None \<Rightarrow> Inl (NumericComparison op)
                      | Some r \<Rightarrow> Inr (compare_numbers op l r)))
      else if op \<in> {''contains'', ''startswith'', ''endswith''} then
        bind_result (string_operands op actual value) (\<lambda>(l, r). Inr (compare_strings op l r))
      else if op = ''regex'' then
        bind_result (string_operands op actual value) (\<lambda>(l, r).
          case rc of
            Some p \<Rightarrow> (case rx p of Some m \<Rightarrow> Inr (m l) | None \<Rightarrow> Inl (InvalidRegex op))
          | None \<Rightarrow> (case rx (anchored r) of Some m \<Rightarrow> Inr (m l) | None \<Rightarrow> Inl (InvalidRegex op)))
      else Inl (UnsupportedOperator op))"

definition eval_atomic ::
  "regex_engine \<Rightarrow> string \<Rightarrow> string \<Rightarrow> gval \<Rightarrow> string option \<Rightarrow> scope \<Rightarrow> cond_error + bool" where
  "eval_atomic rx path op value rc s =
     bind_result (resolve_path s path)
       (\<lambda>(present, actual). apply_operator rx op value rc present actual)"

section \<open>Evaluation\<close>

fun eval :: "regex_engine \<Rightarrow> scope \<Rightarrow> condition \<Rightarrow> cond_error + bool"
and eval_all :: "regex_engine \<Rightarrow> scope \<Rightarrow> condition list \<Rightarrow> cond_error + bool"
and eval_any :: "regex_engine \<Rightarrow> scope \<Rightarrow> condition list \<Rightarrow> cond_error + bool" where
  "eval rx s (Condition p op v al an nt rc) =
     (if al \<noteq> [] then eval_all rx s al
      else if an \<noteq> [] then eval_any rx s an
      else case nt of
        Some c \<Rightarrow> (case eval rx s c of Inl e \<Rightarrow> Inl e | Inr b \<Rightarrow> Inr (\<not> b))
      | None \<Rightarrow> eval_atomic rx p op v rc s)"
| "eval_all rx s [] = Inr True"
| "eval_all rx s (c # cs) =
     (case eval rx s c of Inl e \<Rightarrow> Inl e | Inr b \<Rightarrow> if b then eval_all rx s cs else Inr False)"
| "eval_any rx s [] = Inr False"
| "eval_any rx s (c # cs) =
     (case eval rx s c of Inl e \<Rightarrow> Inl e | Inr b \<Rightarrow> if b then Inr True else eval_any rx s cs)"

section \<open>Validation\<close>

definition max_depth_default :: nat where
  "max_depth_default = 3"

definition max_predicates_default :: nat where
  "max_predicates_default = 20"

datatype validation_message =
    DepthExceeded | CountExceeded | ExactlyOneMode | PathRequired | OpRequired | BadOperator string
  | ValueNotAllowed | ValueRequired string | ValueMustBeArray | ValueMustBeString string | BadRegex
  | PathTooShort | BadRoot string | PathEmptySegment

datatype validation_error = ValidationError (ve_path: string) (ve_message: validation_message)

definition validate_path :: "string \<Rightarrow> string \<Rightarrow> validation_error option" where
  "validate_path path loc =
     (let parts = split_on (CHR ''.'') (trim_space path) in
      if length parts < 2 then Some (ValidationError loc PathTooShort)
      else if hd parts \<noteq> ''payload'' \<and> hd parts \<noteq> ''context'' \<and> hd parts \<noteq> ''config''
      then Some (ValidationError loc (BadRoot (hd parts)))
      else if \<exists>part\<in>set parts. trim_space part = [] then Some (ValidationError loc PathEmptySegment)
      else None)"

definition requires_string_value :: "string \<Rightarrow> bool" where
  "requires_string_value op \<longleftrightarrow> op \<in> {''contains'', ''startswith'', ''endswith'', ''regex''}"

text \<open>The atomic part of \<^verbatim>\<open>validate\<close>; the result is the compiled regexp it stores.\<close>

definition validate_atomic ::
  "regex_engine \<Rightarrow> string \<Rightarrow> string \<Rightarrow> string \<Rightarrow> gval \<Rightarrow> string option \<Rightarrow> validation_error + string option" where
  "validate_atomic rx loc path op value rc =
     (if trim_space path = [] then Inl (ValidationError loc PathRequired)
      else case validate_path path (loc @ ''.path'') of
        Some e \<Rightarrow> Inl e
      | None \<Rightarrow>
         if trim_space op = [] then Inl (ValidationError loc OpRequired)
         else if op \<notin> set supported_operators then Inl (ValidationError (loc @ ''.op'') (BadOperator op))
         else if op = ''exists'' then
           (if value \<noteq> GNil then Inl (ValidationError (loc @ ''.value'') ValueNotAllowed) else Inr rc)
         else if value = GNil then Inl (ValidationError (loc @ ''.value'') (ValueRequired op))
         else if op = ''in'' \<and> (case value of GList _ \<Rightarrow> False | _ \<Rightarrow> True)
         then Inl (ValidationError (loc @ ''.value'') ValueMustBeArray)
         else if requires_string_value op then
           (case value of
              GStr str \<Rightarrow>
                if op = ''regex'' then
                  (case rx (anchored str) of
                     None \<Rightarrow> Inl (ValidationError (loc @ ''.value'') BadRegex)
                   | Some _ \<Rightarrow> Inr (Some (anchored str)))
                else Inr rc
            | _ \<Rightarrow> Inl (ValidationError (loc @ ''.value'') (ValueMustBeString op)))
         else Inr rc)"

definition mode_count :: "condition \<Rightarrow> nat" where
  "mode_count c =
     (if trim_space (c_path c) \<noteq> [] \<or> trim_space (c_op c) \<noteq> [] \<or> c_value c \<noteq> GNil then 1 else 0) +
     (if c_all c \<noteq> [] then 1 else 0) + (if c_any c \<noteq> [] then 1 else 0) +
     (if c_not c \<noteq> None then 1 else 0)"

definition indexed :: "string \<Rightarrow> string \<Rightarrow> nat \<Rightarrow> string" where
  "indexed loc field i = loc @ ''.'' @ field @ ''['' @ int_str (int i) @ '']''"

fun validate_at ::
  "regex_engine \<Rightarrow> string \<Rightarrow> nat \<Rightarrow> condition \<Rightarrow> nat \<Rightarrow> validation_error + (condition \<times> nat)"
and validate_list ::
  "regex_engine \<Rightarrow> string \<Rightarrow> string \<Rightarrow> nat \<Rightarrow> nat \<Rightarrow> condition list \<Rightarrow> nat
   \<Rightarrow> validation_error + (condition list \<times> nat)" where
  "validate_at rx loc depth (Condition p op v al an nt rc) count =
     (if depth > max_depth_default then Inl (ValidationError loc DepthExceeded)
      else if count + 1 > max_predicates_default then Inl (ValidationError loc CountExceeded)
      else if mode_count (Condition p op v al an nt rc) \<noteq> 1 then Inl (ValidationError loc ExactlyOneMode)
      else if al \<noteq> [] then
        (case validate_list rx loc ''all'' 0 (depth + 1) al (count + 1) of
           Inl e \<Rightarrow> Inl e | Inr (al', n) \<Rightarrow> Inr (Condition p op v al' an nt rc, n))
      else if an \<noteq> [] then
        (case validate_list rx loc ''any'' 0 (depth + 1) an (count + 1) of
           Inl e \<Rightarrow> Inl e | Inr (an', n) \<Rightarrow> Inr (Condition p op v al an' nt rc, n))
      else case nt of
        Some c \<Rightarrow>
          (case validate_at rx (loc @ ''.not'') (depth + 1) c (count + 1) of
             Inl e \<Rightarrow> Inl e | Inr (c', n) \<Rightarrow> Inr (Condition p op v al an (Some c') rc, n))
      | None \<Rightarrow>
          (case validate_atomic rx loc p op v rc of
             Inl e \<Rightarrow> Inl e | Inr rc' \<Rightarrow> Inr (Condition p op v al an nt rc', count + 1)))"
| "validate_list rx loc field i depth [] count = Inr ([], count)"
| "validate_list rx loc field i depth (c # cs) count =
     (case validate_at rx (indexed loc field i) depth c count of
        Inl e \<Rightarrow> Inl e
      | Inr (c', n) \<Rightarrow>
         (case validate_list rx loc field (i + 1) depth cs n of
            Inl e \<Rightarrow> Inl e | Inr (cs', n') \<Rightarrow> Inr (c' # cs', n')))"

definition validate :: "regex_engine \<Rightarrow> condition \<Rightarrow> validation_error + condition" where
  "validate rx c = map_sum id fst (validate_at rx ''if'' 1 c 0)"

end
