(* ===== verification/Condition_Properties.thy ===== *)
theory Condition_Properties
  imports Conditions
begin

text \<open>
  What the predicate language guarantees: the evaluator computes the boolean reading of the
  tree, the static test \<^verbatim>\<open>ReferencesRoot\<close> is sound, the validator enforces its limits, and a
  validated tree can only fail at run time on the type of an operand.
\<close>

section \<open>The boolean reading\<close>

text \<open>The meaning of a tree over a valuation \<open>A\<close> of its atomic predicates.\<close>

fun denote :: "(condition \<Rightarrow> bool) \<Rightarrow> condition \<Rightarrow> bool" where
  "denote A (Condition p op v al an nt rc) \<longleftrightarrow>
     (if al \<noteq> [] then \<forall>c\<in>set al. denote A c
      else if an \<noteq> [] then \<exists>c\<in>set an. denote A c
      else case nt of Some c \<Rightarrow> \<not> denote A c | None \<Rightarrow> A (Condition p op v al an nt rc))"

definition agrees :: "regex_engine \<Rightarrow> scope \<Rightarrow> (condition \<Rightarrow> bool) \<Rightarrow> bool" where
  "agrees rx s A \<longleftrightarrow>
     (\<forall>c b. eval_atomic rx (c_path c) (c_op c) (c_value c) (c_regex c) s = Inr b \<longrightarrow> A c = b)"

lemma agrees_atomic:
  "agrees rx s A \<Longrightarrow> eval_atomic rx p op v rc s = Inr b \<Longrightarrow> A (Condition p op v al an nt rc) = b"
  by (metis agrees_def condition.sel)

lemma eval_denotes:
  "agrees rx s A \<Longrightarrow> eval rx s c = Inr b \<Longrightarrow> denote A c = b"
  "agrees rx s A \<Longrightarrow> eval_all rx s cs = Inr b \<Longrightarrow> (\<forall>c\<in>set cs. denote A c) = b"
  "agrees rx s A \<Longrightarrow> eval_any rx s cs = Inr b \<Longrightarrow> (\<exists>c\<in>set cs. denote A c) = b"
proof (induction rx s c and rx s cs and rx s cs arbitrary: b and b and b rule: eval_eval_all_eval_any.induct)
  case (1 rx s p op v al an nt rc)
  then show ?case by (auto simp: agrees_atomic split: if_splits option.splits sum.splits)
qed (auto split: if_splits sum.splits)

section \<open>Scope roots\<close>

lemma hd_split_on: "hd (split_on c s) = takeWhile (\<lambda>x. x \<noteq> c) s"
  by (induction s) (auto split: list.splits)

lemma split_on_shape: "\<exists>rest. split_on c s = takeWhile (\<lambda>x. x \<noteq> c) s # rest"
  by (metis hd_split_on list.exhaust_sel split_on_not_Nil)

definition agree_except :: "string \<Rightarrow> scope \<Rightarrow> scope \<Rightarrow> bool" where
  "agree_except rt s s' \<longleftrightarrow> (\<forall>r. r \<noteq> rt \<longrightarrow> scope_root s r = scope_root s' r)"

lemma resolve_path_other_root:
  assumes "agree_except rt s s'"
    and "trim_space p = [] \<or> takeWhile (\<lambda>c. c \<noteq> CHR ''.'') (trim_space p) \<noteq> rt"
  shows "resolve_path s p = resolve_path s' p"
proof -
  obtain rest where "split_on (CHR ''.'') (trim_space p) =
      takeWhile (\<lambda>x. x \<noteq> CHR ''.'') (trim_space p) # rest"
    using split_on_shape by blast
  with assms show ?thesis by (auto simp: agree_except_def resolve_path_def Let_def)
qed

lemma eval_other_root:
  "agree_except rt s s' \<Longrightarrow> \<not> references_root rt c \<Longrightarrow> eval rx s c = eval rx s' c"
  "agree_except rt s s' \<Longrightarrow> \<forall>c\<in>set cs. \<not> references_root rt c \<Longrightarrow> eval_all rx s cs = eval_all rx s' cs"
  "agree_except rt s s' \<Longrightarrow> \<forall>c\<in>set cs. \<not> references_root rt c \<Longrightarrow> eval_any rx s cs = eval_any rx s' cs"
proof (induction rx s c and rx s cs and rx s cs rule: eval_eval_all_eval_any.induct)
  case (1 rx s p op v al an nt rc)
  have "resolve_path s p = resolve_path s' p"
    using 1 by (intro resolve_path_other_root [of rt]) auto
  then have "eval_atomic rx p op v rc s = eval_atomic rx p op v rc s'"
    by (simp add: eval_atomic_def)
  with 1 show ?case by (auto split: option.splits)
qed (auto split: sum.splits)

section \<open>Validated trees\<close>

fun predicate_count :: "condition \<Rightarrow> nat" where
  "predicate_count (Condition p op v al an nt rc) =
     1 + sum_list (map predicate_count al) + sum_list (map predicate_count an) +
     (case nt of None \<Rightarrow> 0 | Some c \<Rightarrow> predicate_count c)"

fun nesting :: "condition \<Rightarrow> nat" where
  "nesting (Condition p op v al an nt rc) =
     1 + fold max (map nesting al) (fold max (map nesting an)
           (case nt of None \<Rightarrow> 0 | Some c \<Rightarrow> nesting c))"

lemma add_fold_max_le: "d + fold max xs a \<le> (n::nat) \<longleftrightarrow> d + a \<le> n \<and> (\<forall>x\<in>set xs. d + x \<le> n)"
  by (induction xs arbitrary: a) (auto simp: max_def)

text \<open>What a validated atom satisfies: a two-part path with a known root, a known operator, and a
  value of the right type.\<close>

definition atom_ok :: "regex_engine \<Rightarrow> string \<Rightarrow> string \<Rightarrow> gval \<Rightarrow> string option \<Rightarrow> bool" where
  "atom_ok rx p op v rc \<longleftrightarrow>
     validate_path p [] = None \<and> op \<in> set supported_operators \<and>
     (op = ''in'' \<longrightarrow> (\<exists>vs. v = GList vs)) \<and>
     (requires_string_value op \<longrightarrow> (\<exists>str. v = GStr str)) \<and>
     (op = ''regex'' \<longrightarrow> (\<exists>pat m. rc = Some pat \<and> rx pat = Some m))"

fun tree_ok :: "regex_engine \<Rightarrow> condition \<Rightarrow> bool" where
  "tree_ok rx (Condition p op v al an nt rc) \<longleftrightarrow>
     (\<forall>c\<in>set al. tree_ok rx c) \<and> (\<forall>c\<in>set an. tree_ok rx c) \<and>
     (case nt of None \<Rightarrow> al = [] \<and> an = [] \<longrightarrow> atom_ok rx p op v rc | Some c \<Rightarrow> tree_ok rx c)"

lemma validate_path_loc: "validate_path p loc = None \<longleftrightarrow> validate_path p [] = None"
  by (simp add: validate_path_def Let_def)

lemma regex_requires_string: "requires_string_value ''regex''" "\<not> requires_string_value ''exists''"
  "\<not> requires_string_value ''in''"
  by (simp_all add: requires_string_value_def)

lemma validate_atomic_ok:
  assumes "validate_atomic rx loc p op v rc = Inr rc'"
  shows "atom_ok rx p op v rc'"
proof -
  have pre: "validate_path p (loc @ ''.path'') = None" "op \<in> set supported_operators"
    using assms unfolding validate_atomic_def by (cases "validate_path p (loc @ ''.path'')"; simp split: if_splits)+
  have val: "\<not> (trim_space p = [])" "\<not> (trim_space op = [])"
    using assms unfolding validate_atomic_def by (cases "validate_path p (loc @ ''.path'')"; simp split: if_splits)+
  note red = assms [unfolded validate_atomic_def, simplified pre val option.case if_False simp_thms]
  have arr: "\<exists>vs. v = GList vs" if "op = ''in''"
    using red that by (cases v) simp_all
  have str: "\<exists>str. v = GStr str" if r: "requires_string_value op"
  proof -
    have "op \<noteq> ''exists''" "op \<noteq> ''in''" using r regex_requires_string by blast+
    with red r show ?thesis by (cases v) simp_all
  qed
  have re: "\<exists>pat m. rc' = Some pat \<and> rx pat = Some m" if "op = ''regex''"
    using red pre(2) that str by (cases v) (auto simp: regex_requires_string split: if_splits option.splits)
  have "validate_path p [] = None" using pre(1) validate_path_loc by blast
  with pre(2) arr str re show ?thesis by (simp add: atom_ok_def)
qed

lemma mode_count_one:
  assumes "mode_count (Condition p op v al an nt rc) = 1"
  shows "al \<noteq> [] \<Longrightarrow> an = [] \<and> nt = None" "an \<noteq> [] \<Longrightarrow> al = [] \<and> nt = None"
    "nt \<noteq> None \<Longrightarrow> al = [] \<and> an = []"
  using assms by (auto simp: mode_count_def split: if_splits)

lemma validate_at_ok:
  "validate_at rx loc d c n = Inr (c', n') \<Longrightarrow>
     tree_ok rx c' \<and> n' = n + predicate_count c' \<and> n' \<le> max_predicates_default \<and> d + nesting c' \<le> max_depth_default + 1"
  "validate_list rx loc field i d cs n = Inr (cs', n') \<Longrightarrow>
     (\<forall>c\<in>set cs'. tree_ok rx c) \<and> n' = n + sum_list (map predicate_count cs') \<and>
     length cs' = length cs \<and>
     (n \<le> max_predicates_default \<longrightarrow> n' \<le> max_predicates_default) \<and>
     (\<forall>c\<in>set cs'. d + nesting c \<le> max_depth_default + 1)"
proof (induction rx loc d c n and rx loc field i d cs n arbitrary: c' n' and cs' n'
    rule: validate_at_validate_list.induct)
  case (1 rx loc d p op v al an nt rc n)
  let ?c = "Condition p op v al an nt rc"
  from "1.prems" have m: "mode_count ?c = 1" "d \<le> max_depth_default" "n + 1 \<le> max_predicates_default"
    by (auto split: if_splits)
  note modes = mode_count_one [OF m(1)]
  consider (al) "al \<noteq> []" "an = []" "nt = None" | (an) "an \<noteq> []" "al = []" "nt = None"
    | (nt) c where "nt = Some c" "al = []" "an = []" | (at) "nt = None" "al = []" "an = []"
    using modes by (cases nt) blast+
  then show ?case
  proof cases
    case al
    with "1.prems" m obtain al' where al': "validate_list rx loc ''all'' 0 (d + 1) al (n + 1) = Inr (al', n')"
      "c' = Condition p op v al' an nt rc" by (auto split: sum.splits)
    with 1(1) al m have ih: "\<forall>c\<in>set al'. tree_ok rx c" "n' = n + 1 + sum_list (map predicate_count al')"
      "length al' = length al" "n' \<le> max_predicates_default" "\<forall>c\<in>set al'. d + 1 + nesting c \<le> max_depth_default + 1"
      by (simp_all add: not_less)
    then have "al' \<noteq> []" using al by auto
    with ih m al show ?thesis by (auto simp: al'(2) add_fold_max_le)
  next
    case an
    with "1.prems" m obtain an' where an': "validate_list rx loc ''any'' 0 (d + 1) an (n + 1) = Inr (an', n')"
      "c' = Condition p op v al an' nt rc" by (auto split: sum.splits)
    with 1(2) an m have ih: "\<forall>c\<in>set an'. tree_ok rx c" "n' = n + 1 + sum_list (map predicate_count an')"
      "length an' = length an" "n' \<le> max_predicates_default" "\<forall>c\<in>set an'. d + 1 + nesting c \<le> max_depth_default + 1"
      by (simp_all add: not_less)
    then have "an' \<noteq> []" using an by auto
    with ih m an show ?thesis by (auto simp: an'(2) add_fold_max_le)
  next
    case nt
    with "1.prems" m obtain c'' where c'': "validate_at rx (loc @ ''.not'') (d + 1) c (n + 1) = Inr (c'', n')"
      "c' = Condition p op v al an (Some c'') rc" by (auto split: sum.splits)
    with 1(3) nt m have "tree_ok rx c''" "n' = n + 1 + predicate_count c''" "n' \<le> max_predicates_default"
      "d + 1 + nesting c'' \<le> max_depth_default + 1"
      by (simp_all add: not_less)
    with m nt show ?thesis by (simp add: c''(2))
  next
    case at
    with "1.prems" m show ?thesis by (auto simp: validate_atomic_ok split: sum.splits)
  qed
next
  case (3 rx loc field i d c cs n)
  from "3.prems" obtain c1 n1 cs1 where step: "validate_at rx (indexed loc field i) d c n = Inr (c1, n1)"
    "validate_list rx loc field (i + 1) d cs n1 = Inr (cs1, n')" "cs' = c1 # cs1"
    by (auto split: sum.splits)
  from "3.IH"(1) [OF step(1)] "3.IH"(2) [OF step(1) refl step(2)] step(3) show ?case by simp
qed auto

lemma walk_path_total:
  "\<forall>part\<in>set parts. trim_space part \<noteq> [] \<Longrightarrow> \<exists>present v. walk_path cur parts = Inr (present, v)"
  by (induction cur parts rule: walk_path.induct) (auto split: gval.splits option.splits)

lemma resolve_path_total:
  assumes "validate_path p [] = None"
  shows "\<exists>present v. resolve_path s p = Inr (present, v)"
proof -
  obtain rt rest where parts: "split_on (CHR ''.'') (trim_space p) = rt # rest"
    by (metis neq_Nil_conv split_on_not_Nil)
  have ok: "rt \<in> {''payload'', ''context'', ''config''}" "\<forall>part\<in>set rest. trim_space part \<noteq> []" "rest \<noteq> []"
    using assms by (auto simp: validate_path_def Let_def parts split: if_splits)
  have "trim_space p \<noteq> []" using parts ok(3) by auto
  moreover obtain m where "scope_root s rt = Some m" using ok(1) by (auto simp: scope_root_def)
  ultimately show ?thesis
    using walk_path_total [OF ok(2), of "GMap m"] by (simp add: resolve_path_def parts)
qed

definition operand_error :: "cond_error \<Rightarrow> bool" where
  "operand_error e \<longleftrightarrow>
     (\<exists>op. e = NumericPathValue op \<or> e = NumericComparison op \<or> e = StringPathValue op)"

lemma apply_operator_ok:
  assumes "atom_ok rx p op v rc" and "apply_operator rx op v rc present actual = Inl e"
  shows "operand_error e"
proof -
  have mem: "op \<in> set supported_operators" using assms(1) by (simp add: atom_ok_def)
  have "op \<in> {''exists'', ''eq'', ''neq''} \<or> op = ''in'' \<or> op \<in> {''gt'', ''gte'', ''lt'', ''lte''} \<or>
      op \<in> {''contains'', ''startswith'', ''endswith''} \<or> op = ''regex''"
    using mem by (simp add: supported_operators_def)
  then show ?thesis
  proof (elim disjE)
    assume "op \<in> {''exists'', ''eq'', ''neq''}"
    then have False using assms(2) unfolding apply_operator_def by (elim insertE; simp)
    then show ?thesis ..
  next
    assume op: "op = ''in''"
    then obtain vs where "v = GList vs" using assms(1) by (auto simp: atom_ok_def)
    with op assms(2) show ?thesis by (simp add: apply_operator_def)
  next
    assume "op \<in> {''gt'', ''gte'', ''lt'', ''lte''}"
    with assms(2) have "e = NumericPathValue op \<or> e = NumericComparison op"
      unfolding apply_operator_def
      by (elim insertE; cases "as_number actual"; cases "as_number v"; simp)
    then show ?thesis unfolding operand_error_def by blast
  next
    assume op: "op \<in> {''contains'', ''startswith'', ''endswith''}"
    then have "requires_string_value op" by (simp add: requires_string_value_def) argo
    then obtain str where v: "v = GStr str" using assms(1) by (auto simp: atom_ok_def)
    have "e = StringPathValue op"
      using op assms(2) unfolding apply_operator_def v
      by (elim insertE; cases actual; simp add: string_operands_def)
    then show ?thesis unfolding operand_error_def by blast
  next
    assume op: "op = ''regex''"
    then obtain str pat m where "v = GStr str" "rc = Some pat" "rx pat = Some m"
      using assms(1) by (auto simp: atom_ok_def requires_string_value_def)
    with op assms(2) have "e = StringPathValue op"
      by (cases actual) (simp_all add: apply_operator_def string_operands_def)
    then show ?thesis unfolding operand_error_def by blast
  qed
qed

lemma eval_atomic_ok: "atom_ok rx p op v rc \<Longrightarrow> eval_atomic rx p op v rc s = Inl e \<Longrightarrow> operand_error e"
  using resolve_path_total [of p s] apply_operator_ok
  by (fastforce simp: eval_atomic_def atom_ok_def)

lemma eval_tree_ok:
  "tree_ok rx c \<Longrightarrow> eval rx s c = Inl e \<Longrightarrow> operand_error e"
  "\<forall>c\<in>set cs. tree_ok rx c \<Longrightarrow> eval_all rx s cs = Inl e \<Longrightarrow> operand_error e"
  "\<forall>c\<in>set cs. tree_ok rx c \<Longrightarrow> eval_any rx s cs = Inl e \<Longrightarrow> operand_error e"
proof (induction rx s c and rx s cs and rx s cs arbitrary: e and e and e rule: eval_eval_all_eval_any.induct)
  case (1 rx s p op v al an nt rc)
  then show ?case by (auto dest: eval_atomic_ok split: if_splits option.splits sum.splits)
qed (auto split: if_splits sum.splits)

section \<open>Properties\<close>

definition demo_atom :: "string \<Rightarrow> string \<Rightarrow> gval \<Rightarrow> condition" where
  "demo_atom p op v = Condition p op v [] [] None None"

definition demo_scope :: scope where
  "demo_scope = \<lparr>s_payload = [(''count'', GFloat 3), (''kind'', GStr ''video'')], s_context = [], s_config = []\<rparr>"

definition demo_tree :: condition where
  "demo_tree = Condition [] [] GNil
     [demo_atom ''payload.kind'' ''eq'' (GStr ''video''), demo_atom ''payload.count'' ''gte'' (GInt 2)] [] None None"

definition no_regex :: regex_engine where
  "no_regex p = None"

lemma demo_resolve:
  "resolve_path demo_scope ''payload.kind'' = Inr (True, GStr ''video'')"
  "resolve_path demo_scope ''payload.count'' = Inr (True, GFloat 3)"
  by (simp_all add: resolve_path_def demo_scope_def scope_root_def trim_space_def is_space_def)

lemma demo_eval: "eval no_regex demo_scope demo_tree = Inr True"
  by (simp add: demo_tree_def demo_atom_def eval_atomic_def demo_resolve apply_operator_def as_number_def
      f64_of_int_small compare_numbers_def)

text \<open>C27. Evaluation refines the boolean reading: whenever \<^verbatim>\<open>Eval\<close> returns a value it is the
  value of the and/or/not tree under every valuation of the atoms that agrees with the atoms that
  evaluate without error. In particular short-circuiting past an erroneous atom never changes
  the answer.\<close>

theorem eval_refines_denotation:
  assumes "agrees rx s A" and "eval rx s c = Inr b"
  shows "denote A c = b"
  using assms by (rule eval_denotes(1))

theorem eval_refines_denotation_witness:
  "denote (\<lambda>c. eval_atomic no_regex (c_path c) (c_op c) (c_value c) (c_regex c) demo_scope = Inr True) demo_tree"
  using eval_refines_denotation [OF _ demo_eval] by (simp add: agrees_def)

text \<open>\<^verbatim>\<open>ReferencesRoot\<close> is sound: a condition that does not reference a scope root
  evaluates to the same result, errors included, whatever that root holds.\<close>

theorem references_root_sound:
  assumes "\<not> references_root rt c" and "\<forall>r. r \<noteq> rt \<longrightarrow> scope_root s r = scope_root s' r"
  shows "eval rx s c = eval rx s' c"
  using assms by (auto simp: agree_except_def intro: eval_other_root(1))

theorem references_root_sound_witness:
  "eval no_regex (demo_scope\<lparr>s_context := [(''role'', GStr ''admin'')]\<rparr>) demo_tree = eval no_regex demo_scope demo_tree"
proof (rule references_root_sound [of "''context''"])
  show "\<not> references_root ''context'' demo_tree"
    by (simp add: demo_tree_def demo_atom_def trim_space_def is_space_def)
qed (simp add: scope_root_def)

text \<open>C28. The validator's limits: a tree accepted by \<^verbatim>\<open>Validate\<close> has at most 20 nodes and
  nesting depth at most 3, and evaluating it in any scope can fail only because an operand has
  the wrong type (never on its paths, its operators or its regular expressions).\<close>

theorem validated_condition_safe:
  assumes "validate rx c = Inr c'"
  shows "predicate_count c' \<le> max_predicates_default \<and> nesting c' \<le> max_depth_default \<and>
    (\<forall>s e. eval rx s c' = Inl e \<longrightarrow> operand_error e)"
proof -
  obtain n where "validate_at rx ''if'' 1 c 0 = Inr (c', n)"
    using assms by (cases "validate_at rx ''if'' 1 c 0") (auto simp: validate_def)
  from validate_at_ok(1) [OF this] show ?thesis by (auto intro: eval_tree_ok(1))
qed

lemma demo_validate: "validate no_regex demo_tree = Inr demo_tree"
  by (simp add: validate_def demo_tree_def demo_atom_def mode_count_def max_depth_default_def
      max_predicates_default_def validate_atomic_def validate_path_def supported_operators_def
      requires_string_value_def trim_space_def is_space_def)

theorem validated_condition_safe_witness:
  "predicate_count demo_tree \<le> 20 \<and> nesting demo_tree \<le> 3"
  using validated_condition_safe [OF demo_validate] by (simp add: max_depth_default_def max_predicates_default_def)

lemma json_val_get: "json_val (GMap m) \<Longrightarrow> map_get m k = Some v \<Longrightarrow> json_val v"
  by (force dest: map_of_SomeD)

lemma json_walk:
  "json_val cur \<Longrightarrow> walk_path cur parts = Inr (present, v) \<Longrightarrow> json_val v"
proof (induction cur parts rule: walk_path.induct)
  case (2 cur seg rest)
  then show ?case
    by (cases cur) (auto split: if_splits option.splits simp: json_val_get)
qed auto

text \<open>The operators compare dynamic types: a YAML integer constant is never equal to a value
  decoded from JSON, so an \<^verbatim>\<open>eq\<close> condition on an integer never holds for a JSON payload.\<close>

theorem eq_integer_never_matches_json:
  assumes "json_val (GMap (s_payload s))" "json_val (GMap (s_context s))" "json_val (GMap (s_config s))"
  shows "eval rx s (Condition p ''eq'' (GInt n) [] [] None rc) \<noteq> Inr True"
proof
  assume "eval rx s (Condition p ''eq'' (GInt n) [] [] None rc) = Inr True"
  then obtain present where "resolve_path s p = Inr (present, GInt n)"
    by (auto simp: eval_atomic_def apply_operator_def bind_result_Inr_iff)
  then obtain m parts where "walk_path (GMap m) parts = Inr (present, GInt n)" "json_val (GMap m)"
    using assms by (auto simp: resolve_path_def scope_root_def Let_def split: if_splits list.splits)
  then show False using json_walk by fastforce
qed

theorem eq_integer_never_matches_json_witness:
  "eval no_regex demo_scope (demo_atom ''payload.count'' ''eq'' (GInt 3)) \<noteq> Inr True"
  unfolding demo_atom_def by (rule eq_integer_never_matches_json) (simp_all add: demo_scope_def)

end
