(* ===== verification/Admission.thy ===== *)
theory Admission
  imports Job_Queue
begin

text \<open>
  The admission gate in front of durable context creation, \<^verbatim>\<open>src/internal/state/admission.go\<close>.
  The Go interface \<^verbatim>\<open>QueueAdmissionProbe\<close> is the locale \<open>admission_probe\<close>: a read-only lookup
  together with what the gate relies on, namely that a probe hit means that an enqueue with the same
  identity is dropped as a duplicate and a miss that it is not. The job queue's \<open>dedupe_status_of\<close>
  interprets it.
\<close>

datatype admission_decision = AdmissionFresh | AdmissionReplay | AdmissionRejectOverlimit

record admission_input =
  ai_dedupe_key :: string
  ai_plugin :: string
  ai_command :: string
  ai_accumulated_json :: string

record admission_result =
  ar_decision :: admission_decision
  ar_existing_job_id :: string
  ar_bytes_actual :: int
  ar_bytes_limit :: int

text \<open>A probe answers with the dedupe status and the id of the shadowing job; it never writes.
  The database failures of the Go method have no counterpart here.\<close>

type_synonym probe = "string \<Rightarrow> string \<Rightarrow> string \<Rightarrow> dedupe_status \<times> string"

record admitter =
  ad_probe :: "probe option"
  ad_max_bytes :: int

definition default_max_context_bytes :: int where
  "default_max_context_bytes = 1 * 1024 * 1024"

definition new_admitter :: "probe option \<Rightarrow> int \<Rightarrow> admitter" where
  "new_admitter p n = \<lparr>ad_probe = p, ad_max_bytes = (if n \<le> 0 then default_max_context_bytes else n)\<rparr>"

definition fresh_result :: admission_result where
  "fresh_result = \<lparr>ar_decision = AdmissionFresh, ar_existing_job_id = [], ar_bytes_actual = 0, ar_bytes_limit = 0\<rparr>"

definition admit :: "admitter option \<Rightarrow> admission_input \<Rightarrow> admission_result" where
  "admit a0 inp =
     (case a0 of None \<Rightarrow> fresh_result
      | Some a \<Rightarrow>
         if int (length (ai_accumulated_json inp)) > ad_max_bytes a then
           fresh_result\<lparr>ar_decision := AdmissionRejectOverlimit,
             ar_bytes_actual := int (length (ai_accumulated_json inp)), ar_bytes_limit := ad_max_bytes a\<rparr>
         else
           let key = trim_space (ai_dedupe_key inp) in
           (case ad_probe a of None \<Rightarrow> fresh_result
            | Some p \<Rightarrow>
               if key = [] then fresh_result
               else if trim_space (ai_plugin inp) = [] \<or> trim_space (ai_command inp) = [] then fresh_result
               else case p (ai_plugin inp) (ai_command inp) key of (st, existing) \<Rightarrow>
                 if st = DedupeStatusOutstanding \<or> st = DedupeStatusRecentSuccess
                 then fresh_result\<lparr>ar_decision := AdmissionReplay, ar_existing_job_id := existing\<rparr>
                 else fresh_result))"

section \<open>The probe interface\<close>

text \<open>\<open>lookup\<close> is the probe and \<open>dropped p c k\<close> says that an enqueue for this identity would be
  dropped as a duplicate of the given job.\<close>

locale admission_probe =
  fixes lookup :: probe and dropped :: "string \<Rightarrow> string \<Rightarrow> string \<Rightarrow> string \<Rightarrow> bool"
  assumes hit_dropped: "trim_space p \<noteq> [] \<Longrightarrow> trim_space c \<noteq> [] \<Longrightarrow> trim_space k \<noteq> [] \<Longrightarrow>
      lookup p c k = (st, e) \<Longrightarrow> st \<noteq> DedupeStatusNone \<Longrightarrow> dropped p c k e"
    and miss_kept: "lookup p c k = (DedupeStatusNone, e) \<Longrightarrow> trim_space p \<noteq> [] \<Longrightarrow> trim_space c \<noteq> [] \<Longrightarrow>
      trim_space k \<noteq> [] \<Longrightarrow> \<not> dropped p c k e'"
begin

lemma admit_replay_iff:
  assumes "int (length (ai_accumulated_json inp)) \<le> n" "0 < n"
    and "trim_space (ai_plugin inp) \<noteq> []" "trim_space (ai_command inp) \<noteq> []" "trim_space (ai_dedupe_key inp) \<noteq> []"
  shows "ar_decision (admit (Some (new_admitter (Some lookup) n)) inp) = AdmissionReplay \<longleftrightarrow>
     (\<exists>e. dropped (ai_plugin inp) (ai_command inp) (trim_space (ai_dedupe_key inp)) e)"
proof -
  obtain st e where l: "lookup (ai_plugin inp) (ai_command inp) (trim_space (ai_dedupe_key inp)) = (st, e)"
    by fastforce
  show ?thesis
  proof (cases "st = DedupeStatusNone")
    case True
    with l miss_kept assms show ?thesis
      by (auto simp: admit_def new_admitter_def fresh_result_def Let_def)
  next
    case False
    with l have "dropped (ai_plugin inp) (ai_command inp) (trim_space (ai_dedupe_key inp)) e"
      using hit_dropped assms by auto
    moreover have "st = DedupeStatusOutstanding \<or> st = DedupeStatusRecentSuccess"
      using False by (cases st) auto
    ultimately show ?thesis using l assms
      by (auto simp: admit_def new_admitter_def fresh_result_def Let_def)
  qed
qed

end

text \<open>The queue drops an enqueue whose request carries its own TTL, equal to the queue's.\<close>

definition queue_drops ::
  "queue_conf \<Rightarrow> instant \<Rightarrow> queue_db \<Rightarrow> string \<Rightarrow> string \<Rightarrow> string \<Rightarrow> string \<Rightarrow> bool" where
  "queue_drops q now db p c k e \<longleftrightarrow>
     (\<forall>req jid. rq_plugin req = p \<longrightarrow> rq_command req = c \<longrightarrow> rq_submitted_by req \<noteq> [] \<longrightarrow>
        rq_dedupe_key req = Some k \<longrightarrow> rq_dedupe_ttl req = Some (dedupe_ttl q) \<longrightarrow>
        enqueue q jid now req db = (db, Inl (DedupeDropError (trim_space k) e)))"

definition probe_request :: "queue_conf \<Rightarrow> string \<Rightarrow> string \<Rightarrow> string \<Rightarrow> enqueue_request" where
  "probe_request q p c k = \<lparr>rq_plugin = p, rq_command = c, rq_payload = [], rq_max_attempts = 0,
     rq_submitted_by = ''route'', rq_dedupe_key = Some k, rq_dedupe_ttl = Some (dedupe_ttl q),
     rq_parent_job_id = None, rq_event_context_id = None, rq_source_event_id = None,
     rq_enqueued_config_snapshot_id = []\<rparr>"

lemma trim_not_Nil: "trim_space p \<noteq> [] \<Longrightarrow> p \<noteq> []"
  by auto

lemma dedupe_status_hit:
  assumes "trim_space p \<noteq> []" "trim_space c \<noteq> []" "trim_space k \<noteq> []"
    and "rq_plugin req = p" "rq_command req = c" "rq_dedupe_key req = Some k" "rq_dedupe_ttl req = Some (dedupe_ttl q)"
  shows "dedupe_hit q now req db =
     (case dedupe_status_of q now p c k db of (DedupeStatusNone, _) \<Rightarrow> None | (_, e) \<Rightarrow> Some (trim_space k, e))"
  using assms by (auto simp: dedupe_hit_def dedupe_status_of_def Let_def split: option.splits)

interpretation queue_probe: admission_probe "\<lambda>p c k. dedupe_status_of q now p c k db" "queue_drops q now db"
proof (unfold_locales, goal_cases)
  case (1 p c k st e)
  then show ?case
    by (cases st) (auto simp: queue_drops_def enqueue_def dedupe_status_hit)
next
  case (2 p c k e e')
  show ?case
  proof
    assume "queue_drops q now db p c k e'"
    then have "enqueue q [] now (probe_request q p c k) db = (db, Inl (DedupeDropError (trim_space k) e'))"
      by (simp add: queue_drops_def probe_request_def)
    then show False
      using 2 dedupe_status_hit [OF 2(2-4), of "probe_request q p c k" q now db]
      by (auto simp: enqueue_def probe_request_def Let_def split: if_splits)
  qed
qed

section \<open>Concrete data\<close>

definition demo_running_job :: job where
  "demo_running_job = \<lparr>j_id = ''j1'', j_plugin = ''mail'', j_command = ''handle'', j_payload = None,
     j_status = StatusRunning, j_attempt = 1, j_max_attempts = 4, j_submitted_by = ''route'',
     j_dedupe_key = Some ''k'', j_created_at = 0, j_started_at = Some 0, j_completed_at = None,
     j_next_retry_at = None, j_last_error = None, j_parent_job_id = None, j_source_event_id = None,
     j_event_context_id = None, j_enqueued_config_snapshot_id = None, j_started_config_snapshot_id = None\<rparr>"

definition demo_probe_db :: queue_db where
  "demo_probe_db = empty_db\<lparr>job_queue := [demo_running_job]\<rparr>"

definition demo_input :: admission_input where
  "demo_input = \<lparr>ai_dedupe_key = ''k'', ai_plugin = ''mail'', ai_command = ''handle'', ai_accumulated_json = []\<rparr>"

lemma demo_input_facts:
  "trim_space ''k'' = ''k''" "trim_space ''mail'' = ''mail''" "trim_space ''handle'' = ''handle''"
  by (simp_all add: trim_space_def is_space_def)

lemma demo_probe_lookup:
  "find_outstanding_by_dedupe_key ''mail'' ''handle'' ''k'' demo_probe_db = Some ''j1''"
  "find_recent_succeeded_by_dedupe_key now ''mail'' ''handle'' ''k'' ttl demo_probe_db = None"
  by (simp_all add: find_outstanding_by_dedupe_key_def find_recent_succeeded_by_dedupe_key_def demo_probe_db_def
      demo_running_job_def outstanding_status_def)

section \<open>Properties\<close>

text \<open>Admission is exact for keyed ingress whose enqueue carries the queue's TTL: within the
  size limit \<^verbatim>\<open>Admit\<close> answers Replay exactly when the enqueue it stands in front of would be
  dropped as a duplicate, so no context row is written for a job that will not be created.\<close>

theorem admit_replay_exact:
  assumes "int (length (ai_accumulated_json inp)) \<le> n" "0 < n"
    and "trim_space (ai_plugin inp) \<noteq> []" "trim_space (ai_command inp) \<noteq> []" "trim_space (ai_dedupe_key inp) \<noteq> []"
  shows "ar_decision (admit (Some (new_admitter (Some (\<lambda>p c k. dedupe_status_of q now p c k db)) n)) inp) = AdmissionReplay \<longleftrightarrow>
     (\<exists>e. queue_drops q now db (ai_plugin inp) (ai_command inp) (trim_space (ai_dedupe_key inp)) e)"
  using assms by (rule queue_probe.admit_replay_iff)

theorem admit_replay_exact_witness:
  "\<exists>e. queue_drops (new_queue None None) 0 demo_probe_db ''mail'' ''handle'' ''k'' e"
proof -
  have "ar_decision (admit (Some (new_admitter (Some (\<lambda>p c k. dedupe_status_of (new_queue None None) 0 p c k demo_probe_db)) 1)) demo_input)
      = AdmissionReplay"
    by (simp add: admit_def new_admitter_def demo_input_def demo_input_facts dedupe_status_of_def demo_probe_lookup)
  then show ?thesis
    by (subst (asm) admit_replay_exact) (simp_all add: demo_input_def demo_input_facts)
qed

text \<open>The gate is stricter than the queue for requests without a TTL of their own, which is
  what the dispatcher sends for routed events: while a job with the same identity is queued or
  running and none succeeded recently, \<^verbatim>\<open>Admit\<close> answers Replay although \<^verbatim>\<open>Enqueue\<close> would
  not treat the request as a duplicate.\<close>

theorem admission_stricter_than_enqueue:
  assumes "trim_space (ai_plugin inp) \<noteq> []" "trim_space (ai_command inp) \<noteq> []" "trim_space (ai_dedupe_key inp) \<noteq> []"
    and "int (length (ai_accumulated_json inp)) \<le> n" "0 < n"
    and "find_outstanding_by_dedupe_key (ai_plugin inp) (ai_command inp) (trim_space (ai_dedupe_key inp)) db = Some e"
    and "find_recent_succeeded_by_dedupe_key now (ai_plugin inp) (ai_command inp) (trim_space (ai_dedupe_key inp))
           (dedupe_ttl q) db = None"
    and "rq_plugin req = ai_plugin inp" "rq_command req = ai_command inp"
      "rq_dedupe_key req = Some (ai_dedupe_key inp)" "rq_dedupe_ttl req = None"
  shows "ar_decision (admit (Some (new_admitter (Some (\<lambda>p c k. dedupe_status_of q now p c k db)) n)) inp) = AdmissionReplay \<and>
    dedupe_hit q now req db = None"
  using assms by (simp add: admit_def new_admitter_def dedupe_status_of_def dedupe_hit_def Let_def)

theorem admission_stricter_than_enqueue_witness:
  "dedupe_hit (new_queue None None) 0 ((probe_request (new_queue None None) ''mail'' ''handle'' ''k'')\<lparr>rq_dedupe_ttl := None\<rparr>) demo_probe_db = None"
  using admission_stricter_than_enqueue [of demo_input 1 demo_probe_db "''j1''" 0 "new_queue None None"
      "(probe_request (new_queue None None) ''mail'' ''handle'' ''k'')\<lparr>rq_dedupe_ttl := None\<rparr>"]
  by (simp add: demo_input_def demo_input_facts demo_probe_lookup probe_request_def)

end
