(* ===== verification/Context_Ledger.thy ===== *)
theory Context_Ledger
  imports Go_Value Go_Time
begin

text \<open>
  The event-context ledger, \<^verbatim>\<open>src/internal/state/context_store.go\<close>, and the control-plane
  fields it carries, \<^verbatim>\<open>src/internal/state/pipeline_instance.go\<close>. A context row holds the
  accumulated baggage of a pipeline execution as a JSON object; a child row accretes updates onto
  its parent's baggage and may not change an inherited value.

  A \<^verbatim>\<open>json.RawMessage\<close> is empty, invalid, or a decoded value (\<open>raw_json\<close>). Its byte length
  after \<^verbatim>\<open>json.Marshal\<close> is the parameter \<open>jl\<close>, used only by the size limit. Go ranges over
  a map in an unspecified order; the model takes the keys in increasing order. Which path a
  failing accretion names may depend on the order, its failing and its result do not.
\<close>

datatype raw_json = RawEmpty | RawInvalid | RawJSON gval

section \<open>Accretion\<close>

definition pipeline_instance_namespace :: string where
  "pipeline_instance_namespace = ''ductile''"

definition pipeline_instance_id_field :: string where
  "pipeline_instance_id_field = ''pipeline_instance_id''"

definition route_depth_field :: string where
  "route_depth_field = ''route_depth''"

definition route_max_depth_field :: string where
  "route_max_depth_field = ''route_max_depth''"

definition join_baggage_path :: "string \<Rightarrow> string \<Rightarrow> string" where
  "join_baggage_path pre key = (if pre = [] then key else pre @ ''.'' @ key)"

definition route_depth_path :: string where
  "route_depth_path = pipeline_instance_namespace @ ''.'' @ route_depth_field"

fun decode_raw_object :: "gval \<Rightarrow> gmap option" where
  "decode_raw_object (GMap m) = Some m"
| "decode_raw_object _ = None"

lemma decode_raw_object_Some [simp]: "decode_raw_object v = Some m \<longleftrightarrow> v = GMap m"
  by (cases v) auto

function deep_accrete :: "string \<Rightarrow> gmap \<Rightarrow> gmap \<Rightarrow> string + gmap" where
  "deep_accrete pre dst [] = Inr dst"
| "deep_accrete pre dst ((key, upd) # rest) =
     (case map_get dst key of
        None \<Rightarrow> deep_accrete pre (map_put key upd dst) rest
      | Some cur \<Rightarrow>
          if cur = upd then deep_accrete pre dst rest
          else if join_baggage_path pre key = route_depth_path
          then deep_accrete pre (map_put key upd dst) rest
          else case decode_raw_object cur of
                 None \<Rightarrow> Inl (join_baggage_path pre key)
               | Some a \<Rightarrow>
                  (case decode_raw_object upd of
                     None \<Rightarrow> Inl (join_baggage_path pre key)
                   | Some b \<Rightarrow>
                      (case deep_accrete (join_baggage_path pre key) a b of
                         Inl e \<Rightarrow> Inl e
                       | Inr merged \<Rightarrow> deep_accrete pre (map_put key (GMap merged) dst) rest)))"
  by pat_completeness auto
termination
  by (relation "measure (\<lambda>(pre, dst, upd). size_list (size_prod (\<lambda>_. 0) size) upd)") auto

section \<open>The ledger\<close>

record event_context =
  ec_id :: string
  ec_parent_id :: "string option"
  ec_pipeline_name :: string
  ec_step_id :: string
  ec_accumulated :: gmap
  ec_created_at :: instant

datatype context_error =
    DecodeUpdates | ContextIDEmpty | EventContextNotFound
  | LoadParent string context_error | BaggagePathImmutable string | ContextTooLarge int

definition decode_object_or_empty :: "raw_json \<Rightarrow> gmap option" where
  "decode_object_or_empty r =
     (case r of RawEmpty \<Rightarrow> Some [] | RawInvalid \<Rightarrow> None
      | RawJSON v \<Rightarrow> (case v of GMap m \<Rightarrow> Some m | GNil \<Rightarrow> Some [] | _ \<Rightarrow> None))"

definition get_context :: "string \<Rightarrow> event_context list \<Rightarrow> context_error + event_context" where
  "get_context cid tab =
     (if trim_space cid = [] then Inl ContextIDEmpty
      else case find (\<lambda>c. ec_id c = cid) tab of None \<Rightarrow> Inl EventContextNotFound | Some c \<Rightarrow> Inr c)"

definition create_context ::
  "(gmap \<Rightarrow> int) \<Rightarrow> int \<Rightarrow> string \<Rightarrow> instant \<Rightarrow> string option \<Rightarrow> string \<Rightarrow> string \<Rightarrow> raw_json
   \<Rightarrow> event_context list \<Rightarrow> event_context list \<times> (context_error + event_context)" where
  "create_context jl max_bytes cid now parent pipeline step updates tab =
     (case decode_object_or_empty updates of
        None \<Rightarrow> (tab, Inl DecodeUpdates)
      | Some upd \<Rightarrow>
         (let acc = (case parent of
                       None \<Rightarrow> Inr upd
                     | Some pid \<Rightarrow>
                        (case get_context pid tab of
                           Inl e \<Rightarrow> Inl (LoadParent pid e)
                         | Inr p \<Rightarrow> map_sum BaggagePathImmutable id (deep_accrete [] (ec_accumulated p) upd)))
          in case acc of
               Inl e \<Rightarrow> (tab, Inl e)
             | Inr m \<Rightarrow>
                if jl m > max_bytes then (tab, Inl (ContextTooLarge max_bytes))
                else
                  let row = \<lparr>ec_id = cid, ec_parent_id = parent, ec_pipeline_name = pipeline,
                             ec_step_id = step, ec_accumulated = m, ec_created_at = now\<rparr>
                  in (tab @ [row], Inr row)))"

text \<open>The recursive CTE of \<^verbatim>\<open>Lineage\<close>, leaf first; the bound is one step per row, which is
  enough because parents precede their children.\<close>

fun lineage_from :: "nat \<Rightarrow> event_context list \<Rightarrow> string \<Rightarrow> event_context list" where
  "lineage_from 0 tab cid = []"
| "lineage_from (Suc n) tab cid =
     (case find (\<lambda>c. ec_id c = cid) tab of
        None \<Rightarrow> []
      | Some c \<Rightarrow> c # (case ec_parent_id c of None \<Rightarrow> [] | Some p \<Rightarrow> lineage_from n tab p))"

definition context_lineage :: "string \<Rightarrow> event_context list \<Rightarrow> context_error + event_context list" where
  "context_lineage cid tab =
     (if trim_space cid = [] then Inl ContextIDEmpty
      else let l = rev (lineage_from (length tab) tab cid) in
           if l = [] then Inl EventContextNotFound else Inr l)"

section \<open>Control-plane fields\<close>

datatype control_error =
    InstanceIDEmpty | DepthNegative | MaxDepthNotPositive | DecodeContextUpdates
  | NamespaceNotObject | AlreadyContains string | NilMapPanic

definition nested_object :: "gmap \<Rightarrow> string \<Rightarrow> gmap option" where
  "nested_object obj key =
     (case map_get obj key of None \<Rightarrow> Some [] | Some v \<Rightarrow>
        (case v of GNil \<Rightarrow> Some [] | GMap m \<Rightarrow> Some m | _ \<Rightarrow> None))"

text \<open>\<^verbatim>\<open>json.Unmarshal\<close> of the literal \<^verbatim>\<open>null\<close> leaves a nil map, and the assignment into it panics.\<close>

definition with_pipeline_control_plane ::
  "raw_json \<Rightarrow> (gmap \<Rightarrow> control_error + gmap) \<Rightarrow> control_error + raw_json" where
  "with_pipeline_control_plane updates mutate =
     (let go = (\<lambda>obj.
        (case nested_object obj pipeline_instance_namespace of
           None \<Rightarrow> Inl NamespaceNotObject
         | Some ductile \<Rightarrow>
            (case mutate ductile of
               Inl e \<Rightarrow> Inl e
             | Inr d \<Rightarrow> Inr (RawJSON (json_clone (GMap (map_put pipeline_instance_namespace (GMap d) obj)))))))
      in case updates of
           RawEmpty \<Rightarrow> go []
         | RawInvalid \<Rightarrow> Inl DecodeContextUpdates
         | RawJSON v \<Rightarrow>
            (case v of
               GMap m \<Rightarrow> go m
             | GNil \<Rightarrow> (case mutate [] of Inl e \<Rightarrow> Inl e | Inr _ \<Rightarrow> Inl NilMapPanic)
             | _ \<Rightarrow> Inl DecodeContextUpdates))"

definition int_value :: "gval \<Rightarrow> int option" where
  "int_value v = (case v of GInt n \<Rightarrow> Some n | GFloat r \<Rightarrow> Some (int_of_f64 r) | _ \<Rightarrow> None)"

definition with_pipeline_instance_id :: "raw_json \<Rightarrow> string \<Rightarrow> control_error + raw_json" where
  "with_pipeline_instance_id updates iid0 =
     (let iid = trim_space iid0 in
      if iid = [] then Inl InstanceIDEmpty
      else with_pipeline_control_plane updates (\<lambda>d.
        case map_get d pipeline_instance_id_field of
          Some ex \<Rightarrow> if ex \<noteq> GStr iid then Inl (AlreadyContains pipeline_instance_id_field)
                     else Inr (map_put pipeline_instance_id_field (GStr iid) d)
        | None \<Rightarrow> Inr (map_put pipeline_instance_id_field (GStr iid) d)))"

definition with_int_field :: "string \<Rightarrow> raw_json \<Rightarrow> int \<Rightarrow> control_error + raw_json" where
  "with_int_field field updates n =
     with_pipeline_control_plane updates (\<lambda>d.
       case map_get d field of
         Some ex \<Rightarrow> if int_value ex \<noteq> Some n then Inl (AlreadyContains field)
                    else Inr (map_put field (GInt n) d)
       | None \<Rightarrow> Inr (map_put field (GInt n) d))"

definition with_route_depth :: "raw_json \<Rightarrow> int \<Rightarrow> control_error + raw_json" where
  "with_route_depth updates d =
     (if d < 0 then Inl DepthNegative else with_int_field route_depth_field updates d)"

definition with_route_max_depth :: "raw_json \<Rightarrow> int \<Rightarrow> control_error + raw_json" where
  "with_route_max_depth updates d =
     (if d \<le> 0 then Inl MaxDepthNotPositive else with_int_field route_max_depth_field updates d)"

definition pipeline_control_plane :: "raw_json \<Rightarrow> gmap option" where
  "pipeline_control_plane r =
     (case r of RawJSON (GMap m) \<Rightarrow>
        (case map_get m pipeline_instance_namespace of Some (GMap d) \<Rightarrow> Some d | _ \<Rightarrow> None)
      | _ \<Rightarrow> None)"

record route_control_plane =
  rc_pipeline_instance_id :: string
  rc_route_depth :: int
  rc_route_max_depth :: int

definition str_field :: "gmap \<Rightarrow> string \<Rightarrow> string" where
  "str_field d f = (case map_get d f of Some (GStr s) \<Rightarrow> trim_space s | _ \<Rightarrow> [])"

definition int_field :: "gmap \<Rightarrow> string \<Rightarrow> int" where
  "int_field d f = (case map_get d f of None \<Rightarrow> 0
                    | Some v \<Rightarrow> (case int_value v of None \<Rightarrow> 0 | Some n \<Rightarrow> n))"

definition route_control_plane_from_accumulated :: "raw_json \<Rightarrow> route_control_plane" where
  "route_control_plane_from_accumulated r =
     (case pipeline_control_plane r of
        None \<Rightarrow> \<lparr>rc_pipeline_instance_id = [], rc_route_depth = 0, rc_route_max_depth = 0\<rparr>
      | Some d \<Rightarrow> \<lparr>rc_pipeline_instance_id = str_field d pipeline_instance_id_field,
                    rc_route_depth = int_field d route_depth_field,
                    rc_route_max_depth = int_field d route_max_depth_field\<rparr>)"

definition pipeline_instance_id_from_accumulated :: "raw_json \<Rightarrow> string" where
  "pipeline_instance_id_from_accumulated r =
     (case pipeline_control_plane r of None \<Rightarrow> [] | Some d \<Rightarrow> str_field d pipeline_instance_id_field)"

definition route_depth_from_accumulated :: "raw_json \<Rightarrow> int" where
  "route_depth_from_accumulated r =
     (case pipeline_control_plane r of None \<Rightarrow> 0 | Some d \<Rightarrow> int_field d route_depth_field)"

definition route_max_depth_from_accumulated :: "raw_json \<Rightarrow> int" where
  "route_max_depth_from_accumulated r =
     (case pipeline_control_plane r of None \<Rightarrow> 0 | Some d \<Rightarrow> int_field d route_max_depth_field)"

section \<open>Inherited paths\<close>

fun get_at :: "gval \<Rightarrow> string list \<Rightarrow> gval option" where
  "get_at v [] = Some v"
| "get_at v (k # ks) =
     (case v of GMap m \<Rightarrow> (case map_get m k of None \<Rightarrow> None | Some w \<Rightarrow> get_at w ks) | _ \<Rightarrow> None)"

fun is_object :: "gval \<Rightarrow> bool" where
  "is_object (GMap m) = True"
| "is_object _ = False"

text \<open>The dotted texts of the non-empty prefixes of a path below \<open>pre\<close>.\<close>

fun avoids :: "string \<Rightarrow> string \<Rightarrow> string list \<Rightarrow> bool" where
  "avoids t pre [] = True"
| "avoids t pre (k # ks) = (join_baggage_path pre k \<noteq> t \<and> avoids t (join_baggage_path pre k) ks)"

lemma accrete_keeps:
  "deep_accrete pre dst upd = Inr out \<Longrightarrow> get_at (GMap dst) ks = Some v \<Longrightarrow> \<not> is_object v \<Longrightarrow>
   avoids route_depth_path pre ks \<Longrightarrow> get_at (GMap out) ks = Some v"
proof (induction pre dst upd arbitrary: out ks v rule: deep_accrete.induct)
  case (2 pre dst key upd rest)
  let ?path = "join_baggage_path pre key"
  obtain k ks' where ks: "ks = k # ks'" using "2.prems"(2,3) by (cases ks) auto
  then obtain w where w: "map_get dst k = Some w" "get_at w ks' = Some v"
    using "2.prems"(2) by (auto split: option.splits)
  show ?case
  proof (cases "map_get dst key")
    case None
    then have "get_at (GMap (map_put key upd dst)) ks = Some v" using w ks by auto
    then show ?thesis using "2.IH"(1) [OF None] "2.prems" None by simp
  next
    case cur: (Some cur)
    consider (same) "cur = upd" | (depth) "cur \<noteq> upd" "?path = route_depth_path"
      | (objects) a b where "cur \<noteq> upd" "?path \<noteq> route_depth_path" "decode_raw_object cur = Some a"
          "decode_raw_object upd = Some b"
      using "2.prems"(1) cur by (auto split: if_splits option.splits)
    then show ?thesis
    proof cases
      case same
      then show ?thesis using "2.IH"(2) [OF cur] "2.prems" cur by simp
    next
      case depth
      then have "k \<noteq> key" using "2.prems"(4) ks by auto
      then have "get_at (GMap (map_put key upd dst)) ks = Some v" using w ks by auto
      then show ?thesis using "2.IH"(3) [OF cur] "2.prems" cur depth by simp
    next
      case objects
      then obtain merged where merged: "deep_accrete ?path a b = Inr merged"
        "deep_accrete pre (map_put key (GMap merged) dst) rest = Inr out"
        using "2.prems"(1) cur by (auto split: sum.splits)
      have "get_at (GMap (map_put key (GMap merged) dst)) ks = Some v"
      proof (cases "k = key")
        case True
        then have "get_at (GMap merged) ks' = Some v"
          using "2.IH"(4) [OF cur objects merged(1)] w cur objects ks "2.prems"(3,4)
          by auto
        then show ?thesis using ks True by simp
      next
        case False
        then show ?thesis using w ks by simp
      qed
      then show ?thesis
        using "2.IH"(5) [OF cur objects merged] "2.prems"(3,4) by simp
    qed
  qed
qed simp

end
