(* ===== verification/Ledger_Properties.thy ===== *)
theory Ledger_Properties
  imports Context_Ledger
begin

text \<open>
  Properties of the event-context ledger: lineages are complete chains from a root to the row, and
  inherited baggage is immutable along them; the control-plane fields round-trip.
\<close>

section \<open>Reachable ledgers\<close>

inductive ledger_reachable :: "(gmap \<Rightarrow> int) \<Rightarrow> int \<Rightarrow> event_context list \<Rightarrow> bool" for jl max_bytes where
  ledger_start: "ledger_reachable jl max_bytes []"
| ledger_create: "ledger_reachable jl max_bytes tab \<Longrightarrow> cid \<notin> ec_id ` set tab \<Longrightarrow> trim_space cid \<noteq> [] \<Longrightarrow>
    ledger_reachable jl max_bytes (fst (create_context jl max_bytes cid now parent pipeline step updates tab))"

text \<open>Every row but a root accretes onto a row before it.\<close>

definition accretes :: "event_context \<Rightarrow> event_context \<Rightarrow> bool" where
  "accretes p c \<longleftrightarrow> ec_parent_id c = Some (ec_id p) \<and>
     (\<exists>upd. deep_accrete [] (ec_accumulated p) upd = Inr (ec_accumulated c))"

definition ledger_ok :: "event_context list \<Rightarrow> bool" where
  "ledger_ok tab \<longleftrightarrow> distinct (map ec_id tab) \<and> (\<forall>c\<in>set tab. trim_space (ec_id c) \<noteq> []) \<and>
     (\<forall>i<length tab. ec_parent_id (tab ! i) = None \<or> (\<exists>k<i. accretes (tab ! k) (tab ! i)))"

lemma create_context_cases:
  obtains e where "create_context jl mx cid now parent pl st upd tab = (tab, Inl e)"
  | row where "create_context jl mx cid now parent pl st upd tab = (tab @ [row], Inr row)"
      "ec_id row = cid" "ec_parent_id row = parent" "jl (ec_accumulated row) \<le> mx"
      "parent = None \<or> (\<exists>p\<in>set tab. accretes p row)"
proof (cases "create_context jl mx cid now parent pl st upd tab")
  case (Pair tab' r)
  show ?thesis
  proof (cases r)
    case (Inl e)
    then have "tab' = tab"
      using Pair by (auto simp: create_context_def Let_def split: option.splits sum.splits if_splits)
    with that(1) Pair Inl show ?thesis by simp
  next
    case (Inr row)
    note created = Pair [unfolded Inr create_context_def Let_def]
    show ?thesis
    proof (cases parent)
      case None
      with created have "tab' = tab @ [row]" "ec_id row = cid" "ec_parent_id row = parent"
        "jl (ec_accumulated row) \<le> mx"
        by (auto split: option.splits if_splits)
      with that(2) [of row] Pair Inr None show ?thesis by simp
    next
      case (Some pid)
      with created obtain u p m where "decode_object_or_empty upd = Some u" "get_context pid tab = Inr p"
        "deep_accrete [] (ec_accumulated p) u = Inr m"
        by (auto split: option.splits sum.splits if_splits simp: map_sum_def)
      note got = this
      then have p: "p \<in> set tab" "ec_id p = pid"
        by (auto simp: get_context_def find_Some_iff split: if_splits option.splits)
      from created got Some have row: "tab' = tab @ [row]" "ec_id row = cid" "ec_parent_id row = Some pid"
        "ec_accumulated row = m" "jl m \<le> mx"
        by (auto split: if_splits)
      then have "accretes p row" using p got by (auto simp: accretes_def)
      then show ?thesis using that(2) [of row] p row Some Pair Inr by auto
    qed
  qed
qed

lemma ledger_ok_create:
  assumes "ledger_ok tab" "cid \<notin> ec_id ` set tab" "trim_space cid \<noteq> []"
  shows "ledger_ok (fst (create_context jl mx cid now parent pl st upd tab))"
proof (rule create_context_cases [of jl mx cid now parent pl st upd tab])
  fix row
  assume row: "create_context jl mx cid now parent pl st upd tab = (tab @ [row], Inr row)"
    "ec_id row = cid" "ec_parent_id row = parent" "parent = None \<or> (\<exists>p\<in>set tab. accretes p row)"
  have "ec_parent_id ((tab @ [row]) ! i) = None \<or> (\<exists>k<i. accretes ((tab @ [row]) ! k) ((tab @ [row]) ! i))"
    if "i < length (tab @ [row])" for i
  proof (cases "i = length tab")
    case True
    from row(4) show ?thesis
    proof
      assume "\<exists>p\<in>set tab. accretes p row"
      then obtain p where "p \<in> set tab" "accretes p row" by (rule bexE)
      then obtain k where "k < length tab" "accretes (tab ! k) row" by (auto simp: in_set_conv_nth)
      then show ?thesis using True by (auto simp: nth_append)
    qed (use row(3) True in simp)
  next
    case False
    then have i: "i < length tab" using that by simp
    then have "ec_parent_id (tab ! i) = None \<or> (\<exists>k<i. accretes (tab ! k) (tab ! i))"
      using assms(1) by (simp add: ledger_ok_def)
    moreover have "(tab @ [row]) ! k = tab ! k" if "k \<le> i" for k using i that by (simp add: nth_append)
    ultimately show ?thesis by (metis less_imp_le order_refl)
  qed
  then show ?thesis using assms row by (auto simp: ledger_ok_def)
qed (use assms in simp)

lemma ledger_reachable_ok: "ledger_reachable jl mx tab \<Longrightarrow> ledger_ok tab"
proof (induction rule: ledger_reachable.induct)
  case ledger_start
  show ?case by (simp add: ledger_ok_def)
qed (rule ledger_ok_create)

section \<open>Lineages\<close>

lemma find_by_id:
  assumes "distinct (map ec_id tab)" "i < length tab"
  shows "find (\<lambda>c. ec_id c = ec_id (tab ! i)) tab = Some (tab ! i)"
proof -
  have "find (\<lambda>c. ec_id c = ec_id (tab ! i)) tab \<noteq> None"
    unfolding find_None_iff not_not by (rule exI [of _ "tab ! i"]) (simp add: assms(2))
  then obtain c where c: "find (\<lambda>c. ec_id c = ec_id (tab ! i)) tab = Some c" by blast
  then have "c \<in> set tab" "ec_id c = ec_id (tab ! i)" by (auto simp: find_Some_iff)
  then have "c = tab ! i" using distinct_map_in_eq [OF assms(1) _ nth_mem [OF assms(2)]] by simp
  with c show ?thesis by simp
qed

definition chain :: "event_context list \<Rightarrow> bool" where
  "chain l \<longleftrightarrow> l \<noteq> [] \<and> ec_parent_id (last l) = None \<and> (\<forall>i. Suc i < length l \<longrightarrow> accretes (l ! Suc i) (l ! i))"

lemma chain_Cons: "chain l \<Longrightarrow> accretes (hd l) c \<Longrightarrow> chain (c # l)"
  by (auto simp: chain_def nth_Cons hd_conv_nth split: nat.splits)

lemma lineage_from_chain:
  assumes "ledger_ok tab"
  shows "i < length tab \<Longrightarrow> i < n \<Longrightarrow>
    chain (lineage_from n tab (ec_id (tab ! i))) \<and> hd (lineage_from n tab (ec_id (tab ! i))) = tab ! i"
proof (induction i arbitrary: n rule: less_induct)
  case (less i)
  have d: "distinct (map ec_id tab)" using assms by (simp add: ledger_ok_def)
  obtain n' where n: "n = Suc n'" using less.prems by (cases n) auto
  note found = find_by_id [OF d less.prems(1)]
  consider "ec_parent_id (tab ! i) = None" | k where "k < i" "accretes (tab ! k) (tab ! i)"
    using assms less.prems(1) by (auto simp: ledger_ok_def)
  then show ?case
  proof cases
    case 1
    then show ?thesis by (simp add: n found chain_def)
  next
    case (2 k)
    then have ih: "chain (lineage_from n' tab (ec_id (tab ! k)))" "hd (lineage_from n' tab (ec_id (tab ! k))) = tab ! k"
      using less.IH [of k n'] less.prems n by auto
    moreover have "ec_parent_id (tab ! i) = Some (ec_id (tab ! k))" using 2 by (simp add: accretes_def)
    ultimately show ?thesis using 2 chain_Cons by (simp add: n found)
  qed
qed

lemma chain_keeps:
  assumes "chain l" "i < length l" "get_at (GMap (ec_accumulated (l ! i))) ks = Some v" "\<not> is_object v"
    "avoids route_depth_path [] ks"
  shows "k \<le> i \<Longrightarrow> get_at (GMap (ec_accumulated (l ! (i - k)))) ks = Some v"
proof (induction k)
  case (Suc k)
  then have "accretes (l ! (i - k)) (l ! (i - Suc k))"
    using assms(1,2) by (metis Suc_diff_Suc Suc_le_lessD chain_def less_imp_diff_less)
  with Suc assms(4,5) show ?case by (auto simp: accretes_def dest: accrete_keeps)
qed (use assms in simp)

section \<open>Properties\<close>

text \<open>C29. The ledger is an immutable history: in every ledger built by \<^verbatim>\<open>Create\<close>, the lineage of
  a row is the complete chain from a root (a row without parent) down to the row, and every
  non-object value that any context of the lineage holds at a baggage path is still held there by the
  row itself, the routing depth counter apart.\<close>

theorem lineage_preserves_baggage:
  assumes "ledger_reachable jl mx tab" and "c \<in> set tab"
  shows "\<exists>l. context_lineage (ec_id c) tab = Inr l \<and> l \<noteq> [] \<and> last l = c \<and> ec_parent_id (hd l) = None \<and>
    (\<forall>i. Suc i < length l \<longrightarrow> ec_parent_id (l ! Suc i) = Some (ec_id (l ! i))) \<and>
    (\<forall>a\<in>set l. \<forall>ks v. get_at (GMap (ec_accumulated a)) ks = Some v \<longrightarrow> \<not> is_object v \<longrightarrow>
        avoids route_depth_path [] ks \<longrightarrow> get_at (GMap (ec_accumulated c)) ks = Some v)"
proof -
  note ok = ledger_reachable_ok [OF assms(1)]
  obtain i where i: "i < length tab" "c = tab ! i" using assms(2) by (auto simp: in_set_conv_nth)
  let ?l = "lineage_from (length tab) tab (ec_id c)"
  have l: "chain ?l" "hd ?l = c" using lineage_from_chain [OF ok i(1) i(1)] i(2) by simp_all
  then have ne: "?l \<noteq> []" by (simp add: chain_def)
  have keeps: "get_at (GMap (ec_accumulated c)) ks = Some v"
    if a: "a \<in> set ?l" and "get_at (GMap (ec_accumulated a)) ks = Some v" "\<not> is_object v" "avoids route_depth_path [] ks" for a ks v
  proof -
    obtain k where "k < length ?l" "a = ?l ! k" using a unfolding in_set_conv_nth by blast
    then have "get_at (GMap (ec_accumulated (?l ! (k - k)))) ks = Some v"
      using chain_keeps [OF l(1) _ _ that(3,4), of k k] that(2) by simp
    then show ?thesis using l(2) ne by (simp add: hd_conv_nth)
  qed
  have links: "ec_parent_id (rev ?l ! Suc k) = Some (ec_id (rev ?l ! k))" if k: "Suc k < length (rev ?l)" for k
  proof -
    let ?m = "length ?l - Suc (Suc k)"
    have "Suc ?m < length ?l" "length ?l - Suc k = Suc ?m" using k by auto
    then have "accretes (?l ! Suc ?m) (?l ! ?m)" using l(1) by (simp add: chain_def)
    moreover have "rev ?l ! Suc k = ?l ! ?m" "rev ?l ! k = ?l ! Suc ?m"
      using k by (simp_all add: rev_nth Suc_diff_Suc)
    ultimately show ?thesis by (simp add: accretes_def)
  qed
  have "trim_space (ec_id c) \<noteq> []" using ok assms(2) by (auto simp: ledger_ok_def)
  then have "context_lineage (ec_id c) tab = Inr (rev ?l)" using ne by (simp add: context_lineage_def)
  moreover have "ec_parent_id (hd (rev ?l)) = None" using l(1) by (simp add: chain_def hd_rev)
  moreover have "last (rev ?l) = c" using l(2) ne by (simp add: last_rev)
  ultimately show ?thesis using ne links keeps by (intro exI [of _ "rev ?l"]) auto
qed

definition demo_len :: "gmap \<Rightarrow> int" where
  "demo_len m = int (length m)"

definition demo_ledger :: "event_context list" where
  "demo_ledger =
     fst (create_context demo_len 100 ''c2'' 1 (Some ''c1'') ''p'' ''s2'' (RawJSON (GMap [(''b'', GStr ''y'')]))
       (fst (create_context demo_len 100 ''c1'' 0 None ''p'' ''s1'' (RawJSON (GMap [(''a'', GStr ''x'')])) [])))"

lemma demo_ledger_eq:
  "demo_ledger = [\<lparr>ec_id = ''c1'', ec_parent_id = None, ec_pipeline_name = ''p'', ec_step_id = ''s1'',
       ec_accumulated = [(''a'', GStr ''x'')], ec_created_at = 0\<rparr>,
     \<lparr>ec_id = ''c2'', ec_parent_id = Some ''c1'', ec_pipeline_name = ''p'', ec_step_id = ''s2'',
       ec_accumulated = [(''a'', GStr ''x''), (''b'', GStr ''y'')], ec_created_at = 1\<rparr>]"
  by (simp add: demo_ledger_def create_context_def decode_object_or_empty_def demo_len_def get_context_def
      trim_space_def is_space_def map_sum_def Let_def)

lemma demo_ledger_reachable: "ledger_reachable demo_len 100 demo_ledger"
  unfolding demo_ledger_def
  by (intro ledger_create ledger_start)
    (simp_all add: create_context_def decode_object_or_empty_def demo_len_def trim_space_def is_space_def Let_def)

theorem lineage_preserves_baggage_witness:
  "\<exists>l. context_lineage ''c2'' demo_ledger = Inr l \<and> l \<noteq> []"
  using lineage_preserves_baggage [OF demo_ledger_reachable, of "demo_ledger ! 1"]
  by (auto simp: demo_ledger_eq)

lemma map_of_map_snd: "map_of (map (\<lambda>(k, v). (k, f v)) m) k = map_option f (map_of m k)"
  by (induction m) auto

lemma control_plane_written:
  assumes "with_pipeline_control_plane updates mutate = Inr out"
  obtains d d' where "mutate d = Inr d'" "pipeline_control_plane out = Some (map (\<lambda>(k, v). (k, json_clone v)) d')"
proof -
  obtain obj d d' where "mutate d = Inr d'"
    "out = RawJSON (json_clone (GMap (map_put pipeline_instance_namespace (GMap d') obj)))"
    using assms unfolding with_pipeline_control_plane_def Let_def
    by (auto simp del: json_clone.simps map_put.simps split: raw_json.splits gval.splits option.splits sum.splits)
  then show ?thesis using that by (simp add: pipeline_control_plane_def map_of_map_snd)
qed

text \<open>The route depth survives its trip through the ledger: a depth below \<open>2^53\<close> that
  \<^verbatim>\<open>WithRouteDepth\<close> writes into context updates is the depth \<^verbatim>\<open>RouteDepthFromAccumulated\<close>
  reads back, although JSON turned it into a float.\<close>

theorem route_depth_roundtrip:
  assumes "with_route_depth updates d = Inr out" and "d < 2 ^ 53"
  shows "route_depth_from_accumulated out = d"
proof -
  have d: "0 \<le> d" "with_int_field route_depth_field updates d = Inr out"
    using assms(1) by (auto simp: with_route_depth_def split: if_splits)
  from d(2) [unfolded with_int_field_def] obtain m m' where
    "(case map_get m route_depth_field of
         Some ex \<Rightarrow> if int_value ex \<noteq> Some d then Inl (AlreadyContains route_depth_field)
                    else Inr (map_put route_depth_field (GInt d) m)
       | None \<Rightarrow> Inr (map_put route_depth_field (GInt d) m)) = Inr m'"
    and out: "pipeline_control_plane out = Some (map (\<lambda>(k, v). (k, json_clone v)) m')"
    by (rule control_plane_written)
  then have "m' = map_put route_depth_field (GInt d) m" by (auto split: option.splits if_splits)
  moreover have "in_int64 d" using d(1) assms(2) by (simp add: in_int64_def)
  ultimately show ?thesis using out d(1) assms(2)
    by (simp add: route_depth_from_accumulated_def int_field_def map_of_map_snd int_value_def f64_of_int_small)
qed

theorem route_depth_roundtrip_witness:
  "\<exists>out. with_route_depth RawEmpty 7 = Inr out \<and> route_depth_from_accumulated out = 7"
proof -
  have "\<exists>out. with_route_depth RawEmpty 7 = Inr out"
    by (simp add: with_route_depth_def with_int_field_def with_pipeline_control_plane_def nested_object_def)
  then show ?thesis using route_depth_roundtrip [of RawEmpty 7] by auto
qed

end
