(* ===== verification/Baggage.thy ===== *)
theory Baggage
  imports Conditions Context_Ledger
begin

text \<open>
  Baggage claims, \<^verbatim>\<open>src/internal/baggage/baggage.go\<close>: a step names the values of its payload and
  context that become durable baggage; and the \<^verbatim>\<open>with:\<close> templates of
  \<^verbatim>\<open>src/internal/dispatch/with.go\<close> that build a step's payload. Both read values through
  \<open>resolve_path\<close>. A Go \<^verbatim>\<open>map[string]string\<close> is its list of entries; the code visits it in
  increasing key order. The text that \<^verbatim>\<open>fmt.Fprintf("%v")\<close> gives a value is the parameter \<open>fmt\<close>.
\<close>

section \<open>Claims\<close>

record bulk_spec =
  bk_from :: string
  bk_namespace :: string

record baggage_spec =
  bs_mappings :: "(string \<times> string) list"
  bs_bulk :: "bulk_spec option"

datatype baggage_error =
    NamespaceRequired
  | ResolveBaggage string cond_error
  | PathNotFound string
  | MustBeObject string
  | BaggageEmptySegment string
  | ScalarPrefix string string

definition spec_empty :: "baggage_spec \<Rightarrow> bool" where
  "spec_empty s \<longleftrightarrow> bs_mappings s = [] \<and> bs_bulk s = None"

text \<open>The loop of \<^verbatim>\<open>setPath\<close> over the remaining parts; \<open>seen\<close> holds the parts before them.\<close>

fun set_parts :: "string \<Rightarrow> string list \<Rightarrow> string list \<Rightarrow> gval \<Rightarrow> gmap \<Rightarrow> baggage_error + gmap" where
  "set_parts path seen [] v m = Inr m"
| "set_parts path seen (p # ps) v m =
     (if trim_space p = [] then Inl (BaggageEmptySegment path)
      else if ps = [] then Inr (map_put (trim_space p) (json_clone v) m)
      else case map_get m (trim_space p) of
        None \<Rightarrow> bind_result (set_parts path (seen @ [p]) ps v [])
                  (\<lambda>child. Inr (map_put (trim_space p) (GMap child) m))
      | Some nxt \<Rightarrow>
          (case nxt of
             GMap c \<Rightarrow> bind_result (set_parts path (seen @ [p]) ps v c)
                         (\<lambda>child. Inr (map_put (trim_space p) (GMap child) m))
           | _ \<Rightarrow> Inl (ScalarPrefix path (join_on ''.'' (seen @ [p])))))"

definition path_parts :: "string \<Rightarrow> string list" where
  "path_parts path = split_on (CHR ''.'') (trim_space path)"

definition set_path :: "gmap \<Rightarrow> string \<Rightarrow> gval \<Rightarrow> baggage_error + gmap" where
  "set_path dst path v = set_parts path [] (path_parts path) v dst"

definition sorted_mapping_keys :: "(string \<times> string) list \<Rightarrow> string list" where
  "sorted_mapping_keys m = sort (map fst m)"

definition resolve_present :: "scope \<Rightarrow> string \<Rightarrow> baggage_error + gval" where
  "resolve_present s expr =
     (case resolve_path s expr of
        Inl e \<Rightarrow> Inl (ResolveBaggage expr e)
      | Inr (present, v) \<Rightarrow> if present then Inr v else Inl (PathNotFound expr))"

fun claim_paths :: "scope \<Rightarrow> (string \<times> string) list \<Rightarrow> string list \<Rightarrow> gmap \<Rightarrow> baggage_error + gmap" where
  "claim_paths s maps [] out = Inr out"
| "claim_paths s maps (path # rest) out =
     bind_result (resolve_present s (case map_get maps path of Some e \<Rightarrow> e | None \<Rightarrow> []))
       (\<lambda>v. bind_result (set_path out path v) (claim_paths s maps rest))"

definition claim_bulk :: "scope \<Rightarrow> bulk_spec \<Rightarrow> baggage_error + gmap" where
  "claim_bulk s b =
     (if trim_space (bk_namespace b) = [] then Inl NamespaceRequired
      else bind_result (resolve_present s (bk_from b))
        (\<lambda>v. case v of GMap m \<Rightarrow> set_path [] (bk_namespace b) (GMap m) | _ \<Rightarrow> Inl (MustBeObject (bk_from b))))"

definition apply_claims :: "gmap \<Rightarrow> baggage_spec option \<Rightarrow> gmap \<Rightarrow> baggage_error + gmap" where
  "apply_claims payload spec ctx =
     (case spec of None \<Rightarrow> Inr []
      | Some sp \<Rightarrow>
         if spec_empty sp then Inr []
         else
           let s = \<lparr>s_payload = payload, s_context = ctx, s_config = []\<rparr> in
           bind_result (case bs_bulk sp of None \<Rightarrow> Inr [] | Some b \<Rightarrow> claim_bulk s b)
             (claim_paths s (bs_mappings sp) (sorted_mapping_keys (bs_mappings sp))))"

section \<open>Templates\<close>

datatype with_segment = Literal string | TemplatePath string

datatype with_error =
    UnexpectedClose | UnclosedOpen | EmptyTemplatePath | NestedOpen
  | ResolveWith string cond_error | WithPathNotFound string

definition index_byte :: "char \<Rightarrow> string \<Rightarrow> nat option" where
  "index_byte c s = (if c \<in> set s then Some (length (takeWhile (\<lambda>x. x \<noteq> c) s)) else None)"

function parse_segments :: "string \<Rightarrow> with_error + with_segment list" where
  "parse_segments tmpl =
     (if tmpl = [] then Inr []
      else
        let start = index_byte (CHR ''{'') tmpl; close = index_byte (CHR ''}'') tmpl in
        if close \<noteq> None \<and> (start = None \<or> the close < the start) then Inl UnexpectedClose
        else if start = None then Inr [Literal tmpl]
        else
          let lead = takeWhile (\<lambda>x. x \<noteq> CHR ''{'') tmpl;
              rest = drop (the start) tmpl
          in if CHR ''}'' \<notin> set rest then Inl UnclosedOpen
             else
               let body = takeWhile (\<lambda>x. x \<noteq> CHR ''}'') (tl rest);
                   path = trim_space body
               in if path = [] then Inl EmptyTemplatePath
                  else if CHR ''{'' \<in> set path then Inl NestedOpen
                  else bind_result (parse_segments (drop (Suc (length body)) (tl rest)))
                    (\<lambda>segs. Inr ((if lead = [] then [] else [Literal lead]) @ TemplatePath path # segs)))"
  by pat_completeness auto
termination
  by (relation "measure length") (auto simp: index_byte_def)

declare parse_segments.simps [simp del]

definition parse_with_template :: "string \<Rightarrow> with_error + with_segment list" where
  "parse_with_template tmpl =
     bind_result (parse_segments tmpl) (\<lambda>segs. Inr (if segs = [] then [Literal []] else segs))"

definition resolve_with_path :: "scope \<Rightarrow> string \<Rightarrow> with_error + gval" where
  "resolve_with_path s path =
     (case resolve_path s path of
        Inl e \<Rightarrow> Inl (ResolveWith path e)
      | Inr (present, v) \<Rightarrow> if present then Inr v else Inl (WithPathNotFound path))"

fun render :: "(gval \<Rightarrow> string) \<Rightarrow> scope \<Rightarrow> with_segment list \<Rightarrow> with_error + string" where
  "render fmt s [] = Inr []"
| "render fmt s (Literal t # rest) = bind_result (render fmt s rest) (\<lambda>r. Inr (t @ r))"
| "render fmt s (TemplatePath p # rest) =
     bind_result (resolve_with_path s p)
       (\<lambda>v. bind_result (render fmt s rest) (\<lambda>r. Inr ((if v = GNil then [] else fmt v) @ r)))"

definition eval_with_template :: "(gval \<Rightarrow> string) \<Rightarrow> scope \<Rightarrow> string \<Rightarrow> with_error + gval" where
  "eval_with_template fmt s tmpl =
     bind_result (parse_with_template tmpl)
       (\<lambda>segs. case segs of
           [TemplatePath p] \<Rightarrow> resolve_with_path s p
         | _ \<Rightarrow> bind_result (render fmt s segs) (\<lambda>t. Inr (GStr t)))"

fun remap_keys ::
  "(gval \<Rightarrow> string) \<Rightarrow> scope \<Rightarrow> (string \<times> string) list \<Rightarrow> string list \<Rightarrow> gmap \<Rightarrow> (string \<times> with_error) + gmap" where
  "remap_keys fmt s wth [] out = Inr out"
| "remap_keys fmt s wth (key # rest) out =
     (case eval_with_template fmt s (case map_get wth key of Some t \<Rightarrow> t | None \<Rightarrow> []) of
        Inl e \<Rightarrow> Inl (key, e)
      | Inr v \<Rightarrow> remap_keys fmt s wth rest (map_put key v out))"

definition apply_with_remap ::
  "(gval \<Rightarrow> string) \<Rightarrow> gmap \<Rightarrow> (string \<times> string) list \<Rightarrow> gmap \<Rightarrow> (string \<times> with_error) + gmap" where
  "apply_with_remap fmt payload wth ctx =
     remap_keys fmt \<lparr>s_payload = payload, s_context = ctx, s_config = []\<rparr> wth (sort (map fst wth)) payload"

section \<open>Reading back what was set\<close>

abbreviation trimmed_parts :: "string \<Rightarrow> string list" where
  "trimmed_parts path \<equiv> map trim_space (path_parts path)"

lemma set_parts_get:
  "set_parts path seen ps v m = Inr out \<Longrightarrow> ps \<noteq> [] \<Longrightarrow>
   get_at (GMap out) (map trim_space ps) = Some (json_clone v)"
  by (induction path seen ps v m arbitrary: out rule: set_parts.induct)
    (auto simp: bind_result_Inr_iff split: if_splits option.splits gval.splits)

lemma set_parts_frame:
  "set_parts path seen ps v m = Inr out \<Longrightarrow> map trim_space ps \<parallel> ks \<Longrightarrow>
   get_at (GMap m) ks = Some w \<Longrightarrow> get_at (GMap out) ks = Some w"
proof (induction path seen ps v m arbitrary: out ks rule: set_parts.induct)
  case (2 path seen p ps v m)
  obtain k ks' where ks: "ks = k # ks'" using "2.prems"(2) by (cases ks) auto
  show ?case
  proof (cases "k = trim_space p")
    case False
    then show ?thesis using "2.prems" ks
      by (auto simp: bind_result_Inr_iff split: if_splits option.splits gval.splits)
  next
    case True
    then have par: "map trim_space ps \<parallel> ks'" using "2.prems"(2) ks by (simp add: parallel_def)
    then have ps: "ps \<noteq> []" "ks' \<noteq> []" by auto
    obtain c where c: "map_get m k = Some c" "get_at c ks' = Some w"
      using "2.prems"(3) ks by (auto split: option.splits)
    then obtain cm where cm: "c = GMap cm" using ps(2) by (cases ks'; cases c) auto
    then obtain child where child: "set_parts path (seen @ [p]) ps v cm = Inr child"
      "out = map_put (trim_space p) (GMap child) m" and tp: "trim_space p \<noteq> []"
      using "2.prems"(1) ps c True by (auto simp: bind_result_Inr_iff split: if_splits)
    then have "get_at (GMap child) ks' = Some w"
      using "2.IH"(2) [OF tp ps(1) _ cm child(1) par] c cm True by simp
    then show ?thesis using child(2) ks True by simp
  qed
qed simp

lemma set_path_get: "set_path dst path v = Inr out \<Longrightarrow> get_at (GMap out) (trimmed_parts path) = Some (json_clone v)"
  unfolding set_path_def by (rule set_parts_get) (auto simp: path_parts_def)

lemma set_path_frame:
  "set_path dst path v = Inr out \<Longrightarrow> trimmed_parts path \<parallel> ks \<Longrightarrow> get_at (GMap dst) ks = Some w \<Longrightarrow>
   get_at (GMap out) ks = Some w"
  unfolding set_path_def by (rule set_parts_frame)

lemma claim_paths_keeps:
  "claim_paths s maps paths out0 = Inr out \<Longrightarrow> \<forall>q\<in>set paths. trimmed_parts q \<parallel> ks \<Longrightarrow>
   get_at (GMap out0) ks = Some w \<Longrightarrow> get_at (GMap out) ks = Some w"
  by (induction s maps paths out0 rule: claim_paths.induct)
    (auto simp: bind_result_Inr_iff dest: set_path_frame)

lemma claim_paths_sets:
  "claim_paths s maps paths out0 = Inr out \<Longrightarrow> path \<in> set paths \<Longrightarrow> distinct paths \<Longrightarrow>
   \<forall>q\<in>set paths. q \<noteq> path \<longrightarrow> trimmed_parts q \<parallel> trimmed_parts path \<Longrightarrow> map_get maps path = Some expr \<Longrightarrow>
   \<exists>v. resolve_present s expr = Inr v \<and> get_at (GMap out) (trimmed_parts path) = Some (json_clone v)"
proof (induction s maps paths out0 rule: claim_paths.induct)
  case (2 s maps p rest out0)
  then obtain v out1 where v: "resolve_present s (case map_get maps p of Some e \<Rightarrow> e | None \<Rightarrow> []) = Inr v"
    "set_path out0 p v = Inr out1" "claim_paths s maps rest out1 = Inr out"
    by (auto simp: bind_result_Inr_iff)
  show ?case
  proof (cases "path = p")
    case True
    then have "\<forall>q\<in>set rest. trimmed_parts q \<parallel> trimmed_parts path" using "2.prems" by auto
    with claim_paths_keeps [OF v(3)] set_path_get [OF v(2)] True v(1) "2.prems"(5) show ?thesis by simp
  next
    case False
    with "2.IH" [OF v(3)] "2.prems" show ?thesis by simp
  qed
qed simp

section \<open>Properties\<close>

text \<open>Claims deliver what they name: when \<^verbatim>\<open>ApplyClaims\<close> succeeds, every mapping whose target
  path neither extends nor is extended by another mapping's path finds there the (JSON-cloned) value
  its source expression resolves to in the payload and context; so a missing source path is an error
  and never a silently absent value.\<close>

theorem apply_claims_delivers:
  assumes "apply_claims payload (Some spec) ctx = Inr out"
    and "distinct (map fst (bs_mappings spec))" and "(path, expr) \<in> set (bs_mappings spec)"
    and "\<forall>q\<in>fst ` set (bs_mappings spec). q \<noteq> path \<longrightarrow> trimmed_parts q \<parallel> trimmed_parts path"
  shows "\<exists>v. resolve_path \<lparr>s_payload = payload, s_context = ctx, s_config = []\<rparr> expr = Inr (True, v) \<and>
    get_at (GMap out) (trimmed_parts path) = Some (json_clone v)"
proof -
  let ?s = "\<lparr>s_payload = payload, s_context = ctx, s_config = []\<rparr> :: scope"
  let ?keys = "sorted_mapping_keys (bs_mappings spec)"
  have "\<not> spec_empty spec" using assms(3) by (auto simp: spec_empty_def)
  with assms(1) obtain out0 where out0: "claim_paths ?s (bs_mappings spec) ?keys out0 = Inr out"
    by (auto simp: apply_claims_def Let_def bind_result_Inr_iff)
  have keys: "path \<in> set ?keys" "distinct ?keys" "set ?keys = fst ` set (bs_mappings spec)"
    using assms(2,3) by (force simp: sorted_mapping_keys_def)+
  have get: "map_get (bs_mappings spec) path = Some expr" using assms(2,3) by (simp add: map_of_is_SomeI)
  from claim_paths_sets [OF out0 keys(1,2) _ get] assms(4) keys(3)
  obtain v where "resolve_present ?s expr = Inr v" "get_at (GMap out) (trimmed_parts path) = Some (json_clone v)"
    by auto
  then show ?thesis by (auto simp: resolve_present_def split: sum.splits if_splits)
qed

definition demo_claims :: baggage_spec where
  "demo_claims = \<lparr>bs_mappings = [(''summary.text'', ''payload.text'')], bs_bulk = None\<rparr>"

lemma demo_claims_out:
  "apply_claims [(''text'', GStr ''hi'')] (Some demo_claims) [] = Inr [(''summary'', GMap [(''text'', GStr ''hi'')])]"
  by (simp add: apply_claims_def demo_claims_def spec_empty_def sorted_mapping_keys_def resolve_present_def
      resolve_path_def scope_root_def set_path_def path_parts_def trim_space_def is_space_def Let_def)

theorem apply_claims_delivers_witness:
  "\<exists>v. resolve_path \<lparr>s_payload = [(''text'', GStr ''hi'')], s_context = [], s_config = []\<rparr> ''payload.text'' = Inr (True, v)"
  using apply_claims_delivers [OF demo_claims_out, of "''summary.text''" "''payload.text''"]
  by (auto simp: demo_claims_def)

end
