(* ===== verification/Pipeline_DSL.thy ===== *)
theory Pipeline_DSL
  imports Baggage "HOL-Library.Product_Lexorder"
begin

text \<open>
  The pipeline DSL and its compiler, \<^verbatim>\<open>src/internal/router/dsl\<close> (\<^verbatim>\<open>types.go\<close>,
  \<^verbatim>\<open>compiler.go\<close>). A pipeline specification is compiled into a graph of nodes, edges, entries and
  exits, checked (graph acyclic, calls resolvable and acyclic), given a maximal route depth, and
  flattened into the table of compiled routes the router matches against. The SHA-256 fingerprint of
  a pipeline is not modelled.

  Go maps are lists of entries with increasing keys. Recursive closures of the compiler that walk the
  call graph or the node graph take a bound on the nesting of their calls, one more than the number of
  pipelines or nodes; running out of it is a separate error, shown unreachable where it matters.
\<close>

section \<open>Specifications\<close>

record relay_spec =
  rl_to :: string
  rl_event :: string
  rl_dedupe_key :: string
  rl_with :: "(string \<times> string) list"
  rl_baggage :: "baggage_spec option"

datatype step_spec = StepSpec
  (st_id: string) (st_uses: string) (st_call: string) (st_relay: "relay_spec option")
  (st_if: "condition option") (st_steps: "step_spec list") (st_split: "step_spec list")
  (st_with: "(string \<times> string) list") (st_baggage: "baggage_spec option")

record pipeline_spec =
  ps_name :: string
  ps_on :: string
  ps_on_hook :: string
  ps_from_plugin :: string
  ps_if :: "condition option"
  ps_max_depth :: "int option"
  ps_steps :: "step_spec list"
  ps_execution_mode :: string
  ps_timeout :: int

section \<open>Compiled pipelines\<close>

datatype node_kind = NodeKindUses | NodeKindCall | NodeKindRelay | NodeKindSwitch

record node =
  nd_id :: string
  nd_kind :: node_kind
  nd_uses :: string
  nd_call :: string
  nd_relay :: "relay_spec option"
  nd_condition :: "condition option"
  nd_with :: "(string \<times> string) list"
  nd_baggage :: "baggage_spec option"

record edge =
  eg_from :: string
  eg_to :: string
  eg_event :: string

text \<open>\<^verbatim>\<open>compileExit\<close> and \<^verbatim>\<open>TerminalExit\<close>: a node and the event type that leaves it.\<close>

type_synonym exit = "string \<times> string"

datatype destination =
    DestUses (ds_step: string) (ds_plugin: string) (ds_command: string)
  | DestCall (ds_step: string) (ds_pipeline: string)
  | DestTerminal

record route_source =
  rs_trigger :: string
  rs_pipeline :: string
  rs_step_id :: string
  rs_hook_signal :: string
  rs_source_plugin :: string
  rs_event_type :: string
  rs_depth_lt :: int
  rs_if :: "condition option"

record compiled_route =
  cr_id :: string
  cr_pipeline :: string
  cr_source :: route_source
  cr_destination :: destination

record pipeline =
  pl_name :: string
  pl_trigger :: string
  pl_is_hook :: bool
  pl_from_plugin :: string
  pl_execution_mode :: string
  pl_timeout :: int
  pl_if :: "condition option"
  pl_author_max_depth :: "int option"
  pl_nodes :: "(string \<times> node) list"
  pl_edges :: "edge list"
  pl_entries :: "string list"
  pl_terminals :: "string list"
  pl_terminal_exits :: "exit list"
  pl_called :: "string list"
  pl_max_route_depth :: int
  pl_routes :: "compiled_route list"

datatype compile_error =
    NameRequired nat | DuplicatePipeline string | InPipeline string compile_error
  | OnRequired | OnExclusive | StepsEmpty | MaxDepthNegative
  | PipelineCondition validation_error | HookContextPredicate
  | AtStep nat compile_error | AtSplit nat compile_error | EmptyNodeSet nat
  | ExactlyOneStepMode | WithOnlyOnUses | BaggageOnlyOnUses
  | StepCondition validation_error | DuplicateStepID string
  | RelayToRequired | RelayEventRequired | RelayBaggage compile_error | RelayWithKeyEmpty | RelayWithExprEmpty string
  | BaggagePathInvalid string | BaggageExprEmpty string | BaggageFromEmpty | BaggageFromNotPayload string
  | BaggageNamespaceInvalid string
  | UnknownFromNode string | UnknownToNode string | GraphCycle
  | UnknownPipeline string string | CallCycle "string list" | DepthCycle string | PipelineMissing string
  | MissingNode string string | UnreachableStep | OutOfFuel

section \<open>Baggage and relay checks\<close>

definition path_char_ok :: "nat \<Rightarrow> char \<Rightarrow> bool" where
  "path_char_ok i c \<longleftrightarrow>
     (let n = (of_char c :: nat) in
      n = 95 \<or> (97 \<le> n \<and> n \<le> 122) \<or> (65 \<le> n \<and> n \<le> 90) \<or> (i > 0 \<and> 48 \<le> n \<and> n \<le> 57))"

definition segment_ok :: "string \<Rightarrow> bool" where
  "segment_ok part \<longleftrightarrow> part \<noteq> [] \<and> list_all (\<lambda>(i, c). path_char_ok i c) (enumerate 0 part)"

definition validate_baggage_path :: "string \<Rightarrow> bool" where
  "validate_baggage_path path \<longleftrightarrow>
     trim_space path \<noteq> [] \<and> list_all segment_ok (split_on (CHR ''.'') (trim_space path))"

definition is_payload_path :: "string \<Rightarrow> bool" where
  "is_payload_path expr \<longleftrightarrow> trim_space expr = ''payload'' \<or> prefix ''payload.'' (trim_space expr)"

fun check_mappings :: "(string \<times> string) list \<Rightarrow> compile_error option" where
  "check_mappings [] = None"
| "check_mappings ((path, expr) # rest) =
     (if \<not> validate_baggage_path path then Some (BaggagePathInvalid path)
      else if trim_space expr = [] then Some (BaggageExprEmpty path)
      else check_mappings rest)"

definition validate_baggage_spec :: "baggage_spec \<Rightarrow> compile_error option" where
  "validate_baggage_spec sp =
     (if spec_empty sp then None
      else case check_mappings (bs_mappings sp) of
        Some e \<Rightarrow> Some e
      | None \<Rightarrow>
         (case bs_bulk sp of
            None \<Rightarrow> None
          | Some b \<Rightarrow>
             if trim_space (bk_from b) = [] then Some BaggageFromEmpty
             else if \<not> is_payload_path (bk_from b) then Some (BaggageFromNotPayload (bk_from b))
             else if trim_space (bk_namespace b) \<noteq> [] \<and> \<not> validate_baggage_path (bk_namespace b)
             then Some (BaggageNamespaceInvalid (bk_namespace b))
             else None))"

fun check_relay_with :: "(string \<times> string) list \<Rightarrow> compile_error option" where
  "check_relay_with [] = None"
| "check_relay_with ((key, expr) # rest) =
     (if trim_space key = [] then Some RelayWithKeyEmpty
      else if trim_space expr = [] then Some (RelayWithExprEmpty key)
      else check_relay_with rest)"

definition validate_relay_spec :: "relay_spec \<Rightarrow> compile_error option" where
  "validate_relay_spec r =
     (if trim_space (rl_to r) = [] then Some RelayToRequired
      else if trim_space (rl_event r) = [] then Some RelayEventRequired
      else case (case rl_baggage r of None \<Rightarrow> None | Some b \<Rightarrow> if spec_empty b then None else validate_baggage_spec b) of
        Some e \<Rightarrow> Some (RelayBaggage e)
      | None \<Rightarrow> check_relay_with (rl_with r))"

section \<open>The builder\<close>

record builder =
  b_nodes :: "(string \<times> node) list"
  b_edges :: "edge list"
  b_next_auto :: nat
  b_called :: "string list"

definition empty_builder :: builder where
  "empty_builder = \<lparr>b_nodes = [], b_edges = [], b_next_auto = 0, b_called = []\<rparr>"

definition auto_id :: "nat \<Rightarrow> string" where
  "auto_id n = ''step_'' @ int_str (int n)"

text \<open>The search for a free automatic id; among one more candidates than nodes one is free.\<close>

fun next_free :: "nat \<Rightarrow> nat \<Rightarrow> (string \<times> node) list \<Rightarrow> nat" where
  "next_free 0 n nodes = n"
| "next_free (Suc f) n nodes =
     (if map_get nodes (auto_id n) = None then n else next_free f (Suc n) nodes)"

definition alloc_node_id :: "string \<Rightarrow> builder \<Rightarrow> compile_error + (string \<times> builder)" where
  "alloc_node_id preferred b =
     (let want = trim_space preferred;
          n = next_free (length (b_nodes b)) (Suc (b_next_auto b)) (b_nodes b);
          b1 = (if want = [] then b\<lparr>b_next_auto := n\<rparr> else b);
          nid = (if want = [] then auto_id n else want)
      in if map_get (b_nodes b) nid \<noteq> None then Inl (DuplicateStepID nid) else Inr (nid, b1))"

definition add_node :: "node \<Rightarrow> builder \<Rightarrow> builder" where
  "add_node nd b = b\<lparr>b_nodes := map_put (nd_id nd) nd (b_nodes b)\<rparr>"

definition add_edges :: "exit list \<Rightarrow> string list \<Rightarrow> builder \<Rightarrow> builder" where
  "add_edges froms tos b =
     b\<lparr>b_edges := b_edges b @
        concat (map (\<lambda>(n, ev). map (\<lambda>t. \<lparr>eg_from = n, eg_to = t, eg_event = ev\<rparr>) tos) froms)\<rparr>"

definition sorted_unique :: "('a::linorder) list \<Rightarrow> 'a list" where
  "sorted_unique xs = sort (remdups xs)"

definition switch_true :: string where
  "switch_true = ''ductile.switch.true''"

definition switch_false :: string where
  "switch_false = ''ductile.switch.false''"

type_synonym compiled = "builder \<times> string list \<times> exit list"

definition plain_node :: "string \<Rightarrow> node_kind \<Rightarrow> node" where
  "plain_node nid k = \<lparr>nd_id = nid, nd_kind = k, nd_uses = [], nd_call = [], nd_relay = None,
     nd_condition = None, nd_with = [], nd_baggage = None\<rparr>"

definition wrap_conditional_step ::
  "string \<Rightarrow> condition \<Rightarrow> string list \<Rightarrow> exit list \<Rightarrow> builder \<Rightarrow> compile_error + compiled" where
  "wrap_conditional_step step_id cond entry terminal b =
     bind_result (alloc_node_id (step_id @ ''__switch'') b) (\<lambda>(sid, b1).
       let b2 = add_node ((plain_node sid NodeKindSwitch)\<lparr>nd_uses := ''core.switch'', nd_condition := Some cond\<rparr>) b1;
           b3 = add_edges [(sid, switch_true)] entry b2
       in Inr (b3, [sid], sorted_unique (terminal @ [(sid, switch_false)])))"

definition finish_leaf :: "node \<Rightarrow> condition option \<Rightarrow> builder \<Rightarrow> compile_error + compiled" where
  "finish_leaf nd cond b =
     (let b1 = add_node nd b; entry = [nd_id nd]; terminal = [(nd_id nd, [])] in
      case cond of
        None \<Rightarrow> Inr (b1, entry, terminal)
      | Some c \<Rightarrow> wrap_conditional_step (nd_id nd) c entry terminal b1)"

definition step_mode_count :: "step_spec \<Rightarrow> nat" where
  "step_mode_count s =
     (if trim_space (st_uses s) \<noteq> [] then 1 else 0) + (if trim_space (st_call s) \<noteq> [] then 1 else 0) +
     (if st_relay s \<noteq> None then 1 else 0) + (if st_steps s \<noteq> [] then 1 else 0) +
     (if st_split s \<noteq> [] then 1 else 0)"

text \<open>The checks at the head of \<^verbatim>\<open>compileStep\<close>; the result is the validated condition.\<close>

definition check_step :: "regex_engine \<Rightarrow> step_spec \<Rightarrow> compile_error + condition option" where
  "check_step rx s =
     (if step_mode_count s \<noteq> 1 then Inl ExactlyOneStepMode
      else if st_with s \<noteq> [] \<and> trim_space (st_uses s) = [] then Inl WithOnlyOnUses
      else
        case (case st_baggage s of
                None \<Rightarrow> None
              | Some bg \<Rightarrow> if spec_empty bg then None
                          else if trim_space (st_uses s) = [] then Some BaggageOnlyOnUses
                          else validate_baggage_spec bg) of
          Some e \<Rightarrow> Inl e
        | None \<Rightarrow>
           (case st_if s of
              None \<Rightarrow> Inr None
            | Some c \<Rightarrow> (case validate rx c of Inl e \<Rightarrow> Inl (StepCondition e) | Inr c' \<Rightarrow> Inr (Some c'))))"

fun compile_steps ::
  "regex_engine \<Rightarrow> nat \<Rightarrow> exit list \<Rightarrow> string list \<Rightarrow> step_spec list \<Rightarrow> builder \<Rightarrow> compile_error + compiled"
and compile_split ::
  "regex_engine \<Rightarrow> nat \<Rightarrow> string list \<Rightarrow> exit list \<Rightarrow> step_spec list \<Rightarrow> builder \<Rightarrow> compile_error + compiled"
and compile_step :: "regex_engine \<Rightarrow> step_spec \<Rightarrow> builder \<Rightarrow> compile_error + compiled" where
  "compile_steps rx i previous entry [] b = Inr (b, entry, previous)"
| "compile_steps rx i previous entry (s # rest) b =
     (case compile_step rx s b of
        Inl e \<Rightarrow> Inl (AtStep i e)
      | Inr (b1, step_entry, step_terminal) \<Rightarrow>
         if step_entry = [] \<or> step_terminal = [] then Inl (EmptyNodeSet i)
         else compile_steps rx (Suc i) step_terminal (if i = 0 then step_entry else entry) rest
                (if previous \<noteq> [] then add_edges previous step_entry b1 else b1))"
| "compile_split rx i entries exits [] b = Inr (b, sorted_unique entries, sorted_unique exits)"
| "compile_split rx i entries exits (s # rest) b =
     (case compile_step rx s b of
        Inl e \<Rightarrow> Inl (AtSplit i e)
      | Inr (b1, branch_entry, branch_terminal) \<Rightarrow>
          compile_split rx (Suc i) (entries @ branch_entry) (exits @ branch_terminal) rest b1)"
| "compile_step rx (StepSpec sid uses call relay cnd steps split wth bag) b =
     (case check_step rx (StepSpec sid uses call relay cnd steps split wth bag) of
        Inl e \<Rightarrow> Inl e
      | Inr cond \<Rightarrow>
         if trim_space uses \<noteq> [] then
           (case alloc_node_id sid b of
              Inl e \<Rightarrow> Inl e
            | Inr (nid, b1) \<Rightarrow>
                finish_leaf ((plain_node nid NodeKindUses)\<lparr>nd_uses := trim_space uses, nd_with := wth, nd_baggage := bag\<rparr>)
                  cond b1)
         else if trim_space call \<noteq> [] then
           (case alloc_node_id sid b of
              Inl e \<Rightarrow> Inl e
            | Inr (nid, b1) \<Rightarrow>
                finish_leaf ((plain_node nid NodeKindCall)\<lparr>nd_call := trim_space call\<rparr>) cond
                  (b1\<lparr>b_called := trim_space call # b_called b1\<rparr>))
         else case relay of
           Some r \<Rightarrow>
             (case validate_relay_spec r of
                Some e \<Rightarrow> Inl e
              | None \<Rightarrow>
                 (case alloc_node_id sid b of
                    Inl e \<Rightarrow> Inl e
                  | Inr (nid, b1) \<Rightarrow> finish_leaf ((plain_node nid NodeKindRelay)\<lparr>nd_relay := Some r\<rparr>) cond b1))
         | None \<Rightarrow>
             if steps \<noteq> [] then compile_steps rx 0 [] [] steps b
             else if split \<noteq> [] then compile_split rx 0 [] [] split b
             else Inl UnreachableStep)"

section \<open>The graph check\<close>

definition successors :: "edge list \<Rightarrow> string \<Rightarrow> string list" where
  "successors edges n = map eg_to (filter (\<lambda>e. eg_from e = n) edges)"

fun release :: "string list \<Rightarrow> (string \<Rightarrow> nat) \<Rightarrow> string list \<Rightarrow> (string \<Rightarrow> nat) \<times> string list" where
  "release [] deg queue = (deg, queue)"
| "release (t # ts) deg queue =
     (let deg' = deg(t := deg t - 1)
      in release ts deg' (if deg' t = 0 then queue @ [t] else queue))"

text \<open>Kahn's algorithm: the number of nodes taken from the queue. Each node enters it at most once, so
  one step per node empties it.\<close>

fun kahn :: "nat \<Rightarrow> edge list \<Rightarrow> (string \<Rightarrow> nat) \<Rightarrow> string list \<Rightarrow> nat \<Rightarrow> nat" where
  "kahn 0 edges deg queue visited = visited"
| "kahn (Suc f) edges deg queue visited =
     (case queue of
        [] \<Rightarrow> visited
      | n # rest \<Rightarrow>
         (case release (successors edges n) deg rest of (deg', queue') \<Rightarrow>
            kahn f edges deg' queue' (Suc visited)))"

definition in_degree :: "edge list \<Rightarrow> string \<Rightarrow> nat" where
  "in_degree edges n = length (filter (\<lambda>e. eg_to e = n) edges)"

fun check_edges :: "(string \<times> node) list \<Rightarrow> edge list \<Rightarrow> compile_error option" where
  "check_edges nodes [] = None"
| "check_edges nodes (e # es) =
     (if map_get nodes (eg_from e) = None then Some (UnknownFromNode (eg_from e))
      else if map_get nodes (eg_to e) = None then Some (UnknownToNode (eg_to e))
      else check_edges nodes es)"

definition validate_pipeline_dag :: "(string \<times> node) list \<Rightarrow> edge list \<Rightarrow> compile_error option" where
  "validate_pipeline_dag nodes edges =
     (case check_edges nodes edges of
        Some e \<Rightarrow> Some e
      | None \<Rightarrow>
         let ids = map fst nodes; deg = in_degree edges in
         if kahn (Suc (length ids)) edges deg (filter (\<lambda>n. deg n = 0) ids) 0 \<noteq> length nodes
         then Some GraphCycle else None)"

section \<open>Compiling one pipeline\<close>

definition edge_key :: "edge \<Rightarrow> string \<times> string \<times> string" where
  "edge_key e = (eg_from e, eg_to e, eg_event e)"

definition check_trigger_condition ::
  "regex_engine \<Rightarrow> bool \<Rightarrow> condition option \<Rightarrow> compile_error + condition option" where
  "check_trigger_condition rx is_hook c =
     (case c of
        None \<Rightarrow> Inr None
      | Some c0 \<Rightarrow>
         (case validate rx c0 of
            Inl e \<Rightarrow> Inl (PipelineCondition e)
          | Inr c1 \<Rightarrow> if is_hook \<and> references_root ''context'' c1 then Inl HookContextPredicate else Inr (Some c1)))"

definition compile_pipeline :: "regex_engine \<Rightarrow> pipeline_spec \<Rightarrow> compile_error + pipeline" where
  "compile_pipeline rx sp =
     (let trigger = trim_space (ps_on sp); hook = trim_space (ps_on_hook sp); is_hook = (hook \<noteq> []) in
      if trigger = [] \<and> hook = [] then Inl OnRequired
      else if trigger \<noteq> [] \<and> hook \<noteq> [] then Inl OnExclusive
      else if ps_steps sp = [] then Inl StepsEmpty
      else
        bind_result (check_trigger_condition rx is_hook (ps_if sp)) (\<lambda>cond.
        if (case ps_max_depth sp of None \<Rightarrow> False | Some d \<Rightarrow> d < 0) then Inl MaxDepthNegative
        else
          bind_result (compile_steps rx 0 [] [] (ps_steps sp) empty_builder) (\<lambda>(b, entry, terminal).
            let edges = sort_key edge_key (b_edges b) in
            case validate_pipeline_dag (b_nodes b) edges of
              Some e \<Rightarrow> Inl e
            | None \<Rightarrow>
               Inr \<lparr>pl_name = trim_space (ps_name sp), pl_trigger = (if is_hook then hook else trigger),
                    pl_is_hook = is_hook, pl_from_plugin = trim_space (ps_from_plugin sp),
                    pl_execution_mode = (if ps_execution_mode sp = [] then ''async'' else ps_execution_mode sp),
                    pl_timeout = (if ps_timeout sp = 0 then 30 * second else ps_timeout sp),
                    pl_if = cond, pl_author_max_depth = ps_max_depth sp,
                    pl_nodes = b_nodes b, pl_edges = edges,
                    pl_entries = sorted_unique entry,
                    pl_terminals = sorted_unique (map fst terminal),
                    pl_terminal_exits = sorted_unique terminal,
                    pl_called = sorted_unique (b_called b),
                    pl_max_route_depth = 0, pl_routes = []\<rparr>)))"

section \<open>Compiled routes\<close>

definition empty_source :: route_source where
  "empty_source = \<lparr>rs_trigger = [], rs_pipeline = [], rs_step_id = [], rs_hook_signal = [],
     rs_source_plugin = [], rs_event_type = [], rs_depth_lt = 0, rs_if = None\<rparr>"

definition with_source_depth :: "int \<Rightarrow> route_source \<Rightarrow> route_source" where
  "with_source_depth d s = (if d > 0 then s\<lparr>rs_depth_lt := d\<rparr> else s)"

definition route_destination_for_node :: "node \<Rightarrow> destination" where
  "route_destination_for_node nd =
     (case nd_kind nd of
        NodeKindCall \<Rightarrow> DestCall (nd_id nd) (nd_call nd)
      | NodeKindSwitch \<Rightarrow> DestUses (nd_id nd) ''core.switch'' ''handle''
      | NodeKindRelay \<Rightarrow> DestUses (nd_id nd) ''core.relay'' ''handle''
      | NodeKindUses \<Rightarrow> DestUses (nd_id nd) (nd_uses nd) ''handle'')"

definition entry_route :: "pipeline \<Rightarrow> string \<Rightarrow> node \<Rightarrow> compiled_route" where
  "entry_route p nid nd =
     \<lparr>cr_id = ''entry:'' @ nid, cr_pipeline = pl_name p,
      cr_source = with_source_depth (pl_max_route_depth p)
        (empty_source\<lparr>rs_trigger := (if pl_is_hook p then [] else pl_trigger p),
          rs_hook_signal := (if pl_is_hook p then pl_trigger p else []),
          rs_source_plugin := pl_from_plugin p, rs_if := pl_if p\<rparr>),
      cr_destination = route_destination_for_node nd\<rparr>"

definition step_source :: "pipeline \<Rightarrow> string \<Rightarrow> string \<Rightarrow> route_source" where
  "step_source p sid ev =
     with_source_depth (pl_max_route_depth p)
       (empty_source\<lparr>rs_pipeline := pl_name p, rs_step_id := sid, rs_event_type := ev\<rparr>)"

definition edge_route :: "pipeline \<Rightarrow> edge \<Rightarrow> node \<Rightarrow> compiled_route" where
  "edge_route p e nd =
     \<lparr>cr_id = ''edge:'' @ eg_from e @ ''->'' @ eg_to e, cr_pipeline = pl_name p,
      cr_source = step_source p (eg_from e) (eg_event e),
      cr_destination = route_destination_for_node nd\<rparr>"

definition terminal_route_id :: "exit \<Rightarrow> string" where
  "terminal_route_id x =
     (if trim_space (snd x) = [] then ''terminal:'' @ fst x else ''terminal:'' @ fst x @ ''@'' @ snd x)"

definition terminal_route :: "pipeline \<Rightarrow> exit \<Rightarrow> compiled_route" where
  "terminal_route p x =
     \<lparr>cr_id = terminal_route_id x, cr_pipeline = pl_name p,
      cr_source = step_source p (fst x) (snd x), cr_destination = DestTerminal\<rparr>"

text \<open>The sort key of \<^verbatim>\<open>SortCompiledRoutes\<close>, all compared fields in order.\<close>

definition destination_key :: "destination \<Rightarrow> string list" where
  "destination_key d =
     (case d of DestUses s p c \<Rightarrow> [''uses'', s, p, c, []]
      | DestCall s c \<Rightarrow> [''call'', s, [], [], c]
      | DestTerminal \<Rightarrow> [''terminal'', [], [], [], []])"

definition route_key :: "compiled_route \<Rightarrow> string list \<times> int \<times> string list" where
  "route_key r =
     (let s = cr_source r in
      ([cr_id r, cr_pipeline r, rs_trigger s, rs_hook_signal s, rs_source_plugin s, rs_pipeline s,
        rs_step_id s, rs_event_type s], rs_depth_lt s, destination_key (cr_destination r)))"

definition sort_compiled_routes :: "compiled_route list \<Rightarrow> compiled_route list" where
  "sort_compiled_routes rs = sort_key route_key rs"

definition build_compiled_routes :: "pipeline \<Rightarrow> compiled_route list" where
  "build_compiled_routes p =
     sort_compiled_routes
       (List.map_filter (\<lambda>nid. map_option (entry_route p nid) (map_get (pl_nodes p) nid)) (pl_entries p) @
        List.map_filter (\<lambda>e. map_option (edge_route p e) (map_get (pl_nodes p) (eg_to e))) (pl_edges p) @
        map (terminal_route p)
          (if pl_terminal_exits p = [] then map (\<lambda>t. (t, [])) (pl_terminals p) else pl_terminal_exits p))"

section \<open>The call graph\<close>

type_synonym pipelines = "(string \<times> pipeline) list"

definition called_by :: "pipelines \<Rightarrow> string \<Rightarrow> string list" where
  "called_by ps n = (case map_get ps n of None \<Rightarrow> [] | Some p \<Rightarrow> pl_called p)"

fun unknown_call :: "pipelines \<Rightarrow> pipelines \<Rightarrow> compile_error option" where
  "unknown_call ps [] = None"
| "unknown_call ps ((n, p) # rest) =
     (case find (\<lambda>c. map_get ps c = None) (pl_called p) of
        Some c \<Rightarrow> Some (UnknownPipeline n c)
      | None \<Rightarrow> unknown_call ps rest)"

text \<open>The depth-first walk: 0 unvisited, 1 on the stack, 2 done.\<close>

fun call_walk :: "nat \<Rightarrow> pipelines \<Rightarrow> string list \<Rightarrow> string \<Rightarrow> (string \<Rightarrow> nat) \<Rightarrow> compile_error + (string \<Rightarrow> nat)"
and call_walk_all :: "nat \<Rightarrow> pipelines \<Rightarrow> string list \<Rightarrow> string list \<Rightarrow> (string \<Rightarrow> nat) \<Rightarrow> compile_error + (string \<Rightarrow> nat)" where
  "call_walk 0 ps stack n st = Inl OutOfFuel"
| "call_walk (Suc f) ps stack n st =
     (if st n = 2 then Inr st
      else if st n = 1 then Inl (CallCycle (dropWhile (\<lambda>m. m \<noteq> n) stack @ [n]))
      else
        (case call_walk_all f ps (stack @ [n]) (called_by ps n) (st(n := 1)) of
           Inl e \<Rightarrow> Inl e
         | Inr st' \<Rightarrow> Inr (st'(n := 2))))"
| "call_walk_all f ps stack [] st = Inr st"
| "call_walk_all f ps stack (n # ns) st =
     (case call_walk f ps stack n st of Inl e \<Rightarrow> Inl e | Inr st' \<Rightarrow> call_walk_all f ps stack ns st')"

definition validate_pipeline_calls :: "pipelines \<Rightarrow> compile_error option" where
  "validate_pipeline_calls ps =
     (case unknown_call ps ps of
        Some e \<Rightarrow> Some e
      | None \<Rightarrow>
         (case call_walk_all (Suc (length ps)) ps [] (sort (map fst ps)) (\<lambda>_. 0) of
            Inl e \<Rightarrow> Some e | Inr _ \<Rightarrow> None))"

section \<open>Maximal route depths\<close>

text \<open>
  \<^verbatim>\<open>nodeDepth\<close> and \<^verbatim>\<open>visit\<close> of \<^verbatim>\<open>assignPipelineMaxRouteDepths\<close>; the memo tables only cache
  and are dropped. \<open>called\<close> gives the depth of a called pipeline.
\<close>

fun node_depth ::
  "nat \<Rightarrow> (string \<Rightarrow> compile_error + int) \<Rightarrow> pipeline \<Rightarrow> string \<Rightarrow> compile_error + int"
and max_succ_depth ::
  "nat \<Rightarrow> (string \<Rightarrow> compile_error + int) \<Rightarrow> pipeline \<Rightarrow> string list \<Rightarrow> int \<Rightarrow> compile_error + int" where
  "node_depth 0 called p n = Inl OutOfFuel"
| "node_depth (Suc f) called p n =
     (case map_get (pl_nodes p) n of
        None \<Rightarrow> Inl (MissingNode (pl_name p) n)
      | Some nd \<Rightarrow>
         (case (if nd_kind nd = NodeKindCall then called (nd_call nd) else Inr 1) of
            Inl e \<Rightarrow> Inl e
          | Inr own \<Rightarrow>
             (case max_succ_depth f called p (successors (pl_edges p) n) 0 of
                Inl e \<Rightarrow> Inl e | Inr m \<Rightarrow> Inr (own + m))))"
| "max_succ_depth f called p [] acc = Inr acc"
| "max_succ_depth f called p (n # ns) acc =
     (case node_depth f called p n of
        Inl e \<Rightarrow> Inl e | Inr d \<Rightarrow> max_succ_depth f called p ns (if d > acc then d else acc))"

fun pipeline_depth :: "nat \<Rightarrow> pipelines \<Rightarrow> string \<Rightarrow> compile_error + int" where
  "pipeline_depth 0 ps n = Inl (DepthCycle n)"
| "pipeline_depth (Suc f) ps n =
     (case map_get ps n of
        None \<Rightarrow> Inl (PipelineMissing n)
      | Some p \<Rightarrow>
         (case max_succ_depth (Suc (length (pl_nodes p))) (pipeline_depth f ps) p (pl_entries p) 0 of
            Inl e \<Rightarrow> Inl e
          | Inr m \<Rightarrow> Inr (if m = 0 then 1 else m)))"

fun assign_depths :: "pipelines \<Rightarrow> pipelines \<Rightarrow> compile_error + pipelines" where
  "assign_depths ps [] = Inr []"
| "assign_depths ps ((n, p) # rest) =
     (case pipeline_depth (Suc (length ps)) ps n of
        Inl e \<Rightarrow> Inl e
      | Inr d \<Rightarrow>
         (case assign_depths ps rest of
            Inl e \<Rightarrow> Inl e
          | Inr rest' \<Rightarrow>
              Inr ((n, p\<lparr>pl_max_route_depth := (case pl_author_max_depth p of Some a \<Rightarrow> a | None \<Rightarrow> d)\<rparr>) # rest')))"

section \<open>Compiling a set\<close>

fun compile_each :: "regex_engine \<Rightarrow> nat \<Rightarrow> pipeline_spec list \<Rightarrow> pipelines \<Rightarrow> compile_error + pipelines" where
  "compile_each rx i [] ps = Inr ps"
| "compile_each rx i (sp # rest) ps =
     (let name = trim_space (ps_name sp) in
      if name = [] then Inl (NameRequired i)
      else if map_get ps name \<noteq> None then Inl (DuplicatePipeline name)
      else case compile_pipeline rx sp of
        Inl e \<Rightarrow> Inl (InPipeline name e)
      | Inr p \<Rightarrow> compile_each rx (Suc i) rest (map_put name p ps))"

definition compile_specs :: "regex_engine \<Rightarrow> pipeline_spec list \<Rightarrow> compile_error + pipelines" where
  "compile_specs rx specs =
     bind_result (compile_each rx 0 specs []) (\<lambda>ps.
       case validate_pipeline_calls ps of
         Some e \<Rightarrow> Inl e
       | None \<Rightarrow>
          bind_result (assign_depths ps ps) (\<lambda>ps1.
            Inr (map (\<lambda>(n, p). (n, p\<lparr>pl_routes := build_compiled_routes p\<rparr>)) ps1)))"

end
