(* ===== verification/Router.thy ===== *)
theory Router
  imports Pipeline_DSL
begin

text \<open>
  The routing engine, \<^verbatim>\<open>src/internal/router\<close> (\<^verbatim>\<open>engine.go\<close>, \<^verbatim>\<open>interface.go\<close>): an emitted
  event is matched against the compiled routes of the loaded pipelines, giving the jobs to enqueue.
  The router is its set of compiled pipelines; the three indexes of the Go struct are the functions
  \<open>trigger_index\<close>, \<open>hook_index\<close> and \<open>transition_index\<close>. The UUID that \<^verbatim>\<open>Next\<close> draws for
  each pipeline it starts is the argument \<open>new_id\<close>, by pipeline name. Nested calls of
  \<^verbatim>\<open>resolveCompiledRoute\<close> are bounded by one more than the number of pipelines, which is enough
  for every set the compiler accepts.
\<close>

section \<open>Requests and dispatches\<close>

record event =
  ev_type :: string
  ev_payload :: gmap
  ev_dedupe_key :: string
  ev_source :: string
  ev_timestamp :: instant
  ev_event_id :: string

record request =
  rr_source_plugin :: string
  rr_source_job_id :: string
  rr_source_context_id :: string
  rr_source_pipeline :: string
  rr_source_step_id :: string
  rr_source_instance_id :: string
  rr_source_depth :: int
  rr_source_max_depth :: int
  rr_source_event_id :: string
  rr_source_context :: gmap
  rr_event :: event

record dispatch =
  dp_plugin :: string
  dp_command :: string
  dp_event :: event
  dp_pipeline_name :: string
  dp_step_id :: string
  dp_instance_id :: string
  dp_route_depth :: int
  dp_route_max_depth :: int
  dp_parent_job_id :: string
  dp_parent_context_id :: string
  dp_source_event_id :: string

datatype route_error = EventTypeRequired | SignalRequired | EmptyCallTarget string
  | NoEntryRoutes string string | PipelineNotFound string | RouteFuel
  | UnknownUses string string string | UnknownFromPlugin string string

section \<open>Indexes\<close>

text \<open>\<^verbatim>\<open>New\<close> rebuilds the routes of a pipeline that has none.\<close>

definition routes_of :: "pipeline \<Rightarrow> compiled_route list" where
  "routes_of p = (if pl_routes p = [] then build_compiled_routes p else pl_routes p)"

definition new_router :: "pipelines \<Rightarrow> pipelines" where
  "new_router ps = map (\<lambda>(n, p). (n, p\<lparr>pl_routes := routes_of p\<rparr>)) ps"

definition all_routes :: "pipelines \<Rightarrow> compiled_route list" where
  "all_routes ps = concat (map (pl_routes \<circ> snd) ps)"

definition trigger_index :: "pipelines \<Rightarrow> string \<Rightarrow> compiled_route list" where
  "trigger_index ps ev =
     sort_compiled_routes (filter (\<lambda>r. rs_trigger (cr_source r) \<noteq> [] \<and> rs_trigger (cr_source r) = ev) (all_routes ps))"

definition hook_index :: "pipelines \<Rightarrow> string \<Rightarrow> compiled_route list" where
  "hook_index ps sig =
     sort_compiled_routes (filter (\<lambda>r. rs_trigger (cr_source r) = [] \<and> rs_hook_signal (cr_source r) \<noteq> [] \<and>
        rs_hook_signal (cr_source r) = sig) (all_routes ps))"

definition transition_index :: "pipelines \<Rightarrow> string \<Rightarrow> string \<Rightarrow> compiled_route list" where
  "transition_index ps pl sid =
     sort_compiled_routes (filter (\<lambda>r. let s = cr_source r in rs_trigger s = [] \<and> rs_hook_signal s = [] \<and>
        rs_pipeline s \<noteq> [] \<and> rs_step_id s \<noteq> [] \<and> rs_pipeline s = pl \<and> rs_step_id s = sid) (all_routes ps))"

section \<open>Matching\<close>

definition source_plugin_matches :: "string \<Rightarrow> string \<Rightarrow> bool" where
  "source_plugin_matches want have \<longleftrightarrow> trim_space want = [] \<or> trim_space want = trim_space have"

definition matches_compiled_route_source :: "route_source \<Rightarrow> request \<Rightarrow> bool \<Rightarrow> bool" where
  "matches_compiled_route_source s req require_instance =
     (if rs_trigger s \<noteq> [] then trim_space (rs_trigger s) = trim_space (ev_type (rr_event req))
      else if rs_hook_signal s \<noteq> [] then trim_space (rs_hook_signal s) = trim_space (ev_type (rr_event req))
      else if rs_pipeline s \<noteq> [] \<and> rs_step_id s \<noteq> [] then
        trim_space (rs_pipeline s) = trim_space (rr_source_pipeline req) \<and>
        trim_space (rs_step_id s) = trim_space (rr_source_step_id req) \<and>
        (rs_event_type s = [] \<or> trim_space (rs_event_type s) = trim_space (ev_type (rr_event req))) \<and>
        \<not> (require_instance \<and> trim_space (rr_source_instance_id req) = []) \<and>
        (let m = (if rr_source_max_depth req = 0 then rs_depth_lt s else rr_source_max_depth req)
         in \<not> (m > 0 \<and> rr_source_depth req \<ge> m))
      else False)"

definition entry_routes_for_pipeline :: "pipelines \<Rightarrow> string \<Rightarrow> compiled_route list" where
  "entry_routes_for_pipeline ps name =
     (case map_get ps name of
        None \<Rightarrow> []
      | Some p \<Rightarrow> filter (\<lambda>r. cr_pipeline r = name \<and>
                     (rs_trigger (cr_source r) \<noteq> [] \<or> rs_hook_signal (cr_source r) \<noteq> [])) (pl_routes p))"

section \<open>Resolving\<close>

definition uses_dispatch :: "compiled_route \<Rightarrow> string \<Rightarrow> string \<Rightarrow> string \<Rightarrow> request \<Rightarrow> bool \<Rightarrow> dispatch" where
  "uses_dispatch r step plugin command req root_hook =
     \<lparr>dp_plugin = plugin, dp_command = command, dp_event = rr_event req,
      dp_pipeline_name = (if root_hook then [] else cr_pipeline r),
      dp_step_id = (if root_hook then [] else step),
      dp_instance_id = rr_source_instance_id req,
      dp_route_depth = rr_source_depth req + 1,
      dp_route_max_depth = (if rr_source_max_depth req = 0 then rs_depth_lt (cr_source r) else rr_source_max_depth req),
      dp_parent_job_id = rr_source_job_id req, dp_parent_context_id = rr_source_context_id req,
      dp_source_event_id = rr_source_event_id req\<rparr>"

fun resolve_compiled_route ::
  "nat \<Rightarrow> pipelines \<Rightarrow> request \<Rightarrow> bool \<Rightarrow> compiled_route \<Rightarrow> route_error + dispatch list"
and resolve_routes ::
  "nat \<Rightarrow> pipelines \<Rightarrow> request \<Rightarrow> bool \<Rightarrow> compiled_route list \<Rightarrow> route_error + dispatch list" where
  "resolve_compiled_route 0 ps req hook r = Inl RouteFuel"
| "resolve_compiled_route (Suc f) ps req hook r =
     (case cr_destination r of
        DestUses step plugin command \<Rightarrow> Inr [uses_dispatch r step plugin command req hook]
      | DestCall step call \<Rightarrow>
         (let called = trim_space call in
          if called = [] then Inl (EmptyCallTarget (cr_id r))
          else if entry_routes_for_pipeline ps called = [] then Inl (NoEntryRoutes (cr_id r) called)
          else resolve_routes f ps req hook (entry_routes_for_pipeline ps called))
      | DestTerminal \<Rightarrow> Inr [])"
| "resolve_routes f ps req hook [] = Inr []"
| "resolve_routes f ps req hook (r # rs) =
     (case resolve_compiled_route f ps req hook r of
        Inl e \<Rightarrow> Inl e
      | Inr ds \<Rightarrow> (case resolve_routes f ps req hook rs of Inl e \<Rightarrow> Inl e | Inr ds' \<Rightarrow> Inr (ds @ ds')))"

definition route_fuel :: "pipelines \<Rightarrow> nat" where
  "route_fuel ps = Suc (length ps)"

definition dispatch_key :: "dispatch \<Rightarrow> string" where
  "dispatch_key d =
     join_on [CHR 0x00] [dp_pipeline_name d, dp_step_id d, dp_instance_id d, dp_plugin d, dp_command d, dp_source_event_id d]"

fun dedupe_from :: "string list \<Rightarrow> dispatch list \<Rightarrow> dispatch list" where
  "dedupe_from seen [] = []"
| "dedupe_from seen (d # ds) =
     (if dispatch_key d \<in> set seen then dedupe_from seen ds
      else d # dedupe_from (dispatch_key d # seen) ds)"

definition dedupe_dispatches :: "dispatch list \<Rightarrow> dispatch list" where
  "dedupe_dispatches ds = dedupe_from [] ds"

text \<open>The predicate of an entry route; an evaluation error counts as no match.\<close>

definition predicate_holds :: "regex_engine \<Rightarrow> condition option \<Rightarrow> scope \<Rightarrow> bool" where
  "predicate_holds rx c s = (case c of None \<Rightarrow> True | Some c' \<Rightarrow> eval rx s c' = Inr True)"

definition trigger_scope :: "request \<Rightarrow> scope" where
  "trigger_scope req = \<lparr>s_payload = ev_payload (rr_event req), s_context = rr_source_context req, s_config = []\<rparr>"

definition trigger_matches :: "regex_engine \<Rightarrow> request \<Rightarrow> compiled_route \<Rightarrow> bool" where
  "trigger_matches rx req r \<longleftrightarrow>
     source_plugin_matches (rs_source_plugin (cr_source r)) (rr_source_plugin req) \<and>
     predicate_holds rx (rs_if (cr_source r)) (trigger_scope req)"

definition next_transitions :: "pipelines \<Rightarrow> request \<Rightarrow> route_error + dispatch list" where
  "next_transitions ps req =
     (if rr_source_pipeline req \<noteq> [] \<and> rr_source_step_id req \<noteq> [] then
        resolve_routes (route_fuel ps) ps req False
          (filter (\<lambda>r. matches_compiled_route_source (cr_source r) req True)
             (transition_index ps (rr_source_pipeline req) (rr_source_step_id req)))
      else Inr [])"

fun next_triggers ::
  "regex_engine \<Rightarrow> (string \<Rightarrow> string) \<Rightarrow> pipelines \<Rightarrow> request \<Rightarrow> compiled_route list \<Rightarrow> route_error + dispatch list" where
  "next_triggers rx new_id ps req [] = Inr []"
| "next_triggers rx new_id ps req (r # rs) =
     (if trigger_matches rx req r then
        (case resolve_compiled_route (route_fuel ps) ps
                (req\<lparr>rr_source_instance_id := new_id (cr_pipeline r)\<rparr>) False r of
           Inl e \<Rightarrow> Inl e
         | Inr ds \<Rightarrow> (case next_triggers rx new_id ps req rs of Inl e \<Rightarrow> Inl e | Inr ds' \<Rightarrow> Inr (ds @ ds')))
      else next_triggers rx new_id ps req rs)"

definition route_next ::
  "regex_engine \<Rightarrow> (string \<Rightarrow> string) \<Rightarrow> pipelines \<Rightarrow> request \<Rightarrow> route_error + dispatch list" where
  "route_next rx new_id ps req =
     (let ty = trim_space (ev_type (rr_event req)) in
      if ty = [] then Inl EventTypeRequired
      else
        bind_result (next_transitions ps req) (\<lambda>ds1.
        bind_result (next_triggers rx new_id ps req (trigger_index ps ty)) (\<lambda>ds2.
          Inr (dedupe_dispatches (ds1 @ ds2)))))"

definition hook_request :: "string \<Rightarrow> string \<Rightarrow> gmap \<Rightarrow> request" where
  "hook_request plugin sig payload =
     \<lparr>rr_source_plugin = plugin, rr_source_job_id = [], rr_source_context_id = [], rr_source_pipeline = [],
      rr_source_step_id = [], rr_source_instance_id = [], rr_source_depth = 0, rr_source_max_depth = 0,
      rr_source_event_id = [], rr_source_context = [],
      rr_event = \<lparr>ev_type = sig, ev_payload = payload, ev_dedupe_key = [], ev_source = [], ev_timestamp = zero_time, ev_event_id = []\<rparr>\<rparr>"

definition next_hook ::
  "regex_engine \<Rightarrow> pipelines \<Rightarrow> string \<Rightarrow> string \<Rightarrow> gmap \<Rightarrow> route_error + dispatch list" where
  "next_hook rx ps plugin signal0 payload =
     (let sig = trim_space signal0; req = hook_request plugin sig payload in
      if sig = [] then Inl SignalRequired
      else
        bind_result (resolve_routes (route_fuel ps) ps req True
          (filter (\<lambda>r. source_plugin_matches (rs_source_plugin (cr_source r)) plugin \<and>
             predicate_holds rx (rs_if (cr_source r)) \<lparr>s_payload = payload, s_context = [], s_config = []\<rparr>)
             (hook_index ps sig)))
          (\<lambda>ds. Inr (dedupe_dispatches ds)))"

definition get_entry_dispatches :: "pipelines \<Rightarrow> string \<Rightarrow> event \<Rightarrow> route_error + dispatch list" where
  "get_entry_dispatches ps name ev =
     (case map_get ps name of
        None \<Rightarrow> Inl (PipelineNotFound name)
      | Some p \<Rightarrow> resolve_routes (route_fuel ps) ps ((hook_request [] [] [])\<lparr>rr_event := ev\<rparr>) False
                    (entry_routes_for_pipeline ps (pl_name p)))"

section \<open>Lookups\<close>

record pipeline_info =
  pi_name :: string
  pi_trigger :: string
  pi_entry_step_id :: string
  pi_terminal_step_ids :: "string list"
  pi_execution_mode :: string
  pi_timeout :: int

definition first_entry_step_id :: "string list \<Rightarrow> string" where
  "first_entry_step_id ids = (case ids of [] \<Rightarrow> [] | i # _ \<Rightarrow> i)"

definition pipeline_info_of :: "string \<Rightarrow> pipeline \<Rightarrow> pipeline_info" where
  "pipeline_info_of name p =
     \<lparr>pi_name = name, pi_trigger = pl_trigger p, pi_entry_step_id = first_entry_step_id (pl_entries p),
      pi_terminal_step_ids = pl_terminals p, pi_execution_mode = pl_execution_mode p, pi_timeout = pl_timeout p\<rparr>"

definition get_pipeline_by_name :: "pipelines \<Rightarrow> string \<Rightarrow> pipeline_info option" where
  "get_pipeline_by_name ps name = map_option (\<lambda>p. pipeline_info_of (pl_name p) p) (map_get ps name)"

definition get_pipeline_by_trigger :: "pipelines \<Rightarrow> string \<Rightarrow> pipeline_info option" where
  "get_pipeline_by_trigger ps trigger =
     (case trigger_index ps trigger of [] \<Rightarrow> None | r # _ \<Rightarrow> get_pipeline_by_name ps (cr_pipeline r))"

definition pipeline_summary :: "pipelines \<Rightarrow> pipeline_info list" where
  "pipeline_summary ps = sort_key pi_name (map (\<lambda>(n, p). pipeline_info_of n p) ps)"

definition get_node :: "pipelines \<Rightarrow> string \<Rightarrow> string \<Rightarrow> node option" where
  "get_node ps pl sid =
     (if trim_space pl = [] \<or> trim_space sid = [] then None
      else case map_get ps pl of None \<Rightarrow> None | Some p \<Rightarrow> map_get (pl_nodes p) sid)"

definition get_compiled_routes :: "pipelines \<Rightarrow> string \<Rightarrow> compiled_route list" where
  "get_compiled_routes ps name =
     (if trim_space name = [] then []
      else case map_get ps name of None \<Rightarrow> [] | Some p \<Rightarrow> pl_routes p)"

text \<open>Load-time checks against the plugin registry, given by the plugins it knows.\<close>

definition validate_from_plugin_exists :: "string list \<Rightarrow> pipelines \<Rightarrow> route_error option" where
  "validate_from_plugin_exists known ps =
     map_option (\<lambda>(n, p). UnknownFromPlugin n (pl_from_plugin p))
       (find (\<lambda>(n, p). pl_from_plugin p \<noteq> [] \<and> pl_from_plugin p \<notin> set known) ps)"

definition validate_uses_nodes_exist :: "string list \<Rightarrow> pipelines \<Rightarrow> route_error option" where
  "validate_uses_nodes_exist known ps =
     map_option (\<lambda>(n, nd). UnknownUses n (nd_id nd) (nd_uses nd))
       (find (\<lambda>(n, nd). nd_kind nd = NodeKindUses \<and> nd_uses nd \<notin> set known)
          (concat (map (\<lambda>(n, p). map (\<lambda>(k, nd). (n, nd)) (pl_nodes p)) ps)))"

end
