(* ===== verification/Compiler_Properties.thy ===== *)
theory Compiler_Properties
  imports Router Condition_Properties
begin

text \<open>
  Properties of the pipeline compiler: the graph it builds is closed (entries, exits, edges and call
  targets exist), the call graph of an accepted set is acyclic, and the derived route depth bounds every
  path through a pipeline.
\<close>

section \<open>The builder invariant\<close>

definition node_known :: "builder \<Rightarrow> string \<Rightarrow> bool" where
  "node_known b n \<longleftrightarrow> map_get (b_nodes b) n \<noteq> None"

definition builder_ok :: "builder \<Rightarrow> bool" where
  "builder_ok b \<longleftrightarrow>
     (\<forall>k nd. map_get (b_nodes b) k = Some nd \<longrightarrow> nd_id nd = k \<and>
        (nd_kind nd = NodeKindCall \<longrightarrow> nd_call nd \<in> set (b_called b) \<and> trim_space (nd_call nd) = nd_call nd \<and> nd_call nd \<noteq> [])) \<and>
     (\<forall>e\<in>set (b_edges b). node_known b (eg_from e) \<and> node_known b (eg_to e))"

definition grows :: "builder \<Rightarrow> builder \<Rightarrow> bool" where
  "grows b b' \<longleftrightarrow> (\<forall>n. node_known b n \<longrightarrow> node_known b' n)"

definition result_ok :: "builder \<Rightarrow> compiled \<Rightarrow> bool" where
  "result_ok b r \<longleftrightarrow> (case r of (b', entry, terminal) \<Rightarrow>
     builder_ok b' \<and> grows b b' \<and> entry \<noteq> [] \<and> terminal \<noteq> [] \<and>
     (\<forall>n\<in>set entry. node_known b' n) \<and> (\<forall>x\<in>set terminal. node_known b' (fst x)))"

lemma grows_refl [simp]: "grows b b"
  by (simp add: grows_def)

lemma grows_trans: "grows a b \<Longrightarrow> grows b c \<Longrightarrow> grows a c"
  by (simp add: grows_def)

lemma set_sorted_unique [simp]: "set (sorted_unique xs) = set xs"
  by (simp add: sorted_unique_def)

lemma sorted_unique_Nil [simp]: "sorted_unique xs = [] \<longleftrightarrow> xs = []"
  by (metis set_empty set_sorted_unique)

lemma result_ok_grows: "result_ok b1 r \<Longrightarrow> grows b b1 \<Longrightarrow> result_ok b r"
  by (auto simp: result_ok_def dest: grows_trans)

lemma result_okD:
  assumes "result_ok b (b', entry, terminal)"
  shows "builder_ok b'" "grows b b'" "entry \<noteq> []" "terminal \<noteq> []"
    "\<forall>n\<in>set entry. node_known b' n" "\<forall>x\<in>set terminal. node_known b' (fst x)"
  using assms by (auto simp: result_ok_def)

lemma alloc_ok:
  assumes "alloc_node_id p b = Inr (nid, b1)"
  shows "b_nodes b1 = b_nodes b" "b_edges b1 = b_edges b" "b_called b1 = b_called b" "\<not> node_known b nid"
  using assms by (auto simp: alloc_node_id_def node_known_def Let_def split: if_splits)

lemma add_edges_ok:
  "builder_ok b \<Longrightarrow> \<forall>x\<in>set froms. node_known b (fst x) \<Longrightarrow> \<forall>n\<in>set tos. node_known b n \<Longrightarrow>
   builder_ok (add_edges froms tos b)"
  by (auto simp: builder_ok_def add_edges_def node_known_def)

lemma node_known_add_edges [simp]: "node_known (add_edges f t b) n = node_known b n"
  by (simp add: node_known_def add_edges_def)

lemma node_known_add_node [simp]: "node_known (add_node nd b) n \<longleftrightarrow> n = nd_id nd \<or> node_known b n"
  by (simp add: node_known_def add_node_def)

lemma add_node_ok:
  assumes "builder_ok b" and "nd_kind nd = NodeKindCall \<longrightarrow>
     nd_call nd \<in> set (b_called b) \<and> trim_space (nd_call nd) = nd_call nd \<and> nd_call nd \<noteq> []"
  shows "builder_ok (add_node nd b)"
proof -
  have "\<forall>e\<in>set (b_edges b). node_known (add_node nd b) (eg_from e) \<and> node_known (add_node nd b) (eg_to e)"
    using assms(1) by (simp add: builder_ok_def)
  with assms show ?thesis by (auto simp: builder_ok_def add_node_def)
qed

lemma wrap_ok:
  assumes "builder_ok b" "node_known b n" "wrap_conditional_step n c [n] [(n, [])] b = Inr r"
  shows "result_ok b r"
proof -
  obtain sid b1 where al: "alloc_node_id (n @ ''__switch'') b = Inr (sid, b1)"
    and r: "r = (add_edges [(sid, switch_true)] [n]
         (add_node ((plain_node sid NodeKindSwitch)\<lparr>nd_uses := ''core.switch'', nd_condition := Some c\<rparr>) b1),
       [sid], sorted_unique ([(n, [])] @ [(sid, switch_false)]))"
    using assms(3) by (auto simp: wrap_conditional_step_def bind_result_Inr_iff Let_def)
  have b1: "builder_ok b1" "\<And>m. node_known b1 m = node_known b m"
    using assms(1) alloc_ok [OF al] by (simp_all add: builder_ok_def node_known_def)
  have "builder_ok (add_node ((plain_node sid NodeKindSwitch)\<lparr>nd_uses := ''core.switch'', nd_condition := Some c\<rparr>) b1)"
    by (rule add_node_ok [OF b1(1)]) (simp add: plain_node_def)
  then show ?thesis
    using b1(2) assms(2) by (auto simp: r result_ok_def grows_def plain_node_def intro!: add_edges_ok)
qed

lemma finish_ok:
  assumes "builder_ok (add_node nd b)" "finish_leaf nd c b = Inr r"
  shows "result_ok b r"
proof (cases c)
  case None
  with assms show ?thesis by (auto simp: finish_leaf_def result_ok_def grows_def)
next
  case (Some c')
  with assms have "result_ok (add_node nd b) r"
    by (intro wrap_ok [of _ "nd_id nd" c']) (simp_all add: finish_leaf_def)
  then show ?thesis by (auto simp: result_ok_def grows_def)
qed

lemma leaf_ok:
  assumes "builder_ok b" "alloc_node_id sid b = Inr (nid, b1)" "finish_leaf nd c (b1\<lparr>b_called := cs @ b_called b1\<rparr>) = Inr r"
    and "nd_kind nd = NodeKindCall \<longrightarrow>
      nd_call nd \<in> set (cs @ b_called b1) \<and> trim_space (nd_call nd) = nd_call nd \<and> nd_call nd \<noteq> []"
  shows "result_ok b r"
proof -
  let ?b = "b1\<lparr>b_called := cs @ b_called b1\<rparr>"
  have b: "builder_ok ?b" "\<And>m. node_known ?b m = node_known b m"
    using assms(1) alloc_ok [OF assms(2)] by (auto simp: builder_ok_def node_known_def)
  from add_node_ok [OF b(1), of nd] assms(4) have "builder_ok (add_node nd ?b)" by simp
  from finish_ok [OF this assms(3)] show ?thesis
    using b(2) by (auto simp: result_ok_def grows_def)
qed

lemma plain_leaf_ok:
  "builder_ok b \<Longrightarrow> alloc_node_id sid b = Inr (nid, b1) \<Longrightarrow> finish_leaf nd c b1 = Inr r \<Longrightarrow>
   nd_kind nd \<noteq> NodeKindCall \<Longrightarrow> result_ok b r"
  using leaf_ok [of b sid nid b1 nd c "[]" r] by simp

lemma call_leaf_ok:
  "builder_ok b \<Longrightarrow> alloc_node_id sid b = Inr (nid, b1) \<Longrightarrow> finish_leaf nd c (b1\<lparr>b_called := t # b_called b1\<rparr>) = Inr r \<Longrightarrow>
   nd_call nd = t \<Longrightarrow> trim_space t = t \<Longrightarrow> t \<noteq> [] \<Longrightarrow> result_ok b r"
  using leaf_ok [of b sid nid b1 nd c "[t]" r] by simp

lemma compile_ok:
  "compile_steps rx i prev entry ss b = Inr r \<Longrightarrow> builder_ok b \<Longrightarrow>
     \<forall>x\<in>set prev. node_known b (fst x) \<Longrightarrow> \<forall>n\<in>set entry. node_known b n \<Longrightarrow>
     (i > 0 \<longrightarrow> prev \<noteq> [] \<and> entry \<noteq> []) \<Longrightarrow> ss \<noteq> [] \<or> i > 0 \<Longrightarrow> result_ok b r"
  "compile_split rx i entry exits ss b = Inr r \<Longrightarrow> builder_ok b \<Longrightarrow>
     \<forall>x\<in>set exits. node_known b (fst x) \<Longrightarrow> \<forall>n\<in>set entry. node_known b n \<Longrightarrow>
     ss \<noteq> [] \<or> (entry \<noteq> [] \<and> exits \<noteq> []) \<Longrightarrow> result_ok b r"
  "compile_step rx s b = Inr r \<Longrightarrow> builder_ok b \<Longrightarrow> result_ok b r"
proof (induction rx i prev entry ss b and rx i entry exits ss b and rx s b arbitrary: r and r and r
    rule: compile_steps_compile_split_compile_step.induct)
  case (2 rx i prev entry s rest b)
  from "2.prems"(1) obtain b1 en te where step: "compile_step rx s b = Inr (b1, en, te)" "en \<noteq> []" "te \<noteq> []"
    and rest: "compile_steps rx (Suc i) te (if i = 0 then en else entry) rest
        (if prev \<noteq> [] then add_edges prev en b1 else b1) = Inr r"
    by (auto split: sum.splits if_splits)
  have r1: "result_ok b (b1, en, te)" by (rule "2.IH"(1) [OF step(1) "2.prems"(2)])
  note r1 = result_okD [OF r1]
  let ?b2 = "if prev \<noteq> [] then add_edges prev en b1 else b1"
  have known: "\<And>m. node_known ?b2 m = node_known b1 m" by simp
  have prev: "\<forall>x\<in>set prev. node_known b1 (fst x)" "\<forall>n\<in>set (if i = 0 then en else entry). node_known b1 n"
    using r1 "2.prems"(3,4) by (auto simp: grows_def)
  then have "builder_ok ?b2" using r1 by (auto intro!: add_edges_ok)
  then have "result_ok ?b2 r"
    using "2.IH"(2) [OF step(1) refl refl _ rest] r1 prev "2.prems"(5) step(2,3) by (simp add: known)
  moreover have "grows b ?b2" using r1(2) by (auto simp: grows_def)
  ultimately show ?case by (rule result_ok_grows)
next
  case (4 rx i entries exits s rest b)
  from "4.prems"(1) obtain b1 en te where step: "compile_step rx s b = Inr (b1, en, te)"
    and rest: "compile_split rx (Suc i) (entries @ en) (exits @ te) rest b1 = Inr r"
    by (auto split: sum.splits)
  have "result_ok b (b1, en, te)" by (rule "4.IH"(1) [OF step(1) "4.prems"(2)])
  note r1 = result_okD [OF this]
  have "\<forall>x\<in>set (exits @ te). node_known b1 (fst x)" "\<forall>n\<in>set (entries @ en). node_known b1 n"
    using r1 "4.prems"(3,4) by (auto simp: grows_def)
  then have "result_ok b1 r"
    using "4.IH"(2) [OF step refl refl rest r1(1)] r1(3,4) by simp
  then show ?case using r1(2) by (rule result_ok_grows)
next
  case (5 rx sid uses call relay cnd steps split wth bag b)
  from "5.prems"(1) obtain cond where c: "check_step rx (StepSpec sid uses call relay cnd steps split wth bag) = Inr cond"
    by (auto split: sum.splits)
  consider (uses) nid b1 where "trim_space uses \<noteq> []" "alloc_node_id sid b = Inr (nid, b1)"
      "finish_leaf ((plain_node nid NodeKindUses)\<lparr>nd_uses := trim_space uses, nd_with := wth, nd_baggage := bag\<rparr>) cond b1 = Inr r"
    | (call) nid b1 where "trim_space call \<noteq> []" "alloc_node_id sid b = Inr (nid, b1)"
      "finish_leaf ((plain_node nid NodeKindCall)\<lparr>nd_call := trim_space call\<rparr>) cond (b1\<lparr>b_called := trim_space call # b_called b1\<rparr>) = Inr r"
    | (relay) rl nid b1 where "alloc_node_id sid b = Inr (nid, b1)"
      "finish_leaf ((plain_node nid NodeKindRelay)\<lparr>nd_relay := Some rl\<rparr>) cond b1 = Inr r"
    | (steps) "trim_space uses = []" "trim_space call = []" "relay = None" "steps \<noteq> []" "compile_steps rx 0 [] [] steps b = Inr r"
    | (split) "trim_space uses = []" "trim_space call = []" "relay = None" "steps = []" "split \<noteq> []" "compile_split rx 0 [] [] split b = Inr r"
    using "5.prems"(1) c by (auto split: sum.splits if_splits option.splits)
  then show ?case
  proof cases
    case uses
    then show ?thesis using plain_leaf_ok [OF "5.prems"(2) uses(2,3)] by (simp add: plain_node_def)
  next
    case call
    then show ?thesis using call_leaf_ok [OF "5.prems"(2) call(2,3)] by (simp add: plain_node_def)
  next
    case relay
    then show ?thesis using plain_leaf_ok [OF "5.prems"(2) relay] by (simp add: plain_node_def)
  next
    case steps
    then show ?thesis using "5.IH"(1) [OF c _ _ _ _ steps(5)] "5.prems"(2) by simp
  next
    case split
    then show ?thesis using "5.IH"(2) [OF c _ _ _ _ _ split(6)] "5.prems"(2) by simp
  qed
qed (auto simp: result_ok_def)

section \<open>Compiled pipelines\<close>

definition pipeline_ok :: "pipeline \<Rightarrow> bool" where
  "pipeline_ok p \<longleftrightarrow>
     pl_trigger p \<noteq> [] \<and> pl_entries p \<noteq> [] \<and>
     (\<forall>n\<in>set (pl_entries p). map_get (pl_nodes p) n \<noteq> None) \<and>
     (\<forall>e\<in>set (pl_edges p). map_get (pl_nodes p) (eg_from e) \<noteq> None \<and> map_get (pl_nodes p) (eg_to e) \<noteq> None) \<and>
     (\<forall>k nd. map_get (pl_nodes p) k = Some nd \<longrightarrow> nd_id nd = k \<and>
        (nd_kind nd = NodeKindCall \<longrightarrow> nd_call nd \<in> set (pl_called p) \<and> trim_space (nd_call nd) = nd_call nd \<and> nd_call nd \<noteq> []))"

lemma empty_builder_ok: "builder_ok empty_builder"
  by (simp add: builder_ok_def empty_builder_def)

lemma compile_pipeline_ok:
  assumes "compile_pipeline rx sp = Inr p"
  shows "pipeline_ok p \<and> pl_name p = trim_space (ps_name sp) \<and> pl_routes p = []"
proof -
  obtain b entry terminal where c: "compile_steps rx 0 [] [] (ps_steps sp) empty_builder = Inr (b, entry, terminal)"
    and ne: "ps_steps sp \<noteq> []"
    and p: "pl_nodes p = b_nodes b" "set (pl_edges p) = set (b_edges b)" "pl_entries p = sorted_unique entry"
      "pl_called p = sorted_unique (b_called b)" "pl_trigger p \<noteq> []" "pl_name p = trim_space (ps_name sp)" "pl_routes p = []"
    using assms by (auto simp: compile_pipeline_def Let_def bind_result_Inr_iff split: if_splits option.splits)
  have "result_ok empty_builder (b, entry, terminal)"
    using compile_ok(1) [OF c empty_builder_ok] ne by simp
  note ok = result_okD [OF this]
  show ?thesis
    using ok p by (auto simp: pipeline_ok_def builder_ok_def node_known_def)
qed

lemma compile_each_ok:
  "compile_each rx i specs ps = Inr out \<Longrightarrow> (\<forall>(n, p)\<in>set ps. pipeline_ok p \<and> pl_name p = n \<and> n \<noteq> [] \<and> trim_space n = n) \<Longrightarrow>
   keys_sorted ps \<Longrightarrow>
   (\<forall>(n, p)\<in>set out. pipeline_ok p \<and> pl_name p = n \<and> n \<noteq> [] \<and> trim_space n = n) \<and> keys_sorted out"
proof (induction rx i specs ps rule: compile_each.induct)
  case (2 rx i sp rest ps)
  let ?name = "trim_space (ps_name sp)"
  from "2.prems"(1) obtain p where p: "compile_pipeline rx sp = Inr p" "?name \<noteq> []"
    "\<not> map_get ps ?name \<noteq> None" "compile_each rx (Suc i) rest (map_put ?name p ps) = Inr out"
    by (auto simp: Let_def split: if_splits sum.splits)
  have "pipeline_ok p" "pl_name p = ?name" using compile_pipeline_ok [OF p(1)] by simp_all
  then have "\<forall>(n, q)\<in>set (map_put ?name p ps). pipeline_ok q \<and> pl_name q = n \<and> n \<noteq> [] \<and> trim_space n = n"
    using "2.prems"(2) set_map_put [of ?name p ps] p(2) by fastforce
  with "2.IH" [OF refl p(2,3,1,4)] keys_sorted_map_put [OF "2.prems"(3)] show ?case by blast
qed simp

section \<open>The call graph\<close>

text \<open>A list of pipeline names in which every name comes after all it calls.\<close>

definition call_order :: "pipelines \<Rightarrow> string list \<Rightarrow> bool" where
  "call_order ps ord \<longleftrightarrow> (\<forall>i<length ord. set (called_by ps (ord ! i)) \<subseteq> set (take i ord))"

lemma call_order_snoc: "call_order ps ord \<Longrightarrow> set (called_by ps n) \<subseteq> set ord \<Longrightarrow> call_order ps (ord @ [n])"
  by (auto simp: call_order_def nth_append less_Suc_eq)

lemma call_order_snoc_iff: "call_order ps (ord @ [n]) \<longleftrightarrow> call_order ps ord \<and> set (called_by ps n) \<subseteq> set ord"
  by (auto simp: call_order_def nth_append less_Suc_eq)

lemma call_order_filter:
  "call_order ps ord \<Longrightarrow> (\<And>n. P n \<Longrightarrow> \<forall>c\<in>set (called_by ps n). P c) \<Longrightarrow> call_order ps (filter P ord)"
  by (induction ord rule: rev_induct) (auto simp: call_order_snoc_iff)

definition walked :: "pipelines \<Rightarrow> (string \<Rightarrow> nat) \<Rightarrow> string list \<Rightarrow> bool" where
  "walked ps st ord \<longleftrightarrow> call_order ps ord \<and> set ord = {n. st n = 2} \<and> distinct ord"

lemma call_walk_sound:
  "call_walk f ps stack n st = Inr st' \<Longrightarrow> walked ps st ord \<Longrightarrow>
     \<exists>ord'. walked ps st' (ord @ ord') \<and> st' n = 2 \<and> (\<forall>m. st m = 1 \<longrightarrow> st' m = 1)"
  "call_walk_all f ps stack ns st = Inr st' \<Longrightarrow> walked ps st ord \<Longrightarrow>
     \<exists>ord'. walked ps st' (ord @ ord') \<and> (\<forall>n\<in>set ns. st' n = 2) \<and> (\<forall>m. st m = 1 \<longrightarrow> st' m = 1)"
proof (induction f ps stack n st and f ps stack ns st arbitrary: st' ord and st' ord
    rule: call_walk_call_walk_all.induct)
  case (2 f ps stack n st)
  show ?case
  proof (cases "st n = 2")
    case True
    with "2.prems" show ?thesis by (intro exI [of _ "[]"]) auto
  next
    case False
    with "2.prems"(1) obtain st1 where n1: "st n \<noteq> 1"
      and w: "call_walk_all f ps (stack @ [n]) (called_by ps n) (st(n := 1)) = Inr st1" and st': "st' = st1(n := 2)"
      by (auto split: if_splits sum.splits)
    have "walked ps (st(n := 1)) ord" using "2.prems"(2) False by (auto simp: walked_def)
    from "2.IH" [OF False n1 w this] obtain ord' where ord': "walked ps st1 (ord @ ord')"
      "\<forall>m\<in>set (called_by ps n). st1 m = 2" "\<forall>m. (st(n := 1)) m = 1 \<longrightarrow> st1 m = 1" by blast
    have "st1 n = 1" using ord'(3) by simp
    moreover from this have "n \<notin> set (ord @ ord')" using ord'(1) by (simp add: walked_def)
    ultimately have "walked ps st' ((ord @ ord') @ [n])"
      using ord'(1,2) call_order_snoc [of ps "ord @ ord'" n] by (auto simp: walked_def st')
    then have "walked ps st' (ord @ (ord' @ [n]))" by simp
    moreover have "st' n = 2" "\<forall>m. st m = 1 \<longrightarrow> st' m = 1" using ord'(3) n1 st' by simp_all
    ultimately show ?thesis by blast
  qed
next
  case (4 f ps stack n ns st)
  from "4.prems"(1) obtain st1 where w: "call_walk f ps stack n st = Inr st1"
    "call_walk_all f ps stack ns st1 = Inr st'" by (auto split: sum.splits)
  from "4.IH"(1) [OF w(1) "4.prems"(2)] obtain o1 where o1: "walked ps st1 (ord @ o1)" "st1 n = 2"
    "\<forall>m. st m = 1 \<longrightarrow> st1 m = 1" by blast
  from "4.IH"(2) [OF w(1) w(2) o1(1)] obtain o2 where o2: "walked ps st' ((ord @ o1) @ o2)"
    "\<forall>m\<in>set ns. st' m = 2" "\<forall>m. st1 m = 1 \<longrightarrow> st' m = 1" by blast
  have "n \<in> set (ord @ o1)" using o1(1,2) by (simp add: walked_def)
  then have "st' n = 2" using o2(1) by (auto simp: walked_def)
  then show ?case using o1(3) o2 by (intro exI [of _ "o1 @ o2"]) auto
qed (auto intro: exI [of _ "[]"])

lemma calls_ordered:
  assumes "validate_pipeline_calls ps = None"
  obtains ord where "call_order ps ord" "fst ` set ps \<subseteq> set ord" "distinct ord"
proof -
  obtain st where w: "call_walk_all (Suc (length ps)) ps [] (sort (map fst ps)) (\<lambda>_. 0) = Inr st"
    using assms by (auto simp: validate_pipeline_calls_def split: option.splits sum.splits)
  have "walked ps (\<lambda>_. 0) []" by (simp add: walked_def call_order_def)
  from call_walk_sound(2) [OF w this] obtain ord where ord: "walked ps st ord" "\<forall>n\<in>set (sort (map fst ps)). st n = 2"
    by auto
  then show ?thesis by (intro that [of ord]) (auto simp: walked_def)
qed

lemma unknown_call_None:
  "unknown_call ps rest = None \<Longrightarrow> (n, p) \<in> set rest \<Longrightarrow> c \<in> set (pl_called p) \<Longrightarrow> map_get ps c \<noteq> None"
  by (induction ps rest rule: unknown_call.induct) (auto simp: find_None_iff split: option.splits)

section \<open>Compiled sets\<close>

definition loaded :: "pipelines \<Rightarrow> bool" where
  "loaded ps \<longleftrightarrow>
     keys_sorted ps \<and>
     (\<forall>(n, p)\<in>set ps. pipeline_ok p \<and> pl_name p = n \<and> pl_routes p = build_compiled_routes p \<and>
        (\<forall>c\<in>set (pl_called p). map_get ps c \<noteq> None)) \<and>
     (\<exists>ord. call_order ps ord \<and> distinct ord \<and> set ord = fst ` set ps)"

lemma assign_depths_shape:
  "assign_depths ps rest = Inr out \<Longrightarrow>
   list_all2 (\<lambda>(n, p) (n', p'). n' = n \<and> (\<exists>d. p' = p\<lparr>pl_max_route_depth := d\<rparr>)) rest out"
  by (induction ps rest arbitrary: out rule: assign_depths.induct) (auto split: sum.splits)

lemma list_all2_fst: "list_all2 (\<lambda>(n, p) (n', p'). n' = n \<and> Q p p') xs ys \<Longrightarrow> map fst ys = map fst xs"
  by (induction rule: list_all2_induct) auto

lemma list_all2_map_get:
  "list_all2 (\<lambda>(n, p) (n', p'). n' = n \<and> Q p p') xs ys \<Longrightarrow> rel_option Q (map_get xs k) (map_get ys k)"
  by (induction rule: list_all2_induct) auto

lemma list_all2_in:
  "list_all2 (\<lambda>(n, p) (n', p'). n' = n \<and> Q p p') xs ys \<Longrightarrow> (n, p') \<in> set ys \<Longrightarrow> \<exists>p. (n, p) \<in> set xs \<and> Q p p'"
  by (induction rule: list_all2_induct) auto

text \<open>The finished set differs from the compiled one in the depths and route tables only.\<close>

definition refined :: "pipeline \<Rightarrow> pipeline \<Rightarrow> bool" where
  "refined p p' \<longleftrightarrow> (\<exists>d rs. p' = p\<lparr>pl_max_route_depth := d, pl_routes := rs\<rparr>)"

lemma refined_sel:
  assumes "refined p p'"
  shows "pl_called p' = pl_called p" "pipeline_ok p' = pipeline_ok p" "pl_name p' = pl_name p"
  using assms by (auto simp: refined_def pipeline_ok_def)

lemma build_routes_update [simp]: "build_compiled_routes (p\<lparr>pl_routes := rs\<rparr>) = build_compiled_routes p"
proof -
  have "entry_route (p\<lparr>pl_routes := rs\<rparr>) = entry_route p" "edge_route (p\<lparr>pl_routes := rs\<rparr>) = edge_route p"
    "terminal_route (p\<lparr>pl_routes := rs\<rparr>) = terminal_route p"
    by (intro ext; simp add: entry_route_def edge_route_def terminal_route_def step_source_def)+
  then show ?thesis by (simp add: build_compiled_routes_def)
qed

lemma compile_specs_shape:
  assumes "compile_specs rx specs = Inr ps'"
  obtains ps where "compile_each rx 0 specs [] = Inr ps" "validate_pipeline_calls ps = None"
    "list_all2 (\<lambda>(n, p) (n', p'). n' = n \<and> refined p p') ps ps'"
    "\<forall>(n, p)\<in>set ps'. pl_routes p = build_compiled_routes p"
proof -
  obtain ps ps1 where c: "compile_each rx 0 specs [] = Inr ps" "validate_pipeline_calls ps = None"
    "assign_depths ps ps = Inr ps1" "ps' = map (\<lambda>(n, p). (n, p\<lparr>pl_routes := build_compiled_routes p\<rparr>)) ps1"
    using assms by (auto simp: compile_specs_def bind_result_Inr_iff split: option.splits)
  have "list_all2 (\<lambda>(n, p) (n', p'). n' = n \<and> refined p p') ps ps'"
    unfolding c(4) list_all2_map2
    by (rule list_all2_mono [OF assign_depths_shape [OF c(3)]])
      (auto simp: refined_def intro!: exI)
  moreover have "\<forall>(n, p)\<in>set ps'. pl_routes p = build_compiled_routes p"
    unfolding c(4) by auto
  ultimately show ?thesis using that c by blast
qed

lemma compile_specs_loaded:
  assumes "compile_specs rx specs = Inr ps'"
  shows "loaded ps'"
proof (rule compile_specs_shape [OF assms])
  fix ps
  assume c: "compile_each rx 0 specs [] = Inr ps" "validate_pipeline_calls ps = None"
    and ref: "list_all2 (\<lambda>(n, p) (n', p'). n' = n \<and> refined p p') ps ps'"
    and routes: "\<forall>(n, p)\<in>set ps'. pl_routes p = build_compiled_routes p"
  have ps: "\<forall>(n, p)\<in>set ps. pipeline_ok p \<and> pl_name p = n" "keys_sorted ps"
    using compile_each_ok [OF c(1)] by auto
  have known: "\<And>n p c. (n, p) \<in> set ps \<Longrightarrow> c \<in> set (pl_called p) \<Longrightarrow> map_get ps c \<noteq> None"
    using c(2) unknown_call_None [of ps ps] by (fastforce simp: validate_pipeline_calls_def split: option.splits)
  note keys = list_all2_fst [OF ref]
  have get: "map_get ps' k = None \<longleftrightarrow> map_get ps k = None" for k
    using list_all2_map_get [OF ref, of k] by (auto elim: option.rel_cases)
  have called: "called_by ps' n = called_by ps n" for n
    using list_all2_map_get [OF ref, of n] by (auto simp: called_by_def refined_sel elim: option.rel_cases)
  obtain ord where ord: "call_order ps ord" "fst ` set ps \<subseteq> set ord" "distinct ord"
    by (rule calls_ordered [OF c(2)])
  let ?ord = "filter (\<lambda>n. n \<in> fst ` set ps) ord"
  have "c \<in> fst ` set ps" if "c \<in> set (called_by ps n)" for c n
  proof (cases "map_get ps n")
    case (Some p)
    then have "map_get ps c \<noteq> None" using known [OF map_of_SomeD] that by (simp add: called_by_def)
    then show ?thesis by (simp add: map_of_eq_None_iff)
  qed (use that in \<open>simp add: called_by_def\<close>)
  then have "call_order ps ?ord" by (intro call_order_filter ord(1)) blast
  then have "call_order ps' ?ord" by (simp add: call_order_def called)
  moreover have "fst ` set ps' = fst ` set ps" using arg_cong [OF keys, of set] by simp
  then have "set ?ord = fst ` set ps'" "distinct ?ord" using ord(2,3) by auto
  moreover have "\<forall>(n, p)\<in>set ps'. pipeline_ok p \<and> pl_name p = n \<and> pl_routes p = build_compiled_routes p \<and>
      (\<forall>c\<in>set (pl_called p). map_get ps' c \<noteq> None)"
  proof (intro ballI, clarify, intro conjI ballI)
    fix n p
    assume np: "(n, p) \<in> set ps'"
    from list_all2_in [OF ref np] obtain p0 where p0: "(n, p0) \<in> set ps" "refined p0 p" by blast
    with ps(1) show "pipeline_ok p" "pl_name p = n" by (auto simp: refined_sel)
    show "pl_routes p = build_compiled_routes p" using routes np by auto
    show "map_get ps' c \<noteq> None" if "c \<in> set (pl_called p)" for c
      using known [OF p0(1), of c] that p0(2) by (simp add: refined_sel get)
  qed
  moreover have "keys_sorted ps'" using ps(2) keys by simp
  ultimately show ?thesis unfolding loaded_def by blast
qed

section \<open>Route depths\<close>

text \<open>A path through the node graph.\<close>

fun node_path :: "pipeline \<Rightarrow> string list \<Rightarrow> bool" where
  "node_path p [] \<longleftrightarrow> True"
| "node_path p [n] \<longleftrightarrow> True"
| "node_path p (n # m # ns) \<longleftrightarrow> m \<in> set (successors (pl_edges p) n) \<and> node_path p (m # ns)"

lemma max_succ_bound:
  "max_succ_depth f called p ns acc = Inr m \<Longrightarrow>
   acc \<le> m \<and> (\<forall>n\<in>set ns. \<exists>d. node_depth f called p n = Inr d \<and> d \<le> m)"
proof (induction ns arbitrary: acc)
  case (Cons n ns)
  then obtain d where d: "node_depth f called p n = Inr d"
    "max_succ_depth f called p ns (if d > acc then d else acc) = Inr m" by (auto split: sum.splits)
  from Cons.IH [OF d(2)] show ?case by (auto simp: d(1) split: if_splits)
qed simp

lemma node_depth_bound:
  assumes "\<And>c d. called c = Inr d \<Longrightarrow> d \<ge> (1::int)"
  shows "node_depth f called p n = Inr d \<Longrightarrow> node_path p (n # ns) \<Longrightarrow> int (length (n # ns)) \<le> d"
proof (induction ns arbitrary: f n d)
  case Nil
  then obtain f' own m where "max_succ_depth f' called p (successors (pl_edges p) n) 0 = Inr m" "d = own + m" "own \<ge> 1"
    using assms by (cases f) (auto split: option.splits sum.splits if_splits)
  then show ?case using max_succ_bound by fastforce
next
  case (Cons k ns)
  then obtain f' own m where m: "max_succ_depth f' called p (successors (pl_edges p) n) 0 = Inr m" "d = own + m" "own \<ge> 1"
    using assms by (cases f) (auto split: option.splits sum.splits if_splits)
  from Cons.prems(2) have k: "k \<in> set (successors (pl_edges p) n)" "node_path p (k # ns)" by simp_all
  with max_succ_bound [OF m(1)] obtain d' where "node_depth f' called p k = Inr d'" "d' \<le> m" by blast
  with Cons.IH [OF this(1) k(2)] m(2,3) show ?case by simp
qed

lemma pipeline_depth_pos: "pipeline_depth f ps n = Inr d \<Longrightarrow> d \<ge> 1"
proof (induction f ps n arbitrary: d rule: pipeline_depth.induct)
  case (2 f ps n)
  then obtain p m where "max_succ_depth (Suc (length (pl_nodes p))) (pipeline_depth f ps) p (pl_entries p) 0 = Inr m"
    "d = (if m = 0 then 1 else m)" by (auto split: option.splits sum.splits)
  with max_succ_bound [OF this(1)] show ?case by simp
qed simp

lemma assign_depths_value:
  "assign_depths ps rest = Inr out \<Longrightarrow>
   list_all2 (\<lambda>(n, p) (n', p'). n' = n \<and> (\<exists>d. pipeline_depth (Suc (length ps)) ps n = Inr d \<and>
      p' = p\<lparr>pl_max_route_depth := (case pl_author_max_depth p of Some a \<Rightarrow> a | None \<Rightarrow> d)\<rparr>)) rest out"
  by (induction ps rest arbitrary: out rule: assign_depths.induct) (auto split: sum.splits)

lemma list_all2_get:
  "list_all2 (\<lambda>(n, p) (n', p'). n' = n \<and> Q n p p') xs ys \<Longrightarrow> map_get ys k = Some p' \<Longrightarrow>
   \<exists>p. map_get xs k = Some p \<and> Q k p p'"
  by (induction rule: list_all2_induct) (auto split: if_splits)

lemma node_path_update [simp]:
  "node_path (p\<lparr>pl_max_route_depth := d\<rparr>) ns = node_path p ns" "node_path (p\<lparr>pl_routes := r\<rparr>) ns = node_path p ns"
  by (induction p ns rule: node_path.induct) auto

text \<open>The computed route depth is generous enough: in a compiled set, every path through a pipeline's
  node graph that starts at an entry is at most as long as the pipeline's maximal route depth (unless
  the author overrides it), so the depth guard never cuts a path the author wrote.\<close>

theorem route_depth_covers_paths:
  assumes "compile_specs rx specs = Inr ps" and "map_get ps n = Some p" and "pl_author_max_depth p = None"
    and "e \<in> set (pl_entries p)" and "node_path p (e # ns)"
  shows "int (length (e # ns)) \<le> pl_max_route_depth p"
proof -
  obtain ps0 ps1 where c: "assign_depths ps0 ps0 = Inr ps1"
    "ps = map (\<lambda>(n, p). (n, p\<lparr>pl_routes := build_compiled_routes p\<rparr>)) ps1"
    using assms(1) by (auto simp: compile_specs_def bind_result_Inr_iff split: option.splits)
  have "map_of (map (\<lambda>(n, p). (n, p\<lparr>pl_routes := build_compiled_routes p\<rparr>)) ps1) n =
      map_option (\<lambda>p. p\<lparr>pl_routes := build_compiled_routes p\<rparr>) (map_of ps1 n)"
    by (induction ps1) auto
  then obtain p1 where p1: "map_get ps1 n = Some p1" "p = p1\<lparr>pl_routes := build_compiled_routes p1\<rparr>"
    using assms(2) c(2) by auto
  from list_all2_get [OF assign_depths_value [OF c(1)] p1(1)] obtain p0 d where p0: "map_get ps0 n = Some p0"
    "pipeline_depth (Suc (length ps0)) ps0 n = Inr d"
    "p1 = p0\<lparr>pl_max_route_depth := (case pl_author_max_depth p0 of Some a \<Rightarrow> a | None \<Rightarrow> d)\<rparr>" by blast
  then have d: "pl_max_route_depth p = d" using assms(3) p1(2) by simp
  from p0(1,2) obtain m where m: "max_succ_depth (Suc (length (pl_nodes p0))) (pipeline_depth (length ps0) ps0) p0
      (pl_entries p0) 0 = Inr m" "d = (if m = 0 then 1 else m)" by (auto split: sum.splits)
  have e: "e \<in> set (pl_entries p0)" "node_path p0 (e # ns)" using assms(4,5) p1(2) p0(3) by simp_all
  with max_succ_bound [OF m(1)] obtain d' where d': "node_depth (Suc (length (pl_nodes p0))) (pipeline_depth (length ps0) ps0) p0 e = Inr d'"
    "d' \<le> m" by blast
  have "int (length (e # ns)) \<le> d'"
    using node_depth_bound [OF _ d'(1) e(2)] pipeline_depth_pos by blast
  with d'(2) m(2) d show ?thesis by (auto split: if_splits)
qed

definition demo_pair :: "pipeline_spec list" where
  "demo_pair = [\<lparr>ps_name = ''two'', ps_on = ''pair'', ps_on_hook = [], ps_from_plugin = [], ps_if = None,
     ps_max_depth = None, ps_steps = [StepSpec ''a'' ''mail'' [] None None [] [] [] None,
       StepSpec ''b'' ''log'' [] None None [] [] [] None], ps_execution_mode = [], ps_timeout = 0\<rparr>]"

theorem route_depth_covers_paths_witness:
  "\<exists>ps p. compile_specs no_regex demo_pair = Inr ps \<and> map_get ps ''two'' = Some p \<and> 2 \<le> pl_max_route_depth p"
proof -
  have "case compile_specs no_regex demo_pair of Inl _ \<Rightarrow> False | Inr ps \<Rightarrow>
      (case map_get ps ''two'' of None \<Rightarrow> False | Some p \<Rightarrow>
         pl_author_max_depth p = None \<and> ''a'' \<in> set (pl_entries p) \<and> node_path p [''a'', ''b''])"
    by code_simp
  then obtain ps p where p: "compile_specs no_regex demo_pair = Inr ps" "map_get ps ''two'' = Some p"
    "pl_author_max_depth p = None" "''a'' \<in> set (pl_entries p)" "node_path p [''a'', ''b'']"
    by (auto split: sum.splits option.splits)
  from route_depth_covers_paths [OF p] p(1,2) show ?thesis by auto
qed

end
