(* ===== verification/Router_Properties.thy ===== *)
theory Router_Properties
  imports Compiler_Properties
begin

text \<open>
  Properties of the routing engine over compiled pipeline sets: routing is total, every dispatch names an
  executable node of a loaded pipeline, a depth budget bounds the chains of transitions, the result has no
  duplicates, and a failing predicate affects its own route only.
\<close>

section \<open>Routes of loaded pipelines\<close>

lemma set_map_filter: "set (List.map_filter f xs) = {y. \<exists>x\<in>set xs. f x = Some y}"
  by (auto simp: List.map_filter_def image_iff) force

lemma set_sort_compiled_routes [simp]: "set (sort_compiled_routes rs) = set rs"
  by (simp add: sort_compiled_routes_def)

lemma route_shape:
  assumes "r \<in> set (build_compiled_routes p)"
  shows "cr_pipeline r = pl_name p \<and>
    (cr_destination r = DestTerminal \<or>
     (\<exists>k nd. map_get (pl_nodes p) k = Some nd \<and> cr_destination r = route_destination_for_node nd))"
proof -
  consider (entry) n nd where "map_get (pl_nodes p) n = Some nd" "r = entry_route p n nd"
    | (edge) e nd where "map_get (pl_nodes p) (eg_to e) = Some nd" "r = edge_route p e nd"
    | (terminal) x where "r = terminal_route p x"
    using assms by (auto simp: build_compiled_routes_def set_map_filter split: if_splits)
  then show ?thesis
    by cases (auto simp: entry_route_def edge_route_def terminal_route_def)
qed

lemma loadedD:
  assumes "loaded ps" "map_get ps n = Some p"
  shows "pipeline_ok p" "pl_name p = n" "pl_routes p = build_compiled_routes p"
    "\<forall>c\<in>set (pl_called p). map_get ps c \<noteq> None"
  using assms map_of_SomeD [OF assms(2)] by (auto simp: loaded_def)

lemma entry_routes_nonempty:
  assumes "loaded ps" "map_get ps n = Some p"
  shows "entry_routes_for_pipeline ps n \<noteq> []" "set (entry_routes_for_pipeline ps n) \<subseteq> set (pl_routes p)"
proof -
  note p = loadedD [OF assms]
  obtain e where e: "e \<in> set (pl_entries p)" using p(1) by (cases "pl_entries p") (auto simp: pipeline_ok_def)
  then obtain nd where nd: "map_get (pl_nodes p) e = Some nd" using p(1) by (auto simp: pipeline_ok_def)
  let ?r = "entry_route p e nd"
  have "?r \<in> set (pl_routes p)"
    using e nd by (auto simp: p(3) build_compiled_routes_def set_map_filter)
  moreover have "cr_pipeline ?r = n" "rs_trigger (cr_source ?r) \<noteq> [] \<or> rs_hook_signal (cr_source ?r) \<noteq> []"
    using p(1,2) by (simp_all add: entry_route_def with_source_depth_def pipeline_ok_def)
  ultimately have "?r \<in> set (entry_routes_for_pipeline ps n)"
    using assms(2) by (auto simp: entry_routes_for_pipeline_def)
  then show "entry_routes_for_pipeline ps n \<noteq> []" by auto
  show "set (entry_routes_for_pipeline ps n) \<subseteq> set (pl_routes p)"
    using assms(2) by (auto simp: entry_routes_for_pipeline_def)
qed

lemma call_destination:
  assumes "loaded ps" "map_get ps n = Some p" "r \<in> set (pl_routes p)" "cr_destination r = DestCall sid c"
  shows "c \<in> set (called_by ps n)" "trim_space c = c" "c \<noteq> []" "\<exists>q. map_get ps c = Some q"
proof -
  note p = loadedD [OF assms(1,2)]
  obtain k nd where nd: "map_get (pl_nodes p) k = Some nd" "cr_destination r = route_destination_for_node nd"
    using route_shape [of r p] assms(3,4) p(3) by auto
  then have "nd_kind nd = NodeKindCall" "nd_call nd = c"
    using assms(4) by (auto simp: route_destination_for_node_def split: node_kind.splits)
  with p(1) nd(1) have c: "c \<in> set (pl_called p)" "trim_space c = c" "c \<noteq> []"
    by (auto simp: pipeline_ok_def)
  then show "c \<in> set (called_by ps n)" "trim_space c = c" "c \<noteq> []" using assms(2) by (simp_all add: called_by_def)
  show "\<exists>q. map_get ps c = Some q" using p(4) c(1) by auto
qed

lemma resolve_routes_total:
  "\<forall>r\<in>set rs. \<exists>ds. resolve_compiled_route f ps req h r = Inr ds \<Longrightarrow> \<exists>ds. resolve_routes f ps req h rs = Inr ds"
  by (induction rs) auto

lemma resolve_total:
  assumes "loaded ps" "call_order ps ord" "set ord = fst ` set ps"
  shows "i < length ord \<Longrightarrow> map_get ps (ord ! i) = Some p \<Longrightarrow> r \<in> set (pl_routes p) \<Longrightarrow> i < f \<Longrightarrow>
    \<exists>ds. resolve_compiled_route f ps req h r = Inr ds"
proof (induction i arbitrary: f p r rule: less_induct)
  case (less i)
  obtain f' where f: "f = Suc f'" using less.prems(4) by (cases f) auto
  show ?case
  proof (cases "cr_destination r")
    case (DestCall sid c)
    note c = call_destination [OF assms(1) less.prems(2,3) DestCall]
    obtain q where q: "map_get ps c = Some q" using c(4) ..
    have "c \<in> set (take i ord)" using c(1) assms(2) less.prems(1) by (auto simp: call_order_def)
    then obtain k where k: "k < i" "ord ! k = c" using less.prems(1) by (auto simp: in_set_conv_nth)
    have "\<forall>r\<in>set (entry_routes_for_pipeline ps c). \<exists>ds. resolve_compiled_route f' ps req h r = Inr ds"
      using entry_routes_nonempty(2) [OF assms(1) q] less.IH [OF k(1), of q _ f'] less.prems(1,4) k q f by auto
    then show ?thesis
      using resolve_routes_total entry_routes_nonempty(1) [OF assms(1) q] c(2,3) by (simp add: f DestCall)
  qed (simp_all add: f)
qed

lemma loaded_route_resolves:
  assumes "loaded ps" "map_get ps n = Some p" "r \<in> set (pl_routes p)"
  shows "\<exists>ds. resolve_compiled_route (route_fuel ps) ps req h r = Inr ds"
proof -
  obtain ord where ord: "call_order ps ord" "distinct ord" "set ord = fst ` set ps"
    using assms(1) by (auto simp: loaded_def)
  have "n \<in> set ord" using ord(3) map_of_SomeD [OF assms(2)] by force
  then obtain i where i: "i < length ord" "ord ! i = n" by (auto simp: in_set_conv_nth)
  have "length ord \<le> length ps"
    using ord(2,3) by (metis distinct_card card_image_le finite_set card_length order_trans)
  then have "i < route_fuel ps" using i(1) by (simp add: route_fuel_def)
  then show ?thesis
    using resolve_total [OF assms(1) ord(1,3) i(1) _ assms(3)] i(2) assms(2) by blast
qed

lemma all_routes_pipeline:
  assumes "loaded ps" "r \<in> set (all_routes ps)"
  obtains n p where "map_get ps n = Some p" "r \<in> set (pl_routes p)"
proof -
  obtain n p where np: "(n, p) \<in> set ps" "r \<in> set (pl_routes p)"
    using assms(2) by (auto simp: all_routes_def)
  have "distinct (map fst ps)" using assms(1) by (auto simp: loaded_def strict_sorted_iff)
  then have "map_get ps n = Some p" using np(1) by (simp add: map_of_is_SomeI)
  with that np(2) show ?thesis by blast
qed

lemma index_routes:
  "set (trigger_index ps t) \<subseteq> set (all_routes ps)" "set (hook_index ps t) \<subseteq> set (all_routes ps)"
  "set (transition_index ps pl sid) \<subseteq> set (all_routes ps)"
  by (auto simp: trigger_index_def hook_index_def transition_index_def)

lemma any_route_resolves:
  "loaded ps \<Longrightarrow> r \<in> set (all_routes ps) \<Longrightarrow> \<exists>ds. resolve_compiled_route (route_fuel ps) ps req h r = Inr ds"
  by (metis all_routes_pipeline loaded_route_resolves)

lemma next_triggers_total:
  "loaded ps \<Longrightarrow> set rs \<subseteq> set (all_routes ps) \<Longrightarrow> \<exists>ds. next_triggers rx new_id ps req rs = Inr ds"
proof (induction rs)
  case (Cons r rs)
  then obtain ds ds' where "next_triggers rx new_id ps req rs = Inr ds"
    "resolve_compiled_route (route_fuel ps) ps (req\<lparr>rr_source_instance_id := new_id (cr_pipeline r)\<rparr>) False r = Inr ds'"
    using any_route_resolves [of ps r] by fastforce
  then show ?case by simp
qed simp

lemma next_transitions_total:
  assumes "loaded ps"
  shows "\<exists>ds. next_transitions ps req = Inr ds"
proof -
  let ?rs = "filter (\<lambda>r. matches_compiled_route_source (cr_source r) req True)
             (transition_index ps (rr_source_pipeline req) (rr_source_step_id req))"
  have "r \<in> set (all_routes ps)" if "r \<in> set ?rs" for r using that index_routes(3) by auto
  then have "\<exists>ds. resolve_routes (route_fuel ps) ps req False ?rs = Inr ds"
    by (intro resolve_routes_total ballI any_route_resolves assms)
  then show ?thesis by (simp add: next_transitions_def)
qed

section \<open>What dispatches name\<close>

definition targets_node :: "pipelines \<Rightarrow> dispatch \<Rightarrow> bool" where
  "targets_node ps d \<longleftrightarrow>
     (\<exists>p nd. map_get ps (dp_pipeline_name d) = Some p \<and> map_get (pl_nodes p) (dp_step_id d) = Some nd \<and>
        nd_kind nd \<noteq> NodeKindCall)"

lemma resolve_targets:
  assumes "loaded ps"
  shows "resolve_compiled_route f ps req h r = Inr ds \<Longrightarrow> \<not> h \<Longrightarrow> r \<in> set (all_routes ps) \<Longrightarrow> d \<in> set ds \<Longrightarrow> targets_node ps d"
    and "resolve_routes f ps req h rs = Inr ds \<Longrightarrow> \<not> h \<Longrightarrow> set rs \<subseteq> set (all_routes ps) \<Longrightarrow> d \<in> set ds \<Longrightarrow> targets_node ps d"
  using assms
proof (induction f ps req h r and f ps req h rs arbitrary: ds and ds
    rule: resolve_compiled_route_resolve_routes.induct)
  case (2 f ps req h r)
  obtain n p where np: "map_get ps n = Some p" "r \<in> set (pl_routes p)"
    using all_routes_pipeline [OF "2.prems"(5,3)] .
  note p = loadedD [OF "2.prems"(5) np(1)]
  show ?case
  proof (cases "cr_destination r")
    case (DestUses sid pg c)
    then obtain k nd where nd: "map_get (pl_nodes p) k = Some nd" "cr_destination r = route_destination_for_node nd"
      using route_shape [of r p] np(2) p(3) by auto
    then have "nd_kind nd \<noteq> NodeKindCall" "nd_id nd = sid"
      using DestUses by (auto simp: route_destination_for_node_def split: node_kind.splits)
    moreover have "nd_id nd = k" using p(1) nd(1) by (auto simp: pipeline_ok_def)
    moreover have "cr_pipeline r = n" using route_shape [of r p] np(2) p(2,3) by auto
    ultimately show ?thesis
      using "2.prems"(1,2,4) np(1) nd(1) by (auto simp: DestUses uses_dispatch_def targets_node_def)
  next
    case (DestCall sid c)
    note c = call_destination [OF "2.prems"(5) np DestCall]
    obtain q where q: "map_get ps c = Some q" using c(4) ..
    have "set (entry_routes_for_pipeline ps c) \<subseteq> set (all_routes ps)"
      using entry_routes_nonempty(2) [OF "2.prems"(5) q] map_of_SomeD [OF q] by (force simp: all_routes_def)
    then show ?thesis
      using "2.IH" [OF DestCall refl] entry_routes_nonempty(1) [OF "2.prems"(5) q] c(2,3) "2.prems"
      by (simp add: DestCall)
  next
    case DestTerminal
    with "2.prems" show ?thesis by simp
  qed
qed (auto split: sum.splits)

lemma next_triggers_targets:
  "loaded ps \<Longrightarrow> next_triggers rx new_id ps req rs = Inr ds \<Longrightarrow> set rs \<subseteq> set (all_routes ps) \<Longrightarrow> d \<in> set ds \<Longrightarrow>
   targets_node ps d"
  by (induction rs arbitrary: ds) (auto split: if_splits sum.splits dest: resolve_targets(1))

section \<open>Deduplication\<close>

lemma dedupe_from_spec:
  "distinct (map dispatch_key (dedupe_from seen ds)) \<and>
   dispatch_key ` set (dedupe_from seen ds) = dispatch_key ` set ds - set seen \<and>
   subseq (dedupe_from seen ds) ds"
  by (induction seen ds rule: dedupe_from.induct) (auto simp: image_iff)

lemma set_dedupe_from: "set (dedupe_from seen ds) \<subseteq> set ds"
  by (induction seen ds rule: dedupe_from.induct) auto

section \<open>Depth\<close>

lemma resolve_budget:
  "resolve_compiled_route f ps req h r = Inr ds \<Longrightarrow> d \<in> set ds \<Longrightarrow> rr_source_max_depth req \<noteq> 0 \<Longrightarrow>
     dp_route_depth d = rr_source_depth req + 1 \<and> dp_route_max_depth d = rr_source_max_depth req"
  "resolve_routes f ps req h rs = Inr ds \<Longrightarrow> d \<in> set ds \<Longrightarrow> rr_source_max_depth req \<noteq> 0 \<Longrightarrow>
     dp_route_depth d = rr_source_depth req + 1 \<and> dp_route_max_depth d = rr_source_max_depth req"
  by (induction f ps req h r and f ps req h rs arbitrary: ds and ds
      rule: resolve_compiled_route_resolve_routes.induct)
    (auto simp: uses_dispatch_def Let_def split: sum.splits if_splits destination.splits)

lemma resolve_routes_from: "resolve_routes f ps req h rs = Inr ds \<Longrightarrow> d \<in> set ds \<Longrightarrow> rs \<noteq> []"
  by auto

section \<open>Concrete data\<close>

definition demo_step :: "string \<Rightarrow> string \<Rightarrow> step_spec" where
  "demo_step uses call = StepSpec [] uses call None None [] [] [] None"

definition demo_spec :: "string \<Rightarrow> string \<Rightarrow> step_spec list \<Rightarrow> pipeline_spec" where
  "demo_spec name on steps = \<lparr>ps_name = name, ps_on = on, ps_on_hook = [], ps_from_plugin = [], ps_if = None,
     ps_max_depth = None, ps_steps = steps, ps_execution_mode = [], ps_timeout = 0\<rparr>"

definition demo_specs :: "pipeline_spec list" where
  "demo_specs = [demo_spec ''main'' ''go'' [demo_step [] ''sub'', demo_step ''mail'' []],
                 demo_spec ''sub'' ''subgo'' [demo_step ''chat'' []],
                 demo_spec ''two'' ''pair'' [demo_step ''mail'' [], demo_step ''log'' []]]"

definition demo_set :: pipelines where
  "demo_set = (case compile_specs no_regex demo_specs of Inr ps \<Rightarrow> ps | Inl e \<Rightarrow> [])"

definition demo_event :: "string \<Rightarrow> request" where
  "demo_event ty = (hook_request ''src'' ty [])\<lparr>rr_source_pipeline := ''two'', rr_source_step_id := ''step_1'',
     rr_source_instance_id := ''i'', rr_source_depth := 1, rr_source_max_depth := 2\<rparr>"

lemma demo_compiles: "compile_specs no_regex demo_specs = Inr demo_set"
proof -
  have "case compile_specs no_regex demo_specs of Inr _ \<Rightarrow> True | Inl _ \<Rightarrow> False" by code_simp
  then show ?thesis by (simp add: demo_set_def split: sum.splits)
qed

section \<open>Properties\<close>

text \<open>C30. Routing is total on compiled pipelines: for a pipeline set accepted by the compiler,
  \<^verbatim>\<open>Next\<close> on an event with a type always returns dispatches. Call destinations resolve (the call
  graph is acyclic, so the recursion ends; every called pipeline exists and has an entry), and no
  predicate can make it fail.\<close>

theorem routing_total:
  assumes "compile_specs rx specs = Inr ps" and "trim_space (ev_type (rr_event req)) \<noteq> []"
  shows "\<exists>ds. route_next rx new_id ps req = Inr ds"
proof -
  have l: "loaded ps" by (rule compile_specs_loaded [OF assms(1)])
  obtain ds1 where "next_transitions ps req = Inr ds1" using next_transitions_total [OF l] by blast
  moreover obtain ds2 where "next_triggers rx new_id ps req (trigger_index ps (trim_space (ev_type (rr_event req)))) = Inr ds2"
    using next_triggers_total [OF l index_routes(1)] by blast
  ultimately show ?thesis using assms(2) by (simp add: route_next_def)
qed

lemma demo_type: "trim_space ''go'' = ''go''"
  by (simp add: trim_space_def is_space_def)

theorem routing_total_witness: "\<exists>ds. route_next no_regex (\<lambda>n. n) demo_set (demo_event ''go'') = Inr ds"
  by (rule routing_total [OF demo_compiles]) (simp add: demo_event_def hook_request_def demo_type)

text \<open>Every dispatch of \<^verbatim>\<open>Next\<close> names a node of a loaded pipeline that is executed by a plugin: its
  pipeline and step exist and the step is not a \<^verbatim>\<open>call\<close> node. (So no job ever carries the step of a
  \<^verbatim>\<open>call\<close> node, and the edges that lead out of such a node are never taken.)\<close>

theorem dispatch_targets_executable_node:
  assumes "compile_specs rx specs = Inr ps" and "route_next rx new_id ps req = Inr ds" and "d \<in> set ds"
  shows "\<exists>p nd. map_get ps (dp_pipeline_name d) = Some p \<and> map_get (pl_nodes p) (dp_step_id d) = Some nd \<and>
    nd_kind nd \<noteq> NodeKindCall"
proof -
  have l: "loaded ps" by (rule compile_specs_loaded [OF assms(1)])
  obtain ds1 ds2 where ds: "next_transitions ps req = Inr ds1" "ds = dedupe_dispatches (ds1 @ ds2)"
    "next_triggers rx new_id ps req (trigger_index ps (trim_space (ev_type (rr_event req)))) = Inr ds2"
    using assms(2) by (auto simp: route_next_def Let_def bind_result_Inr_iff split: if_splits)
  have "d \<in> set ds1 \<or> d \<in> set ds2"
    using assms(3) set_dedupe_from [of "[]" "ds1 @ ds2"] unfolding ds(2) dedupe_dispatches_def by auto
  moreover have "targets_node ps d" if "d \<in> set ds1"
  proof -
    let ?rs = "filter (\<lambda>r. matches_compiled_route_source (cr_source r) req True)
      (transition_index ps (rr_source_pipeline req) (rr_source_step_id req))"
    have "resolve_routes (route_fuel ps) ps req False ?rs = Inr ds1"
      using ds(1) that by (auto simp: next_transitions_def split: if_splits)
    moreover have "set ?rs \<subseteq> set (all_routes ps)" using index_routes(3) by fastforce
    ultimately show ?thesis using resolve_targets(2) [OF l _ _ _ that] by blast
  qed
  moreover have "targets_node ps d" if "d \<in> set ds2"
    using next_triggers_targets [OF l ds(3) index_routes(1) that] .
  ultimately show ?thesis unfolding targets_node_def by blast
qed

lemma demo_dispatches: "\<exists>ds d. route_next no_regex (\<lambda>n. n) demo_set (demo_event ''go'') = Inr ds \<and> d \<in> set ds"
proof -
  have "case route_next no_regex (\<lambda>n. n) demo_set (demo_event ''go'') of
      Inr ds \<Rightarrow> map dp_plugin ds = [''log'', ''chat''] | Inl _ \<Rightarrow> False"
    by code_simp
  then show ?thesis by (auto split: sum.splits)
qed

theorem dispatch_targets_executable_node_witness:
  "\<exists>(d :: dispatch) p nd. map_get demo_set (dp_pipeline_name d) = Some p \<and> map_get (pl_nodes p) (dp_step_id d) = Some nd"
proof -
  obtain ds d where "route_next no_regex (\<lambda>n. n) demo_set (demo_event ''go'') = Inr ds" "d \<in> set ds"
    using demo_dispatches by blast
  from dispatch_targets_executable_node [OF demo_compiles this] show ?thesis by fast
qed

text \<open>A chain of transitions: each dispatch is produced for a request that carries the depth and the
  budget of the dispatch before it.\<close>

inductive transition_chain :: "pipelines \<Rightarrow> int \<Rightarrow> int \<Rightarrow> dispatch list \<Rightarrow> bool" for ps where
  chain_end: "transition_chain ps dep budget []"
| chain_step: "rr_source_depth req = dep \<Longrightarrow> rr_source_max_depth req = budget \<Longrightarrow> next_transitions ps req = Inr ds \<Longrightarrow>
    d \<in> set ds \<Longrightarrow> transition_chain ps (dp_route_depth d) (dp_route_max_depth d) rest \<Longrightarrow>
    transition_chain ps dep budget (d # rest)"

lemma transition_depth:
  assumes "next_transitions ps req = Inr ds" "d \<in> set ds" "rr_source_max_depth req > 0"
  shows "dp_route_depth d = rr_source_depth req + 1" "dp_route_depth d \<le> rr_source_max_depth req"
    "dp_route_max_depth d = rr_source_max_depth req"
proof -
  let ?rs = "filter (\<lambda>r. matches_compiled_route_source (cr_source r) req True)
      (transition_index ps (rr_source_pipeline req) (rr_source_step_id req))"
  have rs: "resolve_routes (route_fuel ps) ps req False ?rs = Inr ds"
    using assms(1,2) by (auto simp: next_transitions_def split: if_splits)
  from resolve_budget(2) [OF rs assms(2)] assms(3)
  show d: "dp_route_depth d = rr_source_depth req + 1" "dp_route_max_depth d = rr_source_max_depth req" by simp_all
  have "?rs \<noteq> []" by (rule resolve_routes_from [OF rs assms(2)])
  then obtain r where "r \<in> set (transition_index ps (rr_source_pipeline req) (rr_source_step_id req))"
    "matches_compiled_route_source (cr_source r) req True" by (auto simp: filter_empty_conv)
  then have "rr_source_depth req < rr_source_max_depth req"
    using assms(3) by (auto simp: transition_index_def matches_compiled_route_source_def Let_def split: if_splits)
  then show "dp_route_depth d \<le> rr_source_max_depth req" using d by simp
qed

text \<open>C31. The loop guard: once an execution carries a positive depth budget, every job it reaches by
  transitions carries the same budget, and no chain of transitions is longer than what the budget
  leaves above the current depth.\<close>

theorem transition_chains_bounded:
  assumes "transition_chain ps dep budget ch" and "budget > 0"
  shows "int (length ch) \<le> max 0 (budget - dep) \<and> (\<forall>d\<in>set ch. dp_route_max_depth d = budget \<and> dp_route_depth d \<le> budget)"
  using assms
proof (induction rule: transition_chain.induct)
  case (chain_step req dep budget ds d rest)
  note d = transition_depth [OF chain_step(3,4), unfolded chain_step(1,2), OF chain_step.prems]
  with chain_step.IH chain_step.prems show ?case by auto
qed simp

theorem transition_chains_bounded_witness:
  "\<exists>d. transition_chain demo_set 1 2 [d] \<and> int (length [d]) \<le> max 0 (2 - 1) \<and> dp_route_max_depth d = 2"
proof -
  have "case next_transitions demo_set (demo_event ''go'') of Inr ds \<Rightarrow> map dp_plugin ds = [''log''] | Inl _ \<Rightarrow> False"
    by code_simp
  then obtain ds d where "next_transitions demo_set (demo_event ''go'') = Inr ds" "d \<in> set ds"
    by (auto split: sum.splits)
  then have "transition_chain demo_set 1 2 [d]"
    by (intro chain_step [where req = "demo_event ''go''"] chain_end) (simp_all add: demo_event_def)
  with transition_chains_bounded [OF this] show ?thesis by auto
qed

text \<open>One event never yields the same job twice: the dispatches of \<^verbatim>\<open>Next\<close> have pairwise distinct
  identities (pipeline, step, instance, plugin, command, source event).\<close>

theorem route_next_distinct:
  assumes "route_next rx new_id ps req = Inr ds"
  shows "distinct (map dispatch_key ds)"
  using assms dedupe_from_spec
  by (auto simp: route_next_def Let_def bind_result_Inr_iff dedupe_dispatches_def split: if_splits)

theorem route_next_distinct_witness:
  "\<exists>ds. route_next no_regex (\<lambda>n. n) demo_set (demo_event ''go'') = Inr ds \<and> distinct (map dispatch_key ds)"
  using demo_dispatches route_next_distinct by blast

text \<open>Fault isolation: an entry route whose predicate fails to evaluate has no effect on routing; the
  triggered dispatches are exactly those of the other routes.\<close>

theorem poison_predicate_isolated:
  assumes "rs_if (cr_source r) = Some c" and "eval rx (trigger_scope req) c = Inl e"
  shows "next_triggers rx new_id ps req (rs1 @ r # rs2) = next_triggers rx new_id ps req (rs1 @ rs2)"
  using assms by (induction rs1) (simp_all add: trigger_matches_def predicate_holds_def cong: sum.case_cong)

definition poison_route :: compiled_route where
  "poison_route = \<lparr>cr_id = ''entry:x'', cr_pipeline = ''main'',
     cr_source = empty_source\<lparr>rs_trigger := ''go'', rs_if := Some (demo_atom ''payload.n'' ''gt'' (GInt 1))\<rparr>,
     cr_destination = DestUses ''x'' ''mail'' ''handle''\<rparr>"

theorem poison_predicate_isolated_witness:
  "next_triggers no_regex (\<lambda>n. n) demo_set (demo_event ''go'') ([] @ poison_route # []) =
   next_triggers no_regex (\<lambda>n. n) demo_set (demo_event ''go'') ([] @ [])"
  by (rule poison_predicate_isolated [where c = "demo_atom ''payload.n'' ''gt'' (GInt 1)" and e = "NumericPathValue ''gt''"])
    (simp_all add: poison_route_def demo_atom_def eval_atomic_def resolve_path_def scope_root_def trigger_scope_def
      demo_event_def hook_request_def trim_space_def is_space_def apply_operator_def as_number_def)

end
