(* ===== verification/Cron.thy ===== *)
theory Cron
  imports Go_Time
begin

text \<open>
  Cron expressions, \<^verbatim>\<open>src/internal/scheduleexpr/cron.go\<close>: the parser of five-field expressions, the
  matcher and the search for the next matching minute. A time zone is a fixed offset from UTC, the
  argument \<open>off\<close>; zones with daylight saving are outside the model. The Go slice of allowed values is a
  list of booleans, its indexing is checked (\<open>CronPanic\<close>), and the counter of the marking loop is
  a 64-bit integer that wraps around.
\<close>

record cron_field =
  cf_allowed :: "bool list"
  cf_any :: bool
  cf_min :: int
  cf_max :: int

record cron_expression =
  ce_minute :: cron_field
  ce_hour :: cron_field
  ce_dom :: cron_field
  ce_month :: cron_field
  ce_dow :: cron_field

datatype cron_error =
    ExpectedFiveFields | FieldError string cron_error | FieldEmpty | EmptyListSegment | NoValuesSelected
  | InvalidStepSegment string | InvalidStep string | DescendingRange string | InvalidRange string
  | EmptyValue | InvalidValue string | ValueOutOfRange int | CronPanic

definition field_matches :: "cron_field \<Rightarrow> int \<Rightarrow> bool" where
  "field_matches f v \<longleftrightarrow>
     \<not> (v < cf_min f \<or> v > cf_max f) \<and> \<not> v \<ge> int (length (cf_allowed f)) \<and> cf_allowed f ! nat v"

definition month_names :: "(string \<times> int) list" where
  "month_names = [(''jan'', 1), (''feb'', 2), (''mar'', 3), (''apr'', 4), (''may'', 5), (''jun'', 6),
     (''jul'', 7), (''aug'', 8), (''sep'', 9), (''oct'', 10), (''nov'', 11), (''dec'', 12)]"

definition weekday_names :: "(string \<times> int) list" where
  "weekday_names = [(''sun'', 0), (''mon'', 1), (''tue'', 2), (''wed'', 3), (''thu'', 4), (''fri'', 5), (''sat'', 6)]"

definition parse_cron_value :: "string \<Rightarrow> (string \<times> int) list \<Rightarrow> int \<Rightarrow> int \<Rightarrow> bool \<Rightarrow> cron_error + int" where
  "parse_cron_value raw names mn mx dow =
     (let s = trim_space (to_lower raw) in
      if s = [] then Inl EmptyValue
      else case map_of names s of
        Some v \<Rightarrow> Inr v
      | None \<Rightarrow>
         (case atoi s of
            None \<Rightarrow> Inl (InvalidValue raw)
          | Some v \<Rightarrow>
             if dow \<and> v = 7 then Inr 0
             else if v < mn \<or> v > mx then Inl (ValueOutOfRange v)
             else Inr v))"

definition parse_cron_range :: "string \<Rightarrow> (string \<times> int) list \<Rightarrow> int \<Rightarrow> int \<Rightarrow> bool \<Rightarrow> cron_error + (int \<times> int)" where
  "parse_cron_range raw names mn mx dow =
     (if CHR ''-'' \<in> set raw then
        (case split_on (CHR ''-'') raw of
           [a, b] \<Rightarrow>
             bind_result (parse_cron_value a names mn mx dow) (\<lambda>start.
             bind_result (parse_cron_value b names mn mx dow) (\<lambda>fin. Inr (start, fin)))
         | _ \<Rightarrow> Inl (InvalidRange raw))
      else bind_result (parse_cron_value raw names mn mx dow) (\<lambda>v. Inr (v, v)))"

text \<open>\<^verbatim>\<open>for i := start; i <= end; i += step { allowed[i] = true }\<close>; the steps are positive, so the
  counter leaves the range upwards or wraps to a negative index, which panics.\<close>

function mark_range :: "int \<Rightarrow> int \<Rightarrow> int \<Rightarrow> bool list \<Rightarrow> cron_error + bool list" where
  "mark_range i step fin allowed =
     (if i > fin then Inr allowed
      else if i < 0 \<or> i \<ge> int (length allowed) then Inl CronPanic
      else if step \<le> 0 then Inl CronPanic
      else if wrap64 (i + step) \<le> i then Inl CronPanic
      else mark_range (wrap64 (i + step)) step fin (allowed[nat i := True]))"
  by pat_completeness auto
termination
  by (relation "measure (\<lambda>(i, step, fin, allowed). nat (fin - i + 1))") auto

declare mark_range.simps [simp del]

text \<open>The \<^verbatim>\<open>dow\<close> flag copies 7 to 0 (Sunday).\<close>

definition mark_sunday :: "bool \<Rightarrow> bool list \<Rightarrow> bool list" where
  "mark_sunday dow allowed = (if dow \<and> allowed ! 7 then allowed[0 := True] else allowed)"

definition apply_cron_segment ::
  "string \<Rightarrow> int \<Rightarrow> int \<Rightarrow> (string \<times> int) list \<Rightarrow> bool \<Rightarrow> bool list \<Rightarrow> cron_error + bool list" where
  "apply_cron_segment seg mn mx names dow allowed =
     bind_result
       (if CHR ''/'' \<in> set seg then
          (case split_on (CHR ''/'') seg of
             [b, st] \<Rightarrow>
               (case atoi st of
                  None \<Rightarrow> Inl (InvalidStep st)
                | Some n \<Rightarrow> if n \<le> 0 then Inl (InvalidStep st) else Inr (b, n))
           | _ \<Rightarrow> Inl (InvalidStepSegment seg))
        else Inr (seg, 1))
       (\<lambda>(base, step).
          if base = ''*'' then
            bind_result (mark_range mn step mx allowed) (\<lambda>al. Inr (mark_sunday dow al))
          else
            bind_result (parse_cron_range base names mn mx dow) (\<lambda>(start, fin).
              if start > fin then Inl (DescendingRange base)
              else bind_result (mark_range start step fin allowed) (\<lambda>al. Inr (mark_sunday dow al))))"

fun apply_segments ::
  "string list \<Rightarrow> int \<Rightarrow> int \<Rightarrow> (string \<times> int) list \<Rightarrow> bool \<Rightarrow> bool list \<Rightarrow> cron_error + bool list" where
  "apply_segments [] mn mx names dow allowed = Inr allowed"
| "apply_segments (seg # segs) mn mx names dow allowed =
     (if trim_space seg = [] then Inl EmptyListSegment
      else bind_result (apply_cron_segment (trim_space seg) mn mx names dow allowed)
        (apply_segments segs mn mx names dow))"

definition parse_cron_field :: "string \<Rightarrow> int \<Rightarrow> int \<Rightarrow> (string \<times> int) list \<Rightarrow> bool \<Rightarrow> cron_error + cron_field" where
  "parse_cron_field raw0 mn mx names dow =
     (let raw = trim_space (to_lower raw0); empty = replicate (nat (mx + 1)) False in
      if raw = [] then Inl FieldEmpty
      else if raw = ''*'' then
        Inr \<lparr>cf_allowed = map (\<lambda>i. mn \<le> int i \<or> (dow \<and> i = 0)) [0..<nat (mx + 1)],
             cf_any = True, cf_min = mn, cf_max = mx\<rparr>
      else
        bind_result (apply_segments (split_on (CHR '','') raw) mn mx names dow empty) (\<lambda>al.
          if \<exists>i\<in>set [nat mn..<nat (mx + 1)]. al ! i
          then Inr \<lparr>cf_allowed = al, cf_any = False, cf_min = mn, cf_max = mx\<rparr>
          else Inl NoValuesSelected))"

text \<open>An error names its field; a panic is no error value and passes through.\<close>

definition in_field :: "string \<Rightarrow> cron_error + 'a \<Rightarrow> cron_error + 'a" where
  "in_field name r =
     (case r of Inl CronPanic \<Rightarrow> Inl CronPanic | Inl e \<Rightarrow> Inl (FieldError name e) | Inr x \<Rightarrow> Inr x)"

definition parse_cron :: "string \<Rightarrow> cron_error + cron_expression" where
  "parse_cron expr =
     (case Ductile_Prelude.fields (trim_space expr) of
        [m, h, d, mo, w] \<Rightarrow>
          bind_result (in_field ''minute'' (parse_cron_field m 0 59 [] False)) (\<lambda>fm.
          bind_result (in_field ''hour'' (parse_cron_field h 0 23 [] False)) (\<lambda>fh.
          bind_result (in_field ''day-of-month'' (parse_cron_field d 1 31 [] False)) (\<lambda>fd.
          bind_result (in_field ''month'' (parse_cron_field mo 1 12 month_names False)) (\<lambda>fmo.
          bind_result (in_field ''day-of-week'' (parse_cron_field w 0 7 weekday_names True)) (\<lambda>fw.
            Inr \<lparr>ce_minute = fm, ce_hour = fh, ce_dom = fd, ce_month = fmo, ce_dow = fw\<rparr>)))))
      | _ \<Rightarrow> Inl ExpectedFiveFields)"

definition cron_matches :: "cron_expression \<Rightarrow> duration \<Rightarrow> instant \<Rightarrow> bool" where
  "cron_matches c off t0 =
     (let t = t0 + off;
          dom_match = field_matches (ce_dom c) (t_day t);
          dow_match = field_matches (ce_dow c) (t_weekday t)
      in if \<not> field_matches (ce_minute c) (t_minute t) \<or> \<not> field_matches (ce_hour c) (t_hour t) \<or>
            \<not> field_matches (ce_month c) (t_month t) then False
         else if cf_any (ce_dom c) \<and> cf_any (ce_dow c) then True
         else if cf_any (ce_dom c) then dow_match
         else if cf_any (ce_dow c) then dom_match
         else dom_match \<or> dow_match)"

text \<open>Days since the epoch of a (possibly denormal) civil date, and \<^verbatim>\<open>AddDate(n, 0, 0)\<close>.\<close>

definition days_from_civil :: "int \<Rightarrow> int \<Rightarrow> int \<Rightarrow> int" where
  "days_from_civil y0 m d =
     (let y = (if m \<le> 2 then y0 - 1 else y0);
          era = y div 400; yoe = y mod 400;
          mp = (if m > 2 then m - 3 else m + 9);
          doy = (153 * mp + 2) div 5 + d - 1;
          doe = yoe * 365 + yoe div 4 - yoe div 100 + doy
      in era * 146097 + doe - 719468)"

definition add_years :: "int \<Rightarrow> duration \<Rightarrow> instant \<Rightarrow> instant" where
  "add_years n off t0 =
     (let t = t0 + off in
      case civil_from_days (day_number t) of (y, m, d) \<Rightarrow>
        days_from_civil (y + n) m d * day + t mod day - off)"

function next_match :: "cron_expression \<Rightarrow> duration \<Rightarrow> instant \<Rightarrow> instant \<Rightarrow> instant option" where
  "next_match c off deadline cand =
     (if cand > deadline then None
      else if cron_matches c off cand then Some cand
      else next_match c off deadline (cand + minute))"
  by pat_completeness auto
termination
  by (relation "measure (\<lambda>(c, off, deadline, cand). nat (deadline - cand + 1))") auto

declare next_match.simps [simp del]

definition next_after :: "cron_expression \<Rightarrow> duration \<Rightarrow> instant \<Rightarrow> instant option" where
  "next_after c off frm =
     (let candidate = truncate_minute frm + minute
      in next_match c off (add_years 5 off candidate) candidate)"

section \<open>The search\<close>

lemma next_match_Some:
  "next_match c off dl cand = Some t \<Longrightarrow>
   \<exists>k::nat. t = cand + int k * minute \<and> t \<le> dl \<and> cron_matches c off t \<and>
     (\<forall>i<k. \<not> cron_matches c off (cand + int i * minute))"
proof (induction c off dl cand rule: next_match.induct)
  case (1 c off dl cand)
  show ?case
  proof (cases "cron_matches c off cand")
    case True
    with "1.prems" show ?thesis by (intro exI [of _ 0]) (auto simp: next_match.simps [of c off dl cand] split: if_splits)
  next
    case False
    with "1.prems" have nxt: "\<not> dl < cand" "next_match c off dl (cand + minute) = Some t"
      by (simp_all add: next_match.simps [of c off dl cand] split: if_splits)
    from "1.IH" [OF nxt(1) False nxt(2)] obtain k where k: "t = cand + minute + int k * minute" "t \<le> dl" "cron_matches c off t"
      "\<forall>i<k. \<not> cron_matches c off (cand + minute + int i * minute)" by blast
    have "\<not> cron_matches c off (cand + int i * minute)" if "i < Suc k" for i
      using that k(4) False by (cases i) (auto simp: algebra_simps)
    then show ?thesis using k(1-3) by (intro exI [of _ "Suc k"]) (auto simp: algebra_simps)
  qed
qed

lemma next_match_None:
  "next_match c off dl cand = None \<Longrightarrow> cand + int i * minute \<le> dl \<Longrightarrow> \<not> cron_matches c off (cand + int i * minute)"
proof (induction c off dl cand arbitrary: i rule: next_match.induct)
  case (1 c off dl cand)
  have le: "cand \<le> cand + int i * minute" by simp
  then have cand: "\<not> dl < cand" using "1.prems"(2) by linarith
  with "1.prems"(1) have nm: "\<not> cron_matches c off cand" "next_match c off dl (cand + minute) = None"
    by (auto simp: next_match.simps [of c off dl cand] split: if_splits)
  show ?case
  proof (cases i)
    case 0
    with nm show ?thesis by simp
  next
    case (Suc k)
    with "1.IH" [OF cand nm, of k] "1.prems"(2) show ?thesis by (simp add: algebra_simps)
  qed
qed

lemma minute_slot:
  assumes "u mod minute = 0" "cand mod minute = 0" "cand \<le> u"
  obtains i :: nat where "u = cand + int i * minute"
proof -
  have "(u - cand) mod minute = 0" using assms(1,2) by (simp add: mod_diff_eq [symmetric] del: mod_diff_left_eq)
  then have "u - cand = (u - cand) div minute * minute" by (simp add: minus_mod_eq_div_mult [symmetric])
  moreover have "0 \<le> (u - cand) div minute" using assms(3) by simp
  ultimately have "u = cand + int (nat ((u - cand) div minute)) * minute" by simp
  then show ?thesis by (rule that)
qed

lemma candidate_facts:
  "(truncate_minute frm + minute) mod minute = 0" "frm < truncate_minute frm + minute"
  "u mod minute = 0 \<Longrightarrow> frm < u \<Longrightarrow> truncate_minute frm + minute \<le> u"
proof -
  show "(truncate_minute frm + minute) mod minute = 0"
    using truncate_minute_mod [of frm] by simp
  show "frm < truncate_minute frm + minute" using truncate_minute_gt [of frm] by linarith
  assume u: "u mod minute = 0" "frm < u"
  show "truncate_minute frm + minute \<le> u"
  proof (rule ccontr)
    assume "\<not> truncate_minute frm + minute \<le> u"
    then have "0 < u - truncate_minute frm" "u - truncate_minute frm < minute"
      using u(2) truncate_minute_le [of frm] by linarith+
    moreover have "(u - truncate_minute frm) mod minute = 0"
      using u(1) truncate_minute_mod [of frm] by (metis mod_diff_eq diff_self mod_0)
    ultimately show False by simp
  qed
qed

section \<open>Properties\<close>

text \<open>C32. \<^verbatim>\<open>NextAfter\<close> finds the next run: the result is a whole minute strictly after the given time that
  matches the expression, no whole minute in between matches, and when it reports an error no whole minute
  up to five years ahead matches.\<close>

theorem cron_next_after_least:
  "case next_after c off frm of
     Some t \<Rightarrow> frm < t \<and> t mod minute = 0 \<and> cron_matches c off t \<and>
       (\<forall>u. frm < u \<and> u < t \<and> u mod minute = 0 \<longrightarrow> \<not> cron_matches c off u)
   | None \<Rightarrow> \<forall>u. frm < u \<and> u \<le> add_years 5 off (truncate_minute frm + minute) \<and> u mod minute = 0 \<longrightarrow>
       \<not> cron_matches c off u"
proof (cases "next_after c off frm")
  case None
  then have n: "next_match c off (add_years 5 off (truncate_minute frm + minute)) (truncate_minute frm + minute) = None"
    by (simp add: next_after_def Let_def)
  have "\<not> cron_matches c off u"
    if "frm < u" "u \<le> add_years 5 off (truncate_minute frm + minute)" "u mod minute = 0" for u
  proof -
    note aligned = that(3)
    have le: "truncate_minute frm + minute \<le> u" by (rule candidate_facts(3) [OF that(3,1)])
    obtain i where i: "u = truncate_minute frm + minute + int i * minute"
      by (rule minute_slot [OF aligned candidate_facts(1) le])
    show ?thesis using next_match_None [OF n, of i] i that(2) by simp
  qed
  with None show ?thesis by simp
next
  case (Some t)
  then have s: "next_match c off (add_years 5 off (truncate_minute frm + minute)) (truncate_minute frm + minute) = Some t"
    by (simp add: next_after_def Let_def)
  from next_match_Some [OF s] obtain k where k: "t = truncate_minute frm + minute + int k * minute"
    "cron_matches c off t" "\<forall>i<k. \<not> cron_matches c off (truncate_minute frm + minute + int i * minute)" by blast
  have "\<not> cron_matches c off u" if "frm < u" "u < t" "u mod minute = 0" for u
  proof -
    note aligned = that(3)
    have le: "truncate_minute frm + minute \<le> u" by (rule candidate_facts(3) [OF that(3,1)])
    obtain i where i: "u = truncate_minute frm + minute + int i * minute"
      by (rule minute_slot [OF aligned candidate_facts(1) le])
    then have "i < k" using that(2) k(1) by simp
    with k(3) i show ?thesis by simp
  qed
  moreover have "frm < t" using candidate_facts(2) [of frm] k(1) by simp
  moreover have "t mod minute = 0" using candidate_facts(1) [of frm] k(1) by simp
  ultimately show ?thesis using Some k(2) by simp
qed

definition demo_field :: "int \<Rightarrow> int \<Rightarrow> cron_field" where
  "demo_field mn mx = \<lparr>cf_allowed = replicate (nat (mx + 1)) True, cf_any = True, cf_min = mn, cf_max = mx\<rparr>"

definition demo_cron :: cron_expression where
  "demo_cron = \<lparr>ce_minute = demo_field 0 59, ce_hour = demo_field 0 23, ce_dom = demo_field 1 31,
     ce_month = demo_field 1 12, ce_dow = demo_field 0 7\<rparr>"

lemma demo_cron_next: "next_after demo_cron 0 59 = Some minute"
  by code_simp

theorem cron_next_after_least_witness:
  "next_after demo_cron 0 59 = Some minute \<and> (59 :: int) < minute \<and> cron_matches demo_cron 0 minute"
  using cron_next_after_least [where c = demo_cron and off = 0 and frm = 59] by (simp add: demo_cron_next)

text \<open>A step that overflows the loop counter crashes the parser: the expression
  \<^verbatim>\<open>1/9223372036854775807 * * * *\<close> has a valid step, and marking its values indexes the slice with a
  negative number.\<close>

theorem cron_step_overflow_panics:
  "parse_cron ''1/9223372036854775807 * * * *'' = Inl CronPanic"
  by code_simp

text \<open>Ranges that end on Sunday written as 7 are rejected, since 7 is turned into 0 before the range is
  checked, although the field accepts 7 and marks Sunday for it.\<close>

theorem cron_friday_to_sunday_rejected:
  "parse_cron ''0 0 * * 5-7'' = Inl (FieldError ''day-of-week'' (DescendingRange ''5-7''))"
  by code_simp

end
