(* ===== verification/Plugin_Config.thy ===== *)
theory Plugin_Config
  imports Go_Value Go_Time
begin

text \<open>
  The plugin section of the configuration, \<^verbatim>\<open>src/internal/config/types.go\<close>: retry, timeout and
  circuit-breaker settings with their single resolver, and schedule entries; and \<^verbatim>\<open>ParseInterval\<close> of
  \<^verbatim>\<open>src/internal/config/loader.go\<close>. The number parsers of the Go library it calls are the
  arguments \<open>parse_float\<close> (\<^verbatim>\<open>strconv.ParseFloat\<close>) and \<open>parse_duration\<close> (\<^verbatim>\<open>time.ParseDuration\<close>).
\<close>

record retry_config =
  rt_max_attempts :: int
  rt_backoff_base :: duration

record timeouts_config =
  to_poll :: duration
  to_handle :: duration
  to_health :: duration
  to_init :: duration
  to_overrides :: "(string \<times> duration) list"

record breaker_config =
  bc_threshold :: int
  bc_reset_after :: duration

record schedule_config =
  sc_id :: string
  sc_every :: string
  sc_cron :: string
  sc_at :: string
  sc_after :: duration
  sc_jitter :: duration
  sc_catch_up :: string
  sc_if_running :: string
  sc_only_between :: string
  sc_timezone :: string
  sc_not_on :: "gval list"
  sc_command :: string
  sc_payload :: "gmap option"

record plugin_conf =
  pc_enabled :: bool
  pc_schedules :: "schedule_config list"
  pc_retry :: "retry_config option"
  pc_timeouts :: "timeouts_config option"
  pc_breaker :: "breaker_config option"
  pc_max_outstanding_polls :: int
  pc_parallelism :: int
  pc_notify_on_complete :: "bool option"
  pc_config :: gmap
  pc_run_as :: string
  pc_requires_vault :: bool
  pc_vault_principal :: string

section \<open>Defaults and the resolver\<close>

definition default_retry :: retry_config where
  "default_retry = \<lparr>rt_max_attempts = 4, rt_backoff_base = 30 * second\<rparr>"

definition default_timeouts :: timeouts_config where
  "default_timeouts = \<lparr>to_poll = 60 * second, to_handle = 120 * second, to_health = 10 * second,
     to_init = 30 * second, to_overrides = []\<rparr>"

definition default_breaker :: breaker_config where
  "default_breaker = \<lparr>bc_threshold = 3, bc_reset_after = 30 * minute\<rparr>"

definition default_plugin_conf :: plugin_conf where
  "default_plugin_conf = \<lparr>pc_enabled = True, pc_schedules = [], pc_retry = Some default_retry,
     pc_timeouts = Some default_timeouts, pc_breaker = Some default_breaker, pc_max_outstanding_polls = 1,
     pc_parallelism = 1, pc_notify_on_complete = None, pc_config = [], pc_run_as = [], pc_requires_vault = False,
     pc_vault_principal = []\<rparr>"

text \<open>The value a lookup of an unknown plugin gives.\<close>

definition zero_plugin_conf :: plugin_conf where
  "zero_plugin_conf = \<lparr>pc_enabled = False, pc_schedules = [], pc_retry = None, pc_timeouts = None, pc_breaker = None,
     pc_max_outstanding_polls = 0, pc_parallelism = 0, pc_notify_on_complete = None, pc_config = [], pc_run_as = [],
     pc_requires_vault = False, pc_vault_principal = []\<rparr>"

definition resolved_max_attempts :: "plugin_conf \<Rightarrow> int" where
  "resolved_max_attempts p =
     (case pc_retry p of Some r \<Rightarrow> if rt_max_attempts r > 0 then rt_max_attempts r else rt_max_attempts default_retry
      | None \<Rightarrow> rt_max_attempts default_retry)"

definition resolved_backoff_base :: "plugin_conf \<Rightarrow> duration" where
  "resolved_backoff_base p =
     (case pc_retry p of Some r \<Rightarrow> if rt_backoff_base r > 0 then rt_backoff_base r else rt_backoff_base default_retry
      | None \<Rightarrow> rt_backoff_base default_retry)"

definition resolved_timeout :: "plugin_conf \<Rightarrow> string \<Rightarrow> duration" where
  "resolved_timeout p command =
     (let ts = (case pc_timeouts p of Some t \<Rightarrow> t | None \<Rightarrow> default_timeouts);
          pick = (\<lambda>sel. if sel ts > 0 then sel ts else sel default_timeouts)
      in case map_of (to_overrides ts) command of
           Some d \<Rightarrow>
             if d > 0 then d
             else if command = ''poll'' then pick to_poll
             else if command = ''handle'' then pick to_handle
             else if command = ''health'' then pick to_health
             else if command = ''init'' then pick to_init
             else to_poll default_timeouts
         | None \<Rightarrow>
             if command = ''poll'' then pick to_poll
             else if command = ''handle'' then pick to_handle
             else if command = ''health'' then pick to_health
             else if command = ''init'' then pick to_init
             else to_poll default_timeouts)"

definition breaker_threshold :: "plugin_conf \<Rightarrow> int" where
  "breaker_threshold p =
     (case pc_breaker p of None \<Rightarrow> bc_threshold default_breaker
      | Some b \<Rightarrow> if bc_threshold b \<le> 0 then bc_threshold default_breaker else bc_threshold b)"

definition breaker_reset_after :: "plugin_conf \<Rightarrow> duration" where
  "breaker_reset_after p =
     (case pc_breaker p of None \<Rightarrow> bc_reset_after default_breaker
      | Some b \<Rightarrow> if bc_reset_after b \<le> 0 then bc_reset_after default_breaker else bc_reset_after b)"

definition resolved_parallelism :: "plugin_conf \<Rightarrow> int \<Rightarrow> int" where
  "resolved_parallelism p max_workers = (if pc_parallelism p > 0 then pc_parallelism p else max_workers)"

lemma breaker_threshold_pos: "breaker_threshold p > 0"
  by (simp add: breaker_threshold_def default_breaker_def split: option.splits)

lemma breaker_reset_after_pos: "breaker_reset_after p > 0"
  by (simp add: breaker_reset_after_def default_breaker_def split: option.splits)

lemma resolved_max_attempts_pos: "resolved_max_attempts p > 0"
  by (simp add: resolved_max_attempts_def default_retry_def split: option.splits)

lemma resolved_backoff_base_pos: "resolved_backoff_base p > 0"
  by (simp add: resolved_backoff_base_def default_retry_def split: option.splits)

lemma resolved_timeout_pos: "resolved_timeout p c > 0"
  by (simp add: resolved_timeout_def Let_def default_timeouts_def split: option.splits)

section \<open>Schedules\<close>

definition apply_schedule_defaults :: "schedule_config \<Rightarrow> schedule_config" where
  "apply_schedule_defaults s =
     s\<lparr>sc_command := (if trim_space (sc_command s) = [] then ''poll'' else sc_command s),
       sc_catch_up := (if trim_space (sc_catch_up s) = [] then ''skip'' else sc_catch_up s),
       sc_if_running := (if trim_space (sc_if_running s) = [] then ''skip'' else sc_if_running s),
       sc_payload := (case sc_payload s of None \<Rightarrow> Some [] | Some m \<Rightarrow> Some m)\<rparr>"

definition normalized_schedules :: "plugin_conf \<Rightarrow> schedule_config list" where
  "normalized_schedules p =
     map (\<lambda>s. apply_schedule_defaults (s\<lparr>sc_id := (if trim_space (sc_id s) = [] then ''default'' else sc_id s)\<rparr>))
       (pc_schedules p)"

datatype interval_error = IntervalEmpty | IntervalInvalid string | IntervalNotPositive string

definition parse_interval ::
  "(string \<Rightarrow> rat option) \<Rightarrow> (string \<Rightarrow> duration option) \<Rightarrow> string \<Rightarrow> interval_error + duration" where
  "parse_interval parse_float parse_duration interval =
     (let s = trim_space (to_lower interval) in
      if s = [] then Inl IntervalEmpty
      else if s = ''hourly'' then Inr hour
      else if s = ''daily'' then Inr (24 * hour)
      else if s = ''weekly'' then Inr (7 * 24 * hour)
      else if s = ''monthly'' then Inr (30 * 24 * hour)
      else if last s = CHR ''d'' \<or> last s = CHR ''w'' then
        (case parse_float (butlast s) of
           None \<Rightarrow> Inl (IntervalInvalid interval)
         | Some v \<Rightarrow>
            if v \<le> 0 then Inl (IntervalNotPositive interval)
            else
              let scale = (if last s = CHR ''d'' then 24 * hour else 7 * 24 * hour);
                  d = int_of_f64 (v * of_int scale)
              in if d \<le> 0 then Inl (IntervalNotPositive interval) else Inr d)
      else
        (case parse_duration s of
           None \<Rightarrow> Inl (IntervalInvalid interval)
         | Some d \<Rightarrow> if d \<le> 0 then Inl (IntervalNotPositive interval) else Inr d))"

lemma parse_interval_pos: "parse_interval pf pd s = Inr d \<Longrightarrow> d > 0"
  by (auto simp: parse_interval_def Let_def split: if_splits option.splits)

end
