(* ===== verification/Scheduler.thy ===== *)
theory Scheduler
  imports Job_Queue Plugin_Config Cron
begin

text \<open>
  The scheduler, \<^verbatim>\<open>src/internal/scheduler\<close>: the tick that turns due schedule entries into jobs, the
  circuit breaker of each command, the startup catch-up and the crash recovery. As in the code the
  scheduler sees the queue only through the interface \<^verbatim>\<open>QueueService\<close>, here a record of operations
  over an abstract database; \<open>job_queue_service\<close> is the instance the program runs.

  What the code takes from its surroundings is a record \<open>host\<close>: the UUIDs and the random jitter (the
  \<open>n\<close>-th draw), the time-zone database (fixed offsets), and the text codecs of the Go library. The
  clock is read once for every operation, the argument \<open>now\<close>. Published events are an output list; log
  lines are not modelled. A panic of the cron parser stops everything after it.
\<close>

section \<open>The queue interface\<close>

record 'db queue_service =
  svc_enqueue :: "string \<Rightarrow> instant \<Rightarrow> enqueue_request \<Rightarrow> 'db \<Rightarrow> 'db \<times> (queue_error + string)"
  svc_count_outstanding_jobs :: "string \<Rightarrow> string \<Rightarrow> 'db \<Rightarrow> queue_error + nat"
  svc_count_outstanding_jobs_by_submitter :: "string \<Rightarrow> string \<Rightarrow> string \<Rightarrow> 'db \<Rightarrow> queue_error + nat"
  svc_cancel_outstanding_jobs :: "instant \<Rightarrow> string \<Rightarrow> string \<Rightarrow> string \<Rightarrow> 'db \<Rightarrow> 'db \<times> (queue_error + nat)"
  svc_latest_completed_command_result :: "string \<Rightarrow> string \<Rightarrow> string \<Rightarrow> 'db \<Rightarrow> queue_error + command_result option"
  svc_get_circuit_breaker :: "string \<Rightarrow> string \<Rightarrow> 'db \<Rightarrow> queue_error + circuit_breaker option"
  svc_upsert_circuit_breaker :: "instant \<Rightarrow> circuit_breaker \<Rightarrow> 'db \<Rightarrow> 'db \<times> (queue_error + unit)"
  svc_record_circuit_breaker_transition :: "circuit_breaker_transition \<Rightarrow> 'db \<Rightarrow> 'db \<times> (queue_error + unit)"
  svc_reset_circuit_breaker :: "instant \<Rightarrow> string \<Rightarrow> string \<Rightarrow> string \<Rightarrow> 'db \<Rightarrow> 'db \<times> (queue_error + unit)"
  svc_get_schedule_entry_state :: "string \<Rightarrow> string \<Rightarrow> 'db \<Rightarrow> queue_error + schedule_entry_state option"
  svc_upsert_schedule_entry_state :: "instant \<Rightarrow> schedule_entry_state \<Rightarrow> 'db \<Rightarrow> 'db \<times> (queue_error + unit)"
  svc_find_jobs_by_status :: "status \<Rightarrow> 'db \<Rightarrow> job list"
  svc_update_job_for_recovery ::
    "instant \<Rightarrow> string \<Rightarrow> status \<Rightarrow> int \<Rightarrow> instant option \<Rightarrow> string \<Rightarrow> 'db \<Rightarrow> 'db \<times> (queue_error + unit)"
  svc_complete_with_result ::
    "instant \<Rightarrow> string \<Rightarrow> status \<Rightarrow> string \<Rightarrow> string option \<Rightarrow> string option \<Rightarrow> 'db \<Rightarrow> 'db \<times> (queue_error + unit)"
  svc_prune_job_logs :: "instant \<Rightarrow> duration \<Rightarrow> 'db \<Rightarrow> 'db"
  svc_prune_job_queue :: "instant \<Rightarrow> duration \<Rightarrow> 'db \<Rightarrow> 'db"
  svc_prune_job_transitions :: "instant \<Rightarrow> duration \<Rightarrow> 'db \<Rightarrow> 'db"
  svc_prune_job_attempts :: "instant \<Rightarrow> duration \<Rightarrow> 'db \<Rightarrow> 'db"
  svc_prune_breaker_transitions :: "instant \<Rightarrow> duration \<Rightarrow> 'db \<Rightarrow> 'db"

definition job_queue_service :: "queue_conf \<Rightarrow> queue_db queue_service" where
  "job_queue_service q =
     \<lparr>svc_enqueue = enqueue q,
      svc_count_outstanding_jobs = count_outstanding_jobs,
      svc_count_outstanding_jobs_by_submitter = count_outstanding_jobs_by_submitter,
      svc_cancel_outstanding_jobs = cancel_outstanding_jobs,
      svc_latest_completed_command_result = latest_completed_command_result,
      svc_get_circuit_breaker = get_circuit_breaker,
      svc_upsert_circuit_breaker = upsert_circuit_breaker,
      svc_record_circuit_breaker_transition = record_circuit_breaker_transition,
      svc_reset_circuit_breaker = reset_circuit_breaker,
      svc_get_schedule_entry_state = get_schedule_entry_state,
      svc_upsert_schedule_entry_state = upsert_schedule_entry_state,
      svc_find_jobs_by_status = find_jobs_by_status,
      svc_update_job_for_recovery = update_job_for_recovery,
      svc_complete_with_result = complete_with_result,
      svc_prune_job_logs = prune_job_logs,
      svc_prune_job_queue = prune_job_queue,
      svc_prune_job_transitions = prune_job_transitions,
      svc_prune_job_attempts = prune_job_attempts,
      svc_prune_breaker_transitions = prune_breaker_transitions\<rparr>"

section \<open>State and surroundings\<close>

record service_config =
  sv_name :: string
  sv_tick_interval :: duration
  sv_job_log_retention :: duration
  sv_job_queue_retention :: duration
  sv_job_transitions_retention :: duration
  sv_job_attempts_retention :: duration
  sv_breaker_transitions_retention :: duration
  sv_plugins :: "(string \<times> plugin_conf) list"

record host =
  ho_uuid :: "nat \<Rightarrow> string"
  ho_int63n :: "nat \<Rightarrow> int \<Rightarrow> int"
  ho_zone :: "string \<Rightarrow> duration option"
  ho_local :: duration
  ho_parse_rfc3339 :: "string \<Rightarrow> instant option"
  ho_marshal :: "gmap \<Rightarrow> string option"
  ho_parse_float :: "string \<Rightarrow> rat option"
  ho_parse_duration :: "string \<Rightarrow> duration option"

record 'db scheduler =
  sh_cfg :: service_config
  sh_queue :: "'db queue_service"
  sh_supports_command :: "(string \<Rightarrow> string \<Rightarrow> bool) option"
  sh_recovery_hook :: "(job \<Rightarrow> string \<Rightarrow> string \<Rightarrow> 'db \<Rightarrow> 'db) option"
  sh_host :: host

datatype sched_event =
    SchedulerTick instant
  | SchedulerSkipped string string string string "instant option"
  | SchedulerScheduled string string string string
  | CircuitStateChanged string string circuit_state circuit_state int
  | CircuitHalfOpened string string
  | RecoveredJobFailed string string string string

record 'db sched_state =
  sd_db :: 'db
  sd_events :: "sched_event list"
  sd_draws :: nat
  sd_tick_count :: nat
  sd_panicked :: bool

datatype sched_error =
    QueueFailed queue_error | MarshalFailed | IntervalFailed interval_error | CronFailed cron_error
  | NoCronMatch | ExactlyOneOfEveryOrCron | UnknownZone string | InvalidOnlyBetween string
  | ExpectedClock | WeekdayNotInteger | WeekdayOutOfRange int | UnknownWeekday string | UnsupportedWeekday
  | InvalidIfRunning string

text \<open>Why the handling of an entry ended: an error that is logged, a published skip, or a panic.\<close>

datatype halt = Logged sched_error | SkippedEntry string | Panicked

definition emit :: "sched_event \<Rightarrow> 'db sched_state \<Rightarrow> 'db sched_state" where
  "emit e st = st\<lparr>sd_events := sd_events st @ [e]\<rparr>"

definition drawn :: "'db sched_state \<Rightarrow> 'db sched_state" where
  "drawn st = st\<lparr>sd_draws := Suc (sd_draws st)\<rparr>"

definition on_db :: "('db \<Rightarrow> 'db \<times> (queue_error + 'r)) \<Rightarrow> 'db sched_state \<Rightarrow> 'db sched_state \<times> (sched_error + 'r)" where
  "on_db f st = (case f (sd_db st) of
      (d, Inl e) \<Rightarrow> (st\<lparr>sd_db := d\<rparr>, Inl (QueueFailed e))
    | (d, Inr r) \<Rightarrow> (st\<lparr>sd_db := d\<rparr>, Inr r))"

definition bind_st :: "'s \<times> ('e + 'a) \<Rightarrow> ('a \<Rightarrow> 's \<Rightarrow> 's \<times> ('e + 'b)) \<Rightarrow> 's \<times> ('e + 'b)" where
  "bind_st r f = (case r of (s, Inl e) \<Rightarrow> (s, Inl e) | (s, Inr x) \<Rightarrow> f x s)"

declare bind_st_def [code_unfold]

lemma bind_st_eq: "bind_st r f = (case snd r of Inl e \<Rightarrow> (fst r, Inl e) | Inr x \<Rightarrow> f x (fst r))"
  by (cases r) (simp add: bind_st_def split: sum.splits)

definition query :: "('e \<Rightarrow> 'f) \<Rightarrow> 'e + 'a \<Rightarrow> 'f + 'a" where
  "query w r = (case r of Inl e \<Rightarrow> Inl (w e) | Inr x \<Rightarrow> Inr x)"

definition logged :: "'s \<times> (sched_error + 'a) \<Rightarrow> 's \<times> (halt + 'a)" where
  "logged r = (fst r, query Logged (snd r))"

section \<open>Timing of schedule entries\<close>

text \<open>\<^verbatim>\<open>rand.Int63n\<close> is called only for a positive jitter.\<close>

definition calculate_jittered_interval :: "host \<Rightarrow> duration \<Rightarrow> duration \<Rightarrow> 'db sched_state \<Rightarrow> 'db sched_state \<times> duration" where
  "calculate_jittered_interval ho base jitter st =
     (if jitter \<le> 0 then (st, base) else (drawn st, base + ho_int63n ho (sd_draws st) jitter))"

definition parse_schedule_interval :: "host \<Rightarrow> string \<Rightarrow> string \<Rightarrow> sched_error + (duration \<times> bool)" where
  "parse_schedule_interval ho every cron =
     (let has_every = trim_space every \<noteq> []; has_cron = trim_space cron \<noteq> [] in
      if has_every = has_cron then Inl ExactlyOneOfEveryOrCron
      else if has_every then
        bind_result (query IntervalFailed (parse_interval (ho_parse_float ho) (ho_parse_duration ho) every))
          (\<lambda>d. Inr (d, True))
      else bind_result (query CronFailed (parse_cron cron)) (\<lambda>_. Inr (0, False)))"

definition count_missed_runs :: "instant \<Rightarrow> instant \<Rightarrow> duration \<Rightarrow> int" where
  "count_missed_runs lst now interval =
     (if interval \<le> 0 then 0
      else if \<not> now > lst then 0
      else if now < lst + interval then 0
      else (now - (lst + interval)) div interval + 1)"

definition evaluate_cron_due_state ::
  "schedule_entry_state \<Rightarrow> cron_expression \<Rightarrow> duration \<Rightarrow> instant \<Rightarrow> sched_error + (bool \<times> instant \<times> bool)" where
  "evaluate_cron_due_state entry expr off now =
     (let now_slot = truncate_minute now in
      case se_next_run_at entry of
        None \<Rightarrow>
          if cron_matches expr off now_slot then Inr (True, now_slot, False)
          else (case next_after expr off (now_slot - minute) of
                  None \<Rightarrow> Inl NoCronMatch
                | Some nxt \<Rightarrow> Inr (False, nxt, True))
      | Some nr \<Rightarrow> Inr (\<not> now_slot < truncate_minute nr, truncate_minute nr, False))"

text \<open>\<^verbatim>\<open>time.Parse("15:04", ...)\<close>: one or two digits of hour, a colon, two digits of minute.\<close>

definition parse_clock_digits :: "string \<Rightarrow> string \<Rightarrow> int option" where
  "parse_clock_digits h m =
     (if digits_val h < 24 \<and> digits_val m < 60 then Some (digits_val h * 60 + digits_val m) else None)"

definition parse_clock_constraint :: "string \<Rightarrow> sched_error + int" where
  "parse_clock_constraint raw =
     (case split_on (CHR '':'') (trim_space raw) of
        [h, m] \<Rightarrow>
          if (length h = 1 \<or> length h = 2) \<and> length m = 2 \<and> list_all is_digit h \<and> list_all is_digit m
          then (case parse_clock_digits h m of None \<Rightarrow> Inl ExpectedClock | Some v \<Rightarrow> Inr v)
          else Inl ExpectedClock
      | _ \<Rightarrow> Inl ExpectedClock)"

definition parse_weekday_int_constraint :: "int \<Rightarrow> sched_error + int" where
  "parse_weekday_int_constraint v =
     (if v = 7 then Inr 0 else if v < 0 \<or> v > 6 then Inl (WeekdayOutOfRange v) else Inr v)"

definition weekday_tokens :: "(string \<times> int) list" where
  "weekday_tokens = [(''sun'', 0), (''sunday'', 0), (''mon'', 1), (''monday'', 1), (''tue'', 2), (''tues'', 2),
     (''tuesday'', 2), (''wed'', 3), (''wednesday'', 3), (''thu'', 4), (''thurs'', 4), (''thursday'', 4),
     (''fri'', 5), (''friday'', 5), (''sat'', 6), (''saturday'', 6)]"

definition parse_weekday_string_constraint :: "string \<Rightarrow> sched_error + int" where
  "parse_weekday_string_constraint raw =
     (case map_of weekday_tokens (to_lower (trim_space raw)) of
        Some v \<Rightarrow> Inr v | None \<Rightarrow> Inl (UnknownWeekday raw))"

fun parse_weekday_constraint :: "gval \<Rightarrow> sched_error + int" where
  "parse_weekday_constraint (GInt v) = parse_weekday_int_constraint v"
| "parse_weekday_constraint (GFloat r) =
     (if r \<noteq> of_int (f64_of_int (int_of_f64 r)) then Inl WeekdayNotInteger
      else parse_weekday_int_constraint (int_of_f64 r))"
| "parse_weekday_constraint (GStr s) = parse_weekday_string_constraint s"
| "parse_weekday_constraint _ = Inl UnsupportedWeekday"

fun excluded_day :: "gval list \<Rightarrow> int \<Rightarrow> sched_error + bool" where
  "excluded_day [] wd = Inr False"
| "excluded_day (t # ts) wd =
     bind_result (parse_weekday_constraint t) (\<lambda>d. if d = wd then Inr True else excluded_day ts wd)"

definition resolve_zone :: "host \<Rightarrow> schedule_config \<Rightarrow> duration \<Rightarrow> sched_error + duration" where
  "resolve_zone ho sc fallback =
     (if trim_space (sc_timezone sc) = [] then Inr fallback
      else case ho_zone ho (trim_space (sc_timezone sc)) of
        None \<Rightarrow> Inl (UnknownZone (sc_timezone sc)) | Some off \<Rightarrow> Inr off)"

definition in_window :: "int \<Rightarrow> int \<Rightarrow> int \<Rightarrow> bool" where
  "in_window start_min end_min now_min =
     (if start_min < end_min then \<not> (now_min < start_min \<or> now_min \<ge> end_min)
      else now_min \<ge> start_min \<or> now_min < end_min)"

text \<open>The value \<^verbatim>\<open>None\<close> allows the run; \<^verbatim>\<open>Some reason\<close> is a skip.\<close>

definition schedule_constraints_allow_at :: "host \<Rightarrow> schedule_config \<Rightarrow> instant \<Rightarrow> sched_error + string option" where
  "schedule_constraints_allow_at ho sc now =
     bind_result (resolve_zone ho sc 0) (\<lambda>off.
       let local = now + off; window = trim_space (sc_only_between sc) in
       bind_result (excluded_day (sc_not_on sc) (t_weekday local)) (\<lambda>ex.
         if ex then Inr (Some ''outside_day_constraint'')
         else if window = [] then Inr None
         else case split_on (CHR ''-'') window of
           [a, b] \<Rightarrow>
             bind_result (parse_clock_constraint a) (\<lambda>start_min.
             bind_result (parse_clock_constraint b) (\<lambda>end_min.
               if start_min = end_min then Inl (InvalidOnlyBetween (sc_only_between sc))
               else if in_window start_min end_min (t_hour local * 60 + t_minute local) then Inr None
               else Inr (Some ''outside_time_window'')))
         | _ \<Rightarrow> Inl (InvalidOnlyBetween (sc_only_between sc))))"

section \<open>Schedule entries\<close>

definition current_schedule_entry_state ::
  "'db scheduler \<Rightarrow> string \<Rightarrow> string \<Rightarrow> string \<Rightarrow> 'db \<Rightarrow> sched_error + schedule_entry_state" where
  "current_schedule_entry_state sh p sid c db =
     bind_result (query QueueFailed (svc_get_schedule_entry_state (sh_queue sh) p sid db)) (\<lambda>s.
       Inr (case s of
              None \<Rightarrow> \<lparr>se_plugin = p, se_schedule_id = sid, se_command = c, se_status = EntryActive,
                       se_reason = None, se_last_fired_at = None, se_last_success_job_id = None,
                       se_last_success_at = None, se_next_run_at = None, se_updated_at = 0\<rparr>
            | Some e \<Rightarrow> e\<lparr>se_command := (if se_command e = [] then c else se_command e),
                          se_status := (if se_status e = EntryUnset then EntryActive else se_status e)\<rparr>))"

definition persist_entry ::
  "'db scheduler \<Rightarrow> instant \<Rightarrow> schedule_entry_state \<Rightarrow> 'db sched_state \<Rightarrow> 'db sched_state \<times> (sched_error + unit)" where
  "persist_entry sh now e st = on_db (svc_upsert_schedule_entry_state (sh_queue sh) now e) st"

definition pause_schedule_invalid ::
  "'db scheduler \<Rightarrow> instant \<Rightarrow> schedule_entry_state \<Rightarrow> string \<Rightarrow> 'db sched_state \<Rightarrow> 'db sched_state \<times> (sched_error + unit)" where
  "pause_schedule_invalid sh now e reason st =
     persist_entry sh now (e\<lparr>se_status := EntryPausedInvalid, se_reason := Some reason\<rparr>) st"

definition activate_schedule_entry ::
  "'db scheduler \<Rightarrow> instant \<Rightarrow> schedule_entry_state \<Rightarrow> 'db sched_state \<Rightarrow> 'db sched_state \<times> (sched_error + unit)" where
  "activate_schedule_entry sh now e st =
     persist_entry sh now (e\<lparr>se_status := EntryActive, se_reason := None\<rparr>) st"

text \<open>The two \<^verbatim>\<open>advance\<close> methods also update the caller's entry through the pointer, so they return it;
  when the cron search fails the entry is left as it was.\<close>

definition advance_schedule_next_run ::
  "'db scheduler \<Rightarrow> instant \<Rightarrow> schedule_entry_state \<Rightarrow> duration \<Rightarrow> duration \<Rightarrow> 'db sched_state
   \<Rightarrow> 'db sched_state \<times> schedule_entry_state" where
  "advance_schedule_next_run sh now e base jitter st =
     (case calculate_jittered_interval (sh_host sh) base jitter st of (st1, d) \<Rightarrow>
        let e1 = e\<lparr>se_next_run_at := Some (now + d)\<rparr> in (fst (persist_entry sh now e1 st1), e1))"

definition advance_cron_next_run ::
  "'db scheduler \<Rightarrow> instant \<Rightarrow> schedule_entry_state \<Rightarrow> cron_expression \<Rightarrow> duration \<Rightarrow> 'db sched_state
   \<Rightarrow> 'db sched_state \<times> schedule_entry_state" where
  "advance_cron_next_run sh now e expr off st =
     (case next_after expr off now of
        None \<Rightarrow> (st, e)
      | Some nxt \<Rightarrow> let e1 = e\<lparr>se_next_run_at := Some nxt\<rparr> in (fst (persist_entry sh now e1 st), e1))"

definition reconcile_schedule_timing ::
  "host \<Rightarrow> schedule_entry_state \<Rightarrow> command_result option \<Rightarrow> duration \<Rightarrow> duration \<Rightarrow> 'db sched_state
   \<Rightarrow> 'db sched_state \<times> schedule_entry_state \<times> bool" where
  "reconcile_schedule_timing ho e latest base jitter st =
     (case latest of
        None \<Rightarrow> (st, e, False)
      | Some r \<Rightarrow>
          if cr_status r \<noteq> StatusSucceeded then (st, e, False)
          else if se_last_success_job_id e = Some (cr_job_id r) then (st, e, False)
          else case calculate_jittered_interval ho base jitter st of (st1, d) \<Rightarrow>
            (st1, e\<lparr>se_last_success_job_id := Some (cr_job_id r),
                    se_last_success_at := Some (cr_completed_at r),
                    se_next_run_at := Some (cr_completed_at r + d)\<rparr>, True))"

section \<open>Enqueueing\<close>

definition schedule_request ::
  "'db scheduler \<Rightarrow> string \<Rightarrow> string \<Rightarrow> plugin_conf \<Rightarrow> string \<Rightarrow> duration \<Rightarrow> gmap option
   \<Rightarrow> sched_error + enqueue_request" where
  "schedule_request sh p c pc key ttl payload =
     (let build = (\<lambda>raw. \<lparr>rq_plugin = p, rq_command = c, rq_payload = raw,
            rq_max_attempts = (case pc_retry pc of None \<Rightarrow> 0 | Some r \<Rightarrow> rt_max_attempts r),
            rq_submitted_by = sv_name (sh_cfg sh), rq_dedupe_key = Some key, rq_dedupe_ttl = Some ttl,
            rq_parent_job_id = None, rq_event_context_id = None, rq_source_event_id = None,
            rq_enqueued_config_snapshot_id = []\<rparr>)
      in case payload of
           None \<Rightarrow> Inr (build ''{}'')
         | Some m \<Rightarrow> if m = [] then Inr (build ''{}'')
             else (case ho_marshal (sh_host sh) m of None \<Rightarrow> Inl MarshalFailed | Some t \<Rightarrow> Inr (build t)))"

text \<open>The common part of \<^verbatim>\<open>enqueueScheduledJob\<close> and \<^verbatim>\<open>enqueueCatchUpJob\<close>: \<^verbatim>\<open>None\<close> is a dedupe hit.\<close>

definition submit ::
  "'db scheduler \<Rightarrow> instant \<Rightarrow> enqueue_request \<Rightarrow> 'db sched_state \<Rightarrow> 'db sched_state \<times> (sched_error + string option)" where
  "submit sh now req st =
     (case svc_enqueue (sh_queue sh) (ho_uuid (sh_host sh) (sd_draws st)) now req (sd_db st) of
        (d, Inr jid) \<Rightarrow> ((drawn st)\<lparr>sd_db := d\<rparr>, Inr (Some jid))
      | (d, Inl (DedupeDropError k e)) \<Rightarrow> ((drawn st)\<lparr>sd_db := d\<rparr>, Inr None)
      | (d, Inl e) \<Rightarrow> ((drawn st)\<lparr>sd_db := d\<rparr>, Inl (QueueFailed e)))"

definition enqueue_scheduled_job ::
  "'db scheduler \<Rightarrow> instant \<Rightarrow> string \<Rightarrow> string \<Rightarrow> string \<Rightarrow> plugin_conf \<Rightarrow> duration \<Rightarrow> gmap option
   \<Rightarrow> 'db sched_state \<Rightarrow> 'db sched_state \<times> (sched_error + bool)" where
  "enqueue_scheduled_job sh now p sid c pc ttl payload st =
     (case schedule_request sh p c pc (p @ '':'' @ c @ '':'' @ sid) ttl payload of
        Inl e \<Rightarrow> (st, Inl e)
      | Inr req \<Rightarrow>
          bind_st (submit sh now req st) (\<lambda>r st1.
            case r of None \<Rightarrow> (st1, Inr True)
            | Some jid \<Rightarrow> (emit (SchedulerScheduled jid p c sid) st1, Inr False)))"

definition enqueue_catch_up_job ::
  "'db scheduler \<Rightarrow> instant \<Rightarrow> string \<Rightarrow> string \<Rightarrow> plugin_conf \<Rightarrow> string \<Rightarrow> duration \<Rightarrow> gmap option
   \<Rightarrow> 'db sched_state \<Rightarrow> 'db sched_state \<times> (sched_error + bool)" where
  "enqueue_catch_up_job sh now p c pc key ttl payload st =
     (case schedule_request sh p c pc key ttl payload of
        Inl e \<Rightarrow> (st, Inl e)
      | Inr req \<Rightarrow>
          bind_st (submit sh now req st) (\<lambda>r st1.
            case r of None \<Rightarrow> (st1, Inr True)
            | Some jid \<Rightarrow> (emit (SchedulerScheduled jid p c ''catch_up'') st1, Inr False)))"

section \<open>The circuit breaker\<close>

definition current_circuit_breaker ::
  "'db scheduler \<Rightarrow> string \<Rightarrow> string \<Rightarrow> 'db \<Rightarrow> sched_error + circuit_breaker" where
  "current_circuit_breaker sh p c db =
     bind_result (query QueueFailed (svc_get_circuit_breaker (sh_queue sh) p c db)) (\<lambda>r.
       Inr (case r of
              None \<Rightarrow> \<lparr>cb_plugin = p, cb_command = c, cb_state = CircuitClosed, cb_failure_count = 0,
                       cb_opened_at = None, cb_last_failure = None, cb_last_job_id = None, cb_updated_at = 0\<rparr>
            | Some cb \<Rightarrow> cb\<lparr>cb_state := (if cb_state cb = CircuitUnset then CircuitClosed else cb_state cb)\<rparr>))"

text \<open>The update of the breaker by a completed job it has not seen yet.\<close>

definition breaker_after :: "int \<Rightarrow> command_result \<Rightarrow> circuit_breaker \<Rightarrow> circuit_breaker" where
  "breaker_after threshold r cb =
     (let cb1 = (if cr_status r = StatusSucceeded
                 then cb\<lparr>cb_state := CircuitClosed, cb_failure_count := 0, cb_opened_at := None,
                         cb_last_failure := None\<rparr>
                 else
                   let n = cb_failure_count cb + 1
                   in if n \<ge> threshold
                      then cb\<lparr>cb_failure_count := n, cb_last_failure := Some (cr_completed_at r),
                              cb_state := CircuitOpen, cb_opened_at := Some (cr_completed_at r)\<rparr>
                      else cb\<lparr>cb_failure_count := n, cb_last_failure := Some (cr_completed_at r),
                              cb_state := CircuitClosed, cb_opened_at := None\<rparr>)
      in cb1\<lparr>cb_last_job_id := Some (cr_job_id r)\<rparr>)"

definition breaker_fact ::
  "'db scheduler \<Rightarrow> instant \<Rightarrow> string \<Rightarrow> string \<Rightarrow> circuit_state \<Rightarrow> circuit_breaker \<Rightarrow> breaker_reason \<Rightarrow> string option
   \<Rightarrow> 'db sched_state \<Rightarrow> 'db sched_state \<times> (sched_error + unit)" where
  "breaker_fact sh now p c prev cb reason jid st =
     on_db (svc_record_circuit_breaker_transition (sh_queue sh)
       \<lparr>bt_id = ho_uuid (sh_host sh) (sd_draws st), bt_plugin = p, bt_command = c, bt_from_state = Some prev,
        bt_to_state = cb_state cb, bt_failure_count = cb_failure_count cb, bt_reason = reason, bt_job_id = jid,
        bt_created_at = now\<rparr>) (drawn st)"

definition reconcile_circuit_breaker ::
  "'db scheduler \<Rightarrow> instant \<Rightarrow> string \<Rightarrow> string \<Rightarrow> plugin_conf \<Rightarrow> 'db sched_state
   \<Rightarrow> 'db sched_state \<times> (sched_error + command_result option)" where
  "reconcile_circuit_breaker sh now p c pc st =
     bind_st (st, current_circuit_breaker sh p c (sd_db st)) (\<lambda>cb st.
     bind_st (st, query QueueFailed
                (svc_latest_completed_command_result (sh_queue sh) p c (sv_name (sh_cfg sh)) (sd_db st)))
       (\<lambda>latest st.
       case latest of
         None \<Rightarrow> (st, Inr None)
       | Some r \<Rightarrow>
           if cb_last_job_id cb = Some (cr_job_id r) then (st, Inr (Some r))
           else
             let cb1 = breaker_after (breaker_threshold pc) r cb in
             bind_st (on_db (svc_upsert_circuit_breaker (sh_queue sh) now cb1) st) (\<lambda>_ st.
               if cb_state cb1 \<noteq> cb_state cb then
                 bind_st (breaker_fact sh now p c (cb_state cb) cb1
                            (if cb_state cb1 = CircuitOpen then FailureThreshold else Success)
                            (Some (cr_job_id r)) st)
                   (\<lambda>_ st. (emit (CircuitStateChanged p c (cb_state cb) (cb_state cb1) (cb_failure_count cb1)) st,
                            Inr (Some r)))
               else (st, Inr (Some r)))))"

definition cooldown_elapsed :: "circuit_breaker \<Rightarrow> duration \<Rightarrow> instant \<Rightarrow> bool" where
  "cooldown_elapsed cb reset_after now =
     (case cb_opened_at cb of None \<Rightarrow> True | Some t \<Rightarrow> \<not> now < t + reset_after)"

definition outstanding_for_policy :: "'db scheduler \<Rightarrow> string \<Rightarrow> string \<Rightarrow> 'db \<Rightarrow> sched_error + nat" where
  "outstanding_for_policy sh p c db =
     query QueueFailed
       (if c = ''poll''
        then svc_count_outstanding_jobs_by_submitter (sh_queue sh) p c (trim_space (sv_name (sh_cfg sh))) db
        else svc_count_outstanding_jobs (sh_queue sh) p c db)"

text \<open>The first half of \<^verbatim>\<open>canSchedule\<close>: an open breaker whose cooldown has elapsed becomes half-open.\<close>

definition breaker_gate ::
  "'db scheduler \<Rightarrow> instant \<Rightarrow> string \<Rightarrow> string \<Rightarrow> plugin_conf \<Rightarrow> 'db sched_state
   \<Rightarrow> 'db sched_state \<times> (sched_error + string option)" where
  "breaker_gate sh now p c pc st =
     bind_st (st, current_circuit_breaker sh p c (sd_db st)) (\<lambda>cb st.
       if cb_state cb = CircuitOpen then
         if \<not> cooldown_elapsed cb (breaker_reset_after pc) now then (st, Inr (Some ''circuit_open''))
         else
           let cb1 = cb\<lparr>cb_state := CircuitHalfOpen\<rparr> in
           bind_st (on_db (svc_upsert_circuit_breaker (sh_queue sh) now cb1) st) (\<lambda>_ st.
           bind_st (breaker_fact sh now p c (cb_state cb) cb1 CooldownElapsed (cb_last_job_id cb1) st) (\<lambda>_ st.
             (emit (CircuitHalfOpened p c) st, Inr None)))
       else (st, Inr None))"

definition running_policy ::
  "'db scheduler \<Rightarrow> instant \<Rightarrow> string \<Rightarrow> string \<Rightarrow> plugin_conf \<Rightarrow> schedule_config \<Rightarrow> 'db sched_state
   \<Rightarrow> 'db sched_state \<times> (sched_error + string option)" where
  "running_policy sh now p c pc sc st =
     (let policy = (if trim_space (sc_if_running sc) = [] then ''skip'' else trim_space (sc_if_running sc)) in
      if policy = ''skip'' then
        bind_st (st, outstanding_for_policy sh p c (sd_db st)) (\<lambda>n st.
          if n > 0 then (st, Inr (Some ''already_running'')) else (st, Inr None))
      else if policy = ''queue'' then
        let cap = (if pc_max_outstanding_polls pc \<le> 0 then 1 else pc_max_outstanding_polls pc) in
        bind_st (st, outstanding_for_policy sh p c (sd_db st)) (\<lambda>n st.
          if int n \<ge> cap then (st, Inr (Some ''outstanding_limit'')) else (st, Inr None))
      else if policy = ''cancel'' then
        bind_st (st, outstanding_for_policy sh p c (sd_db st)) (\<lambda>n st.
          if n > 0 then
            bind_st (on_db (svc_cancel_outstanding_jobs (sh_queue sh) now p c
                             ''cancelled by scheduler (if_running=cancel)'') st)
              (\<lambda>_ st. (st, Inr None))
          else (st, Inr None))
      else (st, Inl (InvalidIfRunning policy)))"

definition can_schedule ::
  "'db scheduler \<Rightarrow> instant \<Rightarrow> string \<Rightarrow> string \<Rightarrow> plugin_conf \<Rightarrow> schedule_config \<Rightarrow> 'db sched_state
   \<Rightarrow> 'db sched_state \<times> (sched_error + string option)" where
  "can_schedule sh now p c pc sc st =
     bind_st (breaker_gate sh now p c pc st) (\<lambda>r st.
       case r of Some reason \<Rightarrow> (st, Inr (Some reason)) | None \<Rightarrow> running_policy sh now p c pc sc st)"

section \<open>One schedule entry\<close>

text \<open>
  \<^verbatim>\<open>processSchedule\<close> in its order: load the entry, read its timing, check the command, reconcile the
  breaker, test whether the entry is due, apply the constraints and the running policy, enqueue, and
  write the entry back. Each stage returns the reason when it ends the handling.
\<close>

record timing =
  tm_every :: "duration option"
  tm_cron :: "cron_expression option"
  tm_one_shot :: "instant option"

definition entry_id :: "schedule_config \<Rightarrow> string" where
  "entry_id sc = (if trim_space (sc_id sc) = [] then ''default'' else trim_space (sc_id sc))"

definition entry_command :: "schedule_config \<Rightarrow> string" where
  "entry_command sc = (if trim_space (sc_command sc) = [] then ''poll'' else trim_space (sc_command sc))"

definition skip_entry ::
  "string \<Rightarrow> schedule_config \<Rightarrow> string \<Rightarrow> instant option \<Rightarrow> 'db sched_state \<Rightarrow> 'db sched_state \<times> (halt + 'a)" where
  "skip_entry p sc reason nxt st =
     (emit (SchedulerSkipped p (entry_id sc) (entry_command sc) reason nxt) st, Inl (SkippedEntry reason))"

definition reject_entry ::
  "'db scheduler \<Rightarrow> instant \<Rightarrow> string \<Rightarrow> schedule_config \<Rightarrow> schedule_entry_state \<Rightarrow> string \<Rightarrow> 'db sched_state
   \<Rightarrow> 'db sched_state \<times> (halt + 'a)" where
  "reject_entry sh now p sc e reason st =
     skip_entry p sc reason None (fst (pause_schedule_invalid sh now e reason st))"

definition panic :: "'db sched_state \<Rightarrow> 'db sched_state \<times> (halt + 'a)" where
  "panic st = (st\<lparr>sd_panicked := True\<rparr>, Inl Panicked)"

definition load_entry ::
  "'db scheduler \<Rightarrow> instant \<Rightarrow> string \<Rightarrow> schedule_config \<Rightarrow> 'db sched_state
   \<Rightarrow> 'db sched_state \<times> (halt + schedule_entry_state)" where
  "load_entry sh now p sc st =
     bind_st (logged (st, current_schedule_entry_state sh p (entry_id sc) (entry_command sc) (sd_db st)))
       (\<lambda>e st.
       bind_st
         (if se_command e \<noteq> entry_command sc then
            let e1 = e\<lparr>se_command := entry_command sc, se_last_success_job_id := None, se_last_success_at := None,
                       se_next_run_at := None\<rparr>;
                e2 = (if se_status e1 = EntryPausedInvalid then e1\<lparr>se_status := EntryActive, se_reason := None\<rparr>
                      else e1)
            in bind_st (logged (persist_entry sh now e2 st)) (\<lambda>_ st. (st, Inr e2))
          else (st, Inr e))
         (\<lambda>e st.
            if se_status e = EntryPausedManual then skip_entry p sc ''schedule_paused_manual'' None st
            else if se_status e = EntryExhausted then skip_entry p sc ''schedule_exhausted'' None st
            else (st, Inr e)))"

definition read_timing ::
  "'db scheduler \<Rightarrow> instant \<Rightarrow> string \<Rightarrow> schedule_config \<Rightarrow> schedule_entry_state \<Rightarrow> 'db sched_state
   \<Rightarrow> 'db sched_state \<times> (halt + timing)" where
  "read_timing sh now p sc e st =
     (let has_every = trim_space (sc_every sc) \<noteq> []; has_cron = trim_space (sc_cron sc) \<noteq> [];
          has_at = trim_space (sc_at sc) \<noteq> []; has_after = sc_after sc > 0
      in bind_st
           (if has_every \<or> has_cron then
              (case parse_schedule_interval (sh_host sh) (sc_every sc) (sc_cron sc) of
                 Inl err \<Rightarrow> if err = CronFailed CronPanic then panic st
                            else reject_entry sh now p sc e ''invalid_schedule_config'' st
               | Inr (d, every_mode) \<Rightarrow> (st, Inr (if every_mode then Some d else None)))
            else (st, Inr None))
           (\<lambda>every st.
         bind_st
           (if has_cron then
              (case parse_cron (sc_cron sc) of
                 Inl err \<Rightarrow> if err = CronPanic then panic st
                            else reject_entry sh now p sc e ''invalid_schedule_config'' st
               | Inr c \<Rightarrow> (st, Inr (Some c)))
            else (st, Inr None))
           (\<lambda>cron st.
         bind_st
           (if has_at then
              (case ho_parse_rfc3339 (sh_host sh) (sc_at sc) of
                 None \<Rightarrow> reject_entry sh now p sc e ''invalid_schedule_config'' st
               | Some t \<Rightarrow> (st, Inr (Some t)))
            else if has_after then (st, Inr (Some (now + sc_after sc)))
            else (st, Inr None))
           (\<lambda>one_shot st. (st, Inr \<lparr>tm_every = every, tm_cron = cron, tm_one_shot = one_shot\<rparr>)))))"

definition check_command ::
  "'db scheduler \<Rightarrow> instant \<Rightarrow> string \<Rightarrow> schedule_config \<Rightarrow> schedule_entry_state \<Rightarrow> 'db sched_state
   \<Rightarrow> 'db sched_state \<times> (halt + schedule_entry_state)" where
  "check_command sh now p sc e st =
     (if entry_command sc = ''handle'' then reject_entry sh now p sc e ''scheduled_handle_disallowed'' st
      else if (case sh_supports_command sh of None \<Rightarrow> False | Some f \<Rightarrow> \<not> f p (entry_command sc))
      then reject_entry sh now p sc e ''command_not_supported'' st
      else if se_status e = EntryPausedInvalid then
        bind_st (logged (activate_schedule_entry sh now e st)) (\<lambda>_ st.
          (st, Inr (e\<lparr>se_status := EntryActive, se_reason := None\<rparr>)))
      else (st, Inr e))"

text \<open>The three ways to be due; the result is the entry as the rest of the handling sees it.\<close>

definition due_every ::
  "'db scheduler \<Rightarrow> instant \<Rightarrow> string \<Rightarrow> schedule_config \<Rightarrow> command_result option \<Rightarrow> duration \<Rightarrow> schedule_entry_state
   \<Rightarrow> 'db sched_state \<Rightarrow> 'db sched_state \<times> (halt + schedule_entry_state)" where
  "due_every sh now p sc latest base e st =
     (case reconcile_schedule_timing (sh_host sh) e latest base (sc_jitter sc) st of (st1, e1, changed) \<Rightarrow>
        bind_st (if changed then logged (persist_entry sh now e1 st1) else (st1, Inr ())) (\<lambda>_ st.
          case se_next_run_at e1 of
            Some nr \<Rightarrow> if now < nr then skip_entry p sc ''not_due'' (Some nr) st else (st, Inr e1)
          | None \<Rightarrow> (st, Inr e1)))"

definition due_cron ::
  "'db scheduler \<Rightarrow> instant \<Rightarrow> string \<Rightarrow> schedule_config \<Rightarrow> cron_expression \<Rightarrow> schedule_entry_state
   \<Rightarrow> 'db sched_state \<Rightarrow> 'db sched_state \<times> (halt + schedule_entry_state)" where
  "due_cron sh now p sc expr e st =
     (case resolve_zone (sh_host sh) sc (ho_local (sh_host sh)) of
        Inl _ \<Rightarrow> reject_entry sh now p sc e ''invalid_schedule_config'' st
      | Inr off \<Rightarrow>
         (case evaluate_cron_due_state e expr off now of
            Inl _ \<Rightarrow> reject_entry sh now p sc e ''invalid_schedule_config'' st
          | Inr (is_due, nr, changed) \<Rightarrow>
              let e1 = (if changed then e\<lparr>se_next_run_at := Some nr\<rparr> else e) in
              bind_st (if changed then logged (persist_entry sh now e1 st) else (st, Inr ())) (\<lambda>_ st.
                if \<not> is_due then skip_entry p sc ''not_due'' (Some nr) st else (st, Inr e1))))"

definition due_one_shot ::
  "'db scheduler \<Rightarrow> instant \<Rightarrow> string \<Rightarrow> schedule_config \<Rightarrow> instant \<Rightarrow> schedule_entry_state
   \<Rightarrow> 'db sched_state \<Rightarrow> 'db sched_state \<times> (halt + schedule_entry_state)" where
  "due_one_shot sh now p sc run_at e st =
     (let e1 = (if se_next_run_at e = None then e\<lparr>se_next_run_at := Some run_at\<rparr> else e);
          when_at = (case se_next_run_at e of None \<Rightarrow> run_at | Some t \<Rightarrow> t)
      in bind_st (if se_next_run_at e = None then logged (persist_entry sh now e1 st) else (st, Inr ())) (\<lambda>_ st.
           if now < when_at then skip_entry p sc ''not_due'' (Some when_at) st else (st, Inr e1)))"

definition due_check ::
  "'db scheduler \<Rightarrow> instant \<Rightarrow> string \<Rightarrow> schedule_config \<Rightarrow> timing \<Rightarrow> command_result option \<Rightarrow> schedule_entry_state
   \<Rightarrow> 'db sched_state \<Rightarrow> 'db sched_state \<times> (halt + schedule_entry_state)" where
  "due_check sh now p sc tm latest e st =
     (case tm_every tm of Some base \<Rightarrow> due_every sh now p sc latest base e st
      | None \<Rightarrow>
         (case tm_cron tm of Some expr \<Rightarrow> due_cron sh now p sc expr e st
          | None \<Rightarrow>
             (case tm_one_shot tm of Some run_at \<Rightarrow> due_one_shot sh now p sc run_at e st
              | None \<Rightarrow> (st, Inr e))))"

definition admit_entry ::
  "'db scheduler \<Rightarrow> instant \<Rightarrow> string \<Rightarrow> plugin_conf \<Rightarrow> schedule_config \<Rightarrow> 'db sched_state
   \<Rightarrow> 'db sched_state \<times> (halt + unit)" where
  "admit_entry sh now p pc sc st =
     bind_st (logged (st, schedule_constraints_allow_at (sh_host sh) sc now)) (\<lambda>r st.
       case r of Some reason \<Rightarrow> skip_entry p sc reason None st
       | None \<Rightarrow>
          bind_st (logged (can_schedule sh now p (entry_command sc) pc sc st)) (\<lambda>r st.
            case r of Some reason \<Rightarrow> skip_entry p sc reason None st | None \<Rightarrow> (st, Inr ())))"

text \<open>After the enqueue: failures to write the entry are only logged. The interval entry advances here on a
  dedupe hit only, the cron entry always.\<close>

definition advance_entry ::
  "'db scheduler \<Rightarrow> instant \<Rightarrow> schedule_config \<Rightarrow> timing \<Rightarrow> bool \<Rightarrow> schedule_entry_state \<Rightarrow> 'db sched_state
   \<Rightarrow> 'db sched_state \<times> schedule_entry_state" where
  "advance_entry sh now sc tm dedupe e st =
     (case tm_every tm of
        Some base \<Rightarrow> if dedupe then advance_schedule_next_run sh now e base (sc_jitter sc) st else (st, e)
      | None \<Rightarrow>
         (case tm_cron tm of
            None \<Rightarrow> (st, e)
          | Some expr \<Rightarrow>
             (case resolve_zone (sh_host sh) sc (ho_local (sh_host sh)) of
                Inl _ \<Rightarrow> (st, e) | Inr off \<Rightarrow> advance_cron_next_run sh now e expr off st)))"

definition finish_entry ::
  "'db scheduler \<Rightarrow> instant \<Rightarrow> schedule_config \<Rightarrow> timing \<Rightarrow> bool \<Rightarrow> schedule_entry_state \<Rightarrow> 'db sched_state
   \<Rightarrow> 'db sched_state" where
  "finish_entry sh now sc tm dedupe e0 st0 =
     (case advance_entry sh now sc tm dedupe (e0\<lparr>se_last_fired_at := Some now\<rparr>) st0 of (st, e) \<Rightarrow>
        if tm_one_shot tm \<noteq> None then
          fst (persist_entry sh now (e\<lparr>se_status := EntryExhausted, se_reason := Some ''one_shot_exhausted'',
                                       se_next_run_at := None\<rparr>) st)
        else if tm_every tm \<noteq> None \<and> \<not> dedupe then fst (persist_entry sh now e st)
        else st)"

definition process_schedule ::
  "'db scheduler \<Rightarrow> instant \<Rightarrow> string \<Rightarrow> plugin_conf \<Rightarrow> schedule_config \<Rightarrow> 'db sched_state
   \<Rightarrow> 'db sched_state \<times> (halt + unit)" where
  "process_schedule sh now p pc sc st =
     bind_st (load_entry sh now p sc st) (\<lambda>e st.
     bind_st (read_timing sh now p sc e st) (\<lambda>tm st.
     bind_st (check_command sh now p sc e st) (\<lambda>e st.
     bind_st (logged (reconcile_circuit_breaker sh now p (entry_command sc) pc st)) (\<lambda>latest st.
     bind_st (due_check sh now p sc tm latest e st) (\<lambda>e st.
     bind_st (admit_entry sh now p pc sc st) (\<lambda>_ st.
     bind_st (logged (enqueue_scheduled_job sh now p (entry_id sc) (entry_command sc) pc
                       (case tm_every tm of Some base \<Rightarrow> base | None \<Rightarrow> sv_tick_interval (sh_cfg sh))
                       (sc_payload sc) st))
       (\<lambda>dedupe st. (finish_entry sh now sc tm dedupe e st, Inr ()))))))))"

section \<open>The tick\<close>

definition plugin_names :: "service_config \<Rightarrow> string list" where
  "plugin_names cfg = sort (remdups (map fst (sv_plugins cfg)))"

text \<open>The enabled plugins' entries in the order both passes visit them.\<close>

definition visited_entries :: "service_config \<Rightarrow> (string \<times> plugin_conf \<times> schedule_config) list" where
  "visited_entries cfg =
     concat (map (\<lambda>name. case map_of (sv_plugins cfg) name of
                           None \<Rightarrow> []
                         | Some pc \<Rightarrow> if \<not> pc_enabled pc then []
                             else map (\<lambda>sc. (name, pc, sc)) (normalized_schedules pc))
       (plugin_names cfg))"

fun process_all ::
  "'db scheduler \<Rightarrow> instant \<Rightarrow> (string \<times> plugin_conf \<times> schedule_config) list \<Rightarrow> 'db sched_state \<Rightarrow> 'db sched_state" where
  "process_all sh now [] st = st"
| "process_all sh now ((p, pc, sc) # rest) st =
     (let st1 = fst (process_schedule sh now p pc sc st)
      in if sd_panicked st1 then st1 else process_all sh now rest st1)"

definition prune_pass :: "'db scheduler \<Rightarrow> instant \<Rightarrow> 'db \<Rightarrow> 'db" where
  "prune_pass sh now db0 =
     (let cfg = sh_cfg sh; q = sh_queue sh;
          db1 = (if sv_job_log_retention cfg > 0 then svc_prune_job_logs q now (sv_job_log_retention cfg) db0 else db0);
          db2 = (if sv_job_queue_retention cfg > 0 then svc_prune_job_queue q now (sv_job_queue_retention cfg) db1 else db1);
          db3 = (if sv_job_transitions_retention cfg > 0
                 then svc_prune_job_transitions q now (sv_job_transitions_retention cfg) db2 else db2);
          db4 = (if sv_job_attempts_retention cfg > 0
                 then svc_prune_job_attempts q now (sv_job_attempts_retention cfg) db3 else db3)
      in if sv_breaker_transitions_retention cfg > 0
         then svc_prune_breaker_transitions q now (sv_breaker_transitions_retention cfg) db4 else db4)"

definition tick :: "'db scheduler \<Rightarrow> instant \<Rightarrow> 'db sched_state \<Rightarrow> 'db sched_state" where
  "tick sh now st0 =
     (let st1 = emit (SchedulerTick now) (st0\<lparr>sd_tick_count := Suc (sd_tick_count st0)\<rparr>);
          st2 = process_all sh now (visited_entries (sh_cfg sh)) st1
      in if sd_panicked st2 then st2 else st2\<lparr>sd_db := prune_pass sh now (sd_db st2)\<rparr>)"

section \<open>Startup: crash recovery and catch-up\<close>

definition recovery_message :: "job \<Rightarrow> string" where
  "recovery_message j =
     ''Job marked dead during crash recovery: max attempts ('' @ int_str (j_max_attempts j) @ '') reached''"

definition recover_job :: "'db scheduler \<Rightarrow> instant \<Rightarrow> job \<Rightarrow> 'db sched_state \<Rightarrow> 'db sched_state" where
  "recover_job sh now j0 st =
     (let j = j0\<lparr>j_attempt := j_attempt j0 + 1\<rparr>; q = sh_queue sh in
      if j_attempt j \<le> j_max_attempts j then
        fst (on_db (svc_update_job_for_recovery q now (j_id j) StatusQueued (j_attempt j) None []) st)
      else
        case on_db (svc_update_job_for_recovery q now (j_id j) StatusDead (j_attempt j) None (recovery_message j)) st of
          (st1, Inl _) \<Rightarrow> st1
        | (st1, Inr _) \<Rightarrow>
            let st2 = fst (on_db (svc_complete_with_result q now (j_id j) StatusDead [] (Some (recovery_message j)) None) st1);
                st3 = emit (RecoveredJobFailed (j_id j) (j_plugin j) (j_command j) (recovery_message j)) st2
            in case sh_recovery_hook sh of
                 None \<Rightarrow> st3
               | Some hook \<Rightarrow> st3\<lparr>sd_db := hook j ''job.failed'' (recovery_message j) (sd_db st3)\<rparr>)"

definition recover_orphaned_jobs :: "'db scheduler \<Rightarrow> instant \<Rightarrow> 'db sched_state \<Rightarrow> 'db sched_state" where
  "recover_orphaned_jobs sh now st =
     fold (recover_job sh now) (svc_find_jobs_by_status (sh_queue sh) StatusRunning (sd_db st)) st"

definition catch_up_run_all_max :: int where
  "catch_up_run_all_max = 100"

definition catch_up_key :: "string \<Rightarrow> string \<Rightarrow> string \<Rightarrow> instant \<Rightarrow> string" where
  "catch_up_key p c sid slot = p @ '':'' @ c @ '':'' @ sid @ '':catchup:'' @ rfc3339 slot"

definition catch_up_slot ::
  "'db scheduler \<Rightarrow> instant \<Rightarrow> string \<Rightarrow> plugin_conf \<Rightarrow> schedule_config \<Rightarrow> duration \<Rightarrow> instant \<Rightarrow> 'db sched_state
   \<Rightarrow> 'db sched_state" where
  "catch_up_slot sh now p pc sc base slot st =
     fst (enqueue_catch_up_job sh now p (entry_command sc) pc
            (catch_up_key p (entry_command sc) (entry_id sc) slot) base (sc_payload sc) st)"

definition catch_up_schedule ::
  "'db scheduler \<Rightarrow> instant \<Rightarrow> string \<Rightarrow> plugin_conf \<Rightarrow> schedule_config \<Rightarrow> 'db sched_state
   \<Rightarrow> 'db sched_state \<times> (sched_error + unit)" where
  "catch_up_schedule sh now p pc sc st =
     (if trim_space (sc_cron sc) \<noteq> [] then (st, Inr ())
      else case parse_interval (ho_parse_float (sh_host sh)) (ho_parse_duration (sh_host sh)) (sc_every sc) of
        Inl _ \<Rightarrow> (st, Inr ())
      | Inr base \<Rightarrow>
         let policy = (if trim_space (sc_catch_up sc) = [] then ''skip'' else trim_space (sc_catch_up sc)) in
         if policy = ''skip'' then (st, Inr ())
         else bind_st (st, current_schedule_entry_state sh p (entry_id sc) (entry_command sc) (sd_db st)) (\<lambda>e st.
           case (case se_last_fired_at e of None \<Rightarrow> se_last_success_at e | Some t \<Rightarrow> Some t) of
             None \<Rightarrow> (st, Inr ())
           | Some last_fired \<Rightarrow>
               let missed = count_missed_runs last_fired now base in
               if missed \<le> 0 then (st, Inr ())
               else
                 let to_run = (if policy = ''run_all'' then min missed catch_up_run_all_max else 1);
                     st1 = fold (\<lambda>i. catch_up_slot sh now p pc sc base (last_fired + base * int (i + 1)))
                             [0..<nat to_run] st;
                     advanced = (if policy = ''run_once'' then now else last_fired + base * to_run);
                     next_run = (case se_next_run_at e of
                                   Some nr \<Rightarrow> if nr < advanced then Some (advanced + base) else Some nr
                                 | None \<Rightarrow> Some (advanced + base))
                 in persist_entry sh now (e\<lparr>se_last_fired_at := Some advanced, se_next_run_at := next_run\<rparr>) st1))"

fun catch_up_all ::
  "'db scheduler \<Rightarrow> instant \<Rightarrow> (string \<times> plugin_conf \<times> schedule_config) list \<Rightarrow> 'db sched_state
   \<Rightarrow> 'db sched_state \<times> (sched_error + unit)" where
  "catch_up_all sh now [] st = (st, Inr ())"
| "catch_up_all sh now ((p, pc, sc) # rest) st =
     bind_st (catch_up_schedule sh now p pc sc st) (\<lambda>_. catch_up_all sh now rest)"

definition run_startup_catch_up ::
  "'db scheduler \<Rightarrow> instant \<Rightarrow> 'db sched_state \<Rightarrow> 'db sched_state \<times> (sched_error + unit)" where
  "run_startup_catch_up sh now st = catch_up_all sh now (visited_entries (sh_cfg sh)) st"

text \<open>\<^verbatim>\<open>Start\<close>: recovery, catch-up, and the first tick of the loop.\<close>

definition start ::
  "'db scheduler \<Rightarrow> instant \<Rightarrow> 'db sched_state \<Rightarrow> 'db sched_state \<times> (sched_error + unit)" where
  "start sh now st =
     bind_st (run_startup_catch_up sh now (recover_orphaned_jobs sh now st)) (\<lambda>_ st. (tick sh now st, Inr ()))"

end
