(* ===== verification/Scheduler_Laws.thy ===== *)
theory Scheduler_Laws
  imports Scheduler Queue_Invariants
begin

text \<open>
  What the scheduler relies on in the queue, as a locale over the interface record: \<open>jobs\<close>, \<open>breakers\<close>
  and \<open>entries\<close> read the three tables off an abstract database, and the laws say what each operation
  reads and which tables it leaves alone. The lemmas of the locale say what every stage of the scheduler
  leaves alone and when it lets a job through; the interpretation at the end discharges the laws for the
  job queue.
\<close>

named_theorems stage_frame "tables a scheduler stage leaves alone"

section \<open>Sequencing\<close>

lemma bind_st_simps [simp]:
  "bind_st (s, Inl e) f = (s, Inl e)"
  "bind_st (s, Inr x) f = f x s"
  by (simp_all add: bind_st_eq)

lemma bind_st_InrE:
  assumes "bind_st r f = (s', Inr y)"
  obtains x where "snd r = Inr x" "f x (fst r) = (s', Inr y)"
  using assms by (cases "snd r") (auto simp: bind_st_eq)

lemma logged_simps [simp]:
  "fst (logged r) = fst r"
  "snd (logged r) = Inr x \<longleftrightarrow> snd r = Inr x"
  by (auto simp: logged_def query_def split: sum.splits)

lemma sched_db_simps [simp]:
  "sd_db (emit e st) = sd_db st"
  "sd_db (drawn st) = sd_db st"
  by (simp_all add: emit_def drawn_def)

lemma sd_db_jittered [simp]: "sd_db (fst (calculate_jittered_interval ho b j st)) = sd_db st"
  by (simp add: calculate_jittered_interval_def)

lemma jittered_db: "calculate_jittered_interval ho b j st = (st1, d) \<Longrightarrow> sd_db st1 = sd_db st"
  by (metis fst_conv sd_db_jittered)

lemma fst_skip_entry [simp]: "sd_db (fst (skip_entry p sc r n st)) = sd_db st"
  "snd (skip_entry p sc r n st) = Inl (SkippedEntry r)"
  by (simp_all add: skip_entry_def)

lemma panic_simps [simp]: "sd_db (fst (panic st)) = sd_db st" "snd (panic st) = Inl Panicked"
  by (simp_all add: panic_def)

lemma fst_on_db: "sd_db (fst (on_db f st)) = fst (f (sd_db st))"
  by (auto simp: on_db_def split: prod.splits sum.splits)

lemma snd_on_db: "snd (on_db f st) = Inr x \<longleftrightarrow> snd (f (sd_db st)) = Inr x"
  by (auto simp: on_db_def split: prod.splits sum.splits)

lemma query_Inr [simp]: "query w r = Inr x \<longleftrightarrow> r = Inr x"
  by (auto simp: query_def split: sum.splits)

lemma entry_names [simp]: "entry_id sc \<noteq> []" "entry_command sc \<noteq> []"
  by (simp_all add: entry_id_def entry_command_def)

text \<open>How many outstanding jobs a policy tolerates, for the policies that count.\<close>

definition policy_cap :: "plugin_conf \<Rightarrow> schedule_config \<Rightarrow> nat option" where
  "policy_cap pc sc =
     (let policy = (if trim_space (sc_if_running sc) = [] then ''skip'' else trim_space (sc_if_running sc)) in
      if policy = ''skip'' then Some 1
      else if policy = ''queue'' then Some (nat (if pc_max_outstanding_polls pc \<le> 0 then 1 else pc_max_outstanding_polls pc))
      else None)"

section \<open>The laws of the queue\<close>

locale scheduler_queue =
  fixes svc :: "'db queue_service"
    and jobs :: "'db \<Rightarrow> job list"
    and breakers :: "'db \<Rightarrow> string \<times> string \<Rightarrow> circuit_breaker option"
    and entries :: "'db \<Rightarrow> string \<times> string \<Rightarrow> schedule_entry_state option"
  assumes get_breaker: "svc_get_circuit_breaker svc p c db = Inr r \<Longrightarrow>
      p \<noteq> [] \<and> c \<noteq> [] \<and> r = map_option (\<lambda>b. b\<lparr>cb_plugin := p, cb_command := c\<rparr>) (breakers db (p, c))"
    and upsert_breaker: "cb_plugin b \<noteq> [] \<Longrightarrow> cb_command b \<noteq> [] \<Longrightarrow> cb_state b \<noteq> CircuitUnset \<Longrightarrow>
      \<exists>db'. svc_upsert_circuit_breaker svc now b db = (db', Inr ()) \<and> jobs db' = jobs db \<and> entries db' = entries db \<and>
        breakers db' = (breakers db)((cb_plugin b, cb_command b) \<mapsto> b\<lparr>cb_updated_at := now\<rparr>)"
    and upsert_breaker_frame: "jobs (fst (svc_upsert_circuit_breaker svc now b db)) = jobs db"
      "entries (fst (svc_upsert_circuit_breaker svc now b db)) = entries db"
    and breaker_fact_frame: "jobs (fst (svc_record_circuit_breaker_transition svc t db)) = jobs db"
      "entries (fst (svc_record_circuit_breaker_transition svc t db)) = entries db"
      "breakers (fst (svc_record_circuit_breaker_transition svc t db)) = breakers db"
    and get_entry: "svc_get_schedule_entry_state svc p sid db = Inr es \<Longrightarrow>
      p \<noteq> [] \<and> sid \<noteq> [] \<and> es = map_option (\<lambda>e. e\<lparr>se_plugin := p, se_schedule_id := sid\<rparr>) (entries db (p, sid))"
    and upsert_entry: "se_plugin e \<noteq> [] \<Longrightarrow> se_schedule_id e \<noteq> [] \<Longrightarrow> se_command e \<noteq> [] \<Longrightarrow> se_status e \<noteq> EntryUnset \<Longrightarrow>
      \<exists>db'. svc_upsert_schedule_entry_state svc now e db = (db', Inr ()) \<and>
        entries db' = (entries db)((se_plugin e, se_schedule_id e) \<mapsto> e\<lparr>se_updated_at := now\<rparr>)"
    and upsert_entry_frame: "jobs (fst (svc_upsert_schedule_entry_state svc now e db)) = jobs db"
      "breakers (fst (svc_upsert_schedule_entry_state svc now e db)) = breakers db"
    and enqueue_frame: "breakers (fst (svc_enqueue svc jid now req db)) = breakers db"
      "entries (fst (svc_enqueue svc jid now req db)) = entries db"
    and enqueue_jobs: "jobs (fst (svc_enqueue svc jid now req db)) = jobs db \<or>
      (\<exists>row. jobs (fst (svc_enqueue svc jid now req db)) = jobs db @ [row] \<and> j_plugin row = rq_plugin req \<and>
         j_command row = rq_command req \<and> j_submitted_by row = rq_submitted_by req \<and> j_status row = StatusQueued)"
    and cancel_frame: "breakers (fst (svc_cancel_outstanding_jobs svc now p c reason db)) = breakers db"
      "entries (fst (svc_cancel_outstanding_jobs svc now p c reason db)) = entries db"
    and count_by_submitter: "svc_count_outstanding_jobs_by_submitter svc p c s db = Inr n \<Longrightarrow>
      n = length (filter (\<lambda>j. outstanding_for p c j \<and> j_submitted_by j = s) (jobs db))"
    and latest_frame: "jobs db' = jobs db \<Longrightarrow>
      svc_latest_completed_command_result svc p c s db' = svc_latest_completed_command_result svc p c s db"
    and count_all: "svc_count_outstanding_jobs svc p c db = Inr n \<Longrightarrow>
      n = length (filter (outstanding_for p c) (jobs db))"
begin

text \<open>A stage that touches only the entry table.\<close>

definition entry_only :: "'db sched_state \<Rightarrow> 'db sched_state \<Rightarrow> bool" where
  "entry_only st st' \<longleftrightarrow> jobs (sd_db st') = jobs (sd_db st) \<and> breakers (sd_db st') = breakers (sd_db st)"

definition breaker_only :: "'db sched_state \<Rightarrow> 'db sched_state \<Rightarrow> bool" where
  "breaker_only st st' \<longleftrightarrow> jobs (sd_db st') = jobs (sd_db st) \<and> entries (sd_db st') = entries (sd_db st)"

definition job_only :: "'db sched_state \<Rightarrow> 'db sched_state \<Rightarrow> bool" where
  "job_only st st' \<longleftrightarrow> breakers (sd_db st') = breakers (sd_db st) \<and> entries (sd_db st') = entries (sd_db st)"

lemma frame_refl [simp]: "entry_only st st" "breaker_only st st" "job_only st st"
  by (simp_all add: entry_only_def breaker_only_def job_only_def)

lemma frame_db_eq:
  "sd_db st' = sd_db st \<Longrightarrow> entry_only st st'"
  "sd_db st' = sd_db st \<Longrightarrow> breaker_only st st'"
  "sd_db st' = sd_db st \<Longrightarrow> job_only st st'"
  by (simp_all add: entry_only_def breaker_only_def job_only_def)

lemma entry_only_trans: "entry_only a b \<Longrightarrow> entry_only b c \<Longrightarrow> entry_only a c"
  by (simp add: entry_only_def)

lemma breaker_only_trans: "breaker_only a b \<Longrightarrow> breaker_only b c \<Longrightarrow> breaker_only a c"
  by (simp add: breaker_only_def)

lemma job_only_trans: "job_only a b \<Longrightarrow> job_only b c \<Longrightarrow> job_only a c"
  by (simp add: job_only_def)

lemma entry_only_bind:
  "entry_only st (fst r) \<Longrightarrow> (\<And>x. snd r = Inr x \<Longrightarrow> entry_only (fst r) (fst (f x (fst r)))) \<Longrightarrow>
   entry_only st (fst (bind_st r f))"
  by (cases "snd r") (auto simp: bind_st_eq intro: entry_only_trans)

lemma breaker_only_bind:
  "breaker_only st (fst r) \<Longrightarrow> (\<And>x. snd r = Inr x \<Longrightarrow> breaker_only (fst r) (fst (f x (fst r)))) \<Longrightarrow>
   breaker_only st (fst (bind_st r f))"
  by (cases "snd r") (auto simp: bind_st_eq intro: breaker_only_trans)

lemma job_only_bind:
  "job_only st (fst r) \<Longrightarrow> (\<And>x. snd r = Inr x \<Longrightarrow> job_only (fst r) (fst (f x (fst r)))) \<Longrightarrow>
   job_only st (fst (bind_st r f))"
  by (cases "snd r") (auto simp: bind_st_eq intro: job_only_trans)

end

context scheduler_queue
begin

lemma persist_entry_frame:
  assumes "sh_queue sh = svc"
  shows "entry_only st (fst (persist_entry sh now e st))"
  using assms by (simp add: entry_only_def persist_entry_def fst_on_db upsert_entry_frame)

lemma reject_entry_frame:
  assumes "sh_queue sh = svc"
  shows "entry_only st (fst (reject_entry sh now p sc e r st))"
  using persist_entry_frame [OF assms, of st now]
  by (simp add: reject_entry_def pause_schedule_invalid_def entry_only_def)

lemma skip_entry_frame: "entry_only st (fst (skip_entry p sc r n st))" "entry_only st (fst (panic st))"
  by (simp_all add: entry_only_def)

lemma load_entry_frame:
  assumes "sh_queue sh = svc"
  shows "entry_only st (fst (load_entry sh now p sc st))"
  unfolding load_entry_def Let_def
  by (intro entry_only_bind) (auto intro!: entry_only_bind simp: persist_entry_frame [OF assms] skip_entry_frame)

lemma read_timing_frame:
  assumes "sh_queue sh = svc"
  shows "entry_only st (fst (read_timing sh now p sc e st))"
  unfolding read_timing_def Let_def
  by (intro entry_only_bind)
    (auto simp: reject_entry_frame [OF assms] skip_entry_frame split: sum.splits option.splits)

lemma check_command_frame:
  assumes "sh_queue sh = svc"
  shows "entry_only st (fst (check_command sh now p sc e st))"
  unfolding check_command_def activate_schedule_entry_def
  by (auto intro!: entry_only_bind simp: reject_entry_frame [OF assms] persist_entry_frame [OF assms])

lemma due_every_frame:
  assumes "sh_queue sh = svc"
  shows "entry_only st (fst (due_every sh now p sc latest base e st))"
proof -
  obtain st1 e1 ch where r: "reconcile_schedule_timing (sh_host sh) e latest base (sc_jitter sc) st = (st1, e1, ch)"
    by (metis surj_pair)
  have "sd_db (fst (reconcile_schedule_timing (sh_host sh) e latest base (sc_jitter sc) st)) = sd_db st"
    by (auto simp: reconcile_schedule_timing_def jittered_db split: option.splits prod.splits)
  with r have "entry_only st st1" by (simp add: entry_only_def)
  then show ?thesis unfolding due_every_def r prod.case
    by (intro entry_only_trans [OF \<open>entry_only st st1\<close>] entry_only_bind)
      (auto simp: persist_entry_frame [OF assms] skip_entry_frame split: option.splits)
qed

lemma due_check_frame:
  assumes "sh_queue sh = svc"
  shows "entry_only st (fst (due_check sh now p sc tm latest e st))"
proof -
  have "entry_only st (fst (due_cron sh now p sc expr e st))" for expr
    unfolding due_cron_def Let_def
    by (auto intro!: entry_only_bind simp: reject_entry_frame [OF assms] persist_entry_frame [OF assms] skip_entry_frame
        split: sum.splits)
  moreover have "entry_only st (fst (due_one_shot sh now p sc t e st))" for t
    unfolding due_one_shot_def Let_def
    by (auto intro!: entry_only_bind simp: persist_entry_frame [OF assms] skip_entry_frame)
  ultimately show ?thesis using due_every_frame [OF assms]
    unfolding due_check_def by (auto split: option.splits)
qed

lemma advance_frame:
  assumes "sh_queue sh = svc"
  shows "entry_only st (fst (advance_schedule_next_run sh now e base j st))"
    and "entry_only st (fst (advance_cron_next_run sh now e expr off st))"
proof -
  obtain st1 d where r: "calculate_jittered_interval (sh_host sh) base j st = (st1, d)"
    by (metis surj_pair)
  then have "entry_only st st1" using sd_db_jittered [of "sh_host sh" base j st] by (simp add: entry_only_def)
  then show "entry_only st (fst (advance_schedule_next_run sh now e base j st))"
    by (simp add: advance_schedule_next_run_def r Let_def entry_only_trans [OF _ persist_entry_frame [OF assms]])
  show "entry_only st (fst (advance_cron_next_run sh now e expr off st))"
    by (auto simp: advance_cron_next_run_def Let_def persist_entry_frame [OF assms] split: option.splits)
qed

lemma advance_entry_frame:
  assumes "sh_queue sh = svc"
  shows "entry_only st (fst (advance_entry sh now sc tm dd e st))"
  unfolding advance_entry_def by (auto simp: advance_frame [OF assms] split: option.splits sum.splits)

lemma finish_entry_frame:
  assumes "sh_queue sh = svc"
  shows "entry_only st (finish_entry sh now sc tm dd e st)"
proof -
  obtain st1 e1 where r: "advance_entry sh now sc tm dd (e\<lparr>se_last_fired_at := Some now\<rparr>) st = (st1, e1)"
    by (metis surj_pair)
  have "entry_only st st1"
    using advance_entry_frame [OF assms, of st now sc tm dd "e\<lparr>se_last_fired_at := Some now\<rparr>"] r by simp
  then show ?thesis
    by (simp add: finish_entry_def r entry_only_trans [OF _ persist_entry_frame [OF assms]])
qed

lemma reconcile_frame:
  assumes "sh_queue sh = svc"
  shows "breaker_only st (fst (reconcile_circuit_breaker sh now p c pc st))"
proof -
  have "breaker_only st (fst (on_db (svc_upsert_circuit_breaker (sh_queue sh) now b) st))" for b st
    using assms by (simp add: breaker_only_def fst_on_db upsert_breaker_frame)
  moreover have "breaker_only st (fst (breaker_fact sh now p c prev b reason jid st))" for prev b reason jid st
    using assms by (simp add: breaker_only_def breaker_fact_def fst_on_db breaker_fact_frame)
  moreover have "breaker_only st (emit ev st)" for ev st by (simp add: breaker_only_def)
  ultimately show ?thesis unfolding reconcile_circuit_breaker_def Let_def
    by (auto intro!: breaker_only_bind split: option.splits)
qed

lemma breaker_gate_frame:
  assumes "sh_queue sh = svc"
  shows "breaker_only st (fst (breaker_gate sh now p c pc st))"
proof -
  have "breaker_only st (fst (on_db (svc_upsert_circuit_breaker (sh_queue sh) now b) st))" for b st
    using assms by (simp add: breaker_only_def fst_on_db upsert_breaker_frame)
  moreover have "breaker_only st (fst (breaker_fact sh now p c prev b reason jid st))" for prev b reason jid st
    using assms by (simp add: breaker_only_def breaker_fact_def fst_on_db breaker_fact_frame)
  moreover have "breaker_only st (emit ev st)" for ev st by (simp add: breaker_only_def)
  ultimately show ?thesis unfolding breaker_gate_def Let_def
    by (auto intro!: breaker_only_bind)
qed

lemma running_policy_frame:
  assumes "sh_queue sh = svc"
  shows "job_only st (fst (running_policy sh now p c pc sc st))"
proof -
  have "job_only st (fst (on_db (svc_cancel_outstanding_jobs (sh_queue sh) now p c r) st))" for r st
    using assms by (simp add: job_only_def fst_on_db cancel_frame)
  then show ?thesis unfolding running_policy_def Let_def
    by (auto intro!: job_only_bind)
qed

lemma submit_frame:
  assumes "sh_queue sh = svc"
  shows "job_only st (fst (submit sh now req st))"
    and "sd_db (fst (submit sh now req st)) =
         fst (svc_enqueue svc (ho_uuid (sh_host sh) (sd_draws st)) now req (sd_db st))"
proof -
  show "sd_db (fst (submit sh now req st)) =
         fst (svc_enqueue svc (ho_uuid (sh_host sh) (sd_draws st)) now req (sd_db st))"
    using assms by (auto simp: submit_def split: prod.splits sum.splits queue_error.splits)
  then show "job_only st (fst (submit sh now req st))"
    by (simp add: job_only_def enqueue_frame)
qed

lemma enqueue_scheduled_job_frame:
  assumes "sh_queue sh = svc"
  shows "job_only st (fst (enqueue_scheduled_job sh now p sid c pc ttl pl st))"
proof -
  have "job_only st (emit ev st)" for ev st by (simp add: job_only_def)
  then show ?thesis unfolding enqueue_scheduled_job_def
    by (auto intro!: job_only_bind simp: submit_frame(1) [OF assms] split: sum.splits option.splits)
qed

end

text \<open>What a whole handling leaves alone, by its stages: the handling ends early with the job table
  untouched, or it reaches the running policy behind a breaker that is not open.\<close>

context scheduler_queue
begin

definition not_open :: "string \<Rightarrow> string \<Rightarrow> 'db sched_state \<Rightarrow> bool" where
  "not_open p c st \<longleftrightarrow> (\<forall>b. breakers (sd_db st) (p, c) = Some b \<longrightarrow> cb_state b \<noteq> CircuitOpen)"

definition jobs_kept :: "'db sched_state \<Rightarrow> 'db sched_state \<Rightarrow> bool" where
  "jobs_kept st st' \<longleftrightarrow> jobs (sd_db st') = jobs (sd_db st)"

lemma jobs_kept_refl [simp]: "jobs_kept st st"
  by (simp add: jobs_kept_def)

lemma jobs_kept_trans: "jobs_kept a b \<Longrightarrow> jobs_kept b c \<Longrightarrow> jobs_kept a c"
  by (simp add: jobs_kept_def)

lemma jobs_kept_frames: "entry_only st st' \<Longrightarrow> jobs_kept st st'" "breaker_only st st' \<Longrightarrow> jobs_kept st st'"
  by (simp_all add: jobs_kept_def entry_only_def breaker_only_def)

lemma not_open_entry_only: "entry_only st st' \<Longrightarrow> not_open p c st' = not_open p c st"
  by (simp add: entry_only_def not_open_def)

lemma not_open_job_only: "job_only st st' \<Longrightarrow> not_open p c st' = not_open p c st"
  by (simp add: job_only_def not_open_def)

text \<open>The rule for stages in front of the policy: a stage that keeps the jobs either ends the handling, and
  then the goal holds for every state with the same jobs, or hands over to the next stage.\<close>

lemma kept_bind:
  assumes "jobs_kept st0 (fst r)" and "\<And>st. jobs_kept st0 st \<Longrightarrow> R st"
    and "\<And>x. snd r = Inr x \<Longrightarrow> jobs_kept st0 (fst r) \<Longrightarrow> R (fst (f x (fst r)))"
  shows "R (fst (bind_st r f))"
  using assms by (cases "snd r") (auto simp: bind_st_eq)

lemma kept_logged_bind:
  assumes "jobs_kept st0 (fst r)" and "\<And>st. jobs_kept st0 st \<Longrightarrow> R st"
    and "\<And>x. snd r = Inr x \<Longrightarrow> jobs_kept st0 (fst r) \<Longrightarrow> R (fst (f x (fst r)))"
  shows "R (fst (bind_st (logged r) f))"
  using assms by (intro kept_bind [of st0 "logged r" R]) auto

lemma current_breaker:
  assumes "sh_queue sh = svc" "current_circuit_breaker sh p c db = Inr cb"
  shows "p \<noteq> []" "c \<noteq> []" "cb_plugin cb = p" "cb_command cb = c" "cb_state cb \<noteq> CircuitUnset"
    and "\<And>b. breakers db (p, c) = Some b \<Longrightarrow> cb_state b = CircuitOpen \<Longrightarrow> cb_state cb = CircuitOpen"
proof -
  obtain r where r: "svc_get_circuit_breaker svc p c db = Inr r"
    and cb: "cb = (case r of
              None \<Rightarrow> \<lparr>cb_plugin = p, cb_command = c, cb_state = CircuitClosed, cb_failure_count = 0,
                       cb_opened_at = None, cb_last_failure = None, cb_last_job_id = None, cb_updated_at = 0\<rparr>
            | Some cb \<Rightarrow> cb\<lparr>cb_state := (if cb_state cb = CircuitUnset then CircuitClosed else cb_state cb)\<rparr>)"
    using assms(2) unfolding current_circuit_breaker_def assms(1) bind_result_Inr_iff query_Inr by auto
  note g = get_breaker [OF r]
  show "p \<noteq> []" "c \<noteq> []" using g by simp_all
  show "cb_plugin cb = p" "cb_command cb = c" "cb_state cb \<noteq> CircuitUnset"
    using g cb by (auto split: option.splits)
  show "\<And>b. breakers db (p, c) = Some b \<Longrightarrow> cb_state b = CircuitOpen \<Longrightarrow> cb_state cb = CircuitOpen"
    using g cb by auto
qed

lemma upsert_breaker_st:
  assumes "sh_queue sh = svc" "cb_plugin b \<noteq> []" "cb_command b \<noteq> []" "cb_state b \<noteq> CircuitUnset"
  shows "breakers (sd_db (fst (on_db (svc_upsert_circuit_breaker (sh_queue sh) now b) st))) =
         (breakers (sd_db st))((cb_plugin b, cb_command b) \<mapsto> b\<lparr>cb_updated_at := now\<rparr>)"
    and "snd (on_db (svc_upsert_circuit_breaker (sh_queue sh) now b) st) = Inr ()"
  using upsert_breaker [OF assms(2-4), of now "sd_db st"] assms(1)
  by (auto simp: fst_on_db snd_on_db)

lemma breaker_fact_breakers:
  assumes "sh_queue sh = svc"
  shows "breakers (sd_db (fst (breaker_fact sh now p c prev b reason jid st))) = breakers (sd_db st)"
  using assms by (simp add: breaker_fact_def fst_on_db breaker_fact_frame)

text \<open>Behind the gate the breaker is not open.\<close>

lemma breaker_gate_passes:
  assumes "sh_queue sh = svc" "snd (breaker_gate sh now p c pc st) = Inr None"
  shows "not_open p c (fst (breaker_gate sh now p c pc st))"
proof (cases "current_circuit_breaker sh p c (sd_db st)")
  case (Inl e)
  with assms(2) show ?thesis by (simp add: breaker_gate_def)
next
  case (Inr cb)
  note cb = current_breaker [OF assms(1) Inr]
  show ?thesis
  proof (cases "cb_state cb = CircuitOpen")
    case False
    with Inr cb(6) show ?thesis by (auto simp: breaker_gate_def not_open_def)
  next
    case True
    let ?h = "cb\<lparr>cb_state := CircuitHalfOpen\<rparr>"
    obtain s1 r1 where s1: "on_db (svc_upsert_circuit_breaker (sh_queue sh) now ?h) st = (s1, r1)" by (metis surj_pair)
    have ups: "breakers (sd_db s1) (p, c) = Some (?h\<lparr>cb_updated_at := now\<rparr>)" "r1 = Inr ()"
      using upsert_breaker_st [OF assms(1), of ?h now st] cb s1 by simp_all
    obtain s2 r2 where s2: "breaker_fact sh now p c CircuitOpen ?h CooldownElapsed (cb_last_job_id ?h) s1 = (s2, r2)"
      by (metis surj_pair)
    have "breakers (sd_db s2) = breakers (sd_db s1)"
      using breaker_fact_breakers [OF assms(1), of now p c CircuitOpen ?h] s2 by (metis fst_conv)
    with ups(1) have "not_open p c s2" by (simp add: not_open_def)
    moreover have "cooldown_elapsed cb (breaker_reset_after pc) now"
      using assms(2) Inr True by (auto simp: breaker_gate_def split: if_splits)
    ultimately show ?thesis using Inr True s1 s2 ups(2)
      by (cases r2) (auto simp: breaker_gate_def Let_def not_open_def)
  qed
qed

lemma can_schedule_cases:
  assumes "sh_queue sh = svc"
  shows "jobs_kept st (fst (can_schedule sh now p c pc sc st)) \<or> not_open p c (fst (can_schedule sh now p c pc sc st))"
    and "snd (can_schedule sh now p c pc sc st) = Inr None \<Longrightarrow> not_open p c (fst (can_schedule sh now p c pc sc st))"
proof -
  let ?g = "breaker_gate sh now p c pc st"
  have kept: "jobs_kept st (fst ?g)" by (rule jobs_kept_frames(2) [OF breaker_gate_frame [OF assms]])
  have pass: "not_open p c (fst (running_policy sh now p c pc sc (fst ?g)))" if "snd ?g = Inr None"
    using breaker_gate_passes [OF assms that] not_open_job_only [OF running_policy_frame [OF assms]] by simp
  show "jobs_kept st (fst (can_schedule sh now p c pc sc st)) \<or> not_open p c (fst (can_schedule sh now p c pc sc st))"
    using kept pass by (auto simp: can_schedule_def bind_st_eq split: sum.splits option.splits)
  show "snd (can_schedule sh now p c pc sc st) = Inr None \<Longrightarrow> not_open p c (fst (can_schedule sh now p c pc sc st))"
    using pass by (auto simp: can_schedule_def bind_st_eq split: sum.splits option.splits)
qed

lemma admit_entry_cases:
  assumes "sh_queue sh = svc"
  shows "jobs_kept st (fst (admit_entry sh now p pc sc st)) \<or> not_open p (entry_command sc) (fst (admit_entry sh now p pc sc st))"
    and "snd (admit_entry sh now p pc sc st) = Inr () \<Longrightarrow> not_open p (entry_command sc) (fst (admit_entry sh now p pc sc st))"
proof -
  let ?can = "can_schedule sh now p (entry_command sc) pc sc st"
  have eq: "admit_entry sh now p pc sc st =
    (case schedule_constraints_allow_at (sh_host sh) sc now of
       Inl e \<Rightarrow> (st, Inl (Logged e))
     | Inr (Some reason) \<Rightarrow> skip_entry p sc reason None st
     | Inr None \<Rightarrow> bind_st (logged ?can) (\<lambda>r st. case r of Some reason \<Rightarrow> skip_entry p sc reason None st | None \<Rightarrow> (st, Inr ())))"
    by (auto simp: admit_entry_def logged_def query_def split: sum.splits option.splits)
  show "jobs_kept st (fst (admit_entry sh now p pc sc st)) \<or> not_open p (entry_command sc) (fst (admit_entry sh now p pc sc st))"
    using can_schedule_cases(1) [OF assms, of st now p "entry_command sc" pc sc] unfolding eq
    by (auto simp: bind_st_eq jobs_kept_def not_open_def split: sum.splits option.splits)
  show "snd (admit_entry sh now p pc sc st) = Inr () \<Longrightarrow> not_open p (entry_command sc) (fst (admit_entry sh now p pc sc st))"
    using can_schedule_cases(2) [OF assms, of now p "entry_command sc" pc sc st] unfolding eq
    by (auto simp: bind_st_eq split: sum.splits option.splits)
qed

text \<open>The stages in front of the admission keep the job table.\<close>

lemma process_schedule_front:
  assumes sh: "sh_queue sh = svc" and kept: "\<And>s. jobs_kept st s \<Longrightarrow> R s"
    and tail: "\<And>s e tm. jobs_kept st s \<Longrightarrow>
      R (fst (bind_st (admit_entry sh now p pc sc s) (\<lambda>_ s.
         bind_st (logged (enqueue_scheduled_job sh now p (entry_id sc) (entry_command sc) pc
                       (case tm_every tm of Some base \<Rightarrow> base | None \<Rightarrow> sv_tick_interval (sh_cfg sh))
                       (sc_payload sc) s))
         (\<lambda>dedupe s. (finish_entry sh now sc tm dedupe e s, Inr ())))))"
  shows "R (fst (process_schedule sh now p pc sc st))"
  unfolding process_schedule_def
proof (rule kept_bind [of st _ R])
  show "jobs_kept st (fst (load_entry sh now p sc st))" by (rule jobs_kept_frames(1) [OF load_entry_frame [OF sh]])
  fix e
  assume k: "jobs_kept st (fst (load_entry sh now p sc st))"
  let ?s = "fst (load_entry sh now p sc st)"
  have front: "jobs_kept s (fst (read_timing sh now p sc e s))" "jobs_kept s (fst (check_command sh now p sc e s))"
    "jobs_kept s (fst (reconcile_circuit_breaker sh now p (entry_command sc) pc s))"
    "jobs_kept s (fst (due_check sh now p sc tm latest e s))" for s e tm latest
    using read_timing_frame [OF sh] check_command_frame [OF sh] reconcile_frame [OF sh] due_check_frame [OF sh]
    by (simp_all add: jobs_kept_frames)
  show "R (fst (bind_st (read_timing sh now p sc e ?s) (\<lambda>tm st.
     bind_st (check_command sh now p sc e st) (\<lambda>e st.
     bind_st (logged (reconcile_circuit_breaker sh now p (entry_command sc) pc st)) (\<lambda>latest st.
     bind_st (due_check sh now p sc tm latest e st) (\<lambda>e st.
     bind_st (admit_entry sh now p pc sc st) (\<lambda>_ st.
     bind_st (logged (enqueue_scheduled_job sh now p (entry_id sc) (entry_command sc) pc
                       (case tm_every tm of Some base \<Rightarrow> base | None \<Rightarrow> sv_tick_interval (sh_cfg sh))
                       (sc_payload sc) st))
       (\<lambda>dedupe st. (finish_entry sh now sc tm dedupe e st, Inr ())))))))))"
    by (rule kept_bind [of st _ R], rule jobs_kept_trans [OF k front(1)], erule kept,
        rule kept_bind [of st _ R], (erule jobs_kept_trans, rule front(2)), erule kept,
        rule kept_logged_bind [of st _ R], (erule jobs_kept_trans, rule front(3)), erule kept,
        rule kept_bind [of st _ R], (erule jobs_kept_trans, rule front(4)), erule kept,
        erule tail)
qed (rule kept)

lemma process_schedule_gate:
  assumes sh: "sh_queue sh = svc"
  shows "jobs_kept st (fst (process_schedule sh now p pc sc st)) \<or>
         not_open p (entry_command sc) (fst (process_schedule sh now p pc sc st))"
proof (rule process_schedule_front [OF sh, where R = "\<lambda>s. jobs_kept st s \<or> not_open p (entry_command sc) s"])
  fix s e and tm :: timing
  assume k: "jobs_kept st s"
  let ?a = "admit_entry sh now p pc sc s"
  let ?ttl = "case tm_every tm of Some base \<Rightarrow> base | None \<Rightarrow> sv_tick_interval (sh_cfg sh)"
  let ?q = "\<lambda>s. enqueue_scheduled_job sh now p (entry_id sc) (entry_command sc) pc ?ttl (sc_payload sc) s"
  show "jobs_kept st (fst (bind_st ?a (\<lambda>_ s. bind_st (logged (?q s)) (\<lambda>dd s. (finish_entry sh now sc tm dd e s, Inr ()))))) \<or>
    not_open p (entry_command sc)
      (fst (bind_st ?a (\<lambda>_ s. bind_st (logged (?q s)) (\<lambda>dd s. (finish_entry sh now sc tm dd e s, Inr ())))))"
  proof (cases "snd ?a")
    case (Inl h)
    then show ?thesis using admit_entry_cases(1) [OF sh, of s now p pc sc] k
      by (auto simp: bind_st_eq intro: jobs_kept_trans)
  next
    case (Inr u)
    then have "not_open p (entry_command sc) (fst ?a)" using admit_entry_cases(2) [OF sh] by simp
    then have "not_open p (entry_command sc) (fst (?q (fst ?a)))"
      using not_open_job_only [OF enqueue_scheduled_job_frame [OF sh]] by simp
    then have "not_open p (entry_command sc) (fst (bind_st (logged (?q (fst ?a))) (\<lambda>dd s. (finish_entry sh now sc tm dd e s, Inr ()))))"
      using not_open_entry_only [OF finish_entry_frame [OF sh]]
      by (auto simp: bind_st_eq split: sum.splits)
    then show ?thesis using Inr by (simp add: bind_st_eq)
  qed
qed simp

end

section \<open>Entries, policies and the breaker\<close>

context scheduler_queue
begin

definition keyed :: "string \<Rightarrow> schedule_config \<Rightarrow> schedule_entry_state \<Rightarrow> bool" where
  "keyed p sc e \<longleftrightarrow> p \<noteq> [] \<and> se_plugin e = p \<and> se_schedule_id e = entry_id sc \<and> se_command e = entry_command sc \<and>
     se_status e \<noteq> EntryUnset"

lemma current_entry:
  assumes "sh_queue sh = svc" "current_schedule_entry_state sh p sid c db = Inr e"
  shows "p \<noteq> []" "se_plugin e = p" "se_schedule_id e = sid" "se_status e \<noteq> EntryUnset"
    and "\<And>x. entries db (p, sid) = Some x \<Longrightarrow> se_status x \<noteq> EntryUnset \<Longrightarrow> se_status e = se_status x"
proof -
  obtain r where r: "svc_get_schedule_entry_state svc p sid db = Inr r"
    and e: "e = (case r of
              None \<Rightarrow> \<lparr>se_plugin = p, se_schedule_id = sid, se_command = c, se_status = EntryActive,
                       se_reason = None, se_last_fired_at = None, se_last_success_job_id = None,
                       se_last_success_at = None, se_next_run_at = None, se_updated_at = 0\<rparr>
            | Some e \<Rightarrow> e\<lparr>se_command := (if se_command e = [] then c else se_command e),
                          se_status := (if se_status e = EntryUnset then EntryActive else se_status e)\<rparr>)"
    using assms(2) unfolding current_schedule_entry_state_def assms(1) bind_result_Inr_iff query_Inr by auto
  note g = get_entry [OF r]
  show "p \<noteq> []" using g by simp
  show "se_plugin e = p" "se_schedule_id e = sid" "se_status e \<noteq> EntryUnset" using g e by (auto split: option.splits)
  show "\<And>x. entries db (p, sid) = Some x \<Longrightarrow> se_status x \<noteq> EntryUnset \<Longrightarrow> se_status e = se_status x"
    using g e by auto
qed

lemma persist_entry_writes:
  assumes "sh_queue sh = svc" "se_plugin e \<noteq> []" "se_schedule_id e \<noteq> []" "se_command e \<noteq> []" "se_status e \<noteq> EntryUnset"
  shows "entries (sd_db (fst (persist_entry sh now e st))) =
         (entries (sd_db st))((se_plugin e, se_schedule_id e) \<mapsto> e\<lparr>se_updated_at := now\<rparr>)"
  using upsert_entry [OF assms(2-5), of now "sd_db st"] assms(1) by (auto simp: persist_entry_def fst_on_db)

lemma load_entry_keyed:
  assumes "sh_queue sh = svc" "snd (load_entry sh now p sc st) = Inr e"
  shows "keyed p sc e"
  using assms(2) current_entry [OF assms(1)]
  by (auto simp: load_entry_def bind_st_eq Let_def keyed_def logged_def skip_entry_def
      split: sum.splits if_splits)

lemma check_command_keyed:
  assumes "snd (check_command sh now p sc e st) = Inr e'" "keyed p sc e"
  shows "keyed p sc e'"
  using assms by (auto simp: check_command_def bind_st_eq keyed_def reject_entry_def split: sum.splits if_splits)

lemma due_check_keyed:
  assumes "snd (due_check sh now p sc tm latest e st) = Inr e'" "keyed p sc e"
  shows "keyed p sc e'"
proof -
  have "keyed p sc e'" if r: "snd (due_every sh now p sc latest base e st) = Inr e'" for base
  proof -
    obtain st1 e1 ch where t: "reconcile_schedule_timing (sh_host sh) e latest base (sc_jitter sc) st = (st1, e1, ch)"
      by (metis surj_pair)
    then have "keyed p sc e1" using assms(2)
      by (auto simp: reconcile_schedule_timing_def keyed_def split: option.splits if_splits prod.splits)
    with r t show ?thesis
      by (auto simp: due_every_def bind_st_eq split: sum.splits option.splits if_splits)
  qed
  moreover have "keyed p sc e'" if "snd (due_cron sh now p sc expr e st) = Inr e'" for expr
    using that assms(2)
    by (auto simp: due_cron_def bind_st_eq Let_def keyed_def reject_entry_def split: sum.splits if_splits)
  moreover have "keyed p sc e'" if "snd (due_one_shot sh now p sc t e st) = Inr e'" for t
    using that assms(2)
    by (auto simp: due_one_shot_def bind_st_eq Let_def keyed_def split: sum.splits if_splits)
  ultimately show ?thesis using assms by (auto simp: due_check_def split: option.splits)
qed

lemma advance_entry_keyed:
  assumes "keyed p sc e"
  shows "keyed p sc (snd (advance_entry sh now sc tm dd e st))"
  using assms
  by (auto simp: advance_entry_def advance_schedule_next_run_def advance_cron_next_run_def keyed_def Let_def
      split: option.splits sum.splits prod.splits)

lemma read_timing_one_shot:
  assumes "snd (read_timing sh now p sc e st) = Inr tm"
  shows "tm_one_shot tm \<noteq> None \<longleftrightarrow> trim_space (sc_at sc) \<noteq> [] \<or> sc_after sc > 0"
  using assms
  by (cases "ho_parse_rfc3339 (sh_host sh) (sc_at sc)")
    (auto simp: read_timing_def bind_st_eq Let_def reject_entry_def dest: sym split: sum.splits if_splits)

definition exhausted :: "string \<Rightarrow> string \<Rightarrow> 'db sched_state \<Rightarrow> bool" where
  "exhausted p sid st \<longleftrightarrow> (\<exists>x. entries (sd_db st) (p, sid) = Some x \<and> se_status x = EntryExhausted)"

lemma finish_one_shot:
  assumes "sh_queue sh = svc" "keyed p sc e" "tm_one_shot tm \<noteq> None"
  shows "exhausted p (entry_id sc) (finish_entry sh now sc tm dd e st)"
proof -
  let ?e = "e\<lparr>se_last_fired_at := Some now\<rparr>"
  obtain st1 e1 where r: "advance_entry sh now sc tm dd ?e st = (st1, e1)" by (metis surj_pair)
  have "keyed p sc ?e" using assms(2) by (simp add: keyed_def)
  from advance_entry_keyed [OF this, of sh now tm dd st] r have k: "keyed p sc e1" by simp
  show ?thesis using assms(3) r k
    by (simp add: finish_entry_def exhausted_def persist_entry_writes [OF assms(1)] keyed_def)
qed

text \<open>A handling that enqueues (or hits the dedupe window) ran every stage.\<close>

lemma process_schedule_fired:
  assumes "snd (process_schedule sh now p pc sc st) = Inr u" "sh_queue sh = svc"
  obtains e tm dd s where "fst (process_schedule sh now p pc sc st) = finish_entry sh now sc tm dd e s"
    "keyed p sc e" "tm_one_shot tm \<noteq> None \<longleftrightarrow> trim_space (sc_at sc) \<noteq> [] \<or> sc_after sc > 0"
proof -
  let ?ttl = "\<lambda>tm. case tm_every tm of Some base \<Rightarrow> base | None \<Rightarrow> sv_tick_interval (sh_cfg sh)"
  let ?s1 = "fst (load_entry sh now p sc st)"
  obtain e0 where e0: "snd (load_entry sh now p sc st) = Inr e0"
    using assms(1) by (cases "snd (load_entry sh now p sc st)") (auto simp: process_schedule_def bind_st_eq)
  let ?s2 = "fst (read_timing sh now p sc e0 ?s1)"
  obtain tm where tm: "snd (read_timing sh now p sc e0 ?s1) = Inr tm"
    using assms(1) e0 by (cases "snd (read_timing sh now p sc e0 ?s1)") (auto simp: process_schedule_def bind_st_eq)
  let ?c = "check_command sh now p sc e0 ?s2"
  obtain e1 where e1: "snd ?c = Inr e1"
    using assms(1) e0 tm by (cases "snd ?c") (auto simp: process_schedule_def bind_st_eq)
  let ?r = "logged (reconcile_circuit_breaker sh now p (entry_command sc) pc (fst ?c))"
  obtain l where l: "snd ?r = Inr l"
    using assms(1) e0 tm e1 by (cases "snd ?r") (auto simp: process_schedule_def bind_st_eq simp del: logged_simps(2))
  let ?d = "due_check sh now p sc tm l e1 (fst ?r)"
  obtain e2 where e2: "snd ?d = Inr e2"
    using assms(1) e0 tm e1 l by (cases "snd ?d") (auto simp: process_schedule_def bind_st_eq simp del: logged_simps)
  let ?a = "admit_entry sh now p pc sc (fst ?d)"
  obtain v where v: "snd ?a = Inr v"
    using assms(1) e0 tm e1 l e2 by (cases "snd ?a") (auto simp: process_schedule_def bind_st_eq simp del: logged_simps)
  let ?q = "logged (enqueue_scheduled_job sh now p (entry_id sc) (entry_command sc) pc (?ttl tm) (sc_payload sc) (fst ?a))"
  obtain dd where dd: "snd ?q = Inr dd"
    using assms(1) e0 tm e1 l e2 v by (cases "snd ?q") (auto simp: process_schedule_def bind_st_eq simp del: logged_simps)
  have "fst (process_schedule sh now p pc sc st) = finish_entry sh now sc tm dd e2 (fst ?q)"
    using e0 tm e1 l e2 v dd by (simp add: process_schedule_def bind_st_eq del: logged_simps)
  moreover have "keyed p sc e2"
    by (rule due_check_keyed [OF e2 check_command_keyed [OF e1 load_entry_keyed [OF assms(2) e0]]])
  ultimately show ?thesis using read_timing_one_shot [OF tm] by (rule that)
qed

end

context scheduler_queue
begin

text \<open>An exhausted entry is skipped, and stays exhausted.\<close>

lemma exhausted_load:
  assumes sh: "sh_queue sh = svc" and ex: "exhausted p (entry_id sc) st"
  shows "\<exists>h. snd (load_entry sh now p sc st) = Inl h" "exhausted p (entry_id sc) (fst (load_entry sh now p sc st))"
proof -
  let ?cur = "current_schedule_entry_state sh p (entry_id sc) (entry_command sc) (sd_db st)"
  obtain x where x: "entries (sd_db st) (p, entry_id sc) = Some x" "se_status x = EntryExhausted"
    using ex by (auto simp: exhausted_def)
  show "\<exists>h. snd (load_entry sh now p sc st) = Inl h"
    "exhausted p (entry_id sc) (fst (load_entry sh now p sc st))"
  proof (atomize (full), cases ?cur)
    case (Inl e)
    then show "(\<exists>h. snd (load_entry sh now p sc st) = Inl h) \<and> exhausted p (entry_id sc) (fst (load_entry sh now p sc st))"
      using ex by (simp add: load_entry_def logged_def query_def)
  next
    case (Inr e)
    note e = current_entry [OF sh Inr]
    have st_e: "se_status e = EntryExhausted" using e(5) [OF x(1)] x(2) by simp
    let ?e = "e\<lparr>se_command := entry_command sc, se_last_success_job_id := None, se_last_success_at := None, se_next_run_at := None\<rparr>"
    have w: "exhausted p (entry_id sc) (fst (persist_entry sh now ?e st))"
      using persist_entry_writes [OF sh, of ?e now st] e st_e by (simp add: exhausted_def)
    show "(\<exists>h. snd (load_entry sh now p sc st) = Inl h) \<and> exhausted p (entry_id sc) (fst (load_entry sh now p sc st))"
      using Inr st_e w ex
      by (auto simp: load_entry_def logged_def query_def Let_def bind_st_eq exhausted_def split: sum.splits)
  qed
qed

lemma exhausted_process:
  assumes "sh_queue sh = svc" "exhausted p (entry_id sc) st"
  shows "jobs_kept st (fst (process_schedule sh now p pc sc st)) \<and>
         exhausted p (entry_id sc) (fst (process_schedule sh now p pc sc st))"
proof -
  have "fst (process_schedule sh now p pc sc st) = fst (load_entry sh now p sc st)"
    using exhausted_load(1) [OF assms, of now] by (auto simp: process_schedule_def bind_st_eq)
  then show ?thesis using exhausted_load(2) [OF assms] jobs_kept_frames(1) [OF load_entry_frame [OF assms(1)]] by simp
qed

lemma exhausted_passes:
  assumes "sh_queue sh = svc" "exhausted p sid st" "\<forall>(now, pc, sc)\<in>set passes. entry_id sc = sid"
  shows "jobs_kept st (fold (\<lambda>(now, pc, sc) s. fst (process_schedule sh now p pc sc s)) passes st)"
  using assms(2,3)
proof (induction passes arbitrary: st)
  case (Cons a passes)
  obtain now pc sc where a: "a = (now, pc, sc)" by (metis prod_cases3)
  with Cons.prems have "exhausted p (entry_id sc) st" and id: "entry_id sc = sid" by auto
  from exhausted_process [OF assms(1) this(1), of now pc]
  have kept: "jobs_kept st (fst (process_schedule sh now p pc sc st))"
    and ex: "exhausted p sid (fst (process_schedule sh now p pc sc st))" using id by simp_all
  show ?case using Cons.IH [OF ex] Cons.prems(2) a kept by (auto intro: jobs_kept_trans)
qed simp

lemma one_shot_once:
  assumes "sh_queue sh = svc" "snd (process_schedule sh now p pc sc st) = Inr u"
    "trim_space (sc_at sc) \<noteq> [] \<or> sc_after sc > 0" "\<forall>(now, pc, sc')\<in>set passes. entry_id sc' = entry_id sc"
  shows "jobs_kept (fst (process_schedule sh now p pc sc st))
    (fold (\<lambda>(now, pc, sc) s. fst (process_schedule sh now p pc sc s)) passes (fst (process_schedule sh now p pc sc st)))"
proof -
  obtain e tm dd s where "fst (process_schedule sh now p pc sc st) = finish_entry sh now sc tm dd e s"
    "keyed p sc e" "tm_one_shot tm \<noteq> None"
    using process_schedule_fired [OF assms(2,1)] assms(3) by metis
  then have "exhausted p (entry_id sc) (fst (process_schedule sh now p pc sc st))"
    using finish_one_shot [OF assms(1)] by simp
  from exhausted_passes [OF assms(1) this assms(4)] show ?thesis .
qed

text \<open>The running policies \<^verbatim>\<open>skip\<close> and \<^verbatim>\<open>queue\<close> bound the outstanding jobs they count.\<close>

definition policy_count :: "'db scheduler \<Rightarrow> string \<Rightarrow> string \<Rightarrow> 'db sched_state \<Rightarrow> nat" where
  "policy_count sh p c st =
     length (filter (\<lambda>j. outstanding_for p c j \<and> (c = ''poll'' \<longrightarrow> j_submitted_by j = trim_space (sv_name (sh_cfg sh))))
       (jobs (sd_db st)))"

lemma outstanding_for_policy_count:
  assumes "sh_queue sh = svc" "outstanding_for_policy sh p c (sd_db st) = Inr n"
  shows "n = policy_count sh p c st"
proof (cases "c = ''poll''")
  case True
  then have "svc_count_outstanding_jobs_by_submitter svc p c (trim_space (sv_name (sh_cfg sh))) (sd_db st) = Inr n"
    using assms by (simp add: outstanding_for_policy_def)
  from count_by_submitter [OF this] True show ?thesis by (simp add: policy_count_def)
next
  case False
  then have "svc_count_outstanding_jobs svc p c (sd_db st) = Inr n"
    using assms by (simp add: outstanding_for_policy_def)
  from count_all [OF this] False show ?thesis by (simp add: policy_count_def)
qed

lemma running_policy_cap:
  assumes "sh_queue sh = svc" "policy_cap pc sc = Some cap"
  shows "fst (running_policy sh now p c pc sc st) = st"
    and "snd (running_policy sh now p c pc sc st) = Inr None \<Longrightarrow> policy_count sh p c st < cap"
proof -
  show "fst (running_policy sh now p c pc sc st) = st"
    using assms(2) by (auto simp: running_policy_def policy_cap_def Let_def bind_st_eq split: sum.splits if_splits)
  show "snd (running_policy sh now p c pc sc st) = Inr None \<Longrightarrow> policy_count sh p c st < cap"
    using assms(2) outstanding_for_policy_count [OF assms(1), of p c st]
    by (auto simp: running_policy_def policy_cap_def Let_def bind_st_eq split: sum.splits if_splits)
qed

lemma policy_count_kept: "jobs_kept st st' \<Longrightarrow> policy_count sh p c st' = policy_count sh p c st"
  by (simp add: jobs_kept_def policy_count_def)

lemma admit_entry_cap:
  assumes sh: "sh_queue sh = svc" and cap: "policy_cap pc sc = Some cap"
  shows "jobs_kept st (fst (admit_entry sh now p pc sc st))"
    and "snd (admit_entry sh now p pc sc st) = Inr () \<Longrightarrow>
      policy_count sh p (entry_command sc) (fst (admit_entry sh now p pc sc st)) < cap"
proof -
  let ?g = "breaker_gate sh now p (entry_command sc) pc st"
  have kept: "jobs_kept st (fst ?g)" by (rule jobs_kept_frames(2) [OF breaker_gate_frame [OF sh]])
  note pol = running_policy_cap [OF sh cap, of now p "entry_command sc" "fst ?g"]
  show "jobs_kept st (fst (admit_entry sh now p pc sc st))" using kept pol(1)
    by (auto simp: admit_entry_def can_schedule_def bind_st_eq jobs_kept_def split: sum.splits option.splits)
  show "snd (admit_entry sh now p pc sc st) = Inr () \<Longrightarrow>
      policy_count sh p (entry_command sc) (fst (admit_entry sh now p pc sc st)) < cap"
    using pol
    by (auto simp: admit_entry_def can_schedule_def bind_st_eq logged_def query_def policy_count_def
        split: sum.splits option.splits)
qed

lemma enqueue_scheduled_job_count:
  assumes "sh_queue sh = svc"
  shows "policy_count sh p c (fst (enqueue_scheduled_job sh now p' sid c' pc ttl pl st)) \<le> Suc (policy_count sh p c st)"
proof -
  have "policy_count sh p c (fst (submit sh now req st)) \<le> Suc (policy_count sh p c st)" for req
    using enqueue_jobs [of "ho_uuid (sh_host sh) (sd_draws st)" now req "sd_db st"]
    by (auto simp: policy_count_def submit_frame(2) [OF assms])
  then show ?thesis
    by (auto simp: enqueue_scheduled_job_def bind_st_eq policy_count_def split: sum.splits option.splits)
qed

lemma process_schedule_cap:
  assumes sh: "sh_queue sh = svc" and cap: "policy_cap pc sc = Some cap"
  shows "policy_count sh p (entry_command sc) (fst (process_schedule sh now p pc sc st)) \<le>
         max cap (policy_count sh p (entry_command sc) st)"
proof (rule process_schedule_front [OF sh, where R =
      "\<lambda>s. policy_count sh p (entry_command sc) s \<le> max cap (policy_count sh p (entry_command sc) st)"])
  fix s e and tm :: timing
  assume k: "jobs_kept st s"
  let ?n = "\<lambda>s. policy_count sh p (entry_command sc) s"
  let ?a = "admit_entry sh now p pc sc s"
  let ?ttl = "case tm_every tm of Some base \<Rightarrow> base | None \<Rightarrow> sv_tick_interval (sh_cfg sh)"
  let ?q = "\<lambda>s. enqueue_scheduled_job sh now p (entry_id sc) (entry_command sc) pc ?ttl (sc_payload sc) s"
  have fin: "?n (finish_entry sh now sc tm dd e s) = ?n s" for dd s
    by (rule policy_count_kept [OF jobs_kept_frames(1) [OF finish_entry_frame [OF sh]]])
  have a: "?n (fst ?a) = ?n st"
    using policy_count_kept [OF jobs_kept_trans [OF k admit_entry_cap(1) [OF sh cap]]] by simp
  show "?n (fst (bind_st ?a (\<lambda>_ s. bind_st (logged (?q s)) (\<lambda>dd s. (finish_entry sh now sc tm dd e s, Inr ()))))) \<le> max cap (?n st)"
  proof (cases "snd ?a")
    case (Inl h)
    then show ?thesis using a by (simp add: bind_st_eq)
  next
    case (Inr u)
    then have "Suc (?n (fst ?a)) \<le> cap" using admit_entry_cap(2) [OF sh cap, of now p s] by simp
    with enqueue_scheduled_job_count [OF sh, of p "entry_command sc" now p "entry_id sc" "entry_command sc" pc ?ttl "sc_payload sc" "fst ?a"]
    have "?n (fst (?q (fst ?a))) \<le> cap" by simp
    then show ?thesis using Inr by (auto simp: bind_st_eq fin split: sum.splits)
  qed
qed (simp add: policy_count_kept)

text \<open>A completed job moves the breaker once.\<close>

lemma reconcile_writes:
  assumes sh: "sh_queue sh = svc" and cb: "current_circuit_breaker sh p c (sd_db st) = Inr cb"
    and latest: "svc_latest_completed_command_result svc p c (sv_name (sh_cfg sh)) (sd_db st) = Inr (Some r)"
    and new: "cb_last_job_id cb \<noteq> Some (cr_job_id r)"
  shows "breakers (sd_db (fst (reconcile_circuit_breaker sh now p c pc st))) =
    (breakers (sd_db st))((p, c) \<mapsto> (breaker_after (breaker_threshold pc) r cb)\<lparr>cb_updated_at := now\<rparr>)"
proof -
  let ?b = "breaker_after (breaker_threshold pc) r cb"
  note cur = current_breaker [OF sh cb]
  have b: "cb_plugin ?b = p" "cb_command ?b = c" "cb_state ?b \<noteq> CircuitUnset"
    using cur by (simp_all add: breaker_after_def Let_def)
  obtain s1 r1 where s1: "on_db (svc_upsert_circuit_breaker (sh_queue sh) now ?b) st = (s1, r1)" by (metis surj_pair)
  have ups: "breakers (sd_db s1) = (breakers (sd_db st))((p, c) \<mapsto> ?b\<lparr>cb_updated_at := now\<rparr>)" "r1 = Inr ()"
    using upsert_breaker_st [OF sh, of ?b now st] b cur(1,2) s1 by simp_all
  have "breakers (sd_db (fst (reconcile_circuit_breaker sh now p c pc st))) = breakers (sd_db s1)"
    using cb latest new s1 ups(2) sh
    by (auto simp: reconcile_circuit_breaker_def Let_def bind_st_eq breaker_fact_breakers [OF sh] query_def split: sum.splits)
  with ups(1) show ?thesis by simp
qed

lemma reconcile_again:
  assumes sh: "sh_queue sh = svc"
    and latest: "svc_latest_completed_command_result svc p c (sv_name (sh_cfg sh)) (sd_db st) = Inr l"
    and cb: "current_circuit_breaker sh p c (sd_db st) = Inr cb"
  shows "fst (reconcile_circuit_breaker sh now' p c pc (fst (reconcile_circuit_breaker sh now p c pc st))) =
         fst (reconcile_circuit_breaker sh now p c pc st)"
proof (cases "l = None \<or> (\<exists>r. l = Some r \<and> cb_last_job_id cb = Some (cr_job_id r))")
  case True
  then show ?thesis using latest cb sh by (auto simp: reconcile_circuit_breaker_def query_def)
next
  case False
  then obtain r where l: "l = Some r" "cb_last_job_id cb \<noteq> Some (cr_job_id r)" by auto
  let ?s = "fst (reconcile_circuit_breaker sh now p c pc st)"
  let ?b = "breaker_after (breaker_threshold pc) r cb"
  note cur = current_breaker [OF sh cb]
  have "breakers (sd_db ?s) (p, c) = Some (?b\<lparr>cb_updated_at := now\<rparr>)"
    using reconcile_writes [OF sh cb _ l(2)] latest l(1) by simp
  moreover have "jobs (sd_db ?s) = jobs (sd_db st)" using reconcile_frame [OF sh] by (simp add: breaker_only_def)
  then have lat: "svc_latest_completed_command_result svc p c (sv_name (sh_cfg sh)) (sd_db ?s) = Inr (Some r)"
    using latest_frame latest l(1) by metis
  moreover have "cb_last_job_id x = Some (cr_job_id r)" if x: "current_circuit_breaker sh p c (sd_db ?s) = Inr x" for x
  proof -
    obtain y where "svc_get_circuit_breaker svc p c (sd_db ?s) = Inr y" 
      and y: "x = (case y of None \<Rightarrow> x | Some cb \<Rightarrow> cb\<lparr>cb_state := (if cb_state cb = CircuitUnset then CircuitClosed else cb_state cb)\<rparr>)"
      using x unfolding current_circuit_breaker_def sh bind_result_Inr_iff query_Inr by (auto split: option.splits)
    with get_breaker calculation(1) have "y = Some (?b\<lparr>cb_updated_at := now, cb_plugin := p, cb_command := c\<rparr>)" by fastforce
    with y have "cb_last_job_id x = cb_last_job_id ?b" by simp
    then show ?thesis by (simp add: breaker_after_def Let_def)
  qed
  ultimately show ?thesis using sh
    by (cases "current_circuit_breaker sh p c (sd_db ?s)")
      (simp_all add: reconcile_circuit_breaker_def [of sh now' p c pc ?s] query_def)
qed

end

section \<open>The job queue satisfies the laws\<close>

lemma enqueue_row_submitter [simp]: "j_submitted_by (enqueue_row q jid now req) = rq_submitted_by req"
  by (simp add: enqueue_row_def)

lemma record_job_transition_sel [simp]:
  "circuit_breakers (record_job_transition i f t r n db) = circuit_breakers db"
  "schedule_entries (record_job_transition i f t r n db) = schedule_entries db"
  "job_queue (record_job_transition i f t r n db) = job_queue db"
  by (simp_all add: record_job_transition_def)

lemma record_all_transitions_sel [simp]:
  "circuit_breakers (fold (\<lambda>j. record_job_transition (f j) (g j) s (r j) n) js db) = circuit_breakers db"
  "schedule_entries (fold (\<lambda>j. record_job_transition (f j) (g j) s (r j) n) js db) = schedule_entries db"
  by (induction js arbitrary: db) simp_all

interpretation jq: scheduler_queue "job_queue_service q" job_queue circuit_breakers schedule_entries for q
proof (unfold_locales, goal_cases)
  case (12 jid now req db)
  show ?case using enqueue_cases [of q jid now req db] by (auto simp: job_queue_service_def Let_def)
next
  case (13 jid now req db)
  show ?case using enqueue_cases [of q jid now req db] by (auto simp: job_queue_service_def Let_def)
next
  case (14 jid now req db)
  show ?case using enqueue_cases [of q jid now req db] by (auto simp: job_queue_service_def Let_def)
next
  case (15 now p c reason db)
  show ?case using cancel_cases [of now p c reason db] by (auto simp: job_queue_service_def)
next
  case (16 now p c reason db)
  show ?case using cancel_cases [of now p c reason db] by (auto simp: job_queue_service_def)
qed (auto simp: job_queue_service_def get_circuit_breaker_def upsert_circuit_breaker_def Let_def
    record_circuit_breaker_transition_def get_schedule_entry_state_def upsert_schedule_entry_state_def
    count_outstanding_jobs_by_submitter_def count_outstanding_jobs_def outstanding_for_def
    latest_completed_command_result_def
    intro!: arg_cong [where f = length] filter_cong split: if_splits)

end
