(* ===== verification/Scheduler_Properties.thy ===== *)
theory Scheduler_Properties
  imports Scheduler_Laws
begin

text \<open>
  Properties of the scheduler running on the job queue: the circuit breaker, one-shot entries, the
  running policy, the arithmetic of missed runs and time windows, and the crash recovery.
\<close>

section \<open>Auxiliary facts\<close>













lemma missed_slot:
  assumes "interval > 0"
  shows "lst + int k * interval \<le> now \<longleftrightarrow> int k \<le> (now - lst) div interval"
proof -
  have "int k * interval \<le> x \<longleftrightarrow> int k \<le> x div interval" for x
    using assms by (smt (verit) div_mult_mod_eq mult_less_cancel_right mult_right_mono pos_mod_bound pos_mod_sign
        zdiv_mono1 nonzero_mult_div_cancel_right)
  from this [of "now - lst"] show ?thesis by (auto simp: algebra_simps)
qed

lemma missed_quotient: "interval > 0 \<Longrightarrow> (now - (lst + interval)) div interval + 1 = (now - lst) div (interval :: int)"
  by (smt (verit) div_add_self2)

subsection \<open>Clock windows\<close>

lemma digits_val_nonneg: "0 \<le> digits_val s"
proof -
  have "0 \<le> foldl (\<lambda>acc c. 10 * acc + digit_val c) a s" if "0 \<le> a" for a
    using that by (induction s arbitrary: a) (auto simp: digit_val_def)
  then show ?thesis by (simp add: digits_val_def)
qed

lemma parse_clock_bounds:
  assumes "parse_clock_constraint raw = Inr v"
  shows "0 \<le> v \<and> v < 1440"
proof -
  obtain h m where "parse_clock_digits h m = Some v"
    using assms by (auto simp: parse_clock_constraint_def split: list.splits if_splits option.splits)
  then show ?thesis using digits_val_nonneg [of h] digits_val_nonneg [of m]
    by (auto simp: parse_clock_digits_def split: if_splits)
qed

lemma in_window_cyclic:
  assumes "0 \<le> s" "s < 1440" "0 \<le> e" "e < 1440" "0 \<le> m" "m < 1440" "s \<noteq> e"
  shows "in_window s e m \<longleftrightarrow> (m - s) mod 1440 < (e - s) mod (1440 :: int)"
proof -
  have r: "(x - s) mod 1440 = (if s \<le> x then x - s else x - s + 1440)" if "0 \<le> x" "x < 1440" for x
  proof (cases "s \<le> x")
    case True
    then show ?thesis using assms(1,2) that by (simp add: mod_pos_pos_trivial)
  next
    case False
    have "(x - s) mod 1440 = (x - s + 1440) mod 1440" by simp
    also have "\<dots> = x - s + 1440" using False assms(1,2) that by (intro mod_pos_pos_trivial) auto
    finally show ?thesis using False by simp
  qed
  show ?thesis using assms unfolding r [OF assms(3,4)] r [OF assms(5,6)] in_window_def by auto
qed

subsection \<open>Crash recovery\<close>

definition recovered :: "instant \<Rightarrow> job \<Rightarrow> job" where
  "recovered now j =
     (if j_status j \<noteq> StatusRunning then j
      else if j_attempt j + 1 \<le> j_max_attempts j
      then j\<lparr>j_status := StatusQueued, j_attempt := j_attempt j + 1, j_next_retry_at := None, j_last_error := None\<rparr>
      else j\<lparr>j_status := StatusDead, j_attempt := j_attempt j + 1, j_next_retry_at := None,
             j_completed_at := Some now, j_last_error := Some (recovery_message j)\<rparr>)"

text \<open>What is known of the recovery hook: it only enqueues jobs, under fresh ids.\<close>

definition hook_enqueues :: "(job \<Rightarrow> string \<Rightarrow> string \<Rightarrow> queue_db \<Rightarrow> queue_db) \<Rightarrow> bool" where
  "hook_enqueues hook \<longleftrightarrow>
     (\<forall>j sig msg db. \<exists>new. job_queue (hook j sig msg db) = job_queue db @ new \<and> distinct (map j_id new) \<and>
        (\<forall>x\<in>set new. j_status x = StatusQueued \<and> j_id x \<notin> j_id ` set (job_queue db)))"

lemma recovered_id [simp]: "j_id (recovered now j) = j_id j"
  by (simp add: recovered_def)

lemma recovered_not_running: "j_status (recovered now j) \<noteq> StatusRunning"
  by (simp add: recovered_def)

lemma insert_log_queue [simp]: "job_queue (insert_log l db) = job_queue db"
  by (simp add: insert_log_def)


lemma recover_job_queue:
  assumes dist: "distinct (map j_id (job_queue (sd_db st)))" and j: "j \<in> set (job_queue (sd_db st))"
    and run: "j_status j = StatusRunning" and id: "j_id j \<noteq> []"
    and sh: "sh_queue sh = job_queue_service q" and hook: "\<And>h. sh_recovery_hook sh = Some h \<Longrightarrow> hook_enqueues h"
  shows "\<exists>new. job_queue (sd_db (recover_job sh now j st)) =
           update_where (\<lambda>x. j_id x = j_id j) (\<lambda>_. recovered now j) (job_queue (sd_db st)) @ new \<and> distinct (map j_id new) \<and>
         (\<forall>x\<in>set new. j_status x = StatusQueued \<and> j_id x \<notin> j_id ` set (job_queue (sd_db st)))"
proof -
  let ?db = "sd_db st"
  have found: "find_job (j_id j) ?db = Some j" by (rule find_job_in [OF dist [folded ids_unique_def] j])
  have same: "x = j" if "x \<in> set (job_queue ?db)" "j_id x = j_id j" for x
    using distinct_map_in_eq [OF dist that(1) j that(2)] .
  have upd: "update_where (\<lambda>x. j_id x = j_id j) f (job_queue ?db) =
             update_where (\<lambda>x. j_id x = j_id j) (\<lambda>_. f j) (job_queue ?db)" for f
    using same by (auto simp: update_where_def)
  show ?thesis
  proof (cases "j_attempt j + 1 \<le> j_max_attempts j")
    case True
    have "job_queue (sd_db (recover_job sh now j st)) =
        update_where (\<lambda>x. j_id x = j_id j) (\<lambda>x. x\<lparr>j_status := StatusQueued, j_attempt := j_attempt j + 1,
          j_next_retry_at := None, j_last_error := None\<rparr>) (job_queue ?db)"
      using True found run
      by (simp add: recover_job_def Let_def sh job_queue_service_def fst_on_db update_job_for_recovery_def)
    also have "\<dots> = update_where (\<lambda>x. j_id x = j_id j) (\<lambda>_. recovered now j) (job_queue ?db)"
      using True run by (subst upd) (simp add: recovered_def)
    finally show ?thesis by (intro exI [of _ "[]"]) simp
  next
    case False
    let ?k = "j\<lparr>j_attempt := j_attempt j + 1\<rparr>"
    let ?dead = "j\<lparr>j_status := StatusDead, j_attempt := j_attempt j + 1, j_next_retry_at := None,
        j_last_error := Some (recovery_message j)\<rparr>"
    have msg: "recovery_message ?k = recovery_message j" "recovery_message j \<noteq> []" by (simp_all add: recovery_message_def)
    let ?r1 = "update_job_for_recovery now (j_id j) StatusDead (j_attempt j + 1) None (recovery_message j) ?db"
    have q1: "job_queue (fst ?r1) = update_where (\<lambda>x. j_id x = j_id j) (\<lambda>_. ?dead) (job_queue ?db)"
      and ok: "snd ?r1 = Inr ()"
      using found run msg(2) upd [of "\<lambda>x. x\<lparr>j_status := StatusDead, j_attempt := j_attempt j + 1,
          j_next_retry_at := None, j_last_error := Some (recovery_message j)\<rparr>"]
      by (simp_all add: update_job_for_recovery_def Let_def)
    have "find_job (j_id j) (fst ?r1) = Some ?dead"
    proof -
      have "distinct (map j_id (job_queue (fst ?r1)))" "?dead \<in> set (job_queue (fst ?r1))"
        using dist j unfolding q1 by (auto simp: update_where_def comp_def if_distrib cong: if_cong
            intro!: image_eqI [of _ _ j])
      from find_job_in [OF this(1) [folded ids_unique_def] this(2)] show ?thesis by simp
    qed
    then have q2: "job_queue (fst (complete_with_result now (j_id j) StatusDead [] (Some (recovery_message j)) None (fst ?r1))) =
        update_where (\<lambda>x. j_id x = j_id j) (\<lambda>_. recovered now j) (job_queue ?db)"
      using id False run unfolding complete_with_result_def
      by (simp add: Let_def q1 recovered_def update_where_def)
    let ?d2 = "fst (complete_with_result now (j_id j) StatusDead [] (Some (recovery_message j)) None (fst ?r1))"
    have st: "sd_db (recover_job sh now j st) =
        (case sh_recovery_hook sh of None \<Rightarrow> ?d2 | Some h \<Rightarrow> h ?k ''job.failed'' (recovery_message j) ?d2)"
      using False ok
      by (cases ?r1) (auto simp: recover_job_def Let_def sh job_queue_service_def on_db_def msg(1) fst_on_db
          split: option.splits prod.splits sum.splits)
    have "map j_id (update_where (\<lambda>x. j_id x = j_id j) (\<lambda>_. recovered now j) (job_queue ?db)) = map j_id (job_queue ?db)"
      by (simp add: update_where_def)
    then have ids: "j_id ` set (update_where (\<lambda>x. j_id x = j_id j) (\<lambda>_. recovered now j) (job_queue ?db)) = j_id ` set (job_queue ?db)"
      by (metis list.set_map)
    show ?thesis
    proof (cases "sh_recovery_hook sh")
      case None
      then show ?thesis using st q2 by (intro exI [of _ "[]"]) simp
    next
      case (Some h)
      from hook [OF Some] obtain new where
        "job_queue (h ?k ''job.failed'' (recovery_message j) ?d2) = job_queue ?d2 @ new" "distinct (map j_id new)"
        "\<forall>x\<in>set new. j_status x = StatusQueued \<and> j_id x \<notin> j_id ` set (job_queue ?d2)"
        unfolding hook_enqueues_def by blast
      then show ?thesis using st Some q2 ids by auto
    qed
  qed
qed

lemma recover_fold:
  assumes sh: "sh_queue sh = job_queue_service q" and hook: "\<And>h. sh_recovery_hook sh = Some h \<Longrightarrow> hook_enqueues h"
    and js: "distinct (map j_id js)" "\<forall>j\<in>set js. j_id j \<noteq> []"
  shows "set rs \<subseteq> set js \<Longrightarrow> distinct rs \<Longrightarrow> \<forall>j\<in>set rs. j_status j = StatusRunning \<Longrightarrow>
    job_queue (sd_db st) = map (\<lambda>j. if j \<in> set rs then j else recovered now j) js @ extra \<Longrightarrow>
    \<forall>x\<in>set extra. j_status x = StatusQueued \<Longrightarrow> distinct (map j_id (job_queue (sd_db st))) \<Longrightarrow>
    \<exists>new. job_queue (sd_db (fold (recover_job sh now) rs st)) = map (recovered now) js @ new \<and>
      (\<forall>x\<in>set new. j_status x = StatusQueued)"
proof (induction rs arbitrary: st extra)
  case Nil
  then show ?case by auto
next
  case (Cons r rs)
  let ?g = "\<lambda>j. if j \<in> set (r # rs) then j else recovered now j"
  have rq: "r \<in> set (job_queue (sd_db st))" using Cons.prems(1,4) by (auto simp: image_iff)
  have fields: "j_status r = StatusRunning" "j_id r \<noteq> []" using Cons.prems(1,3) js(2) by auto
  obtain new1 where n1: "distinct (map j_id new1)" and n2: "job_queue (sd_db (recover_job sh now r st)) =
      update_where (\<lambda>x. j_id x = j_id r) (\<lambda>_. recovered now r) (job_queue (sd_db st)) @ new1"
    "\<forall>x\<in>set new1. j_status x = StatusQueued \<and> j_id x \<notin> j_id ` set (job_queue (sd_db st))"
    using recover_job_queue [OF Cons.prems(6) rq fields sh hook] by blast
  have ids0: "map j_id (job_queue (sd_db st)) = map j_id js @ map j_id extra"
    using Cons.prems(4) by (auto simp: comp_def if_distrib cong: if_cong)
  have extra: "update_where (\<lambda>x. j_id x = j_id r) (\<lambda>_. recovered now r) extra = extra"
    using Cons.prems(1,6) ids0 by (intro update_where_none) (auto simp: image_iff)
  have other: "j_id j \<noteq> j_id r" if "j \<in> set js" "j \<noteq> r" for j
    using that Cons.prems(1) distinct_map_in_eq [OF js(1)] by auto
  have "update_where (\<lambda>x. j_id x = j_id r) (\<lambda>_. recovered now r) (map ?g js) =
        map (\<lambda>j. if j \<in> set rs then j else recovered now j) js"
    using other Cons.prems(2) by (auto simp: update_where_def)
  then have q: "job_queue (sd_db (recover_job sh now r st)) =
      map (\<lambda>j. if j \<in> set rs then j else recovered now j) js @ (extra @ new1)"
    using n2(1) extra Cons.prems(4) by (simp add: update_where_def)
  have "map j_id (job_queue (sd_db (recover_job sh now r st))) = map j_id (job_queue (sd_db st)) @ map j_id new1"
    unfolding q by (simp add: ids0 comp_def if_distrib cong: if_cong)
  then have dist: "distinct (map j_id (job_queue (sd_db (recover_job sh now r st))))"
    using Cons.prems(6) n1 n2(2) by auto (metis imageI)
  have "\<forall>x\<in>set (extra @ new1). j_status x = StatusQueued" using Cons.prems(5) n2(2) by auto
  from Cons.IH [OF _ _ _ q this dist] Cons.prems(1-3) show ?case by simp
qed

subsection \<open>Catch-up\<close>

lemma catch_up_slots:
  assumes "sh_queue sh = job_queue_service q"
  shows "length (job_queue (sd_db (fold (\<lambda>i. catch_up_slot sh now p pc sc base (f i)) is st))) \<le>
           length (job_queue (sd_db st)) + length is"
    and "schedule_entries (sd_db (fold (\<lambda>i. catch_up_slot sh now p pc sc base (f i)) is st)) = schedule_entries (sd_db st)"
proof -
  have submit: "length (job_queue (sd_db (fst (submit sh now req s)))) \<le> Suc (length (job_queue (sd_db s)))"
    "schedule_entries (sd_db (fst (submit sh now req s))) = schedule_entries (sd_db s)" for req s
    using jq.enqueue_jobs [of q "ho_uuid (sh_host sh) (sd_draws s)" now req "sd_db s"]
      jq.submit_frame(1) [OF assms, of s now req]
    by (auto simp: jq.submit_frame(2) [OF assms] jq.job_only_def)
  have slot: "length (job_queue (sd_db (catch_up_slot sh now p pc sc base t s))) \<le> Suc (length (job_queue (sd_db s)))"
    "schedule_entries (sd_db (catch_up_slot sh now p pc sc base t s)) = schedule_entries (sd_db s)" for t s
    using submit by (auto simp: catch_up_slot_def enqueue_catch_up_job_def bind_st_eq split: sum.splits option.splits)
  show "length (job_queue (sd_db (fold (\<lambda>i. catch_up_slot sh now p pc sc base (f i)) is st))) \<le>
           length (job_queue (sd_db st)) + length is"
  proof (induction "is" arbitrary: st)
    case (Cons i is')
    show ?case using Cons [of "catch_up_slot sh now p pc sc base (f i) st"] slot(1) [of "f i" st] by simp
  qed simp
  show "schedule_entries (sd_db (fold (\<lambda>i. catch_up_slot sh now p pc sc base (f i)) is st)) = schedule_entries (sd_db st)"
    by (induction "is" arbitrary: st) (simp_all add: slot(2))
qed

lemma catch_up_advance:
  assumes "base > 0" "count_missed_runs t0 now base > 0" "0 < k" "k \<le> min (count_missed_runs t0 now base) 100"
    "t = now \<or> t = t0 + base * k"
  shows "t0 < t \<and> t \<le> now"
proof -
  have now: "t0 < now" "count_missed_runs t0 now base = (now - t0) div base"
    using assms(1,2) missed_quotient [OF assms(1), of now t0] by (auto simp: count_missed_runs_def split: if_splits)
  have "t0 + int (nat k) * base \<le> now"
    using missed_slot [OF assms(1), of t0 "nat k" now] assms(3,4) now(2) by simp
  moreover have "0 < base * k" using assms(1,3) by simp
  ultimately show ?thesis using assms(3,5) now(1) by (auto simp: mult.commute)
qed

lemma current_entry_times:
  assumes "sh_queue sh = job_queue_service q" "current_schedule_entry_state sh p (entry_id sc) (entry_command sc) db = Inr e"
  shows "(se_last_fired_at e = None \<and> se_last_success_at e = None) \<or>
    (\<exists>e0. schedule_entries db (p, entry_id sc) = Some e0 \<and> se_last_fired_at e0 = se_last_fired_at e \<and>
       se_last_success_at e0 = se_last_success_at e \<and> se_command e \<noteq> [])"
  using assms(2) unfolding current_schedule_entry_state_def assms(1)
  by (cases "p = []"; cases "schedule_entries db (p, entry_id sc)")
    (auto simp: job_queue_service_def get_schedule_entry_state_def query_def split: if_splits)

text \<open>What a catch-up that does something starts from.\<close>

lemma catch_up_cases:
  assumes sh: "sh_queue sh = job_queue_service q"
  shows "fst (catch_up_schedule sh now p pc sc st) = st \<or>
    (\<exists>base e t0 k. base > 0 \<and> current_schedule_entry_state sh p (entry_id sc) (entry_command sc) (sd_db st) = Inr e \<and>
       (se_last_fired_at e = Some t0 \<or> se_last_fired_at e = None \<and> se_last_success_at e = Some t0) \<and>
       count_missed_runs t0 now base > 0 \<and> 0 < k \<and> k \<le> min (count_missed_runs t0 now base) 100 \<and>
       (\<exists>e1 t. fst (catch_up_schedule sh now p pc sc st) = fst (persist_entry sh now e1
            (fold (\<lambda>i. catch_up_slot sh now p pc sc base (t0 + base * int (i + 1))) [0..<nat k] st)) \<and>
          se_last_fired_at e1 = Some t \<and> (t = now \<or> t = t0 + base * k) \<and>
          se_plugin e1 = se_plugin e \<and> se_schedule_id e1 = se_schedule_id e \<and> se_command e1 = se_command e \<and>
          se_status e1 = se_status e))"
proof -
  let ?pi = "parse_interval (ho_parse_float (sh_host sh)) (ho_parse_duration (sh_host sh)) (sc_every sc)"
  let ?cur = "current_schedule_entry_state sh p (entry_id sc) (entry_command sc) (sd_db st)"
  let ?pol = "if trim_space (sc_catch_up sc) = [] then ''skip'' else trim_space (sc_catch_up sc)"
  show ?thesis
  proof (cases "trim_space (sc_cron sc) \<noteq> [] \<or> (\<exists>x. ?pi = Inl x) \<or> ?pol = ''skip'' \<or> (\<exists>x. ?cur = Inl x)")
    case True
    then show ?thesis by (auto simp: catch_up_schedule_def Let_def split: sum.splits)
  next
    case False
    then obtain base e where p: "?pi = Inr base" "?cur = Inr e" "trim_space (sc_cron sc) = []" "?pol \<noteq> ''skip''"
      by (cases ?pi; cases ?cur) auto
    let ?t = "case se_last_fired_at e of None \<Rightarrow> se_last_success_at e | Some t \<Rightarrow> Some t"
    have eq: "catch_up_schedule sh now p pc sc st = (case ?t of None \<Rightarrow> (st, Inr ()) | Some t0 \<Rightarrow>
        let missed = count_missed_runs t0 now base in
        if missed \<le> 0 then (st, Inr ())
        else
          let to_run = (if ?pol = ''run_all'' then min missed catch_up_run_all_max else 1);
              st1 = fold (\<lambda>i. catch_up_slot sh now p pc sc base (t0 + base * int (i + 1))) [0..<nat to_run] st;
              advanced = (if ?pol = ''run_once'' then now else t0 + base * to_run);
              next_run = (case se_next_run_at e of
                            Some nr \<Rightarrow> if nr < advanced then Some (advanced + base) else Some nr
                          | None \<Rightarrow> Some (advanced + base))
          in persist_entry sh now (e\<lparr>se_last_fired_at := Some advanced, se_next_run_at := next_run\<rparr>) st1)"
      using p unfolding catch_up_schedule_def Let_def by (simp only: p(1,2) bind_st_simps sum.case) simp
    show ?thesis
    proof (cases ?t)
      case None
      then show ?thesis using eq by simp
    next
      case (Some t0)
      show ?thesis
      proof (cases "count_missed_runs t0 now base \<le> 0")
        case True
        then show ?thesis using eq Some by (simp add: Let_def)
      next
        case miss: False
        let ?k = "if ?pol = ''run_all'' then min (count_missed_runs t0 now base) catch_up_run_all_max else 1"
        let ?adv = "if ?pol = ''run_once'' then now else t0 + base * ?k"
        let ?e1 = "e\<lparr>se_last_fired_at := Some ?adv, se_next_run_at := (case se_next_run_at e of
                            Some nr \<Rightarrow> if nr < ?adv then Some (?adv + base) else Some nr
                          | None \<Rightarrow> Some (?adv + base))\<rparr>"
        have "fst (catch_up_schedule sh now p pc sc st) = fst (persist_entry sh now ?e1
            (fold (\<lambda>i. catch_up_slot sh now p pc sc base (t0 + base * int (i + 1))) [0..<nat ?k] st))"
          using eq Some miss by (simp add: Let_def)
        moreover have "0 < ?k" "?k \<le> min (count_missed_runs t0 now base) 100"
          using miss by (auto simp: catch_up_run_all_max_def)
        moreover have "se_last_fired_at e = Some t0 \<or> se_last_fired_at e = None \<and> se_last_success_at e = Some t0"
          using Some by (auto split: option.splits)
        moreover have "se_last_fired_at ?e1 = Some ?adv" "?adv = now \<or> ?adv = t0 + base * ?k"
          "se_plugin ?e1 = se_plugin e" "se_schedule_id ?e1 = se_schedule_id e" "se_command ?e1 = se_command e"
          "se_status ?e1 = se_status e"
          by simp_all
        moreover have "count_missed_runs t0 now base > 0" using miss by simp
        ultimately show ?thesis using p(2) parse_interval_pos [OF p(1)] by blast
      qed
    qed
  qed
qed

section \<open>A concrete scheduler\<close>

definition demo_host :: host where
  "demo_host = \<lparr>ho_uuid = (\<lambda>n. ''id'' @ int_str (int n)), ho_int63n = (\<lambda>_ _. 0), ho_zone = (\<lambda>_. None), ho_local = 0,
     ho_parse_rfc3339 = (\<lambda>_. Some 0), ho_marshal = (\<lambda>_. None), ho_parse_float = (\<lambda>_. None),
     ho_parse_duration = (\<lambda>_. None)\<rparr>"

definition demo_hook :: "job \<Rightarrow> string \<Rightarrow> string \<Rightarrow> queue_db \<Rightarrow> queue_db" where
  "demo_hook j sig msg db =
     (if \<exists>x\<in>set (job_queue db). j_id x = ''hook'' then db
      else db\<lparr>job_queue := job_queue db @ [j\<lparr>j_id := ''hook'', j_status := StatusQueued\<rparr>]\<rparr>)"

definition demo_scheduler :: "queue_db scheduler" where
  "demo_scheduler = \<lparr>sh_cfg = \<lparr>sv_name = ''svc'', sv_tick_interval = minute, sv_job_log_retention = 0,
       sv_job_queue_retention = 0, sv_job_transitions_retention = 0, sv_job_attempts_retention = 0,
       sv_breaker_transitions_retention = 0, sv_plugins = []\<rparr>,
     sh_queue = job_queue_service \<lparr>dedupe_ttl = hour, snapshot_provider = None\<rparr>,
     sh_supports_command = None, sh_recovery_hook = Some demo_hook, sh_host = demo_host\<rparr>"

definition demo_schedule :: schedule_config where
  "demo_schedule = \<lparr>sc_id = [], sc_every = ''hourly'', sc_cron = [], sc_at = [], sc_after = 0, sc_jitter = 0,
     sc_catch_up = ''run_all'', sc_if_running = [], sc_only_between = ''22:00-06:00'', sc_timezone = [], sc_not_on = [],
     sc_command = [], sc_payload = None\<rparr>"

definition demo_state :: "queue_db sched_state" where
  "demo_state = \<lparr>sd_db = empty_db, sd_events = [], sd_draws = 0, sd_tick_count = 0, sd_panicked = False\<rparr>"

definition demo_job :: job where
  "demo_job = (enqueue_row \<lparr>dedupe_ttl = hour, snapshot_provider = None\<rparr> ''j'' 0
     \<lparr>rq_plugin = ''echo'', rq_command = ''poll'', rq_payload = [], rq_max_attempts = 1, rq_submitted_by = ''svc'',
      rq_dedupe_key = None, rq_dedupe_ttl = None, rq_parent_job_id = None, rq_event_context_id = None,
      rq_source_event_id = None, rq_enqueued_config_snapshot_id = []\<rparr>)
     \<lparr>j_status := StatusRunning\<rparr>"

definition demo_breaker :: circuit_breaker where
  "demo_breaker = \<lparr>cb_plugin = ''echo'', cb_command = ''poll'', cb_state = CircuitClosed, cb_failure_count = 0,
     cb_opened_at = Some 0, cb_last_failure = None, cb_last_job_id = None, cb_updated_at = 0\<rparr>"

lemma demo_sh: "sh_queue demo_scheduler = job_queue_service \<lparr>dedupe_ttl = hour, snapshot_provider = None\<rparr>"
  by (simp add: demo_scheduler_def)

lemma demo_hook_enqueues: "hook_enqueues demo_hook"
  unfolding hook_enqueues_def
proof (intro allI)
  fix j :: job and sig msg and db :: queue_db
  show "\<exists>new. job_queue (demo_hook j sig msg db) = job_queue db @ new \<and> distinct (map j_id new) \<and>
        (\<forall>x\<in>set new. j_status x = StatusQueued \<and> j_id x \<notin> j_id ` set (job_queue db))"
    by (cases "\<exists>x\<in>set (job_queue db). j_id x = ''hook''")
      (auto simp: demo_hook_def intro!: exI [of _ "[j\<lparr>j_id := ''hook'', j_status := StatusQueued\<rparr>]"])
qed

section \<open>Properties\<close>

text \<open>C33. No job starts behind an open breaker: when the breaker of the entry's command is open after an
  entry was handled, the handling has not touched the job table, whatever its timing and policy.\<close>

theorem no_enqueue_while_open:
  assumes "sh_queue sh = job_queue_service q"
    and "circuit_breakers (sd_db (fst (process_schedule sh now p pc sc st))) (p, entry_command sc) = Some b"
    and "cb_state b = CircuitOpen"
  shows "job_queue (sd_db (fst (process_schedule sh now p pc sc st))) = job_queue (sd_db st)"
  using jq.process_schedule_gate [OF assms(1), of st now p pc sc] assms(2,3)
  by (auto simp: jq.jobs_kept_def jq.not_open_def)

theorem no_enqueue_while_open_witness:
  "job_queue (sd_db (fst (process_schedule demo_scheduler 1 ''echo'' default_plugin_conf demo_schedule
     (demo_state\<lparr>sd_db := empty_db\<lparr>circuit_breakers := [(''echo'', ''poll'') \<mapsto> demo_breaker\<lparr>cb_state := CircuitOpen\<rparr>]\<rparr>\<rparr>)))) = []"
    (is "job_queue (sd_db (fst ?r)) = []")
proof -
  have "map_option cb_state (circuit_breakers (sd_db (fst ?r)) (''echo'', entry_command demo_schedule)) = Some CircuitOpen"
    by code_simp
  then obtain b where "circuit_breakers (sd_db (fst ?r)) (''echo'', entry_command demo_schedule) = Some b" "cb_state b = CircuitOpen"
    by blast
  from no_enqueue_while_open [OF demo_sh this] show ?thesis by (simp add: empty_db_def)
qed


text \<open>One failed job, seen on two ticks, with a threshold of one.\<close>

definition failing_state :: "queue_db sched_state" where
  "failing_state = demo_state\<lparr>sd_db := empty_db\<lparr>job_queue := [demo_job\<lparr>j_status := StatusFailed, j_completed_at := Some 5\<rparr>]\<rparr>\<rparr>"


definition strict_conf :: plugin_conf where
  "strict_conf = default_plugin_conf\<lparr>pc_breaker := Some \<lparr>bc_threshold = 1, bc_reset_after = 10\<rparr>\<rparr>"

definition tick_twice :: "queue_db sched_state" where
  "tick_twice = fst (reconcile_circuit_breaker demo_scheduler 8 ''echo'' ''poll'' strict_conf
     (fst (reconcile_circuit_breaker demo_scheduler 7 ''echo'' ''poll'' strict_conf failing_state)))"



text \<open>A manual reset forgets which job was observed last: the next tick counts the same failure again, and with a threshold
  of one it opens the breaker again.\<close>

lemma reset_counts_failure_again:
  "map_option cb_state (circuit_breakers (sd_db (fst (reconcile_circuit_breaker demo_scheduler 9 ''echo'' ''poll'' strict_conf
     (tick_twice\<lparr>sd_db := fst (reset_circuit_breaker 9 ''t'' ''echo'' ''poll'' (sd_db tick_twice))\<rparr>)))) (''echo'', ''poll'')) =
   Some CircuitOpen"
  by code_simp

text \<open>Reconciling again without a new completed job changes nothing: a completed job moves the breaker
  and its transition log once.\<close>

theorem breaker_observes_once:
  assumes "sh_queue sh = job_queue_service q"
    and "latest_completed_command_result p c (sv_name (sh_cfg sh)) (sd_db st) = Inr l"
    and "current_circuit_breaker sh p c (sd_db st) = Inr cb"
  shows "fst (reconcile_circuit_breaker sh now' p c pc (fst (reconcile_circuit_breaker sh now p c pc st))) =
         fst (reconcile_circuit_breaker sh now p c pc st)"
proof (rule jq.reconcile_again [OF assms(1) _ assms(3)])
  show "svc_latest_completed_command_result (job_queue_service q) p c (sv_name (sh_cfg sh)) (sd_db st) = Inr l"
    using assms(2) by (simp add: job_queue_service_def)
qed

theorem breaker_observes_once_witness:
  "let st = demo_state\<lparr>sd_db := empty_db\<lparr>job_queue := [demo_job\<lparr>j_status := StatusFailed, j_completed_at := Some 5\<rparr>]\<rparr>\<rparr>;
       st1 = fst (reconcile_circuit_breaker demo_scheduler 7 ''echo'' ''poll'' default_plugin_conf st)
   in fst (reconcile_circuit_breaker demo_scheduler 8 ''echo'' ''poll'' default_plugin_conf st1) = st1 \<and>
      map_option cb_failure_count (circuit_breakers (sd_db st1) (''echo'', ''poll'')) = Some 1"
proof -
  let ?st = "demo_state\<lparr>sd_db := empty_db\<lparr>job_queue := [demo_job\<lparr>j_status := StatusFailed, j_completed_at := Some 5\<rparr>]\<rparr>\<rparr>"
  have l: "latest_completed_command_result ''echo'' ''poll'' (sv_name (sh_cfg demo_scheduler)) (sd_db ?st) =
      Inr (Some \<lparr>cr_job_id = ''j'', cr_status = StatusFailed, cr_completed_at = 5\<rparr>)" by code_simp
  have c: "current_circuit_breaker demo_scheduler ''echo'' ''poll'' (sd_db ?st) =
      Inr (demo_breaker\<lparr>cb_opened_at := None\<rparr>)" by code_simp
  have "map_option cb_failure_count (circuit_breakers
      (sd_db (fst (reconcile_circuit_breaker demo_scheduler 7 ''echo'' ''poll'' default_plugin_conf ?st))) (''echo'', ''poll'')) = Some 1"
    by code_simp
  with breaker_observes_once [OF demo_sh l c, of 8 default_plugin_conf 7] show ?thesis by (simp add: Let_def)
qed

text \<open>A one-shot entry fires once: after a handling that went through, no later handling of the same
  entry changes the job table.\<close>

theorem one_shot_fires_once:
  assumes "sh_queue sh = job_queue_service q"
    and "snd (process_schedule sh now p pc sc st) = Inr ()"
    and "trim_space (sc_at sc) \<noteq> [] \<or> sc_after sc > 0"
    and "\<forall>(now, pc, sc')\<in>set passes. entry_id sc' = entry_id sc"
  shows "job_queue (sd_db (fold (\<lambda>(now, pc, sc) s. fst (process_schedule sh now p pc sc s)) passes
           (fst (process_schedule sh now p pc sc st)))) =
         job_queue (sd_db (fst (process_schedule sh now p pc sc st)))"
  using jq.one_shot_once [OF assms] by (simp add: jq.jobs_kept_def)

theorem one_shot_fires_once_witness:
  "let sc = demo_schedule\<lparr>sc_every := [], sc_at := ''1970-01-01T00:00:00Z'', sc_only_between := []\<rparr>;
       st = fst (process_schedule demo_scheduler 1 ''echo'' default_plugin_conf sc demo_state)
   in length (job_queue (sd_db st)) = 1 \<and>
      job_queue (sd_db (fst (process_schedule demo_scheduler (9 * hour) ''echo'' default_plugin_conf sc st))) = job_queue (sd_db st)"
proof -
  let ?sc = "demo_schedule\<lparr>sc_every := [], sc_at := ''1970-01-01T00:00:00Z'', sc_only_between := []\<rparr>"
  have ok: "snd (process_schedule demo_scheduler 1 ''echo'' default_plugin_conf ?sc demo_state) = Inr ()" by code_simp
  have n: "length (job_queue (sd_db (fst (process_schedule demo_scheduler 1 ''echo'' default_plugin_conf ?sc demo_state)))) = 1"
    by code_simp
  have at: "trim_space (sc_at ?sc) \<noteq> [] \<or> sc_after ?sc > 0" by code_simp
  show ?thesis using one_shot_fires_once [OF demo_sh ok at, of "[(9 * hour, default_plugin_conf, ?sc)]"] n by (simp add: Let_def)
qed

text \<open>The policies \<^verbatim>\<open>skip\<close> and \<^verbatim>\<open>queue\<close> bound the outstanding jobs: a handling never
  raises the number of outstanding jobs it counts (the scheduler's own for \<^verbatim>\<open>poll\<close>, everybody's
  otherwise) above the larger of its cap and the number it found.\<close>

theorem outstanding_jobs_capped:
  assumes "sh_queue sh = job_queue_service q" and "policy_cap pc sc = Some cap"
  shows "let counted = \<lambda>s. length (filter (\<lambda>j. outstanding_for p (entry_command sc) j \<and>
      (entry_command sc = ''poll'' \<longrightarrow> j_submitted_by j = trim_space (sv_name (sh_cfg sh)))) (job_queue (sd_db s)))
    in counted (fst (process_schedule sh now p pc sc st)) \<le> max cap (counted st)"
  using jq.process_schedule_cap [OF assms, of p now st] by (simp only: Let_def jq.policy_count_def)

theorem outstanding_jobs_capped_witness:
  "length (filter (\<lambda>j. outstanding_for ''echo'' ''poll'' j \<and> j_submitted_by j = ''svc'')
     (job_queue (sd_db (fst (process_schedule demo_scheduler 1 ''echo'' default_plugin_conf demo_schedule demo_state))))) \<le> 1"
proof -
  have cap: "policy_cap default_plugin_conf demo_schedule = Some 1" by code_simp
  have names: "entry_command demo_schedule = ''poll''" "trim_space (sv_name (sh_cfg demo_scheduler)) = ''svc''" by code_simp+
  have "job_queue (sd_db demo_state) = []" by code_simp
  then show ?thesis
    using outstanding_jobs_capped [OF demo_sh cap, of "''echo''" 1 demo_state] unfolding names by (simp add: Let_def)
qed

text \<open>The number of missed runs is the number of slots \<^verbatim>\<open>lastFired + k * interval\<close>, for positive
  \<^verbatim>\<open>k\<close>, that are not in the future.\<close>

theorem count_missed_runs_slots:
  assumes "interval > 0"
  shows "count_missed_runs lst now interval = int (card {k::nat. k \<ge> 1 \<and> lst + int k * interval \<le> now})"
proof -
  let ?q = "(now - lst) div interval"
  have "{k::nat. k \<ge> 1 \<and> lst + int k * interval \<le> now} = {1..nat ?q}"
    unfolding missed_slot [OF assms] by auto
  then have card: "int (card {k::nat. k \<ge> 1 \<and> lst + int k * interval \<le> now}) = (if ?q > 0 then ?q else 0)"
    by simp
  have "now < lst + interval \<longleftrightarrow> ?q < 1"
    using missed_slot [OF assms, of lst 1 now] by auto
  then show ?thesis using assms missed_quotient [OF assms, of now lst] unfolding card count_missed_runs_def
    by (auto simp: not_less)
qed

theorem count_missed_runs_slots_witness:
  "int (card {k::nat. k \<ge> 1 \<and> 10 + int k * 60 \<le> 205}) = 3"
  using count_missed_runs_slots [of 60 10 205] by (simp add: count_missed_runs_def)

text \<open>A window \<^verbatim>\<open>only_between: a-b\<close> is the half-open cyclic interval of the day from \<^verbatim>\<open>a\<close> to
  \<^verbatim>\<open>b\<close>, across midnight when \<^verbatim>\<open>b\<close> comes before \<^verbatim>\<open>a\<close>: the run is allowed exactly when the
  local minute of the day lies fewer minutes after \<^verbatim>\<open>a\<close> than \<^verbatim>\<open>b\<close> does.\<close>

theorem window_is_cyclic_interval:
  assumes zone: "resolve_zone ho sc 0 = Inr off"
    and days: "excluded_day (sc_not_on sc) (t_weekday (now + off)) = Inr False"
    and window: "split_on (CHR ''-'') (trim_space (sc_only_between sc)) = [a, b]"
    and clocks: "parse_clock_constraint a = Inr s" "parse_clock_constraint b = Inr e" "s \<noteq> e"
  shows "schedule_constraints_allow_at ho sc now =
    Inr (if (t_hour (now + off) * 60 + t_minute (now + off) - s) mod 1440 < (e - s) mod 1440 then None
         else Some ''outside_time_window'')"
proof -
  let ?m = "t_hour (now + off) * 60 + t_minute (now + off)"
  have m: "0 \<le> ?m" "?m < 1440" using t_hour_bounds [of "now + off"] t_minute_bounds [of "now + off"] by auto
  have ne: "trim_space (sc_only_between sc) \<noteq> []" using window by auto
  have "in_window s e ?m \<longleftrightarrow> (?m - s) mod 1440 < (e - s) mod 1440"
    using parse_clock_bounds [OF clocks(1)] parse_clock_bounds [OF clocks(2)] m clocks(3)
    by (intro in_window_cyclic) auto
  then show ?thesis using zone days window clocks ne
    by (simp add: schedule_constraints_allow_at_def Let_def)
qed

theorem window_is_cyclic_interval_witness:
  "schedule_constraints_allow_at demo_host demo_schedule (3 * hour) = Inr None \<and>
   schedule_constraints_allow_at demo_host demo_schedule (7 * hour) = Inr (Some ''outside_time_window'')"
proof -
  have c: "parse_clock_constraint ''22:00'' = Inr 1320" "parse_clock_constraint ''06:00'' = Inr 360" by code_simp+
  have z: "resolve_zone demo_host demo_schedule 0 = Inr 0" by code_simp
  have w: "split_on (CHR ''-'') (trim_space (sc_only_between demo_schedule)) = [''22:00'', ''06:00'']" by code_simp
  have d: "excluded_day (sc_not_on demo_schedule) wd = Inr False" for wd by (simp add: demo_schedule_def)
  have t: "t_hour (3 * hour + 0) = 3" "t_minute (3 * hour + 0) = 0" "t_hour (7 * hour + 0) = 7" "t_minute (7 * hour + 0) = 0"
    by code_simp+
  show ?thesis
    using window_is_cyclic_interval [OF z d w c, of "3 * hour"] window_is_cyclic_interval [OF z d w c, of "7 * hour"] t
    by simp
qed

text \<open>Crash recovery leaves no job running: every job found running is queued again with its next attempt, or
  is dead with its completion time and error when its attempts are used up; all other rows stay as they
  are, and what the recovery hook adds is queued.\<close>

theorem recovery_leaves_none_running:
  assumes sh: "sh_queue sh = job_queue_service q"
    and hook: "\<And>h. sh_recovery_hook sh = Some h \<Longrightarrow> hook_enqueues h"
    and ids: "distinct (map j_id (job_queue (sd_db st)))" "\<forall>j\<in>set (job_queue (sd_db st)). j_id j \<noteq> []"
  shows "(\<exists>new. job_queue (sd_db (recover_orphaned_jobs sh now st)) = map (recovered now) (job_queue (sd_db st)) @ new \<and>
           (\<forall>x\<in>set new. j_status x = StatusQueued)) \<and>
         (\<forall>j\<in>set (job_queue (sd_db (recover_orphaned_jobs sh now st))). j_status j \<noteq> StatusRunning)"
proof -
  let ?js = "job_queue (sd_db st)"
  let ?rs = "filter (\<lambda>j. j_status j = StatusRunning) ?js"
  have "map (\<lambda>j. if j \<in> set ?rs then j else recovered now j) ?js @ [] = ?js"
    by (auto simp: recovered_def intro!: map_idI)
  then have "\<exists>new. job_queue (sd_db (fold (recover_job sh now) ?rs st)) = map (recovered now) ?js @ new \<and>
      (\<forall>x\<in>set new. j_status x = StatusQueued)"
    by (intro recover_fold [OF sh hook ids, where extra = "[]"]) (use ids(1) in \<open>auto simp: distinct_map\<close>)
  then show ?thesis
    by (auto simp: recover_orphaned_jobs_def sh job_queue_service_def find_jobs_by_status_def recovered_not_running)
qed

theorem recovery_leaves_none_running_witness:
  "map j_status (job_queue (sd_db (recover_orphaned_jobs demo_scheduler 9
     (demo_state\<lparr>sd_db := empty_db\<lparr>job_queue := [demo_job, demo_job\<lparr>j_id := ''k'', j_max_attempts := 3\<rparr>]\<rparr>\<rparr>)))) =
     [StatusDead, StatusQueued, StatusQueued] \<and>
   find_jobs_by_status StatusRunning (sd_db (recover_orphaned_jobs demo_scheduler 9
     (demo_state\<lparr>sd_db := empty_db\<lparr>job_queue := [demo_job, demo_job\<lparr>j_id := ''k'', j_max_attempts := 3\<rparr>]\<rparr>\<rparr>))) = []"
proof -
  let ?st = "demo_state\<lparr>sd_db := empty_db\<lparr>job_queue := [demo_job, demo_job\<lparr>j_id := ''k'', j_max_attempts := 3\<rparr>]\<rparr>\<rparr>"
  have hook: "hook_enqueues h" if "sh_recovery_hook demo_scheduler = Some h" for h
    using that demo_hook_enqueues by (simp add: demo_scheduler_def)
  have ids: "distinct (map j_id (job_queue (sd_db ?st)))" "\<forall>j\<in>set (job_queue (sd_db ?st)). j_id j \<noteq> []" by code_simp+
  have "map j_status (job_queue (sd_db (recover_orphaned_jobs demo_scheduler 9 ?st))) = [StatusDead, StatusQueued, StatusQueued]"
    by code_simp
  with recovery_leaves_none_running [OF demo_sh hook ids, of 9] show ?thesis
    by (simp add: find_jobs_by_status_def filter_empty_conv)
qed

text \<open>The startup catch-up of an entry is bounded: it adds at most \<^verbatim>\<open>catchUpRunAllMax\<close> jobs, and it
  either leaves the entry table alone or writes back this entry with a last firing time that is later than
  the one it started from and not in the future.\<close>

theorem catch_up_bounded:
  assumes sh: "sh_queue sh = job_queue_service q"
  shows "let db = sd_db st; db' = sd_db (fst (catch_up_schedule sh now p pc sc st)) in
    length (job_queue db') \<le> length (job_queue db) + 100 \<and>
    (schedule_entries db' = schedule_entries db \<or>
     (\<exists>e e0 t t0. schedule_entries db' = (schedule_entries db)((p, entry_id sc) \<mapsto> e) \<and>
        schedule_entries db (p, entry_id sc) = Some e0 \<and>
        (se_last_fired_at e0 = Some t0 \<or> se_last_fired_at e0 = None \<and> se_last_success_at e0 = Some t0) \<and>
        se_last_fired_at e = Some t \<and> t0 < t \<and> t \<le> now))"
proof (rule disjE [OF catch_up_cases [OF sh, of now p pc sc st]])
  assume "fst (catch_up_schedule sh now p pc sc st) = st"
  then show ?thesis by (simp add: Let_def)
next
  let ?f = "\<lambda>base t0 i. catch_up_slot sh now p pc sc base (t0 + base * int (i + 1))"
  assume "\<exists>base e t0 k. base > 0 \<and> current_schedule_entry_state sh p (entry_id sc) (entry_command sc) (sd_db st) = Inr e \<and>
       (se_last_fired_at e = Some t0 \<or> se_last_fired_at e = None \<and> se_last_success_at e = Some t0) \<and>
       count_missed_runs t0 now base > 0 \<and> 0 < k \<and> k \<le> min (count_missed_runs t0 now base) 100 \<and>
       (\<exists>e1 t. fst (catch_up_schedule sh now p pc sc st) = fst (persist_entry sh now e1 (fold (?f base t0) [0..<nat k] st)) \<and>
          se_last_fired_at e1 = Some t \<and> (t = now \<or> t = t0 + base * k) \<and>
          se_plugin e1 = se_plugin e \<and> se_schedule_id e1 = se_schedule_id e \<and> se_command e1 = se_command e \<and>
          se_status e1 = se_status e)"
  then obtain base e t0 k e1 t where
    base: "base > 0" and cur: "current_schedule_entry_state sh p (entry_id sc) (entry_command sc) (sd_db st) = Inr e"
    and fired: "se_last_fired_at e = Some t0 \<or> se_last_fired_at e = None \<and> se_last_success_at e = Some t0"
    and missed: "count_missed_runs t0 now base > 0" and k: "0 < k" "k \<le> min (count_missed_runs t0 now base) 100"
    and run: "fst (catch_up_schedule sh now p pc sc st) = fst (persist_entry sh now e1 (fold (?f base t0) [0..<nat k] st))"
    and e1: "se_last_fired_at e1 = Some t" "t = now \<or> t = t0 + base * k" "se_plugin e1 = se_plugin e"
      "se_schedule_id e1 = se_schedule_id e" "se_command e1 = se_command e" "se_status e1 = se_status e"
    by blast
  note slots = catch_up_slots [OF sh, of now p pc sc base "\<lambda>i. t0 + base * int (i + 1)" "[0..<nat k]" st]
  note keys = jq.current_entry [OF sh cur]
  obtain e0 where e0: "schedule_entries (sd_db st) (p, entry_id sc) = Some e0"
    "se_last_fired_at e0 = se_last_fired_at e" "se_last_success_at e0 = se_last_success_at e" "se_command e \<noteq> []"
    using current_entry_times [OF sh cur] fired by auto
  have len: "length (job_queue (sd_db (fst (persist_entry sh now e1 (fold (?f base t0) [0..<nat k] st))))) \<le> length (job_queue (sd_db st)) + 100"
    using jq.persist_entry_frame [OF sh, of "fold (?f base t0) [0..<nat k] st" now e1] slots(1) k by (auto simp: jq.entry_only_def)
  have "schedule_entries (sd_db (fst (persist_entry sh now e1 (fold (?f base t0) [0..<nat k] st)))) =
      (schedule_entries (sd_db st))((p, entry_id sc) \<mapsto> e1\<lparr>se_updated_at := now\<rparr>)"
    using jq.persist_entry_writes [OF sh, of e1 now "fold (?f base t0) [0..<nat k] st"] keys e1 e0(4) slots(2) by simp
  moreover have "t0 < t \<and> t \<le> now" by (rule catch_up_advance [OF base missed k e1(2)])
  ultimately show ?thesis using len run e0 fired e1(1)
    by (auto simp: Let_def)
qed

theorem catch_up_bounded_witness:
  "let e = \<lparr>se_plugin = ''echo'', se_schedule_id = ''default'', se_command = ''poll'', se_status = EntryActive, se_reason = None,
         se_last_fired_at = Some 0, se_last_success_job_id = None, se_last_success_at = None, se_next_run_at = None,
         se_updated_at = 0\<rparr>;
       st = demo_state\<lparr>sd_db := empty_db\<lparr>schedule_entries := [(''echo'', ''default'') \<mapsto> e]\<rparr>\<rparr>
   in length (job_queue (sd_db (fst (catch_up_schedule demo_scheduler (150 * minute) ''echo'' default_plugin_conf demo_schedule st)))) = 2 \<and>
      length (job_queue (sd_db (fst (catch_up_schedule demo_scheduler (150 * minute) ''echo'' default_plugin_conf demo_schedule st)))) \<le>
        length (job_queue (sd_db st)) + 100"
proof -
  let ?e = "\<lparr>se_plugin = ''echo'', se_schedule_id = ''default'', se_command = ''poll'', se_status = EntryActive, se_reason = None,
         se_last_fired_at = Some 0, se_last_success_job_id = None, se_last_success_at = None, se_next_run_at = None,
         se_updated_at = 0\<rparr>"
  let ?st = "demo_state\<lparr>sd_db := empty_db\<lparr>schedule_entries := [(''echo'', ''default'') \<mapsto> ?e]\<rparr>\<rparr>"
  have "length (job_queue (sd_db (fst (catch_up_schedule demo_scheduler (150 * minute) ''echo'' default_plugin_conf demo_schedule ?st)))) = 2"
    by code_simp
  with catch_up_bounded [OF demo_sh, of ?st "150 * minute" "''echo''" default_plugin_conf demo_schedule] show ?thesis
    by (simp add: Let_def)
qed

end
