(* ===== verification/Event_Hub.thy ===== *)
theory Event_Hub
  imports Go_Time
begin

text \<open>
  The in-memory event hub, \<^verbatim>\<open>src/internal/events/hub.go\<close>: a ring buffer of the latest events for late
  clients, and one bounded channel per subscriber. The record \<open>hub\<close> has the fields of the Go struct. A
  publisher draws its number from the atomic counter before it takes the mutex, so publications overlap: \<open>draw_id\<close> and
  \<open>deliver\<close> are the two atomic parts of \<open>publish\<close>, and \<open>hub_run\<close> interleaves them freely with the operations of the
  subscribers. A channel is the list of the events its reader has not taken yet. The JSON encoding of an event's data is an argument of
  \<open>publish\<close>: the text, or \<^verbatim>\<open>None\<close> when there is no data or it does not encode.
\<close>

record hub_event =
  he_id :: int
  he_type :: string
  he_at :: instant
  he_data :: string

record hub =
  hb_next_id :: int
  hb_ring :: "hub_event list"
  hb_start :: nat
  hb_size :: nat
  hb_subs :: "(nat \<times> hub_event list) list"
  hb_next_sub_id :: nat

definition zero_event :: hub_event where
  "zero_event = \<lparr>he_id = 0, he_type = [], he_at = 0, he_data = []\<rparr>"

definition subscriber_buffer :: nat where
  "subscriber_buffer = 128"

definition new_hub :: "int \<Rightarrow> hub" where
  "new_hub capacity =
     \<lparr>hb_next_id = 0, hb_ring = replicate (nat (if capacity \<le> 0 then 100 else capacity)) zero_event, hb_start = 0,
      hb_size = 0, hb_subs = [], hb_next_sub_id = 0\<rparr>"

definition push_locked :: "hub_event \<Rightarrow> hub \<Rightarrow> hub" where
  "push_locked ev h =
     (let capacity = length (hb_ring h) in
      if capacity = 0 then h
      else if hb_size h < capacity
      then h\<lparr>hb_ring := (hb_ring h)[(hb_start h + hb_size h) mod capacity := ev], hb_size := Suc (hb_size h)\<rparr>
      else h\<lparr>hb_ring := (hb_ring h)[hb_start h := ev], hb_start := (hb_start h + 1) mod capacity\<rparr>)"

text \<open>\<^verbatim>\<open>select { case ch <- ev: default: }\<close>: a full channel drops the event.\<close>

definition offer :: "hub_event \<Rightarrow> hub_event list \<Rightarrow> hub_event list" where
  "offer ev ch = (if length ch < subscriber_buffer then ch @ [ev] else ch)"

text \<open>The atomic \<^verbatim>\<open>nextID.Add(1)\<close>, the event built outside the lock, and the part under the mutex.\<close>

definition draw_id :: "hub \<Rightarrow> hub \<times> int" where
  "draw_id h = (h\<lparr>hb_next_id := hb_next_id h + 1\<rparr>, hb_next_id h + 1)"

definition event_of :: "int \<Rightarrow> string \<Rightarrow> string option \<Rightarrow> instant \<Rightarrow> hub_event" where
  "event_of i ty data now = \<lparr>he_id = i, he_type = ty, he_at = now, he_data = (case data of None \<Rightarrow> ''{}'' | Some d \<Rightarrow> d)\<rparr>"

definition deliver :: "hub_event \<Rightarrow> hub \<Rightarrow> hub" where
  "deliver ev h = (let h1 = push_locked ev h in h1\<lparr>hb_subs := map (\<lambda>(i, ch). (i, offer ev ch)) (hb_subs h1)\<rparr>)"

text \<open>A publication that no other overlaps.\<close>

definition publish :: "string \<Rightarrow> string option \<Rightarrow> instant \<Rightarrow> hub \<Rightarrow> hub" where
  "publish ty data now h = (let (h1, i) = draw_id h in deliver (event_of i ty data now) h1)"

definition subscribe :: "hub \<Rightarrow> hub \<times> nat" where
  "subscribe h =
     (h\<lparr>hb_subs := hb_subs h @ [(hb_next_sub_id h, [])], hb_next_sub_id := Suc (hb_next_sub_id h)\<rparr>, hb_next_sub_id h)"

definition cancel_sub :: "nat \<Rightarrow> hub \<Rightarrow> hub" where
  "cancel_sub i h = h\<lparr>hb_subs := filter (\<lambda>(j, ch). j \<noteq> i) (hb_subs h)\<rparr>"

definition receive :: "nat \<Rightarrow> hub \<Rightarrow> hub \<times> hub_event option" where
  "receive i h =
     (case map_of (hb_subs h) i of
        Some (ev # ch) \<Rightarrow> (h\<lparr>hb_subs := map (\<lambda>(j, c). (j, if j = i then ch else c)) (hb_subs h)\<rparr>, Some ev)
      | _ \<Rightarrow> (h, None))"

definition snapshot_since :: "int \<Rightarrow> hub \<Rightarrow> hub_event list" where
  "snapshot_since last_id h =
     filter (\<lambda>ev. last_id = 0 \<or> he_id ev > last_id)
       (map (\<lambda>i. hb_ring h ! ((hb_start h + i) mod length (hb_ring h))) [0..<hb_size h])"

section \<open>The abstract buffer\<close>

text \<open>The contents of the ring, oldest first.\<close>

definition contents :: "hub \<Rightarrow> hub_event list" where
  "contents h = map (\<lambda>i. hb_ring h ! ((hb_start h + i) mod length (hb_ring h))) [0..<hb_size h]"

definition wf_hub :: "nat \<Rightarrow> hub \<Rightarrow> bool" where
  "wf_hub c h \<longleftrightarrow> c > 0 \<and> length (hb_ring h) = c \<and> hb_size h \<le> c \<and> hb_start h < c"

locale bounded_log =
  fixes push :: "'e \<Rightarrow> 'h \<Rightarrow> 'h" and items :: "'h \<Rightarrow> 'e list" and ok :: "'h \<Rightarrow> bool" and cap :: nat
  assumes push_ok: "ok h \<Longrightarrow> ok (push e h)"
    and push_items: "ok h \<Longrightarrow> items (push e h) = drop (Suc (length (items h)) - cap) (items h @ [e])"
    and items_cap: "ok h \<Longrightarrow> length (items h) \<le> cap"
begin

text \<open>A log that holds the latest \<open>cap\<close> items of a history keeps doing so.\<close>

lemma push_suffix:
  assumes "ok h" "items h = drop (length xs - cap) xs"
  shows "items (push e h) = drop (Suc (length xs) - cap) (xs @ [e])"
proof (cases "length xs < cap")
  case True
  then show ?thesis using assms push_items [OF assms(1), of e] by simp
next
  case False
  then show ?thesis using assms push_items [OF assms(1), of e] by (simp add: Suc_diff_le)
qed

end

lemma push_wf: "wf_hub c h \<Longrightarrow> wf_hub c (push_locked ev h)"
  by (auto simp: wf_hub_def push_locked_def Let_def)

lemma length_contents [simp]: "length (contents h) = hb_size h"
  by (simp add: contents_def)

lemma mod_add_inj:
  assumes "i < c" "j < c" "(s + i) mod c = (s + j) mod (c :: nat)"
  shows "i = j"
proof -
  have "a = b" if "a \<le> b" "b < c" "(s + a) mod c = (s + b) mod c" for a b
  proof -
    have "c dvd (s + b) - (s + a)" using that(1,3) by (metis add_le_cancel_left mod_eq_dvd_iff_nat)
    then have "c dvd b - a" by simp
    then show ?thesis using that(1,2) by (metis dvd_imp_le less_imp_diff_less not_le diff_is_0_eq' le_antisym neq0_conv zero_less_diff)
  qed
  from this [of i j] this [of j i] assms show ?thesis by (metis nle_le)
qed

lemma contents_nth: "i < hb_size h \<Longrightarrow> contents h ! i = hb_ring h ! ((hb_start h + i) mod length (hb_ring h))"
  by (simp add: contents_def)

lemma push_contents:
  assumes "wf_hub c h"
  shows "contents (push_locked ev h) = drop (Suc (length (contents h)) - c) (contents h @ [ev])"
proof (cases "hb_size h < c")
  case True
  have len: "length (hb_ring h) = c" "c > 0" using assms by (auto simp: wf_hub_def)
  have "hb_ring (push_locked ev h) ! ((hb_start h + i) mod c) = (contents h @ [ev]) ! i" if "i < Suc (hb_size h)" for i
    using that True len mod_add_inj [of i c "hb_size h" "hb_start h"]
    by (cases "i = hb_size h") (auto simp: push_locked_def Let_def contents_def nth_append nth_list_update)
  then show ?thesis using True len
    by (intro nth_equalityI) (auto simp: contents_nth push_locked_def Let_def)
next
  case False
  have len: "length (hb_ring h) = c" "c > 0" "hb_size h = c" "hb_start h < c" using assms False by (auto simp: wf_hub_def)
  have "hb_ring (push_locked ev h) ! (((hb_start h + 1) mod c + i) mod c) = (tl (contents h) @ [ev]) ! i" if i: "i < c" for i
  proof (cases "Suc i = c")
    case True
    then have "((hb_start h + 1) mod c + i) mod c = hb_start h" using len by (simp add: mod_simps) (metis add_Suc_right mod_add_self2 mod_less)
    then show ?thesis using True False len by (auto simp: push_locked_def Let_def contents_def nth_append)
  next
    case ne: False
    then have "((hb_start h + 1) mod c + i) mod c = (hb_start h + Suc i) mod c" by (simp add: mod_simps)
    moreover have "(hb_start h + Suc i) mod c \<noteq> hb_start h"
      using mod_add_inj [of "Suc i" c 0 "hb_start h"] i ne len by auto
    ultimately show ?thesis using False ne i len
      by (auto simp: push_locked_def Let_def contents_def nth_append nth_tl)
  qed
  then have "contents (push_locked ev h) = tl (contents h) @ [ev]"
    using False len by (intro nth_equalityI) (auto simp: contents_def push_locked_def Let_def)
  then show ?thesis using len by (simp add: drop_Suc)
qed

interpretation ring: bounded_log push_locked contents "wf_hub c" c for c
  by unfold_locales (simp_all add: push_wf push_contents, simp add: wf_hub_def)

section \<open>Runs of the hub\<close>

text \<open>\<open>hub_run capacity h drawn log\<close>: a run of a new hub reaches \<open>h\<close>; \<open>drawn\<close> are the numbers of the publishers that
  have drawn one and not yet taken the mutex, \<open>log\<close> the events delivered so far in the order of the mutex.\<close>

inductive hub_run :: "int \<Rightarrow> hub \<Rightarrow> int set \<Rightarrow> hub_event list \<Rightarrow> bool" for capacity where
  run_new: "hub_run capacity (new_hub capacity) {} []"
| run_draw: "hub_run capacity h drawn log \<Longrightarrow> draw_id h = (h', i) \<Longrightarrow> hub_run capacity h' (insert i drawn) log"
| run_deliver: "hub_run capacity h drawn log \<Longrightarrow> i \<in> drawn \<Longrightarrow> ev = event_of i ty data now \<Longrightarrow>
    hub_run capacity (deliver ev h) (drawn - {i}) (log @ [ev])"
| run_subscribe: "hub_run capacity h drawn log \<Longrightarrow> hub_run capacity (fst (subscribe h)) drawn log"
| run_cancel: "hub_run capacity h drawn log \<Longrightarrow> hub_run capacity (cancel_sub i h) drawn log"
| run_receive: "hub_run capacity h drawn log \<Longrightarrow> hub_run capacity (fst (receive i h)) drawn log"

lemma run_publish:
  assumes "hub_run capacity h drawn log" "hb_next_id h + 1 \<notin> drawn"
  shows "hub_run capacity (publish ty data now h) drawn (log @ [event_of (hb_next_id h + 1) ty data now])"
  using run_deliver [OF run_draw [OF assms(1)], of "fst (draw_id h)" "hb_next_id h + 1" "hb_next_id h + 1" _ ty data now] assms(2)
  by (simp add: publish_def draw_id_def)

definition ring_capacity :: "int \<Rightarrow> nat" where
  "ring_capacity c = nat (if c \<le> 0 then 100 else c)"

definition same_ring :: "hub \<Rightarrow> hub \<Rightarrow> bool" where
  "same_ring h h' \<longleftrightarrow> hb_ring h' = hb_ring h \<and> hb_start h' = hb_start h \<and> hb_size h' = hb_size h"

lemma same_ring_contents: "same_ring h h' \<Longrightarrow> contents h' = contents h \<and> wf_hub c h' = wf_hub c h"
  by (simp add: same_ring_def contents_def wf_hub_def)

lemma quiet_steps:
  "same_ring h (fst (draw_id h))" "same_ring h (fst (subscribe h))" "same_ring h (cancel_sub i h)"
  "same_ring h (fst (receive i h))" "same_ring (push_locked ev h) (deliver ev h)"
  by (auto simp: same_ring_def draw_id_def subscribe_def cancel_sub_def receive_def deliver_def Let_def
      split: option.split list.split)

lemma quiet_ids:
  "hb_next_id (fst (subscribe h)) = hb_next_id h" "hb_next_id (cancel_sub i h) = hb_next_id h"
  "hb_next_id (fst (receive i h)) = hb_next_id h" "hb_next_id (deliver ev h) = hb_next_id h"
  by (auto simp: subscribe_def cancel_sub_def receive_def deliver_def push_locked_def Let_def split: option.split list.split)

lemma new_hub_wf: "wf_hub (ring_capacity c) (new_hub c)"
  by (auto simp: wf_hub_def new_hub_def ring_capacity_def)

lemma run_ring:
  "hub_run capacity h drawn log \<Longrightarrow>
     wf_hub (ring_capacity capacity) h \<and> contents h = drop (length log - ring_capacity capacity) log"
proof (induction rule: hub_run.induct)
  case run_new
  then show ?case using new_hub_wf by (simp add: contents_def new_hub_def)
next
  case (run_draw h drawn log h' i)
  then show ?case using same_ring_contents [OF quiet_steps(1) [of h]] by simp
next
  case (run_deliver h drawn log i ev ty data now)
  let ?c = "ring_capacity capacity"
  have wf: "wf_hub ?c h" and items: "contents h = drop (length log - ?c) log" using run_deliver by auto
  have "wf_hub ?c (push_locked ev h)" "contents (push_locked ev h) = drop (Suc (length log) - ?c) (log @ [ev])"
    using ring.push_ok [OF wf] ring.push_suffix [OF wf items] by auto
  then show ?case using same_ring_contents [OF quiet_steps(5) [of ev h], of ?c] by simp
next
  case (run_subscribe h drawn log)
  then show ?case using same_ring_contents [OF quiet_steps(2) [of h]] by simp
next
  case (run_cancel h drawn log i)
  then show ?case using same_ring_contents [OF quiet_steps(3) [of h i]] by simp
next
  case (run_receive h drawn log i)
  then show ?case using same_ring_contents [OF quiet_steps(4) [of h i]] by simp
qed

lemma run_numbers:
  "hub_run capacity h drawn log \<Longrightarrow>
     distinct (map he_id log) \<and> he_id ` set log \<inter> drawn = {} \<and> he_id ` set log \<union> drawn = {1..hb_next_id h} \<and> 0 \<le> hb_next_id h"
proof (induction rule: hub_run.induct)
  case (run_draw h drawn log h' i)
  then have "i = hb_next_id h + 1" "hb_next_id h' = i" by (auto simp: draw_id_def)
  moreover have "{1..hb_next_id h + 1} = insert (hb_next_id h + 1) {1..hb_next_id h}" using run_draw.IH by auto
  moreover have "hb_next_id h + 1 \<notin> he_id ` set log"
    using run_draw.IH by (metis Un_iff atLeastAtMost_iff less_add_one linorder_not_le)
  ultimately show ?case using run_draw.IH by auto
next
  case (run_deliver h drawn log i ev ty data now)
  then show ?case by (auto simp: quiet_ids event_of_def)
qed (auto simp: new_hub_def quiet_ids)

text \<open>Consecutive numbers.\<close>

lemma sorted_numbers:
  assumes "sorted (map he_id xs)" "distinct (map he_id xs)" "he_id ` set xs = {1..n}" "0 \<le> n"
  shows "map he_id xs = [1..n]"
  using assms by (intro sorted_distinct_set_unique) auto

lemma filter_numbers:
  assumes "map he_id xs = [1..n]"
  shows "filter (\<lambda>ev. int k < he_id ev) (drop m xs) = drop (max k m) xs"
proof -
  have nth: "he_id (xs ! i) = 1 + int i" if "i < length xs" for i
  proof -
    have "he_id (xs ! i) = [1..n] ! i" using that assms by (metis nth_map)
    moreover have "1 + int i \<le> n" using that assms by (metis length_map length_upto add.commute diff_add_cancel zless_nat_eq_int_zless zless_imp_add1_zle)
    ultimately show ?thesis by (simp add: nth_upto)
  qed
  let ?late = "\<lambda>ev. int k < he_id ev" and ?ys = "drop m xs"
  have "filter ?late (take (k - m) ?ys) = []" "filter ?late (drop (k - m) ?ys) = drop (k - m) ?ys"
    using nth by (auto simp: filter_empty_conv filter_id_conv in_set_conv_nth)
  then have "filter ?late ?ys = drop (k - m) ?ys"
    by (metis append_Nil append_take_drop_id filter_append)
  then show ?thesis by (simp add: max_def)
qed

text \<open>C35. A late client loses only what the ring has overwritten or what its own resume point hides, however the
  publishers interleave: the snapshot since \<^verbatim>\<open>n\<close> is the last \<^verbatim>\<open>capacity\<close> delivered events, in the order in
  which they were delivered, without those numbered up to \<^verbatim>\<open>n\<close> (all of them for 0). No number is used twice, and every
  number drawn belongs to one delivered event or to one publisher still on its way to the mutex. When the publications were delivered in
  the order of their numbers, the snapshot since the \<^verbatim>\<open>k\<close>-th event is exactly the events after it.\<close>

theorem snapshot_since_exact:
  assumes "hub_run capacity h drawn log"
  shows "snapshot_since n h = filter (\<lambda>ev. n = 0 \<or> n < he_id ev) (drop (length log - ring_capacity capacity) log) \<and>
    distinct (map he_id log) \<and> he_id ` set log \<inter> drawn = {} \<and> he_id ` set log \<union> drawn = {1..hb_next_id h} \<and>
    (drawn = {} \<and> sorted (map he_id log) \<longrightarrow>
       snapshot_since (int k) h = drop (max k (length log - ring_capacity capacity)) log)"
proof -
  note numbers = run_numbers [OF assms]
  have snap: "snapshot_since i h = filter (\<lambda>ev. i = 0 \<or> i < he_id ev) (drop (length log - ring_capacity capacity) log)" for i
    using run_ring [OF assms] by (simp add: snapshot_since_def contents_def)
  have "snapshot_since (int k) h = drop (max k (length log - ring_capacity capacity)) log"
    if "drawn = {}" "sorted (map he_id log)"
  proof -
    have upto: "map he_id log = [1..hb_next_id h]" using numbers that by (intro sorted_numbers) auto
    then have "0 < he_id ev" if "ev \<in> set log" for ev using that numbers by (force simp: \<open>drawn = {}\<close>)
    then have "snapshot_since (int k) h = filter (\<lambda>ev. int k < he_id ev) (drop (length log - ring_capacity capacity) log)"
      unfolding snap by (intro filter_cong) (auto dest: in_set_dropD)
    then show ?thesis using filter_numbers [OF upto] by simp
  qed
  then show ?thesis using numbers snap [of n] by blast
qed

text \<open>Two publishers draw 1 and 2 and deliver in the other order, then a third publishes, into a ring of two.\<close>

definition overlapped_hub :: hub where
  "overlapped_hub = deliver (event_of 1 ''a'' None 2) (deliver (event_of 2 ''b'' None 1) (fst (draw_id (fst (draw_id (new_hub 2))))))"

lemma overlapped_run: "hub_run 2 overlapped_hub {} [event_of 2 ''b'' None 1, event_of 1 ''a'' None 2]"
proof -
  have "hub_run 2 (fst (draw_id (new_hub 2))) (insert 1 {}) []"
    by (rule run_draw [OF run_new]) (simp add: draw_id_def new_hub_def)
  then have "hub_run 2 (fst (draw_id (fst (draw_id (new_hub 2))))) (insert 2 (insert 1 {})) []"
    by (rule run_draw) (simp add: draw_id_def new_hub_def)
  then have "hub_run 2 (deliver (event_of 2 ''b'' None 1) (fst (draw_id (fst (draw_id (new_hub 2))))))
      (insert 2 (insert 1 {}) - {2}) ([] @ [event_of 2 ''b'' None 1])"
    by (rule run_deliver) simp_all
  from run_deliver [OF this _ refl, of 1 "''a''" None 2] show ?thesis by (simp add: overlapped_hub_def)
qed

theorem snapshot_since_exact_witness:
  "map he_type (snapshot_since 1 (publish ''c'' None 3 overlapped_hub)) = [''c'']"
proof -
  have "hub_run 2 (publish ''c'' None 3 overlapped_hub) {}
      ([event_of 2 ''b'' None 1, event_of 1 ''a'' None 2] @ [event_of (hb_next_id overlapped_hub + 1) ''c'' None 3])"
    by (rule run_publish [OF overlapped_run]) simp
  note exact = snapshot_since_exact [OF this, of 1]
  have "hb_next_id overlapped_hub = 2" "ring_capacity 2 = 2" by (code_simp)+
  then show ?thesis using exact by (simp add: event_of_def)
qed

text \<open>A client that saw event 2 and resumes from it never gets event 1, delivered after it and still in the ring.\<close>

lemma resume_misses_late_event:
  "map he_id (snapshot_since 0 overlapped_hub) = [2, 1] \<and> snapshot_since 2 overlapped_hub = []"
  by code_simp

end
