(* ===== verification/Plugin_Store.thy ===== *)
theory Plugin_Store
  imports Context_Ledger "HOL-Library.Product_Lexorder"
begin

text \<open>
  The plugin state store, \<^verbatim>\<open>src/internal/state/store.go\<close>: one JSON object per plugin
  (\<^verbatim>\<open>plugin_state\<close>), and the append-only log of plugin facts (\<^verbatim>\<open>plugin_facts\<close>) with its sequence
  counter. A state column holds a text that may be empty, invalid or a decoded value. The marshalled length
  \<open>jl\<close> of an object is a parameter, used by the size limit only. A failed transaction leaves
  the database as it was.
\<close>

record plugin_fact =
  pf_id :: string
  pf_seq :: "int option"
  pf_plugin :: string
  pf_type :: string
  pf_job_id :: string
  pf_command :: string
  pf_json :: raw_json
  pf_created_at :: instant

record store_db =
  plugin_states :: "string \<Rightarrow> (raw_json \<times> instant) option"
  plugin_facts :: "plugin_fact list"
  facts_sequence :: "int option"

datatype store_error =
    PluginNameEmpty | StoredStateInvalid string | DecodeFullState | DecodeStateUpdates | DecodeStoredState
  | StateTooLarge int | FactIDEmpty | FactTypeEmpty | FactJobIDEmpty | FactCommandEmpty | DecodeFact
  | InsertFact | UnsupportedView string

definition default_max_state_bytes :: int where
  "default_max_state_bytes = 1048576"

definition empty_store :: store_db where
  "empty_store = \<lparr>plugin_states = Map.empty, plugin_facts = [], facts_sequence = None\<rparr>"

definition store_get :: "string \<Rightarrow> store_db \<Rightarrow> store_error + raw_json" where
  "store_get p s =
     (if p = [] then Inl PluginNameEmpty
      else case plugin_states s p of
        None \<Rightarrow> Inr (RawJSON (GMap []))
      | Some (RawJSON v, _) \<Rightarrow> Inr (RawJSON v)
      | Some _ \<Rightarrow> Inl (StoredStateInvalid p))"

definition check_state_size :: "(gmap \<Rightarrow> int) \<Rightarrow> int \<Rightarrow> gmap \<Rightarrow> bool" where
  "check_state_size jl max_bytes m \<longleftrightarrow> \<not> jl m > max_bytes"

definition upsert_state ::
  "(gmap \<Rightarrow> int) \<Rightarrow> int \<Rightarrow> string \<Rightarrow> gmap \<Rightarrow> instant \<Rightarrow> store_db \<Rightarrow> store_error + store_db" where
  "upsert_state jl max_bytes p m ts s =
     (if \<not> check_state_size jl max_bytes m then Inl (StateTooLarge max_bytes)
      else Inr (s\<lparr>plugin_states := (plugin_states s)(p \<mapsto> (RawJSON (GMap m), ts))\<rparr>))"

definition store_set ::
  "(gmap \<Rightarrow> int) \<Rightarrow> int \<Rightarrow> instant \<Rightarrow> string \<Rightarrow> raw_json \<Rightarrow> store_db \<Rightarrow> store_db \<times> (store_error + gmap)" where
  "store_set jl max_bytes now p st s =
     (if p = [] then (s, Inl PluginNameEmpty)
      else case decode_object_or_empty st of
        None \<Rightarrow> (s, Inl DecodeFullState)
      | Some m \<Rightarrow>
         (case upsert_state jl max_bytes p m now s of Inl e \<Rightarrow> (s, Inl e) | Inr s1 \<Rightarrow> (s1, Inr m)))"

text \<open>\<^verbatim>\<open>maps.Copy\<close>.\<close>

definition copy_into :: "gmap \<Rightarrow> gmap \<Rightarrow> gmap" where
  "copy_into cur upd = fold (\<lambda>(k, v). map_put k v) upd cur"

definition shallow_merge ::
  "(gmap \<Rightarrow> int) \<Rightarrow> int \<Rightarrow> instant \<Rightarrow> string \<Rightarrow> raw_json \<Rightarrow> store_db \<Rightarrow> store_db \<times> (store_error + gmap)" where
  "shallow_merge jl max_bytes now p updates s =
     (if p = [] then (s, Inl PluginNameEmpty)
      else case decode_object_or_empty updates of
        None \<Rightarrow> (s, Inl DecodeStateUpdates)
      | Some upd \<Rightarrow>
         (case decode_object_or_empty (case plugin_states s p of None \<Rightarrow> RawJSON (GMap []) | Some (r, _) \<Rightarrow> r) of
            None \<Rightarrow> (s, Inl DecodeStoredState)
          | Some cur \<Rightarrow>
             (case upsert_state jl max_bytes p (copy_into cur upd) now s of
                Inl e \<Rightarrow> (s, Inl e) | Inr s1 \<Rightarrow> (s1, Inr (copy_into cur upd)))))"

definition next_storage_sequence :: "store_db \<Rightarrow> store_db \<times> int" where
  "next_storage_sequence s =
     (let n = (case facts_sequence s of None \<Rightarrow> 0 | Some v \<Rightarrow> v) + 1 in (s\<lparr>facts_sequence := Some n\<rparr>, n))"

definition reduce_compatibility_state :: "string \<Rightarrow> gmap \<Rightarrow> store_error + gmap option" where
  "reduce_compatibility_state view m =
     (if trim_space view = [] then Inr None
      else if trim_space view = ''mirror_object'' then Inr (Some m)
      else Inl (UnsupportedView view))"

text \<open>The \<^verbatim>\<open>created_at\<close> of a fact is set by every caller, so the zero-time default does not arise.\<close>

definition record_fact ::
  "(gmap \<Rightarrow> int) \<Rightarrow> int \<Rightarrow> plugin_fact \<Rightarrow> string \<Rightarrow> store_db \<Rightarrow> store_db \<times> (store_error + gmap option)" where
  "record_fact jl max_bytes pf view s =
     (if trim_space (pf_id pf) = [] then (s, Inl FactIDEmpty)
      else if trim_space (pf_plugin pf) = [] then (s, Inl PluginNameEmpty)
      else if trim_space (pf_type pf) = [] then (s, Inl FactTypeEmpty)
      else if trim_space (pf_job_id pf) = [] then (s, Inl FactJobIDEmpty)
      else if trim_space (pf_command pf) = [] then (s, Inl FactCommandEmpty)
      else case decode_object_or_empty (pf_json pf) of
        None \<Rightarrow> (s, Inl DecodeFact)
      | Some m \<Rightarrow>
         if \<not> check_state_size jl max_bytes m then (s, Inl (StateTooLarge max_bytes))
         else
           (case next_storage_sequence s of (s1, n) \<Rightarrow>
             if \<exists>f\<in>set (plugin_facts s1). pf_id f = pf_id pf then (s, Inl InsertFact)
             else
               let s2 = s1\<lparr>plugin_facts := plugin_facts s1 @ [pf\<lparr>pf_seq := Some n, pf_json := RawJSON (GMap m)\<rparr>]\<rparr>
               in case reduce_compatibility_state view m of
                    Inl e \<Rightarrow> (s, Inl e)
                  | Inr None \<Rightarrow> (s2, Inr None)
                  | Inr (Some v) \<Rightarrow>
                     (case upsert_state jl max_bytes (pf_plugin pf) v (pf_created_at pf) s2 of
                        Inl e \<Rightarrow> (s, Inl e) | Inr s3 \<Rightarrow> (s3, Inr (Some v)))))"

text \<open>\<^verbatim>\<open>ORDER BY CASE WHEN seq IS NULL THEN 1 ELSE 0 END, seq DESC, created_at DESC\<close>.\<close>

definition fact_order :: "plugin_fact \<Rightarrow> bool \<times> int \<times> string" where
  "fact_order f = (pf_seq f \<noteq> None, (case pf_seq f of None \<Rightarrow> 0 | Some n \<Rightarrow> n), rfc3339nano (pf_created_at f))"

definition list_facts :: "string \<Rightarrow> string \<Rightarrow> int \<Rightarrow> store_db \<Rightarrow> store_error + plugin_fact list" where
  "list_facts p ty limit s =
     (if trim_space p = [] then Inl PluginNameEmpty
      else Inr (take (nat (if limit \<le> 0 then 20 else limit))
        (rev (sort_key fact_order
          (filter (\<lambda>f. pf_plugin f = p \<and> (trim_space ty \<noteq> [] \<longrightarrow> pf_type f = ty)) (plugin_facts s))))))"

section \<open>Reachable stores\<close>

inductive store_reachable :: "(gmap \<Rightarrow> int) \<Rightarrow> int \<Rightarrow> store_db \<Rightarrow> bool" for jl max_bytes where
  init: "store_reachable jl max_bytes empty_store"
| set: "store_reachable jl max_bytes s \<Longrightarrow> store_reachable jl max_bytes (fst (store_set jl max_bytes now p r s))"
| merge: "store_reachable jl max_bytes s \<Longrightarrow> store_reachable jl max_bytes (fst (shallow_merge jl max_bytes now p r s))"
| fact: "store_reachable jl max_bytes s \<Longrightarrow> store_reachable jl max_bytes (fst (record_fact jl max_bytes f view s))"

definition facts_ok :: "store_db \<Rightarrow> bool" where
  "facts_ok s \<longleftrightarrow>
     list_all (\<lambda>f. pf_seq f \<noteq> None) (plugin_facts s) \<and>
     sorted_wrt (<) (map (the \<circ> pf_seq) (plugin_facts s)) \<and>
     (\<forall>f\<in>set (plugin_facts s). the (pf_seq f) \<le> (case facts_sequence s of None \<Rightarrow> 0 | Some n \<Rightarrow> n)) \<and>
     distinct (map pf_id (plugin_facts s))"

definition states_ok :: "(gmap \<Rightarrow> int) \<Rightarrow> int \<Rightarrow> store_db \<Rightarrow> bool" where
  "states_ok jl max_bytes s \<longleftrightarrow>
     (\<forall>p r ts. plugin_states s p = Some (r, ts) \<longrightarrow> (\<exists>m. r = RawJSON (GMap m) \<and> jl m \<le> max_bytes))"

lemma upsert_state_frame:
  "upsert_state jl mb p m ts s = Inr s' \<Longrightarrow> plugin_facts s' = plugin_facts s \<and> facts_sequence s' = facts_sequence s"
  "upsert_state jl mb p m ts s = Inr s' \<Longrightarrow> states_ok jl mb s \<Longrightarrow> states_ok jl mb s'"
  by (auto simp: upsert_state_def states_ok_def check_state_size_def split: if_splits) blast

lemma record_fact_cases:
  "fst (record_fact jl mb f view s) = s \<or>
   (\<exists>m n. n = (case facts_sequence s of None \<Rightarrow> 0 | Some v \<Rightarrow> v) + 1 \<and>
      (\<forall>g\<in>set (plugin_facts s). pf_id g \<noteq> pf_id f) \<and>
      plugin_facts (fst (record_fact jl mb f view s)) = plugin_facts s @ [f\<lparr>pf_seq := Some n, pf_json := RawJSON (GMap m)\<rparr>] \<and>
      facts_sequence (fst (record_fact jl mb f view s)) = Some n)"
  by (auto simp: record_fact_def next_storage_sequence_def Let_def split: option.splits sum.splits
      dest!: upsert_state_frame(1))

lemma record_fact_states: "states_ok jl mb s \<Longrightarrow> states_ok jl mb (fst (record_fact jl mb f view s))"
  by (auto simp: record_fact_def next_storage_sequence_def Let_def split: option.splits sum.splits
      elim!: upsert_state_frame(2)) (simp_all add: states_ok_def)

lemma store_reachable_ok: "store_reachable jl mb s \<Longrightarrow> facts_ok s \<and> states_ok jl mb s"
proof (induction rule: store_reachable.induct)
  case init
  show ?case by (simp add: facts_ok_def states_ok_def empty_store_def)
next
  case (set s now p r)
  then show ?case
    by (auto simp: store_set_def facts_ok_def split: option.splits sum.splits dest: upsert_state_frame)
next
  case (merge s now p r)
  then show ?case
    by (auto simp: shallow_merge_def facts_ok_def split: option.splits sum.splits dest: upsert_state_frame)
next
  case (fact s f view)
  have "facts_ok (fst (record_fact jl mb f view s))"
    using record_fact_cases [of jl mb f view s] fact.IH
    by (fastforce simp: facts_ok_def sorted_wrt_append)
  then show ?case using fact.IH record_fact_states by blast
qed

lemma facts_in_order:
  assumes "facts_ok s"
  shows "sort_key fact_order (filter P (plugin_facts s)) = filter P (plugin_facts s)"
proof (rule sort_key_increasing)
  have "sorted_wrt (\<lambda>f g. the (pf_seq f) < the (pf_seq g)) (plugin_facts s)"
    using assms by (simp add: facts_ok_def sorted_wrt_map)
  then have "sorted_wrt (\<lambda>f g. the (pf_seq f) < the (pf_seq g)) (filter P (plugin_facts s))"
    by (rule sorted_wrt_filter)
  moreover have "fact_order f < fact_order g"
    if "f \<in> set (filter P (plugin_facts s))" "g \<in> set (filter P (plugin_facts s))"
      "the (pf_seq f) < the (pf_seq g)" for f g
  proof -
    from that assms have "pf_seq f \<noteq> None" "pf_seq g \<noteq> None"
      by (simp_all add: facts_ok_def list_all_iff)
    then obtain m n where "pf_seq f = Some m" "pf_seq g = Some n" by blast
    then show ?thesis using that by (simp add: fact_order_def)
  qed
  ultimately show "sorted_wrt (<) (map fact_order (filter P (plugin_facts s)))"
    unfolding sorted_wrt_map by (rule sorted_wrt_mono_rel [rotated]) auto
qed

lemma list_facts_newest_first:
  "facts_ok s \<Longrightarrow> trim_space p \<noteq> [] \<Longrightarrow>
   list_facts p ty limit s =
     Inr (take (nat (if limit \<le> 0 then 20 else limit))
       (rev (filter (\<lambda>f. pf_plugin f = p \<and> (trim_space ty \<noteq> [] \<longrightarrow> pf_type f = ty)) (plugin_facts s))))"
  by (simp add: list_facts_def facts_in_order)

lemma reduce_mirror: "reduce_compatibility_state ''mirror_object'' m = Inr (Some m)"
  by (simp add: reduce_compatibility_state_def trim_space_def is_space_def)

lemma store_reachable_record:
  "store_reachable jl mb s \<Longrightarrow> record_fact jl mb f view s = (s', r) \<Longrightarrow> store_reachable jl mb s'"
  using store_reachable.fact [of jl mb s f view] by simp

text \<open>On every store the operations produce from an empty database, a fact recorded under
  the \<^verbatim>\<open>mirror_object\<close> view reads back three ways: its object is the plugin's state, it is the
  first fact \<^verbatim>\<open>ListFacts\<close> returns for its plugin, whatever the timestamps, and the facts recorded before
  follow it newest first; a failed recording changes nothing.\<close>

theorem recorded_fact_reads_back:
  assumes "store_reachable jl mb s" and "record_fact jl mb f ''mirror_object'' s = (s', r)"
  shows "(case r of
      Inl e \<Rightarrow> s' = s
    | Inr v \<Rightarrow> \<exists>m n. decode_object_or_empty (pf_json f) = Some m \<and> v = Some m \<and>
        store_get (pf_plugin f) s' = Inr (RawJSON (GMap m)) \<and>
        list_facts (pf_plugin f) [] (int k + 1) s' =
          Inr (f\<lparr>pf_seq := Some n, pf_json := RawJSON (GMap m)\<rparr> #
               take k (rev (filter (\<lambda>g. pf_plugin g = pf_plugin f) (plugin_facts s)))))"
proof (cases r)
  case (Inl e)
  then show ?thesis
    using assms(2) by (auto simp: record_fact_def next_storage_sequence_def reduce_mirror Let_def
        split: if_splits option.splits sum.splits)
next
  case (Inr v)
  have ok: "facts_ok s'"
    using store_reachable_ok [OF store_reachable_record [OF assms]] by simp
  obtain m where m: "decode_object_or_empty (pf_json f) = Some m" "v = Some m" "trim_space (pf_plugin f) \<noteq> []"
      "plugin_states s' (pf_plugin f) = Some (RawJSON (GMap m), pf_created_at f)"
      "plugin_facts s' = plugin_facts s @
         [f\<lparr>pf_seq := Some (snd (next_storage_sequence s)), pf_json := RawJSON (GMap m)\<rparr>]"
    using assms(2) Inr
    by (auto simp: record_fact_def next_storage_sequence_def reduce_mirror Let_def upsert_state_def
        split: if_splits option.splits sum.splits)
  have "nat (int k + 1) = Suc k" by simp
  moreover have "pf_plugin f \<noteq> []" using m(3) by auto
  ultimately show ?thesis
    using m Inr ok by (auto simp: list_facts_newest_first store_get_def)
qed

text \<open>Two recordings on an empty database: the second fact is the state and is listed first.\<close>

definition sample_fact :: "string \<Rightarrow> string \<Rightarrow> plugin_fact" where
  "sample_fact i v = \<lparr>pf_id = i, pf_seq = None, pf_plugin = ''watch'', pf_type = ''snapshot'', pf_job_id = ''j1'',
     pf_command = ''poll'', pf_json = RawJSON (GMap [(''n'', GStr v)]), pf_created_at = 0\<rparr>"

definition sample_store :: store_db where
  "sample_store = fst (record_fact (\<lambda>m. int (length m)) 9 (sample_fact ''a'' ''x'') ''mirror_object'' empty_store)"

theorem recorded_fact_reads_back_witness:
  "\<exists>s' n. record_fact (\<lambda>m. int (length m)) 9 (sample_fact ''b'' ''y'') ''mirror_object'' sample_store =
      (s', Inr (Some [(''n'', GStr ''y'')])) \<and>
     store_get ''watch'' s' = Inr (RawJSON (GMap [(''n'', GStr ''y'')])) \<and>
     list_facts ''watch'' [] 2 s' =
       Inr [(sample_fact ''b'' ''y'')\<lparr>pf_seq := Some n\<rparr>, (sample_fact ''a'' ''x'')\<lparr>pf_seq := Some 1\<rparr>]"
proof -
  have reach: "store_reachable (\<lambda>m. int (length m)) 9 sample_store"
    unfolding sample_store_def by (intro store_reachable.intros)
  have facts: "plugin_facts sample_store = [(sample_fact ''a'' ''x'')\<lparr>pf_seq := Some 1\<rparr>]"
    by code_simp
  define s' where
    "s' = fst (record_fact (\<lambda>m. int (length m)) 9 (sample_fact ''b'' ''y'') ''mirror_object'' sample_store)"
  have "snd (record_fact (\<lambda>m. int (length m)) 9 (sample_fact ''b'' ''y'') ''mirror_object'' sample_store) =
      Inr (Some [(''n'', GStr ''y'')])"
    by code_simp
  then have run: "record_fact (\<lambda>m. int (length m)) 9 (sample_fact ''b'' ''y'') ''mirror_object'' sample_store =
      (s', Inr (Some [(''n'', GStr ''y'')]))"
    by (simp add: s'_def prod_eq_iff)
  show ?thesis
    using recorded_fact_reads_back [OF reach run, where k = 1] run facts
    by (auto simp: sample_fact_def)
qed

end
