(* ===== verification/Stopwatch.thy ===== *)
theory Stopwatch
  imports Context_Ledger
begin

text \<open>
  Timing of plugin invocations: the capture value of \<^verbatim>\<open>src/internal/stopwatch/stopwatch.go\<close>
  and its ledger table, \<^verbatim>\<open>src/internal/state/stopwatch.go\<close>, \<^verbatim>\<open>stopwatch_prune.go\<close> and
  \<^verbatim>\<open>stopwatch_query.go\<close>. The clock is an argument of the operations that read it. The length \<open>jb\<close> of a
  marshalled list of sub-spans, and the text \<open>enc\<close> SQLite gives to a nested JSON value, are
  parameters.
\<close>

section \<open>Capture\<close>

definition max_subs_per_record :: int where "max_subs_per_record = 32"
definition max_subs_hard_upper :: int where "max_subs_hard_upper = 256"
definition max_subs_bytes_per_record :: int where "max_subs_bytes_per_record = 16 * 1024"

record sw_record =
  sr_plugin_id :: string
  sr_step_name :: string
  sr_attempt :: int
  sr_enter_wall_ns :: int
  sr_exit_wall_ns :: int
  sr_dur_ns :: int
  sr_runtime_pre_ns :: int
  sr_runtime_post_ns :: int
  sr_status :: string
  sr_subs :: "gmap list"

record stopwatch =
  sw_plugin_id :: string
  sw_step_name :: string
  sw_attempt :: int
  sw_enter_wall :: instant
  sw_pre_start :: instant
  sw_spawn_at :: "instant option"

definition new_stopwatch :: "string \<Rightarrow> string \<Rightarrow> int \<Rightarrow> instant \<Rightarrow> stopwatch" where
  "new_stopwatch plugin step attempt now =
     \<lparr>sw_plugin_id = plugin, sw_step_name = step, sw_attempt = attempt, sw_enter_wall = now,
      sw_pre_start = now, sw_spawn_at = None\<rparr>"

definition mark_spawn :: "instant \<Rightarrow> stopwatch option \<Rightarrow> stopwatch option" where
  "mark_spawn now s = map_option (\<lambda>w. w\<lparr>sw_spawn_at := Some now\<rparr>) s"

text \<open>\<^verbatim>\<open>Time.Sub\<close> saturates at the range of a 64-bit duration.\<close>

definition time_sub :: "instant \<Rightarrow> instant \<Rightarrow> duration" where
  "time_sub a b = max (- (2 ^ 63)) (min (2 ^ 63 - 1) (a - b))"

definition resolve_max_subs :: "int \<Rightarrow> int" where
  "resolve_max_subs n = (if n \<le> 0 \<or> n > max_subs_hard_upper then max_subs_per_record else n)"

definition cap_subs :: "(gmap list \<Rightarrow> int) \<Rightarrow> gmap list \<Rightarrow> int \<Rightarrow> gmap list" where
  "cap_subs jb subs max_subs =
     (let limit = resolve_max_subs max_subs;
          capped = (if int (length subs) > limit then take (nat limit) subs else subs)
      in if jb capped > max_subs_bytes_per_record then [] else capped)"

fun as_object :: "gval \<Rightarrow> gmap option" where
  "as_object (GMap m) = Some m"
| "as_object _ = None"

definition subs_from_response :: "(gmap list \<Rightarrow> int) \<Rightarrow> gval \<Rightarrow> int \<Rightarrow> gmap list" where
  "subs_from_response jb v max_subs =
     (case v of
        GList raw \<Rightarrow> cap_subs jb (List.map_filter as_object raw) max_subs
      | _ \<Rightarrow> [])"

definition finish ::
  "(gmap list \<Rightarrow> int) \<Rightarrow> stopwatch option \<Rightarrow> instant \<Rightarrow> string \<Rightarrow> duration \<Rightarrow> gmap list \<Rightarrow> sw_record" where
  "finish jb s exit_time st post_work subs =
     (case s of
        None \<Rightarrow> \<lparr>sr_plugin_id = [], sr_step_name = [], sr_attempt = 0, sr_enter_wall_ns = 0, sr_exit_wall_ns = 0,
           sr_dur_ns = 0, sr_runtime_pre_ns = 0, sr_runtime_post_ns = 0, sr_status = ''capture_error'', sr_subs = []\<rparr>
      | Some w \<Rightarrow>
         (case (case sw_spawn_at w of
                  Some sp \<Rightarrow> (time_sub sp (sw_pre_start w), time_sub exit_time sp)
                | None \<Rightarrow> (0, time_sub exit_time (sw_pre_start w))) of
            (pre, dur) \<Rightarrow>
              \<lparr>sr_plugin_id = sw_plugin_id w, sr_step_name = sw_step_name w, sr_attempt = sw_attempt w,
               sr_enter_wall_ns = sw_enter_wall w, sr_exit_wall_ns = exit_time, sr_dur_ns = dur,
               sr_runtime_pre_ns = pre, sr_runtime_post_ns = post_work, sr_status = st,
               sr_subs = cap_subs jb subs max_subs_per_record\<rparr>))"

section \<open>The ledger table\<close>

text \<open>The \<^verbatim>\<open>job_stopwatch\<close> rows in \<^verbatim>\<open>id\<close> order, and the last id the
  \<^verbatim>\<open>AUTOINCREMENT\<close> column gave out.\<close>

record sw_row =
  row_id :: int
  row_job_id :: string
  row_pipeline :: string
  row_instance :: string
  row_rec :: sw_record
  row_recorded_at :: instant

record sw_table =
  sw_rows :: "sw_row list"
  sw_last_id :: int

definition empty_stopwatch_table :: sw_table where
  "empty_stopwatch_table = \<lparr>sw_rows = [], sw_last_id = 0\<rparr>"

datatype sw_error = TimingJobIDEmpty

definition record_stopwatch ::
  "instant \<Rightarrow> string \<Rightarrow> sw_record \<Rightarrow> string \<Rightarrow> string \<Rightarrow> sw_table \<Rightarrow> sw_table \<times> (sw_error + unit)" where
  "record_stopwatch now jid rec pipeline inst t =
     (if jid = [] then (t, Inl TimingJobIDEmpty)
      else (t\<lparr>sw_rows := sw_rows t @ [\<lparr>row_id = sw_last_id t + 1, row_job_id = jid, row_pipeline = pipeline,
              row_instance = inst, row_rec = rec, row_recorded_at = now\<rparr>],
             sw_last_id := sw_last_id t + 1\<rparr>, Inr ()))"

record prune_filter =
  swf_older_than :: instant
  swf_plugin :: string
  swf_step_id :: string
  swf_status :: string

definition where_clause :: "prune_filter \<Rightarrow> sw_row \<Rightarrow> bool" where
  "where_clause f r \<longleftrightarrow>
     ts_less (row_recorded_at r) (swf_older_than f) \<and>
     (swf_plugin f \<noteq> [] \<longrightarrow> sr_plugin_id (row_rec r) = swf_plugin f) \<and>
     (swf_step_id f \<noteq> [] \<longrightarrow> sr_step_name (row_rec r) = swf_step_id f) \<and>
     (swf_status f \<noteq> [] \<longrightarrow> sr_status (row_rec r) = swf_status f)"

definition count_stopwatch_rows_matching :: "prune_filter \<Rightarrow> sw_table \<Rightarrow> int" where
  "count_stopwatch_rows_matching f t = int (length (filter (where_clause f) (sw_rows t)))"

definition row_limit :: "int \<Rightarrow> nat" where
  "row_limit limit = nat (if limit \<le> 0 then 5000 else limit)"

definition selected_ids :: "(sw_row \<Rightarrow> bool) \<Rightarrow> int \<Rightarrow> sw_table \<Rightarrow> int list" where
  "selected_ids P limit t = take (row_limit limit) (map row_id (sort_key row_id (filter P (sw_rows t))))"

definition prune_stopwatch_rows :: "prune_filter \<Rightarrow> int \<Rightarrow> sw_table \<Rightarrow> sw_table \<times> int" where
  "prune_stopwatch_rows f limit t =
     (let ids = selected_ids (where_clause f) limit t
      in (t\<lparr>sw_rows := filter (\<lambda>r. row_id r \<notin> set ids) (sw_rows t)\<rparr>,
          int (length (filter (\<lambda>r. row_id r \<in> set ids) (sw_rows t)))))"

text \<open>\<^verbatim>\<open>json_extract(value, '$.name')\<close>: a missing or null member is SQL's NULL, which neither
  equals nor differs from any text.\<close>

datatype sql_value = SqlNull | SqlText string | SqlNumber

definition span_name :: "(gval \<Rightarrow> string) \<Rightarrow> gmap \<Rightarrow> sql_value" where
  "span_name enc m =
     (case map_of m ''name'' of
        None \<Rightarrow> SqlNull
      | Some GNil \<Rightarrow> SqlNull
      | Some (GStr s) \<Rightarrow> SqlText s
      | Some (GList vs) \<Rightarrow> SqlText (enc (GList vs))
      | Some (GMap vs) \<Rightarrow> SqlText (enc (GMap vs))
      | Some _ \<Rightarrow> SqlNumber)"

definition name_equals :: "(gval \<Rightarrow> string) \<Rightarrow> string \<Rightarrow> gmap \<Rightarrow> bool" where
  "name_equals enc n m \<longleftrightarrow> span_name enc m = SqlText n"

definition name_differs :: "(gval \<Rightarrow> string) \<Rightarrow> string \<Rightarrow> gmap \<Rightarrow> bool" where
  "name_differs enc n m \<longleftrightarrow> span_name enc m \<noteq> SqlNull \<and> span_name enc m \<noteq> SqlText n"

definition has_clearable :: "(gval \<Rightarrow> string) \<Rightarrow> string \<Rightarrow> sw_row \<Rightarrow> bool" where
  "has_clearable enc n r \<longleftrightarrow>
     (if n = [] then sr_subs (row_rec r) \<noteq> [] else list_ex (name_equals enc n) (sr_subs (row_rec r)))"

definition count_stopwatch_subs_matching :: "(gval \<Rightarrow> string) \<Rightarrow> prune_filter \<Rightarrow> string \<Rightarrow> sw_table \<Rightarrow> int" where
  "count_stopwatch_subs_matching enc f n t =
     int (length (filter (\<lambda>r. where_clause f r \<and> has_clearable enc n r) (sw_rows t)))"

definition cleared_subs :: "(gval \<Rightarrow> string) \<Rightarrow> string \<Rightarrow> gmap list \<Rightarrow> gmap list" where
  "cleared_subs enc n subs = (if n = [] then [] else filter (name_differs enc n) subs)"

definition clear_stopwatch_subs ::
  "(gval \<Rightarrow> string) \<Rightarrow> prune_filter \<Rightarrow> string \<Rightarrow> int \<Rightarrow> sw_table \<Rightarrow> sw_table \<times> int" where
  "clear_stopwatch_subs enc f n limit t =
     (let ids = selected_ids (\<lambda>r. where_clause f r \<and> has_clearable enc n r) limit t
      in (t\<lparr>sw_rows := update_where (\<lambda>r. row_id r \<in> set ids)
              (\<lambda>r. r\<lparr>row_rec := (row_rec r)\<lparr>sr_subs := cleared_subs enc n (sr_subs (row_rec r))\<rparr>\<rparr>) (sw_rows t)\<rparr>,
          int (length (filter (\<lambda>r. row_id r \<in> set ids) (sw_rows t)))))"

text \<open>\<^verbatim>\<open>COUNT(*), MIN(recorded_at)\<close>: the minimum is taken over the texts.\<close>

definition stopwatch_snapshot :: "sw_table \<Rightarrow> int \<times> instant option" where
  "stopwatch_snapshot t =
     (int (length (sw_rows t)), map_option row_recorded_at (first_min (\<lambda>r. rfc3339nano (row_recorded_at r)) (sw_rows t)))"

definition stopwatch_rows_for_plugin :: "string \<Rightarrow> instant \<Rightarrow> sw_table \<Rightarrow> (string \<times> int \<times> instant \<times> gmap list) list" where
  "stopwatch_rows_for_plugin plugin since t =
     map (\<lambda>r. (sr_step_name (row_rec r), sr_dur_ns (row_rec r), row_recorded_at r, sr_subs (row_rec r)))
       (sort_key (\<lambda>r. rfc3339nano (row_recorded_at r))
         (filter (\<lambda>r. sr_plugin_id (row_rec r) = plugin \<and> ts_le since (row_recorded_at r)) (sw_rows t)))"

section \<open>Reachable ledgers\<close>

inductive sw_reachable :: "(gmap list \<Rightarrow> int) \<Rightarrow> (gval \<Rightarrow> string) \<Rightarrow> sw_table \<Rightarrow> bool" for jb enc where
  init: "sw_reachable jb enc empty_stopwatch_table"
| append: "sw_reachable jb enc t \<Longrightarrow>
    sw_reachable jb enc (fst (record_stopwatch now jid (finish jb w e st pw subs) pipeline inst t))"
| prune: "sw_reachable jb enc t \<Longrightarrow> sw_reachable jb enc (fst (prune_stopwatch_rows f limit t))"
| clear: "sw_reachable jb enc t \<Longrightarrow> sw_reachable jb enc (fst (clear_stopwatch_subs enc f n limit t))"

definition sw_ok :: "sw_table \<Rightarrow> bool" where
  "sw_ok t \<longleftrightarrow> sorted_wrt (<) (map row_id (sw_rows t)) \<and> list_all (\<lambda>r. row_id r \<le> sw_last_id t) (sw_rows t)"

lemma sorted_wrt_map_filter: "sorted_wrt P (map f xs) \<Longrightarrow> sorted_wrt P (map f (filter q xs))"
  by (simp add: sorted_wrt_map sorted_wrt_filter)

lemma prune_ok: "sw_ok t \<Longrightarrow> sw_ok (fst (prune_stopwatch_rows f limit t))"
  by (simp add: prune_stopwatch_rows_def sw_ok_def Let_def list_all_iff sorted_wrt_map_filter)

lemma clear_ids: "map row_id (sw_rows (fst (clear_stopwatch_subs enc f n limit t))) = map row_id (sw_rows t)"
  by (simp add: clear_stopwatch_subs_def Let_def map_update_where)

lemma sw_reachable_ok: "sw_reachable jb enc t \<Longrightarrow> sw_ok t"
proof (induction rule: sw_reachable.induct)
  case init
  show ?case by (simp add: sw_ok_def empty_stopwatch_table_def)
next
  case (append t now jid w e st pw subs pipeline inst)
  then show ?case
    by (force simp: sw_ok_def record_stopwatch_def list_all_iff sorted_wrt_append)
next
  case (prune t f limit)
  then show ?case by (simp add: prune_ok)
next
  case (clear t f n limit)
  let ?t = "fst (clear_stopwatch_subs enc f n limit t)"
  have "list_all (\<lambda>i. i \<le> sw_last_id t) (map row_id (sw_rows ?t))"
    using clear.IH by (simp add: clear_ids sw_ok_def list_all_iff)
  then have "list_all (\<lambda>r. row_id r \<le> sw_last_id t) (sw_rows ?t)"
    by (simp add: list.pred_map comp_def)
  moreover have "sw_last_id ?t = sw_last_id t" by (simp add: clear_stopwatch_subs_def Let_def)
  ultimately show ?case using clear.IH by (simp add: clear_ids sw_ok_def)
qed

lemma selected_ids_set:
  assumes "sw_ok t"
  shows "set (selected_ids P limit t) = row_id ` set (take (row_limit limit) (filter P (sw_rows t)))"
proof -
  have "sort_key row_id (filter P (sw_rows t)) = filter P (sw_rows t)"
    using assms by (intro sort_key_increasing) (simp add: sw_ok_def sorted_wrt_map_filter)
  then show ?thesis by (simp add: selected_ids_def take_map)
qed

lemma sw_distinct: "sw_ok t \<Longrightarrow> distinct (map row_id (filter P (sw_rows t)))"
  by (simp add: sw_ok_def strict_sorted_iff distinct_map_filter)

lemma selected_row_matches:
  assumes "sw_ok t" and "r \<in> set (sw_rows t)" and "row_id r \<in> row_id ` set (take n (filter P (sw_rows t)))"
  shows "P r"
proof -
  from assms(3) obtain q where q: "q \<in> set (filter P (sw_rows t))" "row_id q = row_id r"
    by (auto dest!: in_set_takeD)
  have "distinct (map row_id (sw_rows t))" using sw_distinct [OF assms(1), of "\<lambda>_. True"] by simp
  then have "q = r" using q assms(2) by (auto intro: distinct_map_in_eq)
  then show ?thesis using q(1) by simp
qed

lemma filter_absorb:
  "(\<And>x. x \<in> set xs \<Longrightarrow> q x \<Longrightarrow> p x) \<Longrightarrow> filter q xs = filter q (filter p xs)"
  by (auto intro: filter_cong)

text \<open>One call takes the first \<open>limit\<close> matching rows and leaves the others alone.\<close>

lemma prune_matching:
  assumes "sw_ok t"
  shows "filter (where_clause f) (sw_rows (fst (prune_stopwatch_rows f limit t))) =
      drop (row_limit limit) (filter (where_clause f) (sw_rows t))"
    and "snd (prune_stopwatch_rows f limit t) =
      min (int (row_limit limit)) (count_stopwatch_rows_matching f t)"
proof -
  let ?m = "filter (where_clause f) (sw_rows t)" and ?n = "row_limit limit"
  note key = filter_key_take_drop [OF sw_distinct [OF assms, of "where_clause f"], of ?n]
  show "filter (where_clause f) (sw_rows (fst (prune_stopwatch_rows f limit t))) = drop ?n ?m"
    using key(1) by (simp add: prune_stopwatch_rows_def Let_def selected_ids_set [OF assms] conj_commute)
  have "filter (\<lambda>r. row_id r \<in> row_id ` set (take ?n ?m)) (sw_rows t) =
      filter (\<lambda>r. row_id r \<in> row_id ` set (take ?n ?m)) ?m"
    by (rule filter_absorb) (rule selected_row_matches [OF assms])
  then show "snd (prune_stopwatch_rows f limit t) = min (int ?n) (count_stopwatch_rows_matching f t)"
    using key(2) by (simp add: prune_stopwatch_rows_def Let_def selected_ids_set [OF assms]
        count_stopwatch_rows_matching_def min.commute)
qed

lemma prune_others:
  assumes "sw_ok t"
  shows "filter (\<lambda>r. \<not> where_clause f r) (sw_rows (fst (prune_stopwatch_rows f limit t))) =
    filter (\<lambda>r. \<not> where_clause f r) (sw_rows t)"
proof -
  let ?ids = "row_id ` set (take (row_limit limit) (filter (where_clause f) (sw_rows t)))"
  have "filter (\<lambda>r. row_id r \<notin> ?ids \<and> \<not> where_clause f r) (sw_rows t) = filter (\<lambda>r. \<not> where_clause f r) (sw_rows t)"
    using selected_row_matches [OF assms, of _ "row_limit limit" "where_clause f"]
    by (intro filter_cong refl) metis
  then show ?thesis by (simp add: prune_stopwatch_rows_def Let_def selected_ids_set [OF assms])
qed

lemma prune_iterated:
  assumes "sw_ok t"
  shows "sw_ok (((\<lambda>t. fst (prune_stopwatch_rows f limit t)) ^^ k) t)"
    and "filter (where_clause f) (sw_rows (((\<lambda>t. fst (prune_stopwatch_rows f limit t)) ^^ k) t)) =
      drop (k * row_limit limit) (filter (where_clause f) (sw_rows t))"
    and "filter (\<lambda>r. \<not> where_clause f r) (sw_rows (((\<lambda>t. fst (prune_stopwatch_rows f limit t)) ^^ k) t)) =
      filter (\<lambda>r. \<not> where_clause f r) (sw_rows t)"
  by (induction k) (simp_all add: assms prune_ok prune_matching prune_others add.commute)

text \<open>On every ledger the operations produce, each prune call deletes exactly
  \<open>min limit count\<close> rows, where \<open>count\<close> is what the dry run reports, never a row
  outside the filter, and calling it again drains the backlog: once the calls add up to the count,
  exactly the rows outside the filter remain.\<close>

theorem stopwatch_prune_drains:
  assumes "sw_reachable jb enc t"
  shows "snd (prune_stopwatch_rows f limit t) =
      min (if limit \<le> 0 then 5000 else limit) (count_stopwatch_rows_matching f t) \<and>
    (count_stopwatch_rows_matching f t \<le> int k * (if limit \<le> 0 then 5000 else limit) \<longrightarrow>
      sw_rows (((\<lambda>t. fst (prune_stopwatch_rows f limit t)) ^^ k) t) = filter (\<lambda>r. \<not> where_clause f r) (sw_rows t))"
proof (intro conjI impI)
  have ok: "sw_ok t" using assms by (rule sw_reachable_ok)
  have lim: "(if limit \<le> 0 then 5000 else limit) = int (row_limit limit)" by (simp add: row_limit_def)
  show "snd (prune_stopwatch_rows f limit t) =
      min (if limit \<le> 0 then 5000 else limit) (count_stopwatch_rows_matching f t)"
    unfolding lim by (rule prune_matching(2) [OF ok])
  let ?rows = "sw_rows (((\<lambda>t. fst (prune_stopwatch_rows f limit t)) ^^ k) t)"
  assume "count_stopwatch_rows_matching f t \<le> int k * (if limit \<le> 0 then 5000 else limit)"
  then have "length (filter (where_clause f) (sw_rows t)) \<le> k * row_limit limit"
    unfolding lim count_stopwatch_rows_matching_def by (simp only: of_nat_mult [symmetric] of_nat_le_iff)
  then have "filter (where_clause f) ?rows = []"
    by (simp add: prune_iterated(2) [OF ok])
  then have "filter (\<lambda>r. \<not> where_clause f r) ?rows = ?rows"
    by (simp add: filter_empty_conv)
  then show "?rows = filter (\<lambda>r. \<not> where_clause f r) (sw_rows t)"
    using prune_iterated(3) [OF ok] by simp
qed

text \<open>Three rows of one plugin, of which one call with limit 2 and a second one remove all that match.\<close>

definition sample_timings :: "nat \<Rightarrow> sw_table" where
  "sample_timings n = fold (\<lambda>i t. fst (record_stopwatch (int i * 1000000000) ''job''
     (finish (\<lambda>_. 2) (mark_spawn 1 (Some (new_stopwatch ''p'' ''s'' 1 0))) 5 ''ok'' 0 []) [] [] t)) [0..<n] empty_stopwatch_table"

lemma sample_sw_reachable: "sw_reachable (\<lambda>_. 2) (\<lambda>_. []) (sample_timings n)"
  by (induction n) (simp_all add: sample_timings_def sw_reachable.init sw_reachable.append)

theorem stopwatch_prune_drains_witness:
  "snd (prune_stopwatch_rows \<lparr>swf_older_than = 10000000000, swf_plugin = ''p'', swf_step_id = [], swf_status = []\<rparr> 2
      (sample_timings 3)) = 2 \<and>
   sw_rows (((\<lambda>t. fst (prune_stopwatch_rows \<lparr>swf_older_than = 10000000000, swf_plugin = ''p'', swf_step_id = [], swf_status = []\<rparr> 2 t)) ^^ 2)
      (sample_timings 3)) = []"
proof -
  let ?f = "\<lparr>swf_older_than = 10000000000, swf_plugin = ''p'', swf_step_id = [], swf_status = []\<rparr>"
  have n: "count_stopwatch_rows_matching ?f (sample_timings 3) = 3" by code_simp
  have "filter (\<lambda>r. \<not> where_clause ?f r) (sw_rows (sample_timings 3)) = []" by code_simp
  then show ?thesis
    using stopwatch_prune_drains [OF sample_sw_reachable [of 3], where f = ?f and limit = 2 and k = 2] n by simp
qed

section \<open>Sub-spans\<close>

lemma cap_subs_bounds:
  "int (length (cap_subs jb subs n)) \<le> resolve_max_subs n \<and>
   (cap_subs jb subs n = [] \<or> jb (cap_subs jb subs n) \<le> max_subs_bytes_per_record) \<and>
   (\<exists>k. cap_subs jb subs n = take k subs)"
proof -
  have "0 \<le> resolve_max_subs n" by (simp add: resolve_max_subs_def max_subs_per_record_def)
  then show ?thesis
    by (auto simp: cap_subs_def Let_def intro: exI [of _ 0] exI [of _ "length subs"])
qed

text \<open>Whatever a plugin sends and whatever cap its manifest asks for, the sub-spans of the
  record are a prefix of the object entries it sent, at most 32 of them, and within the byte budget.\<close>

theorem stopwatch_subs_bounded:
  "length (sr_subs (finish jb w e st pw (subs_from_response jb v max_subs))) \<le> 32 \<and>
   (sr_subs (finish jb w e st pw (subs_from_response jb v max_subs)) = [] \<or>
    jb (sr_subs (finish jb w e st pw (subs_from_response jb v max_subs))) \<le> 16384) \<and>
   (\<exists>k. sr_subs (finish jb w e st pw (subs_from_response jb v max_subs)) =
      take k (case v of GList raw \<Rightarrow> List.map_filter as_object raw | _ \<Rightarrow> []))"
proof -
  let ?subs = "subs_from_response jb v max_subs"
  let ?raw = "case v of GList raw \<Rightarrow> List.map_filter as_object raw | _ \<Rightarrow> []"
  have "\<exists>k. ?subs = take k ?raw"
    using cap_subs_bounds by (cases v) (auto simp: subs_from_response_def)
  then have pre: "\<exists>k. cap_subs jb ?subs n = take k ?raw" for n
    using cap_subs_bounds [of jb ?subs n] by (metis take_take)
  show ?thesis
  proof (cases w)
    case None
    then show ?thesis by (auto simp: finish_def intro: exI [of _ 0])
  next
    case (Some s)
    then have "sr_subs (finish jb w e st pw ?subs) = cap_subs jb ?subs max_subs_per_record"
      by (simp add: finish_def split: option.split prod.split)
    then show ?thesis
      using cap_subs_bounds [of jb ?subs max_subs_per_record] pre
      by (auto simp: resolve_max_subs_def max_subs_per_record_def max_subs_hard_upper_def max_subs_bytes_per_record_def)
  qed
qed

text \<open>Removing the sub-spans with a given name also removes every sub-span that has no name: SQL's
  \<^verbatim>\<open>NULL != ?\<close> does not hold.\<close>

lemma clear_named_drops_unnamed:
  "n \<noteq> [] \<Longrightarrow> map_of m ''name'' = None \<Longrightarrow> m \<notin> set (cleared_subs enc n subs)"
  by (simp add: cleared_subs_def name_differs_def span_name_def)

lemma clear_keeps_other_names:
  "n \<noteq> [] \<Longrightarrow> map_of m ''name'' = Some (GStr n') \<Longrightarrow> n' \<noteq> n \<Longrightarrow> m \<in> set subs \<Longrightarrow> m \<in> set (cleared_subs enc n subs)"
  by (simp add: cleared_subs_def name_differs_def span_name_def)

end
