(* ===== verification/Vault.thy ===== *)
theory Vault
  imports Go_Value Go_Time "HOL-Library.Product_Lexorder"
begin

text \<open>
  The secret vault, \<^verbatim>\<open>src/internal/vault\<close>. The pure model of \<^verbatim>\<open>store.go\<close>, \<^verbatim>\<open>principal.go\<close>, \<^verbatim>\<open>secret.go\<close>,
  \<^verbatim>\<open>lifecycle.go\<close>, \<^verbatim>\<open>reserved.go\<close> and \<^verbatim>\<open>compose.go\<close> acts on \<open>vault_store\<close>, whose two maps are lists
  sorted by name. The owner of \<^verbatim>\<open>vault.go\<close>, \<^verbatim>\<open>lifecycle_owner.go\<close>, \<^verbatim>\<open>genesis.go\<close> and \<^verbatim>\<open>rotate_key.go\<close> keeps the
  resident model, the last persisted plaintext and the hash of the last blob. The age cipher is a
  parameter: \<open>seal m keys\<close> encrypts the document to some keys, \<open>open_blob key b\<close> decrypts. The YAML
  text of a document stands for the document. What the file system does with a write, and the tokens the
  random source mints, are arguments.
\<close>

section \<open>Data\<close>

record secret =
  sec_value :: string
  sec_authorized :: "string list"
  sec_status :: string
  sec_pattern :: string
  sec_roll_count :: int
  sec_created_at :: string
  sec_updated_at :: string
  sec_revoked_at :: string

record principal =
  pr_kind :: string
  pr_status :: string
  pr_nonce :: string

record vault_store =
  vs_secrets :: "(string \<times> secret) list"
  vs_principals :: "(string \<times> principal) list"

definition new_store :: vault_store where
  "new_store = \<lparr>vs_secrets = [], vs_principals = []\<rparr>"

datatype vault_error =
    InvalidName | InvalidKind | InvalidPattern | DuplicatePrincipal | UnknownPrincipal | PrincipalInactive
  | UnknownSecret | SecretRevoked | ReservedEntity | ValueImmutable | EmptyValue | ModifiedExternally
  | MintFailed | SealFailed | WriteError | NoBaseline vault_error | AlreadyExists | VerifyFailed | StageFailed | PromoteFailed

definition core_principal :: string where "core_principal = ''core''"
definition admin_token_secret :: string where "admin_token_secret = ''core-admin-token''"

definition is_reserved_secret :: "string \<Rightarrow> bool" where
  "is_reserved_secret n \<longleftrightarrow> n = admin_token_secret"

definition is_reserved_principal :: "string \<Rightarrow> bool" where
  "is_reserved_principal n \<longleftrightarrow> n = core_principal"

section \<open>Names\<close>

definition name_char :: "char \<Rightarrow> bool" where
  "name_char c \<longleftrightarrow> is_digit c \<or> (97 \<le> (of_char c :: nat) \<and> (of_char c :: nat) \<le> 122)"

text \<open>The expressions \<^verbatim>\<open>^[a-z0-9]+(-[a-z0-9]+)*$\<close> and \<^verbatim>\<open>^[a-z0-9]([a-z0-9_-]*[a-z0-9])?$\<close>.\<close>

definition principal_name_ok :: "string \<Rightarrow> bool" where
  "principal_name_ok n \<longleftrightarrow> list_all (\<lambda>p. p \<noteq> [] \<and> list_all name_char p) (split_on (CHR ''-'') n)"

definition secret_name_ok :: "string \<Rightarrow> bool" where
  "secret_name_ok n \<longleftrightarrow>
     n \<noteq> [] \<and> name_char (hd n) \<and> name_char (last n) \<and>
     list_all (\<lambda>c. name_char c \<or> c = CHR ''_'' \<or> c = CHR ''-'') n"

definition valid_kind :: "string \<Rightarrow> bool" where
  "valid_kind k \<longleftrightarrow> k = ''plugin'' \<or> k = ''consumer'' \<or> k = ''gateway''"

definition valid_pattern :: "string \<Rightarrow> bool" where
  "valid_pattern p \<longleftrightarrow> p = ''auto'' \<or> p = ''manual''"

definition valid_status :: "string \<Rightarrow> bool" where
  "valid_status s \<longleftrightarrow> s = ''active'' \<or> s = ''revoked''"

section \<open>The pure model\<close>

definition register_principal :: "string \<Rightarrow> string \<Rightarrow> vault_store \<Rightarrow> vault_error + vault_store" where
  "register_principal n kind s =
     (if is_reserved_principal n then Inl ReservedEntity
      else if \<not> principal_name_ok n then Inl InvalidName
      else if \<not> valid_kind kind then Inl InvalidKind
      else if map_get (vs_principals s) n \<noteq> None then Inl DuplicatePrincipal
      else Inr (s\<lparr>vs_principals := map_put n \<lparr>pr_kind = kind, pr_status = ''active'', pr_nonce = []\<rparr> (vs_principals s)\<rparr>))"

definition put_secret :: "string \<Rightarrow> secret \<Rightarrow> vault_store \<Rightarrow> vault_store" where
  "put_secret n x s = s\<lparr>vs_secrets := map_put n x (vs_secrets s)\<rparr>"

text \<open>A nil list of grants leaves the grants of an existing secret alone.\<close>

definition set_secret ::
  "string \<Rightarrow> string \<Rightarrow> string list option \<Rightarrow> string \<Rightarrow> instant \<Rightarrow> vault_store \<Rightarrow> vault_error + vault_store" where
  "set_secret n val grants pattern now s =
     (if \<not> secret_name_ok n then Inl InvalidName
      else if is_reserved_secret n then Inl ReservedEntity
      else if pattern \<noteq> [] \<and> \<not> valid_pattern pattern then Inl InvalidPattern
      else if \<not> list_all (\<lambda>p. map_get (vs_principals s) p \<noteq> None) (case grants of None \<Rightarrow> [] | Some g \<Rightarrow> g)
      then Inl UnknownPrincipal
      else case map_get (vs_secrets s) n of
        Some x \<Rightarrow>
          if sec_status x = ''revoked'' then Inl SecretRevoked
          else if val \<noteq> [] \<and> val \<noteq> sec_value x then Inl ValueImmutable
          else Inr (put_secret n
            (x\<lparr>sec_authorized := (case grants of None \<Rightarrow> sec_authorized x | Some g \<Rightarrow> g),
               sec_pattern := (if pattern \<noteq> [] then pattern else sec_pattern x),
               sec_updated_at := rfc3339 now\<rparr>) s)
      | None \<Rightarrow>
          let pat = (if pattern = [] then ''manual'' else pattern) in
          if val = [] \<and> pat \<noteq> ''auto'' then Inl EmptyValue
          else Inr (put_secret n
            \<lparr>sec_value = val, sec_authorized = (case grants of None \<Rightarrow> [] | Some g \<Rightarrow> g), sec_status = ''active'',
             sec_pattern = pat, sec_roll_count = 0, sec_created_at = rfc3339 now, sec_updated_at = rfc3339 now,
             sec_revoked_at = []\<rparr> s))"

definition roll_secret :: "string \<Rightarrow> string \<Rightarrow> instant \<Rightarrow> vault_store \<Rightarrow> vault_error + vault_store" where
  "roll_secret n val now s =
     (if is_reserved_secret n then Inl ReservedEntity
      else case map_get (vs_secrets s) n of
        None \<Rightarrow> Inl UnknownSecret
      | Some x \<Rightarrow>
          if sec_status x = ''revoked'' then Inl SecretRevoked
          else Inr (put_secret n
            (x\<lparr>sec_value := val, sec_roll_count := sec_roll_count x + 1, sec_updated_at := rfc3339 now\<rparr>) s))"

definition revoke_secret :: "string \<Rightarrow> instant \<Rightarrow> vault_store \<Rightarrow> vault_error + vault_store" where
  "revoke_secret n now s =
     (if is_reserved_secret n then Inl ReservedEntity
      else case map_get (vs_secrets s) n of
        None \<Rightarrow> Inl UnknownSecret
      | Some x \<Rightarrow>
          if sec_status x = ''revoked'' then Inr s
          else Inr (put_secret n (x\<lparr>sec_status := ''revoked'', sec_value := [], sec_revoked_at := rfc3339 now\<rparr>) s))"

definition revoke_principal :: "string \<Rightarrow> vault_store \<Rightarrow> vault_error + vault_store" where
  "revoke_principal n s =
     (if is_reserved_principal n then Inl ReservedEntity
      else case map_get (vs_principals s) n of
        None \<Rightarrow> Inl UnknownPrincipal
      | Some p \<Rightarrow> Inr (s\<lparr>vs_principals := map_put n (p\<lparr>pr_status := ''revoked''\<rparr>) (vs_principals s)\<rparr>))"

text \<open>\<^verbatim>\<open>slices.Delete\<close> at \<^verbatim>\<open>slices.Index\<close>: the first occurrence.\<close>

definition purge_principal :: "string \<Rightarrow> vault_store \<Rightarrow> vault_error + vault_store" where
  "purge_principal n s =
     (if is_reserved_principal n then Inl ReservedEntity
      else if map_get (vs_principals s) n = None then Inl UnknownPrincipal
      else Inr (s\<lparr>vs_principals := filter (\<lambda>(m, p). m \<noteq> n) (vs_principals s),
                  vs_secrets := map (\<lambda>(m, x). (m, x\<lparr>sec_authorized := remove1 n (sec_authorized x)\<rparr>)) (vs_secrets s)\<rparr>))"

definition seed_core_principal :: "string \<Rightarrow> vault_store \<Rightarrow> vault_store" where
  "seed_core_principal nonce s =
     s\<lparr>vs_principals := map_put core_principal \<lparr>pr_kind = ''gateway'', pr_status = ''active'', pr_nonce = nonce\<rparr> (vs_principals s)\<rparr>"

definition rotate_admin_token :: "string \<Rightarrow> instant \<Rightarrow> vault_store \<Rightarrow> vault_store" where
  "rotate_admin_token val now s =
     put_secret admin_token_secret
       (case map_get (vs_secrets s) admin_token_secret of
          Some x \<Rightarrow> x\<lparr>sec_value := val, sec_authorized := [], sec_status := ''active'',
                       sec_roll_count := sec_roll_count x + 1, sec_updated_at := rfc3339 now\<rparr>
        | None \<Rightarrow> \<lparr>sec_value = val, sec_authorized = [], sec_status = ''active'', sec_pattern = ''auto'', sec_roll_count = 0,
                     sec_created_at = rfc3339 now, sec_updated_at = rfc3339 now, sec_revoked_at = []\<rparr>) s"

record composition =
  co_secrets :: "(string \<times> string) list"
  co_denials :: "string list"

definition compose :: "string \<Rightarrow> vault_store \<Rightarrow> vault_error + composition" where
  "compose p s =
     (case map_get (vs_principals s) p of
        None \<Rightarrow> Inl UnknownPrincipal
      | Some pr \<Rightarrow>
         if pr_status pr \<noteq> ''active'' then Inl PrincipalInactive
         else
           let mine = filter (\<lambda>(n, x). p \<in> set (sec_authorized x)) (vs_secrets s) in
           Inr \<lparr>co_secrets = map (\<lambda>(n, x). (n, sec_value x)) (filter (\<lambda>(n, x). sec_status x = ''active'') mine),
                co_denials = map fst (filter (\<lambda>(n, x). sec_status x \<noteq> ''active'') mine)\<rparr>)"

definition authenticate_admin :: "string \<Rightarrow> vault_store \<Rightarrow> bool" where
  "authenticate_admin presented s =
     (case map_get (vs_secrets s) admin_token_secret of
        Some x \<Rightarrow> sec_status x = ''active'' \<and> presented = sec_value x
      | None \<Rightarrow> False)"

section \<open>Operator operations\<close>

definition rolled_value :: "string option \<Rightarrow> string \<Rightarrow> string \<Rightarrow> vault_store \<Rightarrow> vault_error + string" where
  "rolled_value minted n operator_value s =
     (case map_get (vs_secrets s) n of
        None \<Rightarrow> Inl UnknownSecret
      | Some x \<Rightarrow>
         if sec_pattern x = ''auto'' then (case minted of None \<Rightarrow> Inl MintFailed | Some t \<Rightarrow> Inr t)
         else Inr operator_value)"

definition roll_op :: "string option \<Rightarrow> string \<Rightarrow> string \<Rightarrow> instant \<Rightarrow> vault_store \<Rightarrow> vault_error + vault_store" where
  "roll_op minted n operator_value now s =
     bind_result (rolled_value minted n operator_value s) (\<lambda>v. roll_secret n v now s)"

text \<open>The loop of \<^verbatim>\<open>RollPrincipal\<close> over the secret names: it may fail after it has changed the model. The
  tokens are minted in the order of the list.\<close>

fun roll_each ::
  "string \<Rightarrow> instant \<Rightarrow> string option list \<Rightarrow> string list \<Rightarrow> vault_store \<Rightarrow> vault_store \<times> (vault_error + string list \<times> string list)" where
  "roll_each p now mints [] s = (s, Inr ([], []))"
| "roll_each p now mints (n # ns) s =
     (case map_get (vs_secrets s) n of
        None \<Rightarrow> roll_each p now mints ns s
      | Some x \<Rightarrow>
         if p \<notin> set (sec_authorized x) \<or> sec_status x = ''revoked'' then roll_each p now mints ns s
         else if sec_pattern x \<noteq> ''auto'' then
           (case roll_each p now mints ns s of
              (s1, Inr (rolled, skipped)) \<Rightarrow> (s1, Inr (rolled, n # skipped)) | r \<Rightarrow> r)
         else
           (case mints of
              Some t # later \<Rightarrow>
                (case roll_secret n t now s of
                   Inl e \<Rightarrow> (s, Inl e)
                 | Inr s1 \<Rightarrow>
                    (case roll_each p now later ns s1 of
                       (s2, Inr (rolled, skipped)) \<Rightarrow> (s2, Inr (n # rolled, skipped)) | r \<Rightarrow> r))
            | _ \<Rightarrow> (s, Inl MintFailed)))"

definition roll_principal_model ::
  "string \<Rightarrow> instant \<Rightarrow> string option list \<Rightarrow> vault_store \<Rightarrow> vault_store \<times> (vault_error + string list \<times> string list)" where
  "roll_principal_model p now mints s =
     (if map_get (vs_principals s) p = None then (s, Inl UnknownPrincipal)
      else roll_each p now mints (map fst (vs_secrets s)) s)"

text \<open>\<^verbatim>\<open>Check\<close>: the integrity issues of a document as (kind, target, detail), sorted; the quoting of \<^verbatim>\<open>%q\<close>
  is not spelled out.\<close>

definition secret_issues :: "vault_store \<Rightarrow> string \<times> secret \<Rightarrow> (string \<times> string \<times> string) list" where
  "secret_issues s nx =
     (case nx of (n, x) \<Rightarrow>
       (if valid_status (sec_status x) then [] else [(''secret'', n, ''invalid status '' @ sec_status x)]) @
       (if valid_pattern (sec_pattern x) then [] else [(''secret'', n, ''invalid pattern '' @ sec_pattern x)]) @
       map (\<lambda>p. (''secret'', n, ''authorizes unregistered principal '' @ p))
         (filter (\<lambda>p. map_get (vs_principals s) p = None) (sec_authorized x)))"

definition principal_issues :: "string \<times> principal \<Rightarrow> (string \<times> string \<times> string) list" where
  "principal_issues np =
     (case np of (n, p) \<Rightarrow>
       (if valid_kind (pr_kind p) then [] else [(''principal'', n, ''invalid kind '' @ pr_kind p)]) @
       (if valid_status (pr_status p) then [] else [(''principal'', n, ''invalid status '' @ pr_status p)]))"

definition check_store :: "vault_store \<Rightarrow> (string \<times> string \<times> string) list" where
  "check_store s =
     sort (concat (map (secret_issues s) (vs_secrets s)) @ concat (map principal_issues (vs_principals s)))"

section \<open>The owner\<close>

text \<open>\<^verbatim>\<open>writeFileAtomic\<close> succeeds, fails before the rename, or renames the new blob into place and then fails
  to sync the directory, which it also reports as an error.\<close>

datatype write_outcome = WriteOk | WriteFailed | WriteUnsynced

record ('b, 'k) vault =
  va_store :: vault_store
  va_last :: "vault_store option"
  va_last_hash :: "string option"
  va_keys :: "'k list"
  va_disk :: "'b option"

definition write_blob :: "write_outcome \<Rightarrow> 'b \<Rightarrow> 'b option \<Rightarrow> 'b option" where
  "write_blob w b d = (if w = WriteFailed then d else Some b)"

definition disk_unchanged :: "('b \<Rightarrow> string) \<Rightarrow> ('b, 'k) vault \<Rightarrow> bool" where
  "disk_unchanged hash v =
     (case va_last_hash v of None \<Rightarrow> True
      | Some h \<Rightarrow> (case va_disk v of None \<Rightarrow> True | Some b \<Rightarrow> hash b = h))"

definition save ::
  "('b \<Rightarrow> string) \<Rightarrow> (vault_store \<Rightarrow> 'k list \<Rightarrow> 'b option) \<Rightarrow> write_outcome \<Rightarrow> ('b, 'k) vault
   \<Rightarrow> ('b, 'k) vault \<times> (vault_error + unit)" where
  "save hash seal w v =
     (if va_last v = Some (va_store v) then (v, Inr ())
      else if \<not> disk_unchanged hash v then (v, Inl ModifiedExternally)
      else case seal (va_store v) (va_keys v) of
        None \<Rightarrow> (v, Inl SealFailed)
      | Some b \<Rightarrow>
         let v1 = v\<lparr>va_disk := write_blob w b (va_disk v)\<rparr> in
         if w = WriteOk then (v1\<lparr>va_last := Some (va_store v), va_last_hash := Some (hash b)\<rparr>, Inr ())
         else (v1, Inl WriteError))"

definition restore_from_last :: "vault_error \<Rightarrow> ('b, 'k) vault \<Rightarrow> ('b, 'k) vault \<times> (vault_error + 'a)" where
  "restore_from_last e v =
     (case va_last v of None \<Rightarrow> (v, Inl (NoBaseline e)) | Some s \<Rightarrow> (v\<lparr>va_store := s\<rparr>, Inl e))"

definition mutate ::
  "('b \<Rightarrow> string) \<Rightarrow> (vault_store \<Rightarrow> 'k list \<Rightarrow> 'b option) \<Rightarrow> write_outcome
   \<Rightarrow> (vault_store \<Rightarrow> vault_error + vault_store) \<Rightarrow> ('b, 'k) vault \<Rightarrow> ('b, 'k) vault \<times> (vault_error + unit)" where
  "mutate hash seal w fn v =
     (case fn (va_store v) of
        Inl e \<Rightarrow> (v, Inl e)
      | Inr s1 \<Rightarrow>
         (case save hash seal w (v\<lparr>va_store := s1\<rparr>) of
            (v1, Inl e) \<Rightarrow> restore_from_last e v1
          | (v1, Inr u) \<Rightarrow> (v1, Inr u)))"

definition mutate_r ::
  "('b \<Rightarrow> string) \<Rightarrow> (vault_store \<Rightarrow> 'k list \<Rightarrow> 'b option) \<Rightarrow> write_outcome
   \<Rightarrow> (vault_store \<Rightarrow> vault_store \<times> (vault_error + 'r)) \<Rightarrow> ('b, 'k) vault \<Rightarrow> ('b, 'k) vault \<times> (vault_error + 'r)" where
  "mutate_r hash seal w fn v =
     (case fn (va_store v) of
        (s1, Inl e) \<Rightarrow> restore_from_last e (v\<lparr>va_store := s1\<rparr>)
      | (s1, Inr r) \<Rightarrow>
         (case save hash seal w (v\<lparr>va_store := s1\<rparr>) of
            (v1, Inl e) \<Rightarrow> restore_from_last e v1
          | (v1, Inr _) \<Rightarrow> (v1, Inr r)))"

datatype vault_op =
    OpSet string string "string list option" string instant
  | OpRoll "string option" string string instant
  | OpRegister string string
  | OpRevoke string instant
  | OpRevokePrincipal string
  | OpPurgePrincipal string
  | OpRotateAdminToken "string option" instant
  | OpRollPrincipal string "string option list" instant

fun op_model :: "vault_op \<Rightarrow> vault_store \<Rightarrow> vault_error + vault_store" where
  "op_model (OpSet n val g pat now) s = set_secret n val g pat now s"
| "op_model (OpRoll minted n val now) s = roll_op minted n val now s"
| "op_model (OpRegister n k) s = register_principal n k s"
| "op_model (OpRevoke n now) s = revoke_secret n now s"
| "op_model (OpRevokePrincipal n) s = revoke_principal n s"
| "op_model (OpPurgePrincipal n) s = purge_principal n s"
| "op_model (OpRotateAdminToken minted now) s =
     (case minted of None \<Rightarrow> Inl MintFailed | Some t \<Rightarrow> Inr (rotate_admin_token t now s))"
| "op_model (OpRollPrincipal p mints now) s =
     (case roll_principal_model p now mints s of (s1, Inl e) \<Rightarrow> Inl e | (s1, Inr r) \<Rightarrow> Inr s1)"

definition vault_do ::
  "('b \<Rightarrow> string) \<Rightarrow> (vault_store \<Rightarrow> 'k list \<Rightarrow> 'b option) \<Rightarrow> write_outcome \<Rightarrow> vault_op \<Rightarrow> ('b, 'k) vault
   \<Rightarrow> ('b, 'k) vault \<times> (vault_error + unit)" where
  "vault_do hash seal w op v =
     (case op of
        OpRollPrincipal p mints now \<Rightarrow>
          (case mutate_r hash seal w (roll_principal_model p now mints) v of (v1, r) \<Rightarrow> (v1, map_sum id (\<lambda>_. ()) r))
      | _ \<Rightarrow> mutate hash seal w (op_model op) v)"

definition vault_init ::
  "('b \<Rightarrow> string) \<Rightarrow> (vault_store \<Rightarrow> 'k list \<Rightarrow> 'b option) \<Rightarrow> write_outcome \<Rightarrow> 'k list \<Rightarrow> 'b option
   \<Rightarrow> string option \<Rightarrow> string option \<Rightarrow> instant \<Rightarrow> 'b option \<times> (vault_error + ('b, 'k) vault \<times> string)" where
  "vault_init hash seal w keys disk nonce token now =
     (if disk \<noteq> None then (disk, Inl AlreadyExists)
      else case (nonce, token) of
        (Some nc, Some t) \<Rightarrow>
          (case save hash seal w \<lparr>va_store = rotate_admin_token t now (seed_core_principal nc new_store),
              va_last = None, va_last_hash = None, va_keys = keys, va_disk = disk\<rparr> of
             (v, Inl e) \<Rightarrow> (va_disk v, Inl e)
           | (v, Inr _) \<Rightarrow> (va_disk v, Inr (v, t)))
      | _ \<Rightarrow> (disk, Inl MintFailed))"

text \<open>\<^verbatim>\<open>Load\<close>: the baseline is the document just decrypted.\<close>

definition vault_load ::
  "('b \<Rightarrow> string) \<Rightarrow> ('k \<Rightarrow> 'b \<Rightarrow> vault_store option) \<Rightarrow> 'k list \<Rightarrow> 'b option \<Rightarrow> ('b, 'k) vault option" where
  "vault_load hash open_blob keys disk =
     (case disk of None \<Rightarrow> None
      | Some b \<Rightarrow>
         (case List.map_filter (\<lambda>k. open_blob k b) keys of
            [] \<Rightarrow> None
          | m # _ \<Rightarrow> Some \<lparr>va_store = m, va_last = Some m, va_last_hash = Some (hash b), va_keys = keys, va_disk = disk\<rparr>))"

section \<open>Key rotation\<close>

text \<open>What the file system and the cipher do during one \<^verbatim>\<open>RotateKey\<close>: the outcomes of the three blob writes
  and of the staging of the key, whether the blob and the staged key read back, whether the
  rename of the key succeeds, and whether that rename has reached the disk before the final blob does: the code
  syncs the directory of the blob but not the one of the key file.\<close>

record rotation_env =
  re_bridge :: write_outcome
  re_blob_readable :: bool
  re_rollback :: write_outcome
  re_stage :: write_outcome
  re_staged_readable :: bool
  re_promote :: bool
  re_promote_durable :: bool
  re_final :: write_outcome

text \<open>The states of the disk, blob and boot key, in the order a rotation goes through them; a crash stops at
  one of them. While the rename of the key is not durable, a crash after the final blob finds the old key again.\<close>

definition rotate_key ::
  "(vault_store \<Rightarrow> 'k list \<Rightarrow> 'b option) \<Rightarrow> ('k \<Rightarrow> 'b \<Rightarrow> vault_store option) \<Rightarrow> rotation_env \<Rightarrow> 'k list \<Rightarrow> 'k option
   \<Rightarrow> vault_store \<Rightarrow> 'b \<times> 'k \<Rightarrow> ('b \<times> 'k) list \<times> (vault_error + 'k)" where
  "rotate_key seal open_blob env old_keys minted m disk =
     (case minted of None \<Rightarrow> ([disk], Inl MintFailed)
      | Some nk \<Rightarrow>
       (case seal m (old_keys @ [nk]) of None \<Rightarrow> ([disk], Inl SealFailed)
        | Some bridge \<Rightarrow>
          (let d1 = (bridge, snd disk) in
           if re_bridge env = WriteFailed then ([disk], Inl WriteError)
           else if re_bridge env = WriteUnsynced then ([disk, d1], Inl WriteError)
           else if \<not> (re_blob_readable env \<and> open_blob nk bridge = Some m) then
             (case seal m old_keys of
                None \<Rightarrow> ([disk, d1], Inl VerifyFailed)
              | Some b0 \<Rightarrow> ([disk, d1] @ (if re_rollback env = WriteFailed then [] else [(b0, snd disk)]), Inl VerifyFailed))
           else if re_stage env \<noteq> WriteOk then ([disk, d1], Inl StageFailed)
           else if \<not> (re_staged_readable env \<and> open_blob nk bridge = Some m) then ([disk, d1], Inl VerifyFailed)
           else if \<not> re_promote env then ([disk, d1], Inl PromoteFailed)
           else
             let d2 = (bridge, nk); undone = (\<lambda>b. if re_promote_durable env then [] else [(b, snd disk)]) in
             (case seal m [nk] of
                None \<Rightarrow> ([disk, d1, d2], Inl SealFailed)
              | Some final \<Rightarrow>
                 if re_final env = WriteFailed then ([disk, d1, d2], Inl WriteError)
                 else if re_final env = WriteUnsynced then ([disk, d1, d2] @ undone final @ [(final, nk)], Inl WriteError)
                 else ([disk, d1, d2] @ undone final @ [(final, nk)], Inr nk)))))"

end
