(* ===== verification/Vault_Properties.thy ===== *)
theory Vault_Properties
  imports Vault
begin

text \<open>
  Properties of the vault: the resident model always equals the last persisted one, so a failed save
  undoes its mutation; a revoked secret and the admin token are never composed; and a key rotation leaves
  a readable vault on disk wherever it is interrupted.
\<close>

section \<open>The owner keeps memory and disk together\<close>

text \<open>What the sources rely on of age: a blob sealed to some keys is opened by each of them.\<close>

definition age_correct :: "(vault_store \<Rightarrow> 'k list \<Rightarrow> 'b option) \<Rightarrow> ('k \<Rightarrow> 'b \<Rightarrow> vault_store option) \<Rightarrow> bool" where
  "age_correct seal open_blob \<longleftrightarrow> (\<forall>m ks k b. seal m ks = Some b \<longrightarrow> k \<in> set ks \<longrightarrow> open_blob k b = Some m)"

definition in_step :: "('b, 'k) vault \<Rightarrow> bool" where
  "in_step v \<longleftrightarrow> va_last v = Some (va_store v)"

lemma save_cases:
  assumes "save hash seal w v = (v', r)"
  shows "va_store v' = va_store v \<and> va_keys v' = va_keys v \<and>
    (case r of
       Inl e \<Rightarrow> va_last v' = va_last v \<and> va_last_hash v' = va_last_hash v \<and> (w \<noteq> WriteUnsynced \<longrightarrow> va_disk v' = va_disk v)
     | Inr _ \<Rightarrow> va_disk v' = va_disk v \<and> va_last v' = va_last v \<and> in_step v' \<or>
         (\<exists>b. seal (va_store v) (va_keys v) = Some b \<and> va_disk v' = Some b \<and> in_step v' \<and> va_last_hash v' = Some (hash b)))"
  using assms by (auto simp: save_def write_blob_def in_step_def Let_def split: if_splits option.splits)
    (cases w; simp)+

lemma op_model_roll_principal:
  "roll_principal_model p now mints s = (s1, Inr r) \<Longrightarrow> op_model (OpRollPrincipal p mints now) s = Inr s1"
  by simp

text \<open>Every owner operation is the model operation followed by a save, or changes nothing in memory.\<close>

lemma vault_do_refines:
  assumes "in_step v" and "vault_do hash seal w op v = (v', r)"
  shows "in_step v' \<and> va_keys v' = va_keys v \<and>
    (case r of Inl _ \<Rightarrow> va_store v' = va_store v | Inr _ \<Rightarrow> op_model op (va_store v) = Inr (va_store v'))"
proof (cases "\<exists>p mints now. op = OpRollPrincipal p mints now")
  case True
  then obtain p mints now where op: "op = OpRollPrincipal p mints now" by blast
  show ?thesis
    using assms unfolding op
    by (auto simp: vault_do_def mutate_r_def restore_from_last_def in_step_def
        split: prod.splits sum.splits option.splits dest!: save_cases)
next
  case False
  then have "vault_do hash seal w op v = mutate hash seal w (op_model op) v"
    by (cases op) (auto simp: vault_do_def)
  then show ?thesis
    using assms by (auto simp: mutate_def restore_from_last_def in_step_def
        split: prod.splits sum.splits option.splits dest!: save_cases)
qed

definition disk_holds :: "('k \<Rightarrow> 'b \<Rightarrow> vault_store option) \<Rightarrow> ('b, 'k) vault \<Rightarrow> bool" where
  "disk_holds open_blob v \<longleftrightarrow>
     (case va_disk v of None \<Rightarrow> False | Some b \<Rightarrow> list_all (\<lambda>k. open_blob k b = Some (va_store v)) (va_keys v))"

lemma disk_holds_sealed:
  "age_correct seal open_blob \<Longrightarrow> seal (va_store v) (va_keys v) = Some b \<Longrightarrow> va_disk v = Some b \<Longrightarrow> disk_holds open_blob v"
  by (auto simp: disk_holds_def age_correct_def list_all_iff)

lemma disk_holds_same:
  "disk_holds open_blob v \<Longrightarrow> va_disk v' = va_disk v \<Longrightarrow> va_store v' = va_store v \<Longrightarrow> va_keys v' = va_keys v \<Longrightarrow>
   disk_holds open_blob v'"
  by (cases "va_disk v") (simp_all add: disk_holds_def)

lemma save_disk:
  assumes "age_correct seal open_blob" "w \<noteq> WriteUnsynced" "in_step v" "disk_holds open_blob v"
    and "save hash seal w (v\<lparr>va_store := s1\<rparr>) = (v1, r)"
  shows "case r of Inl e \<Rightarrow> disk_holds open_blob (v1\<lparr>va_store := va_store v\<rparr>) | Inr _ \<Rightarrow> disk_holds open_blob v1"
proof (cases r)
  case (Inl e)
  then have "va_disk v1 = va_disk v" "va_keys v1 = va_keys v" using save_cases [OF assms(5)] assms(2) by auto
  then have "disk_holds open_blob (v1\<lparr>va_store := va_store v\<rparr>)" using assms(4) by (auto intro: disk_holds_same)
  then show ?thesis using Inl by simp
next
  case (Inr u)
  then consider "va_disk v1 = va_disk v" "va_store v1 = va_store v" "va_keys v1 = va_keys v"
    | b where "seal (va_store v1) (va_keys v1) = Some b" "va_disk v1 = Some b"
    using save_cases [OF assms(5)] assms(3) by (auto simp: in_step_def)
  then have "disk_holds open_blob v1"
    using assms(1,4) by cases (auto intro: disk_holds_same disk_holds_sealed)
  then show ?thesis using Inr by simp
qed

lemma vault_do_disk:
  assumes "age_correct seal open_blob" "w \<noteq> WriteUnsynced" "in_step v" "disk_holds open_blob v"
    and "vault_do hash seal w op v = (v', r)"
  shows "disk_holds open_blob v'"
proof -
  have restored: "va_last v1 = Some (va_store v) \<and> disk_holds open_blob (v1\<lparr>va_store := va_store v\<rparr>)"
    if "save hash seal w (v\<lparr>va_store := s1\<rparr>) = (v1, Inl e)" for v1 s1 e
    using save_cases [OF that] save_disk [OF assms(1-4) that] assms(3) by (simp add: in_step_def)
  have saved: "disk_holds open_blob v1" if "save hash seal w (v\<lparr>va_store := s1\<rparr>) = (v1, Inr u)" for v1 s1 u
    using save_disk [OF assms(1-4) that] by simp
  have undo: "v\<lparr>va_store := s1, va_store := va_store v\<rparr> = v" for s1 by simp
  have vl: "va_last v = Some (va_store v)" using assms(3) by (simp add: in_step_def)
  show ?thesis
  proof (cases "\<exists>p mints now. op = OpRollPrincipal p mints now")
    case True
    then obtain p mints now where op: "op = OpRollPrincipal p mints now" by blast
    show ?thesis
      using assms(4,5) vl unfolding op vault_do_def mutate_r_def restore_from_last_def
      by (auto split: prod.splits sum.splits option.splits simp: undo dest!: restored dest: saved)
  next
    case False
    then have "vault_do hash seal w op v = mutate hash seal w (op_model op) v"
      by (cases op) (auto simp: vault_do_def)
    then show ?thesis
      using assms(4,5) unfolding mutate_def restore_from_last_def
      by (auto split: prod.splits sum.splits option.splits dest!: restored dest: saved)
  qed
qed

inductive vault_run ::
  "('b \<Rightarrow> string) \<Rightarrow> (vault_store \<Rightarrow> 'k list \<Rightarrow> 'b option) \<Rightarrow> write_outcome set \<Rightarrow> ('b, 'k) vault \<Rightarrow> ('b, 'k) vault \<Rightarrow> bool"
  for hash seal W v0 where
  start: "vault_run hash seal W v0 v0"
| step: "vault_run hash seal W v0 v \<Longrightarrow> w \<in> W \<Longrightarrow> vault_do hash seal w op v = (v', r) \<Longrightarrow> vault_run hash seal W v0 v'"

text \<open>A vault of a fresh installation: \<^verbatim>\<open>Init\<close> succeeded.\<close>

definition fresh_vault ::
  "('b \<Rightarrow> string) \<Rightarrow> (vault_store \<Rightarrow> 'k list \<Rightarrow> 'b option) \<Rightarrow> ('b, 'k) vault \<Rightarrow> bool" where
  "fresh_vault hash seal v \<longleftrightarrow>
     (\<exists>w keys nonce token now d t. vault_init hash seal w keys None nonce token now = (d, Inr (v, t)))"

lemma vault_init_Inr:
  assumes "vault_init hash seal w keys None nonce token now = (d, Inr (v, t))"
  shows "\<exists>nc u. save hash seal w \<lparr>va_store = rotate_admin_token t now (seed_core_principal nc new_store),
       va_last = None, va_last_hash = None, va_keys = keys, va_disk = None\<rparr> = (v, Inr u)"
proof (cases nonce)
  case (Some nc)
  then show ?thesis
    using assms by (cases token) (auto simp: vault_init_def split: prod.split_asm sum.split_asm)
qed (use assms in \<open>simp add: vault_init_def\<close>)

lemma fresh_vault_facts:
  assumes "fresh_vault hash seal v"
  shows "in_step v \<and> (\<exists>b. va_disk v = Some b \<and> seal (va_store v) (va_keys v) = Some b) \<and>
    (\<exists>t now nc. va_store v = rotate_admin_token t now (seed_core_principal nc new_store))"
proof -
  from assms obtain w keys nc token now u where run:
    "save hash seal w \<lparr>va_store = rotate_admin_token token now (seed_core_principal nc new_store),
       va_last = None, va_last_hash = None, va_keys = keys, va_disk = None\<rparr> = (v, Inr u)"
    unfolding fresh_vault_def by (blast dest: vault_init_Inr)
  show ?thesis using save_cases [OF run] by (auto simp: in_step_def)
qed

lemma run_in_step: "vault_run hash seal W v0 v \<Longrightarrow> in_step v0 \<Longrightarrow> in_step v \<and> va_keys v = va_keys v0"
  by (induction rule: vault_run.induct) (auto dest: vault_do_refines)

lemma run_disk:
  "vault_run hash seal W v0 v \<Longrightarrow> age_correct seal open_blob \<Longrightarrow> WriteUnsynced \<notin> W \<Longrightarrow> in_step v0 \<Longrightarrow>
   disk_holds open_blob v0 \<Longrightarrow> disk_holds open_blob v"
proof (induction rule: vault_run.induct)
  case (step v w op v' r)
  then have "w \<noteq> WriteUnsynced" by auto
  then show ?case using step run_in_step by (blast intro: vault_do_disk)
qed simp

section \<open>What is withheld\<close>

text \<open>A secret that no operation delivers any more: the admin token without a grant, or a revoked secret.\<close>

definition withheld :: "string \<Rightarrow> vault_store \<Rightarrow> bool" where
  "withheld n s \<longleftrightarrow> keys_sorted (vs_secrets s) \<and>
     (case map_get (vs_secrets s) n of
        None \<Rightarrow> False
      | Some x \<Rightarrow> if n = admin_token_secret then sec_authorized x = [] else sec_status x = ''revoked'')"

lemma withheld_put:
  assumes "withheld n s"
    and "m = n \<Longrightarrow> (if n = admin_token_secret then sec_authorized y = [] else sec_status y = ''revoked'')"
  shows "withheld n (put_secret m y s)"
  using assms by (auto simp: withheld_def put_secret_def keys_sorted_map_put split: option.splits)

lemma withheld_roll: "roll_secret m val now s = Inr s' \<Longrightarrow> withheld n s \<Longrightarrow> withheld n s'"
  by (auto simp: roll_secret_def is_reserved_secret_def split: if_splits option.splits intro!: withheld_put)
    (auto simp: withheld_def)

lemma withheld_roll_each: "roll_each p now mints ns s = (s', Inr r) \<Longrightarrow> withheld n s \<Longrightarrow> withheld n s'"
proof (induction ns arbitrary: mints s r)
  case (Cons m ns)
  then show ?case
    by (auto split: option.splits if_splits list.splits sum.splits prod.splits dest: withheld_roll)
qed simp

lemma withheld_secrets_cong:
  "vs_secrets s' = vs_secrets s \<Longrightarrow> withheld n s \<Longrightarrow> withheld n s'"
  by (simp add: withheld_def)

lemma withheld_purge:
  assumes "purge_principal p s = Inr s'" "withheld n s"
  shows "withheld n s'"
proof -
  define g where "g x = x\<lparr>sec_authorized := remove1 p (sec_authorized x)\<rparr>" for x :: secret
  have eq: "vs_secrets s' = map (\<lambda>(m, x). (m, g x)) (vs_secrets s)"
    using assms(1) by (auto simp: purge_principal_def g_def split: if_splits)
  have "map fst (vs_secrets s') = map fst (vs_secrets s)" by (simp add: eq case_prod_unfold comp_def)
  moreover have "map_get (vs_secrets s') n = map_option g (map_get (vs_secrets s) n)" by (simp add: eq map_of_map)
  ultimately show ?thesis using assms(2) by (auto simp: withheld_def g_def split: option.splits)
qed

lemma withheld_set: "set_secret m val g pat now s = Inr s' \<Longrightarrow> withheld n s \<Longrightarrow> withheld n s'"
  by (auto simp: set_secret_def is_reserved_secret_def Let_def split: if_splits option.splits intro!: withheld_put)
    (auto simp: withheld_def)

lemma withheld_revoke: "revoke_secret m now s = Inr s' \<Longrightarrow> withheld n s \<Longrightarrow> withheld n s'"
  by (auto simp: revoke_secret_def is_reserved_secret_def split: if_splits option.splits intro!: withheld_put)

lemma withheld_principals:
  "register_principal p k s = Inr s' \<Longrightarrow> withheld n s \<Longrightarrow> withheld n s'"
  "revoke_principal p s = Inr s' \<Longrightarrow> withheld n s \<Longrightarrow> withheld n s'"
  by (auto simp: register_principal_def revoke_principal_def split: if_splits option.splits
      elim!: withheld_secrets_cong [rotated])

lemma withheld_op: "op_model op s = Inr s' \<Longrightarrow> withheld n s \<Longrightarrow> withheld n s'"
proof (cases op)
  case (OpRotateAdminToken t now)
  assume "op_model op s = Inr s'" "withheld n s"
  then show ?thesis
    unfolding OpRotateAdminToken
    by (auto simp: rotate_admin_token_def split: option.splits intro!: withheld_put)
next
  case (OpRoll t m val now)
  assume "op_model op s = Inr s'" "withheld n s"
  then show ?thesis unfolding OpRoll by (auto simp: roll_op_def bind_result_Inr_iff dest: withheld_roll)
next
  case (OpRollPrincipal p mints now)
  assume "op_model op s = Inr s'" "withheld n s"
  then show ?thesis
    unfolding OpRollPrincipal
    by (auto simp: roll_principal_model_def split: prod.splits sum.splits if_splits dest: withheld_roll_each)
qed (auto dest: withheld_set withheld_revoke withheld_purge withheld_principals)

lemma withheld_run: "vault_run hash seal W v0 v \<Longrightarrow> in_step v0 \<Longrightarrow> withheld n (va_store v0) \<Longrightarrow> withheld n (va_store v)"
proof (induction rule: vault_run.induct)
  case (step v w op v' r)
  then have "in_step v" using run_in_step by blast
  from vault_do_refines [OF this step.hyps(3)] step show ?case
    by (auto split: sum.splits dest: withheld_op)
qed

lemma withheld_not_composed:
  assumes "withheld n s" "compose p s = Inr c"
  shows "n \<notin> fst ` set (co_secrets c)"
proof -
  have "distinct (map fst (vs_secrets s))" using assms(1) by (simp add: withheld_def strict_sorted_iff)
  then have "map_get (vs_secrets s) n = Some x" if "(n, x) \<in> set (vs_secrets s)" for x
    using that by simp
  then show ?thesis
    using assms by (force simp: compose_def withheld_def Let_def split: option.splits if_splits)
qed

section \<open>Properties\<close>

text \<open>A symbolic cipher for the examples: the blob is the document with its recipients.\<close>

definition demo_seal :: "vault_store \<Rightarrow> nat list \<Rightarrow> (vault_store \<times> nat list) option" where
  "demo_seal m ks = Some (m, ks)"

definition demo_open :: "nat \<Rightarrow> vault_store \<times> nat list \<Rightarrow> vault_store option" where
  "demo_open k b = (if k \<in> set (snd b) then Some (fst b) else None)"

definition demo_hash :: "vault_store \<times> nat list \<Rightarrow> string" where
  "demo_hash b = concat (map fst (vs_principals (fst b))) @ concat (map fst (vs_secrets (fst b)))"

lemma demo_age: "age_correct demo_seal demo_open"
  by (auto simp: age_correct_def demo_seal_def demo_open_def)

definition demo_vault :: "(vault_store \<times> nat list, nat) vault" where
  "demo_vault =
     (let m = rotate_admin_token ''tok'' 0 (seed_core_principal ''nc'' new_store); b = (m, [1])
      in \<lparr>va_store = m, va_last = Some m, va_last_hash = Some (demo_hash b), va_keys = [1], va_disk = Some b\<rparr>)"

lemma demo_vault_fresh: "fresh_vault demo_hash demo_seal demo_vault"
proof -
  have "vault_init demo_hash demo_seal WriteOk [1] None (Some ''nc'') (Some ''tok'') 0 =
      (va_disk demo_vault, Inr (demo_vault, ''tok''))"
    by (simp add: vault_init_def save_def write_blob_def demo_seal_def disk_unchanged_def demo_vault_def Let_def)
  then show ?thesis unfolding fresh_vault_def by blast
qed

definition demo_do :: "write_outcome \<Rightarrow> vault_op \<Rightarrow> (vault_store \<times> nat list, nat) vault \<Rightarrow> (vault_store \<times> nat list, nat) vault" where
  "demo_do w op v = fst (vault_do demo_hash demo_seal w op v)"

lemma demo_run: "vault_run demo_hash demo_seal W v0 v \<Longrightarrow> w \<in> W \<Longrightarrow> vault_run demo_hash demo_seal W v0 (demo_do w op v)"
  unfolding demo_do_def by (cases "vault_do demo_hash demo_seal w op v") (auto intro: vault_run.step)

definition demo_granted :: "(vault_store \<times> nat list, nat) vault" where
  "demo_granted = demo_do WriteOk (OpSet ''api-key'' ''s3cret'' (Some [''mailer'']) [] 0)
     (demo_do WriteOk (OpRegister ''mailer'' ''plugin'') demo_vault)"

text \<open>C36. Whatever operator operations run on a fresh vault and wherever their saves fail before the blob
  is replaced, the resident document is the last persisted one and every configured key opens the blob on
  disk to exactly that document.\<close>

theorem vault_memory_matches_disk:
  assumes "age_correct seal open_blob" and "fresh_vault hash seal v0"
    and "vault_run hash seal {WriteOk, WriteFailed} v0 v"
  shows "va_last v = Some (va_store v) \<and> disk_holds open_blob v"
proof -
  from fresh_vault_facts [OF assms(2)] obtain b where
    "in_step v0" "va_disk v0 = Some b" "seal (va_store v0) (va_keys v0) = Some b" by blast
  then show ?thesis
    using run_disk [OF assms(3,1)] run_in_step [OF assms(3)] disk_holds_sealed [OF assms(1)]
    by (simp add: in_step_def)
qed

theorem vault_memory_matches_disk_witness:
  "disk_holds demo_open (demo_do WriteFailed (OpRevoke ''api-key'' 5) demo_granted) \<and>
   map_option sec_status (map_get (vs_secrets (va_store (demo_do WriteFailed (OpRevoke ''api-key'' 5) demo_granted))) ''api-key'') =
     Some ''active''"
proof -
  have "vault_run demo_hash demo_seal {WriteOk, WriteFailed} demo_vault
      (demo_do WriteFailed (OpRevoke ''api-key'' 5) demo_granted)"
    unfolding demo_granted_def by (intro demo_run vault_run.start) simp_all
  then have "disk_holds demo_open (demo_do WriteFailed (OpRevoke ''api-key'' 5) demo_granted)"
    using vault_memory_matches_disk [OF demo_age demo_vault_fresh] by blast
  moreover have "map_option sec_status (map_get (vs_secrets (va_store
      (demo_do WriteFailed (OpRevoke ''api-key'' 5) demo_granted))) ''api-key'') = Some ''active''"
    by code_simp
  ultimately show ?thesis by simp
qed

text \<open>C37. A secret that was once revoked in a vault is not delivered to any principal by any later
  composition, whatever operations follow and however their saves end; and no operation on a fresh vault
  ever delivers the admin token.\<close>

theorem vault_withholds_revoked:
  assumes "fresh_vault hash seal v0" and "vault_run hash seal UNIV v0 v1" and "vault_run hash seal UNIV v1 v2"
    and "compose p (va_store v2) = Inr c"
  shows "admin_token_secret \<notin> fst ` set (co_secrets c) \<and>
    (\<forall>n x. map_get (vs_secrets (va_store v1)) n = Some x \<longrightarrow> n \<noteq> admin_token_secret \<longrightarrow> sec_status x = ''revoked'' \<longrightarrow>
       n \<notin> fst ` set (co_secrets c))"
proof -
  have step0: "in_step v0" and w0: "withheld admin_token_secret (va_store v0)"
    using fresh_vault_facts [OF assms(1)]
    by (auto simp: withheld_def rotate_admin_token_def put_secret_def seed_core_principal_def new_store_def)
  have step1: "in_step v1" using run_in_step [OF assms(2) step0] by simp
  have w1: "withheld admin_token_secret (va_store v1)" by (rule withheld_run [OF assms(2) step0 w0])
  have "withheld admin_token_secret (va_store v2)" by (rule withheld_run [OF assms(3) step1 w1])
  moreover have "withheld n (va_store v2)"
    if "map_get (vs_secrets (va_store v1)) n = Some x" "n \<noteq> admin_token_secret" "sec_status x = ''revoked''" for n x
    using that w1 by (intro withheld_run [OF assms(3) step1]) (simp add: withheld_def)
  ultimately show ?thesis using withheld_not_composed [OF _ assms(4)] by blast
qed

theorem vault_withholds_revoked_witness:
  "\<exists>c. compose ''mailer'' (va_store (demo_do WriteOk (OpRoll None ''api-key'' ''new'' 9)
        (demo_do WriteOk (OpRevoke ''api-key'' 5) demo_granted))) = Inr c \<and> ''api-key'' \<notin> fst ` set (co_secrets c)"
proof -
  let ?v1 = "demo_do WriteOk (OpRevoke ''api-key'' 5) demo_granted"
  let ?v2 = "demo_do WriteOk (OpRoll None ''api-key'' ''new'' 9) ?v1"
  have runs: "vault_run demo_hash demo_seal UNIV demo_vault ?v1" "vault_run demo_hash demo_seal UNIV ?v1 ?v2"
    unfolding demo_granted_def by (intro demo_run vault_run.start; simp)+
  have comp: "compose ''mailer'' (va_store ?v2) = Inr \<lparr>co_secrets = [], co_denials = [''api-key'']\<rparr>" by code_simp
  have st: "map_option sec_status (map_get (vs_secrets (va_store ?v1)) ''api-key'') = Some ''revoked''" by code_simp
  then obtain x where "map_get (vs_secrets (va_store ?v1)) ''api-key'' = Some x" "sec_status x = ''revoked''"
    by (auto simp: map_option_eq_Some)
  then show ?thesis
    using vault_withholds_revoked [OF demo_vault_fresh runs comp] comp by (auto simp: admin_token_secret_def)
qed

text \<open>C38. A key rotation is crash safe up to the durability of one rename: in every state of the disk it goes through,
  whatever fails and wherever it stops, the key file at the boot path opens the blob to the document, except where
  the rename of the new key was not yet durable when the blob for the new key alone was: then a crash may find the old
  key beside that blob. When the rotation reports success the blob is sealed to the new key alone.\<close>

theorem rotate_key_crash_safe:
  assumes "age_correct seal open_blob" and "boot_key \<in> set old_keys" and "open_blob boot_key blob = Some m"
  shows "list_all (\<lambda>(b, k). open_blob k b = Some m \<or>
        \<not> re_promote_durable env \<and> k = boot_key \<and> (\<exists>nk. minted = Some nk \<and> seal m [nk] = Some b)) (fst (rotate_key seal open_blob env old_keys minted m (blob, boot_key))) \<and>
    (\<forall>nk. snd (rotate_key seal open_blob env old_keys minted m (blob, boot_key)) = Inr nk \<longrightarrow>
      seal m [nk] = Some (fst (last (fst (rotate_key seal open_blob env old_keys minted m (blob, boot_key))))) \<and>
      snd (last (fst (rotate_key seal open_blob env old_keys minted m (blob, boot_key)))) = nk)"
proof -
  have opens: "seal m ks = Some b \<Longrightarrow> k \<in> set ks \<Longrightarrow> open_blob k b = Some m" for ks b k
    using assms(1) by (auto simp: age_correct_def)
  show ?thesis
    using assms(2,3) by (auto simp: rotate_key_def Let_def opens split: option.splits)
qed

theorem rotate_key_crash_safe_witness:
  "fst (rotate_key demo_seal demo_open
      \<lparr>re_bridge = WriteOk, re_blob_readable = True, re_rollback = WriteOk, re_stage = WriteOk, re_staged_readable = True,
       re_promote = True, re_promote_durable = True, re_final = WriteFailed\<rparr> [1] (Some 2) new_store ((new_store, [1]), 1)) =
     [((new_store, [1]), 1), ((new_store, [1, 2]), 1), ((new_store, [1, 2]), 2)] \<and>
   demo_open 2 (new_store, [1, 2]) = Some new_store"
  using rotate_key_crash_safe [OF demo_age, where boot_key = 1 and old_keys = "[1]" and blob = "(new_store, [1])"
      and m = new_store and minted = "Some 2" and env = "\<lparr>re_bridge = WriteOk, re_blob_readable = True, re_rollback = WriteOk,
        re_stage = WriteOk, re_staged_readable = True, re_promote = True, re_promote_durable = True, re_final = WriteFailed\<rparr>"]
  by (simp add: rotate_key_def demo_seal_def demo_open_def)

section \<open>Where the vault falls short\<close>

text \<open>A directory sync that fails after the rename leaves the new blob on disk and the old document in memory, and
  every later save takes the vault's own blob for a foreign one.\<close>

lemma unsynced_write_diverges:
  "(let v = demo_do WriteUnsynced (OpRegister ''mailer'' ''plugin'') demo_vault in
    map_get (vs_principals (va_store v)) ''mailer'' = None \<and>
    map_option (\<lambda>b. map_get (vs_principals (fst b)) ''mailer'' \<noteq> None) (va_disk v) = Some True \<and>
    snd (vault_do demo_hash demo_seal WriteOk (OpRegister ''sync'' ''plugin'') v) = Inl ModifiedExternally)"
  by code_simp

text \<open>When the rename of the new key is lost in a crash after the blob was sealed to that key alone, the key file no longer
  opens the blob.\<close>

lemma unsynced_promotion_locks_out:
  "(let states = fst (rotate_key demo_seal demo_open
      \<lparr>re_bridge = WriteOk, re_blob_readable = True, re_rollback = WriteOk, re_stage = WriteOk, re_staged_readable = True,
       re_promote = True, re_promote_durable = False, re_final = WriteOk\<rparr> [1] (Some 2) new_store ((new_store, [1]), 1))
    in ((new_store, [2]), 1) \<in> set states \<and> demo_open 1 (new_store, [2]) = None)"
  by (simp add: rotate_key_def demo_seal_def demo_open_def)

text \<open>A grant listed twice survives the purge of its principal, and a principal registered again under the
  name receives the secret.\<close>

lemma purge_leaves_duplicate_grant:
  "(let v = demo_do WriteOk (OpRegister ''mailer'' ''plugin'')
       (demo_do WriteOk (OpPurgePrincipal ''mailer'')
       (demo_do WriteOk (OpSet ''api-key'' ''s3cret'' (Some [''mailer'', ''mailer'']) [] 0)
       (demo_do WriteOk (OpRegister ''mailer'' ''plugin'') demo_vault)))
    in compose ''mailer'' (va_store v)) = Inr \<lparr>co_secrets = [(''api-key'', ''s3cret'')], co_denials = []\<rparr>"
  by code_simp

text \<open>A manual secret, whose value must not be empty when it is created, can be rolled to the empty value and
  stays active.\<close>

lemma roll_accepts_empty_value:
  "compose ''mailer'' (va_store (demo_do WriteOk (OpRoll None ''api-key'' [] 5) demo_granted)) =
     Inr \<lparr>co_secrets = [(''api-key'', [])], co_denials = []\<rparr>"
  by code_simp

end
