(* ===== verification/Host_Files.thy ===== *)
theory Host_Files
  imports Ductile_Prelude
begin

text \<open>
  Paths and files of the host as the configuration code meets them: the lexical part of \<^verbatim>\<open>path/filepath\<close> on a Unix
  system (\<^verbatim>\<open>Clean\<close>, \<^verbatim>\<open>Join\<close>, \<^verbatim>\<open>Dir\<close>, \<^verbatim>\<open>Base\<close>, \<^verbatim>\<open>IsAbs\<close>, \<^verbatim>\<open>Abs\<close>) and a finite file system, given by the paths
  \<^verbatim>\<open>os.Stat\<close> finds with what a read of them gives.
\<close>

section \<open>Paths\<close>

abbreviation slash :: char where "slash \<equiv> CHR ''/''"

definition is_abs :: "string \<Rightarrow> bool" where
  "is_abs p \<longleftrightarrow> p \<noteq> [] \<and> hd p = CHR ''/''"

text \<open>\<^verbatim>\<open>filepath.Clean\<close>: the elements of a path, read from the left; \<open>acc\<close> holds those kept so far, the last one first.\<close>

fun clean_elements :: "bool \<Rightarrow> string list \<Rightarrow> string list \<Rightarrow> string list" where
  "clean_elements rooted acc [] = rev acc"
| "clean_elements rooted acc (p # ps) =
     (if p = [] \<or> p = ''.'' then clean_elements rooted acc ps
      else if p = ''..'' then
        (case acc of
           [] \<Rightarrow> clean_elements rooted (if rooted then [] else [p]) ps
         | q # qs \<Rightarrow> if q = ''..'' then clean_elements rooted (p # acc) ps else clean_elements rooted qs ps)
      else clean_elements rooted (p # acc) ps)"

definition clean_path :: "string \<Rightarrow> string" where
  "clean_path p =
     (let es = clean_elements (is_abs p) [] (split_on slash p) in
      if is_abs p then slash # join_on ''/'' es
      else if es = [] then ''.'' else join_on ''/'' es)"

definition path_join :: "string \<Rightarrow> string \<Rightarrow> string" where
  "path_join a b =
     (if a = [] \<and> b = [] then [] else if a = [] then clean_path b else if b = [] then clean_path a
      else clean_path (a @ ''/'' @ b))"

definition path_dir :: "string \<Rightarrow> string" where
  "path_dir p = clean_path (rev (dropWhile (\<lambda>c. c \<noteq> slash) (rev p)))"

definition path_base :: "string \<Rightarrow> string" where
  "path_base p =
     (if p = [] then ''.''
      else let q = rev (dropWhile (\<lambda>c. c = slash) (rev p))
           in if q = [] then ''/'' else rev (takeWhile (\<lambda>c. c \<noteq> slash) (rev q)))"

definition path_abs :: "string \<Rightarrow> string \<Rightarrow> string" where
  "path_abs cwd p = (if is_abs p then clean_path p else path_join cwd p)"

text \<open>A path given relative to a directory.\<close>

definition path_under :: "string \<Rightarrow> string \<Rightarrow> string" where
  "path_under dir p = (if is_abs p then p else path_join dir p)"

lemma is_abs_clean [simp]: "is_abs p \<Longrightarrow> is_abs (clean_path p)"
  by (simp add: clean_path_def Let_def is_abs_def)

lemma is_abs_append: "is_abs a \<Longrightarrow> is_abs (a @ b)"
  by (auto simp: is_abs_def)

lemma is_abs_join: "is_abs a \<Longrightarrow> is_abs (path_join a b)"
proof -
  assume a: "is_abs a"
  then have "a \<noteq> []" by (auto simp: is_abs_def)
  then show ?thesis using a is_abs_clean [OF a] is_abs_clean [OF is_abs_append [OF a, of "''/'' @ b"]]
    by (simp add: path_join_def)
qed

lemma is_abs_path_abs: "is_abs cwd \<Longrightarrow> is_abs (path_abs cwd p)"
  by (simp add: path_abs_def is_abs_join)

end
