(* ===== verification/Plugin_Process.thy ===== *)
theory Plugin_Process
  imports Vault Router Host_Files
begin

text \<open>
  What a plugin process is given and what is taken from it, \<^verbatim>\<open>src/internal/dispatch\<close>: the account it runs under
  (\<^verbatim>\<open>account.go\<close>, \<^verbatim>\<open>fingerprint.go\<close>, \<^verbatim>\<open>bootgate.go\<close>, \<^verbatim>\<open>process_unix.go\<close>), its secrets (\<^verbatim>\<open>secret_delivery.go\<close>,
  \<^verbatim>\<open>compose_escalation.go\<close>), its environment (\<^verbatim>\<open>env.go\<close>), the capture of its output (\<^verbatim>\<open>output_limit.go\<close>), the
  decoding of its answer (\<^verbatim>\<open>src/internal/protocol/codec.go\<close>) and the run of the subprocess
  (\<^verbatim>\<open>subprocess_executor.go\<close>). The operating system is an argument: the outcome of each start, what the process writes,
  how it exits and whether the timer fires first.
\<close>

section \<open>Accounts\<close>

datatype account_mode = ModeUnconfined | ModeConfined | ModeCredentialed
datatype account_source = AccountNone | AccountGranted | AccountDefault | AccountUnconfined | AccountDowngraded

record account_conf =
  ac_uid :: int
  ac_gid :: int
  ac_state_dir :: string
  ac_home :: string

record resolved_account =
  ra_name :: string
  ra_uid :: int
  ra_gid :: int
  ra_state_dir :: string
  ra_home :: string
  ra_mode :: account_mode
  ra_source :: account_source

definition zero_account :: resolved_account where
  "zero_account = \<lparr>ra_name = [], ra_uid = 0, ra_gid = 0, ra_state_dir = [], ra_home = [], ra_mode = ModeUnconfined,
     ra_source = AccountNone\<rparr>"

definition drops :: "resolved_account \<Rightarrow> bool" where
  "drops r \<longleftrightarrow> ra_mode r \<noteq> ModeUnconfined"

definition credentialed :: "resolved_account \<Rightarrow> bool" where
  "credentialed r \<longleftrightarrow> ra_mode r = ModeCredentialed"

definition walled :: "resolved_account \<Rightarrow> bool" where
  "walled r \<longleftrightarrow> ra_mode r = ModeConfined"

datatype spawn_error =
    AccountGrantUndefined string string | AccountDropFailed | NoDowngradeTarget string | StdinPipe | StartProcess
  | WaitProcess | OutputLimit int | NoOutput | NotJSON | BadResponse string | DeadlineExceeded

definition configured_account :: "string \<Rightarrow> account_conf \<Rightarrow> account_source \<Rightarrow> resolved_account" where
  "configured_account n w src =
     \<lparr>ra_name = n, ra_uid = ac_uid w, ra_gid = ac_gid w, ra_state_dir = ac_state_dir w, ra_home = ac_home w,
      ra_mode = (if ac_home w \<noteq> [] then ModeCredentialed else ModeConfined), ra_source = src\<rparr>"

text \<open>\<open>run_as\<close> is the grant of the plugin, empty for an unknown plugin.\<close>

definition resolve_account ::
  "(string \<times> account_conf) list \<Rightarrow> (string \<Rightarrow> string) \<Rightarrow> string \<Rightarrow> spawn_error + resolved_account" where
  "resolve_account accounts run_as plugin =
     (let grant = run_as plugin in
      if grant = [] then
        (case map_get accounts ''default'' of
           Some w \<Rightarrow> Inr (configured_account ''default'' w AccountDefault)
         | None \<Rightarrow> Inr (zero_account\<lparr>ra_source := AccountUnconfined\<rparr>))
      else
        (case map_get accounts grant of
           None \<Rightarrow> Inl (AccountGrantUndefined plugin grant)
         | Some w \<Rightarrow> Inr (configured_account grant w AccountGranted)))"

definition most_restricted_account :: "(string \<times> account_conf) list \<Rightarrow> resolved_account option" where
  "most_restricted_account accounts =
     map_option (\<lambda>w. \<lparr>ra_name = ''untrusted'', ra_uid = ac_uid w, ra_gid = ac_gid w, ra_state_dir = ac_state_dir w,
        ra_home = [], ra_mode = ModeConfined, ra_source = AccountDowngraded\<rparr>) (map_get accounts ''untrusted'')"

text \<open>The verifier of plugin identities is absent, or answers whether the live bytes match.\<close>

definition bind_account_to_fingerprint ::
  "resolved_account \<Rightarrow> (string \<times> account_conf) list \<Rightarrow> string \<Rightarrow> (string \<Rightarrow> bool) option \<Rightarrow> spawn_error + resolved_account" where
  "bind_account_to_fingerprint r accounts plugin verifier =
     (case verifier of
        None \<Rightarrow> Inr r
      | Some verify \<Rightarrow>
         if \<not> drops r \<or> verify plugin then Inr r
         else (case most_restricted_account accounts of
                 None \<Rightarrow> Inl (NoDowngradeTarget plugin) | Some q \<Rightarrow> Inr q))"

definition validate_account :: "resolved_account \<Rightarrow> bool" where
  "validate_account r =
     (case ra_mode r of
        ModeUnconfined \<Rightarrow> ra_uid r = 0 \<and> ra_gid r = 0 \<and> ra_home r = []
      | _ \<Rightarrow> ra_uid r > 0 \<and> ra_gid r > 0 \<and>
              (ra_mode r = ModeCredentialed \<longrightarrow> is_abs (ra_home r) \<and> clean_path (ra_home r) \<noteq> ''/''))"

text \<open>The load-time checks of \<^verbatim>\<open>src/internal/config/loader.go\<close>, over the accounts in name order; \<open>seen\<close> maps the
  uids met so far to their accounts.\<close>

datatype account_fault = BadUID string | BadGID string | DefaultCredentialed | HomeNotAbsolute string
  | StateDirNotAbsolute string | SharedUID string string | UndefinedGrant string string

definition account_fault_of :: "(int \<times> string) list \<Rightarrow> string \<Rightarrow> account_conf \<Rightarrow> account_fault option" where
  "account_fault_of seen n w =
     (if ac_uid w \<le> 0 \<or> ac_uid w > 2 ^ 31 - 1 then Some (BadUID n)
      else if ac_gid w \<le> 0 \<or> ac_gid w > 2 ^ 31 - 1 then Some (BadGID n)
      else if ac_home w \<noteq> [] \<and> n = ''default'' then Some DefaultCredentialed
      else if ac_home w \<noteq> [] \<and> \<not> is_abs (ac_home w) then Some (HomeNotAbsolute n)
      else if ac_home w \<noteq> [] \<and> ac_state_dir w \<noteq> [] \<and> \<not> is_abs (ac_state_dir w) then Some (StateDirNotAbsolute n)
      else if ac_home w = [] \<and> \<not> is_abs (ac_state_dir w) then Some (StateDirNotAbsolute n)
      else case map_of seen (ac_uid w) of Some o1 \<Rightarrow> Some (SharedUID o1 n) | None \<Rightarrow> None)"

fun validate_accounts :: "(int \<times> string) list \<Rightarrow> (string \<times> account_conf) list \<Rightarrow> account_fault option" where
  "validate_accounts seen [] = None"
| "validate_accounts seen ((n, w) # rest) =
     (case account_fault_of seen n w of Some e \<Rightarrow> Some e | None \<Rightarrow> validate_accounts ((ac_uid w, n) # seen) rest)"

fun validate_account_grants :: "(string \<times> account_conf) list \<Rightarrow> (string \<times> string) list \<Rightarrow> account_fault option" where
  "validate_account_grants accounts [] = None"
| "validate_account_grants accounts ((p, grant) # rest) =
     (if grant = [] \<or> map_get accounts grant \<noteq> None then validate_account_grants accounts rest
      else Some (UndefinedGrant p grant))"

text \<open>\<^verbatim>\<open>applyAccountCredential\<close>: the credential (uid, gid, groups) set on the command; none keeps the gateway's.\<close>

definition apply_account_credential :: "resolved_account \<Rightarrow> spawn_error + (int \<times> int \<times> int list) option" where
  "apply_account_credential r =
     (if \<not> validate_account r then Inl AccountDropFailed
      else if \<not> drops r then Inr None
      else let uid = ra_uid r mod 2 ^ 32; gid = ra_gid r mod 2 ^ 32 in Inr (Some (uid, gid, [gid])))"

datatype boot_mode = BootUnconfined | BootEnforce

definition evaluate_boot_gate :: "bool \<Rightarrow> bool \<Rightarrow> bool \<Rightarrow> boot_mode option" where
  "evaluate_boot_gate capability_held accounts_configured unconfined_override =
     (if unconfined_override then Some BootUnconfined
      else if capability_held \<and> accounts_configured then Some BootEnforce
      else if \<not> capability_held \<and> \<not> accounts_configured then Some BootUnconfined
      else None)"

section \<open>Secrets\<close>

datatype delivery_error = ComposeError vault_error | FingerprintMismatch | VaultPrincipalRequired string

definition compose_plugin_secrets ::
  "(string \<Rightarrow> vault_error + composition) option \<Rightarrow> (string \<Rightarrow> bool) option \<Rightarrow> string \<Rightarrow> string \<Rightarrow> bool
   \<Rightarrow> delivery_error + (string \<times> string) list" where
  "compose_plugin_secrets composer verifier plugin prin requires_vault =
     (case composer of
        None \<Rightarrow> if requires_vault then Inl (VaultPrincipalRequired plugin) else Inr []
      | Some query \<Rightarrow>
         (case query prin of
            Inl e \<Rightarrow>
              if e = UnknownPrincipal
              then if requires_vault then Inl (VaultPrincipalRequired plugin) else Inr []
              else Inl (ComposeError e)
          | Inr c \<Rightarrow>
              (case verifier of
                 Some verify \<Rightarrow> if verify plugin then Inr (co_secrets c) else Inl FingerprintMismatch
               | None \<Rightarrow> Inr (co_secrets c))))"

definition compose_failure_escalation :: "delivery_error \<Rightarrow> string \<times> string \<times> bool" where
  "compose_failure_escalation e =
     (if e = FingerprintMismatch then (''fingerprint_mismatch'', ''security_alert'', True)
      else (''compose_denial'', ''denied'', False))"

section \<open>Environment\<close>

definition env_allowlist :: "string list" where
  "env_allowlist =
     [''PATH'', ''HOME'', ''TZ'', ''LANG'', ''LANGUAGE'', ''TMPDIR'', ''LC_ALL'', ''LC_CTYPE'', ''LC_NUMERIC'', ''LC_TIME'',
      ''LC_COLLATE'', ''LC_MONETARY'', ''LC_MESSAGES'', ''LC_PAPER'', ''LC_NAME'', ''LC_ADDRESS'', ''LC_TELEPHONE'',
      ''LC_MEASUREMENT'', ''LC_IDENTIFICATION'']"

text \<open>\<^verbatim>\<open>strings.Cut(kv, "=")\<close>: the name, if there is a separator.\<close>

definition env_name :: "string \<Rightarrow> string option" where
  "env_name kv = (if CHR ''='' \<in> set kv then Some (takeWhile (\<lambda>c. c \<noteq> CHR ''='') kv) else None)"

definition build_plugin_env :: "string list \<Rightarrow> string list \<Rightarrow> string list" where
  "build_plugin_env environ extra =
     (let extra_set = filter (\<lambda>n. n \<noteq> []) (map trim_space extra)
      in filter (\<lambda>kv. case env_name kv of None \<Rightarrow> False | Some n \<Rightarrow> n \<in> set env_allowlist \<or> n \<in> set extra_set) environ)"

definition account_runtime_overrides :: "string list" where
  "account_runtime_overrides = [''HOME'', ''XDG_CACHE_HOME'']"

definition with_account_runtime_env :: "string list \<Rightarrow> string \<Rightarrow> string list" where
  "with_account_runtime_env env state_dir =
     filter (\<lambda>kv. case env_name kv of None \<Rightarrow> True | Some n \<Rightarrow> n \<notin> set account_runtime_overrides) env @
     map (\<lambda>n. n @ ''='' @ state_dir) account_runtime_overrides"

definition with_credentialed_home :: "string list \<Rightarrow> string \<Rightarrow> string list" where
  "with_credentialed_home env home = filter (\<lambda>kv. env_name kv \<noteq> Some ''HOME'') env @ [''HOME='' @ home]"

text \<open>The environment and the working directory (empty: the gateway's) the executor gives the child.\<close>

definition child_runtime :: "resolved_account \<Rightarrow> string list \<Rightarrow> string list \<Rightarrow> string list \<times> string" where
  "child_runtime r environ extra =
     (let env = build_plugin_env environ extra in
      if credentialed r then (with_credentialed_home env (ra_home r), ra_home r)
      else if walled r \<and> ra_state_dir r \<noteq> [] then (with_account_runtime_env env (ra_state_dir r), ra_state_dir r)
      else (env, []))"

section \<open>Captured output\<close>

record bounded_buffer =
  bb_buf :: string
  bb_limit :: int
  bb_truncated :: bool

definition new_bounded_buffer :: "int \<Rightarrow> bounded_buffer" where
  "new_bounded_buffer limit = \<lparr>bb_buf = [], bb_limit = limit, bb_truncated = False\<rparr>"

text \<open>The result of \<^verbatim>\<open>Write\<close> is always the length of its argument.\<close>

definition buffer_write :: "string \<Rightarrow> bounded_buffer \<Rightarrow> bounded_buffer" where
  "buffer_write p b =
     (if bb_limit b \<le> 0 then b
      else let remaining = bb_limit b - int (length (bb_buf b)) in
        if remaining \<le> 0 then b\<lparr>bb_truncated := True\<rparr>
        else if int (length p) \<le> remaining then b\<lparr>bb_buf := bb_buf b @ p\<rparr>
        else b\<lparr>bb_buf := bb_buf b @ take (nat remaining) p, bb_truncated := True\<rparr>)"

definition max_stdout_bytes :: int where "max_stdout_bytes = 10 * 1024 * 1024"
definition max_plugin_stderr_bytes :: int where "max_plugin_stderr_bytes = 64 * 1024"

definition capture :: "int \<Rightarrow> string list \<Rightarrow> bounded_buffer" where
  "capture limit chunks = fold buffer_write chunks (new_bounded_buffer limit)"

section \<open>The answer\<close>

record response =
  rs_status :: string
  rs_error :: string
  rs_result :: string
  rs_events :: "event list"
  rs_state_updates :: gmap
  rs_subs :: "gmap list"

definition validate_response :: "response \<Rightarrow> spawn_error option" where
  "validate_response r =
     (if rs_status r = [] then Some (BadResponse ''missing status'')
      else if rs_status r \<noteq> ''ok'' \<and> rs_status r \<noteq> ''error'' then Some (BadResponse ''invalid status'')
      else if rs_status r = ''error'' \<and> rs_error r = [] then Some (BadResponse ''no error message'')
      else if rs_status r = ''ok'' \<and> trim_space (rs_result r) = [] then Some (BadResponse ''no result message'')
      else None)"

text \<open>\<open>unmarshal\<close> is \<^verbatim>\<open>json.Unmarshal\<close> into the wire structure: the response and its retry flag.\<close>

type_synonym response_codec = "string \<Rightarrow> (response \<times> bool option) option"

definition decode_response_lenient :: "response_codec \<Rightarrow> string \<Rightarrow> spawn_error + response \<times> bool option" where
  "decode_response_lenient unmarshal data =
     (if data = [] then Inl NoOutput
      else case unmarshal data of
        None \<Rightarrow> Inl NotJSON
      | Some (r, retry) \<Rightarrow> (case validate_response r of Some e \<Rightarrow> Inl e | None \<Rightarrow> Inr (r, retry)))"

section \<open>The run\<close>

datatype start_outcome = StartOk | StartTextBusy | StartNotExist | StartRefused
datatype wait_outcome = WaitOk | WaitExit int | WaitFatal

record process_outcome =
  po_pipe_ok :: bool
  po_starts :: "nat \<Rightarrow> start_outcome"
  po_stdout :: "string list"
  po_stderr :: "string list"
  po_timer_fired :: bool
  po_ready_at_timer :: bool
  po_wait :: wait_outcome

text \<open>What a spawn returns. \<open>xr_ran_as\<close> is the part the operating system sees: the credential of the command that was
  started, \<^verbatim>\<open>None\<close> when none was, \<^verbatim>\<open>Some None\<close> for the gateway's own identity.\<close>

record spawn_result =
  xr_ran_as :: "(int \<times> int \<times> int list) option option"
  xr_resp :: "response option"
  xr_retry :: "bool option"
  xr_raw :: "string option"
  xr_stderr :: string
  xr_exit_code :: int
  xr_err :: "spawn_error option"

definition spawn_failure :: "spawn_error \<Rightarrow> spawn_result" where
  "spawn_failure e = \<lparr>xr_ran_as = None, xr_resp = None, xr_retry = None, xr_raw = None, xr_stderr = [], xr_exit_code = 0, xr_err = Some e\<rparr>"

definition max_start_attempts :: nat where "max_start_attempts = 8"

text \<open>The start loop from attempt \<open>n\<close> on, with the number of attempts left. A refused
  start of an account that drops is a failed drop.\<close>

fun start_loop :: "nat \<Rightarrow> nat \<Rightarrow> resolved_account \<Rightarrow> (nat \<Rightarrow> start_outcome) \<Rightarrow> spawn_error option" where
  "start_loop 0 n r starts = Some StartProcess"
| "start_loop (Suc left) n r starts =
     (case starts n of
        StartOk \<Rightarrow> None
      | StartTextBusy \<Rightarrow>
         if n < max_start_attempts then start_loop left (Suc n) r starts
         else Some (if drops r then AccountDropFailed else StartProcess)
      | StartNotExist \<Rightarrow> Some StartProcess
      | StartRefused \<Rightarrow> Some (if drops r then AccountDropFailed else StartProcess))"

definition decode_completion :: "response_codec \<Rightarrow> process_outcome \<Rightarrow> spawn_result" where
  "decode_completion unmarshal po =
     (let out = capture max_stdout_bytes (po_stdout po); err = capture max_plugin_stderr_bytes (po_stderr po);
          exit = (case po_wait po of WaitExit c \<Rightarrow> c | _ \<Rightarrow> 0)
      in if po_wait po = WaitFatal then (spawn_failure WaitProcess)\<lparr>xr_stderr := bb_buf err\<rparr>
         else if bb_truncated out then
           \<lparr>xr_ran_as = None, xr_resp = None, xr_retry = None, xr_raw = Some (bb_buf out), xr_stderr = bb_buf err, xr_exit_code = exit,
            xr_err = Some (OutputLimit max_stdout_bytes)\<rparr>
         else (case decode_response_lenient unmarshal (bb_buf out) of
                 Inl e \<Rightarrow> \<lparr>xr_ran_as = None, xr_resp = None, xr_retry = None, xr_raw = Some (bb_buf out), xr_stderr = bb_buf err,
                            xr_exit_code = exit, xr_err = Some e\<rparr>
               | Inr (r, retry) \<Rightarrow> \<lparr>xr_ran_as = None, xr_resp = Some r, xr_retry = retry, xr_raw = Some (bb_buf out), xr_stderr = bb_buf err,
                            xr_exit_code = exit, xr_err = None\<rparr>))"

definition execute :: "response_codec \<Rightarrow> resolved_account \<Rightarrow> process_outcome \<Rightarrow> spawn_result" where
  "execute unmarshal r po =
     (case apply_account_credential r of
        Inl e \<Rightarrow> spawn_failure e
      | Inr credential \<Rightarrow>
         if \<not> po_pipe_ok po then spawn_failure StdinPipe
         else (case start_loop max_start_attempts 1 r (po_starts po) of
           Some e \<Rightarrow> spawn_failure e
         | None \<Rightarrow>
            (if po_timer_fired po \<and> \<not> po_ready_at_timer po
             then (spawn_failure DeadlineExceeded)\<lparr>xr_stderr := bb_buf (capture max_plugin_stderr_bytes (po_stderr po))\<rparr>
             else decode_completion unmarshal po)\<lparr>xr_ran_as := Some credential\<rparr>))"

definition spawn_plugin ::
  "bool \<Rightarrow> (string \<times> account_conf) list \<Rightarrow> (string \<Rightarrow> string) \<Rightarrow> (string \<Rightarrow> bool) option \<Rightarrow> response_codec \<Rightarrow> string
   \<Rightarrow> (resolved_account \<Rightarrow> process_outcome) \<Rightarrow> spawn_result" where
  "spawn_plugin enforce accounts run_as verifier unmarshal plugin os =
     (if \<not> enforce then execute unmarshal zero_account (os zero_account)
      else case resolve_account accounts run_as plugin of
        Inl e \<Rightarrow> spawn_failure e
      | Inr granted \<Rightarrow>
         (case bind_account_to_fingerprint granted accounts plugin verifier of
            Inl e \<Rightarrow> spawn_failure e
          | Inr r \<Rightarrow> execute unmarshal r (os r)))"

section \<open>Lemmas\<close>

lemma buffer_write_limit: "bb_limit (buffer_write p b) = bb_limit b"
  by (simp add: buffer_write_def Let_def)

lemma fold_buffer_write:
  assumes "bb_limit b > 0" "int (length (bb_buf b)) \<le> bb_limit b" "list_all (\<lambda>p. p \<noteq> []) chunks"
  shows "bb_buf (fold buffer_write chunks b) = take (nat (bb_limit b)) (bb_buf b @ concat chunks) \<and>
    (bb_truncated (fold buffer_write chunks b) \<longleftrightarrow>
      bb_truncated b \<or> int (length (bb_buf b @ concat chunks)) > bb_limit b)"
  using assms
proof (induction chunks arbitrary: b)
  case (Cons p chunks)
  let ?b = "buffer_write p b"
  define n where "n = nat (bb_limit b)"
  have lim: "bb_limit b = int n" using Cons.prems by (simp add: n_def)
  have ih: "bb_buf (fold buffer_write chunks ?b) = take n (bb_buf ?b @ concat chunks) \<and>
      (bb_truncated (fold buffer_write chunks ?b) \<longleftrightarrow> bb_truncated ?b \<or> int (length (bb_buf ?b @ concat chunks)) > int n)"
    if "length (bb_buf ?b) \<le> n"
    using Cons.IH [of ?b] Cons.prems that by (simp add: buffer_write_limit lim)
  show ?case
  proof (cases "length (bb_buf b @ p) \<le> n")
    case True
    moreover have "length p > 0" using Cons.prems(3) by simp
    ultimately have "length (bb_buf b) < n" by (simp only: length_append)
    then have "bb_buf ?b = bb_buf b @ p" "bb_truncated ?b = bb_truncated b"
      using Cons.prems True by (auto simp: buffer_write_def Let_def lim)
    then show ?thesis using ih True by (simp add: lim)
  next
    case False
    have "nat (int n - int (length (bb_buf b))) = n - length (bb_buf b)" by simp
    then have "bb_buf ?b = take n (bb_buf b @ p)" "bb_truncated ?b"
      using False Cons.prems by (auto simp: buffer_write_def Let_def lim)
    moreover from this have "length (bb_buf ?b) = n" using False by simp
    moreover have "take n (bb_buf b @ concat (p # chunks)) = take n (bb_buf b @ p)" using False by simp
    moreover have "length (bb_buf b) \<le> n" using Cons.prems(2) by (simp add: lim)
    ultimately show ?thesis using ih False by (simp add: lim)
  qed
qed auto

text \<open>Whatever way the pieces of its output arrive, the captured stream is the first \<open>limit\<close> bytes of
  everything a process wrote, and it is marked truncated exactly when there was more. (\<^verbatim>\<open>io.Copy\<close>, the writer
  behind \<^verbatim>\<open>exec.Cmd\<close>, never writes an empty piece.)\<close>

theorem capture_is_prefix:
  assumes "limit > 0" and "list_all (\<lambda>p. p \<noteq> []) chunks"
  shows "bb_buf (capture limit chunks) = take (nat limit) (concat chunks) \<and>
    (bb_truncated (capture limit chunks) \<longleftrightarrow> int (length (concat chunks)) > limit)"
  using fold_buffer_write [of "new_bounded_buffer limit" chunks] assms
  by (simp add: capture_def new_bounded_buffer_def)

theorem capture_is_prefix_witness:
  "bb_buf (capture 5 [''abc'', ''def'', ''g'']) = ''abcde'' \<and> bb_truncated (capture 5 [''abc'', ''def'', ''g''])"
  using capture_is_prefix [of 5 "[''abc'', ''def'', ''g'']"] by simp

lemma execute_ran_as:
  "xr_ran_as (execute unmarshal r po) = None \<Longrightarrow>
     xr_resp (execute unmarshal r po) = None \<and> xr_err (execute unmarshal r po) \<noteq> None"
  "xr_ran_as (execute unmarshal r po) = Some c \<Longrightarrow> apply_account_credential r = Inr c"
  by (auto simp: execute_def spawn_failure_def split: sum.splits option.splits if_splits)

lemma validated_accounts:
  "validate_accounts seen accounts = None \<Longrightarrow>
     list_all (\<lambda>(n, w). 0 < ac_uid w \<and> ac_uid w < 2 ^ 31 \<and> 0 < ac_gid w \<and> ac_gid w < 2 ^ 31 \<and> map_of seen (ac_uid w) = None) accounts \<and>
     distinct (map (ac_uid \<circ> snd) accounts)"
proof (induction seen accounts rule: validate_accounts.induct)
  case (2 seen n w rest)
  then have w: "account_fault_of seen n w = None" by (simp split: option.splits)
  then have own: "0 < ac_uid w \<and> ac_uid w < 2 ^ 31 \<and> 0 < ac_gid w \<and> ac_gid w < 2 ^ 31 \<and> map_of seen (ac_uid w) = None"
    by (simp add: account_fault_of_def split: if_splits option.splits)
  have ih: "list_all (\<lambda>(m, v). 0 < ac_uid v \<and> ac_uid v < 2 ^ 31 \<and> 0 < ac_gid v \<and> ac_gid v < 2 ^ 31 \<and>
        map_of ((ac_uid w, n) # seen) (ac_uid v) = None) rest" "distinct (map (ac_uid \<circ> snd) rest)"
    using 2 w by (simp_all add: comp_def)
  have new: "0 < ac_uid v \<and> ac_uid v < 2 ^ 31 \<and> 0 < ac_gid v \<and> ac_gid v < 2 ^ 31 \<and> map_of seen (ac_uid v) = None \<and>
      ac_uid v \<noteq> ac_uid w" if "(m, v) \<in> set rest" for m v
  proof -
    have "map_of ((ac_uid w, n) # seen) (ac_uid v) = None" "0 < ac_uid v \<and> ac_uid v < 2 ^ 31 \<and> 0 < ac_gid v \<and> ac_gid v < 2 ^ 31"
      using bspec [OF ih(1) [unfolded list_all_iff] that] by simp_all
    then show ?thesis by (simp split: if_splits)
  qed
  then have "ac_uid w \<notin> ac_uid ` snd ` set rest" by force
  then show ?case using own new ih(2) by (auto simp: list_all_iff image_comp comp_def)
qed simp

lemma untrusted_not_shared:
  assumes "distinct (map (ac_uid \<circ> snd) accounts)" "map_get accounts u = Some w"
  shows "list_all (\<lambda>(n, v). n = u \<or> ac_uid v \<noteq> ac_uid w) accounts"
  using assms(1) map_of_SomeD [OF assms(2)] by (fastforce simp: list_all_iff distinct_map inj_on_def)

text \<open>C39. Privilege separation: with an accounts table the configuration check accepts, when the gate enforces and a
  plugin has a grant or there is a default tier, every process the spawn starts runs under the uid and gid of one
  configured tier, both above zero, with no group but its own: the tier granted to the plugin, or the default one, when the
  verifier is absent or the bytes match, and the \<^verbatim>\<open>untrusted\<close> tier, whose uid no other account has, when they do not
  match. A spawn that starts nothing returns an error and no answer.\<close>

theorem spawn_drops_privilege:
  assumes "validate_accounts [] accounts = None"
    and "run_as plugin \<noteq> [] \<or> map_get accounts ''default'' \<noteq> None"
    and "spawn_plugin True accounts run_as verifier unmarshal plugin os = x"
  shows "case xr_ran_as x of
      None \<Rightarrow> xr_resp x = None \<and> xr_err x \<noteq> None
    | Some c \<Rightarrow> (\<exists>tier w. map_get accounts tier = Some w \<and> c = Some (ac_uid w, ac_gid w, [ac_gid w]) \<and> ac_uid w > 0 \<and> ac_gid w > 0 \<and>
        (if \<exists>verify. verifier = Some verify \<and> \<not> verify plugin
         then tier = ''untrusted'' \<and> list_all (\<lambda>(n, v). n = ''untrusted'' \<or> ac_uid v \<noteq> ac_uid w) accounts
         else tier = (if run_as plugin = [] then ''default'' else run_as plugin)))"
proof (cases "xr_ran_as x")
  case None
  then show ?thesis using assms(3) by (auto simp: spawn_plugin_def spawn_failure_def dest: execute_ran_as(1) split: sum.splits)
next
  case (Some c)
  then obtain granted r where g: "resolve_account accounts run_as plugin = Inr granted"
    and r: "bind_account_to_fingerprint granted accounts plugin verifier = Inr r"
    and c: "apply_account_credential r = Inr c"
    using assms(3) by (auto simp: spawn_plugin_def spawn_failure_def dest: execute_ran_as(2) split: sum.splits)
  note valid = validated_accounts [OF assms(1)]
  have bounded: "0 < ac_uid w \<and> ac_uid w < 2 ^ 31 \<and> 0 < ac_gid w \<and> ac_gid w < 2 ^ 31" if "map_get accounts n = Some w" for n w
    using map_of_SomeD [OF that] valid by (auto simp: list_all_iff)
  have account: "drops a \<Longrightarrow> apply_account_credential a = Inr c \<Longrightarrow> ra_uid a = ac_uid w \<Longrightarrow> ra_gid a = ac_gid w \<Longrightarrow>
      map_get accounts n = Some w \<Longrightarrow> c = Some (ac_uid w, ac_gid w, [ac_gid w])" for a n w
    using bounded [of n w] by (auto simp: apply_account_credential_def Let_def split: if_splits)
  let ?grant = "if run_as plugin = [] then ''default'' else run_as plugin"
  obtain w where w: "map_get accounts ?grant = Some w" "ra_uid granted = ac_uid w" "ra_gid granted = ac_gid w" "drops granted"
    using g assms(2) by (auto simp: resolve_account_def configured_account_def drops_def Let_def split: if_splits option.splits)
  show ?thesis
  proof (cases "\<exists>verify. verifier = Some verify \<and> \<not> verify plugin")
    case True
    then obtain u where u: "map_get accounts ''untrusted'' = Some u" "ra_uid r = ac_uid u" "ra_gid r = ac_gid u" "drops r"
      using r w(4) by (auto simp: bind_account_to_fingerprint_def most_restricted_account_def drops_def split: option.splits)
    then show ?thesis
      using True Some account [OF u(4) c u(2,3,1)] bounded [OF u(1)] untrusted_not_shared [OF _ u(1)] valid by auto
  next
    case False
    then have "r = granted" using r by (auto simp: bind_account_to_fingerprint_def split: option.splits)
    then have "c = Some (ac_uid w, ac_gid w, [ac_gid w])" using account [OF w(4) _ w(2,3,1)] c by simp
    then show ?thesis unfolding if_not_P [OF False] using Some bounded [OF w(1)] w(1) by (auto intro!: exI [of _ ?grant] exI [of _ w])
  qed
qed

definition demo_accounts :: "(string \<times> account_conf) list" where
  "demo_accounts =
     [(''trusted'', \<lparr>ac_uid = 1001, ac_gid = 1001, ac_state_dir = ''/var/t'', ac_home = []\<rparr>),
      (''untrusted'', \<lparr>ac_uid = 1002, ac_gid = 1002, ac_state_dir = ''/var/u'', ac_home = []\<rparr>)]"

definition demo_process :: process_outcome where
  "demo_process = \<lparr>po_pipe_ok = True, po_starts = (\<lambda>_. StartOk), po_stdout = [''x''], po_stderr = [], po_timer_fired = False,
     po_ready_at_timer = False, po_wait = WaitOk\<rparr>"

theorem spawn_drops_privilege_witness:
  "xr_ran_as (spawn_plugin True demo_accounts (\<lambda>_. ''trusted'') (Some (\<lambda>_. False)) (\<lambda>_. None) ''mail'' (\<lambda>_. demo_process)) =
     Some (Some (1002, 1002, [1002]))"
proof -
  let ?x = "spawn_plugin True demo_accounts (\<lambda>_. ''trusted'') (Some (\<lambda>_. False)) (\<lambda>_. None) ''mail'' (\<lambda>_. demo_process)"
  have started: "xr_ran_as ?x \<noteq> None" by code_simp
  have "validate_accounts [] demo_accounts = None" by code_simp
  from spawn_drops_privilege [OF this _ refl, of "\<lambda>_. ''trusted''" "''mail''" "Some (\<lambda>_. False)" "\<lambda>_. None" "\<lambda>_. demo_process"] started
  obtain w where "map_get demo_accounts ''untrusted'' = Some w" "xr_ran_as ?x = Some (Some (ac_uid w, ac_gid w, [ac_gid w]))"
    by (auto split: option.splits)
  then show ?thesis by (auto simp: demo_accounts_def)
qed

end
