(* ===== verification/Dispatch_Policy.thy ===== *)
theory Dispatch_Policy
  imports Queue_Invariants Plugin_Config
begin

text \<open>
  The decisions of the dispatcher, \<^verbatim>\<open>src/internal/dispatch\<close>: retries and their backoff (\<^verbatim>\<open>retry_policy.go\<close>,
  \<^verbatim>\<open>dispatcher.go\<close>), the worker pool of \<^verbatim>\<open>Start\<close> with its plugin lanes, the depth of hook chains and the settling of
  synchronous job trees. The conversion of a float beyond the 64-bit range, which Go leaves to
  the platform, is the parameter \<open>ovf\<close>.
\<close>

section \<open>Retries\<close>

record retry_decision =
  rd_retryable :: bool
  rd_reason :: string
  rd_exhausted :: bool

definition non_retryable_exit_code :: int where "non_retryable_exit_code = 78"

definition effective_max_attempts :: "job \<Rightarrow> plugin_conf \<Rightarrow> int" where
  "effective_max_attempts j pc = (if j_max_attempts j > 0 then j_max_attempts j else resolved_max_attempts pc)"

text \<open>\<open>resp_status\<close> is the status of the response, if there is one, and \<open>retry\<close> its compatibility flag.\<close>

definition decide_retry_policy ::
  "string option \<Rightarrow> bool option \<Rightarrow> int \<Rightarrow> job \<Rightarrow> plugin_conf \<Rightarrow> string \<Rightarrow> retry_decision" where
  "decide_retry_policy resp_status retry exit_code j pc default_reason =
     (let reason = (if trim_space default_reason = [] then ''plugin_error'' else trim_space default_reason) in
      if exit_code = non_retryable_exit_code
      then \<lparr>rd_retryable = False, rd_reason = ''exit_code_78'', rd_exhausted = False\<rparr>
      else if resp_status = Some ''error'' \<and> retry = Some False
      then \<lparr>rd_retryable = False, rd_reason = ''plugin_retry_false'', rd_exhausted = False\<rparr>
      else \<lparr>rd_retryable = True, rd_reason = reason,
             rd_exhausted = (effective_max_attempts j pc > 0 \<and> j_attempt j \<ge> effective_max_attempts j pc)\<rparr>)"

definition calculate_backoff_delay :: "int \<Rightarrow> duration \<Rightarrow> int \<Rightarrow> duration \<Rightarrow> duration" where
  "calculate_backoff_delay ovf base0 attempt0 jitter =
     (let base = (if base0 \<le> 0 then 30 * second else base0);
          attempt = (if attempt0 < 1 then 1 else attempt0);
          p = (if attempt - 1 < 63 then 2 ^ nat (attempt - 1) else ovf);
          factor = max p 1;
          delay = wrap64 (factor * base);
          delay1 = (if delay < 0 then base else delay);
          delay2 = wrap64 (delay1 + jitter)
      in if delay2 < 0 then base else delay2)"

text \<open>\<open>rand n\<close> is \<^verbatim>\<open>rand.Int63n(n)\<close>.\<close>

definition compute_retry_delay :: "int \<Rightarrow> (int \<Rightarrow> int) \<Rightarrow> plugin_conf \<Rightarrow> int \<Rightarrow> duration" where
  "compute_retry_delay ovf rand pc attempt =
     (let base = resolved_backoff_base pc; max_jitter = base div 4
      in calculate_backoff_delay ovf base attempt (if max_jitter > 0 then rand (max_jitter + 1) else 0))"

definition hook_signal_for_status :: "status \<Rightarrow> string" where
  "hook_signal_for_status s =
     (case s of StatusSucceeded \<Rightarrow> ''job.completed'' | StatusTimedOut \<Rightarrow> ''job.timed_out''
      | StatusFailed \<Rightarrow> ''job.failed'' | StatusDead \<Rightarrow> ''job.failed'' | _ \<Rightarrow> [])"

text \<open>A delay is a 64-bit duration that is never negative; it is exactly the doubled base plus the jitter
  while that fits 63 bits.\<close>

lemma backoff_nonneg: "0 \<le> calculate_backoff_delay ovf base attempt jitter"
  by (simp add: calculate_backoff_delay_def Let_def)

lemma backoff_exact:
  assumes "0 < base" "1 \<le> attempt" "0 \<le> jitter" "2 ^ nat (attempt - 1) * base + jitter < 2 ^ 63"
  shows "calculate_backoff_delay ovf base attempt jitter = 2 ^ nat (attempt - 1) * base + jitter"
proof -
  let ?p = "2 ^ nat (attempt - 1) :: int"
  have "?p \<le> ?p * base" using assms(1) by simp
  then have "?p < 2 ^ 63" using assms(3,4) by linarith
  then have "nat (attempt - 1) < 63" by (simp only: power_strict_increasing_iff [of "2::int"])
  then have small: "attempt - 1 < 63" by simp
  have "(1 :: int) \<le> ?p" by simp
  then have top: "max ?p 1 = ?p" by (rule max_absorb1)
  have prod: "0 \<le> ?p * base" using assms(1) by simp
  have "wrap64 (?p * base) = ?p * base" "wrap64 (?p * base + jitter) = ?p * base + jitter"
    using assms(3,4) prod by (auto intro!: wrap64_id)
  moreover have "\<not> base \<le> 0" "\<not> attempt < 1" "\<not> ?p * base < 0" "\<not> ?p * base + jitter < 0" using assms(1-3) prod by linarith+
  ultimately show ?thesis
    unfolding calculate_backoff_delay_def Let_def by (simp only: small top if_True if_False)
qed

text \<open>With the default base of 30 seconds the product wraps to zero at attempt 55, leaving the jitter alone.\<close>

lemma backoff_collapses: "0 \<le> jitter \<Longrightarrow> jitter < 2 ^ 63 \<Longrightarrow> calculate_backoff_delay ovf (30 * second) 55 jitter = jitter"
  by (simp add: calculate_backoff_delay_def Let_def wrap64_def)

section \<open>Worker lanes\<close>

definition plugin_parallelism :: "(string \<times> plugin_conf) list \<Rightarrow> (string \<Rightarrow> bool option) \<Rightarrow> string \<Rightarrow> int" where
  "plugin_parallelism plugins concurrency_safe p =
     (let limit = (case map_of plugins p of Some pc \<Rightarrow> if pc_parallelism pc > 0 then pc_parallelism pc else 1 | None \<Rightarrow> 1)
      in if concurrency_safe p = Some False \<and> limit \<le> 1 then 1 else limit)"

definition skip_plugins :: "(string \<Rightarrow> int) \<Rightarrow> queue_db \<Rightarrow> string list" where
  "skip_plugins par db = map fst (filter (\<lambda>(p, n). int n \<ge> par p) (running_counts_by_plugin db))"

text \<open>\<^verbatim>\<open>fillWorkers\<close> with no other activity: the number of free slots bounds the loop.\<close>

fun fill_workers :: "nat \<Rightarrow> queue_conf \<Rightarrow> instant \<Rightarrow> (string \<Rightarrow> int) \<Rightarrow> queue_db \<Rightarrow> queue_db \<times> job list" where
  "fill_workers 0 q now par db = (db, [])"
| "fill_workers (Suc slots) q now par db =
     (case dequeue_eligible q now (skip_plugins par db) [] db of
        (db1, Inr (Some j)) \<Rightarrow> (case fill_workers slots q now par db1 of (db2, js) \<Rightarrow> (db2, j # js))
      | (db1, _) \<Rightarrow> (db1, []))"

text \<open>The same loop interleaved with everything that runs beside it. A state is the database, the number of
  active workers, and the skip list while the loop stands between loading the counts and claiming
  a job; workers, the scheduler and the API change the queue at any moment, but only the loop starts jobs.\<close>

record pool =
  pool_db :: queue_db
  pool_active :: int
  pool_skip :: "string list option"

inductive other_step :: "queue_db \<Rightarrow> queue_db \<Rightarrow> bool" where
  other_enqueue: "fresh_id jid db \<Longrightarrow> other_step db (fst (enqueue q jid now req db))"
| other_cancel: "other_step db (fst (cancel_outstanding_jobs now p c reason db))"
| other_complete: "other_step db (fst (complete_with_result now jid st result err stderr db))"
| other_retry: "find_job jid db = Some j \<Longrightarrow> j_attempt j < n \<Longrightarrow> st \<noteq> StatusRunning \<Longrightarrow>
    other_step db (fst (update_job_for_recovery now jid st n retry err db))"
| other_prune_queue: "other_step db (prune_job_queue now r db)"
| other_prune_logs: "other_step db (prune_job_logs now r db)"

inductive pool_step :: "queue_conf \<Rightarrow> (string \<Rightarrow> int) \<Rightarrow> int \<Rightarrow> pool \<Rightarrow> pool \<Rightarrow> bool" for q par max_workers where
  load: "pool_active s < max_workers \<Longrightarrow> pool_skip s = None \<Longrightarrow>
    pool_step q par max_workers s (s\<lparr>pool_skip := Some (skip_plugins par (pool_db s))\<rparr>)"
| claim: "pool_skip s = Some skip \<Longrightarrow> dequeue_eligible q now skip [] (pool_db s) = (db1, Inr (Some j)) \<Longrightarrow>
    pool_step q par max_workers s (s\<lparr>pool_db := db1, pool_active := pool_active s + 1, pool_skip := None\<rparr>)"
| idle: "pool_skip s = Some skip \<Longrightarrow> dequeue_eligible q now skip [] (pool_db s) = (db1, r) \<Longrightarrow> (\<forall>j. r \<noteq> Inr (Some j)) \<Longrightarrow>
    pool_step q par max_workers s (s\<lparr>pool_db := db1, pool_skip := None\<rparr>)"
| other: "other_step (pool_db s) db1 \<Longrightarrow> pool_step q par max_workers s (s\<lparr>pool_db := db1\<rparr>)"
| finished: "pool_active s > 0 \<Longrightarrow> pool_skip s = None \<Longrightarrow>
    pool_step q par max_workers s (s\<lparr>pool_active := pool_active s - 1\<rparr>)"

inductive pool_reachable :: "queue_conf \<Rightarrow> (string \<Rightarrow> int) \<Rightarrow> int \<Rightarrow> pool \<Rightarrow> bool" for q par max_workers where
  boot: "queue_reachable db \<Longrightarrow> find_jobs_by_status StatusRunning db = [] \<Longrightarrow>
    pool_reachable q par max_workers \<lparr>pool_db = db, pool_active = 0, pool_skip = None\<rparr>"
| next_state: "pool_reachable q par max_workers s \<Longrightarrow> pool_step q par max_workers s s1 \<Longrightarrow>
    pool_reachable q par max_workers s1"

lemma other_step_fact:
  assumes "other_step db db1"
  shows "fact_step db db1"
  using assms by cases (auto intro: fact_step.intros)

text \<open>Nothing but the claim raises a running count.\<close>

lemma running_count_update:
  assumes "\<And>x. x \<in> set (job_queue db) \<Longrightarrow> P x \<Longrightarrow> j_status (f x) \<noteq> StatusRunning"
  shows "length (filter (\<lambda>j. j_status j = StatusRunning \<and> j_plugin j = p) (update_where P f (job_queue db))) \<le> running_count p db"
proof -
  have "length (filter R (update_where P f xs)) \<le> length (filter R xs)"
    if "\<And>x. x \<in> set xs \<Longrightarrow> P x \<Longrightarrow> \<not> R (f x)" for R xs
    using that
  proof (induction xs)
    case (Cons x xs)
    then have "length (filter R (update_where P f xs)) \<le> length (filter R xs)" by simp
    moreover have "P x \<longrightarrow> \<not> R (f x)" using Cons.prems by simp
    ultimately show ?case by auto
  qed simp
  from this [of "job_queue db" "\<lambda>j. j_status j = StatusRunning \<and> j_plugin j = p"] assms
  show ?thesis by (simp add: running_count_def)
qed

lemma length_filter_filter: "length (filter P (filter Q xs)) \<le> length (filter P xs)"
  by (induction xs) auto

lemma other_step_counts:
  assumes "other_step db db1"
  shows "running_count p db1 \<le> running_count p db"
  using assms
proof cases
  case (other_enqueue jid q now req)
  then show ?thesis
    using enqueue_cases [of q jid now req db] by (auto simp: running_count_def Let_def)
next
  case (other_cancel now p' c reason)
  then show ?thesis
    using cancel_cases [of now p' c reason db]
      running_count_update [of db "outstanding_for p' c" "\<lambda>j. j\<lparr>j_status := StatusDead, j_completed_at := Some now, j_last_error := r\<rparr>" p for r]
    by (auto simp: running_count_def)
next
  case (other_complete now jid st result err stderr)
  have "terminal_status st \<Longrightarrow> j_status (completed_job now st err x) \<noteq> StatusRunning" for x
    by (auto simp: completed_job_def terminal_status_def)
  then show ?thesis
    using other_complete running_count_update [of db "\<lambda>x. j_id x = jid" "completed_job now st err" p]
    by (auto simp: complete_eq running_count_def split: option.splits)
next
  case (other_retry jid j n st now retry err)
  have "j_status (recovered_job st n retry e x) \<noteq> StatusRunning" for x e
    using other_retry(4) by (simp add: recovered_job_def)
  then show ?thesis
    using other_retry running_count_update [of db "\<lambda>x. j_id x = jid" "recovered_job st n retry e" p for e]
    by (auto simp: recovery_eq running_count_def)
next
  case (other_prune_queue now r)
  then show ?thesis
    by (cases "r \<le> 0")
      (simp_all add: prune_job_queue_def running_count_def length_filter_filter del: filter_filter)
next
  case (other_prune_logs now r)
  then show ?thesis by (simp add: prune_job_logs_def running_count_def)
qed

definition lanes_ok :: "(string \<Rightarrow> int) \<Rightarrow> int \<Rightarrow> pool \<Rightarrow> bool" where
  "lanes_ok par max_workers s \<longleftrightarrow>
     wf_queue (pool_db s) \<and> (\<forall>p. int (running_count p (pool_db s)) \<le> par p) \<and> pool_active s \<le> max_workers \<and>
     (case pool_skip s of None \<Rightarrow> True
      | Some skip \<Rightarrow> pool_active s < max_workers \<and> (\<forall>p. p \<notin> set skip \<longrightarrow> int (running_count p (pool_db s)) < par p))"

lemma not_skipped:
  assumes "p \<notin> set (skip_plugins par db)" "0 < par p"
  shows "int (running_count p db) < par p"
proof (cases "running_count p db = 0")
  case False
  then have "filter (\<lambda>j. j_status j = StatusRunning \<and> j_plugin j = p) (job_queue db) \<noteq> []" by (simp add: running_count_def)
  then have "p \<in> j_plugin ` set (filter (\<lambda>j. j_status j = StatusRunning) (job_queue db))"
    by (force simp: filter_empty_conv)
  then show ?thesis using assms(1) by (force simp: skip_plugins_def running_counts_by_plugin_def)
qed (use assms in simp)

text \<open>A claim raises the count of the claimed plugin by one.\<close>

lemma claim_counts:
  assumes "wf_queue db" "dequeue_eligible q now skip [] db = (db1, Inr (Some j))"
  shows "j_plugin j \<notin> set skip \<and> running_count p db1 \<le> running_count p db + (if p = j_plugin j then 1 else 0)"
proof -
  from assms(2) obtain c where c: "dequeue_candidate now skip [] db = Some c" and db1: "db1 = started_db q now c db"
    and j: "j = start_job q now c"
    by (auto simp: dequeue_eligible_eq split: option.splits if_splits)
  note props = dequeue_candidate_props [OF c]
  have ids: "distinct (map j_id (job_queue db))" using assms(1) by (simp add: wf_queue_def ids_unique_def)
  have "length (filter R (update_where (\<lambda>x. j_id x = j_id c) (start_job q now) xs)) \<le>
      length (filter R xs) + (if \<exists>x\<in>set xs. j_id x = j_id c \<and> R (start_job q now x) then 1 else 0)"
    if "distinct (map j_id xs)" for R xs
    using that
  proof (induction xs)
    case (Cons x xs)
    show ?case
    proof (cases "j_id x = j_id c")
      case True
      then have "\<not> j_id y = j_id c" if "y \<in> set xs" for y using Cons.prems that by (auto simp: image_iff)
      then have "update_where (\<lambda>x. j_id x = j_id c) (start_job q now) xs = xs" by (intro update_where_none) auto
      then show ?thesis using True by auto
    qed (use Cons in \<open>auto split: if_splits\<close>)
  qed simp
  from this [OF ids, of "\<lambda>x. j_status x = StatusRunning \<and> j_plugin x = p"]
  have "running_count p db1 \<le> running_count p db + (if \<exists>x\<in>set (job_queue db). j_id x = j_id c \<and> j_plugin x = p then 1 else 0)"
    by (simp add: db1 running_count_def start_job_def cong: if_cong)
  moreover have "j_plugin x = j_plugin c" if "x \<in> set (job_queue db)" "j_id x = j_id c" for x
    using distinct_map_in_eq [OF ids that(1) props(1) that(2)] by simp
  moreover have "j_plugin j = j_plugin c" by (simp add: j start_job_def)
  ultimately show ?thesis using props(2) by (auto simp: eligible_def split: if_splits)
qed

lemma lanes_ok_step:
  assumes "pool_step q par max_workers s s1" "lanes_ok par max_workers s" "\<And>p. 0 < par p"
  shows "lanes_ok par max_workers s1"
  using assms(1)
proof cases
  case load
  then show ?thesis using assms(2,3) not_skipped by (auto simp: lanes_ok_def)
next
  case (claim skip now db1 j)
  note counts = claim_counts [OF _ claim(3)]
  have "wf_queue db1" using wf_dequeue [of "pool_db s" q now skip "[]"] assms(2) claim(3) by (simp add: lanes_ok_def)
  moreover have "int (running_count p db1) \<le> par p" for p
  proof -
    have ok: "wf_queue (pool_db s)" "int (running_count p (pool_db s)) \<le> par p"
      "p \<notin> set skip \<longrightarrow> int (running_count p (pool_db s)) < par p"
      using assms(2) claim(2) by (simp_all add: lanes_ok_def)
    then show ?thesis using counts [OF ok(1), of p] by (cases "p = j_plugin j") auto
  qed
  ultimately show ?thesis using assms(2) claim by (auto simp: lanes_ok_def)
next
  case (idle skip now db1 r)
  then have "db1 = pool_db s" by (auto simp: dequeue_eligible_eq split: option.splits if_splits)
  then show ?thesis using assms(2) idle by (auto simp: lanes_ok_def)
next
  case (other db1)
  have "wf_queue db1" using wf_fact_step [OF other_step_fact [OF other(2)]] assms(2) by (simp add: lanes_ok_def)
  moreover have "int (running_count p db1) \<le> par p" for p
    using other_step_counts [OF other(2), of p] assms(2) by (auto simp: lanes_ok_def intro: order_trans [rotated])
  moreover have "int (running_count p db1) < par p" if "pool_skip s = Some skip" "p \<notin> set skip" for p skip
  proof -
    have "int (running_count p (pool_db s)) < par p" using assms(2) that by (simp add: lanes_ok_def)
    then show ?thesis using other_step_counts [OF other(2), of p] by linarith
  qed
  ultimately show ?thesis using assms(2) by (auto simp: lanes_ok_def other(1) split: option.splits)
next
  case finished
  then show ?thesis using assms(2) by (auto simp: lanes_ok_def)
qed

lemma pool_lanes:
  "pool_reachable q par max_workers s \<Longrightarrow> (\<And>p. 0 < par p) \<Longrightarrow> 0 \<le> max_workers \<Longrightarrow> lanes_ok par max_workers s"
proof (induction rule: pool_reachable.induct)
  case (boot db)
  then have "running_count p db = 0" for p
    by (simp add: running_count_def find_jobs_by_status_def filter_empty_conv)
  then show ?case using boot reachable_wf by (auto simp: lanes_ok_def intro: less_imp_le)
next
  case (next_state s s1)
  then show ?case using lanes_ok_step by blast
qed

lemma plugin_parallelism_pos: "0 < plugin_parallelism plugins safe p"
  by (simp add: plugin_parallelism_def Let_def split: option.splits)

section \<open>Hook chains\<close>

datatype hook_error = HookSafetyCap | HookNoParent | HookParentLookup queue_error

text \<open>The walk up the parents; \<open>left\<close> is what remains of the safety cap.\<close>

fun hook_walk :: "(string \<Rightarrow> string option) \<Rightarrow> queue_db \<Rightarrow> nat \<Rightarrow> string \<Rightarrow> string option \<Rightarrow> hook_error + int" where
  "hook_walk step_of db 0 submitted_by parent = (if submitted_by = ''hook'' then Inl HookSafetyCap else Inr 0)"
| "hook_walk step_of db (Suc left) submitted_by parent =
     (if submitted_by \<noteq> ''hook'' then Inr 0
      else case parent of
        None \<Rightarrow> Inl HookNoParent
      | Some pid \<Rightarrow>
         (case get_job_by_id step_of pid db of
            Inl e \<Rightarrow> Inl (HookParentLookup e)
          | Inr r \<Rightarrow> bind_result (hook_walk step_of db left (jr_submitted_by r) (jr_parent_job_id r)) (\<lambda>d. Inr (d + 1))))"

definition hook_walk_safety_cap :: nat where "hook_walk_safety_cap = 1024"

definition hook_chain_depth :: "(string \<Rightarrow> string option) \<Rightarrow> queue_db \<Rightarrow> job \<Rightarrow> hook_error + int" where
  "hook_chain_depth step_of db j = hook_walk step_of db hook_walk_safety_cap (j_submitted_by j) (j_parent_job_id j)"

section \<open>Names and trees\<close>

definition str_ptr_or_nil :: "string \<Rightarrow> string option" where
  "str_ptr_or_nil v = (if trim_space v = [] then None else Some v)"

definition deref :: "string option \<Rightarrow> string" where
  "deref v = (case v of None \<Rightarrow> [] | Some s \<Rightarrow> s)"

definition schedule_id_from_dedupe_key :: "string \<Rightarrow> string \<Rightarrow> string option \<Rightarrow> string" where
  "schedule_id_from_dedupe_key plugin command key =
     (case key of None \<Rightarrow> []
      | Some k \<Rightarrow>
         let raw = trim_space k; pre = plugin @ '':'' @ command @ '':''; rest = drop (length pre) raw in
         if raw = [] \<or> take (length pre) raw \<noteq> pre \<or> rest = [] then []
         else trim_space (hd (split_on (CHR '':'') rest)))"

definition job_tree_complete :: "job_result list \<Rightarrow> bool" where
  "job_tree_complete rs \<longleftrightarrow> list_all (\<lambda>r. jr_status r \<noteq> StatusQueued \<and> jr_status r \<noteq> StatusRunning) rs"

text \<open>\<^verbatim>\<open>settledJobTree\<close> reads the tree twice, from two states of the database.\<close>

definition settled_job_tree ::
  "(string \<Rightarrow> string option) \<Rightarrow> string \<Rightarrow> queue_db \<Rightarrow> queue_db \<Rightarrow> unit + job_result list \<times> bool" where
  "settled_job_tree step_of root_id db1 db2 =
     (let results = get_job_tree step_of root_id db1; confirmed = get_job_tree step_of root_id db2 in
      if results = [] then Inl ()
      else if \<not> job_tree_complete results then Inr (results, False)
      else if confirmed = [] then Inl ()
      else if \<not> job_tree_complete confirmed then Inr (confirmed, False)
      else if length confirmed \<noteq> length results then Inr (confirmed, False)
      else Inr (confirmed, True))"

section \<open>Properties\<close>

text \<open>C40. However the dispatch loop interleaves with its workers, the scheduler and the API, once it starts on a
  database without running jobs no plugin ever has more running jobs than its parallelism and there
  are never more active workers than configured.\<close>

theorem worker_lanes_bounded:
  assumes "pool_reachable q (plugin_parallelism plugins safe) max_workers s" and "0 < max_workers"
  shows "int (running_count p (pool_db s)) \<le> plugin_parallelism plugins safe p \<and> pool_active s \<le> max_workers"
  using pool_lanes [OF assms(1) plugin_parallelism_pos] assms(2) by (simp add: lanes_ok_def)

definition demo_two_jobs :: queue_db where
  "demo_two_jobs =
     (let req = \<lparr>rq_plugin = ''mail'', rq_command = ''poll'', rq_payload = [], rq_max_attempts = 0, rq_submitted_by = ''cli'',
        rq_dedupe_key = None, rq_dedupe_ttl = None, rq_parent_job_id = None, rq_event_context_id = None,
        rq_source_event_id = None, rq_enqueued_config_snapshot_id = []\<rparr>;
          q = new_queue None None
      in fst (enqueue q ''j2'' 1000000000 req (fst (enqueue q ''j1'' 0 req empty_db))))"

definition demo_claimed :: queue_db where
  "demo_claimed = fst (dequeue_eligible (new_queue None None) 2000000000 (skip_plugins (plugin_parallelism [] (\<lambda>_. None)) demo_two_jobs) [] demo_two_jobs)"

lemma demo_two_jobs_reachable: "queue_reachable demo_two_jobs"
proof -
  have f1: "fresh_id ''j1'' empty_db" by (simp add: fresh_id_def empty_db_def)
  have f2: "fresh_id ''j2'' (fst (enqueue q ''j1'' 0 req empty_db))" for q req
    using enqueue_cases [of q "''j1''" 0 req empty_db]
    by (auto simp: fresh_id_def Let_def empty_db_def record_job_transition_def)
  show ?thesis
    unfolding demo_two_jobs_def Let_def
    by (rule queue_next [OF queue_next [OF queue_start queue_fact [OF step_enqueue [OF f1]]] queue_fact [OF step_enqueue [OF f2]]])
qed

theorem worker_lanes_bounded_witness:
  "running_count ''mail'' demo_claimed = 1 \<and>
   int (running_count ''mail'' demo_claimed) \<le> plugin_parallelism [] (\<lambda>_. None) ''mail''"
proof -
  let ?par = "plugin_parallelism [] (\<lambda>_. None)" and ?q = "new_queue None None"
  have idle: "find_jobs_by_status StatusRunning demo_two_jobs = []" by code_simp
  have "map_option j_id (case snd (dequeue_eligible ?q 2000000000 (skip_plugins ?par demo_two_jobs) [] demo_two_jobs) of Inr r \<Rightarrow> r | Inl _ \<Rightarrow> None) =
      Some ''j1''"
    by code_simp
  then obtain j where j: "snd (dequeue_eligible ?q 2000000000 (skip_plugins ?par demo_two_jobs) [] demo_two_jobs) = Inr (Some j)"
    by (auto split: sum.splits)
  have "pool_reachable ?q ?par 4 \<lparr>pool_db = demo_claimed, pool_active = 1, pool_skip = None\<rparr>"
    using pool_reachable.next_state [OF pool_reachable.next_state
        [OF pool_reachable.boot [OF demo_two_jobs_reachable idle, of ?q ?par 4] pool_step.load] pool_step.claim,
        of "skip_plugins ?par demo_two_jobs" 2000000000 demo_claimed j] j
    by (simp add: demo_claimed_def prod_eq_iff)
  from worker_lanes_bounded [OF this, of "''mail''"]
  have "int (running_count ''mail'' demo_claimed) \<le> ?par ''mail''" by simp
  moreover have "running_count ''mail'' demo_claimed = 1" by code_simp
  ultimately show ?thesis by simp
qed

end
