(* ===== verification/Gateway_State.thy ===== *)
theory Gateway_State
  imports Router Admission Plugin_Config Queue_Invariants
begin

text \<open>
  What the components that create work share: the dispatcher, the relay receiver, the webhook server and the API
  all admit, write context rows and enqueue through the same stores. The state holds the job
  queue, the context ledger and the number of UUIDs drawn so far; the host gives the clock, the UUIDs and the JSON
  encoder of the Go library; the configuration holds the stores' limits and the loaded pipelines. Components with more
  state extend the record.
\<close>

record gw_host =
  gh_now :: instant
  gh_uuid :: "nat \<Rightarrow> string"
  gh_instance :: "nat \<Rightarrow> string \<Rightarrow> string"
  gh_regex :: regex_engine
  gh_json_len :: "gmap \<Rightarrow> int"
  gh_marshal_event :: "event \<Rightarrow> string option"
  gh_marshal :: "gval \<Rightarrow> string option"

record gw_conf =
  gc_queue :: queue_conf
  gc_router :: "pipelines option"
  gc_contexts :: bool
  gc_max_context_bytes :: int
  gc_admitter :: "int option"
  gc_plugins :: "(string \<times> plugin_conf) list"

record gw_state =
  gw_queue :: queue_db
  gw_contexts :: "event_context list"
  gw_drawn :: nat

section \<open>Sequencing\<close>

text \<open>A call that returns an error stops its caller; what it wrote stays written.\<close>

definition bind_step :: "'s \<times> ('e + 'a) \<Rightarrow> ('a \<Rightarrow> 's \<Rightarrow> 's \<times> ('e + 'b)) \<Rightarrow> 's \<times> ('e + 'b)" where
  "bind_step r f = (case r of (s, Inl e) \<Rightarrow> (s, Inl e) | (s, Inr a) \<Rightarrow> f a s)"

lemma bind_step_simps [simp]:
  "bind_step (s, Inl e) f = (s, Inl e)"
  "bind_step (s, Inr a) f = f a s"
  by (simp_all add: bind_step_def)

lemma bind_step_Inr:
  "bind_step r f = (s', Inr b) \<longleftrightarrow> (\<exists>s1 a. r = (s1, Inr a) \<and> f a s1 = (s', Inr b))"
  by (auto simp: bind_step_def split: prod.splits sum.splits)

text \<open>A reflexive and transitive relation kept by both steps is kept by their sequence.\<close>

lemma bind_step_keeps:
  assumes "\<And>a b c. R a b \<Longrightarrow> R b c \<Longrightarrow> R a c"
    and "R s (fst r)" and "\<And>a s1. r = (s1, Inr a) \<Longrightarrow> R s1 (fst (f a s1))"
  shows "R s (fst (bind_step r f))"
proof (cases r)
  case (Pair s1 x)
  then show ?thesis using assms by (cases x) (auto simp: bind_step_def)
qed

section \<open>Writing through the stores\<close>

definition plugin_conf_of :: "'c gw_conf_scheme \<Rightarrow> string \<Rightarrow> plugin_conf" where
  "plugin_conf_of c p = (case map_of (gc_plugins c) p of Some pc \<Rightarrow> pc | None \<Rightarrow> zero_plugin_conf)"

definition gw_enqueue ::
  "'h gw_host_scheme \<Rightarrow> 'c gw_conf_scheme \<Rightarrow> enqueue_request \<Rightarrow> 'x gw_state_scheme \<Rightarrow> 'x gw_state_scheme \<times> (queue_error + string)" where
  "gw_enqueue h c req s =
     (case enqueue (gc_queue c) (gh_uuid h (gw_drawn s)) (gh_now h) req (gw_queue s) of
        (db, r) \<Rightarrow> (s\<lparr>gw_queue := db, gw_drawn := Suc (gw_drawn s)\<rparr>, r))"

definition gw_create_context ::
  "'h gw_host_scheme \<Rightarrow> 'c gw_conf_scheme \<Rightarrow> string option \<Rightarrow> string \<Rightarrow> string \<Rightarrow> raw_json \<Rightarrow> 'x gw_state_scheme
   \<Rightarrow> 'x gw_state_scheme \<times> (context_error + event_context)" where
  "gw_create_context h c parent pl step updates s =
     (case create_context (gh_json_len h) (gc_max_context_bytes c) (gh_uuid h (gw_drawn s)) (gh_now h) parent pl step
             updates (gw_contexts s) of
        (tab, r) \<Rightarrow> (s\<lparr>gw_contexts := tab, gw_drawn := Suc (gw_drawn s)\<rparr>, r))"

text \<open>The admitter probes the job queue; a missing one admits everything.\<close>

definition gw_admit :: "'h gw_host_scheme \<Rightarrow> 'c gw_conf_scheme \<Rightarrow> string \<Rightarrow> string \<Rightarrow> string \<Rightarrow> 'x gw_state_scheme \<Rightarrow> admission_result" where
  "gw_admit h c key plugin command s =
     admit (map_option (new_admitter (Some (\<lambda>p cmd k. dedupe_status_of (gc_queue c) (gh_now h) p cmd k (gw_queue s))))
              (gc_admitter c))
       \<lparr>ai_dedupe_key = key, ai_plugin = plugin, ai_command = command, ai_accumulated_json = []\<rparr>"

section \<open>Runs of enqueues\<close>

text \<open>A component that only creates work changes the queue by enqueues of requests it builds (\<open>P\<close>).\<close>

inductive enqueue_run :: "(enqueue_request \<Rightarrow> bool) \<Rightarrow> queue_db \<Rightarrow> queue_db \<Rightarrow> bool" for P where
  run_refl: "enqueue_run P db db"
| run_step: "enqueue_run P db db1 \<Longrightarrow> P req \<Longrightarrow> enqueue_run P db (fst (enqueue q jid now req db1))"

lemma enqueue_run_trans: "enqueue_run P b c \<Longrightarrow> enqueue_run P a b \<Longrightarrow> enqueue_run P a c"
  by (induction rule: enqueue_run.induct) (auto intro: enqueue_run.intros)

lemma enqueue_run_mono: "enqueue_run P a b \<Longrightarrow> (\<And>r. P r \<Longrightarrow> Q r) \<Longrightarrow> enqueue_run Q a b"
  by (induction rule: enqueue_run.induct) (auto intro: enqueue_run.intros)

lemma enqueue_run_gw_enqueue: "P req \<Longrightarrow> enqueue_run P (gw_queue s) (gw_queue (fst (gw_enqueue h c req s)))"
  using run_step [OF run_refl, of P req "gw_queue s" "gc_queue c" "gh_uuid h (gw_drawn s)" "gh_now h"]
  by (cases "enqueue (gc_queue c) (gh_uuid h (gw_drawn s)) (gh_now h) req (gw_queue s)") (simp add: gw_enqueue_def)

lemma gw_create_context_frame: "gw_create_context h c pid pl st u s = (s1, r) \<Longrightarrow> gw_queue s1 = gw_queue s"
  by (auto simp: gw_create_context_def split: prod.splits)

text \<open>What a run leaves behind: the old rows, followed by queued rows of its requests.\<close>

lemma enqueue_run_rows:
  assumes "enqueue_run P db db'"
  obtains new where "job_queue db' = job_queue db @ new"
    and "\<And>r. r \<in> set new \<Longrightarrow> \<exists>q jid now req. P req \<and> r = enqueue_row q jid now req"
    and "\<And>r. r \<in> set new \<Longrightarrow> j_id r \<notin> j_id ` set (job_queue db)"
proof -
  have "\<exists>new. job_queue db' = job_queue db @ new \<and>
      (\<forall>r\<in>set new. (\<exists>q jid now req. P req \<and> r = enqueue_row q jid now req) \<and> j_id r \<notin> j_id ` set (job_queue db))"
    using assms
  proof (induction rule: enqueue_run.induct)
    case (run_refl db)
    show ?case by simp
  next
    case (run_step db db1 req q jid now)
    then obtain new where new: "job_queue db1 = job_queue db @ new"
      "\<forall>r\<in>set new. (\<exists>q jid now req. P req \<and> r = enqueue_row q jid now req) \<and> j_id r \<notin> j_id ` set (job_queue db)"
      by blast
    consider "fst (enqueue q jid now req db1) = db1"
      | "job_queue (fst (enqueue q jid now req db1)) = job_queue db1 @ [enqueue_row q jid now req]"
        "\<not> insert_conflict db1 (enqueue_row q jid now req)"
      using enqueue_cases [of q jid now req db1] by (auto simp: Let_def)
    then show ?case
    proof cases
      case 1
      then show ?thesis using new by auto
    next
      case 2
      then have "j_id (enqueue_row q jid now req) \<notin> j_id ` set (job_queue db)"
        using new(1) by (auto simp: insert_conflict_def)
      then have "\<forall>r\<in>set (new @ [enqueue_row q jid now req]).
          (\<exists>q jid now req. P req \<and> r = enqueue_row q jid now req) \<and> j_id r \<notin> j_id ` set (job_queue db)"
        using new(2) run_step.hyps(2) by auto
      moreover have "job_queue (fst (enqueue q jid now req db1)) = job_queue db @ new @ [enqueue_row q jid now req]"
        using 2 new(1) by simp
      ultimately show ?thesis by blast
    qed
  qed
  then show ?thesis using that by blast
qed

lemma find_append_Some: "find P xs = Some x \<Longrightarrow> find P (xs @ ys) = Some x"
  by (induction xs) auto

lemma enqueue_run_find_job:
  assumes "enqueue_run P db db'" and "find_job jid db = Some j"
  shows "find_job jid db' = Some j"
proof -
  from enqueue_run_rows [OF assms(1)] obtain new where "job_queue db' = job_queue db @ new" by metis
  then show ?thesis using assms(2) by (simp add: find_job_def find_append_Some)
qed

end
