(* ===== verification/Relay.thy ===== *)
theory Relay
  imports Gateway_State
begin

text \<open>
  The relay between instances, \<^verbatim>\<open>src/internal/relay\<close>: the signed envelope (\<^verbatim>\<open>envelope.go\<close>, \<^verbatim>\<open>hmac.go\<close>), the sender
  (\<^verbatim>\<open>sender.go\<close>), the receiver's checks (\<^verbatim>\<open>receiver.go\<close>) and the work it creates (\<^verbatim>\<open>root.go\<close>), with
  the tables built from the configuration (\<^verbatim>\<open>config.go\<close>). A byte string is a \<open>string\<close>. Parameters: the keyed hash
  \<open>mac\<close> (HMAC-SHA256), the JSON encoder and decoder of an envelope, the parser of RFC 3339 times, the path
  of a URL, and the network.
\<close>

section \<open>Envelopes\<close>

record envelope_event =
  ee_type :: string
  ee_payload :: gmap
  ee_dedupe_key :: string

record envelope_origin =
  eo_instance :: string
  eo_plugin :: string
  eo_job_id :: string
  eo_event_id :: string

record envelope =
  en_event :: envelope_event
  en_origin :: envelope_origin
  en_baggage :: gmap

record acceptance_response =
  ap_status :: string
  ap_peer :: string
  ap_event_type :: string
  ap_receiver_event_id :: string
  ap_job_id :: string

datatype relay_error =
    RelayMarshal | RelaySigning | RelayURL | InstanceNotConfigured string | EventNotAllowed string string
  | RelayDeliver string | RelayRejected string | RelayStatus int | RelayDecode | SecretNotFound string string
  | BodySize

text \<open>\<^verbatim>\<open>^[a-z0-9]+(?:[._-][a-z0-9]+)*$\<close>.\<close>

definition lower_alnum :: "char \<Rightarrow> bool" where
  "lower_alnum c \<longleftrightarrow> is_digit c \<or> (97 \<le> (of_char c :: nat) \<and> (of_char c :: nat) \<le> 122)"

definition separated_name :: "string \<Rightarrow> string \<Rightarrow> bool" where
  "separated_name seps s \<longleftrightarrow>
     s \<noteq> [] \<and> list_all (\<lambda>c. lower_alnum c \<or> c \<in> set seps) s \<and> lower_alnum (hd s) \<and> lower_alnum (last s) \<and>
     list_all (\<lambda>(a, b). lower_alnum a \<or> lower_alnum b) (zip s (tl s))"

definition event_type_pattern :: "string \<Rightarrow> bool" where
  "event_type_pattern = separated_name ''._-''"

text \<open>\<open>decode\<close> is \<^verbatim>\<open>json.Unmarshal\<close> into an envelope, a missing payload or baggage read as empty.\<close>

definition validate_envelope :: "(string \<Rightarrow> envelope option) \<Rightarrow> string \<Rightarrow> string + envelope" where
  "validate_envelope decode raw =
     (case decode raw of
        None \<Rightarrow> Inl ''invalid JSON body''
      | Some e \<Rightarrow>
         let ty = trim_space (ee_type (en_event e)) in
         if ty = [] then Inl ''event.type is required''
         else if \<not> event_type_pattern ty then Inl ''event.type must use lower-case dotted form''
         else Inr (e\<lparr>en_event := (en_event e)\<lparr>ee_type := ty\<rparr>\<rparr>))"

definition parse_relay_timestamp :: "(string \<Rightarrow> instant option) \<Rightarrow> string \<Rightarrow> instant option" where
  "parse_relay_timestamp parse_time raw0 =
     (let raw = trim_space raw0 in
      if raw = [] then None
      else case parse_time raw of
        Some t \<Rightarrow> Some t
      | None \<Rightarrow> map_option (\<lambda>s. s * second) (atoi raw))"

text \<open>\<^verbatim>\<open>strings.TrimRight(s, "/")\<close>.\<close>

definition trim_right_slash :: "string \<Rightarrow> string" where
  "trim_right_slash s = rev (dropWhile (\<lambda>c. c = CHR ''/'') (rev s))"

definition normalize_listen_path :: "string \<Rightarrow> string" where
  "normalize_listen_path path0 =
     (let path = trim_space path0 in
      if path = [] then ''/ingest/peer'' else if path = ''/'' then path else trim_right_slash path)"

definition normalize_request_timeout :: "duration \<Rightarrow> duration" where
  "normalize_request_timeout t = (if t > 0 then t else 10 * second)"

definition normalize_allowed_clock_skew :: "duration \<Rightarrow> duration" where
  "normalize_allowed_clock_skew t = (if t > 0 then t else 5 * minute)"

section \<open>Signatures\<close>

definition hex_digit :: "nat \<Rightarrow> char" where
  "hex_digit n = (if n < 10 then char_of (48 + n) else char_of (87 + n))"

definition hex_value :: "char \<Rightarrow> nat option" where
  "hex_value c =
     (let n = of_char c :: nat in
      if 48 \<le> n \<and> n \<le> 57 then Some (n - 48)
      else if 97 \<le> n \<and> n \<le> 102 then Some (n - 87)
      else if 65 \<le> n \<and> n \<le> 70 then Some (n - 55)
      else None)"

definition hex_encode :: "string \<Rightarrow> string" where
  "hex_encode s = concat (map (\<lambda>c. [hex_digit (of_char c div 16), hex_digit (of_char c mod 16)]) s)"

fun hex_decode :: "string \<Rightarrow> string option" where
  "hex_decode [] = Some []"
| "hex_decode [c] = None"
| "hex_decode (a # b # s) =
     (case (hex_value a, hex_value b) of
        (Some x, Some y) \<Rightarrow> map_option (Cons (char_of (16 * x + y))) (hex_decode s)
      | _ \<Rightarrow> None)"

definition upper_char :: "char \<Rightarrow> char" where
  "upper_char c =
     (if 97 \<le> (of_char c :: nat) \<and> (of_char c :: nat) \<le> 122
      then char_of ((of_char c :: nat) - 32) else c)"

definition to_upper :: "string \<Rightarrow> string" where
  "to_upper s = map upper_char s"

definition signed_text :: "string \<Rightarrow> string \<Rightarrow> string \<Rightarrow> string \<Rightarrow> string" where
  "signed_text method path timestamp body =
     to_upper (trim_space method) @ [CHR 0x0A] @ path @ [CHR 0x0A] @ trim_space timestamp @ [CHR 0x0A] @ body"

definition sign ::
  "(string \<Rightarrow> string \<Rightarrow> string) \<Rightarrow> string \<Rightarrow> string \<Rightarrow> string \<Rightarrow> string \<Rightarrow> string \<Rightarrow> string option" where
  "sign mac method path timestamp body secret =
     (if trim_space secret = [] then None
      else Some (hex_encode (mac secret (signed_text method path timestamp body))))"

definition parse_signature :: "string \<Rightarrow> string option" where
  "parse_signature sig0 =
     (let sig = trim_space sig0
      in hex_decode (if take 7 sig = ''sha256='' then drop 7 sig else sig))"

definition verify_signature ::
  "(string \<Rightarrow> string \<Rightarrow> string) \<Rightarrow> string \<Rightarrow> string \<Rightarrow> string \<Rightarrow> string \<Rightarrow> string \<Rightarrow> string \<Rightarrow> bool" where
  "verify_signature mac method path timestamp body signature secret =
     (case sign mac method path timestamp body secret of
        None \<Rightarrow> False
      | Some expected \<Rightarrow>
         (case parse_signature signature of
            None \<Rightarrow> False
          | Some actual \<Rightarrow> hex_decode expected = Some actual))"

text \<open>\<^verbatim>\<open>io.ReadAll(io.LimitReader(body, limit+1))\<close>: one byte more than the limit, so that a longer body shows. At the
  greatest \<^verbatim>\<open>int64\<close> the sum wraps around and the reader gives nothing.\<close>

definition limited_read :: "int \<Rightarrow> string \<Rightarrow> string" where
  "limited_read limit body = take (nat (wrap64 (limit + 1))) body"

section \<open>Tables from the configuration\<close>

record relay_instance_config =
  ric_name :: string
  ric_enabled :: bool
  ric_base_url :: string
  ric_ingress_path :: string
  ric_secret_ref :: string
  ric_key_id :: string
  ric_timeout :: duration
  ric_allow :: "string list"

record relay_peer_config =
  rpc_name :: string
  rpc_enabled :: bool
  rpc_secret_ref :: string
  rpc_key_id :: string
  rpc_accept :: "string list"
  rpc_baggage_allow :: "string list"

record remote_ingress_config =
  ig_listen_path :: string
  ig_max_body_size :: string
  ig_allowed_clock_skew :: duration
  ig_require_key_id :: bool
  ig_trusted_peers :: "relay_peer_config list"

record remote_instance =
  ri_name :: string
  ri_base_url :: string
  ri_ingress_path :: string
  ri_secret :: string
  ri_key_id :: string
  ri_timeout :: duration
  ri_allow :: "string list"

record trusted_peer =
  tp_name :: string
  tp_secret :: string
  tp_key_id :: string
  tp_accept :: "string list"
  tp_allowed_bags :: "string list"

record sender_config =
  sd_service_name :: string
  sd_instances :: "(string \<times> remote_instance) list"

record receiver_config =
  rv_listen_path :: string
  rv_max_body_size :: int
  rv_allowed_clock_skew :: duration
  rv_require_key_id :: bool
  rv_peers :: "(string \<times> trusted_peer) list"

text \<open>A Go set built from the trimmed, non-empty entries of a list.\<close>

definition trimmed_set :: "string list \<Rightarrow> string list" where
  "trimmed_set xs = filter (\<lambda>x. x \<noteq> []) (map trim_space xs)"

definition remote_instance_of :: "string \<Rightarrow> relay_instance_config \<Rightarrow> remote_instance" where
  "remote_instance_of secret e =
     \<lparr>ri_name = ric_name e, ri_base_url = trim_right_slash (trim_space (ric_base_url e)),
      ri_ingress_path = trim_space (ric_ingress_path e), ri_secret = secret, ri_key_id = trim_space (ric_key_id e),
      ri_timeout = normalize_request_timeout (ric_timeout e), ri_allow = trimmed_set (ric_allow e)\<rparr>"

text \<open>A later entry of the same name replaces the earlier one.\<close>

fun sender_instances ::
  "(string \<times> string) list \<Rightarrow> relay_instance_config list \<Rightarrow> (string \<times> remote_instance) list
   \<Rightarrow> relay_error + (string \<times> remote_instance) list" where
  "sender_instances tokens [] out = Inr out"
| "sender_instances tokens (e # es) out =
     (if \<not> ric_enabled e then sender_instances tokens es out
      else case map_of tokens (ric_secret_ref e) of
        None \<Rightarrow> Inl (SecretNotFound (ric_name e) (ric_secret_ref e))
      | Some secret \<Rightarrow> sender_instances tokens es (map_put (ric_name e) (remote_instance_of secret e) out))"

definition new_sender ::
  "string \<Rightarrow> (string \<times> string) list \<Rightarrow> relay_instance_config list \<Rightarrow> relay_error + sender_config" where
  "new_sender service_name tokens entries =
     bind_result (sender_instances tokens entries [])
       (\<lambda>m. Inr \<lparr>sd_service_name = trim_space service_name, sd_instances = m\<rparr>)"

definition trusted_peer_of :: "string \<Rightarrow> relay_peer_config \<Rightarrow> trusted_peer" where
  "trusted_peer_of secret e =
     \<lparr>tp_name = rpc_name e, tp_secret = secret, tp_key_id = trim_space (rpc_key_id e),
      tp_accept = trimmed_set (rpc_accept e), tp_allowed_bags = trimmed_set (rpc_baggage_allow e)\<rparr>"

fun receiver_peers ::
  "(string \<times> string) list \<Rightarrow> relay_peer_config list \<Rightarrow> (string \<times> trusted_peer) list
   \<Rightarrow> relay_error + (string \<times> trusted_peer) list" where
  "receiver_peers tokens [] out = Inr out"
| "receiver_peers tokens (e # es) out =
     (if \<not> rpc_enabled e then receiver_peers tokens es out
      else case map_of tokens (rpc_secret_ref e) of
        None \<Rightarrow> Inl (SecretNotFound (rpc_name e) (rpc_secret_ref e))
      | Some secret \<Rightarrow> receiver_peers tokens es (map_put (rpc_name e) (trusted_peer_of secret e) out))"

text \<open>\<open>parse_size\<close> is the byte-size parser of the \<^verbatim>\<open>ashlar\<close> package.\<close>

definition new_receiver ::
  "(string \<Rightarrow> int option) \<Rightarrow> (string \<times> string) list \<Rightarrow> remote_ingress_config \<Rightarrow> relay_error + receiver_config" where
  "new_receiver parse_size tokens g =
     bind_result (receiver_peers tokens (ig_trusted_peers g) [])
       (\<lambda>peers.
          bind_result (if trim_space (ig_max_body_size g) = [] then Inr (1024 * 1024)
                       else case parse_size (trim_space (ig_max_body_size g)) of None \<Rightarrow> Inl BodySize | Some n \<Rightarrow> Inr n)
            (\<lambda>n. Inr \<lparr>rv_listen_path = normalize_listen_path (ig_listen_path g), rv_max_body_size = n,
                       rv_allowed_clock_skew = normalize_allowed_clock_skew (ig_allowed_clock_skew g),
                       rv_require_key_id = ig_require_key_id g, rv_peers = peers\<rparr>))"

section \<open>Sending\<close>

text \<open>A request as it crosses the network: its method and path, the four headers and the body.\<close>

record relay_request =
  hr_method :: string
  hr_path :: string
  hr_peer :: string
  hr_key_id :: string
  hr_timestamp :: string
  hr_signature :: string
  hr_body :: string

text \<open>The answer: a status with the error text or the acceptance its body decodes to, if any.\<close>

record relay_reply =
  rp_status :: int
  rp_error :: "string option"
  rp_accepted :: "acceptance_response option"

definition outbound_envelope :: "sender_config \<Rightarrow> envelope \<Rightarrow> envelope" where
  "outbound_envelope sd e =
     (if trim_space (eo_instance (en_origin e)) = []
      then e\<lparr>en_origin := (en_origin e)\<lparr>eo_instance := sd_service_name sd\<rparr>\<rparr> else e)"

definition outbound_request ::
  "(string \<Rightarrow> string \<Rightarrow> string) \<Rightarrow> (envelope \<Rightarrow> string option) \<Rightarrow> (string \<Rightarrow> string option) \<Rightarrow> sender_config \<Rightarrow> instant
   \<Rightarrow> string \<Rightarrow> envelope \<Rightarrow> relay_error + relay_request" where
  "outbound_request mac encode url_path sd now instance_name e =
     (case map_of (sd_instances sd) (trim_space instance_name) of
        None \<Rightarrow> Inl (InstanceNotConfigured instance_name)
      | Some ri \<Rightarrow>
         if ri_allow ri \<noteq> [] \<and> trim_space (ee_type (en_event e)) \<notin> set (ri_allow ri)
         then Inl (EventNotAllowed instance_name (ee_type (en_event e)))
         else case encode (outbound_envelope sd e) of
           None \<Rightarrow> Inl RelayMarshal
         | Some body \<Rightarrow>
            (case url_path (ri_base_url ri @ ri_ingress_path ri) of
               None \<Rightarrow> Inl RelayURL
             | Some path \<Rightarrow>
                (case sign mac ''POST'' path (rfc3339nano now) body (ri_secret ri) of
                   None \<Rightarrow> Inl RelaySigning
                 | Some sig \<Rightarrow> Inr \<lparr>hr_method = ''POST'', hr_path = path, hr_peer = sd_service_name sd,
                                     hr_key_id = ri_key_id ri, hr_timestamp = rfc3339nano now, hr_signature = sig,
                                     hr_body = body\<rparr>)))"

text \<open>\<open>deliver\<close> is the HTTP client.\<close>

definition send ::
  "(string \<Rightarrow> string \<Rightarrow> string) \<Rightarrow> (envelope \<Rightarrow> string option) \<Rightarrow> (string \<Rightarrow> string option) \<Rightarrow> (relay_request \<Rightarrow> relay_reply option)
   \<Rightarrow> sender_config \<Rightarrow> instant \<Rightarrow> string \<Rightarrow> envelope \<Rightarrow> relay_error + acceptance_response" where
  "send mac encode url_path deliver sd now instance_name e =
     bind_result (outbound_request mac encode url_path sd now instance_name e)
       (\<lambda>req. case deliver req of
            None \<Rightarrow> Inl (RelayDeliver instance_name)
          | Some rp \<Rightarrow>
             if rp_status rp \<noteq> 202 then
               (case rp_error rp of
                  Some msg \<Rightarrow> if trim_space msg \<noteq> [] then Inl (RelayRejected msg) else Inl (RelayStatus (rp_status rp))
                | None \<Rightarrow> Inl (RelayStatus (rp_status rp)))
             else (case rp_accepted rp of None \<Rightarrow> Inl RelayDecode | Some a \<Rightarrow> Inr a))"

section \<open>Receiving\<close>

text \<open>A rejected request is answered with a status and a text. \<open>peer_param\<close> is the peer named in the URL; the
  body of a request whose connection breaks is \<open>None\<close>.\<close>

record root_acceptance =
  rx_event :: event
  rx_peer :: trusted_peer
  rx_envelope :: envelope

text \<open>\<^verbatim>\<open>cloneMap\<close>: a JSON round trip.\<close>

definition clone_map :: "gmap \<Rightarrow> gmap" where
  "clone_map m = map (\<lambda>(k, v). (k, json_clone v)) m"

definition relay_dedupe_key :: "string \<Rightarrow> envelope \<Rightarrow> string" where
  "relay_dedupe_key peer_name e =
     (let key = trim_space (ee_dedupe_key (en_event e)); oid = trim_space (eo_event_id (en_origin e)) in
      if key \<noteq> [] then key
      else if oid \<noteq> [] then ''relay:'' @ peer_name @ '':'' @ trim_space (eo_instance (en_origin e)) @ '':'' @ oid
      else [])"

text \<open>\<^verbatim>\<open>skew = -skew\<close> of a 64-bit duration.\<close>

definition clock_skew :: "instant \<Rightarrow> instant \<Rightarrow> duration" where
  "clock_skew now ts =
     (let d = max (- (2 ^ 63)) (min (2 ^ 63 - 1) (now - ts)) in if d < 0 then wrap64 (- d) else d)"

definition check_peer :: "receiver_config \<Rightarrow> string \<Rightarrow> relay_request \<Rightarrow> (int \<times> string) + trusted_peer" where
  "check_peer rv peer_name req =
     (if peer_name = [] then Inl (403, ''unknown relay peer'')
      else case map_of (rv_peers rv) peer_name of
        None \<Rightarrow> Inl (403, ''unknown relay peer'')
      | Some peer \<Rightarrow>
         if trim_space (hr_peer req) = [] \<or> trim_space (hr_peer req) \<noteq> peer_name
         then Inl (403, ''peer identity mismatch'') else Inr peer)"

definition check_freshness ::
  "(string \<Rightarrow> instant option) \<Rightarrow> receiver_config \<Rightarrow> instant \<Rightarrow> relay_request \<Rightarrow> (int \<times> string) + unit" where
  "check_freshness parse_time rv now req =
     (let header = trim_space (hr_timestamp req) in
      if header = [] then Inl (403, ''missing relay timestamp'')
      else case parse_relay_timestamp parse_time header of
        None \<Rightarrow> Inl (403, ''invalid relay timestamp'')
      | Some ts \<Rightarrow>
         if clock_skew now ts > rv_allowed_clock_skew rv
         then Inl (403, ''relay timestamp outside allowed clock skew'') else Inr ())"

definition check_key_id :: "receiver_config \<Rightarrow> trusted_peer \<Rightarrow> relay_request \<Rightarrow> (int \<times> string) + unit" where
  "check_key_id rv peer req =
     (let key_id = trim_space (hr_key_id req) in
      if rv_require_key_id rv \<and> key_id = [] then Inl (403, ''missing relay key id'')
      else if tp_key_id peer \<noteq> [] \<and> key_id \<noteq> tp_key_id peer then Inl (403, ''relay key id mismatch'')
      else Inr ())"

definition check_body ::
  "(string \<Rightarrow> string \<Rightarrow> string) \<Rightarrow> receiver_config \<Rightarrow> trusted_peer \<Rightarrow> relay_request \<Rightarrow> bool \<Rightarrow> (int \<times> string) + string" where
  "check_body mac rv peer req readable =
     (if trim_space (hr_signature req) = [] then Inl (403, ''missing relay signature'')
      else if \<not> readable then Inl (400, ''failed to read request body'')
      else let body = limited_read (rv_max_body_size rv) (hr_body req) in
        if int (length body) > rv_max_body_size rv then Inl (413, ''relay payload too large'')
        else if \<not> verify_signature mac (hr_method req) (hr_path req) (trim_space (hr_timestamp req)) body
                    (trim_space (hr_signature req)) (tp_secret peer) then Inl (403, ''forbidden'')
        else Inr body)"

definition check_envelope ::
  "(string \<Rightarrow> envelope option) \<Rightarrow> string \<Rightarrow> trusted_peer \<Rightarrow> string \<Rightarrow> (int \<times> string) + envelope" where
  "check_envelope decode peer_name peer body =
     (case validate_envelope decode body of
        Inl msg \<Rightarrow> Inl (400, msg)
      | Inr e \<Rightarrow>
         let origin = trim_space (eo_instance (en_origin e)) in
         if origin \<noteq> [] \<and> origin \<noteq> peer_name then Inl (403, ''origin instance mismatch'')
         else if tp_accept peer \<noteq> [] \<and> ee_type (en_event e) \<notin> set (tp_accept peer)
         then Inl (422, ''event type not allowed for peer'')
         else Inr e)"

definition accept ::
  "(string \<Rightarrow> string \<Rightarrow> string) \<Rightarrow> (string \<Rightarrow> envelope option) \<Rightarrow> (string \<Rightarrow> instant option) \<Rightarrow> receiver_config \<Rightarrow> instant
   \<Rightarrow> string \<Rightarrow> string \<Rightarrow> bool \<Rightarrow> relay_request \<Rightarrow> (int \<times> string) + root_acceptance" where
  "accept mac decode parse_time rv now event_id peer_param readable req =
     (let peer_name = trim_space peer_param in
      bind_result (check_peer rv peer_name req) (\<lambda>peer.
      bind_result (check_freshness parse_time rv now req) (\<lambda>_.
      bind_result (check_key_id rv peer req) (\<lambda>_.
      bind_result (check_body mac rv peer req readable) (\<lambda>body.
      bind_result (check_envelope decode peer_name peer body) (\<lambda>e.
        Inr \<lparr>rx_event = \<lparr>ev_type = ee_type (en_event e), ev_payload = clone_map (ee_payload (en_event e)),
                         ev_dedupe_key = relay_dedupe_key peer_name e, ev_source = ''relay:'' @ tp_name peer,
                         ev_timestamp = now, ev_event_id = event_id\<rparr>,
             rx_peer = peer, rx_envelope = e\<rparr>))))))"

section \<open>Root work\<close>

datatype root_fault =
    RelayRoute route_error | RelayControl control_error | RelayRootContext string context_error
  | RelayClaims string string baggage_error | RelayEntryContext string string context_error | RelayPayloadMarshal
  | RelayEnqueue string queue_error

definition admit_baggage :: "trusted_peer \<Rightarrow> gmap \<Rightarrow> gmap" where
  "admit_baggage peer bags =
     (if tp_allowed_bags peer = [] \<or> bags = [] then []
      else clone_map (filter (\<lambda>(k, v). k \<in> set (tp_allowed_bags peer)) bags))"

definition marshal_dispatch_payload :: "gw_host \<Rightarrow> event \<Rightarrow> string \<Rightarrow> string option" where
  "marshal_dispatch_payload h ev command =
     (if trim_space command = ''handle'' then gh_marshal_event h ev else gh_marshal h (GMap (ev_payload ev)))"

text \<open>The control-plane fields of a root row and of an entry row.\<close>

definition root_seed_updates :: "dispatch \<Rightarrow> gmap \<Rightarrow> control_error + raw_json" where
  "root_seed_updates d bags =
     bind_result (with_pipeline_instance_id (RawJSON (json_clone (GMap bags))) (dp_instance_id d)) (\<lambda>u.
     bind_result (with_route_depth u 0) (\<lambda>u.
       if dp_route_max_depth d > 0 then with_route_max_depth u (dp_route_max_depth d) else Inr u))"

definition control_plane_updates :: "dispatch \<Rightarrow> raw_json \<Rightarrow> control_error + raw_json" where
  "control_plane_updates d u0 =
     bind_result (if dp_route_max_depth d > 0 then with_route_max_depth u0 (dp_route_max_depth d) else Inr u0) (\<lambda>u.
     bind_result (if trim_space (dp_instance_id d) \<noteq> [] then with_pipeline_instance_id u (dp_instance_id d) else Inr u) (\<lambda>u.
       if dp_route_depth d > 0 then with_route_depth u (dp_route_depth d) else Inr u))"

text \<open>The root rows created so far in one request, by pipeline and instance, with the scope they give.\<close>

type_synonym root_seeds = "(string \<times> string \<times> gmap) list"

definition seed_key :: "dispatch \<Rightarrow> string" where
  "seed_key d = dp_pipeline_name d @ [CHR 0x00] @ dp_instance_id d"

text \<open>\<^verbatim>\<open>json.Unmarshal\<close> into the cloned baggage keeps the keys the row does not have.\<close>

definition ensure_root_seed ::
  "gw_host \<Rightarrow> gw_conf \<Rightarrow> root_seeds \<Rightarrow> dispatch \<Rightarrow> gmap \<Rightarrow> 'x gw_state_scheme
   \<Rightarrow> 'x gw_state_scheme \<times> (root_fault + root_seeds \<times> (string \<times> gmap) option)" where
  "ensure_root_seed h c seeds d bags s =
     (if trim_space (dp_pipeline_name d) = [] \<or> trim_space (dp_instance_id d) = [] then (s, Inr (seeds, None))
      else case map_of seeds (seed_key d) of
        Some sd \<Rightarrow> (s, Inr (seeds, Some sd))
      | None \<Rightarrow>
         (case root_seed_updates d bags of
            Inl e \<Rightarrow> (s, Inl (RelayControl e))
          | Inr u \<Rightarrow>
             (case gw_create_context h c None (dp_pipeline_name d) [] u s of
                (s1, Inl e) \<Rightarrow> (s1, Inl (RelayRootContext (dp_pipeline_name d) e))
              | (s1, Inr row) \<Rightarrow>
                 let sd = (ec_id row, fold (\<lambda>(k, v). map_put k v) (ec_accumulated row) (clone_map bags))
                 in (s1, Inr ((seed_key d, sd) # seeds, Some sd)))))"

definition entry_context_updates :: "pipelines \<Rightarrow> dispatch \<Rightarrow> gmap \<Rightarrow> root_fault + raw_json" where
  "entry_context_updates ps d parent_scope =
     bind_result
       (case get_node ps (dp_pipeline_name d) (dp_step_id d) of
          None \<Rightarrow> Inr RawEmpty
        | Some nd \<Rightarrow>
           (case nd_baggage nd of
              None \<Rightarrow> Inr RawEmpty
            | Some b \<Rightarrow>
               if spec_empty b then Inr RawEmpty
               else (case apply_claims (ev_payload (dp_event d)) (Some b) parent_scope of
                       Inl e \<Rightarrow> Inl (RelayClaims (dp_pipeline_name d) (dp_step_id d) e)
                     | Inr claims \<Rightarrow> Inr (RawJSON (json_clone (GMap claims))))))
       (\<lambda>u. case control_plane_updates d u of Inl e \<Rightarrow> Inl (RelayControl e) | Inr v \<Rightarrow> Inr v)"

definition create_entry_context ::
  "gw_host \<Rightarrow> gw_conf \<Rightarrow> pipelines \<Rightarrow> root_seeds \<Rightarrow> dispatch \<Rightarrow> gmap \<Rightarrow> 'x gw_state_scheme
   \<Rightarrow> 'x gw_state_scheme \<times> (root_fault + root_seeds \<times> string option)" where
  "create_entry_context h c ps seeds d bags s =
     (if \<not> gc_contexts c then (s, Inr (seeds, None))
      else bind_step (ensure_root_seed h c seeds d bags s) (\<lambda>(seeds1, seed) s1.
        case entry_context_updates ps d (case seed of None \<Rightarrow> bags | Some (_, scope) \<Rightarrow> scope) of
          Inl e \<Rightarrow> (s1, Inl e)
        | Inr u \<Rightarrow>
           (case gw_create_context h c (map_option fst seed) (dp_pipeline_name d) (dp_step_id d) u s1 of
              (s2, Inl e) \<Rightarrow> (s2, Inl (RelayEntryContext (dp_pipeline_name d) (dp_step_id d) e))
            | (s2, Inr row) \<Rightarrow> (s2, Inr (seeds1, Some (ec_id row))))))"

definition relay_enqueue_request :: "gw_conf \<Rightarrow> trusted_peer \<Rightarrow> event \<Rightarrow> dispatch \<Rightarrow> string \<Rightarrow> string option \<Rightarrow> enqueue_request" where
  "relay_enqueue_request c peer ev d payload ctx =
     \<lparr>rq_plugin = dp_plugin d, rq_command = dp_command d, rq_payload = payload,
      rq_max_attempts = resolved_max_attempts (plugin_conf_of c (dp_plugin d)), rq_submitted_by = ''relay:'' @ tp_name peer,
      rq_dedupe_key = (let k = trim_space (ev_dedupe_key (dp_event d)) in if k = [] then None else Some k),
      rq_dedupe_ttl = None, rq_parent_job_id = None, rq_event_context_id = ctx,
      rq_source_event_id = Some (ev_event_id ev), rq_enqueued_config_snapshot_id = []\<rparr>"

fun root_dispatches ::
  "gw_host \<Rightarrow> gw_conf \<Rightarrow> pipelines \<Rightarrow> trusted_peer \<Rightarrow> event \<Rightarrow> gmap \<Rightarrow> root_seeds \<Rightarrow> string \<Rightarrow> dispatch list
   \<Rightarrow> 'x gw_state_scheme \<Rightarrow> 'x gw_state_scheme \<times> (root_fault + string)" where
  "root_dispatches h c ps peer ev bags seeds first [] s = (s, Inr first)"
| "root_dispatches h c ps peer ev bags seeds first (d # ds) s =
     (let a = gw_admit h c (ev_dedupe_key (dp_event d)) (dp_plugin d) (dp_command d) s;
          keep = (\<lambda>jid. if first = [] then jid else first)
      in if ar_decision a = AdmissionReplay
         then root_dispatches h c ps peer ev bags seeds (keep (ar_existing_job_id a)) ds s
         else bind_step (create_entry_context h c ps seeds d bags s) (\<lambda>(seeds1, ctx) s1.
           case marshal_dispatch_payload h (dp_event d) (dp_command d) of
             None \<Rightarrow> (s1, Inl RelayPayloadMarshal)
           | Some payload \<Rightarrow>
              (case gw_enqueue h c (relay_enqueue_request c peer ev d payload ctx) s1 of
                 (s2, Inr jid) \<Rightarrow> root_dispatches h c ps peer ev bags seeds1 (keep jid) ds s2
               | (s2, Inl (DedupeDropError k existing)) \<Rightarrow>
                   root_dispatches h c ps peer ev bags seeds1 (keep existing) ds s2
               | (s2, Inl (SourceEventConflictError p e pl cmd)) \<Rightarrow>
                   root_dispatches h c ps peer ev bags seeds1 first ds s2
               | (s2, Inl e) \<Rightarrow> (s2, Inl (RelayEnqueue (dp_plugin d) e)))))"

definition root_request :: "event \<Rightarrow> request" where
  "root_request ev = (hook_request [] [] [])\<lparr>rr_source_event_id := ev_event_id ev, rr_event := ev\<rparr>"

definition enqueue_root_dispatches ::
  "gw_host \<Rightarrow> gw_conf \<Rightarrow> root_acceptance \<Rightarrow> 'x gw_state_scheme \<Rightarrow> 'x gw_state_scheme \<times> (root_fault + string)" where
  "enqueue_root_dispatches h c acc s =
     (case gc_router c of
        None \<Rightarrow> (s, Inr [])
      | Some ps \<Rightarrow>
         (case route_next (gh_regex h) (gh_instance h (gw_drawn s)) ps (root_request (rx_event acc)) of
            Inl e \<Rightarrow> (s, Inl (RelayRoute e))
          | Inr ds \<Rightarrow>
             root_dispatches h c ps (rx_peer acc) (rx_event acc)
               (admit_baggage (rx_peer acc) (en_baggage (rx_envelope acc))) [] [] ds s))"

text \<open>\<^verbatim>\<open>HandleHTTP\<close>: the status and the body of the answer.\<close>

definition handle_relay ::
  "(string \<Rightarrow> string \<Rightarrow> string) \<Rightarrow> (string \<Rightarrow> envelope option) \<Rightarrow> (string \<Rightarrow> instant option) \<Rightarrow> receiver_config \<Rightarrow> gw_host \<Rightarrow> gw_conf
   \<Rightarrow> string \<Rightarrow> bool \<Rightarrow> relay_request \<Rightarrow> 'x gw_state_scheme \<Rightarrow> 'x gw_state_scheme \<times> int \<times> (string + acceptance_response)" where
  "handle_relay mac decode parse_time rv h c peer_param readable req s =
     (case accept mac decode parse_time rv (gh_now h) (gh_uuid h (gw_drawn s)) peer_param readable req of
        Inl (status, msg) \<Rightarrow> (s, status, Inl msg)
      | Inr acc \<Rightarrow>
         (case enqueue_root_dispatches h c acc (s\<lparr>gw_drawn := Suc (gw_drawn s)\<rparr>) of
            (s1, Inl e) \<Rightarrow> (s1, 500, Inl ''failed to enqueue relay event'')
          | (s1, Inr jid) \<Rightarrow>
             (s1, 202, Inr \<lparr>ap_status = ''accepted'', ap_peer = tp_name (rx_peer acc), ap_event_type = ev_type (rx_event acc),
                            ap_receiver_event_id = ev_event_id (rx_event acc), ap_job_id = jid\<rparr>)))"

end
