(* ===== verification/Relay_Properties.thy ===== *)
theory Relay_Properties
  imports Relay
begin

text \<open>
  What the relay guarantees: hexadecimal tags decode to what was encoded, the signed text determines its parts, a
  request built by a sender is accepted by a receiver that shares its secret, an accepted request is one
  the holder of the secret signed, and replayed work writes nothing.
\<close>

section \<open>Hexadecimal and framing\<close>

lemma nibbles: "of_char c div 16 < (16 :: nat)" "of_char c mod 16 < (16 :: nat)"
proof -
  have "of_char c < (256 :: nat)" by simp
  then show "of_char c div 16 < (16 :: nat)" by linarith
qed simp

lemma hex_value_digit: "n < 16 \<Longrightarrow> hex_value (hex_digit n) = Some n"
  by (auto simp: hex_value_def hex_digit_def Let_def)

lemma hex_decode_encode: "hex_decode (hex_encode s) = Some s"
proof (induction s)
  case (Cons c s)
  have "16 * (of_char c div 16) + of_char c mod 16 = (of_char c :: nat)" by simp
  then show ?case using Cons by (simp add: hex_encode_def hex_value_digit [OF nibbles(1)] hex_value_digit [OF nibbles(2)])
qed (simp add: hex_encode_def)

lemma of_char_hex_digit: "n < 16 \<Longrightarrow> of_char (hex_digit n) = (if n < 10 then 48 + n else 87 + n)"
  by (simp add: hex_digit_def)

lemma hex_digit_plain: "n < 16 \<Longrightarrow> \<not> is_space (hex_digit n) \<and> hex_digit n \<noteq> CHR ''s''"
proof
  assume n: "n < 16"
  show "\<not> is_space (hex_digit n)" using of_char_hex_digit [OF n] n by (auto simp: is_space_def)
  have "(of_char (CHR ''s'') :: nat) = 115" by simp
  then show "hex_digit n \<noteq> CHR ''s''" using of_char_hex_digit [OF n] n by (auto split: if_splits)
qed

lemma hex_encode_plain: "c \<in> set (hex_encode s) \<Longrightarrow> \<not> is_space c \<and> c \<noteq> CHR ''s''"
  using hex_digit_plain [OF nibbles(1)] hex_digit_plain [OF nibbles(2)] by (auto simp: hex_encode_def)

lemma trim_plain: "(\<And>c. c \<in> set s \<Longrightarrow> \<not> is_space c) \<Longrightarrow> trim_space s = s"
proof -
  assume plain: "\<And>c. c \<in> set s \<Longrightarrow> \<not> is_space c"
  then have "dropWhile is_space s = s" "dropWhile is_space (rev s) = rev s"
    by (cases s; simp) (cases "rev s"; metis dropWhile.simps list.set_intros(1) plain set_rev)
  then show ?thesis by (simp add: trim_space_def)
qed

lemma parse_signature_hex: "parse_signature (hex_encode s) = Some s"
proof -
  have "take 7 (hex_encode s) \<noteq> ''sha256=''"
  proof
    assume "take 7 (hex_encode s) = ''sha256=''"
    then have "CHR ''s'' \<in> set (take 7 (hex_encode s))" by simp
    then have "CHR ''s'' \<in> set (hex_encode s)" by (rule in_set_takeD)
    then show False using hex_encode_plain by blast
  qed
  moreover have "trim_space (hex_encode s) = hex_encode s" using hex_encode_plain by (blast intro: trim_plain)
  ultimately show ?thesis by (simp add: parse_signature_def hex_decode_encode)
qed

lemma verify_own_signature:
  "sign mac m p ts b k = Some sig \<Longrightarrow> verify_signature mac m p ts b sig k"
  by (auto simp: verify_signature_def sign_def parse_signature_hex hex_decode_encode split: if_splits)

lemma verify_signature_tag:
  "verify_signature mac m p ts b sig k \<Longrightarrow> trim_space k \<noteq> [] \<and> parse_signature sig = Some (mac k (signed_text m p ts b))"
  by (auto simp: verify_signature_def sign_def hex_decode_encode split: option.splits if_splits)

text \<open>A separator that does not occur in the first parts makes their concatenation unambiguous.\<close>

lemma append_sep_cancel: "x \<notin> set a \<Longrightarrow> x \<notin> set b \<Longrightarrow> a @ x # s = b @ x # t \<longleftrightarrow> a = b \<and> s = t"
proof (induction a arbitrary: b)
  case Nil
  then show ?case by (cases b) auto
next
  case (Cons y a)
  then show ?case by (cases b) auto
qed

definition single_line :: "string \<Rightarrow> bool" where
  "single_line s \<longleftrightarrow> CHR 0x0A \<notin> set s"

lemma trim_subset: "set (trim_space s) \<subseteq> set s"
proof
  fix x
  assume "x \<in> set (trim_space s)"
  then have "x \<in> set (dropWhile is_space (rev (dropWhile is_space s)))" by (simp add: trim_space_def)
  then show "x \<in> set s" by (auto dest!: set_dropWhileD)
qed

lemma upper_char_newline: "upper_char c = CHR 0x0A \<Longrightarrow> c = CHR 0x0A"
proof (rule ccontr)
  assume up: "upper_char c = CHR 0x0A" and "c \<noteq> CHR 0x0A"
  then have low: "97 \<le> (of_char c :: nat)" "(of_char c :: nat) \<le> 122"
    and eq: "char_of ((of_char c :: nat) - 32) = CHR 0x0A"
    by (auto simp: upper_char_def split: if_splits)
  have "(of_char (char_of ((of_char c :: nat) - 32)) :: nat) = 10" unfolding eq by simp
  moreover have "((of_char c :: nat) - 32) mod 256 = of_char c - 32" using low by simp
  ultimately show False using low by simp
qed

lemma signed_text_inject:
  assumes "single_line m" "single_line m'" "single_line p" "single_line p'" "single_line ts" "single_line ts'"
    and "signed_text m p ts b = signed_text m' p' ts' b'"
  shows "p = p' \<and> trim_space ts = trim_space ts' \<and> b = b'"
proof -
  have "CHR 0x0A \<notin> set (to_upper (trim_space s))" if "single_line s" for s
    using that trim_subset [of s] upper_char_newline by (fastforce simp: single_line_def to_upper_def)
  moreover have "CHR 0x0A \<notin> set (trim_space s)" if "single_line s" for s
    using that trim_subset [of s] by (auto simp: single_line_def)
  ultimately show ?thesis
    using assms by (simp add: signed_text_def append_sep_cancel single_line_def)
qed

section \<open>Timestamps are plain text\<close>

lemma digit_char_plain: "\<not> is_space (digit_char d)"
  by (simp add: digit_char_def is_space_def)

lemma dec_str_plain: "c \<in> set (dec_str n) \<Longrightarrow> \<not> is_space c"
  by (induction n rule: dec_str.induct) (subst (asm) dec_str.simps, auto simp: digit_char_plain split: if_splits)

lemma int_str_plain: "c \<in> set (int_str n) \<Longrightarrow> \<not> is_space c"
  by (auto simp: int_str_def is_space_def dest: dec_str_plain split: if_splits)

lemma pad_left_plain: "c \<in> set (pad_left w (int_str n)) \<Longrightarrow> \<not> is_space c"
  by (auto simp: pad_left_def is_space_def dest: int_str_plain split: if_splits)

lemma rfc3339nano_plain: "c \<in> set (rfc3339nano t) \<Longrightarrow> \<not> is_space c"
  by (auto simp: rfc3339nano_def two_def frac_text_def strip_zeros_def is_space_def split: prod.splits if_splits
      dest!: pad_left_plain set_dropWhileD)

section \<open>Acceptance\<close>

lemma limited_read_whole:
  "0 \<le> limit \<Longrightarrow> limit < 2 ^ 63 - 1 \<Longrightarrow> limited_read limit body = body \<longleftrightarrow> int (length body) \<le> limit + 1"
  by (simp add: limited_read_def wrap64_id le_nat_iff)

lemma limited_read_within:
  assumes "limit < 2 ^ 63 - 1" and "int (length (limited_read limit body)) \<le> limit"
  shows "limited_read limit body = body"
proof -
  have "0 \<le> limit" using assms(2) by linarith
  then have "wrap64 (limit + 1) = limit + 1" using assms(1) by (intro wrap64_id) auto
  then show ?thesis using assms(2) by (auto simp: limited_read_def min_def split: if_splits)
qed

lemma accept_Inr:
  assumes "accept mac decode parse_time rv now eid pp readable req = Inr acc" and "rv_max_body_size rv < 2 ^ 63 - 1"
  obtains peer ts e where
    "map_of (rv_peers rv) (trim_space pp) = Some peer" "rx_peer acc = peer" "trim_space (hr_peer req) = trim_space pp"
    "parse_relay_timestamp parse_time (trim_space (hr_timestamp req)) = Some ts" "clock_skew now ts \<le> rv_allowed_clock_skew rv"
    "int (length (hr_body req)) \<le> rv_max_body_size rv"
    "verify_signature mac (hr_method req) (hr_path req) (trim_space (hr_timestamp req)) (hr_body req)
       (trim_space (hr_signature req)) (tp_secret peer)"
    "check_envelope decode (trim_space pp) peer (hr_body req) = Inr e" "rx_envelope acc = e"
proof -
  from assms(1) obtain peer body e where *:
    "check_peer rv (trim_space pp) req = Inr peer" "check_freshness parse_time rv now req = Inr ()"
    "check_body mac rv peer req readable = Inr body" "check_envelope decode (trim_space pp) peer body = Inr e"
    "rx_peer acc = peer" "rx_envelope acc = e"
    by (auto simp: accept_def Let_def bind_result_Inr_iff)
  from *(1) have peer: "map_of (rv_peers rv) (trim_space pp) = Some peer" "trim_space (hr_peer req) = trim_space pp"
    by (auto simp: check_peer_def split: if_splits option.splits)
  from *(2) obtain ts where ts: "parse_relay_timestamp parse_time (trim_space (hr_timestamp req)) = Some ts"
    "clock_skew now ts \<le> rv_allowed_clock_skew rv"
    by (auto simp: check_freshness_def Let_def split: if_splits option.splits)
  from *(3) have body: "body = limited_read (rv_max_body_size rv) (hr_body req)" "int (length body) \<le> rv_max_body_size rv"
    "verify_signature mac (hr_method req) (hr_path req) (trim_space (hr_timestamp req)) body
       (trim_space (hr_signature req)) (tp_secret peer)"
    by (auto simp: check_body_def Let_def split: if_splits)
  then have "body = hr_body req" using limited_read_within assms(2) by simp
  then show ?thesis using that [OF peer(1) *(5) peer(2) ts] body *(4,6) by simp
qed

text \<open>The skew test against the distance of the two clocks. \<^verbatim>\<open>Sub\<close> saturates and the least \<^verbatim>\<open>int64\<close> is its own
  negation, so a timestamp at least \<^verbatim>\<open>2^63\<close> nanoseconds ahead passes as well.\<close>

lemma clock_skew_near: "clock_skew now ts \<le> a \<Longrightarrow> a < 2 ^ 63 - 1 \<Longrightarrow> \<bar>now - ts\<bar> \<le> a \<or> 2 ^ 63 \<le> ts - now"
  by (auto simp: clock_skew_def Let_def wrap64_def split: if_splits)

lemma near_clock_skew: "\<bar>now - ts\<bar> \<le> a \<Longrightarrow> a < 2 ^ 63 \<Longrightarrow> clock_skew now ts \<le> a"
  by (auto simp: clock_skew_def Let_def wrap64_def)

lemma far_future_accepted:
  assumes "trim_space (hr_timestamp req) \<noteq> []" "0 \<le> rv_allowed_clock_skew rv"
    and "parse_relay_timestamp parse_time (trim_space (hr_timestamp req)) = Some ts" "2 ^ 63 \<le> ts - now"
  shows "check_freshness parse_time rv now req = Inr ()"
  using assms by (simp add: check_freshness_def clock_skew_def Let_def wrap64_def)

text \<open>What becomes of an envelope in its JSON text: the values of its two maps come back as JSON values.\<close>

definition json_envelope :: "envelope \<Rightarrow> envelope" where
  "json_envelope e =
     e\<lparr>en_event := (en_event e)\<lparr>ee_payload := clone_map (ee_payload (en_event e))\<rparr>, en_baggage := clone_map (en_baggage e)\<rparr>"

lemma clone_map_again [simp]: "clone_map (clone_map m) = clone_map m"
  by (simp add: clone_map_def json_clone_id json_val_clone case_prod_beta)

text \<open>When a sender's instance and a receiver's peer are set up for each other.\<close>

definition paired :: "sender_config \<Rightarrow> remote_instance \<Rightarrow> receiver_config \<Rightarrow> trusted_peer \<Rightarrow> bool" where
  "paired sd ri rv peer \<longleftrightarrow>
     sd_service_name sd \<noteq> [] \<and> trim_space (sd_service_name sd) = sd_service_name sd \<and>
     map_of (rv_peers rv) (sd_service_name sd) = Some peer \<and>
     tp_secret peer = ri_secret ri \<and> trim_space (ri_key_id ri) = ri_key_id ri \<and>
     tp_key_id peer \<in> {[], ri_key_id ri} \<and> (rv_require_key_id rv \<longrightarrow> ri_key_id ri \<noteq> [])"

lemma outbound_request_Inr:
  assumes "outbound_request mac encode url_path sd now inst e = Inr req"
    and "map_of (sd_instances sd) (trim_space inst) = Some ri"
  shows "encode (outbound_envelope sd e) = Some (hr_body req) \<and> hr_method req = ''POST'' \<and>
    hr_timestamp req = rfc3339nano now \<and> hr_peer req = sd_service_name sd \<and> hr_key_id req = ri_key_id ri \<and>
    sign mac ''POST'' (hr_path req) (rfc3339nano now) (hr_body req) (ri_secret ri) = Some (hr_signature req)"
  using assms by (auto simp: outbound_request_def split: if_splits option.splits)

lemma trim_rfc3339nano [simp]: "trim_space (rfc3339nano t) = rfc3339nano t"
  by (rule trim_plain) (rule rfc3339nano_plain)

lemma rfc3339nano_not_Nil [simp]: "rfc3339nano t \<noteq> []"
  by (simp add: rfc3339nano_def split: prod.splits)

lemma sign_SomeD:
  "sign mac m p ts b k = Some sig \<Longrightarrow> mac k (signed_text m p ts b) \<noteq> [] \<Longrightarrow> trim_space sig = sig \<and> sig \<noteq> []"
  using hex_encode_plain by (auto simp: sign_def hex_encode_def intro: trim_plain split: if_splits)

text \<open>C26. A request that a sender builds for an instance is accepted by a receiver that is set up for it, when its body is
  at most as long as the receiver allows, the two clocks differ by at most the allowed skew, both sides allow the event
  type, and the origin named in the envelope is empty or the sender: the receiver takes over the event type, and the
  payload and the baggage as JSON values, numbers as floats. The keyed hash gives a non-empty tag, the body decodes to the JSON image of
  the envelope it was encoded from, and the parser reads back the timestamp.\<close>

theorem relay_roundtrip:
  assumes "\<And>k m. mac k m \<noteq> []" and "decode (hr_body req) = Some (json_envelope (outbound_envelope sd e))"
    and "parse_time (rfc3339nano now) = Some now"
    and "outbound_request mac encode url_path sd now inst e = Inr req"
    and "map_of (sd_instances sd) (trim_space inst) = Some ri" and "paired sd ri rv peer"
    and "\<bar>later - now\<bar> \<le> rv_allowed_clock_skew rv" and "int (length (hr_body req)) \<le> rv_max_body_size rv"
    and "rv_max_body_size rv < 2 ^ 63 - 1" and "rv_allowed_clock_skew rv < 2 ^ 63"
    and "event_type_pattern (trim_space (ee_type (en_event e)))"
    and "tp_accept peer = [] \<or> trim_space (ee_type (en_event e)) \<in> set (tp_accept peer)"
    and "trim_space (eo_instance (en_origin e)) = [] \<or> trim_space (eo_instance (en_origin e)) = sd_service_name sd"
  shows "\<exists>acc. accept mac decode parse_time rv later eid (sd_service_name sd) True req = Inr acc \<and>
    rx_peer acc = peer \<and> ev_type (rx_event acc) = trim_space (ee_type (en_event e)) \<and>
    ev_payload (rx_event acc) = clone_map (ee_payload (en_event e)) \<and> en_baggage (rx_envelope acc) = clone_map (en_baggage e)"
proof -
  note out = outbound_request_Inr [OF assms(4,5)]
  from out have sig: "verify_signature mac ''POST'' (hr_path req) (rfc3339nano now) (hr_body req) (hr_signature req) (tp_secret peer)"
    using assms(6) by (auto simp: paired_def intro: verify_own_signature)
  from out have sig_plain: "trim_space (hr_signature req) = hr_signature req" "hr_signature req \<noteq> []"
    using sign_SomeD assms(1) by metis+
  have "check_peer rv (sd_service_name sd) req = Inr peer" using out assms(6) by (simp add: check_peer_def paired_def)
  moreover have "check_freshness parse_time rv later req = Inr ()"
    using out assms(3) near_clock_skew [OF assms(7,10)] by (simp add: check_freshness_def parse_relay_timestamp_def)
  moreover have "check_key_id rv peer req = Inr ()"
    using out assms(6) by (auto simp: check_key_id_def paired_def Let_def)
  moreover have "limited_read (rv_max_body_size rv) (hr_body req) = hr_body req"
    using assms(8,9) by (subst limited_read_whole) auto
  then have "check_body mac rv peer req True = Inr (hr_body req)"
    using out sig sig_plain assms(8) by (simp add: check_body_def Let_def)
  moreover have "check_envelope decode (sd_service_name sd) peer (hr_body req) =
      Inr ((json_envelope (outbound_envelope sd e))\<lparr>en_event := (en_event (json_envelope (outbound_envelope sd e)))\<lparr>ee_type := trim_space (ee_type (en_event e))\<rparr>\<rparr>)"
    using assms(2,6,11-13)
    by (auto simp: check_envelope_def validate_envelope_def outbound_envelope_def json_envelope_def paired_def event_type_pattern_def
        separated_name_def Let_def)
  ultimately show ?thesis
    using assms(6) by (auto simp: accept_def paired_def outbound_envelope_def json_envelope_def Let_def)
qed

text \<open>C25. A request that carries a tag a sender issued, and is accepted by a receiver that checks it with the same
  secret, has the path, the timestamp and the body the sender signed, provided the hash does not collide on the
  two texts; HTTP keeps its method, path and headers on single lines. At the time of acceptance the clock is at most the allowed
  skew away from that timestamp, before or after, or the timestamp is more than 292 years ahead of it.\<close>

theorem relay_tamper_evident:
  assumes "outbound_request mac encode url_path sd now inst e = Inr r1"
    and "map_of (sd_instances sd) (trim_space inst) = Some ri"
    and "accept mac decode parse_time rv later eid pp readable r2 = Inr acc" and "rv_max_body_size rv < 2 ^ 63 - 1"
    and "tp_secret (rx_peer acc) = ri_secret ri"
    and "trim_space (hr_signature r2) = hr_signature r1"
    and "list_all single_line [hr_path r1, hr_method r2, hr_path r2, hr_timestamp r2]"
    and "mac (ri_secret ri) (signed_text ''POST'' (hr_path r1) (rfc3339nano now) (hr_body r1)) =
         mac (ri_secret ri) (signed_text (hr_method r2) (hr_path r2) (trim_space (hr_timestamp r2)) (hr_body r2)) \<Longrightarrow>
         signed_text ''POST'' (hr_path r1) (rfc3339nano now) (hr_body r1) =
         signed_text (hr_method r2) (hr_path r2) (trim_space (hr_timestamp r2)) (hr_body r2)"
    and "rv_allowed_clock_skew rv < 2 ^ 63 - 1"
  shows "hr_path r2 = hr_path r1 \<and> trim_space (hr_timestamp r2) = hr_timestamp r1 \<and> hr_body r2 = hr_body r1 \<and>
    (\<exists>ts. parse_relay_timestamp parse_time (hr_timestamp r1) = Some ts \<and>
       (\<bar>later - ts\<bar> \<le> rv_allowed_clock_skew rv \<or> 2 ^ 63 \<le> ts - later))"
proof -
  let ?k = "ri_secret ri"
  let ?t1 = "signed_text ''POST'' (hr_path r1) (rfc3339nano now) (hr_body r1)"
  let ?t2 = "signed_text (hr_method r2) (hr_path r2) (trim_space (hr_timestamp r2)) (hr_body r2)"
  note out = outbound_request_Inr [OF assms(1,2)]
  from assms(3) obtain ts where fresh:
    "parse_relay_timestamp parse_time (trim_space (hr_timestamp r2)) = Some ts" "clock_skew later ts \<le> rv_allowed_clock_skew rv"
    and v: "verify_signature mac (hr_method r2) (hr_path r2) (trim_space (hr_timestamp r2)) (hr_body r2)
       (trim_space (hr_signature r2)) ?k"
    using assms(4,5) by (elim accept_Inr) simp_all
  from v have "parse_signature (hr_signature r1) = Some (mac ?k ?t2)" using verify_signature_tag assms(6) by metis
  moreover from out have "parse_signature (hr_signature r1) = Some (mac ?k ?t1)"
    by (auto simp: sign_def split: if_splits) (metis parse_signature_hex)
  ultimately have "?t1 = ?t2" using assms(8) by simp
  moreover have "single_line ''POST''" "single_line (rfc3339nano now)"
    using rfc3339nano_plain [of "CHR 0x0A" now] by (auto simp: single_line_def is_space_def)
  moreover have "single_line (trim_space (hr_timestamp r2))"
    using assms(7) trim_subset [of "hr_timestamp r2"] by (auto simp: single_line_def)
  ultimately have "hr_path r1 = hr_path r2 \<and> rfc3339nano now = trim_space (hr_timestamp r2) \<and> hr_body r1 = hr_body r2"
    using signed_text_inject [of "''POST''" "hr_method r2" "hr_path r1" "hr_path r2" "rfc3339nano now"
        "trim_space (hr_timestamp r2)" "hr_body r1" "hr_body r2"] assms(7) by simp
  then show ?thesis using out fresh(1) clock_skew_near [OF fresh(2) assms(9)] by simp
qed

section \<open>Replays and reach\<close>

lemma ensure_root_seed_frame: "ensure_root_seed h c seeds d bags s = (s1, r) \<Longrightarrow> gw_queue s1 = gw_queue s"
  by (auto simp: ensure_root_seed_def Let_def split: if_splits option.splits prod.splits sum.splits
      dest: gw_create_context_frame)

lemma create_entry_context_frame: "create_entry_context h c ps seeds d bags s = (s1, r) \<Longrightarrow> gw_queue s1 = gw_queue s"
  by (auto simp: create_entry_context_def bind_step_def split: if_splits prod.splits sum.splits
      dest!: ensure_root_seed_frame gw_create_context_frame)

lemma replayed_dispatches:
  "(\<And>d. d \<in> set ds \<Longrightarrow>
      ar_decision (gw_admit h c (ev_dedupe_key (dp_event d)) (dp_plugin d) (dp_command d) s) = AdmissionReplay) \<Longrightarrow>
   \<exists>jid. root_dispatches h c ps peer ev bags seeds first ds s = (s, Inr jid)"
  by (induction ds arbitrary: first) (auto simp: Let_def)

text \<open>Everything the receiver creates is submitted in the name of the peer it authenticated.\<close>

definition from_peer :: "trusted_peer \<Rightarrow> enqueue_request \<Rightarrow> bool" where
  "from_peer peer req \<longleftrightarrow> rq_submitted_by req = ''relay:'' @ tp_name peer \<and> rq_parent_job_id req = None"

lemma root_dispatches_run:
  "enqueue_run (from_peer peer) (gw_queue s) (gw_queue (fst (root_dispatches h c ps peer ev bags seeds first ds s)))"
proof (induction ds arbitrary: seeds first s)
  case Nil
  show ?case by (simp add: run_refl)
next
  case (Cons d ds)
  let ?a = "gw_admit h c (ev_dedupe_key (dp_event d)) (dp_plugin d) (dp_command d) s"
  show ?case
  proof (cases "ar_decision ?a = AdmissionReplay")
    case True
    then show ?thesis using Cons.IH by (simp add: Let_def)
  next
    case False
    obtain s1 r where ctx: "create_entry_context h c ps seeds d bags s = (s1, r)" by fastforce
    then have q: "gw_queue s1 = gw_queue s" by (rule create_entry_context_frame)
    show ?thesis
    proof (cases r)
      case (Inl e)
      then show ?thesis using False ctx q by (simp add: Let_def run_refl)
    next
      case (Inr sc)
      obtain seeds1 cid where sc: "sc = (seeds1, cid)" by fastforce
      show ?thesis
      proof (cases "marshal_dispatch_payload h (dp_event d) (dp_command d)")
        case None
        then show ?thesis using False ctx q Inr sc by (simp add: Let_def run_refl)
      next
        case (Some payload)
        let ?req = "relay_enqueue_request c peer ev d payload cid"
        obtain s2 e where enq: "gw_enqueue h c ?req s1 = (s2, e)" by fastforce
        have "from_peer peer ?req" by (simp add: from_peer_def relay_enqueue_request_def)
        then have run: "enqueue_run (from_peer peer) (gw_queue s) (gw_queue s2)"
          using enqueue_run_gw_enqueue [of "from_peer peer" ?req s1 h c] enq q by simp
        then have more: "enqueue_run (from_peer peer) (gw_queue s)
            (gw_queue (fst (root_dispatches h c ps peer ev bags seeds1 first' ds s2)))" for first'
          using enqueue_run_trans [OF Cons.IH] by blast
        have "\<exists>first'. gw_queue (fst (root_dispatches h c ps peer ev bags seeds first (d # ds) s)) = gw_queue s2 \<or>
            gw_queue (fst (root_dispatches h c ps peer ev bags seeds first (d # ds) s)) =
            gw_queue (fst (root_dispatches h c ps peer ev bags seeds1 first' ds s2))"
          using False ctx Inr sc Some enq by (cases e) (auto simp: Let_def split: queue_error.split)
        then show ?thesis using more run by metis
      qed
    qed
  qed
qed

lemma enqueue_root_run:
  "enqueue_run (from_peer (rx_peer acc)) (gw_queue s) (gw_queue (fst (enqueue_root_dispatches h c acc s)))"
  by (auto simp: enqueue_root_dispatches_def root_dispatches_run run_refl split: option.split sum.split)

text \<open>A replayed delivery, one whose every target has an outstanding or recent job under its key, is answered as
  accepted and writes neither a job nor a context row.\<close>

lemma relay_replay_writes_nothing:
  assumes "accept mac decode parse_time rv (gh_now h) (gh_uuid h (gw_drawn s)) pp readable req = Inr acc"
    and "gc_router c = Some ps"
    and "route_next (gh_regex h) (gh_instance h (Suc (gw_drawn s))) ps (root_request (rx_event acc)) = Inr ds"
    and "\<And>d. d \<in> set ds \<Longrightarrow>
      ar_decision (gw_admit h c (ev_dedupe_key (dp_event d)) (dp_plugin d) (dp_command d) s) = AdmissionReplay"
  shows "\<exists>answer. handle_relay mac decode parse_time rv h c pp readable req s = (s\<lparr>gw_drawn := Suc (gw_drawn s)\<rparr>, 202, Inr answer)"
proof -
  have "gw_admit h c k p cmd (s\<lparr>gw_drawn := n\<rparr>) = gw_admit h c k p cmd s" for k p cmd n by (simp add: gw_admit_def)
  then obtain jid where "enqueue_root_dispatches h c acc (s\<lparr>gw_drawn := Suc (gw_drawn s)\<rparr>) =
      (s\<lparr>gw_drawn := Suc (gw_drawn s)\<rparr>, Inr jid)"
    using replayed_dispatches [of ds h c "s\<lparr>gw_drawn := Suc (gw_drawn s)\<rparr>" ps] assms(2-4)
    by (fastforce simp: enqueue_root_dispatches_def)
  then show ?thesis using assms(1) by (simp add: handle_relay_def)
qed

text \<open>C24. Work enters the queue through the relay only for an authenticated request: when handling a request changes the
  job table, the URL names a configured peer, the signature header is the tag of exactly this method, path, timestamp
  and body under that peer's secret, the timestamp is within the allowed skew of the clock (or more than 292 years ahead, where the
  64-bit difference saturates), and every row added is a queued job submitted for that peer.\<close>

theorem relay_only_authenticated_work:
  assumes "handle_relay mac decode parse_time rv h c pp readable req s = (s', status, answer)"
    and "job_queue (gw_queue s') \<noteq> job_queue (gw_queue s)" and "rv_max_body_size rv < 2 ^ 63 - 1"
  shows "\<exists>peer ts new. map_of (rv_peers rv) (trim_space pp) = Some peer \<and> trim_space (hr_peer req) = trim_space pp \<and>
    parse_signature (trim_space (hr_signature req)) =
      Some (mac (tp_secret peer) (signed_text (hr_method req) (hr_path req) (trim_space (hr_timestamp req)) (hr_body req))) \<and>
    parse_relay_timestamp parse_time (trim_space (hr_timestamp req)) = Some ts \<and>
    clock_skew (gh_now h) ts \<le> rv_allowed_clock_skew rv \<and>
    (rv_allowed_clock_skew rv < 2 ^ 63 - 1 \<longrightarrow> \<bar>gh_now h - ts\<bar> \<le> rv_allowed_clock_skew rv \<or> 2 ^ 63 \<le> ts - gh_now h) \<and>
    job_queue (gw_queue s') = job_queue (gw_queue s) @ new \<and>
    list_all (\<lambda>j. j_status j = StatusQueued \<and> j_submitted_by j = ''relay:'' @ tp_name peer) new"
proof -
  let ?eid = "gh_uuid h (gw_drawn s)"
  obtain acc where acc: "accept mac decode parse_time rv (gh_now h) ?eid pp readable req = Inr acc"
    using assms(1,2) by (fastforce simp: handle_relay_def split: sum.splits)
  obtain s1 r where root: "enqueue_root_dispatches h c acc (s\<lparr>gw_drawn := Suc (gw_drawn s)\<rparr>) = (s1, r)" by fastforce
  then have "s' = s1" using assms(1) acc by (auto simp: handle_relay_def split: sum.splits)
  then have "enqueue_run (from_peer (rx_peer acc)) (gw_queue s) (gw_queue s')"
    using enqueue_root_run [of acc "s\<lparr>gw_drawn := Suc (gw_drawn s)\<rparr>" h c] root by simp
  then obtain new where new: "job_queue (gw_queue s') = job_queue (gw_queue s) @ new"
    "\<And>r. r \<in> set new \<Longrightarrow> \<exists>q jid now req. from_peer (rx_peer acc) req \<and> r = enqueue_row q jid now req"
    by (elim enqueue_run_rows) blast
  have rows: "list_all (\<lambda>j. j_status j = StatusQueued \<and> j_submitted_by j = ''relay:'' @ tp_name (rx_peer acc)) new"
    using new(2) by (fastforce simp: list_all_iff from_peer_def enqueue_row_def)
  from acc assms(3) show ?thesis
  proof (rule accept_Inr)
    fix peer ts e
    assume "map_of (rv_peers rv) (trim_space pp) = Some peer" "rx_peer acc = peer" "trim_space (hr_peer req) = trim_space pp"
      "parse_relay_timestamp parse_time (trim_space (hr_timestamp req)) = Some ts"
      "clock_skew (gh_now h) ts \<le> rv_allowed_clock_skew rv"
      "verify_signature mac (hr_method req) (hr_path req) (trim_space (hr_timestamp req)) (hr_body req)
         (trim_space (hr_signature req)) (tp_secret peer)"
    then show ?thesis using new(1) rows verify_signature_tag clock_skew_near by blast
  qed
qed

section \<open>A pair of instances\<close>

definition demo_envelope :: envelope where
  "demo_envelope =
     \<lparr>en_event = \<lparr>ee_type = ''mail.sent'', ee_payload = [(''to'', GStr ''ann'')], ee_dedupe_key = []\<rparr>,
      en_origin = \<lparr>eo_instance = [], eo_plugin = ''mail'', eo_job_id = ''j1'', eo_event_id = ''e1''\<rparr>, en_baggage = []\<rparr>"

definition demo_mac :: "string \<Rightarrow> string \<Rightarrow> string" where "demo_mac k m = k @ m @ ''!''"

definition demo_instance :: remote_instance where
  "demo_instance = \<lparr>ri_name = ''lab'', ri_base_url = ''http://lab'', ri_ingress_path = ''/ingest/peer/home'', ri_secret = ''k'',
     ri_key_id = [], ri_timeout = 10 * second, ri_allow = []\<rparr>"

definition demo_sender :: sender_config where
  "demo_sender = \<lparr>sd_service_name = ''home'', sd_instances = [(''lab'', demo_instance)]\<rparr>"

definition demo_peer :: trusted_peer where
  "demo_peer = \<lparr>tp_name = ''home'', tp_secret = ''k'', tp_key_id = [], tp_accept = [], tp_allowed_bags = []\<rparr>"

definition demo_receiver :: receiver_config where
  "demo_receiver = \<lparr>rv_listen_path = ''/ingest/peer'', rv_max_body_size = 100, rv_allowed_clock_skew = 5 * minute,
     rv_require_key_id = False, rv_peers = [(''home'', demo_peer)]\<rparr>"

definition demo_encode :: "envelope \<Rightarrow> string option" where
  "demo_encode e = (if e = outbound_envelope demo_sender demo_envelope then Some ''{}'' else None)"

definition demo_decode :: "string \<Rightarrow> envelope option" where
  "demo_decode b = (if b = ''{}'' then Some (outbound_envelope demo_sender demo_envelope) else None)"

definition demo_parse_time :: "string \<Rightarrow> instant option" where
  "demo_parse_time s = (if s = rfc3339nano 0 then Some 0 else None)"

definition demo_request :: relay_request where
  "demo_request = \<lparr>hr_method = ''POST'', hr_path = ''/ingest/peer/home'', hr_peer = ''home'', hr_key_id = [],
     hr_timestamp = rfc3339nano 0,
     hr_signature = hex_encode (demo_mac ''k'' (signed_text ''POST'' ''/ingest/peer/home'' (rfc3339nano 0) ''{}'')),
     hr_body = ''{}''\<rparr>"

lemmas demo_relay_defs = demo_envelope_def demo_instance_def demo_sender_def demo_peer_def demo_receiver_def demo_encode_def demo_decode_def
  demo_parse_time_def demo_request_def

lemma demo_trims:
  "trim_space ''lab'' = ''lab''" "trim_space ''home'' = ''home''" "trim_space ''k'' = ''k''"
  "trim_space ''mail.sent'' = ''mail.sent''"
  by code_simp+

lemma demo_outbound:
  "outbound_request demo_mac demo_encode (\<lambda>_. Some ''/ingest/peer/home'') demo_sender 0 ''lab'' demo_envelope = Inr demo_request"
  by (simp add: outbound_request_def demo_relay_defs outbound_envelope_def sign_def demo_trims)

lemma demo_pair:
  "map_of (sd_instances demo_sender) (trim_space ''lab'') = Some demo_instance"
  "paired demo_sender demo_instance demo_receiver demo_peer"
  by (simp_all add: demo_relay_defs paired_def demo_trims)

theorem relay_roundtrip_witness:
  "\<exists>acc. accept demo_mac demo_decode demo_parse_time demo_receiver (3 * minute) ''x'' ''home'' True demo_request = Inr acc \<and>
     rx_peer acc = demo_peer \<and> ev_payload (rx_event acc) = [(''to'', GStr ''ann'')]"
proof -
  note ri = demo_pair
  have "\<exists>acc. accept demo_mac demo_decode demo_parse_time demo_receiver (3 * minute) ''x'' (sd_service_name demo_sender) True demo_request = Inr acc \<and>
    rx_peer acc = demo_peer \<and> ev_type (rx_event acc) = trim_space (ee_type (en_event demo_envelope)) \<and>
    ev_payload (rx_event acc) = clone_map (ee_payload (en_event demo_envelope)) \<and>
    en_baggage (rx_envelope acc) = clone_map (en_baggage demo_envelope)"
    by (rule relay_roundtrip [OF _ _ _ demo_outbound ri])
      (auto simp: demo_relay_defs demo_mac_def json_envelope_def outbound_envelope_def clone_map_def event_type_pattern_def separated_name_def lower_alnum_def
        is_digit_def demo_trims split: if_splits)
  then show ?thesis by (auto simp: demo_sender_def demo_envelope_def clone_map_def)
qed

definition demo_host :: gw_host where
  "demo_host = \<lparr>gh_now = 3 * minute, gh_uuid = (\<lambda>n. int_str (int n)), gh_instance = (\<lambda>n p. p),
     gh_regex = (\<lambda>_. None), gh_json_len = (\<lambda>_. 0), gh_marshal_event = (\<lambda>_. Some ''ev''), gh_marshal = (\<lambda>_. Some ''v'')\<rparr>"

text \<open>A single pipeline, started by the event type of the demo envelope, with one step.\<close>

definition demo_spec_list :: "pipeline_spec list" where
  "demo_spec_list = [\<lparr>ps_name = ''log'', ps_on = ''mail.sent'', ps_on_hook = [], ps_from_plugin = [], ps_if = None,
     ps_max_depth = None, ps_steps = [StepSpec [] ''chat'' [] None None [] [] [] None], ps_execution_mode = [], ps_timeout = 0\<rparr>]"

definition demo_conf :: gw_conf where
  "demo_conf = \<lparr>gc_queue = new_queue None None,
     gc_router = (case compile_specs (\<lambda>_. None) demo_spec_list of Inr ps \<Rightarrow> Some ps | Inl e \<Rightarrow> None),
     gc_contexts = True, gc_max_context_bytes = 1000, gc_admitter = Some 1000, gc_plugins = []\<rparr>"

definition demo_state :: gw_state where
  "demo_state = \<lparr>gw_queue = empty_db, gw_contexts = [], gw_drawn = 0\<rparr>"

definition demo_acceptance :: root_acceptance where
  "demo_acceptance =
     \<lparr>rx_event = \<lparr>ev_type = ''mail.sent'', ev_payload = [(''to'', GStr ''ann'')], ev_dedupe_key = ''relay:home:home:e1'',
        ev_source = ''relay:home'', ev_timestamp = 3 * minute, ev_event_id = int_str 0\<rparr>,
      rx_peer = demo_peer, rx_envelope = outbound_envelope demo_sender demo_envelope\<rparr>"

lemma demo_accept:
  "accept demo_mac demo_decode demo_parse_time demo_receiver (3 * minute) (int_str 0) ''home'' True demo_request =
   Inr demo_acceptance"
proof -
  have sig: "sign demo_mac ''POST'' ''/ingest/peer/home'' (rfc3339nano 0) ''{}'' ''k'' = Some (hr_signature demo_request)"
    by (simp add: sign_def demo_request_def demo_trims)
  have "check_body demo_mac demo_receiver demo_peer demo_request True = Inr ''{}''"
    using sign_SomeD [OF sig] verify_own_signature [OF sig]
    by (simp add: check_body_def limited_read_def wrap64_def demo_receiver_def demo_peer_def demo_mac_def) (simp add: demo_request_def)
  moreover have "check_freshness demo_parse_time demo_receiver (3 * minute) demo_request = Inr ()"
    by (simp add: check_freshness_def demo_relay_defs parse_relay_timestamp_def clock_skew_def)
  moreover have "trim_space ''e1'' = ''e1''" by code_simp
  ultimately show ?thesis
    by (simp add: accept_def check_peer_def check_key_id_def check_envelope_def validate_envelope_def relay_dedupe_key_def
        event_type_pattern_def separated_name_def lower_alnum_def is_digit_def demo_trims demo_acceptance_def
        outbound_envelope_def clone_map_def demo_relay_defs Let_def)
qed

lemma demo_handled:
  "job_queue (gw_queue (fst (handle_relay demo_mac demo_decode demo_parse_time demo_receiver demo_host demo_conf ''home'' True
     demo_request demo_state))) \<noteq> job_queue (gw_queue demo_state)"
proof -
  have "map j_plugin (job_queue (gw_queue (fst (enqueue_root_dispatches demo_host demo_conf demo_acceptance
      (demo_state\<lparr>gw_drawn := 1\<rparr>))))) = [''chat'']"
    by code_simp
  moreover obtain s1 r where root: "enqueue_root_dispatches demo_host demo_conf demo_acceptance
      (demo_state\<lparr>gw_drawn := 1\<rparr>) = (s1, r)" by fastforce
  ultimately have "job_queue (gw_queue s1) \<noteq> []" by auto
  moreover have "accept demo_mac demo_decode demo_parse_time demo_receiver (gh_now demo_host) (gh_uuid demo_host (gw_drawn demo_state))
      ''home'' True demo_request = Inr demo_acceptance"
    using demo_accept by (simp add: demo_host_def demo_state_def)
  moreover have "gw_drawn demo_state = 0" "job_queue (gw_queue demo_state) = []" by (simp_all add: demo_state_def empty_db_def)
  ultimately show ?thesis using root by (cases r) (simp_all add: handle_relay_def)
qed

theorem relay_only_authenticated_work_witness:
  "\<exists>new. new \<noteq> [] \<and> list_all (\<lambda>j. j_status j = StatusQueued \<and> j_submitted_by j = ''relay:home'') new \<and>
     job_queue (gw_queue (fst (handle_relay demo_mac demo_decode demo_parse_time demo_receiver demo_host demo_conf ''home'' True
       demo_request demo_state))) = new"
proof -
  obtain s' status answer where
    h: "handle_relay demo_mac demo_decode demo_parse_time demo_receiver demo_host demo_conf ''home'' True demo_request demo_state =
      (s', status, answer)"
    by (metis prod_cases3)
  then have "job_queue (gw_queue s') \<noteq> job_queue (gw_queue demo_state)" using demo_handled by simp
  moreover have "rv_max_body_size demo_receiver < 2 ^ 63 - 1" by (simp add: demo_receiver_def)
  ultimately show ?thesis using relay_only_authenticated_work [OF h] h
    by (auto simp: demo_receiver_def demo_peer_def demo_state_def empty_db_def demo_trims)
qed

theorem relay_tamper_evident_witness:
  "trim_space (hr_timestamp demo_request) = rfc3339nano 0 \<and> hr_body demo_request = ''{}''"
proof -
  have "single_line (hr_timestamp demo_request)"
    using rfc3339nano_plain [of "CHR 0x0A" 0] by (auto simp: demo_request_def single_line_def is_space_def)
  then have "list_all single_line [hr_path demo_request, hr_method demo_request, hr_path demo_request, hr_timestamp demo_request]"
    by (simp add: demo_request_def single_line_def)
  moreover have "trim_space (hr_signature demo_request) = hr_signature demo_request"
    using hex_encode_plain by (auto simp: demo_request_def intro: trim_plain)
  ultimately have "hr_path demo_request = hr_path demo_request \<and> trim_space (hr_timestamp demo_request) = hr_timestamp demo_request \<and>
      hr_body demo_request = hr_body demo_request \<and>
      (\<exists>ts. parse_relay_timestamp demo_parse_time (hr_timestamp demo_request) = Some ts \<and>
         (\<bar>3 * minute - ts\<bar> \<le> rv_allowed_clock_skew demo_receiver \<or> 2 ^ 63 \<le> ts - 3 * minute))"
    by (intro relay_tamper_evident [OF demo_outbound demo_pair(1) demo_accept])
      (simp_all add: demo_receiver_def demo_acceptance_def demo_peer_def demo_instance_def demo_mac_def)
  then show ?thesis by (simp add: demo_request_def)
qed

end
