(* ===== verification/Dispatcher.thy ===== *)
theory Dispatcher
  imports Relay Dispatch_Policy Plugin_Store Stopwatch Plugin_Process Event_Hub
begin

text \<open>
  The dispatcher, \<^verbatim>\<open>src/internal/dispatch/dispatcher.go\<close>: what it reads before a job runs, how the events of a
  job become further jobs, how a job ends, and the hooks it fires. The execution of one job is in
  \<^verbatim>\<open>Job_Execution\<close>. The state extends the gateway's by the plugin store, the timing table, the vault audit log, the
  polls under way, the event hub and the waiting synchronous callers. The clock is read once per job. Go's JSON
  decoder is given by what it makes of a text: an event with or without a payload (\<open>dh_event\<close>), or a map
  (\<open>dh_object\<close>, where \<open>Some None\<close> is the nil map of the text \<^verbatim>\<open>null\<close>). \<open>dh_text\<close> is the text of an error. The
  last writes for a job can fail, at shutdown or on a full disk: \<open>dh_requeue_ok\<close>, \<open>dh_complete_ok\<close> and \<open>dh_audit_ok\<close>
  say whether the transactions of \<^verbatim>\<open>UpdateJobForRecovery\<close>, \<^verbatim>\<open>CompleteWithResult\<close> and \<^verbatim>\<open>AppendVaultAudit\<close> commit.
  The log is left out.
\<close>

section \<open>Data\<close>

record wire_event =
  we_type :: string
  we_payload :: "gmap option"
  we_dedupe_key :: string
  we_source :: string
  we_timestamp :: instant
  we_event_id :: string

datatype disp_error =
    LoadEventContext context_error | LoadCurrentContext string context_error | LoadParentContext string context_error
  | StepCondition cond_error | ResolveRoutes string route_error | MarshalRouted | ApplyBaggage string string baggage_error
  | SkippedCondition string string cond_error | SeedContext control_error | CreateContext string string context_error
  | EnqueueRouted string queue_error | ParseJobPayload | MarshalResult
  | PluginNotFound string | CommandUnsupported string string | PluginState store_error | PluginStateShape
  | SecretComposition delivery_error | EventPayload | WithRemap string string "string \<times> with_error"
  | PluginTimedOut duration | DropRefused spawn_error | SpawnFailed spawn_error | NilResponse
  | MarshalUpdates | RecordFact store_error | StateUpdate store_error
  | SwitchNoRouter | SwitchNode string string | RelayNoRouter | RelayNode string string
  | RelayExpressionEmpty | RelayExpression with_error | RelayBaggage baggage_error | Within string disp_error
  | RelayConfigureSender relay_error | RelaySend relay_error

record plugin_request =
  pq_job_id :: string
  pq_command :: string
  pq_config :: gmap
  pq_secrets :: "(string \<times> string) list"
  pq_state :: gmap
  pq_payload :: gmap
  pq_context :: gmap
  pq_event :: "event option"
  pq_deadline_at :: instant

record fact_rule =
  fo_command :: string
  fo_from :: string
  fo_type :: string
  fo_view :: string

record plugin_def =
  pd_commands :: "string list"
  pd_fact_outputs :: "fact_rule list"
  pd_max_subs :: int

record disp_host = gw_host +
  dh_event :: "string \<Rightarrow> wire_event option"
  dh_object :: "string \<Rightarrow> gmap option option"
  dh_fmt :: "gval \<Rightarrow> string"
  dh_subs_len :: "gmap list \<Rightarrow> int"
  dh_rand :: "int \<Rightarrow> int"
  dh_ovf :: int
  dh_text :: "disp_error \<Rightarrow> string"
  dh_mac :: "string \<Rightarrow> string \<Rightarrow> string"
  dh_encode_envelope :: "envelope \<Rightarrow> string option"
  dh_url_path :: "string \<Rightarrow> string option"
  dh_deliver :: "relay_request \<Rightarrow> relay_reply option"
  dh_codec :: response_codec
  dh_process :: "plugin_request \<Rightarrow> resolved_account \<Rightarrow> process_outcome"
  dh_pid :: int
  dh_requeue_ok :: bool
  dh_complete_ok :: bool
  dh_audit_ok :: bool

record disp_conf = gw_conf +
  dc_service_name :: string
  dc_hook_max_depth :: int
  dc_accounts :: "(string \<times> account_conf) list"
  dc_enforce :: bool
  dc_registry :: "(string \<times> plugin_def) list"
  dc_composer :: "(string \<Rightarrow> vault_error + composition) option"
  dc_verifier :: "(string \<Rightarrow> bool) option"
  dc_max_state_bytes :: int
  dc_tokens :: "(string \<times> string) list"
  dc_relay_instances :: "relay_instance_config list"

record vault_audit_event =
  va_op :: string
  va_principal :: string
  va_secret_name :: string
  va_actor :: string
  va_outcome :: string
  va_detail :: string

record poll_lifecycle =
  pll_plugin :: string
  pll_command :: string
  pll_schedule_id :: string
  pll_submitted_by :: string
  pll_attempt :: int

record disp_state = gw_state +
  ds_store :: store_db
  ds_timings :: sw_table
  ds_audit :: "(vault_audit_event \<times> instant) list"
  ds_polls :: "(string \<times> poll_lifecycle) list"
  ds_hub :: hub
  ds_completions :: "(string \<times> bool) list"

text \<open>A map literal of the source.\<close>

definition map_literal :: "(string \<times> gval) list \<Rightarrow> gmap" where
  "map_literal kvs = fold (\<lambda>(k, v). map_put k v) kvs []"

definition put_absent :: "string \<Rightarrow> gval \<Rightarrow> gmap \<Rightarrow> gmap" where
  "put_absent k v m = (case map_get m k of None \<Rightarrow> map_put k v m | Some _ \<Rightarrow> m)"

definition str_at :: "gmap \<Rightarrow> string \<Rightarrow> string" where
  "str_at m k = (case map_get m k of Some (GStr t) \<Rightarrow> t | _ \<Rightarrow> [])"

definition payload_of :: "job \<Rightarrow> string" where
  "payload_of j = deref (j_payload j)"

definition publish_event :: "disp_host \<Rightarrow> string \<Rightarrow> (string \<times> gval) list \<Rightarrow> disp_state \<Rightarrow> disp_state" where
  "publish_event h ty data s = s\<lparr>ds_hub := publish ty (gh_marshal h (GMap (map_literal data))) (gh_now h) (ds_hub s)\<rparr>"

section \<open>The vault audit log\<close>

definition append_vault_audit :: "instant \<Rightarrow> vault_audit_event \<Rightarrow> disp_state \<Rightarrow> disp_state" where
  "append_vault_audit now ev s =
     (if va_op ev = [] \<or> va_outcome ev = [] then s else s\<lparr>ds_audit := ds_audit s @ [(ev, now)]\<rparr>)"

definition list_vault_audit :: "string \<Rightarrow> int \<Rightarrow> disp_state \<Rightarrow> (vault_audit_event \<times> instant) list" where
  "list_vault_audit prin limit s =
     take (nat (if limit \<le> 0 then 100 else limit))
       (rev (filter (\<lambda>(ev, _). prin = [] \<or> va_principal ev = prin) (ds_audit s)))"

section \<open>What a job is given\<close>

definition load_request_context :: "disp_conf \<Rightarrow> job \<Rightarrow> disp_state \<Rightarrow> context_error + gmap" where
  "load_request_context c j s =
     (let out = [(''ductile_plugin'', GStr (j_plugin j))] in
      case (if gc_contexts c then j_event_context_id j else None) of
        None \<Rightarrow> Inr out
      | Some cid \<Rightarrow>
         bind_result (get_context cid (gw_contexts s)) (\<lambda>ctx.
           let cp = route_control_plane_from_accumulated (RawJSON (GMap (ec_accumulated ctx)));
               out1 = copy_into out (ec_accumulated ctx);
               out2 = (if ec_pipeline_name ctx \<noteq> [] then map_put ''ductile_pipeline'' (GStr (ec_pipeline_name ctx)) out1 else out1);
               out3 = (if ec_step_id ctx \<noteq> [] then map_put ''ductile_step_id'' (GStr (ec_step_id ctx)) out2 else out2);
               out4 = (if rc_pipeline_instance_id cp \<noteq> []
                       then map_put ''ductile_pipeline_instance_id'' (GStr (rc_pipeline_instance_id cp)) out3 else out3);
               out5 = (if rc_route_depth cp > 0 then map_put ''ductile_route_depth'' (GInt (rc_route_depth cp)) out4 else out4)
           in Inr (if rc_route_max_depth cp > 0 then map_put ''ductile_route_max_depth'' (GInt (rc_route_max_depth cp)) out5 else out5)))"

definition event_of_wire :: "wire_event \<Rightarrow> event" where
  "event_of_wire w =
     \<lparr>ev_type = we_type w, ev_payload = (case we_payload w of None \<Rightarrow> [] | Some m \<Rightarrow> m), ev_dedupe_key = we_dedupe_key w,
      ev_source = we_source w, ev_timestamp = we_timestamp w, ev_event_id = we_event_id w\<rparr>"

definition plain_event :: "string \<Rightarrow> gmap \<Rightarrow> event" where
  "plain_event ty payload =
     \<lparr>ev_type = ty, ev_payload = payload, ev_dedupe_key = [], ev_source = [], ev_timestamp = zero_time, ev_event_id = []\<rparr>"

definition object_or_empty :: "gmap option option \<Rightarrow> gmap" where
  "object_or_empty r = (case r of Some (Some m) \<Rightarrow> m | _ \<Rightarrow> [])"

definition event_payload_for_condition :: "disp_host \<Rightarrow> string \<Rightarrow> gmap" where
  "event_payload_for_condition h raw =
     (if raw = [] then []
      else case dh_event h raw of
        Some w \<Rightarrow> if we_type w \<noteq> [] \<or> we_payload w \<noteq> None then ev_payload (event_of_wire w) else object_or_empty (dh_object h raw)
      | None \<Rightarrow> object_or_empty (dh_object h raw))"

definition event_from_job_payload :: "disp_host \<Rightarrow> string \<Rightarrow> disp_error + event" where
  "event_from_job_payload h raw =
     (let plain = (case dh_object h raw of
                     None \<Rightarrow> Inl ParseJobPayload
                   | Some r \<Rightarrow> Inr (plain_event [] (case r of None \<Rightarrow> [] | Some m \<Rightarrow> m)))
      in case dh_event h raw of
           Some w \<Rightarrow> if we_type w \<noteq> [] \<or> we_payload w \<noteq> None \<or> we_event_id w \<noteq> [] then Inr (event_of_wire w) else plain
         | None \<Rightarrow> plain)"

text \<open>Whether the step of a job is to be skipped.\<close>

definition evaluate_step_condition :: "disp_host \<Rightarrow> disp_conf \<Rightarrow> job \<Rightarrow> gmap \<Rightarrow> cond_error + bool" where
  "evaluate_step_condition h c j rc =
     (case gc_router c of
        None \<Rightarrow> Inr False
      | Some ps \<Rightarrow>
         let pl = str_at rc ''ductile_pipeline''; sid = str_at rc ''ductile_step_id'' in
         if pl = [] \<or> sid = [] then Inr False
         else case get_node ps pl sid of
           None \<Rightarrow> Inr False
         | Some nd \<Rightarrow>
            (case nd_condition nd of
               None \<Rightarrow> Inr False
             | Some cond \<Rightarrow>
                if nd_kind nd = NodeKindSwitch then Inr False
                else bind_result (eval (gh_regex h)
                       \<lparr>s_payload = event_payload_for_condition h (payload_of j), s_context = rc,
                        s_config = pc_config (plugin_conf_of c (j_plugin j))\<rparr> cond) (\<lambda>matched. Inr (\<not> matched))))"

definition preflight_job :: "disp_host \<Rightarrow> disp_conf \<Rightarrow> job \<Rightarrow> disp_state \<Rightarrow> disp_error + bool \<times> gmap" where
  "preflight_job h c j s =
     (case load_request_context c j s of
        Inl e \<Rightarrow> Inl (LoadEventContext e)
      | Inr rc \<Rightarrow>
         (case evaluate_step_condition h c j rc of
            Inl e \<Rightarrow> Inl (StepCondition e)
          | Inr skip \<Rightarrow> Inr (skip, rc)))"

section \<open>Contexts of routed jobs\<close>

definition context_map :: "disp_conf \<Rightarrow> string \<Rightarrow> disp_state \<Rightarrow> disp_error + gmap" where
  "context_map c cid s =
     (if \<not> gc_contexts c \<or> trim_space cid = [] then Inr []
      else case get_context cid (gw_contexts s) of
        Inl e \<Rightarrow> Inl (LoadParentContext cid e)
      | Inr ctx \<Rightarrow> Inr (ec_accumulated ctx))"

definition skipped_successor_condition_false :: "disp_host \<Rightarrow> node \<Rightarrow> gmap \<Rightarrow> gmap \<Rightarrow> cond_error + bool" where
  "skipped_successor_condition_false h nd payload parent =
     (case nd_condition nd of
        None \<Rightarrow> Inr False
      | Some cond \<Rightarrow> bind_result (eval (gh_regex h) \<lparr>s_payload = payload, s_context = parent, s_config = []\<rparr> cond)
                       (\<lambda>matched. Inr (\<not> matched)))"

definition baggage_updates :: "disp_host \<Rightarrow> disp_conf \<Rightarrow> bool \<Rightarrow> node \<Rightarrow> dispatch \<Rightarrow> disp_state \<Rightarrow> disp_error + raw_json" where
  "baggage_updates h c allow_missing nd d s =
     bind_result (context_map c (dp_parent_context_id d) s) (\<lambda>parent.
       case apply_claims (ev_payload (dp_event d)) (nd_baggage nd) parent of
         Inr claims \<Rightarrow> Inr (RawJSON (json_clone (GMap claims)))
       | Inl e \<Rightarrow>
          let refuse = Inl (ApplyBaggage (dp_pipeline_name d) (dp_step_id d) e) in
          (case e of
             PathNotFound _ \<Rightarrow>
               if allow_missing then
                 (case skipped_successor_condition_false h nd (ev_payload (dp_event d)) parent of
                    Inl ce \<Rightarrow> Inl (SkippedCondition (dp_pipeline_name d) (dp_step_id d) ce)
                  | Inr cond_false \<Rightarrow> if cond_false then Inr (RawJSON (GMap [])) else refuse)
               else refuse
           | _ \<Rightarrow> refuse))"

definition context_updates_for_dispatch ::
  "disp_host \<Rightarrow> disp_conf \<Rightarrow> bool \<Rightarrow> dispatch \<Rightarrow> disp_state \<Rightarrow> disp_error + raw_json" where
  "context_updates_for_dispatch h c allow_missing d s =
     bind_result
       (case gc_router c of
          None \<Rightarrow> Inr RawEmpty
        | Some ps \<Rightarrow>
           if trim_space (dp_pipeline_name d) = [] \<or> trim_space (dp_step_id d) = [] then Inr RawEmpty
           else case get_node ps (dp_pipeline_name d) (dp_step_id d) of
             None \<Rightarrow> Inr RawEmpty
           | Some nd \<Rightarrow>
              if nd_kind nd = NodeKindUses \<and> (case nd_baggage nd of None \<Rightarrow> False | Some b \<Rightarrow> \<not> spec_empty b)
              then baggage_updates h c allow_missing nd d s else Inr RawEmpty)
       (\<lambda>u. case control_plane_updates d u of Inl e \<Rightarrow> Inl (SeedContext e) | Inr v \<Rightarrow> Inr v)"

text \<open>The root contexts created while one job's events are routed, by pipeline and instance.\<close>

definition instance_root_updates :: "dispatch \<Rightarrow> control_error + raw_json" where
  "instance_root_updates d =
     bind_result (with_pipeline_instance_id RawEmpty (dp_instance_id d)) (\<lambda>u.
     bind_result (with_route_depth u 0) (\<lambda>u.
       if dp_route_max_depth d > 0 then with_route_max_depth u (dp_route_max_depth d) else Inr u))"

definition ensure_pipeline_instance_root_context ::
  "disp_host \<Rightarrow> disp_conf \<Rightarrow> (string \<times> string) list \<Rightarrow> dispatch \<Rightarrow> disp_state
   \<Rightarrow> disp_state \<times> (disp_error + (string \<times> string) list \<times> string)" where
  "ensure_pipeline_instance_root_context h c cache d s =
     (case map_of cache (seed_key d) of
        Some cid \<Rightarrow> (s, Inr (cache, cid))
      | None \<Rightarrow>
         (case instance_root_updates d of
            Inl e \<Rightarrow> (s, Inl (SeedContext e))
          | Inr u \<Rightarrow>
             (case gw_create_context h c None (dp_pipeline_name d) [] u s of
                (s1, Inl e) \<Rightarrow> (s1, Inl (CreateContext (dp_pipeline_name d) [] e))
              | (s1, Inr row) \<Rightarrow> (s1, Inr ((seed_key d, ec_id row) # cache, ec_id row)))))"

definition parent_context_id_for_dispatch ::
  "disp_host \<Rightarrow> disp_conf \<Rightarrow> (string \<times> string) list \<Rightarrow> dispatch \<Rightarrow> disp_state
   \<Rightarrow> disp_state \<times> (disp_error + (string \<times> string) list \<times> string option)" where
  "parent_context_id_for_dispatch h c cache d s =
     (let parent = str_ptr_or_nil (dp_parent_context_id d);
          rooted = bind_step (ensure_pipeline_instance_root_context h c cache d s) (\<lambda>(cache1, cid) s1. (s1, Inr (cache1, Some cid)))
      in if trim_space (dp_pipeline_name d) = [] \<or> trim_space (dp_instance_id d) = [] then (s, Inr (cache, parent))
         else case parent of
           None \<Rightarrow> rooted
         | Some pid \<Rightarrow>
            (case get_context pid (gw_contexts s) of
               Inl e \<Rightarrow> (s, Inl (LoadParentContext pid e))
             | Inr ctx \<Rightarrow>
                if ec_pipeline_name ctx = dp_pipeline_name d \<and>
                   pipeline_instance_id_from_accumulated (RawJSON (GMap (ec_accumulated ctx))) = dp_instance_id d
                then (s, Inr (cache, parent)) else rooted))"

definition create_routed_context ::
  "disp_host \<Rightarrow> disp_conf \<Rightarrow> bool \<Rightarrow> (string \<times> string) list \<Rightarrow> dispatch \<Rightarrow> disp_state
   \<Rightarrow> disp_state \<times> (disp_error + (string \<times> string) list \<times> string option)" where
  "create_routed_context h c allow_missing cache d s =
     (if \<not> gc_contexts c then (s, Inr (cache, None))
      else case context_updates_for_dispatch h c allow_missing d s of
        Inl e \<Rightarrow> (s, Inl e)
      | Inr u \<Rightarrow>
         bind_step (parent_context_id_for_dispatch h c cache d s) (\<lambda>(cache1, parent) s1.
           case gw_create_context h c parent (dp_pipeline_name d) (dp_step_id d) u s1 of
             (s2, Inl e) \<Rightarrow> (s2, Inl (CreateContext (dp_pipeline_name d) (dp_step_id d) e))
           | (s2, Inr row) \<Rightarrow> (s2, Inr (cache1, Some (ec_id row)))))"

section \<open>Routing events\<close>

text \<open>What the routing of one job's events reads from the context of that job.\<close>

record route_source_scope =
  sc_pipeline :: string
  sc_step :: string
  sc_instance :: string
  sc_depth :: int
  sc_max_depth :: int
  sc_scope :: gmap

definition route_source_of :: "disp_conf \<Rightarrow> job \<Rightarrow> disp_state \<Rightarrow> disp_error + route_source_scope" where
  "route_source_of c j s =
     (case (if gc_contexts c then j_event_context_id j else None) of
        None \<Rightarrow> Inr \<lparr>sc_pipeline = [], sc_step = [], sc_instance = [], sc_depth = 0, sc_max_depth = 0, sc_scope = []\<rparr>
      | Some cid \<Rightarrow>
         (case get_context cid (gw_contexts s) of
            Inl e \<Rightarrow> Inl (LoadCurrentContext cid e)
          | Inr ctx \<Rightarrow>
             let cp = route_control_plane_from_accumulated (RawJSON (GMap (ec_accumulated ctx))) in
             Inr \<lparr>sc_pipeline = ec_pipeline_name ctx, sc_step = ec_step_id ctx, sc_instance = rc_pipeline_instance_id cp,
                  sc_depth = rc_route_depth cp, sc_max_depth = rc_route_max_depth cp, sc_scope = ec_accumulated ctx\<rparr>))"

definition routed_payload :: "job \<Rightarrow> route_source_scope \<Rightarrow> gmap \<Rightarrow> gmap" where
  "routed_payload j sc m =
     (let m1 = put_absent ''ductile_upstream_plugin'' (GStr (j_plugin j)) m;
          m2 = (if sc_pipeline sc \<noteq> [] then put_absent ''ductile_upstream_pipeline'' (GStr (sc_pipeline sc)) m1 else m1)
      in if sc_step sc \<noteq> [] then put_absent ''ductile_upstream_step_id'' (GStr (sc_step sc)) m2 else m2)"

definition routed_request :: "disp_conf \<Rightarrow> dispatch \<Rightarrow> string \<Rightarrow> string option \<Rightarrow> enqueue_request" where
  "routed_request c d payload ctx =
     \<lparr>rq_plugin = dp_plugin d, rq_command = dp_command d, rq_payload = payload,
      rq_max_attempts = resolved_max_attempts (plugin_conf_of c (dp_plugin d)), rq_submitted_by = ''route'',
      rq_dedupe_key = (let k = trim_space (ev_dedupe_key (dp_event d)) in if k = [] then None else Some k),
      rq_dedupe_ttl = None, rq_parent_job_id = str_ptr_or_nil (dp_parent_job_id d), rq_event_context_id = ctx,
      rq_source_event_id = str_ptr_or_nil (dp_source_event_id d), rq_enqueued_config_snapshot_id = []\<rparr>"

fun benign_enqueue_error :: "queue_error \<Rightarrow> bool" where
  "benign_enqueue_error (DedupeDropError _ _) = True"
| "benign_enqueue_error (SourceEventConflictError _ _ _ _) = True"
| "benign_enqueue_error _ = False"

definition enqueue_routed ::
  "disp_host \<Rightarrow> disp_conf \<Rightarrow> job \<Rightarrow> dispatch \<Rightarrow> string \<Rightarrow> string option \<Rightarrow> disp_state \<Rightarrow> disp_state \<times> (disp_error + unit)" where
  "enqueue_routed h c j d payload ctx s =
     (case gw_enqueue h c (routed_request c d payload ctx) s of
        (s1, Inl e) \<Rightarrow> if benign_enqueue_error e then (s1, Inr ()) else (s1, Inl (EnqueueRouted (dp_plugin d) e))
      | (s1, Inr jid) \<Rightarrow>
         (publish_event h ''router.enqueued''
            [(''job_id'', GStr jid), (''parent_job_id'', GStr (j_id j)), (''plugin'', GStr (dp_plugin d)),
             (''command'', GStr (dp_command d)), (''pipeline'', GStr (dp_pipeline_name d)), (''step_id'', GStr (dp_step_id d)),
             (''event_context_id'', GStr (deref ctx))] s1, Inr ()))"

text \<open>One dispatch: the result is the cache of root contexts.\<close>

definition route_dispatch ::
  "disp_host \<Rightarrow> disp_conf \<Rightarrow> bool \<Rightarrow> job \<Rightarrow> route_source_scope \<Rightarrow> (string \<times> string) list \<Rightarrow> dispatch \<Rightarrow> disp_state
   \<Rightarrow> disp_state \<times> (disp_error + (string \<times> string) list)" where
  "route_dispatch h c allow_missing j sc cache d0 s =
     (let ev = (dp_event d0)\<lparr>ev_payload := routed_payload j sc (ev_payload (dp_event d0))\<rparr>; d = d0\<lparr>dp_event := ev\<rparr> in
      if ar_decision (gw_admit h c (ev_dedupe_key ev) (dp_plugin d) (dp_command d) s) = AdmissionReplay then (s, Inr cache)
      else case gh_marshal_event h ev of
        None \<Rightarrow> (s, Inl MarshalRouted)
      | Some payload \<Rightarrow>
         bind_step (create_routed_context h c allow_missing cache d s) (\<lambda>(cache1, ctx) s1.
         bind_step (enqueue_routed h c j d payload ctx s1) (\<lambda>_ s2. (s2, Inr cache1))))"

fun route_dispatches ::
  "disp_host \<Rightarrow> disp_conf \<Rightarrow> bool \<Rightarrow> job \<Rightarrow> route_source_scope \<Rightarrow> (string \<times> string) list \<Rightarrow> dispatch list \<Rightarrow> disp_state
   \<Rightarrow> disp_state \<times> (disp_error + (string \<times> string) list)" where
  "route_dispatches h c allow_missing j sc cache [] s = (s, Inr cache)"
| "route_dispatches h c allow_missing j sc cache (d # ds) s =
     bind_step (route_dispatch h c allow_missing j sc cache d s)
       (\<lambda>cache1 s1. route_dispatches h c allow_missing j sc cache1 ds s1)"

text \<open>The defaults of an event; a missing id draws a UUID. Resolving the routes of an event draws once more: the
  instances it starts are told apart by their pipelines.\<close>

definition stamp_event :: "disp_host \<Rightarrow> job \<Rightarrow> event \<Rightarrow> disp_state \<Rightarrow> disp_state \<times> event" where
  "stamp_event h j ev s =
     (let s1 = (if ev_event_id ev = [] then s\<lparr>gw_drawn := Suc (gw_drawn s)\<rparr> else s);
          ev1 = (if ev_event_id ev = [] then ev\<lparr>ev_event_id := gh_uuid h (gw_drawn s)\<rparr> else ev);
          ev2 = (if ev_timestamp ev = zero_time then ev1\<lparr>ev_timestamp := gh_now h\<rparr> else ev1)
      in (s1, if ev_source ev = [] then ev2\<lparr>ev_source := j_plugin j\<rparr> else ev2))"

definition route_request_of :: "job \<Rightarrow> route_source_scope \<Rightarrow> event \<Rightarrow> request" where
  "route_request_of j sc ev =
     \<lparr>rr_source_plugin = j_plugin j, rr_source_job_id = j_id j, rr_source_context_id = deref (j_event_context_id j),
      rr_source_pipeline = sc_pipeline sc, rr_source_step_id = sc_step sc, rr_source_instance_id = sc_instance sc,
      rr_source_depth = sc_depth sc, rr_source_max_depth = sc_max_depth sc, rr_source_event_id = ev_event_id ev,
      rr_source_context = sc_scope sc, rr_event = ev\<rparr>"

fun route_event_list ::
  "disp_host \<Rightarrow> disp_conf \<Rightarrow> pipelines \<Rightarrow> bool \<Rightarrow> job \<Rightarrow> route_source_scope \<Rightarrow> (string \<times> string) list \<Rightarrow> event list \<Rightarrow> disp_state
   \<Rightarrow> disp_state \<times> (disp_error + unit)" where
  "route_event_list h c ps allow_missing j sc cache [] s = (s, Inr ())"
| "route_event_list h c ps allow_missing j sc cache (e # es) s =
     (case stamp_event h j e s of
        (s1, ev) \<Rightarrow>
          (case route_next (gh_regex h) (gh_instance h (gw_drawn s1)) ps (route_request_of j sc ev) of
             Inl err \<Rightarrow> (s1, Inl (ResolveRoutes (ev_type ev) err))
           | Inr ds \<Rightarrow>
              bind_step (route_dispatches h c allow_missing j sc cache ds (s1\<lparr>gw_drawn := Suc (gw_drawn s1)\<rparr>))
                (\<lambda>cache1 s2. route_event_list h c ps allow_missing j sc cache1 es s2)))"

definition route_events_with_options ::
  "disp_host \<Rightarrow> disp_conf \<Rightarrow> bool \<Rightarrow> job \<Rightarrow> event list \<Rightarrow> disp_state \<Rightarrow> disp_state \<times> (disp_error + unit)" where
  "route_events_with_options h c allow_missing j es s =
     (case gc_router c of
        None \<Rightarrow> (s, Inr ())
      | Some ps \<Rightarrow>
         (case route_source_of c j s of
            Inl e \<Rightarrow> (s, Inl e)
          | Inr sc \<Rightarrow> route_event_list h c ps allow_missing j sc [] es s))"

definition route_events :: "disp_host \<Rightarrow> disp_conf \<Rightarrow> job \<Rightarrow> event list \<Rightarrow> disp_state \<Rightarrow> disp_state \<times> (disp_error + unit)" where
  "route_events h c j es s = route_events_with_options h c False j es s"

section \<open>The end of a job\<close>

definition is_scheduler_poll_job :: "disp_conf \<Rightarrow> job \<Rightarrow> bool" where
  "is_scheduler_poll_job c j \<longleftrightarrow>
     trim_space (dc_service_name c) \<noteq> [] \<and> trim_space (j_submitted_by j) = trim_space (dc_service_name c) \<and>
     trim_space (j_command j) = ''poll''"

definition publish_poll_started :: "disp_host \<Rightarrow> disp_conf \<Rightarrow> job \<Rightarrow> disp_state \<Rightarrow> disp_state" where
  "publish_poll_started h c j s =
     (if \<not> is_scheduler_poll_job c j then s
      else let sid = schedule_id_from_dedupe_key (j_plugin j) (j_command j) (j_dedupe_key j);
               pll = \<lparr>pll_plugin = j_plugin j, pll_command = j_command j, pll_schedule_id = sid,
                      pll_submitted_by = j_submitted_by j, pll_attempt = j_attempt j\<rparr>
           in publish_event h ''poll.started''
                [(''job_id'', GStr (j_id j)), (''plugin'', GStr (j_plugin j)), (''command'', GStr (j_command j)),
                 (''schedule_id'', GStr sid), (''submitted_by'', GStr (j_submitted_by j)), (''attempt'', GInt (j_attempt j))]
                (s\<lparr>ds_polls := map_put (j_id j) pll (ds_polls s)\<rparr>))"

definition publish_poll_completed :: "disp_host \<Rightarrow> string \<Rightarrow> status \<Rightarrow> gmap \<Rightarrow> disp_state \<Rightarrow> disp_state" where
  "publish_poll_completed h jid st data s =
     (case map_get (ds_polls s) jid of
        None \<Rightarrow> s
      | Some pll \<Rightarrow>
         publish_event h ''poll.completed''
           ([(''job_id'', GStr jid), (''plugin'', GStr (pll_plugin pll)), (''command'', GStr (pll_command pll)),
             (''schedule_id'', GStr (pll_schedule_id pll)), (''submitted_by'', GStr (pll_submitted_by pll)),
             (''attempt'', GInt (pll_attempt pll)), (''status'', GStr (status_text st)), (''outcome'', GStr (status_text st))] @
            (case map_get data ''duration_ms'' of None \<Rightarrow> [] | Some v \<Rightarrow> [(''duration_ms'', v)]) @
            (case map_get data ''error'' of None \<Rightarrow> [] | Some v \<Rightarrow> [(''error'', v)]))
           (s\<lparr>ds_polls := filter (\<lambda>(k, _). k \<noteq> jid) (ds_polls s)\<rparr>))"

text \<open>Each waiter has a channel of capacity one: a pending notification absorbs the next.\<close>

definition notify_completion :: "disp_state \<Rightarrow> disp_state" where
  "notify_completion s = s\<lparr>ds_completions := map (\<lambda>(k, _). (k, True)) (ds_completions s)\<rparr>"

text \<open>\<^verbatim>\<open>Duration.Milliseconds\<close> divides towards zero.\<close>

definition milliseconds :: "duration \<Rightarrow> int" where
  "milliseconds d = (if d < 0 then - ((- d) div 1000000) else d div 1000000)"

definition completion_data :: "disp_host \<Rightarrow> job \<Rightarrow> status \<Rightarrow> string option \<Rightarrow> gmap" where
  "completion_data h j st err =
     (let duration = (case j_started_at j of None \<Rightarrow> 0 | Some t \<Rightarrow> time_sub (gh_now h) t);
          base = [(''job_id'', GStr (j_id j)), (''plugin'', GStr (j_plugin j)), (''status'', GStr (status_text st)),
                  (''duration_ms'', GInt (milliseconds duration))];
          text_of = (\<lambda>msg. [(''message'', GStr msg), (''text'', GStr msg)]);
          failed = ''Job failed ['' @ j_plugin j @ '']'';
          data = (case err of None \<Rightarrow> base | Some e \<Rightarrow> base @ [(''error'', GStr e)] @ text_of (failed @ '': '' @ e))
      in if st = StatusTimedOut then copy_into data (text_of (''Job timed out ['' @ j_plugin j @ '']''))
         else if (st = StatusFailed \<or> st = StatusDead) \<and> err = None then data @ text_of failed
         else data)"

text \<open>A completion that fails is logged; the waiters are notified all the same.\<close>

definition complete_job ::
  "disp_host \<Rightarrow> job \<Rightarrow> status \<Rightarrow> string \<Rightarrow> string option \<Rightarrow> string option \<Rightarrow> disp_state \<Rightarrow> disp_state" where
  "complete_job h j st result err stderr s =
     (let data = completion_data h j st err;
          s1 = (if hook_signal_for_status st = [] then s else publish_event h (hook_signal_for_status st) data s);
          s2 = publish_poll_completed h (j_id j) st data s1
      in notify_completion
           (if dh_complete_ok h
            then s2\<lparr>gw_queue := fst (complete_with_result (gh_now h) (j_id j) st result err stderr (gw_queue s2))\<rparr>
            else s2))"

section \<open>Hooks\<close>

definition default_hook_max_depth :: int where "default_hook_max_depth = 4"

definition step_of_contexts :: "event_context list \<Rightarrow> string \<Rightarrow> string option" where
  "step_of_contexts tab cid = map_option ec_step_id (find (\<lambda>r. ec_id r = cid) tab)"

definition hook_job_request :: "disp_conf \<Rightarrow> job \<Rightarrow> dispatch \<Rightarrow> string \<Rightarrow> enqueue_request" where
  "hook_job_request c j d payload =
     \<lparr>rq_plugin = dp_plugin d, rq_command = dp_command d, rq_payload = payload,
      rq_max_attempts = resolved_max_attempts (plugin_conf_of c (dp_plugin d)), rq_submitted_by = ''hook'',
      rq_dedupe_key = None, rq_dedupe_ttl = None, rq_parent_job_id = Some (j_id j), rq_event_context_id = None,
      rq_source_event_id = None, rq_enqueued_config_snapshot_id = []\<rparr>"

text \<open>A hook event that does not encode or enqueue is logged and the loop goes on.\<close>

definition enqueue_hook :: "disp_host \<Rightarrow> disp_conf \<Rightarrow> job \<Rightarrow> dispatch \<Rightarrow> disp_state \<Rightarrow> disp_state" where
  "enqueue_hook h c j d s =
     (case gh_marshal_event h (dp_event d) of
        None \<Rightarrow> s
      | Some payload \<Rightarrow> fst (gw_enqueue h c (hook_job_request c j d payload) s))"

definition effective_hook_max_depth :: "disp_conf \<Rightarrow> int" where
  "effective_hook_max_depth c = (if dc_hook_max_depth c \<le> 0 then default_hook_max_depth else dc_hook_max_depth c)"

definition hook_dispatches ::
  "disp_host \<Rightarrow> disp_conf \<Rightarrow> pipelines \<Rightarrow> job \<Rightarrow> string \<Rightarrow> gmap \<Rightarrow> disp_state \<Rightarrow> dispatch list" where
  "hook_dispatches h c ps j sig payload s =
     (case hook_chain_depth (step_of_contexts (gw_contexts s)) (gw_queue s) j of
        Inl _ \<Rightarrow> []
      | Inr levels \<Rightarrow>
         if levels + 1 > effective_hook_max_depth c then []
         else case next_hook (gh_regex h) ps (j_plugin j) sig payload of Inl _ \<Rightarrow> [] | Inr ds \<Rightarrow> ds)"

definition maybe_fire_hooks :: "disp_host \<Rightarrow> disp_conf \<Rightarrow> job \<Rightarrow> string \<Rightarrow> gmap \<Rightarrow> disp_state \<Rightarrow> disp_state" where
  "maybe_fire_hooks h c j sig payload s =
     (if trim_space sig = [] \<or> j_event_context_id j \<noteq> None then s
      else case map_of (gc_plugins c) (j_plugin j) of
        None \<Rightarrow> s
      | Some pc \<Rightarrow>
         if pc_notify_on_complete pc \<noteq> Some True then s
         else case gc_router c of
           None \<Rightarrow> s
         | Some ps \<Rightarrow> fold (enqueue_hook h c j) (hook_dispatches h c ps j sig payload s) s)"

definition fire_recovery_hook :: "disp_host \<Rightarrow> disp_conf \<Rightarrow> job \<Rightarrow> string \<Rightarrow> gmap \<Rightarrow> disp_state \<Rightarrow> disp_state" where
  "fire_recovery_hook h c j sig payload s = maybe_fire_hooks h c j sig payload s"

section \<open>Waiting for a job tree\<close>

text \<open>What wakes a waiter: the caller's context, the timer, or a notification, with the two states its tree is
  then read in. \<open>None\<close>: nothing more has happened yet.\<close>

datatype wake = WakeCancelled | WakeTimeout | WakeNotified queue_db queue_db
datatype wait_error = WaitCancelled | WaitTimedOut | WaitInitial | WaitRecheck

fun wait_loop ::
  "(string \<Rightarrow> string option) \<Rightarrow> string \<Rightarrow> wake list \<Rightarrow> (wait_error + job_result list) option" where
  "wait_loop step_of root_id [] = None"
| "wait_loop step_of root_id (WakeCancelled # ws) = Some (Inl WaitCancelled)"
| "wait_loop step_of root_id (WakeTimeout # ws) = Some (Inl WaitTimedOut)"
| "wait_loop step_of root_id (WakeNotified db1 db2 # ws) =
     (case settled_job_tree step_of root_id db1 db2 of
        Inl _ \<Rightarrow> Some (Inl WaitRecheck)
      | Inr (results, True) \<Rightarrow> Some (Inr results)
      | Inr (_, False) \<Rightarrow> wait_loop step_of root_id ws)"

definition wait_for_job_tree ::
  "(string \<Rightarrow> string option) \<Rightarrow> string \<Rightarrow> queue_db \<Rightarrow> queue_db \<Rightarrow> wake list \<Rightarrow> (wait_error + job_result list) option" where
  "wait_for_job_tree step_of root_id db1 db2 ws =
     (case settled_job_tree step_of root_id db1 db2 of
        Inl _ \<Rightarrow> Some (Inl WaitInitial)
      | Inr (results, True) \<Rightarrow> Some (Inr results)
      | Inr (_, False) \<Rightarrow> wait_loop step_of root_id ws)"

definition add_waiter :: "string \<Rightarrow> disp_state \<Rightarrow> disp_state" where
  "add_waiter root_id s = s\<lparr>ds_completions := map_put root_id False (ds_completions s)\<rparr>"

definition remove_waiter :: "string \<Rightarrow> disp_state \<Rightarrow> disp_state" where
  "remove_waiter root_id s = s\<lparr>ds_completions := filter (\<lambda>(k, _). k \<noteq> root_id) (ds_completions s)\<rparr>"

end
