(* ===== verification/Job_Execution.thy ===== *)
theory Job_Execution
  imports Dispatcher
begin

text \<open>
  The execution of one job, \<^verbatim>\<open>executeJob\<close> of \<^verbatim>\<open>src/internal/dispatch/dispatcher.go\<close>, on the dispatcher's state: the
  preflight, the two core steps, the request to the plugin, the spawn, and what follows from its outcome.
  Every branch of the Go function ends by completing the job or putting it back for a retry; the write that does so may fail.
\<close>

section \<open>Failing and retrying\<close>

definition fail_job :: "disp_host \<Rightarrow> job \<Rightarrow> disp_error \<Rightarrow> disp_state \<Rightarrow> disp_state" where
  "fail_job h j e s = complete_job h j StatusFailed [] (Some (dh_text h e)) None s"

definition retry_owner :: "(string \<times> gval) list" where
  "retry_owner = [(''retry_policy_owner'', GStr ''core''), (''plugin_retry_field'', GStr ''v2_boundary_compatibility_signal'')]"

definition retry_scheduled_data :: "disp_host \<Rightarrow> job \<Rightarrow> duration \<Rightarrow> string \<Rightarrow> (string \<times> gval) list" where
  "retry_scheduled_data h j backoff reason =
     [(''job_id'', GStr (j_id j)), (''attempt'', GInt (j_attempt j)), (''max_attempts'', GInt (j_max_attempts j)),
      (''retry_count'', GInt (j_attempt j)), (''max_retries'', GInt (j_max_attempts j))] @ retry_owner @
     [(''backoff_ms'', GInt (milliseconds backoff)), (''backoff_schedule'', GList [GInt (milliseconds backoff)]),
      (''next_retry_at'', GStr (rfc3339nano (gh_now h + backoff))), (''reason'', GStr reason)]"

definition retry_exhausted_data :: "job \<Rightarrow> string \<Rightarrow> retry_decision \<Rightarrow> (string \<times> gval) list" where
  "retry_exhausted_data j err rd =
     [(''job_id'', GStr (j_id j)), (''attempts'', GInt (j_attempt j)), (''final_error'', GStr err),
      (''reason'', GStr (rd_reason rd))] @ retry_owner @
     (if rd_retryable rd then [(''reason'', GStr ''attempts_exhausted''), (''retry_decision_reason'', GStr (rd_reason rd))] else [])"

definition job_fields :: "job \<Rightarrow> (string \<times> gval) list" where
  "job_fields j = [(''job_id'', GStr (j_id j)), (''plugin'', GStr (j_plugin j)), (''command'', GStr (j_command j))]"

definition fail_or_retry ::
  "disp_host \<Rightarrow> disp_conf \<Rightarrow> job \<Rightarrow> status \<Rightarrow> string \<Rightarrow> string \<Rightarrow> string \<Rightarrow> retry_decision \<Rightarrow> disp_state \<Rightarrow> disp_state" where
  "fail_or_retry h c j st result err stderr rd s =
     (if rd_retryable rd \<and> \<not> rd_exhausted rd then
        let backoff = compute_retry_delay (dh_ovf h) (dh_rand h) (plugin_conf_of c (j_plugin j)) (j_attempt j) in
        if \<not> dh_requeue_ok h then complete_job h j st result (Some err) (Some stderr) s
        else
        (case update_job_for_recovery (gh_now h) (j_id j) StatusQueued (j_attempt j + 1) (Some (gh_now h + backoff)) err (gw_queue s) of
           (_, Inl _) \<Rightarrow> complete_job h j st result (Some err) (Some stderr) s
         | (db, Inr _) \<Rightarrow>
            publish_event h ''job.retry_scheduled'' (retry_scheduled_data h j backoff (rd_reason rd)) (s\<lparr>gw_queue := db\<rparr>))
      else
        let s1 = publish_event h ''job.retry_exhausted'' (retry_exhausted_data j err rd) s;
            hook = map_literal (job_fields j @ [(''status'', GStr (status_text st)), (''reason'', GStr (rd_reason rd)), (''error'', GStr err)])
        in complete_job h j st result (Some err) (Some stderr) (maybe_fire_hooks h c j (hook_signal_for_status st) hook s1))"

section \<open>Skipped steps\<close>

definition skip_reason :: string where "skip_reason = ''if condition evaluated false''"

definition route_skipped_step_successors :: "disp_host \<Rightarrow> disp_conf \<Rightarrow> job \<Rightarrow> disp_state \<Rightarrow> disp_state \<times> (disp_error + unit)" where
  "route_skipped_step_successors h c j s =
     (case (if payload_of j = [] then Inr (plain_event ''ductile.step.skipped'' []) else event_from_job_payload h (payload_of j)) of
        Inl e \<Rightarrow> (s, Inl (Within ''parse skipped job payload'' e))
      | Inr ev \<Rightarrow> route_events_with_options h c True j [ev] s)"

definition skip_job :: "disp_host \<Rightarrow> disp_conf \<Rightarrow> job \<Rightarrow> disp_state \<Rightarrow> disp_state" where
  "skip_job h c j s =
     (let s1 = publish_event h ''job.skipped'' (job_fields j @ [(''reason'', GStr skip_reason)]) s in
      case gh_marshal h (GMap (map_literal [(''status'', GStr ''skipped''), (''reason'', GStr skip_reason)])) of
        None \<Rightarrow> fail_job h j (Within ''skipped'' MarshalResult) s1
      | Some result \<Rightarrow>
         (case route_skipped_step_successors h c j s1 of
            (s2, Inl e) \<Rightarrow> fail_job h j (Within ''failed to route successors after skip'' e) s2
          | (s2, Inr _) \<Rightarrow> complete_job h j StatusSkipped result (Some skip_reason) None s2))"

section \<open>The core switch\<close>

definition core_job :: "string \<Rightarrow> job \<Rightarrow> bool" where
  "core_job name j \<longleftrightarrow> trim_space (j_plugin j) = name \<and> trim_space (j_command j) = ''handle''"

definition is_core_switch_job :: "job \<Rightarrow> bool" where "is_core_switch_job = core_job ''core.switch''"
definition is_core_relay_job :: "job \<Rightarrow> bool" where "is_core_relay_job = core_job ''core.relay''"

definition node_of_context :: "pipelines \<Rightarrow> gmap \<Rightarrow> node option" where
  "node_of_context ps rc = get_node ps (str_at rc ''ductile_pipeline'') (str_at rc ''ductile_step_id'')"

definition switch_condition :: "pipelines \<Rightarrow> gmap \<Rightarrow> condition option" where
  "switch_condition ps rc =
     (case node_of_context ps rc of None \<Rightarrow> None | Some nd \<Rightarrow> if nd_kind nd = NodeKindSwitch then nd_condition nd else None)"

definition finish_core_step ::
  "disp_host \<Rightarrow> job \<Rightarrow> string \<Rightarrow> (string \<times> gval) list \<Rightarrow> disp_state \<times> (disp_error + unit) \<Rightarrow> disp_state" where
  "finish_core_step h j routing result r =
     (case r of
        (s1, Inl e) \<Rightarrow> fail_job h j (Within routing e) s1
      | (s1, Inr _) \<Rightarrow>
         (case gh_marshal h (GMap (map_literal result)) of
            None \<Rightarrow> fail_job h j MarshalResult s1
          | Some text \<Rightarrow> complete_job h j StatusSucceeded text None None s1))"

definition execute_core_switch :: "disp_host \<Rightarrow> disp_conf \<Rightarrow> job \<Rightarrow> gmap \<Rightarrow> disp_state \<Rightarrow> disp_state" where
  "execute_core_switch h c j rc s =
     (case gc_router c of
        None \<Rightarrow> fail_job h j SwitchNoRouter s
      | Some ps \<Rightarrow>
         (case switch_condition ps rc of
            None \<Rightarrow> fail_job h j (SwitchNode (str_at rc ''ductile_pipeline'') (str_at rc ''ductile_step_id'')) s
          | Some cond \<Rightarrow>
             (case eval (gh_regex h)
                     \<lparr>s_payload = event_payload_for_condition h (payload_of j), s_context = rc, s_config = []\<rparr> cond of
                Inl e \<Rightarrow> fail_job h j (Within ''core.switch evaluate condition'' (StepCondition e)) s
              | Inr matched \<Rightarrow>
                 (case event_from_job_payload h (payload_of j) of
                    Inl e \<Rightarrow> fail_job h j (Within ''core.switch parse event'' e) s
                  | Inr ev0 \<Rightarrow>
                     let ty = (if matched then ''ductile.switch.true'' else ''ductile.switch.false'')
                     in finish_core_step h j ''core.switch route events'' [(''matched'', GBool matched), (''event'', GStr ty)]
                          (route_events h c j [ev0\<lparr>ev_type := ty\<rparr>] s)))))"

section \<open>The core relay\<close>

definition eval_relay_expression :: "disp_host \<Rightarrow> string \<Rightarrow> scope \<Rightarrow> disp_error + gval" where
  "eval_relay_expression h expr sc =
     (let t = trim_space expr in
      if t = [] then Inl RelayExpressionEmpty
      else if CHR ''{'' \<in> set t \<or> CHR ''}'' \<in> set t
      then (case eval_with_template (dh_fmt h) sc t of Inl e \<Rightarrow> Inl (RelayExpression e) | Inr v \<Rightarrow> Inr v)
      else (case resolve_with_path sc t of Inl e \<Rightarrow> Inl (RelayExpression e) | Inr v \<Rightarrow> Inr v))"

fun relay_with ::
  "disp_host \<Rightarrow> (string \<times> string) list \<Rightarrow> scope \<Rightarrow> string list \<Rightarrow> gmap \<Rightarrow> disp_error + gmap" where
  "relay_with h wth sc [] out = Inr out"
| "relay_with h wth sc (k # ks) out =
     (case eval_relay_expression h (case map_get wth k of Some e \<Rightarrow> e | None \<Rightarrow> []) sc of
        Inl e \<Rightarrow> Inl (Within (''relay.with.'' @ k) e)
      | Inr v \<Rightarrow> relay_with h wth sc ks (map_put k v out))"

definition relay_key :: "disp_host \<Rightarrow> relay_spec \<Rightarrow> event \<Rightarrow> scope \<Rightarrow> disp_error + string" where
  "relay_key h spec ev sc =
     (let expr = trim_space (rl_dedupe_key spec) in
      if expr = [] then Inr (trim_space (ev_dedupe_key ev))
      else case eval_relay_expression h expr sc of
        Inl e \<Rightarrow> Inl (Within ''relay.dedupe_key'' e)
      | Inr v \<Rightarrow> Inr (if v = GNil then [] else dh_fmt h v))"

definition relay_envelope_from_node ::
  "disp_host \<Rightarrow> disp_conf \<Rightarrow> relay_spec \<Rightarrow> event \<Rightarrow> gmap \<Rightarrow> job \<Rightarrow> disp_error + envelope" where
  "relay_envelope_from_node h c spec ev rc j =
     (let sc = \<lparr>s_payload = ev_payload ev, s_context = rc, s_config = []\<rparr> in
      bind_result (if rl_with spec = [] then Inr (ev_payload ev)
                   else relay_with h (rl_with spec) sc (sort (map fst (rl_with spec))) []) (\<lambda>payload.
      bind_result (relay_key h spec ev sc) (\<lambda>key.
        case apply_claims (ev_payload ev) (rl_baggage spec) rc of
          Inl e \<Rightarrow> Inl (RelayBaggage e)
        | Inr claims \<Rightarrow>
           Inr \<lparr>en_event = \<lparr>ee_type = trim_space (rl_event spec), ee_payload = payload, ee_dedupe_key = key\<rparr>,
                en_origin = \<lparr>eo_instance = trim_space (dc_service_name c), eo_plugin = j_plugin j, eo_job_id = j_id j,
                             eo_event_id = ev_event_id ev\<rparr>,
                en_baggage = claims\<rparr>)))"

definition relay_step_spec :: "pipelines \<Rightarrow> gmap \<Rightarrow> relay_spec option" where
  "relay_step_spec ps rc =
     (case node_of_context ps rc of None \<Rightarrow> None | Some nd \<Rightarrow> if nd_kind nd = NodeKindRelay then nd_relay nd else None)"

text \<open>Building the envelope, the sender of the configured instances, and the delivery.\<close>

definition relay_event ::
  "disp_host \<Rightarrow> disp_conf \<Rightarrow> relay_spec \<Rightarrow> gmap \<Rightarrow> job \<Rightarrow> disp_error + envelope \<times> acceptance_response" where
  "relay_event h c spec rc j =
     (case event_from_job_payload h (payload_of j) of
        Inl e \<Rightarrow> Inl (Within ''core.relay parse event'' e)
      | Inr ev \<Rightarrow>
         (case relay_envelope_from_node h c spec ev rc j of
            Inl e \<Rightarrow> Inl (Within ''core.relay build envelope'' e)
          | Inr env \<Rightarrow>
             (case new_sender (dc_service_name c) (dc_tokens c) (dc_relay_instances c) of
                Inl e \<Rightarrow> Inl (RelayConfigureSender e)
              | Inr sd \<Rightarrow>
                 (case send (dh_mac h) (dh_encode_envelope h) (dh_url_path h) (dh_deliver h) sd (gh_now h) (rl_to spec) env of
                    Inl e \<Rightarrow> Inl (RelaySend e)
                  | Inr a \<Rightarrow> Inr (env, a)))))"

definition relayed_payload :: "relay_spec \<Rightarrow> envelope \<Rightarrow> acceptance_response \<Rightarrow> (string \<times> gval) list" where
  "relayed_payload spec env a =
     [(''relay_to'', GStr (trim_space (rl_to spec))), (''relay_event_type'', GStr (ee_type (en_event env))),
      (''relay_receiver_event_id'', GStr (ap_receiver_event_id a)), (''relay_receiver_peer'', GStr (ap_peer a)),
      (''relay_receiver_job_id'', GStr (ap_job_id a)), (''relay_acceptance_status'', GStr (ap_status a)),
      (''relay_acceptance_event_id'', GStr (ap_receiver_event_id a))]"

definition acceptance_value :: "acceptance_response \<Rightarrow> gval" where
  "acceptance_value a =
     GMap ([(''status'', GStr (ap_status a)), (''peer'', GStr (ap_peer a)), (''event_type'', GStr (ap_event_type a)),
            (''receiver_event_id'', GStr (ap_receiver_event_id a))] @
           (if ap_job_id a = [] then [] else [(''job_id'', GStr (ap_job_id a))]))"

definition execute_core_relay :: "disp_host \<Rightarrow> disp_conf \<Rightarrow> job \<Rightarrow> gmap \<Rightarrow> disp_state \<Rightarrow> disp_state" where
  "execute_core_relay h c j rc s =
     (case gc_router c of
        None \<Rightarrow> fail_job h j RelayNoRouter s
      | Some ps \<Rightarrow>
         (case relay_step_spec ps rc of
            None \<Rightarrow> fail_job h j (RelayNode (str_at rc ''ductile_pipeline'') (str_at rc ''ductile_step_id'')) s
          | Some spec \<Rightarrow>
             (case relay_event h c spec rc j of
                Inl e \<Rightarrow> fail_job h j e s
              | Inr (env, a) \<Rightarrow>
                 finish_core_step h j ''core.relay route successors''
                   [(''status'', GStr ''relayed''), (''to'', GStr (trim_space (rl_to spec))),
                    (''event'', GStr (ee_type (en_event env))), (''accepted'', acceptance_value a)]
                   (route_events h c j [plain_event ''ductile.step.succeeded'' (map_literal (relayed_payload spec env a))] s))))"

section \<open>The request\<close>

definition supports_command :: "plugin_def \<Rightarrow> string \<Rightarrow> bool" where
  "supports_command pd cmd \<longleftrightarrow> cmd \<in> set (pd_commands pd)"

definition state_map_of :: "raw_json \<Rightarrow> gmap option" where
  "state_map_of r = (case r of RawJSON (GMap m) \<Rightarrow> Some m | RawJSON GNil \<Rightarrow> Some [] | _ \<Rightarrow> None)"

text \<open>The payload of the event a \<^verbatim>\<open>handle\<close> command gets: a raw body is promoted, and the context fills in the keys
  the event does not have.\<close>

definition merged_payload :: "disp_host \<Rightarrow> string \<Rightarrow> wire_event \<Rightarrow> gmap \<Rightarrow> gmap" where
  "merged_payload h raw w rc =
     (let p = (case we_payload w of Some m \<Rightarrow> m | None \<Rightarrow> if we_type w = [] then object_or_empty (dh_object h raw) else [])
      in fold (\<lambda>(k, v). put_absent k v) rc p)"

definition remap_for_step :: "disp_host \<Rightarrow> disp_conf \<Rightarrow> gmap \<Rightarrow> gmap \<Rightarrow> disp_error + gmap" where
  "remap_for_step h c rc payload =
     (case gc_router c of
        None \<Rightarrow> Inr payload
      | Some ps \<Rightarrow>
         (case node_of_context ps rc of
            None \<Rightarrow> Inr payload
          | Some nd \<Rightarrow>
             if nd_with nd = [] then Inr payload
             else (case apply_with_remap (dh_fmt h) payload (nd_with nd) rc of
                     Inl e \<Rightarrow> Inl (WithRemap (str_at rc ''ductile_pipeline'') (str_at rc ''ductile_step_id'') e)
                   | Inr m \<Rightarrow> Inr m)))"

definition handle_event :: "disp_host \<Rightarrow> disp_conf \<Rightarrow> job \<Rightarrow> gmap \<Rightarrow> disp_error + event option" where
  "handle_event h c j rc =
     (if j_command j \<noteq> ''handle'' \<or> payload_of j = [] then Inr None
      else case dh_event h (payload_of j) of
        None \<Rightarrow> Inl EventPayload
      | Some w \<Rightarrow>
         bind_result (remap_for_step h c rc (merged_payload h (payload_of j) w rc))
           (\<lambda>m. Inr (Some ((event_of_wire w)\<lparr>ev_payload := m\<rparr>))))"

definition vault_principal_of :: "disp_conf \<Rightarrow> string \<Rightarrow> string" where
  "vault_principal_of c p = (let vp = pc_vault_principal (plugin_conf_of c p) in if vp = [] then p else vp)"

text \<open>A refused composition is recorded, and a fingerprint mismatch is published as well.\<close>

definition escalate_composition :: "disp_host \<Rightarrow> job \<Rightarrow> delivery_error \<Rightarrow> disp_state \<Rightarrow> disp_state" where
  "escalate_composition h j e s =
     (case compose_failure_escalation e of (op, outcome, security) \<Rightarrow>
        let detail = dh_text h (SecretComposition e);
            s1 = (if security then publish_event h ''plugin.fingerprint_mismatch''
                    [(''plugin'', GStr (j_plugin j)), (''job_id'', GStr (j_id j)), (''detail'', GStr detail)] s else s)
        in if dh_audit_ok h then append_vault_audit (gh_now h)
             \<lparr>va_op = op, va_principal = j_plugin j, va_secret_name = [], va_actor = ''core'', va_outcome = outcome, va_detail = detail\<rparr> s1
           else s1)"

definition compose_for_job :: "disp_host \<Rightarrow> disp_conf \<Rightarrow> job \<Rightarrow> disp_state \<Rightarrow> disp_state \<times> (disp_error + (string \<times> string) list)" where
  "compose_for_job h c j s =
     (case compose_plugin_secrets (dc_composer c) (dc_verifier c) (j_plugin j) (vault_principal_of c (j_plugin j))
             (pc_requires_vault (plugin_conf_of c (j_plugin j))) of
        Inl e \<Rightarrow> (escalate_composition h j e s, Inl (Within ''secret composition failed'' (SecretComposition e)))
      | Inr secrets \<Rightarrow> (s, Inr secrets))"

definition load_plugin_state :: "job \<Rightarrow> disp_state \<Rightarrow> disp_error + gmap" where
  "load_plugin_state j s =
     (case store_get (j_plugin j) (ds_store s) of
        Inl e \<Rightarrow> Inl (PluginState e)
      | Inr r \<Rightarrow> (case state_map_of r of None \<Rightarrow> Inl PluginStateShape | Some m \<Rightarrow> Inr m))"

definition build_request ::
  "disp_host \<Rightarrow> disp_conf \<Rightarrow> job \<Rightarrow> gmap \<Rightarrow> duration \<Rightarrow> disp_state \<Rightarrow> disp_state \<times> (disp_error + plugin_request)" where
  "build_request h c j rc timeout s =
     bind_step (s, load_plugin_state j s) (\<lambda>st s.
     bind_step (compose_for_job h c j s) (\<lambda>secrets s1.
     bind_step (s1, handle_event h c j rc) (\<lambda>ev s1.
       (s1, Inr \<lparr>pq_job_id = j_id j, pq_command = j_command j, pq_config = pc_config (plugin_conf_of c (j_plugin j)),
                 pq_secrets = secrets, pq_state = st,
                 pq_payload = (if payload_of j = [] then [] else object_or_empty (dh_object h (payload_of j))),
                 pq_context = rc, pq_event = ev, pq_deadline_at = gh_now h + timeout\<rparr>))))"

section \<open>The spawn\<close>

definition run_as_of :: "disp_conf \<Rightarrow> string \<Rightarrow> string" where
  "run_as_of c p = pc_run_as (plugin_conf_of c p)"

definition account_for :: "disp_conf \<Rightarrow> string \<Rightarrow> spawn_error + resolved_account" where
  "account_for c p =
     (if \<not> dc_enforce c then Inr zero_account
      else bind_result (resolve_account (dc_accounts c) (run_as_of c) p)
             (\<lambda>granted. bind_account_to_fingerprint granted (dc_accounts c) p (dc_verifier c)))"

definition process_started :: "resolved_account \<Rightarrow> process_outcome \<Rightarrow> bool" where
  "process_started r po \<longleftrightarrow>
     (case apply_account_credential r of Inl _ \<Rightarrow> False
      | Inr _ \<Rightarrow> po_pipe_ok po \<and> start_loop max_start_attempts 1 r (po_starts po) = None)"

text \<open>What the spawn announces: a downgraded account, a refused drop, a started process.\<close>

definition publish_spawn :: "disp_host \<Rightarrow> disp_conf \<Rightarrow> job \<Rightarrow> plugin_request \<Rightarrow> spawn_result \<Rightarrow> disp_state \<Rightarrow> disp_state" where
  "publish_spawn h c j req x s =
     (case account_for c (j_plugin j) of
        Inl _ \<Rightarrow> s
      | Inr r \<Rightarrow>
         let s1 = (if ra_source r = AccountDowngraded then
                     publish_event h ''plugin.account_downgraded''
                       [(''plugin'', GStr (j_plugin j)),
                        (''from'', GStr (case resolve_account (dc_accounts c) (run_as_of c) (j_plugin j) of Inr g \<Rightarrow> ra_name g | Inl _ \<Rightarrow> [])),
                        (''to'', GStr (ra_name r))] s
                   else s)
         in if xr_err x = Some AccountDropFailed then
              publish_event h ''plugin.drop_failed''
                [(''job_id'', GStr (pq_job_id req)), (''plugin'', GStr (j_plugin j)), (''account'', GStr (ra_name r)),
                 (''uid'', GInt (ra_uid r)), (''gid'', GInt (ra_gid r)), (''error'', GStr (dh_text h (SpawnFailed AccountDropFailed)))] s1
            else if process_started r (dh_process h req r) then
              publish_event h ''plugin.spawned''
                [(''job_id'', GStr (pq_job_id req)), (''plugin'', GStr (j_plugin j)), (''command'', GStr (pq_command req)),
                 (''pid'', GInt (dh_pid h))] s1
            else s1)"

definition spawn_status :: "spawn_result \<Rightarrow> string" where
  "spawn_status x =
     (case xr_err x of
        Some e \<Rightarrow> if e = DeadlineExceeded then ''timeout'' else ''error''
      | None \<Rightarrow> (case xr_resp x of None \<Rightarrow> ''error'' | Some r \<Rightarrow> if rs_status r = ''error'' then ''error'' else ''ok''))"

definition manifest_max_subs :: "disp_conf \<Rightarrow> string \<Rightarrow> int" where
  "manifest_max_subs c p = (case map_of (dc_registry c) p of None \<Rightarrow> 0 | Some pd \<Rightarrow> pd_max_subs pd)"

definition record_timing :: "disp_host \<Rightarrow> disp_conf \<Rightarrow> job \<Rightarrow> gmap \<Rightarrow> spawn_result \<Rightarrow> disp_state \<Rightarrow> disp_state" where
  "record_timing h c j rc x s =
     (let sw = mark_spawn (gh_now h) (Some (new_stopwatch (j_plugin j) (str_at rc ''ductile_step_id'') (j_attempt j) (gh_now h)));
          subs = (case xr_resp x of None \<Rightarrow> []
                  | Some r \<Rightarrow> subs_from_response (dh_subs_len h) (GList (map GMap (rs_subs r))) (manifest_max_subs c (j_plugin j)));
          rec = finish (dh_subs_len h) sw (gh_now h) (spawn_status x) 0 subs
      in s\<lparr>ds_timings := fst (record_stopwatch (gh_now h) (j_id j) rec (str_at rc ''ductile_pipeline'')
                                (str_at rc ''ductile_pipeline_instance_id'') (ds_timings s))\<rparr>)"

section \<open>The outcome\<close>

definition fact_output_rules_for_command :: "plugin_def \<Rightarrow> string \<Rightarrow> fact_rule list" where
  "fact_output_rules_for_command pd cmd = filter (\<lambda>r. fo_command r = cmd) (pd_fact_outputs pd)"

definition build_plugin_fact :: "disp_host \<Rightarrow> job \<Rightarrow> raw_json \<Rightarrow> string \<Rightarrow> nat \<Rightarrow> plugin_fact" where
  "build_plugin_fact h j updates ty n =
     \<lparr>pf_id = gh_uuid h n, pf_seq = None, pf_plugin = j_plugin j, pf_type = ty, pf_job_id = j_id j,
      pf_command = j_command j, pf_json = updates, pf_created_at = gh_now h\<rparr>"

definition plugin_facts_from_state_updates ::
  "disp_host \<Rightarrow> disp_conf \<Rightarrow> job \<Rightarrow> raw_json \<Rightarrow> disp_state \<Rightarrow> disp_state \<times> (plugin_fact \<times> string) list" where
  "plugin_facts_from_state_updates h c j updates s =
     (case map_of (dc_registry c) (j_plugin j) of
        None \<Rightarrow> (s, [])
      | Some pd \<Rightarrow>
         let rules = filter (\<lambda>r. fo_from r = ''state_updates'') (fact_output_rules_for_command pd (j_command j));
             facts = map (\<lambda>(i, r). (build_plugin_fact h j updates (fo_type r) (gw_drawn s + i), fo_view r)) (enumerate 0 rules)
         in (s\<lparr>gw_drawn := gw_drawn s + length rules\<rparr>, facts))"

fun record_facts ::
  "disp_host \<Rightarrow> disp_conf \<Rightarrow> (plugin_fact \<times> string) list \<Rightarrow> disp_state \<Rightarrow> disp_state \<times> (disp_error + unit)" where
  "record_facts h c [] s = (s, Inr ())"
| "record_facts h c ((pf, view) # rest) s =
     (case record_fact (gh_json_len h) (dc_max_state_bytes c) pf view (ds_store s) of
        (st, Inl e) \<Rightarrow> (s\<lparr>ds_store := st\<rparr>, Inl (RecordFact e))
      | (st, Inr _) \<Rightarrow> record_facts h c rest (s\<lparr>ds_store := st\<rparr>))"

definition apply_state_updates :: "disp_host \<Rightarrow> disp_conf \<Rightarrow> job \<Rightarrow> gmap \<Rightarrow> disp_state \<Rightarrow> disp_state \<times> (disp_error + unit)" where
  "apply_state_updates h c j upd s =
     (if upd = [] then (s, Inr ())
      else if gh_marshal h (GMap upd) = None then (s, Inl MarshalUpdates)
      else let raw = RawJSON (json_clone (GMap upd)) in
        case plugin_facts_from_state_updates h c j raw s of
          (s1, []) \<Rightarrow>
            (case shallow_merge (gh_json_len h) (dc_max_state_bytes c) (gh_now h) (j_plugin j) raw (ds_store s1) of
               (st, Inl e) \<Rightarrow> (s1\<lparr>ds_store := st\<rparr>, Inl (StateUpdate e))
             | (st, Inr _) \<Rightarrow> (s1\<lparr>ds_store := st\<rparr>, Inr ()))
        | (s1, facts) \<Rightarrow> record_facts h c facts s1)"

definition with_result :: "string \<Rightarrow> event \<Rightarrow> event" where
  "with_result result ev =
     (if trim_space result = [] then ev else ev\<lparr>ev_payload := put_absent ''result'' (GStr result) (ev_payload ev)\<rparr>)"

definition route_response :: "disp_host \<Rightarrow> disp_conf \<Rightarrow> job \<Rightarrow> response \<Rightarrow> disp_state \<Rightarrow> disp_state \<times> (disp_error + unit)" where
  "route_response h c j r s =
     (if rs_events r \<noteq> [] then
        (case route_events h c j (map (with_result (rs_result r)) (rs_events r)) s of
           (s1, Inl e) \<Rightarrow> (s1, Inl (Within ''failed to route events'' e)) | ok \<Rightarrow> ok)
      else if j_event_context_id j \<noteq> None then
        (case route_events h c j [plain_event ''ductile.step.succeeded'' [(''result'', GStr (rs_result r))]] s of
           (s1, Inl e) \<Rightarrow> (s1, Inl (Within ''failed to route step-succeeded event'' e)) | ok \<Rightarrow> ok)
      else (s, Inr ()))"

definition settle_success :: "disp_host \<Rightarrow> disp_conf \<Rightarrow> job \<Rightarrow> response \<Rightarrow> string \<Rightarrow> string \<Rightarrow> disp_state \<Rightarrow> disp_state" where
  "settle_success h c j r raw stderr s =
     (case bind_step (apply_state_updates h c j (rs_state_updates r) s) (\<lambda>_ s1. route_response h c j r s1) of
        (s1, Inl e) \<Rightarrow> complete_job h j StatusFailed raw (Some (dh_text h e)) (Some stderr) s1
      | (s1, Inr _) \<Rightarrow>
         complete_job h j StatusSucceeded raw None (Some stderr)
           (maybe_fire_hooks h c j (hook_signal_for_status StatusSucceeded)
              (map_literal (job_fields j @ [(''status'', GStr ''succeeded''), (''result'', GStr (rs_result r))])) s1))"

definition settle :: "disp_host \<Rightarrow> disp_conf \<Rightarrow> job \<Rightarrow> duration \<Rightarrow> spawn_result \<Rightarrow> disp_state \<Rightarrow> disp_state" where
  "settle h c j timeout x s =
     (let pc = plugin_conf_of c (j_plugin j); raw = deref (xr_raw x);
          decide = (\<lambda>st rt reason. decide_retry_policy st rt (xr_exit_code x) j pc reason)
      in case xr_err x of
        Some e \<Rightarrow>
          if e = DeadlineExceeded then
            fail_or_retry h c j StatusTimedOut [] (dh_text h (PluginTimedOut timeout)) (xr_stderr x) (decide None None ''timeout'') s
          else if e = AccountDropFailed \<or> e = NoDowngradeTarget (j_plugin j) then
            fail_or_retry h c j StatusFailed raw (dh_text h (DropRefused e)) (xr_stderr x)
              \<lparr>rd_retryable = False, rd_reason = ''account_drop_failed'', rd_exhausted = False\<rparr> s
          else
            fail_or_retry h c j StatusFailed raw (dh_text h (SpawnFailed e)) (xr_stderr x)
              (decide (map_option rs_status (xr_resp x)) (xr_retry x) ''spawn_error'') s
      | None \<Rightarrow>
         (case xr_resp x of
            None \<Rightarrow> fail_or_retry h c j StatusFailed raw (dh_text h NilResponse) (xr_stderr x) (decide None None ''nil_response'') s
          | Some r \<Rightarrow>
             if rs_status r = ''error'' then
               fail_or_retry h c j StatusFailed raw (rs_error r) (xr_stderr x)
                 (decide (Some (rs_status r)) (xr_retry x) ''plugin_error'') s
             else settle_success h c j r raw (xr_stderr x) s))"

definition run_plugin :: "disp_host \<Rightarrow> disp_conf \<Rightarrow> job \<Rightarrow> gmap \<Rightarrow> disp_state \<Rightarrow> disp_state" where
  "run_plugin h c j rc s =
     (case map_of (dc_registry c) (j_plugin j) of
        None \<Rightarrow> fail_job h j (PluginNotFound (j_plugin j)) s
      | Some pd \<Rightarrow>
         if \<not> supports_command pd (j_command j) then fail_job h j (CommandUnsupported (j_plugin j) (j_command j)) s
         else
           let timeout = resolved_timeout (plugin_conf_of c (j_plugin j)) (j_command j) in
           (case build_request h c j rc timeout s of
              (s1, Inl e) \<Rightarrow> fail_job h j e s1
            | (s1, Inr req) \<Rightarrow>
               let x = spawn_plugin (dc_enforce c) (dc_accounts c) (run_as_of c) (dc_verifier c) (dh_codec h) (j_plugin j) (dh_process h req)
               in settle h c j timeout x (record_timing h c j rc x (publish_spawn h c j req x s1))))"

section \<open>The whole job\<close>

definition publish_started :: "disp_host \<Rightarrow> job \<Rightarrow> disp_state \<Rightarrow> disp_state" where
  "publish_started h j s =
     publish_event h ''job.started''
       (job_fields j @ [(''attempt'', GInt (j_attempt j)), (''parent_job_id'', GStr (deref (j_parent_job_id j))),
                        (''submitted_by'', GStr (j_submitted_by j))]) s"

definition publish_preflight :: "disp_host \<Rightarrow> job \<Rightarrow> string \<Rightarrow> string \<Rightarrow> disp_state \<Rightarrow> disp_state" where
  "publish_preflight h j decision reason s =
     publish_event h ''job.preflight'' (job_fields j @ [(''decision'', GStr decision), (''reason'', GStr reason)]) s"

definition execute_job :: "disp_host \<Rightarrow> disp_conf \<Rightarrow> job \<Rightarrow> disp_state \<Rightarrow> disp_state" where
  "execute_job h c j s =
     (let s1 = publish_started h j (publish_poll_started h c j s) in
      case preflight_job h c j s1 of
        Inl e \<Rightarrow>
          let err = Within ''job preflight failed'' e in fail_job h j err (publish_preflight h j ''fail'' (dh_text h err) s1)
      | Inr (skip, rc) \<Rightarrow>
         if skip then skip_job h c j (publish_preflight h j ''skip'' skip_reason s1)
         else let s2 = publish_preflight h j ''run'' [] s1 in
           if is_core_switch_job j then execute_core_switch h c j rc s2
           else if is_core_relay_job j then execute_core_relay h c j rc s2
           else run_plugin h c j rc s2)"

end
