(* ===== verification/Dispatcher_Properties.thy ===== *)
theory Dispatcher_Properties
  imports Job_Execution Router_Properties
begin

text \<open>
  What the dispatcher guarantees of a job it runs: the queue is changed by enqueues of children of that job and
  by at most one final update of its row (\<open>settled\<close>), whatever the plugin does. The frame lemmas say which operations leave
  the queue alone; the routing lemmas say what a routed job looks like.
\<close>

section \<open>Frames\<close>

lemma publish_event_queue [simp]: "gw_queue (publish_event h ty data s) = gw_queue s"
  by (simp add: publish_event_def)

lemma append_vault_audit_queue [simp]: "gw_queue (append_vault_audit now ev s) = gw_queue s"
  by (simp add: append_vault_audit_def)

lemma publish_poll_started_queue [simp]: "gw_queue (publish_poll_started h c j s) = gw_queue s"
  by (simp add: publish_poll_started_def Let_def)

lemma publish_poll_completed_queue [simp]: "gw_queue (publish_poll_completed h jid st data s) = gw_queue s"
  by (simp add: publish_poll_completed_def split: option.splits)

lemma notify_completion_queue [simp]: "gw_queue (notify_completion s) = gw_queue s"
  by (simp add: notify_completion_def)

lemma complete_job_queue:
  "gw_queue (complete_job h j st result err stderr s) =
   (if dh_complete_ok h then fst (complete_with_result (gh_now h) (j_id j) st result err stderr (gw_queue s)) else gw_queue s)"
  by (simp add: complete_job_def Let_def)

lemma job_start_queue [simp]:
  "gw_queue (publish_started h j s) = gw_queue s" "gw_queue (publish_preflight h j d r s) = gw_queue s"
  by (simp_all add: publish_started_def publish_preflight_def)

lemma run_frames [simp]:
  "gw_queue (publish_spawn h c j req x s) = gw_queue s" "gw_queue (record_timing h c j rc x s) = gw_queue s"
  by (simp_all add: publish_spawn_def record_timing_def Let_def split: sum.splits)

lemma compose_for_job_frame: "compose_for_job h c j s = (s1, r) \<Longrightarrow> gw_queue s1 = gw_queue s"
  by (auto simp: compose_for_job_def escalate_composition_def Let_def split: sum.splits prod.splits)

lemma build_request_frame: "build_request h c j rc t s = (s1, r) \<Longrightarrow> gw_queue s1 = gw_queue s"
  by (auto simp: build_request_def bind_step_def dest: compose_for_job_frame split: sum.splits prod.splits)

lemma record_facts_frame: "record_facts h c facts s = (s1, r) \<Longrightarrow> gw_queue s1 = gw_queue s"
  by (induction facts arbitrary: s) (auto split: prod.splits sum.splits)

lemma plugin_facts_frame: "plugin_facts_from_state_updates h c j raw s = (s1, facts) \<Longrightarrow> gw_queue s1 = gw_queue s"
  by (auto simp: plugin_facts_from_state_updates_def Let_def split: option.splits)

lemma apply_state_updates_frame: "apply_state_updates h c j upd s = (s1, r) \<Longrightarrow> gw_queue s1 = gw_queue s"
  by (auto simp: apply_state_updates_def Let_def dest!: plugin_facts_frame record_facts_frame
      split: if_splits prod.splits sum.splits list.splits)

lemma root_context_frame: "ensure_pipeline_instance_root_context h c cache d s = (s1, r) \<Longrightarrow> gw_queue s1 = gw_queue s"
  by (auto simp: ensure_pipeline_instance_root_context_def dest: gw_create_context_frame split: option.splits sum.splits prod.splits)

lemma parent_context_frame: "parent_context_id_for_dispatch h c cache d s = (s1, r) \<Longrightarrow> gw_queue s1 = gw_queue s"
  by (auto simp: parent_context_id_for_dispatch_def bind_step_def Let_def dest: root_context_frame
      split: option.splits sum.splits prod.splits if_splits)

lemma create_routed_context_frame: "create_routed_context h c am cache d s = (s1, r) \<Longrightarrow> gw_queue s1 = gw_queue s"
  by (auto simp: create_routed_context_def bind_step_def dest!: parent_context_frame gw_create_context_frame
      split: sum.splits prod.splits if_splits)

section \<open>Children\<close>

definition child_request :: "job \<Rightarrow> enqueue_request \<Rightarrow> bool" where
  "child_request j req \<longleftrightarrow>
     rq_parent_job_id req = Some (j_id j) \<and> (rq_submitted_by req = ''route'' \<or> rq_submitted_by req = ''hook'')"

abbreviation child_run :: "job \<Rightarrow> queue_db \<Rightarrow> queue_db \<Rightarrow> bool" where
  "child_run j \<equiv> enqueue_run (child_request j)"

lemma resolve_parent:
  "resolve_compiled_route f ps req hk r = Inr ds \<Longrightarrow> d \<in> set ds \<Longrightarrow> dp_parent_job_id d = rr_source_job_id req"
  "resolve_routes f ps req hk rs = Inr ds \<Longrightarrow> d \<in> set ds \<Longrightarrow> dp_parent_job_id d = rr_source_job_id req"
  by (induction f ps req hk r and f ps req hk rs arbitrary: ds and ds
      rule: resolve_compiled_route_resolve_routes.induct)
    (auto simp: uses_dispatch_def Let_def split: sum.splits if_splits destination.splits)

lemma next_triggers_parent:
  "next_triggers rx new_id ps req rs = Inr ds \<Longrightarrow> d \<in> set ds \<Longrightarrow> dp_parent_job_id d = rr_source_job_id req"
  by (induction rs arbitrary: ds) (auto split: if_splits sum.splits dest!: resolve_parent(1))

lemma route_next_parent:
  assumes "route_next rx new_id ps req = Inr ds" and "d \<in> set ds"
  shows "dp_parent_job_id d = rr_source_job_id req"
proof -
  from assms obtain ds1 ds2 where ds: "next_transitions ps req = Inr ds1"
      "next_triggers rx new_id ps req (trigger_index ps (trim_space (ev_type (rr_event req)))) = Inr ds2"
      and "ds = dedupe_dispatches (ds1 @ ds2)"
    by (auto simp: route_next_def Let_def bind_result_Inr_iff split: if_splits)
  then have "d \<in> set ds1 \<or> d \<in> set ds2" using assms(2) set_dedupe_from [of "[]" "ds1 @ ds2"] by (auto simp: dedupe_dispatches_def)
  then show ?thesis
    using ds next_triggers_parent by (auto simp: next_transitions_def dest: resolve_parent(2) split: if_splits)
qed

lemma enqueue_routed_run:
  assumes "enqueue_routed h c j d payload ctx s = (s1, r)" and "dp_parent_job_id d = j_id j" "trim_space (j_id j) \<noteq> []"
  shows "child_run j (gw_queue s) (gw_queue s1)"
proof -
  have "child_request j (routed_request c d payload ctx)"
    using assms(2,3) by (simp add: child_request_def routed_request_def str_ptr_or_nil_def)
  then show ?thesis
    using assms(1) enqueue_run_gw_enqueue [where P = "child_request j" and h = h and c = c and s = s]
    by (fastforce simp: enqueue_routed_def split: prod.splits sum.splits if_splits)
qed

lemma route_dispatch_run:
  assumes "route_dispatch h c am j sc cache d s = (s1, r)" and "dp_parent_job_id d = j_id j" "trim_space (j_id j) \<noteq> []"
  shows "child_run j (gw_queue s) (gw_queue s1)"
  using assms
  by (auto simp: route_dispatch_def bind_step_def Let_def dest!: create_routed_context_frame enqueue_routed_run
      intro: enqueue_run.run_refl split: if_splits option.splits prod.splits sum.splits)

lemma route_dispatches_run:
  "route_dispatches h c am j sc cache ds s = (s1, r) \<Longrightarrow> (\<And>d. d \<in> set ds \<Longrightarrow> dp_parent_job_id d = j_id j) \<Longrightarrow>
   trim_space (j_id j) \<noteq> [] \<Longrightarrow> child_run j (gw_queue s) (gw_queue s1)"
proof (induction ds arbitrary: cache s)
  case (Cons d ds)
  obtain s2 r2 where d: "route_dispatch h c am j sc cache d s = (s2, r2)" by fastforce
  then have run: "child_run j (gw_queue s) (gw_queue s2)" using route_dispatch_run Cons.prems by simp
  show ?case
  proof (cases r2)
    case (Inr cache1)
    then have "route_dispatches h c am j sc cache1 ds s2 = (s1, r)" using Cons.prems(1) d by simp
    then have "child_run j (gw_queue s2) (gw_queue s1)" using Cons by simp
    then show ?thesis using run by (rule enqueue_run_trans)
  qed (use Cons.prems d run in simp)
qed (simp add: enqueue_run.run_refl)

lemma route_event_list_run:
  "route_event_list h c ps am j sc cache es s = (s1, r) \<Longrightarrow> trim_space (j_id j) \<noteq> [] \<Longrightarrow>
   child_run j (gw_queue s) (gw_queue s1)"
proof (induction es arbitrary: cache s)
  case (Cons e es)
  obtain s2 ev where st: "stamp_event h j e s = (s2, ev)" by fastforce
  then have q: "gw_queue s2 = gw_queue s" by (auto simp: stamp_event_def Let_def split: if_splits)
  let ?s3 = "s2\<lparr>gw_drawn := Suc (gw_drawn s2)\<rparr>"
  show ?case
  proof (cases "route_next (gh_regex h) (gh_instance h (gw_drawn s2)) ps (route_request_of j sc ev)")
    case (Inl err)
    then show ?thesis using Cons.prems st q by (auto intro: enqueue_run.run_refl)
  next
    case (Inr ds)
    obtain s4 r4 where ds: "route_dispatches h c am j sc cache ds ?s3 = (s4, r4)" by fastforce
    have "dp_parent_job_id d = j_id j" if "d \<in> set ds" for d
      using route_next_parent [OF Inr that] by (simp add: route_request_of_def)
    then have run: "child_run j (gw_queue s) (gw_queue s4)" using route_dispatches_run [OF ds] Cons.prems(2) q by simp
    show ?thesis
    proof (cases r4)
      case (Inr cache1)
      then have "route_event_list h c ps am j sc cache1 es s4 = (s1, r)" using Cons.prems(1) st ds \<open>route_next _ _ _ _ = _\<close> by simp
      then have "child_run j (gw_queue s4) (gw_queue s1)" using Cons by simp
      then show ?thesis using run by (rule enqueue_run_trans)
    qed (use Cons.prems st ds Inr run in simp)
  qed
qed (simp add: enqueue_run.run_refl)

lemma route_events_run:
  "route_events_with_options h c am j es s = (s1, r) \<Longrightarrow> trim_space (j_id j) \<noteq> [] \<Longrightarrow> child_run j (gw_queue s) (gw_queue s1)"
  by (auto simp: route_events_with_options_def dest: route_event_list_run intro: enqueue_run.run_refl
      split: option.splits sum.splits)

definition hook_child :: "job \<Rightarrow> enqueue_request \<Rightarrow> bool" where
  "hook_child j req \<longleftrightarrow> rq_parent_job_id req = Some (j_id j) \<and> rq_submitted_by req = ''hook''"

lemma fold_enqueue_hook_run: "enqueue_run (hook_child j) (gw_queue s) (gw_queue (fold (enqueue_hook h c j) ds s))"
proof (induction ds arbitrary: s)
  case (Cons d ds)
  have "enqueue_run (hook_child j) (gw_queue s) (gw_queue (enqueue_hook h c j d s))"
    using enqueue_run_gw_enqueue [where P = "hook_child j" and h = h and c = c and s = s]
    by (auto simp: enqueue_hook_def hook_child_def hook_job_request_def intro: enqueue_run.run_refl split: option.splits)
  then show ?case using enqueue_run_trans [OF Cons] by simp
qed (simp add: enqueue_run.run_refl)

lemma fire_hooks_run: "enqueue_run (hook_child j) (gw_queue s) (gw_queue (maybe_fire_hooks h c j sig payload s))"
  using fold_enqueue_hook_run
  by (auto simp: maybe_fire_hooks_def intro: enqueue_run.run_refl split: option.splits)

lemma maybe_fire_hooks_run: "child_run j (gw_queue s) (gw_queue (maybe_fire_hooks h c j sig payload s))"
  by (rule enqueue_run_mono [OF fire_hooks_run]) (auto simp: hook_child_def child_request_def)

section \<open>Settling\<close>

text \<open>A job with at most \<open>m\<close> attempts (no limit when \<open>m\<close> is not positive) has settled: children were enqueued, and then its
  row was completed or put back for one more attempt, or its completion was not written and the row is as it was.\<close>

inductive settled :: "disp_host \<Rightarrow> job \<Rightarrow> int \<Rightarrow> queue_db \<Rightarrow> queue_db \<Rightarrow> bool" for h j m db where
  settled_done: "child_run j db db1 \<Longrightarrow> dh_complete_ok h \<Longrightarrow> terminal_status st \<Longrightarrow>
    settled h j m db (fst (complete_with_result now (j_id j) st result err stderr db1))"
| settled_unwritten: "child_run j db db1 \<Longrightarrow> \<not> dh_complete_ok h \<Longrightarrow> settled h j m db db1"
| settled_retry: "child_run j db db1 \<Longrightarrow> dh_requeue_ok h \<Longrightarrow> \<not> (m > 0 \<and> j_attempt j \<ge> m) \<Longrightarrow>
    settled h j m db (fst (update_job_for_recovery now (j_id j) StatusQueued (j_attempt j + 1) retry err db1))"

lemma complete_job_settled:
  "child_run j db (gw_queue s) \<Longrightarrow> terminal_status st \<Longrightarrow> settled h j m db (gw_queue (complete_job h j st result err stderr s))"
  by (simp add: complete_job_queue settled_done settled_unwritten)

lemma fail_job_settled: "child_run j db (gw_queue s) \<Longrightarrow> settled h j m db (gw_queue (fail_job h j e s))"
  by (simp add: fail_job_def complete_job_settled terminal_status_def)

lemma fail_or_retry_settled:
  assumes "child_run j db (gw_queue s)" "terminal_status st"
    and "rd_retryable rd \<Longrightarrow> \<not> rd_exhausted rd \<Longrightarrow> \<not> (m > 0 \<and> j_attempt j \<ge> m)"
  shows "settled h j m db (gw_queue (fail_or_retry h c j st result err stderr rd s))"
proof (cases "rd_retryable rd \<and> \<not> rd_exhausted rd")
  case True
  let ?t = "Some (gh_now h + compute_retry_delay (dh_ovf h) (dh_rand h) (plugin_conf_of c (j_plugin j)) (j_attempt j))"
  obtain db1 r where u: "update_job_for_recovery (gh_now h) (j_id j) StatusQueued (j_attempt j + 1) ?t err (gw_queue s) = (db1, r)"
    by fastforce
  then have "dh_requeue_ok h \<Longrightarrow> settled h j m db db1" using settled_retry [OF assms(1), of h m "gh_now h" ?t err] assms(3) True by simp
  then show ?thesis
    using True u assms(1,2) by (cases r) (simp_all add: fail_or_retry_def Let_def complete_job_settled)
next
  case False
  let ?s1 = "publish_event h ''job.retry_exhausted'' (retry_exhausted_data j err rd) s"
  have "child_run j db (gw_queue (maybe_fire_hooks h c j sig payload ?s1))" for sig payload
    using enqueue_run_trans [OF maybe_fire_hooks_run, of j db ?s1] assms(1) by simp
  then show ?thesis using assms(2) unfolding fail_or_retry_def if_not_P [OF False] Let_def by (rule complete_job_settled)
qed

lemma decided_retry:
  "rd_retryable (decide_retry_policy st rt x j pc reason) \<Longrightarrow> \<not> rd_exhausted (decide_retry_policy st rt x j pc reason) \<Longrightarrow>
   \<not> (effective_max_attempts j pc > 0 \<and> j_attempt j \<ge> effective_max_attempts j pc)"
  by (auto simp: decide_retry_policy_def Let_def split: if_splits)

lemma finish_core_step_settled:
  assumes "child_run j db (gw_queue (fst r))"
  shows "settled h j m db (gw_queue (finish_core_step h j routing result r))"
proof (cases r)
  case (Pair s1 x)
  then show ?thesis
    using assms by (cases x) (auto simp: finish_core_step_def terminal_status_def
        intro!: fail_job_settled complete_job_settled split: option.splits)
qed

lemma routed_run:
  assumes "child_run j db (gw_queue s)" "trim_space (j_id j) \<noteq> []" "route_events_with_options h c am j es s = (s1, r)"
  shows "child_run j db (gw_queue s1)"
  using enqueue_run_trans [OF route_events_run [OF assms(3,2)] assms(1)] .

lemma route_events_fst_run:
  "child_run j db (gw_queue s) \<Longrightarrow> trim_space (j_id j) \<noteq> [] \<Longrightarrow> child_run j db (gw_queue (fst (route_events h c j es s)))"
  using routed_run by (metis prod.collapse route_events_def)

lemma skip_job_settled:
  assumes "child_run j db (gw_queue s)" "trim_space (j_id j) \<noteq> []"
  shows "settled h j m db (gw_queue (skip_job h c j s))"
proof -
  let ?s1 = "publish_event h ''job.skipped'' (job_fields j @ [(''reason'', GStr skip_reason)]) s"
  obtain s2 r where r: "route_skipped_step_successors h c j ?s1 = (s2, r)" by fastforce
  then have "child_run j db (gw_queue s2)"
    using assms by (auto simp: route_skipped_step_successors_def dest: routed_run [rotated 2] split: sum.splits if_splits)
  then show ?thesis
    using r assms(1) by (cases r) (auto simp: skip_job_def Let_def terminal_status_def
        intro!: fail_job_settled complete_job_settled split: option.splits)
qed

lemma execute_core_switch_settled:
  assumes "child_run j db (gw_queue s)" "trim_space (j_id j) \<noteq> []"
  shows "settled h j m db (gw_queue (execute_core_switch h c j rc s))"
  using assms
  by (auto simp: execute_core_switch_def Let_def
      intro!: fail_job_settled finish_core_step_settled route_events_fst_run split: option.splits sum.splits)

lemma execute_core_relay_settled:
  assumes "child_run j db (gw_queue s)" "trim_space (j_id j) \<noteq> []"
  shows "settled h j m db (gw_queue (execute_core_relay h c j rc s))"
  using assms
  by (auto simp: execute_core_relay_def Let_def
      intro!: fail_job_settled finish_core_step_settled route_events_fst_run split: option.splits sum.splits)

lemma route_response_run:
  assumes "route_response h c j r s = (s1, x)" "child_run j db (gw_queue s)" "trim_space (j_id j) \<noteq> []"
  shows "child_run j db (gw_queue s1)"
  using assms
  by (auto simp: route_response_def route_events_def dest: routed_run [rotated 2] split: if_splits prod.splits sum.splits)

lemma settle_success_settled:
  assumes "child_run j db (gw_queue s)" "trim_space (j_id j) \<noteq> []"
  shows "settled h j m db (gw_queue (settle_success h c j r raw stderr s))"
proof -
  obtain s1 x where x: "bind_step (apply_state_updates h c j (rs_state_updates r) s) (\<lambda>_ s1. route_response h c j r s1) = (s1, x)"
    by fastforce
  obtain s2 y where y: "apply_state_updates h c j (rs_state_updates r) s = (s2, y)" by fastforce
  then have "child_run j db (gw_queue s2)" using apply_state_updates_frame assms(1) by metis
  then have run: "child_run j db (gw_queue s1)"
    using x y route_response_run [OF _ _ assms(2)] by (cases y) auto
  have "child_run j db (gw_queue (maybe_fire_hooks h c j sig payload s1))" for sig payload
    using enqueue_run_trans [OF maybe_fire_hooks_run run] .
  then show ?thesis
    using run x by (cases x) (auto simp: settle_success_def terminal_status_def intro!: complete_job_settled)
qed

lemma settle_settled:
  assumes "child_run j db (gw_queue s)" "trim_space (j_id j) \<noteq> []"
  shows "settled h j (effective_max_attempts j (plugin_conf_of c (j_plugin j))) db (gw_queue (settle h c j t x s))"
  using assms
  by (auto simp: settle_def Let_def terminal_status_def
      intro!: fail_or_retry_settled settle_success_settled dest: decided_retry split: option.splits)

lemma run_plugin_settled:
  assumes "child_run j db (gw_queue s)" "trim_space (j_id j) \<noteq> []"
  shows "settled h j (effective_max_attempts j (plugin_conf_of c (j_plugin j))) db (gw_queue (run_plugin h c j rc s))"
proof -
  let ?t = "resolved_timeout (plugin_conf_of c (j_plugin j)) (j_command j)"
  obtain s1 r where r: "build_request h c j rc ?t s = (s1, r)" by fastforce
  then have "gw_queue s1 = gw_queue s" by (rule build_request_frame)
  then show ?thesis
    using r assms by (cases r) (auto simp: run_plugin_def Let_def intro!: fail_job_settled settle_settled split: option.splits)
qed

lemma execute_job_settled:
  assumes "trim_space (j_id j) \<noteq> []"
  shows "settled h j (effective_max_attempts j (plugin_conf_of c (j_plugin j))) (gw_queue s) (gw_queue (execute_job h c j s))"
  using assms
  by (auto simp: execute_job_def Let_def enqueue_run.run_refl
      intro!: fail_job_settled skip_job_settled execute_core_switch_settled execute_core_relay_settled run_plugin_settled
      split: sum.splits prod.splits)

text \<open>What a settled job looks like.\<close>

lemma find_job_update:
  assumes "find_job jid db = Some j" "\<And>x. j_id (f x) = j_id x" "job_queue db' = update_where (\<lambda>x. j_id x = jid) f (job_queue db)"
  shows "find_job jid db' = Some (f j)"
proof -
  have "find (\<lambda>x. j_id x = jid) (update_where (\<lambda>x. j_id x = jid) f xs) = Some (f j)"
    if "find (\<lambda>x. j_id x = jid) xs = Some j" for xs
    using that by (induction xs) (auto simp: assms(2) split: if_splits)
  then show ?thesis using assms(1,3) by (simp add: find_job_def)
qed

lemma job_updates_id [simp]: "j_id (completed_job now st err x) = j_id x" "j_id (recovered_job st n retry e x) = j_id x"
  by (simp_all add: completed_job_def recovered_job_def)

text \<open>Either end of a settled job updates the one row.\<close>

lemma settled_queue:
  assumes "settled h j m db db'" "find_job (j_id j) db = Some j" "j_id j \<noteq> []"
  obtains db1 f where "child_run j db db1" "job_queue db' = update_where (\<lambda>x. j_id x = j_id j) f (job_queue db1)"
    "\<And>x. j_id (f x) = j_id x"
    "dh_complete_ok h \<and> terminal_status (j_status (f j)) \<and> j_attempt (f j) = j_attempt j \<or>
     dh_requeue_ok h \<and> j_status (f j) = StatusQueued \<and> j_attempt (f j) = j_attempt j + 1 \<and> (m > 0 \<longrightarrow> j_attempt (f j) \<le> m) \<or>
     \<not> dh_complete_ok h \<and> f j = j"
  using assms(1)
proof cases
  case (settled_done db1 st now result err stderr)
  then have "find_job (j_id j) db1 = Some j" using enqueue_run_find_job assms(2) by blast
  then have "job_queue db' = update_where (\<lambda>x. j_id x = j_id j) (completed_job now st err) (job_queue db1)"
    using settled_done assms(3) by (simp add: complete_eq)
  then show ?thesis using that [OF settled_done(2)] settled_done(3,4) by simp
next
  case settled_unwritten
  then show ?thesis using that [of db' "\<lambda>x. x"] by (simp add: update_where_def)
next
  case (settled_retry db1 now retry err)
  then have "find_job (j_id j) db1 = Some j" using enqueue_run_find_job assms(2) by blast
  then have "job_queue db' = update_where (\<lambda>x. j_id x = j_id j)
      (recovered_job StatusQueued (j_attempt j + 1) retry (if err = [] then None else Some err)) (job_queue db1)"
    using settled_retry by (simp add: recovery_eq)
  then show ?thesis using that [OF settled_retry(2)] settled_retry(3,4) by auto
qed

lemma settled_row:
  assumes "settled h j m db db'" "find_job (j_id j) db = Some j" "j_id j \<noteq> []"
  shows "\<exists>r. find_job (j_id j) db' = Some r \<and>
    (dh_complete_ok h \<and> terminal_status (j_status r) \<and> j_attempt r = j_attempt j \<or>
     dh_requeue_ok h \<and> j_status r = StatusQueued \<and> j_attempt r = j_attempt j + 1 \<and> (m > 0 \<longrightarrow> j_attempt r \<le> m) \<or>
     \<not> dh_complete_ok h \<and> r = j)"
proof (rule settled_queue [OF assms])
  fix db1 f
  assume f: "child_run j db db1" "job_queue db' = update_where (\<lambda>x. j_id x = j_id j) f (job_queue db1)"
      "\<And>x. j_id (f x) = j_id x"
    and st: "dh_complete_ok h \<and> terminal_status (j_status (f j)) \<and> j_attempt (f j) = j_attempt j \<or>
     dh_requeue_ok h \<and> j_status (f j) = StatusQueued \<and> j_attempt (f j) = j_attempt j + 1 \<and> (m > 0 \<longrightarrow> j_attempt (f j) \<le> m) \<or>
     \<not> dh_complete_ok h \<and> f j = j"
  have "find_job (j_id j) db' = Some (f j)"
    using find_job_update [OF enqueue_run_find_job [OF f(1) assms(2)] f(3,2)] by simp
  then show ?thesis using st by blast
qed

definition child_row :: "job \<Rightarrow> job \<Rightarrow> bool" where
  "child_row j r \<longleftrightarrow>
     j_status r = StatusQueued \<and> j_attempt r = 1 \<and> j_parent_job_id r = Some (j_id j) \<and>
     (j_submitted_by r = ''route'' \<or> j_submitted_by r = ''hook'')"

lemma settled_rows:
  assumes "settled h j m db db'" "find_job (j_id j) db = Some j" "j_id j \<noteq> []"
  shows "\<exists>f new. job_queue db' = update_where (\<lambda>x. j_id x = j_id j) f (job_queue db) @ new \<and> list_all (child_row j) new"
proof (rule settled_queue [OF assms], rule enqueue_run_rows)
  fix db1 f new
  assume f: "child_run j db db1" "job_queue db' = update_where (\<lambda>x. j_id x = j_id j) f (job_queue db1)"
  then show "child_run j db db1" by simp
  assume new: "job_queue db1 = job_queue db @ new"
    "\<And>r. r \<in> set new \<Longrightarrow> \<exists>q jid now req. child_request j req \<and> r = enqueue_row q jid now req"
    "\<And>r. r \<in> set new \<Longrightarrow> j_id r \<notin> j_id ` set (job_queue db)"
  have "j_id j \<in> j_id ` set (job_queue db)" using find_job_Some [OF assms(2)] by auto
  then have "update_where (\<lambda>x. j_id x = j_id j) f new = new" using new(3) by (intro update_where_none) metis
  moreover have "child_row j r" if "r \<in> set new" for r
    using new(2) [OF that] by (auto simp: child_request_def child_row_def enqueue_row_def)
  ultimately show ?thesis using f(2) new(1) by (auto simp: update_where_def list_all_iff)
qed

section \<open>Hook chains\<close>

lemma get_job_by_id_run:
  assumes "enqueue_run P db db'" "get_job_by_id so pid db = Inr r"
  obtains r' where "get_job_by_id so' pid db' = Inr r'" "jr_submitted_by r' = jr_submitted_by r" "jr_parent_job_id r' = jr_parent_job_id r"
proof -
  from assms(2) obtain j where "pid \<noteq> []" "find_job pid db = Some j" "r = job_result_of so (j_submitted_by j) db j"
    by (auto simp: get_job_by_id_def split: if_splits option.splits)
  then show ?thesis
    using that [of "job_result_of so' (j_submitted_by j) db' j"] enqueue_run_find_job [OF assms(1)]
    by (simp add: get_job_by_id_def job_result_of_def)
qed

lemma hook_walk_run:
  "hook_walk so db n sb parent = Inr k \<Longrightarrow> enqueue_run P db db' \<Longrightarrow> hook_walk so' db' n sb parent = Inr k"
proof (induction n arbitrary: sb parent k)
  case (Suc n)
  show ?case
  proof (cases "sb = ''hook''")
    case True
    with Suc.prems(1) obtain pid r l where r: "parent = Some pid" "get_job_by_id so pid db = Inr r" "k = l + 1"
      "hook_walk so db n (jr_submitted_by r) (jr_parent_job_id r) = Inr l"
      by (auto simp: bind_result_Inr_iff split: option.splits sum.splits)
    from get_job_by_id_run [OF Suc.prems(2) r(2), of so'] obtain r' where "get_job_by_id so' pid db' = Inr r'"
      "jr_submitted_by r' = jr_submitted_by r" "jr_parent_job_id r' = jr_parent_job_id r" .
    then show ?thesis using True r Suc.IH [OF r(4) Suc.prems(2)] by simp
  qed (use Suc in simp)
qed (auto split: if_splits)

lemma hook_walk_Suc: "hook_walk so db n sb parent = Inr k \<Longrightarrow> hook_walk so db (Suc n) sb parent = Inr k"
proof (induction n arbitrary: sb parent k)
  case (Suc n)
  show ?case
  proof (cases "sb = ''hook''")
    case True
    with Suc.prems obtain pid r l where "parent = Some pid" "get_job_by_id so pid db = Inr r" "k = l + 1"
      "hook_walk so db n (jr_submitted_by r) (jr_parent_job_id r) = Inr l"
      by (auto simp: bind_result_Inr_iff split: option.splits sum.splits)
    then show ?thesis using True Suc.IH by simp
  qed (use Suc in simp)
qed (auto split: if_splits)

lemma hook_walk_parent:
  "hook_walk so db (Suc m) ''hook'' (Some pid) = Inr n \<Longrightarrow> find_job pid db = Some j \<Longrightarrow>
   \<exists>l. n = l + 1 \<and> hook_walk so db m (j_submitted_by j) (j_parent_job_id j) = Inr l"
  by (auto simp: get_job_by_id_def job_result_of_def bind_result_Inr_iff split: sum.splits if_splits)

lemma new_hook_row:
  assumes "find_job (j_id j) db = Some j" "hook_chain_depth so db j = Inr k" "enqueue_run P db db'"
    and "j_submitted_by r = ''hook''" "j_parent_job_id r = Some (j_id j)" "hook_chain_depth so' db' r = Inr n"
  shows "n = k + 1"
proof -
  have cap: "hook_walk_safety_cap = Suc 1023" by (simp add: hook_walk_safety_cap_def)
  have f: "find_job (j_id j) db' = Some j" using enqueue_run_find_job [OF assms(3,1)] .
  obtain l where l: "n = l + 1" "hook_walk so' db' 1023 (j_submitted_by j) (j_parent_job_id j) = Inr l"
    using hook_walk_parent [OF _ f, of so' 1023 n] assms(4-6) by (auto simp only: hook_chain_depth_def cap)
  have "hook_walk so' db' (Suc 1023) (j_submitted_by j) (j_parent_job_id j) = Inr k"
    using hook_walk_run [OF _ assms(3)] assms(2) by (simp only: hook_chain_depth_def cap)
  then show ?thesis using hook_walk_Suc [OF l(2)] l(1) by simp
qed

section \<open>Properties\<close>

text \<open>C5. Running a job settles it whenever its last write commits: whatever the routes and the plugin do, the row of the
  job ends in a terminal status with the same attempt, or is back in the queue with one more attempt that its limit still
  allows. Only a completion the store refused leaves the row, and then exactly as it was.\<close>

theorem execute_job_settles:
  assumes "find_job (j_id j) (gw_queue s) = Some j" and "trim_space (j_id j) \<noteq> []"
  shows "\<exists>r. find_job (j_id j) (gw_queue (execute_job h c j s)) = Some r \<and>
    (dh_complete_ok h \<and> terminal_status (j_status r) \<and> j_attempt r = j_attempt j \<or>
     dh_requeue_ok h \<and> j_status r = StatusQueued \<and> j_attempt r = j_attempt j + 1 \<and>
     (effective_max_attempts j (plugin_conf_of c (j_plugin j)) > 0 \<longrightarrow>
      j_attempt r \<le> effective_max_attempts j (plugin_conf_of c (j_plugin j))) \<or>
     \<not> dh_complete_ok h \<and> r = j)"
proof -
  have "j_id j \<noteq> []" using assms(2) by (auto simp: trim_space_def)
  then show ?thesis using settled_row [OF execute_job_settled [OF assms(2)] assms(1)] by blast
qed

text \<open>C6. Running a job touches no other job: the rows of the queue keep their place and, but for its own, their
  contents, and every row it adds is a queued first attempt of a route or a hook with the job as its parent.\<close>

theorem execute_job_isolated:
  assumes "find_job (j_id j) (gw_queue s) = Some j" and "trim_space (j_id j) \<noteq> []"
  shows "\<exists>f new. job_queue (gw_queue (execute_job h c j s)) =
    update_where (\<lambda>x. j_id x = j_id j) f (job_queue (gw_queue s)) @ new \<and> list_all (child_row j) new"
proof -
  have "j_id j \<noteq> []" using assms(2) by (auto simp: trim_space_def)
  then show ?thesis using settled_rows [OF execute_job_settled [OF assms(2)] assms(1)] by blast
qed

text \<open>A hook never makes a chain of hooks longer than the configured depth.\<close>

theorem hook_chains_bounded:
  assumes "find_job (j_id j) (gw_queue s) = Some j"
    and "r \<in> set (job_queue (gw_queue (maybe_fire_hooks h c j sig payload s)))" "r \<notin> set (job_queue (gw_queue s))"
    and "hook_chain_depth so (gw_queue (maybe_fire_hooks h c j sig payload s)) r = Inr n"
  shows "n \<le> effective_hook_max_depth c"
proof -
  let ?s1 = "maybe_fire_hooks h c j sig payload s"
  from assms(2,3) have "gw_queue ?s1 \<noteq> gw_queue s" by auto
  then obtain ps where "hook_dispatches h c ps j sig payload s \<noteq> []"
    by (force simp: maybe_fire_hooks_def split: if_splits option.splits)
  then obtain k where k: "hook_chain_depth (step_of_contexts (gw_contexts s)) (gw_queue s) j = Inr k" "k + 1 \<le> effective_hook_max_depth c"
    by (auto simp: hook_dispatches_def split: sum.splits if_splits)
  have run: "enqueue_run (hook_child j) (gw_queue s) (gw_queue ?s1)" by (rule fire_hooks_run)
  have "j_submitted_by r = ''hook'' \<and> j_parent_job_id r = Some (j_id j)"
  proof (rule enqueue_run_rows [OF run])
    fix new
    assume "job_queue (gw_queue ?s1) = job_queue (gw_queue s) @ new"
      "\<And>r. r \<in> set new \<Longrightarrow> \<exists>q jid now req. hook_child j req \<and> r = enqueue_row q jid now req"
    then show ?thesis using assms(2,3) by (force simp: hook_child_def enqueue_row_def)
  qed
  then have "n = k + 1" using new_hook_row [OF assms(1) k(1) run _ _ assms(4)] by simp
  then show ?thesis using k(2) by simp
qed

lemma publish_event_frame [simp]:
  "ds_timings (publish_event h ty data s) = ds_timings s" "ds_audit (publish_event h ty data s) = ds_audit s"
  by (simp_all add: publish_event_def)

lemma complete_job_frame:
  "ds_timings (complete_job h j st result err stderr s) = ds_timings s"
  "ds_audit (complete_job h j st result err stderr s) = ds_audit s"
  by (simp_all add: complete_job_def notify_completion_def publish_poll_completed_def Let_def split: option.splits)

lemma escalated_mismatch:
  "ds_timings (escalate_composition h j FingerprintMismatch s) = ds_timings s"
  "ds_audit (escalate_composition h j FingerprintMismatch s) =
     ds_audit s @ (if dh_audit_ok h then [(\<lparr>va_op = ''fingerprint_mismatch'', va_principal = j_plugin j, va_secret_name = [], va_actor = ''core'',
       va_outcome = ''security_alert'', va_detail = dh_text h (SecretComposition FingerprintMismatch)\<rparr>, gh_now h)] else [])"
  by (simp_all add: escalate_composition_def compose_failure_escalation_def append_vault_audit_def Let_def)

lemma refused_run:
  assumes "dc_composer c = Some query" "query (vault_principal_of c (j_plugin j)) = Inr cmp" "dc_verifier c = Some verify"
    "\<not> verify (j_plugin j)" "map_of (dc_registry c) (j_plugin j) = Some pd" "supports_command pd (j_command j)"
    "load_plugin_state j s = Inr st"
  shows "run_plugin h c j rc s =
    fail_job h j (Within ''secret composition failed'' (SecretComposition FingerprintMismatch)) (escalate_composition h j FingerprintMismatch s)"
  using assms by (simp add: run_plugin_def build_request_def compose_for_job_def compose_plugin_secrets_def Let_def)

text \<open>C7. A plugin whose bytes no longer match its recorded fingerprint is never started when the vault would give it
  secrets: the outcome does not depend on what the process would do, nothing is timed, the job fails, and the vault audit
  log gains a security alert, each of the two unless the store refuses that write.\<close>

theorem swapped_plugin_withheld:
  assumes "dc_composer c = Some query" "query (vault_principal_of c (j_plugin j)) = Inr cmp" "dc_verifier c = Some verify"
    "\<not> verify (j_plugin j)" "map_of (dc_registry c) (j_plugin j) = Some pd" "supports_command pd (j_command j)"
    "load_plugin_state j s = Inr st" "find_job (j_id j) (gw_queue s) = Some j" "j_id j \<noteq> []"
  shows "ds_timings (run_plugin h c j rc s) = ds_timings s \<and>
    (\<exists>ev. ds_audit (run_plugin h c j rc s) = ds_audit s @ (if dh_audit_ok h then [(ev, gh_now h)] else []) \<and>
       va_principal ev = j_plugin j \<and> va_op ev = ''fingerprint_mismatch'' \<and> va_outcome ev = ''security_alert'') \<and>
    map_option j_status (find_job (j_id j) (gw_queue (run_plugin h c j rc s))) =
      Some (if dh_complete_ok h then StatusFailed else j_status j) \<and>
    gw_queue (run_plugin (h\<lparr>dh_process := p\<rparr>) c j rc s) = gw_queue (run_plugin h c j rc s)"
proof -
  have q: "gw_queue (escalate_composition h' j FingerprintMismatch s) = gw_queue s" for h'
    by (simp add: escalate_composition_def compose_failure_escalation_def Let_def)
  have "map_option j_status (find_job (j_id j) (gw_queue (run_plugin h c j rc s))) =
      Some (if dh_complete_ok h then StatusFailed else j_status j)"
    using assms(8,9) find_job_update [OF assms(8) job_updates_id(1)]
    by (simp add: refused_run [OF assms(1-7)] fail_job_def complete_job_queue q complete_eq terminal_status_def)
  moreover have "gw_queue (run_plugin (h\<lparr>dh_process := p\<rparr>) c j rc s) = gw_queue (run_plugin h c j rc s)"
    by (simp add: refused_run [OF assms(1-7)] fail_job_def complete_job_queue q)
  moreover have "\<exists>ev. ds_audit (run_plugin h c j rc s) = ds_audit s @ (if dh_audit_ok h then [(ev, gh_now h)] else []) \<and>
      va_principal ev = j_plugin j \<and> va_op ev = ''fingerprint_mismatch'' \<and> va_outcome ev = ''security_alert''"
    by (rule exI [of _ "\<lparr>va_op = ''fingerprint_mismatch'', va_principal = j_plugin j, va_secret_name = [], va_actor = ''core'',
        va_outcome = ''security_alert'', va_detail = dh_text h (SecretComposition FingerprintMismatch)\<rparr>"])
      (simp add: refused_run [OF assms(1-7)] fail_job_def complete_job_frame escalated_mismatch)
  ultimately show ?thesis
    by (simp add: refused_run [OF assms(1-7)] fail_job_def complete_job_frame escalated_mismatch)
qed

section \<open>A concrete run\<close>

text \<open>One job of the plugin \<^verbatim>\<open>mail\<close> that succeeds; a hook pipeline turns its completion into a job of the plugin \<^verbatim>\<open>chat\<close>.\<close>

definition run_response :: response where
  "run_response = \<lparr>rs_status = ''ok'', rs_error = [], rs_result = ''done'', rs_events = [], rs_state_updates = [], rs_subs = []\<rparr>"

definition run_outcome :: process_outcome where
  "run_outcome = \<lparr>po_pipe_ok = True, po_starts = (\<lambda>_. StartOk), po_stdout = [''x''], po_stderr = [], po_timer_fired = False,
     po_ready_at_timer = False, po_wait = WaitOk\<rparr>"

definition run_host :: disp_host where
  "run_host = \<lparr>gh_now = 3 * second, gh_uuid = (\<lambda>n. int_str (int n)), gh_instance = (\<lambda>n p. p), gh_regex = no_regex,
     gh_json_len = (\<lambda>_. 0), gh_marshal_event = (\<lambda>_. Some ''ev''), gh_marshal = (\<lambda>_. Some ''v''),
     dh_event = (\<lambda>_. None), dh_object = (\<lambda>_. None), dh_fmt = (\<lambda>_. []), dh_subs_len = (\<lambda>_. 0), dh_rand = (\<lambda>_. 0), dh_ovf = 0,
     dh_text = (\<lambda>_. ''error''), dh_mac = (\<lambda>_ _. []), dh_encode_envelope = (\<lambda>_. None), dh_url_path = (\<lambda>_. None),
     dh_deliver = (\<lambda>_. None), dh_codec = (\<lambda>_. Some (run_response, None)), dh_process = (\<lambda>_ _. run_outcome), dh_pid = 7,
     dh_requeue_ok = True, dh_complete_ok = True, dh_audit_ok = True\<rparr>"

definition run_plugin_conf :: plugin_conf where
  "run_plugin_conf = zero_plugin_conf\<lparr>pc_notify_on_complete := Some True\<rparr>"

definition run_pipeline :: "string \<times> pipeline" where
  "run_pipeline =
     (''notify'', \<lparr>pl_name = ''notify'', pl_trigger = [], pl_is_hook = True, pl_from_plugin = [], pl_execution_mode = [], pl_timeout = 0,
       pl_if = None, pl_author_max_depth = None,
       pl_nodes = [(''s'', \<lparr>nd_id = ''s'', nd_kind = NodeKindUses, nd_uses = ''chat'', nd_call = [], nd_relay = None,
         nd_condition = None, nd_with = [], nd_baggage = None\<rparr>)],
       pl_edges = [], pl_entries = [''s''], pl_terminals = [''s''], pl_terminal_exits = [(''s'', [])], pl_called = [],
       pl_max_route_depth = 1,
       pl_routes = [\<lparr>cr_id = ''r'', cr_pipeline = ''notify'',
         cr_source = \<lparr>rs_trigger = [], rs_pipeline = [], rs_step_id = [], rs_hook_signal = ''job.completed'', rs_source_plugin = [],
           rs_event_type = [], rs_depth_lt = 1, rs_if = None\<rparr>,
         cr_destination = DestUses ''s'' ''chat'' ''handle''\<rparr>]\<rparr>)"

definition run_conf :: "(string \<Rightarrow> bool) \<Rightarrow> disp_conf" where
  "run_conf verify = \<lparr>gc_queue = new_queue None None,
     gc_router = Some [run_pipeline],
     gc_contexts = True, gc_max_context_bytes = 1000, gc_admitter = Some 1000, gc_plugins = [(''mail'', run_plugin_conf)],
     dc_service_name = ''home'', dc_hook_max_depth = 0, dc_accounts = [], dc_enforce = False,
     dc_registry = [(''mail'', \<lparr>pd_commands = [''poll''], pd_fact_outputs = [], pd_max_subs = 0\<rparr>)],
     dc_composer = Some (\<lambda>_. Inr \<lparr>co_secrets = [(''TOKEN'', ''t'')], co_denials = []\<rparr>), dc_verifier = Some verify,
     dc_max_state_bytes = 1000, dc_tokens = [], dc_relay_instances = []\<rparr>"

definition run_job :: job where
  "run_job = \<lparr>j_id = ''j1'', j_plugin = ''mail'', j_command = ''poll'', j_payload = None, j_status = StatusRunning, j_attempt = 1,
     j_max_attempts = 4, j_submitted_by = ''cli'', j_dedupe_key = None, j_created_at = 0, j_started_at = Some (2 * second),
     j_completed_at = None, j_next_retry_at = None, j_last_error = None, j_parent_job_id = None, j_source_event_id = None,
     j_event_context_id = None, j_enqueued_config_snapshot_id = None, j_started_config_snapshot_id = None\<rparr>"

definition run_state :: disp_state where
  "run_state = \<lparr>gw_queue = empty_db\<lparr>job_queue := [run_job]\<rparr>, gw_contexts = [], gw_drawn = 0, ds_store = empty_store,
     ds_timings = empty_stopwatch_table, ds_audit = [], ds_polls = [], ds_hub = new_hub 4, ds_completions = []\<rparr>"

lemma run_state_row: "find_job (j_id run_job) (gw_queue run_state) = Some run_job" "trim_space (j_id run_job) \<noteq> []"
  "j_id run_job \<noteq> []"
  by (simp_all add: run_state_def find_job_def run_job_def trim_space_def is_space_def)

lemma run_result:
  "map (\<lambda>r. (j_id r, j_plugin r, j_status r)) (job_queue (gw_queue (execute_job run_host (run_conf (\<lambda>_. True)) run_job run_state))) =
   [(''j1'', ''mail'', StatusSucceeded), (''0'', ''chat'', StatusQueued)]"
  by code_simp

lemma find_job_status:
  "find_job jid db = Some r \<Longrightarrow> map_of (map (\<lambda>r. (j_id r, j_plugin r, j_status r)) (job_queue db)) jid = Some (j_plugin r, j_status r)"
proof -
  have "find (\<lambda>x. j_id x = jid) xs = Some r \<Longrightarrow> map_of (map (\<lambda>r. (j_id r, j_plugin r, j_status r)) xs) jid = Some (j_plugin r, j_status r)" for xs
    by (induction xs) (auto split: if_splits)
  then show "find_job jid db = Some r \<Longrightarrow> ?thesis" by (simp add: find_job_def)
qed

theorem execute_job_settles_witness:
  "\<exists>r. find_job ''j1'' (gw_queue (execute_job run_host (run_conf (\<lambda>_. True)) run_job run_state)) = Some r \<and>
     j_status r = StatusSucceeded \<and> j_attempt r = 1"
proof -
  have id: "j_id run_job = ''j1''" "j_attempt run_job = 1" by (simp_all add: run_job_def)
  obtain r where r: "find_job ''j1'' (gw_queue (execute_job run_host (run_conf (\<lambda>_. True)) run_job run_state)) = Some r"
    "terminal_status (j_status r) \<and> j_attempt r = 1 \<or> j_status r = StatusQueued"
    using execute_job_settles [OF run_state_row(1,2), of run_host "run_conf (\<lambda>_. True)"] unfolding id
    by (auto simp: run_host_def)
  then have "j_status r = StatusSucceeded" using find_job_status [OF r(1)] by (simp add: run_result)
  then show ?thesis using r by simp
qed

theorem execute_job_isolated_witness:
  "\<exists>old new. job_queue (gw_queue (execute_job run_host (run_conf (\<lambda>_. True)) run_job run_state)) = [old, new] \<and>
     j_id old = ''j1'' \<and> child_row run_job new"
proof -
  obtain f new where q: "job_queue (gw_queue (execute_job run_host (run_conf (\<lambda>_. True)) run_job run_state)) =
      update_where (\<lambda>x. j_id x = j_id run_job) f (job_queue (gw_queue run_state)) @ new" "list_all (child_row run_job) new"
    using execute_job_isolated [OF run_state_row(1,2), of run_host "run_conf (\<lambda>_. True)"] by blast
  have old: "update_where (\<lambda>x. j_id x = j_id run_job) f (job_queue (gw_queue run_state)) = [f run_job]" by (simp add: run_state_def)
  obtain r where "new = [r]" "j_id (f run_job) = ''j1''"
    using run_result unfolding q old by auto
  then show ?thesis using q(2) by (simp add: q(1) old)
qed

lemma hook_result:
  "map (\<lambda>r. (j_id r, hook_chain_depth (\<lambda>_. None) (gw_queue (maybe_fire_hooks run_host (run_conf (\<lambda>_. True)) run_job ''job.completed'' [] run_state)) r))
     (job_queue (gw_queue (maybe_fire_hooks run_host (run_conf (\<lambda>_. True)) run_job ''job.completed'' [] run_state))) =
   [(''j1'', Inr 0), (''0'', Inr 1)]"
  by code_simp

theorem hook_chains_bounded_witness:
  "\<exists>r. r \<in> set (job_queue (gw_queue (maybe_fire_hooks run_host (run_conf (\<lambda>_. True)) run_job ''job.completed'' [] run_state))) \<and>
     j_id r = ''0'' \<and> 1 \<le> effective_hook_max_depth (run_conf (\<lambda>_. True))"
proof -
  let ?q = "gw_queue (maybe_fire_hooks run_host (run_conf (\<lambda>_. True)) run_job ''job.completed'' [] run_state)"
  have "(''0'', Inr 1) \<in> set (map (\<lambda>r. (j_id r, hook_chain_depth (\<lambda>_. None) ?q r)) (job_queue ?q))"
    unfolding hook_result by simp
  then obtain r where r: "r \<in> set (job_queue ?q)" "j_id r = ''0''" "hook_chain_depth (\<lambda>_. None) ?q r = Inr 1" by auto
  have "r \<notin> set (job_queue (gw_queue run_state))" using r(2) by (auto simp: run_state_def run_job_def)
  then show ?thesis using hook_chains_bounded [OF run_state_row(1) r(1) _ r(3)] r(1,2) by blast
qed

theorem swapped_plugin_withheld_witness:
  "ds_timings (run_plugin run_host (run_conf (\<lambda>_. False)) run_job [] run_state) = empty_stopwatch_table \<and>
   map_option j_status (find_job ''j1'' (gw_queue (run_plugin run_host (run_conf (\<lambda>_. False)) run_job [] run_state))) = Some StatusFailed"
proof -
  have state: "load_plugin_state run_job run_state = Inr []"
    by (simp add: load_plugin_state_def store_get_def run_job_def run_state_def empty_store_def state_map_of_def)
  have "ds_timings (run_plugin run_host (run_conf (\<lambda>_. False)) run_job [] run_state) = ds_timings run_state \<and>
     map_option j_status (find_job (j_id run_job) (gw_queue (run_plugin run_host (run_conf (\<lambda>_. False)) run_job [] run_state))) =
       Some (if dh_complete_ok run_host then StatusFailed else j_status run_job)"
    using swapped_plugin_withheld [where c = "run_conf (\<lambda>_. False)" and h = run_host and rc = "[]",
        OF _ _ _ _ _ _ state run_state_row(1,3)]
    by (simp add: run_conf_def run_job_def supports_command_def)
  then show ?thesis by (simp add: run_state_def run_job_def run_host_def)
qed

end
