(* ===== verification/Auth.thy ===== *)
theory Auth
  imports Ductile_Prelude "HOL-Library.Sublist"
begin

text \<open>
  Bearer tokens and the token policy of the API, \<^verbatim>\<open>src/internal/auth\<close> (\<^verbatim>\<open>auth.go\<close>, \<^verbatim>\<open>policy.go\<close>). The decision engine
  is the \<^verbatim>\<open>shearline\<close> package: it is the argument \<open>engine\<close>, from the standing facts, a principal, an action and a
  resource to an error or a decision. \<open>rbac_engine\<close> states what its documented role-based rules mean: an allowed
  request has a role of the principal from which inheritance leads to a grant of the action on a prefix of the resource.
\<close>

section \<open>Tokens\<close>

record token_config =
  tk_name :: string
  tk_token :: string
  tk_scopes :: "string list"

definition principal_name :: "nat \<Rightarrow> token_config \<Rightarrow> string" where
  "principal_name i t =
     (let n = trim_space (tk_name t) in if n \<noteq> [] then n else ''tokens['' @ int_str (int i) @ '']'')"

definition constant_time_equal :: "string \<Rightarrow> string \<Rightarrow> bool" where
  "constant_time_equal a b = (if a = [] \<or> b = [] then False else if length a \<noteq> length b then False else a = b)"

fun authenticate_from :: "nat \<Rightarrow> string \<Rightarrow> token_config list \<Rightarrow> string option" where
  "authenticate_from i presented [] = None"
| "authenticate_from i presented (t # ts) =
     (if constant_time_equal presented (tk_token t) then Some (principal_name i t)
      else authenticate_from (Suc i) presented ts)"

definition authenticate :: "string \<Rightarrow> token_config list \<Rightarrow> string option" where
  "authenticate presented tokens = authenticate_from 0 presented tokens"

datatype bearer_error = BearerFormat | BearerMissing

text \<open>The Authorization header and the \<^verbatim>\<open>token\<close> query parameter are empty when absent.\<close>

definition extract_bearer_token :: "string \<Rightarrow> string \<Rightarrow> bool \<Rightarrow> bearer_error + string" where
  "extract_bearer_token header query_token allow_query =
     (let from_query = (if allow_query \<and> query_token \<noteq> [] then Inr query_token else Inl BearerMissing) in
      if header = [] then from_query
      else if take 7 header \<noteq> ''Bearer '' then Inl BearerFormat
      else let token = trim_space (drop 7 header) in if token \<noteq> [] then Inr token else from_query)"

section \<open>The capability table\<close>

datatype action = ActionRead | ActionWrite

definition inherits :: "(string \<times> string) list" where
  "inherits =
     [(''*'', ''plugin:rw''), (''*'', ''jobs:rw''), (''*'', ''events:rw''), (''*'', ''system:rw''),
      (''plugin:rw'', ''plugin:ro''), (''plugin:rw'', ''plugin:invoke:ro''),
      (''plugin:ro'', ''plugin:catalog:ro''),
      (''jobs:rw'', ''jobs:ro''),
      (''jobs:ro'', ''jobs:status:ro''), (''jobs:ro'', ''jobs:result:ro''), (''jobs:ro'', ''jobs:logs:ro''), (''jobs:ro'', ''jobs:tree:ro''),
      (''events:rw'', ''events:ro''),
      (''events:ro'', ''events:meta:ro''), (''events:ro'', ''events:payload:ro''),
      (''system:rw'', ''system:ro'')]"

definition cap_plugin_catalog :: string where "cap_plugin_catalog = ''plugin/catalog/''"
definition cap_plugin_invoke :: string where "cap_plugin_invoke = ''plugin/invoke/''"
definition cap_pipeline_trigger :: string where "cap_pipeline_trigger = ''pipeline/trigger/''"
definition cap_system_topology :: string where "cap_system_topology = ''system/topology/''"
definition cap_system_config :: string where "cap_system_config = ''system/config/''"
definition cap_system_doctor :: string where "cap_system_doctor = ''system/doctor/''"
definition cap_system_selfcheck :: string where "cap_system_selfcheck = ''system/selfcheck/''"
definition cap_system_reload :: string where "cap_system_reload = ''system/reload/''"
definition cap_jobs_status :: string where "cap_jobs_status = ''jobs/status/''"
definition cap_jobs_tree :: string where "cap_jobs_tree = ''jobs/tree/''"
definition cap_jobs_logs :: string where "cap_jobs_logs = ''jobs/logs/''"
definition cap_jobs_result :: string where "cap_jobs_result = ''jobs/result/''"
definition cap_events_stream :: string where "cap_events_stream = ''events/stream/''"

definition grants :: "(string \<times> action \<times> string) list" where
  "grants =
     [(''plugin:catalog:ro'', ActionRead, cap_plugin_catalog),
      (''plugin:invoke:ro'', ActionRead, cap_plugin_invoke),
      (''plugin:rw'', ActionWrite, cap_plugin_invoke),
      (''plugin:rw'', ActionWrite, cap_pipeline_trigger),
      (''system:ro'', ActionRead, cap_system_topology),
      (''system:ro'', ActionRead, cap_system_config),
      (''system:ro'', ActionRead, cap_system_doctor),
      (''system:ro'', ActionRead, cap_system_selfcheck),
      (''system:rw'', ActionWrite, cap_system_reload),
      (''jobs:status:ro'', ActionRead, cap_jobs_status),
      (''jobs:tree:ro'', ActionRead, cap_jobs_tree),
      (''jobs:logs:ro'', ActionRead, cap_jobs_logs),
      (''jobs:result:ro'', ActionRead, cap_jobs_result),
      (''events:ro'', ActionRead, cap_events_stream)]"

definition known_scopes :: "string list" where
  "known_scopes = remdups (concat (map (\<lambda>(a, b). [a, b]) inherits) @ map fst grants)"

definition known_scope :: "string \<Rightarrow> bool" where
  "known_scope s \<longleftrightarrow> trim_space s \<in> set known_scopes"

section \<open>Scopes that reach a grant\<close>

text \<open>One pass over the lattice adds the scopes whose parent is in already; the loop ends with a pass that adds
  nothing. \<open>im\<close> is the lattice, so that the loop is stated for any.\<close>

definition reach_pass :: "(string \<times> string) list \<Rightarrow> string list \<Rightarrow> string list" where
  "reach_pass im out = fold (\<lambda>(a, b) acc. if b \<in> set acc \<and> a \<notin> set acc then a # acc else acc) im out"

lemma reach_pass_grows: "set out \<subseteq> set (reach_pass im out)"
  unfolding reach_pass_def by (induction im arbitrary: out) (auto split: prod.splits, fastforce)

lemma reach_pass_bounded: "set (reach_pass im out) \<subseteq> set out \<union> fst ` set im"
  unfolding reach_pass_def by (induction im arbitrary: out) (fastforce split: if_splits)+

lemma reach_pass_adds: "length (reach_pass im out) \<noteq> length out \<Longrightarrow> \<exists>a\<in>fst ` set im. a \<notin> set out \<and> a \<in> set (reach_pass im out)"
proof (induction im arbitrary: out)
  case (Cons e im)
  obtain a b where e: "e = (a, b)" by (cases e)
  show ?case
  proof (cases "b \<in> set out \<and> a \<notin> set out")
    case True
    then have "a \<in> set (reach_pass (e # im) out)"
      using reach_pass_grows [of "a # out" im] by (auto simp: reach_pass_def e)
    then show ?thesis using True e by auto
  next
    case False
    then have "reach_pass (e # im) out = reach_pass im out" by (auto simp: reach_pass_def e)
    then show ?thesis using Cons by auto
  qed
qed (simp add: reach_pass_def)

function reach_loop :: "(string \<times> string) list \<Rightarrow> string list \<Rightarrow> string list" where
  "reach_loop im out =
     (let next = reach_pass im out in if length next = length out then out else reach_loop im next)"
  by pat_completeness auto
termination
proof (relation "measure (\<lambda>(im, out). card (fst ` set im - set out))")
  fix im out next'
  assume "next' = reach_pass im out" "length next' \<noteq> length out"
  then obtain a where "a \<in> fst ` set im - set out" "a \<in> set next'" using reach_pass_adds by blast
  moreover have "set out \<subseteq> set next'" using \<open>next' = _\<close> reach_pass_grows by simp
  ultimately have "fst ` set im - set next' \<subset> fst ` set im - set out" by blast
  then show "((im, next'), im, out) \<in> measure (\<lambda>(im, out). card (fst ` set im - set out))"
    by (simp add: psubset_card_mono)
qed simp

declare reach_loop.simps [simp del]

definition reaches :: "string list" where
  "reaches = reach_loop inherits (remdups (map fst grants))"

text \<open>The scope that inherits a reserved one: the first that the lattice lists, empty if there is none.\<close>

definition reserved_scope :: "string \<Rightarrow> string option" where
  "reserved_scope s0 =
     (let s = trim_space s0 in
      if s \<notin> set known_scopes \<or> s \<in> set reaches then None
      else Some (case find (\<lambda>(_, b). b = s) inherits of Some (a, _) \<Rightarrow> a | None \<Rightarrow> []))"

section \<open>The policy\<close>

datatype standing_fact = Inherits string string | Grant string action string | Role string string
datatype policy_error = SharedPrincipal nat nat string | UnknownScope nat string string | NoPolicy | EngineError string

text \<open>The result is the roles of the tokens from position \<open>i\<close> on; \<open>seen\<close> maps the names met so far to their positions.\<close>

fun token_roles :: "string \<Rightarrow> nat \<Rightarrow> string list \<Rightarrow> policy_error + standing_fact list" where
  "token_roles name i [] = Inr []"
| "token_roles name i (s0 # ss) =
     (let s = trim_space s0 in
      if s = [] then token_roles name i ss
      else if s \<notin> set known_scopes then Inl (UnknownScope i name s)
      else bind_result (token_roles name i ss) (\<lambda>rs. Inr (Role name s # rs)))"

fun roles_from :: "nat \<Rightarrow> (string \<times> nat) list \<Rightarrow> token_config list \<Rightarrow> policy_error + standing_fact list" where
  "roles_from i seen [] = Inr []"
| "roles_from i seen (t # ts) =
     (let name = principal_name i t in
      case map_of seen name of
        Some k \<Rightarrow> Inl (SharedPrincipal k i name)
      | None \<Rightarrow>
         bind_result (token_roles name i (tk_scopes t)) (\<lambda>rs.
         bind_result (roles_from (Suc i) ((name, i) # seen) ts) (\<lambda>rest. Inr (rs @ rest))))"

definition standing_facts :: "token_config list \<Rightarrow> policy_error + standing_fact list" where
  "standing_facts tokens =
     bind_result (roles_from 0 [] tokens) (\<lambda>roles.
       Inr (map (\<lambda>(a, b). Inherits a b) inherits @ map (\<lambda>(s, a, c). Grant s a c) grants @ roles))"

record decision =
  dn_allow :: bool
  dn_steps :: int
  dn_bytes :: int

definition deny :: decision where "deny = \<lparr>dn_allow = False, dn_steps = 0, dn_bytes = 0\<rparr>"

type_synonym engine = "standing_fact list \<Rightarrow> string \<Rightarrow> action \<Rightarrow> string \<Rightarrow> string + decision"

text \<open>A policy: the standing facts it was loaded with and the principals in token order; none is the zero policy.\<close>

record policy =
  py_facts :: "standing_fact list"
  py_principals :: "string list"

definition new_policy :: "token_config list \<Rightarrow> policy_error + policy" where
  "new_policy tokens =
     bind_result (standing_facts tokens) (\<lambda>facts.
       Inr \<lparr>py_facts = facts, py_principals = map (\<lambda>(i, t). principal_name i t) (enumerate 0 tokens)\<rparr>)"

definition decide :: "engine \<Rightarrow> policy option \<Rightarrow> string \<Rightarrow> action \<Rightarrow> string \<Rightarrow> policy_error + decision" where
  "decide engine pol prin act cap =
     (case pol of
        None \<Rightarrow> Inl NoPolicy
      | Some p \<Rightarrow> (case engine (py_facts p) prin act cap of Inl e \<Rightarrow> Inl (EngineError e) | Inr d \<Rightarrow> Inr d))"

section \<open>The margin\<close>

record margin =
  mg_decisions :: int
  mg_steps :: int
  mg_bytes :: int
  mg_max_steps :: int
  mg_max_bytes :: int
  mg_worst :: "(string \<times> action \<times> string) option"

fun margin_sweep :: "engine \<Rightarrow> policy \<Rightarrow> (string \<times> action \<times> string) list \<Rightarrow> margin \<Rightarrow> policy_error + margin" where
  "margin_sweep engine p [] m = Inr m"
| "margin_sweep engine p ((prin, act, cap) # rest) m =
     (case decide engine (Some p) prin act cap of
        Inl e \<Rightarrow> Inl e
      | Inr d \<Rightarrow>
         let m1 = m\<lparr>mg_decisions := mg_decisions m + 1\<rparr>;
             m2 = (if dn_steps d > mg_steps m1 then m1\<lparr>mg_steps := dn_steps d, mg_worst := Some (prin, act, cap)\<rparr> else m1);
             m3 = (if dn_bytes d > mg_bytes m2 then m2\<lparr>mg_bytes := dn_bytes d\<rparr> else m2)
         in margin_sweep engine p rest m3)"

text \<open>\<open>bounds\<close> are the engine's bounds on steps and bytes.\<close>

definition policy_margin :: "engine \<Rightarrow> int \<times> int \<Rightarrow> policy option \<Rightarrow> policy_error + margin" where
  "policy_margin engine bounds pol =
     (case pol of
        None \<Rightarrow> Inl NoPolicy
      | Some p \<Rightarrow>
         margin_sweep engine p
           (concat (map (\<lambda>prin. map (\<lambda>(_, act, cap). (prin, act, cap)) grants) (py_principals p)))
           \<lparr>mg_decisions = 0, mg_steps = 0, mg_bytes = 0, mg_max_steps = fst bounds, mg_max_bytes = snd bounds, mg_worst = None\<rparr>)"

text \<open>The limit is half of either bound.\<close>

definition margin_check :: "margin \<Rightarrow> bool" where
  "margin_check m \<longleftrightarrow> \<not> (2 * mg_steps m > mg_max_steps m \<or> 2 * mg_bytes m > mg_max_bytes m)"

section \<open>What the engine promises\<close>

definition rbac_allows :: "standing_fact list \<Rightarrow> string \<Rightarrow> action \<Rightarrow> string \<Rightarrow> bool" where
  "rbac_allows facts prin act res \<longleftrightarrow>
     (\<exists>s g cap. Role prin s \<in> set facts \<and> (s, g) \<in> {(a, b). Inherits a b \<in> set facts}\<^sup>* \<and> Grant g act cap \<in> set facts \<and> prefix cap res)"

definition rbac_engine :: "engine \<Rightarrow> bool" where
  "rbac_engine engine \<longleftrightarrow>
     (\<forall>facts prin act res d. engine facts prin act res = Inr d \<longrightarrow> dn_allow d = rbac_allows facts prin act res)"

section \<open>Lemmas\<close>

lemma reach_pass_length: "length out \<le> length (reach_pass im out)"
proof (induction im arbitrary: out)
  case (Cons e im)
  obtain a b where e: "e = (a, b)" by (cases e)
  let ?out = "if b \<in> set out \<and> a \<notin> set out then a # out else out"
  have "length out \<le> length ?out" by simp
  also have "\<dots> \<le> length (reach_pass im ?out)" by (rule Cons.IH)
  finally show ?case by (simp add: reach_pass_def e)
qed (simp add: reach_pass_def)

lemma reach_pass_fixed: "length (reach_pass im out) = length out \<Longrightarrow> (a, b) \<in> set im \<Longrightarrow> b \<in> set out \<Longrightarrow> a \<in> set out"
proof (induction im arbitrary: out)
  case (Cons e im)
  obtain x y where e: "e = (x, y)" by (cases e)
  show ?case
  proof (cases "y \<in> set out \<and> x \<notin> set out")
    case True
    then have "length (reach_pass im (x # out)) = length out" using Cons.prems(1) by (simp add: reach_pass_def e)
    then show ?thesis using reach_pass_length [of "x # out" im] by simp
  next
    case False
    then have "reach_pass (e # im) out = reach_pass im out" by (auto simp: reach_pass_def e)
    then show ?thesis using Cons False e by auto
  qed
qed simp

lemma reach_pass_sound: "x \<in> set (reach_pass im out) \<Longrightarrow> \<exists>g\<in>set out. (x, g) \<in> (set im)\<^sup>*"
proof (induction im arbitrary: out)
  case (Cons e im)
  obtain a b where e: "e = (a, b)" by (cases e)
  let ?out = "if b \<in> set out \<and> a \<notin> set out then a # out else out"
  have "x \<in> set (reach_pass im ?out)" using Cons.prems by (simp add: reach_pass_def e)
  then obtain g where g: "g \<in> set ?out" "(x, g) \<in> (set im)\<^sup>*" using Cons.IH by blast
  have sub: "(set im)\<^sup>* \<subseteq> (set (e # im))\<^sup>*" by (rule rtrancl_mono) auto
  show ?case
  proof (cases "g \<in> set out")
    case False
    then have "g = a" "b \<in> set out" using g(1) by (auto split: if_splits)
    moreover have "(a, b) \<in> set (e # im)" by (simp add: e)
    ultimately show ?thesis using g(2) sub by (meson rtrancl.rtrancl_into_rtrancl subsetD)
  qed (use g sub in blast)
qed (auto simp: reach_pass_def)

lemma reach_loop_set: "set (reach_loop im out) = {s. \<exists>g\<in>set out. (s, g) \<in> (set im)\<^sup>*}"
proof (induction im out rule: reach_loop.induct)
  case (1 im out)
  let ?next = "reach_pass im out"
  show ?case
  proof (cases "length ?next = length out")
    case True
    have "s \<in> set out" if "(s, g) \<in> (set im)\<^sup>*" "g \<in> set out" for s g
      using that by (induction rule: converse_rtrancl_induct) (auto dest: reach_pass_fixed [OF True])
    then have "set out = {s. \<exists>g\<in>set out. (s, g) \<in> (set im)\<^sup>*}" by blast
    then show ?thesis using True by (simp add: reach_loop.simps [of im out] Let_def)
  next
    case False
    then have "set (reach_loop im out) = {s. \<exists>g\<in>set ?next. (s, g) \<in> (set im)\<^sup>*}"
      using 1 [OF refl False] by (simp add: reach_loop.simps [of im out] Let_def)
    also have "\<dots> = {s. \<exists>g\<in>set out. (s, g) \<in> (set im)\<^sup>*}"
      using reach_pass_sound [of _ im out] reach_pass_grows [of out im] by (blast intro: rtrancl_trans)
    finally show ?thesis .
  qed
qed

lemma token_roles_set:
  "token_roles name i ss = Inr rs \<Longrightarrow> set rs = {Role name (trim_space s) | s. s \<in> set ss \<and> trim_space s \<noteq> []}"
  by (induction ss arbitrary: rs) (auto simp: Let_def bind_result_Inr_iff split: if_splits)

lemma roles_from_set:
  "roles_from i seen ts = Inr rs \<Longrightarrow>
   set rs = {Role (principal_name (i + k) (ts ! k)) (trim_space s) | k s. k < length ts \<and> s \<in> set (tk_scopes (ts ! k)) \<and> trim_space s \<noteq> []} \<and>
   distinct (map (\<lambda>k. principal_name (i + k) (ts ! k)) [0..<length ts]) \<and>
   (\<forall>k<length ts. principal_name (i + k) (ts ! k) \<notin> fst ` set seen)"
proof (induction ts arbitrary: i seen rs)
  case (Cons t ts)
  let ?n = "principal_name i t"
  from Cons.prems obtain r1 r2 where r: "map_of seen ?n = None" "token_roles ?n i (tk_scopes t) = Inr r1"
    "roles_from (Suc i) ((?n, i) # seen) ts = Inr r2" "rs = r1 @ r2"
    by (auto simp: Let_def bind_result_Inr_iff split: option.splits)
  note ih = Cons.IH [OF r(3)]
  have split: "{f k | k. k < length (t # ts)} = insert (f 0) {f (Suc k) | k. k < length ts}" for f :: "nat \<Rightarrow> 'z"
    by (auto simp: less_Suc_eq_0_disj)
  have "set rs = {Role (principal_name (i + k) ((t # ts) ! k)) (trim_space s) | k s.
      k < length (t # ts) \<and> s \<in> set (tk_scopes ((t # ts) ! k)) \<and> trim_space s \<noteq> []}"
    using ih token_roles_set [OF r(2)] by (auto simp: r(4) less_Suc_eq_0_disj) (metis add_0_right nth_Cons_0 zero_less_Suc, metis Suc_mono add_Suc_right nth_Cons_Suc)
  moreover have "map (\<lambda>k. principal_name (i + k) ((t # ts) ! k)) [0..<length (t # ts)] =
      ?n # map (\<lambda>k. principal_name (Suc i + k) (ts ! k)) [0..<length ts]"
    by (simp del: upt_Suc add: upt_conv_Cons map_Suc_upt [symmetric] comp_def)
  moreover have "?n \<notin> set (map (\<lambda>k. principal_name (Suc i + k) (ts ! k)) [0..<length ts])" using ih by auto
  moreover have "principal_name (i + k) ((t # ts) ! k) \<notin> fst ` set seen" if "k < length (t # ts)" for k
    using ih r(1) that by (cases k) (auto simp: map_of_eq_None_iff)
  ultimately show ?case using ih by simp
qed simp

lemma fact_image [simp]: "Inherits a b \<notin> (\<lambda>(s, x, c). Grant s x c) ` A" "Grant s x c \<notin> (\<lambda>(a, b). Inherits a b) ` B"
  by auto

lemma policy_facts:
  assumes "new_policy tokens = Inr p"
  shows "{(a, b). Inherits a b \<in> set (py_facts p)} = set inherits"
    and "Grant s act cap \<in> set (py_facts p) \<longleftrightarrow> (s, act, cap) \<in> set grants"
    and "Role n s \<in> set (py_facts p) \<longleftrightarrow>
      (\<exists>k s'. k < length tokens \<and> s' \<in> set (tk_scopes (tokens ! k)) \<and> trim_space s' \<noteq> [] \<and> n = principal_name k (tokens ! k) \<and> s = trim_space s')"
    and "k < length tokens \<Longrightarrow> l < length tokens \<Longrightarrow> principal_name k (tokens ! k) = principal_name l (tokens ! l) \<Longrightarrow> k = l"
proof -
  obtain roles where r: "roles_from 0 [] tokens = Inr roles"
    and p: "py_facts p = map (\<lambda>(a, b). Inherits a b) inherits @ map (\<lambda>(s, a, c). Grant s a c) grants @ roles"
    using assms by (auto simp: new_policy_def standing_facts_def bind_result_Inr_iff)
  note roles = roles_from_set [OF r, simplified]
  show "{(a, b). Inherits a b \<in> set (py_facts p)} = set inherits" using roles by (force simp: p image_iff)
  show "Grant s act cap \<in> set (py_facts p) \<longleftrightarrow> (s, act, cap) \<in> set grants" using roles by (force simp: p image_iff)
  show "Role n s \<in> set (py_facts p) \<longleftrightarrow>
      (\<exists>k s'. k < length tokens \<and> s' \<in> set (tk_scopes (tokens ! k)) \<and> trim_space s' \<noteq> [] \<and> n = principal_name k (tokens ! k) \<and> s = trim_space s')"
    using roles by (auto simp: p image_iff)
  show "k < length tokens \<Longrightarrow> l < length tokens \<Longrightarrow> principal_name k (tokens ! k) = principal_name l (tokens ! l) \<Longrightarrow> k = l"
    using roles by (auto simp: distinct_map inj_on_def)
qed

definition read_only_scope :: "string \<Rightarrow> bool" where
  "read_only_scope s \<longleftrightarrow> drop (length s - 3) s = '':ro''"

lemma inherits_read_only: "(s, g) \<in> (set inherits)\<^sup>* \<Longrightarrow> read_only_scope s \<Longrightarrow> read_only_scope g"
proof (induction rule: rtrancl_induct)
  case (step y z)
  have "list_all (\<lambda>(a, b). read_only_scope a \<longrightarrow> read_only_scope b) inherits"
    by code_simp
  then show ?case using step by (auto simp: list_all_iff)
qed

lemma token_decision_exact_lemma:
  assumes "rbac_engine engine" "new_policy tokens = Inr p" "i < length tokens"
    and "decide engine (Some p) (principal_name i (tokens ! i)) act res = Inr d"
  shows "dn_allow d \<longleftrightarrow>
    (\<exists>s g cap. s \<in> set (tk_scopes (tokens ! i)) \<and> trim_space s \<noteq> [] \<and> (trim_space s, g) \<in> (set inherits)\<^sup>* \<and>
       (g, act, cap) \<in> set grants \<and> prefix cap res)"
proof -
  have "engine (py_facts p) (principal_name i (tokens ! i)) act res = Inr d"
    using assms(4) by (auto simp: decide_def split: sum.splits)
  then have "dn_allow d \<longleftrightarrow> rbac_allows (py_facts p) (principal_name i (tokens ! i)) act res"
    using assms(1) unfolding rbac_engine_def by blast
  also have "\<dots> \<longleftrightarrow> (\<exists>s g cap. s \<in> set (tk_scopes (tokens ! i)) \<and> trim_space s \<noteq> [] \<and> (trim_space s, g) \<in> (set inherits)\<^sup>* \<and>
       (g, act, cap) \<in> set grants \<and> prefix cap res)"
    unfolding rbac_allows_def policy_facts(1-3) [OF assms(2)] using policy_facts(4) [OF assms(2) _ assms(3)] assms(3) by metis
  finally show ?thesis .
qed

section \<open>Properties\<close>

text \<open>The loop that collects the scopes with a use ends, and it has found exactly the scopes from which
  inheritance leads to a grant.\<close>

theorem reaches_exact: "set reaches = {s. \<exists>g\<in>fst ` set grants. (s, g) \<in> (set inherits)\<^sup>*}"
  by (simp add: reaches_def reach_loop_set)

text \<open>C23. With an engine that evaluates the role rules, a decision about the principal of a token allows exactly what
  one of the token's own scopes reaches: no other token adds to it.\<close>

theorem token_decision_exact:
  assumes "rbac_engine engine" "new_policy tokens = Inr p" "i < length tokens"
    and "decide engine (Some p) (principal_name i (tokens ! i)) act res = Inr d"
  shows "dn_allow d \<longleftrightarrow>
    (\<exists>s g cap. s \<in> set (tk_scopes (tokens ! i)) \<and> trim_space s \<noteq> [] \<and> (trim_space s, g) \<in> (set inherits)\<^sup>* \<and>
       (g, act, cap) \<in> set grants \<and> prefix cap res)"
  by (rule token_decision_exact_lemma [OF assms])

text \<open>So a token whose scopes are all read-only is never allowed to write, whatever the capability.\<close>

lemma read_only_token_never_writes:
  assumes "rbac_engine engine" "new_policy tokens = Inr p" "i < length tokens"
    and "\<And>s. s \<in> set (tk_scopes (tokens ! i)) \<Longrightarrow> read_only_scope (trim_space s)"
    and "decide engine (Some p) (principal_name i (tokens ! i)) ActionWrite res = Inr d"
  shows "\<not> dn_allow d"
proof -
  have "list_all (\<lambda>(g, act, cap). act = ActionWrite \<longrightarrow> \<not> read_only_scope g) grants" by code_simp
  then have "\<not> read_only_scope g" if "(g, ActionWrite, cap) \<in> set grants" for g cap
    using that by (auto simp: list_all_iff)
  then show ?thesis
    using token_decision_exact_lemma [OF assms(1-3,5)] assms(4) inherits_read_only by blast
qed

text \<open>An engine that evaluates the rules, and a policy with a read-only and a full token.\<close>

definition fact_inherits :: "standing_fact list \<Rightarrow> (string \<times> string) list" where
  "fact_inherits facts = List.map_filter (\<lambda>f. case f of Inherits a b \<Rightarrow> Some (a, b) | _ \<Rightarrow> None) facts"

definition rule_engine :: engine where
  "rule_engine facts prin act res =
     Inr \<lparr>dn_allow = list_ex (\<lambda>f. case f of
         Grant g a cap \<Rightarrow> a = act \<and> prefix cap res \<and> list_ex (\<lambda>s. Role prin s \<in> set facts) (reach_loop (fact_inherits facts) [g])
       | _ \<Rightarrow> False) facts, dn_steps = 0, dn_bytes = 0\<rparr>"

lemma rule_engine_rbac: "rbac_engine rule_engine"
proof -
  have edges: "set (fact_inherits facts) = {(a, b). Inherits a b \<in> set facts}" for facts
    by (induction facts) (auto simp: fact_inherits_def map_filter_simps split: standing_fact.splits)
  have "list_ex (\<lambda>f. case f of
         Grant g a cap \<Rightarrow> a = act \<and> prefix cap res \<and> list_ex (\<lambda>s. Role prin s \<in> set facts) (reach_loop (fact_inherits facts) [g])
       | _ \<Rightarrow> False) facts \<longleftrightarrow> rbac_allows facts prin act res" (is "?L \<longleftrightarrow> ?R") for facts prin act res
  proof
    show "?R" if l: "?L"
    proof -
      obtain f where "f \<in> set facts" and "case f of
         Grant g a cap \<Rightarrow> a = act \<and> prefix cap res \<and> (\<exists>s\<in>set (reach_loop (fact_inherits facts) [g]). Role prin s \<in> set facts)
       | _ \<Rightarrow> False"
        using l unfolding list_ex_iff by blast
      then show ?thesis
        unfolding rbac_allows_def by (cases f rule: standing_fact.exhaust) (auto simp: list_ex_iff reach_loop_set edges)
    qed
    show "?L" if r: "?R"
    proof -
      obtain s g cap where "Role prin s \<in> set facts" "(s, g) \<in> {(a, b). Inherits a b \<in> set facts}\<^sup>*"
          "Grant g act cap \<in> set facts" "prefix cap res"
        using r unfolding rbac_allows_def by blast
      then show ?thesis
        unfolding list_ex_iff by (intro bexI [of _ "Grant g act cap"]) (auto simp: list_ex_iff reach_loop_set edges)
    qed
  qed
  then show ?thesis unfolding rbac_engine_def rule_engine_def by simp
qed

definition demo_tokens :: "token_config list" where
  "demo_tokens = [\<lparr>tk_name = ''ro'', tk_token = ''a'', tk_scopes = [''plugin:ro'']\<rparr>, \<lparr>tk_name = [], tk_token = ''b'', tk_scopes = [''*'']\<rparr>]"

theorem token_decision_exact_witness:
  "\<exists>p d. new_policy demo_tokens = Inr p \<and> decide rule_engine (Some p) ''tokens[1]'' ActionWrite cap_plugin_invoke = Inr d \<and> dn_allow d"
proof -
  have ok: "case new_policy demo_tokens of Inr _ \<Rightarrow> True | Inl _ \<Rightarrow> False" by code_simp
  then obtain p where p: "new_policy demo_tokens = Inr p" by (auto split: sum.splits)
  obtain d where d: "decide rule_engine (Some p) (principal_name 1 (demo_tokens ! 1)) ActionWrite cap_plugin_invoke = Inr d"
    by (simp add: decide_def rule_engine_def)
  have scopes: "''*'' \<in> set (tk_scopes (demo_tokens ! 1))" "trim_space ''*'' = ''*''" "principal_name 1 (demo_tokens ! 1) = ''tokens[1]''"
    by code_simp+
  have "(''*'', ''plugin:rw'') \<in> set inherits" "(''plugin:rw'', ActionWrite, cap_plugin_invoke) \<in> set grants" by (simp_all add: inherits_def grants_def)
  then have "trim_space ''*'' \<noteq> [] \<and> (trim_space ''*'', ''plugin:rw'') \<in> (set inherits)\<^sup>* \<and>
      (''plugin:rw'', ActionWrite, cap_plugin_invoke) \<in> set grants \<and> prefix cap_plugin_invoke cap_plugin_invoke"
    unfolding scopes(2) by auto
  moreover have "1 < length demo_tokens" by (simp add: demo_tokens_def)
  ultimately have "dn_allow d"
    using token_decision_exact [OF rule_engine_rbac p _ d] scopes(1) by blast
  then show ?thesis using p d scopes(3) by auto
qed

end
