(* ===== verification/Webhook.thy ===== *)
theory Webhook
  imports Relay_Properties
begin

text \<open>
  The webhook server, \<^verbatim>\<open>src/internal/webhook\<close>: its configuration (\<^verbatim>\<open>config.go\<close>, \<^verbatim>\<open>types.go\<close>), the check of a signature
  (\<^verbatim>\<open>hmac.go\<close>) and the handler that turns a signed request into a job (\<^verbatim>\<open>server.go\<close>). Parameters: the keyed hash
  \<open>mac\<close> (HMAC-SHA256), the parser of byte sizes, and whether the body can be read. The listener and
  the router of paths are not modelled: a request reaches the handler with its path.
\<close>

section \<open>Configuration\<close>

record webhook_endpoint =
  we_name :: string
  we_path :: string
  we_plugin :: string
  we_secret_ref :: string
  we_signature_header :: string
  we_max_body_size :: string

record webhooks_config =
  wc_listen :: string
  wc_endpoints :: "webhook_endpoint list"

record endpoint_config =
  ep_path :: string
  ep_plugin :: string
  ep_command :: string
  ep_secret :: string
  ep_secret_ref :: string
  ep_signature_header :: string
  ep_max_body_size :: int

record webhook_config =
  wh_listen :: string
  wh_endpoints :: "endpoint_config list"
  wh_plugins :: "(string \<times> plugin_conf) list"

datatype webhook_error = WebhooksNil | SecretRefRequired string | SecretRefNotFound string string | InvalidMaxBodySize string string

definition default_max_body_size :: int where
  "default_max_body_size = 1048576"

definition default_command :: string where
  "default_command = ''handle''"

definition parse_max_body_size :: "(string \<Rightarrow> int option) \<Rightarrow> string \<Rightarrow> int option" where
  "parse_max_body_size parse_byte_size raw =
     (if raw = [] then Some default_max_body_size else parse_byte_size raw)"

definition endpoint_from_config ::
  "(string \<Rightarrow> int option) \<Rightarrow> (string \<times> string) list \<Rightarrow> webhook_endpoint \<Rightarrow> webhook_error + endpoint_config" where
  "endpoint_from_config parse_byte_size tokens ep =
     (if we_secret_ref ep = [] then Inl (SecretRefRequired (we_path ep))
      else case map_of tokens (we_secret_ref ep) of
        None \<Rightarrow> Inl (SecretRefNotFound (we_path ep) (we_secret_ref ep))
      | Some secret \<Rightarrow>
         (case parse_max_body_size parse_byte_size (we_max_body_size ep) of
            None \<Rightarrow> Inl (InvalidMaxBodySize (we_path ep) (we_max_body_size ep))
          | Some n \<Rightarrow>
             Inr \<lparr>ep_path = we_path ep, ep_plugin = we_plugin ep, ep_command = default_command, ep_secret = secret,
                  ep_secret_ref = we_secret_ref ep, ep_signature_header = we_signature_header ep, ep_max_body_size = n\<rparr>))"

fun endpoints_from_config ::
  "(string \<Rightarrow> int option) \<Rightarrow> (string \<times> string) list \<Rightarrow> webhook_endpoint list \<Rightarrow> webhook_error + endpoint_config list" where
  "endpoints_from_config pb tokens [] = Inr []"
| "endpoints_from_config pb tokens (ep # eps) =
     bind_result (endpoint_from_config pb tokens ep) (\<lambda>e.
     bind_result (endpoints_from_config pb tokens eps) (\<lambda>es. Inr (e # es)))"

definition from_global_config ::
  "(string \<Rightarrow> int option) \<Rightarrow> webhooks_config option \<Rightarrow> (string \<times> string) list \<Rightarrow> (string \<times> plugin_conf) list
   \<Rightarrow> webhook_error + webhook_config" where
  "from_global_config pb wc tokens plugins =
     (case wc of
        None \<Rightarrow> Inl WebhooksNil
      | Some w \<Rightarrow>
         bind_result (endpoints_from_config pb tokens (wc_endpoints w)) (\<lambda>es.
           Inr \<lparr>wh_listen = wc_listen w, wh_endpoints = es, wh_plugins = plugins\<rparr>))"

text \<open>The server looks endpoints up by path; of two endpoints with one path the later stands.\<close>

definition endpoint_defaults :: "endpoint_config \<Rightarrow> endpoint_config" where
  "endpoint_defaults ep =
     (let ep1 = (if ep_max_body_size ep = 0 then ep\<lparr>ep_max_body_size := default_max_body_size\<rparr> else ep)
      in if ep_command ep1 = [] then ep1\<lparr>ep_command := default_command\<rparr> else ep1)"

definition new_webhook_endpoints :: "webhook_config \<Rightarrow> (string \<times> endpoint_config) list" where
  "new_webhook_endpoints cfg =
     fold (\<lambda>ep eps. map_put (ep_path ep) (endpoint_defaults ep) eps) (wh_endpoints cfg) []"

section \<open>Signatures\<close>

definition webhook_parse_signature :: "string \<Rightarrow> string option" where
  "webhook_parse_signature signature =
     (if take 7 signature = ''sha256='' then hex_decode (drop 7 signature) else hex_decode signature)"

definition verify_hmac_signature :: "(string \<Rightarrow> string \<Rightarrow> string) \<Rightarrow> string \<Rightarrow> string \<Rightarrow> string \<Rightarrow> bool" where
  "verify_hmac_signature mac body signature secret =
     (if secret = [] then False
      else if signature = [] then False
      else case webhook_parse_signature signature of
        None \<Rightarrow> False
      | Some actual \<Rightarrow> mac secret body = actual)"

section \<open>The handler\<close>

record webhook_request =
  wr_path :: string
  wr_header :: "string \<Rightarrow> string"
  wr_body :: string
  wr_readable :: bool

datatype webhook_response = WebhookError int string | WebhookAccepted string

definition webhook_enqueue_request :: "webhook_config \<Rightarrow> endpoint_config \<Rightarrow> string \<Rightarrow> string \<Rightarrow> enqueue_request" where
  "webhook_enqueue_request cfg ep path body =
     \<lparr>rq_plugin = ep_plugin ep, rq_command = ep_command ep, rq_payload = body,
      rq_max_attempts =
        resolved_max_attempts (case map_of (wh_plugins cfg) (ep_plugin ep) of Some pc \<Rightarrow> pc | None \<Rightarrow> zero_plugin_conf),
      rq_submitted_by = ''webhook:'' @ path, rq_dedupe_key = None, rq_dedupe_ttl = None, rq_parent_job_id = None,
      rq_event_context_id = None, rq_source_event_id = None, rq_enqueued_config_snapshot_id = []\<rparr>"

definition handle_webhook ::
  "(string \<Rightarrow> string \<Rightarrow> string) \<Rightarrow> webhook_config \<Rightarrow> 'h gw_host_scheme \<Rightarrow> 'c gw_conf_scheme \<Rightarrow> webhook_request
   \<Rightarrow> 'x gw_state_scheme \<Rightarrow> 'x gw_state_scheme \<times> webhook_response" where
  "handle_webhook mac cfg h c req s =
     (case map_get (new_webhook_endpoints cfg) (wr_path req) of
        None \<Rightarrow> (s, WebhookError 404 ''endpoint not found'')
      | Some ep \<Rightarrow>
         if \<not> wr_readable req then (s, WebhookError 500 ''failed to read request body'')
         else let body = limited_read (ep_max_body_size ep) (wr_body req) in
         if int (length body) > ep_max_body_size ep then (s, WebhookError 413 ''payload too large'')
         else let signature = wr_header req (ep_signature_header ep) in
         if signature = [] then (s, WebhookError 403 ''forbidden'')
         else if \<not> verify_hmac_signature mac body signature (ep_secret ep) then (s, WebhookError 403 ''forbidden'')
         else case gw_enqueue h c (webhook_enqueue_request cfg ep (wr_path req) body) s of
             (s1, Inl _) \<Rightarrow> (s1, WebhookError 500 ''failed to enqueue job'')
           | (s1, Inr jid) \<Rightarrow> (s1, WebhookAccepted jid))"

section \<open>What the configuration gives the server\<close>

lemma endpoints_from_config_Inr:
  "endpoints_from_config pb tokens eps = Inr es \<Longrightarrow> list_all2 (\<lambda>ep e. endpoint_from_config pb tokens ep = Inr e) eps es"
  by (induction eps arbitrary: es) (auto simp: bind_result_Inr_iff)

lemma new_endpoints_mem:
  assumes "map_get (new_webhook_endpoints cfg) path = Some ep"
  shows "\<exists>e. e \<in> set (wh_endpoints cfg) \<and> ep_path e = path \<and> ep = endpoint_defaults e"
proof -
  have "map_get (fold (\<lambda>ep eps. map_put (ep_path ep) (endpoint_defaults ep) eps) es acc) path = Some ep \<Longrightarrow>
      (\<exists>e. e \<in> set es \<and> ep_path e = path \<and> ep = endpoint_defaults e) \<or> map_get acc path = Some ep" for es acc
    by (induction es arbitrary: acc) (fastforce split: if_splits)+
  from this [of "wh_endpoints cfg" "[]"] show ?thesis using assms by (simp add: new_webhook_endpoints_def)
qed

lemma endpoint_defaults_sel [simp]:
  "ep_path (endpoint_defaults e) = ep_path e" "ep_plugin (endpoint_defaults e) = ep_plugin e"
  "ep_secret (endpoint_defaults e) = ep_secret e" "ep_signature_header (endpoint_defaults e) = ep_signature_header e"
  "ep_command (endpoint_defaults e) \<noteq> []"
  by (simp_all add: endpoint_defaults_def default_command_def Let_def)

text \<open>Every endpoint of a server built from a configuration checks with the secret its \<^verbatim>\<open>secret_ref\<close> names.\<close>

lemma served_secret:
  assumes "from_global_config pb (Some w) tokens plugins = Inr cfg" and "map_get (new_webhook_endpoints cfg) path = Some ep"
  shows "\<exists>e. e \<in> set (wc_endpoints w) \<and> we_path e = path \<and> we_secret_ref e \<noteq> [] \<and>
    map_of tokens (we_secret_ref e) = Some (ep_secret ep) \<and> ep_plugin ep = we_plugin e \<and>
    ep_signature_header ep = we_signature_header e"
proof -
  obtain c where c: "c \<in> set (wh_endpoints cfg)" "ep_path c = path" "ep = endpoint_defaults c"
    using new_endpoints_mem [OF assms(2)] by blast
  have "list_all2 (\<lambda>ep e. endpoint_from_config pb tokens ep = Inr e) (wc_endpoints w) (wh_endpoints cfg)"
    using assms(1) by (auto simp: from_global_config_def bind_result_Inr_iff dest: endpoints_from_config_Inr)
  moreover obtain i where "i < length (wh_endpoints cfg)" "wh_endpoints cfg ! i = c"
    using c(1) by (auto simp: in_set_conv_nth)
  ultimately have "wc_endpoints w ! i \<in> set (wc_endpoints w)" "endpoint_from_config pb tokens (wc_endpoints w ! i) = Inr c"
    by (auto simp: list_all2_conv_all_nth)
  then obtain e where "e \<in> set (wc_endpoints w)" "endpoint_from_config pb tokens e = Inr c" by blast
  then show ?thesis
    using c by (auto simp: endpoint_from_config_def split: if_splits option.splits)
qed

section \<open>Only signed requests create work\<close>

lemma verify_hmac_tag:
  "verify_hmac_signature mac body sig k \<longleftrightarrow> k \<noteq> [] \<and> sig \<noteq> [] \<and> webhook_parse_signature sig = Some (mac k body)"
  by (auto simp: verify_hmac_signature_def split: option.splits)

lemma handle_webhook_enqueues:
  assumes "handle_webhook mac cfg h c req s = (s', resp)" and "gw_queue s' \<noteq> gw_queue s"
  obtains ep body where "map_get (new_webhook_endpoints cfg) (wr_path req) = Some ep"
    "body = limited_read (ep_max_body_size ep) (wr_body req)" "int (length body) \<le> ep_max_body_size ep"
    "verify_hmac_signature mac body (wr_header req (ep_signature_header ep)) (ep_secret ep)"
    "s' = fst (gw_enqueue h c (webhook_enqueue_request cfg ep (wr_path req) body) s)"
  using assms by (auto simp: handle_webhook_def Let_def split: option.splits if_splits prod.splits sum.splits)

lemma gw_enqueue_row:
  assumes "gw_queue (fst (gw_enqueue h c req s)) \<noteq> gw_queue s"
  shows "job_queue (gw_queue (fst (gw_enqueue h c req s))) =
    job_queue (gw_queue s) @ [enqueue_row (gc_queue c) (gh_uuid h (gw_drawn s)) (gh_now h) req]"
  using assms enqueue_cases [of "gc_queue c" "gh_uuid h (gw_drawn s)" "gh_now h" req "gw_queue s"]
  by (auto simp: gw_enqueue_def Let_def split: prod.splits)

text \<open>C20. A webhook request that changes the job table was signed: its header decodes to the keyed hash of the whole
  request body under the secret that the \<^verbatim>\<open>secret_ref\<close> of an endpoint at the request's path names, and what it
  adds is one queued job of that endpoint's plugin carrying that body. (The limit on the body stays
  below the greatest \<^verbatim>\<open>int64\<close>.)\<close>

theorem webhook_work_signed:
  assumes "from_global_config parse_byte_size (Some w) tokens plugins = Inr cfg"
    and "handle_webhook mac cfg h c req s = (s', resp)" and "gw_queue s' \<noteq> gw_queue s"
    and "list_all (\<lambda>e. ep_max_body_size e < 2 ^ 63 - 1) (wh_endpoints cfg)"
  shows "\<exists>e secret j. e \<in> set (wc_endpoints w) \<and> we_path e = wr_path req \<and> we_secret_ref e \<noteq> [] \<and>
    map_of tokens (we_secret_ref e) = Some secret \<and> secret \<noteq> [] \<and>
    webhook_parse_signature (wr_header req (we_signature_header e)) = Some (mac secret (wr_body req)) \<and>
    job_queue (gw_queue s') = job_queue (gw_queue s) @ [j] \<and> j_status j = StatusQueued \<and> j_plugin j = we_plugin e \<and>
    j_payload j = (if wr_body req = [] then None else Some (wr_body req)) \<and> j_submitted_by j = ''webhook:'' @ wr_path req"
  using assms(2,3)
proof (rule handle_webhook_enqueues)
  fix ep body
  assume ep: "map_get (new_webhook_endpoints cfg) (wr_path req) = Some ep"
    and body: "body = limited_read (ep_max_body_size ep) (wr_body req)" "int (length body) \<le> ep_max_body_size ep"
    and sig: "verify_hmac_signature mac body (wr_header req (ep_signature_header ep)) (ep_secret ep)"
    and s': "s' = fst (gw_enqueue h c (webhook_enqueue_request cfg ep (wr_path req) body) s)"
  have "ep_max_body_size ep < 2 ^ 63 - 1"
    using new_endpoints_mem [OF ep] assms(4)
    by (auto simp: list_all_iff endpoint_defaults_def default_max_body_size_def Let_def)
  then have whole: "body = wr_body req" using limited_read_within body by simp
  from served_secret [OF assms(1) ep] obtain e where e: "e \<in> set (wc_endpoints w)" "we_path e = wr_path req" "we_secret_ref e \<noteq> []"
    "map_of tokens (we_secret_ref e) = Some (ep_secret ep)" "ep_plugin ep = we_plugin e" "ep_signature_header ep = we_signature_header e"
    by blast
  let ?j = "enqueue_row (gc_queue c) (gh_uuid h (gw_drawn s)) (gh_now h) (webhook_enqueue_request cfg ep (wr_path req) body)"
  have "job_queue (gw_queue s') = job_queue (gw_queue s) @ [?j]"
    using assms(3) gw_enqueue_row unfolding s' by blast
  moreover have "j_status ?j = StatusQueued" "j_plugin ?j = we_plugin e" "j_submitted_by ?j = ''webhook:'' @ wr_path req"
    "j_payload ?j = (if wr_body req = [] then None else Some (wr_body req))"
    using e(5) by (simp_all add: enqueue_row_def webhook_enqueue_request_def whole)
  ultimately show ?thesis
    using e sig whole unfolding verify_hmac_tag by (intro exI [of _ e] exI [of _ "ep_secret ep"] exI [of _ ?j]) simp
qed

text \<open>Conversely both ways of writing a valid tag are taken, and give the identifier of the queued job.\<close>

lemma parse_signature_plain: "webhook_parse_signature (hex_encode m) = Some m"
proof -
  have "take 7 (hex_encode m) \<noteq> ''sha256=''"
  proof
    assume "take 7 (hex_encode m) = ''sha256=''"
    then have "CHR ''s'' \<in> set (take 7 (hex_encode m))" by simp
    then show False using in_set_takeD hex_encode_plain by metis
  qed
  then show ?thesis by (simp add: webhook_parse_signature_def hex_decode_encode)
qed

lemma parse_signature_github: "webhook_parse_signature (''sha256='' @ hex_encode m) = Some m"
  by (simp add: webhook_parse_signature_def hex_decode_encode)

lemma webhook_accepts_signed:
  assumes "map_get (new_webhook_endpoints cfg) (wr_path req) = Some ep" and "wr_readable req" and "ep_secret ep \<noteq> []"
    and "ep_max_body_size ep < 2 ^ 63 - 1" and "int (length (wr_body req)) \<le> ep_max_body_size ep"
    and "webhook_parse_signature (wr_header req (ep_signature_header ep)) = Some (mac (ep_secret ep) (wr_body req))"
    and "wr_header req (ep_signature_header ep) \<noteq> []" and "ep_plugin ep \<noteq> []" and "ep_command ep \<noteq> []"
    and "gh_uuid h (gw_drawn s) \<notin> j_id ` set (job_queue (gw_queue s))"
  shows "snd (handle_webhook mac cfg h c req s) = WebhookAccepted (gh_uuid h (gw_drawn s))"
proof -
  have "limited_read (ep_max_body_size ep) (wr_body req) = wr_body req"
    using assms(4,5) by (subst limited_read_whole) auto
  moreover have "snd (gw_enqueue h c (webhook_enqueue_request cfg ep (wr_path req) (wr_body req)) s) = Inr (gh_uuid h (gw_drawn s))"
    using assms(8,9) by (auto simp: gw_enqueue_def enqueue_def webhook_enqueue_request_def dedupe_hit_def Let_def
        split: prod.splits option.splits)
  ultimately show ?thesis
    using assms(1-3,5-7) by (auto simp: handle_webhook_def verify_hmac_tag Let_def split: prod.splits sum.splits)
qed

section \<open>An endpoint\<close>

definition demo_hooks :: webhooks_config where
  "demo_hooks = \<lparr>wc_listen = '':9'', wc_endpoints = [\<lparr>we_name = [], we_path = ''/hook'', we_plugin = ''mail'',
     we_secret_ref = ''s'', we_signature_header = ''X-Sig'', we_max_body_size = []\<rparr>]\<rparr>"

definition demo_hook_conf :: webhook_config where
  "demo_hook_conf = \<lparr>wh_listen = '':9'', wh_endpoints = [\<lparr>ep_path = ''/hook'', ep_plugin = ''mail'', ep_command = ''handle'',
     ep_secret = ''k'', ep_secret_ref = ''s'', ep_signature_header = ''X-Sig'', ep_max_body_size = default_max_body_size\<rparr>], wh_plugins = []\<rparr>"

definition demo_hook_request :: webhook_request where
  "demo_hook_request = \<lparr>wr_path = ''/hook'', wr_header = (\<lambda>_. hex_encode (demo_mac ''k'' ''{}'')), wr_body = ''{}'', wr_readable = True\<rparr>"

lemma demo_hook_handled:
  "job_queue (gw_queue (fst (handle_webhook demo_mac demo_hook_conf demo_host demo_conf demo_hook_request demo_state))) \<noteq> []"
proof -
  have "hex_encode (demo_mac ''k'' ''{}'') \<noteq> []" by (simp add: hex_encode_def demo_mac_def)
  moreover have "limited_read default_max_body_size ''{}'' = ''{}''"
    by (subst limited_read_whole) (simp_all add: default_max_body_size_def)
  ultimately show ?thesis
    by (simp add: handle_webhook_def new_webhook_endpoints_def endpoint_defaults_def demo_hook_conf_def demo_hook_request_def Let_def
        verify_hmac_tag parse_signature_plain demo_mac_def gw_enqueue_def enqueue_def webhook_enqueue_request_def dedupe_hit_def
        demo_state_def empty_db_def insert_conflict_def record_job_transition_def default_max_body_size_def
        split: prod.splits sum.splits)
qed

theorem webhook_work_signed_witness:
  "\<exists>j. job_queue (gw_queue (fst (handle_webhook demo_mac demo_hook_conf demo_host demo_conf demo_hook_request demo_state))) = [j] \<and>
     j_status j = StatusQueued \<and> j_plugin j = ''mail'' \<and> j_submitted_by j = ''webhook:/hook''"
proof -
  have conf: "from_global_config (\<lambda>_. None) (Some demo_hooks) [(''s'', ''k'')] [] = Inr demo_hook_conf"
    by (simp add: from_global_config_def demo_hooks_def demo_hook_conf_def endpoint_from_config_def parse_max_body_size_def
        default_command_def)
  obtain s' resp where h: "handle_webhook demo_mac demo_hook_conf demo_host demo_conf demo_hook_request demo_state = (s', resp)"
    by fastforce
  have start: "job_queue (gw_queue demo_state) = []" by (simp add: demo_state_def empty_db_def)
  then have "gw_queue s' \<noteq> gw_queue demo_state" using demo_hook_handled h by auto
  moreover have "list_all (\<lambda>e. ep_max_body_size e < 2 ^ 63 - 1) (wh_endpoints demo_hook_conf)"
    by (simp add: demo_hook_conf_def default_max_body_size_def)
  ultimately show ?thesis
    using webhook_work_signed [OF conf h] start h by (auto simp: demo_hooks_def demo_hook_request_def)
qed

end
