(* ===== verification/Plugin_Registry.thy ===== *)
theory Plugin_Registry
  imports Job_Execution "HOL-Library.Multiset"
begin

text \<open>
  Plugins on disk, \<^verbatim>\<open>src/internal/plugin\<close>: the manifest and its checks (\<^verbatim>\<open>manifest.go\<close>, \<^verbatim>\<open>discovery.go\<close>), the trust checks on
  the entrypoint, the registry that discovery fills and the aliases of the configuration (\<^verbatim>\<open>aliases.go\<close>). The file
  system is a parameter: what \<^verbatim>\<open>Stat\<close>, \<^verbatim>\<open>EvalSymlinks\<close>, \<^verbatim>\<open>Abs\<close>, \<^verbatim>\<open>Clean\<close>, \<^verbatim>\<open>Join\<close>, \<^verbatim>\<open>Dir\<close> and the walk over a root answer,
  and the YAML nodes of a manifest file. Letters and digits are those of ASCII. Log lines, and the
  warning for directories without a manifest, are left out.
\<close>

unbundle bit_operations_syntax

section \<open>Manifests\<close>

record emitted_values =
  el_event :: string
  el_values :: "string list"

record command_values =
  cv_consume :: "string list"
  cv_emit :: "emitted_values list"

record command =
  cm_name :: string
  cm_type :: string
  cm_description :: string
  cm_input_schema :: gval
  cm_output_schema :: gval
  cm_values :: "command_values option"
  cm_idempotent :: "bool option"
  cm_retry_safe :: "bool option"

record config_keys =
  ck_required :: "string list"
  ck_optional :: "string list"

datatype command_node = CommandNode "command option" | OtherNode

datatype commands_node = CommandsAbsent | CommandsSequence "command_node list" | CommandsOther

record manifest =
  mf_spec :: string
  mf_manifest_version :: int
  mf_name :: string
  mf_version :: string
  mf_protocol :: int
  mf_entrypoint :: string
  mf_description :: string
  mf_concurrency_safe :: "bool option"
  mf_commands :: commands_node
  mf_fact_outputs :: "fact_rule list"
  mf_config_keys :: "config_keys option"
  mf_max_subs :: "int option"

record plugin_entry =
  pg_manifest_spec :: string
  pg_manifest_version :: int
  pg_name :: string
  pg_path :: string
  pg_entrypoint :: string
  pg_protocol :: int
  pg_version :: string
  pg_description :: string
  pg_concurrency_safe :: bool
  pg_commands :: "command list"
  pg_fact_outputs :: "fact_rule list"
  pg_config_keys :: "config_keys option"
  pg_stopwatch_max_subs :: "int option"

type_synonym registry = "(string \<times> plugin_entry) list"

datatype registry_error =
    ManifestUnreadable | ManifestCommands string | ManifestInvalid string | CommandValues string string
  | FactOutputInvalid nat string | UnsupportedProtocol int | TrustFailed string | SymlinkDetected string
  | NoPluginRoot | RootUnusable string | ScanFailed string | AlreadyRegistered string
  | AliasSelf string | AliasTarget string string | AliasConflict string

definition command_type_valid :: "string \<Rightarrow> bool" where
  "command_type_valid t \<longleftrightarrow> t = ''read'' \<or> t = ''write''"

text \<open>\<^verbatim>\<open>Commands.UnmarshalYAML\<close>; \<open>CommandNode None\<close> is an object that does not decode.\<close>

definition decode_command :: "command_node \<Rightarrow> registry_error + command" where
  "decode_command n =
     (case n of
        OtherNode \<Rightarrow> Inl (ManifestCommands ''invalid command entry (must be object with name/type)'')
      | CommandNode None \<Rightarrow> Inl (ManifestCommands ''invalid command object'')
      | CommandNode (Some c) \<Rightarrow>
         let c1 = c\<lparr>cm_name := trim_space (cm_name c)\<rparr> in
         if cm_name c1 = [] then Inl (ManifestCommands ''command name is required'')
         else if cm_type c1 = [] then Inl (ManifestCommands ''missing required type'')
         else if \<not> command_type_valid (cm_type c1) then Inl (ManifestCommands ''invalid type'')
         else Inr c1)"

fun decode_commands :: "command_node list \<Rightarrow> registry_error + command list" where
  "decode_commands [] = Inr []"
| "decode_commands (n # ns) =
     bind_result (decode_command n) (\<lambda>c. bind_result (decode_commands ns) (\<lambda>cs. Inr (c # cs)))"

definition unmarshal_commands :: "commands_node \<Rightarrow> registry_error + command list" where
  "unmarshal_commands n =
     (case n of
        CommandsAbsent \<Rightarrow> Inr []
      | CommandsOther \<Rightarrow> Inl (ManifestCommands ''commands must be a sequence'')
      | CommandsSequence ns \<Rightarrow> decode_commands ns)"

text \<open>\<^verbatim>\<open>expandSchema\<close>: a map without a \<^verbatim>\<open>type\<close> is read as a compact table of properties.\<close>

definition expand_schema :: "gval \<Rightarrow> gval" where
  "expand_schema v =
     (case v of
        GMap m \<Rightarrow>
          if map_get m ''type'' \<noteq> None then v
          else GMap (map_literal [(''type'', GStr ''object''),
                 (''properties'', GMap (map (\<lambda>(k, x). (k, case x of GStr t \<Rightarrow> GMap [(''type'', GStr t)] | _ \<Rightarrow> x)) m))])
      | _ \<Rightarrow> v)"

section \<open>Manifest validation\<close>

definition is_letter :: "char \<Rightarrow> bool" where
  "is_letter c \<longleftrightarrow> (65 \<le> (of_char c :: nat) \<and> (of_char c :: nat) \<le> 90) \<or> (97 \<le> (of_char c :: nat) \<and> (of_char c :: nat) \<le> 122)"

definition value_char :: "char \<Rightarrow> bool" where
  "value_char c \<longleftrightarrow> is_letter c \<or> is_digit c \<or> c = CHR ''_'' \<or> c = CHR ''-''"

definition valid_command_name :: "string \<Rightarrow> bool" where
  "valid_command_name s = (case s of [] \<Rightarrow> False | c # cs \<Rightarrow> is_letter c \<and> list_all value_char cs)"

definition valid_value_name :: "string \<Rightarrow> string \<Rightarrow> bool" where
  "valid_value_name raw rt =
     (let name = trim_space raw; pre = rt @ ''.'' in
      if \<not> prefix pre name \<or> length name = length pre then False
      else if name = pre @ ''*'' then True
      else if list_ex (\<lambda>c. c \<in> set ([CHR '' '', CHR 0x09, CHR 0x0D, CHR 0x0A] @ ''{}[]'')) name then False
      else list_all (\<lambda>seg. seg \<noteq> [] \<and> list_all value_char seg) (split_on (CHR ''.'') (drop (length pre) name)))"

fun validate_emits :: "emitted_values list \<Rightarrow> string + unit" where
  "validate_emits [] = Inr ()"
| "validate_emits (e # es) =
     (if trim_space (el_event e) = [] then Inl ''emit event is required''
      else if \<not> list_all (\<lambda>n. valid_value_name n ''payload'') (el_values e) then Inl ''invalid emit value''
      else validate_emits es)"

definition validate_command_values :: "command \<Rightarrow> string + unit" where
  "validate_command_values c =
     (case cm_values c of
        None \<Rightarrow> Inr ()
      | Some v \<Rightarrow>
         if \<not> list_all (\<lambda>n. valid_value_name n ''payload'') (cv_consume v) then Inl ''invalid consume value''
         else validate_emits (cv_emit v))"

definition has_name :: "command list \<Rightarrow> string \<Rightarrow> bool" where
  "has_name cs name = list_ex (\<lambda>c. cm_name c = name) cs"

definition validate_fact_output_rule :: "command list \<Rightarrow> fact_rule \<Rightarrow> string + unit" where
  "validate_fact_output_rule cs r =
     (let command = trim_space (fo_command r); source = trim_space (fo_from r); view = trim_space (fo_view r) in
      if command = [] then Inl ''when.command is required''
      else if \<not> has_name cs command then Inl ''when.command is not declared in commands''
      else if source = [] then Inl ''from is required''
      else if source \<noteq> ''state_updates'' then Inl ''unsupported from''
      else if trim_space (fo_type r) = [] then Inl ''fact_type is required''
      else if view = [] \<or> view = ''mirror_object'' then Inr ()
      else Inl ''unsupported compatibility_view'')"

fun validate_commands :: "command list \<Rightarrow> registry_error + unit" where
  "validate_commands [] = Inr ()"
| "validate_commands (c # cs) =
     (if cm_name c = [] then Inl (ManifestInvalid ''command name is required'')
      else if \<not> valid_command_name (cm_name c) then Inl (ManifestInvalid ''invalid command'')
      else if \<not> command_type_valid (cm_type c) then Inl (ManifestInvalid ''invalid command type'')
      else case validate_command_values c of
        Inl e \<Rightarrow> Inl (CommandValues (cm_name c) e)
      | Inr _ \<Rightarrow> validate_commands cs)"

fun validate_fact_outputs :: "nat \<Rightarrow> command list \<Rightarrow> fact_rule list \<Rightarrow> registry_error + unit" where
  "validate_fact_outputs i cs [] = Inr ()"
| "validate_fact_outputs i cs (r # rs) =
     (case validate_fact_output_rule cs r of
        Inl e \<Rightarrow> Inl (FactOutputInvalid i e)
      | Inr _ \<Rightarrow> validate_fact_outputs (Suc i) cs rs)"

definition validate_manifest :: "manifest \<Rightarrow> command list \<Rightarrow> registry_error + unit" where
  "validate_manifest m cs =
     (if trim_space (mf_spec m) = [] then Inl (ManifestInvalid ''manifest_spec is required'')
      else if mf_spec m \<noteq> ''ductile.plugin'' then Inl (ManifestInvalid ''unsupported manifest_spec'')
      else if mf_manifest_version m = 0 then Inl (ManifestInvalid ''manifest_version is required'')
      else if mf_manifest_version m \<noteq> 1 then Inl (ManifestInvalid ''unsupported manifest_version'')
      else if mf_name m = [] then Inl (ManifestInvalid ''name is required'')
      else if mf_protocol m = 0 then Inl (ManifestInvalid ''protocol version is required'')
      else if mf_entrypoint m = [] then Inl (ManifestInvalid ''entrypoint is required'')
      else if sublist ''..'' (mf_entrypoint m) then Inl (ManifestInvalid ''entrypoint contains path traversal'')
      else if cs = [] then Inl (ManifestInvalid ''at least one command must be declared'')
      else bind_result (validate_commands cs) (\<lambda>_.
           bind_result (validate_fact_outputs 0 cs (mf_fact_outputs m)) (\<lambda>_.
             case mf_max_subs m of
               None \<Rightarrow> Inr ()
             | Some n \<Rightarrow>
                if n \<noteq> 0 \<and> (n < 1 \<or> n > max_subs_hard_upper) then Inl (ManifestInvalid ''stopwatch.max_subs out of range'')
                else Inr ())))"

section \<open>Lookups on a loaded plugin\<close>

definition command_type_for :: "plugin_entry \<Rightarrow> string \<Rightarrow> string option" where
  "command_type_for p cmd = map_option cm_type (find (\<lambda>c. cm_name c = cmd) (pg_commands p))"

definition get_read_commands :: "plugin_entry \<Rightarrow> string list" where
  "get_read_commands p = map cm_name (filter (\<lambda>c. cm_type c = ''read'') (pg_commands p))"

definition get_write_commands :: "plugin_entry \<Rightarrow> string list" where
  "get_write_commands p = map cm_name (filter (\<lambda>c. cm_type c = ''write'') (pg_commands p))"

text \<open>What the dispatcher reads of a plugin.\<close>

definition plugin_def_of :: "plugin_entry \<Rightarrow> plugin_def" where
  "plugin_def_of p =
     \<lparr>pd_commands = map cm_name (pg_commands p), pd_fact_outputs = pg_fact_outputs p,
      pd_max_subs = (case pg_stopwatch_max_subs p of None \<Rightarrow> 0 | Some n \<Rightarrow> n)\<rparr>"

section \<open>Trust\<close>

record file_info =
  fi_dir :: bool
  fi_mode :: int

record fs_host =
  fs_abs :: "string \<Rightarrow> string option"
  fs_stat :: "string \<Rightarrow> file_info option"
  fs_eval_symlinks :: "string \<Rightarrow> string option"
  fs_clean :: "string \<Rightarrow> string"
  fs_join :: "string \<Rightarrow> string \<Rightarrow> string"
  fs_parent :: "string \<Rightarrow> string"
  fs_walk :: "string \<Rightarrow> string list option"
  fs_manifest :: "string \<Rightarrow> manifest option"

definition warn_or_error_on_symlink :: "fs_host \<Rightarrow> string \<Rightarrow> string \<Rightarrow> string \<Rightarrow> bool \<Rightarrow> registry_error + unit" where
  "warn_or_error_on_symlink fs kind path resolved allow =
     (if fs_clean fs resolved = fs_clean fs path \<or> allow then Inr () else Inl (SymlinkDetected kind))"

fun in_approved_root :: "fs_host \<Rightarrow> string \<Rightarrow> string list \<Rightarrow> registry_error + bool" where
  "in_approved_root fs entry [] = Inr False"
| "in_approved_root fs entry (r # rs) =
     (case fs_eval_symlinks fs r of
        None \<Rightarrow> Inl (TrustFailed ''failed to resolve plugin root symlink'')
      | Some root_path \<Rightarrow> if prefix (root_path @ ''/'') entry then Inr True else in_approved_root fs entry rs)"

definition validate_trust_in_roots :: "fs_host \<Rightarrow> string \<Rightarrow> string \<Rightarrow> string list \<Rightarrow> bool \<Rightarrow> registry_error + unit" where
  "validate_trust_in_roots fs entry path roots allow =
     (if roots = [] then Inl (TrustFailed ''no plugin roots configured'')
      else case fs_eval_symlinks fs entry of
        None \<Rightarrow> Inl (TrustFailed ''failed to resolve entrypoint symlink'')
      | Some re \<Rightarrow>
      (case fs_eval_symlinks fs path of
        None \<Rightarrow> Inl (TrustFailed ''failed to resolve plugin path symlink'')
      | Some rp \<Rightarrow>
      bind_result (warn_or_error_on_symlink fs ''plugin_entrypoint'' entry re allow) (\<lambda>_.
      bind_result (warn_or_error_on_symlink fs ''plugin_dir'' path rp allow) (\<lambda>_.
      bind_result (in_approved_root fs re roots) (\<lambda>ok.
        if \<not> ok then Inl (TrustFailed ''entrypoint is not under any configured plugin root'')
        else if \<not> prefix (rp @ ''/'') re then Inl (TrustFailed ''entrypoint is not under plugin directory'')
        else case fs_stat fs re of
          None \<Rightarrow> Inl (TrustFailed ''entrypoint not found'')
        | Some info \<Rightarrow>
        if fi_mode info AND 73 = 0 then Inl (TrustFailed ''entrypoint is not executable'')
        else case fs_stat fs rp of
          None \<Rightarrow> Inl (TrustFailed ''plugin directory not found'')
        | Some dinfo \<Rightarrow>
        if fi_mode dinfo AND 2 \<noteq> 0 then Inl (TrustFailed ''plugin directory is world-writable'')
        else Inr ())))))"

definition validate_trust :: "fs_host \<Rightarrow> string \<Rightarrow> string \<Rightarrow> string \<Rightarrow> bool \<Rightarrow> registry_error + unit" where
  "validate_trust fs entry path dir allow = validate_trust_in_roots fs entry path [dir] allow"

definition load_plugin :: "fs_host \<Rightarrow> string \<Rightarrow> string \<Rightarrow> bool \<Rightarrow> registry_error + plugin_entry" where
  "load_plugin fs path dir allow =
     (case fs_manifest fs (fs_join fs path ''manifest.yaml'') of
        None \<Rightarrow> Inl ManifestUnreadable
      | Some m \<Rightarrow>
         bind_result (unmarshal_commands (mf_commands m)) (\<lambda>cs.
         bind_result (validate_manifest m cs) (\<lambda>_.
         if mf_protocol m \<noteq> 2 then Inl (UnsupportedProtocol (mf_protocol m))
         else let entry = fs_join fs path (mf_entrypoint m) in
         bind_result (validate_trust fs entry path dir allow) (\<lambda>_.
           Inr \<lparr>pg_manifest_spec = mf_spec m, pg_manifest_version = mf_manifest_version m, pg_name = mf_name m,
                pg_path = path, pg_entrypoint = entry, pg_protocol = mf_protocol m, pg_version = mf_version m,
                pg_description = mf_description m,
                pg_concurrency_safe = (case mf_concurrency_safe m of None \<Rightarrow> True | Some b \<Rightarrow> b),
                pg_commands = cs, pg_fact_outputs = mf_fact_outputs m, pg_config_keys = mf_config_keys m,
                pg_stopwatch_max_subs = mf_max_subs m\<rparr>))))"

section \<open>The registry\<close>

definition registry_add :: "plugin_entry \<Rightarrow> registry \<Rightarrow> registry_error + registry" where
  "registry_add p reg =
     (if map_get reg (pg_name p) \<noteq> None then Inl (AlreadyRegistered (pg_name p)) else Inr (map_put (pg_name p) p reg))"

text \<open>One pass over the manifests of a root; a plugin that fails to load, or repeats a name, is skipped.\<close>

fun scan_manifests :: "fs_host \<Rightarrow> bool \<Rightarrow> string \<Rightarrow> string list \<Rightarrow> registry \<Rightarrow> registry" where
  "scan_manifests fs allow dir [] reg = reg"
| "scan_manifests fs allow dir (f # fs') reg =
     scan_manifests fs allow dir fs'
       (case load_plugin fs (fs_parent fs f) dir allow of
          Inl _ \<Rightarrow> reg
        | Inr p \<Rightarrow> (case registry_add p reg of Inl _ \<Rightarrow> reg | Inr reg' \<Rightarrow> reg'))"

fun scan_roots :: "fs_host \<Rightarrow> bool \<Rightarrow> string list \<Rightarrow> registry \<Rightarrow> registry_error + registry" where
  "scan_roots fs allow [] reg = Inr reg"
| "scan_roots fs allow (r # rs) reg =
     (case fs_walk fs r of
        None \<Rightarrow> Inl (ScanFailed r)
      | Some files \<Rightarrow> scan_roots fs allow rs (scan_manifests fs allow r files reg))"

fun absolute_roots :: "fs_host \<Rightarrow> bool \<Rightarrow> string list \<Rightarrow> string list \<Rightarrow> registry_error + string list" where
  "absolute_roots fs allow acc [] = Inr acc"
| "absolute_roots fs allow acc (r0 # rs) =
     (let r = trim_space r0 in
      if r = [] then absolute_roots fs allow acc rs
      else case fs_abs fs r of
        None \<Rightarrow> Inl (RootUnusable r)
      | Some a \<Rightarrow>
      (case fs_stat fs a of
        None \<Rightarrow> Inl (RootUnusable a)
      | Some info \<Rightarrow>
         if \<not> fi_dir info then Inl (RootUnusable a)
         else case fs_eval_symlinks fs a of
           None \<Rightarrow> Inl (RootUnusable a)
         | Some resolved \<Rightarrow>
            bind_result (warn_or_error_on_symlink fs ''plugin_root'' a resolved allow) (\<lambda>_.
              absolute_roots fs allow (if a \<in> set acc then acc else acc @ [a]) rs)))"

definition discover_many :: "fs_host \<Rightarrow> bool \<Rightarrow> string list \<Rightarrow> registry_error + registry" where
  "discover_many fs allow roots =
     (if roots = [] then Inl NoPluginRoot
      else bind_result (absolute_roots fs allow [] roots) (\<lambda>abs_roots.
        if abs_roots = [] then Inl NoPluginRoot else scan_roots fs allow abs_roots []))"

section \<open>Aliases\<close>

text \<open>The entries come in the order of a Go map iteration, which is not fixed: the argument is one such order, with
  the \<^verbatim>\<open>uses\<close> text of each plugin.\<close>

fun apply_aliases :: "(string \<times> string) list \<Rightarrow> registry \<Rightarrow> registry_error + (registry \<times> (string \<times> string) list)" where
  "apply_aliases [] reg = Inr (reg, [])"
| "apply_aliases ((name, uses0) # ps) reg =
     (let uses = trim_space uses0 in
      if uses = [] then apply_aliases ps reg
      else if name = uses then Inl (AliasSelf name)
      else case map_get reg uses of
        None \<Rightarrow> Inl (AliasTarget name uses)
      | Some base \<Rightarrow>
         if map_get reg name \<noteq> None then Inl (AliasConflict name)
         else bind_result (registry_add (base\<lparr>pg_name := name\<rparr>) reg) (\<lambda>reg1.
              bind_result (apply_aliases ps reg1) (\<lambda>(reg2, as). Inr (reg2, (name, uses) # as))))"

section \<open>What discovery lets in\<close>

definition well_formed_commands :: "command list \<Rightarrow> bool" where
  "well_formed_commands cs \<longleftrightarrow> cs \<noteq> [] \<and> list_all (\<lambda>c. valid_command_name (cm_name c) \<and> command_type_valid (cm_type c)) cs"

definition trusted_plugin :: "fs_host \<Rightarrow> bool \<Rightarrow> string \<Rightarrow> plugin_entry \<Rightarrow> bool" where
  "trusted_plugin fs allow dir p \<longleftrightarrow>
     (\<exists>re rp rr info dinfo. fs_eval_symlinks fs (pg_entrypoint p) = Some re \<and> fs_eval_symlinks fs (pg_path p) = Some rp \<and>
        fs_eval_symlinks fs dir = Some rr \<and> prefix (rp @ ''/'') re \<and> prefix (rr @ ''/'') re \<and>
        fs_stat fs re = Some info \<and> fi_mode info AND 73 \<noteq> 0 \<and> fs_stat fs rp = Some dinfo \<and> fi_mode dinfo AND 2 = 0 \<and>
        (allow \<or> fs_clean fs re = fs_clean fs (pg_entrypoint p) \<and> fs_clean fs rp = fs_clean fs (pg_path p)))"

lemma validate_commands_ok:
  "validate_commands cs = Inr () \<Longrightarrow> list_all (\<lambda>c. valid_command_name (cm_name c) \<and> command_type_valid (cm_type c)) cs"
  by (induction cs) (auto split: if_splits sum.splits)

lemma validate_manifest_ok:
  "validate_manifest m cs = Inr () \<Longrightarrow> well_formed_commands cs \<and> mf_name m \<noteq> [] \<and> \<not> sublist ''..'' (mf_entrypoint m)"
  using validate_commands_ok by (auto simp: validate_manifest_def well_formed_commands_def bind_result_Inr_iff split: if_splits)

lemma symlink_ok:
  "warn_or_error_on_symlink fs k path resolved allow = Inr () \<longleftrightarrow> allow \<or> fs_clean fs resolved = fs_clean fs path"
  by (auto simp: warn_or_error_on_symlink_def)

lemma validate_trust_ok:
  assumes "validate_trust fs entry path dir allow = Inr ()" and "pg_entrypoint p = entry" "pg_path p = path"
  shows "trusted_plugin fs allow dir p"
  using assms
  by (auto simp: validate_trust_def validate_trust_in_roots_def trusted_plugin_def bind_result_Inr_iff symlink_ok
      split: option.splits if_splits)

lemma load_plugin_ok:
  assumes "load_plugin fs path dir allow = Inr p"
  shows "trusted_plugin fs allow dir p \<and> well_formed_commands (pg_commands p) \<and> pg_name p \<noteq> [] \<and> pg_protocol p = 2"
  using assms validate_trust_ok
  by (auto simp: load_plugin_def bind_result_Inr_iff Let_def dest!: validate_manifest_ok split: option.splits if_splits)

definition vetted :: "fs_host \<Rightarrow> bool \<Rightarrow> string list \<Rightarrow> registry \<Rightarrow> bool" where
  "vetted fs allow roots reg \<longleftrightarrow>
     (\<forall>n p. map_get reg n = Some p \<longrightarrow> pg_name p = n \<and> n \<noteq> [] \<and> pg_protocol p = 2 \<and>
        well_formed_commands (pg_commands p) \<and> list_ex (\<lambda>r. trusted_plugin fs allow r p) roots)"

lemma scan_manifests_vetted:
  assumes "vetted fs allow roots reg" and "dir \<in> set roots"
  shows "vetted fs allow roots (scan_manifests fs allow dir files reg)"
  using assms(1)
proof (induction files arbitrary: reg)
  case (Cons f files)
  show ?case
  proof (cases "load_plugin fs (fs_parent fs f) dir allow")
    case (Inl e)
    then show ?thesis using Cons by simp
  next
    case (Inr p)
    then have "vetted fs allow roots (case registry_add p reg of Inl _ \<Rightarrow> reg | Inr reg' \<Rightarrow> reg')"
      using load_plugin_ok [OF Inr] Cons.prems assms(2)
      by (auto simp: vetted_def registry_add_def list_ex_iff split: sum.splits if_splits)
    then show ?thesis using Cons.IH Inr by simp
  qed
qed simp

lemma scan_roots_vetted:
  "vetted fs allow roots reg \<Longrightarrow> set rs \<subseteq> set roots \<Longrightarrow> scan_roots fs allow rs reg = Inr reg' \<Longrightarrow> vetted fs allow roots reg'"
  by (induction rs arbitrary: reg) (auto intro: scan_manifests_vetted split: option.splits)

lemma absolute_roots_from:
  "absolute_roots fs allow acc roots = Inr rs \<Longrightarrow> a \<in> set rs \<Longrightarrow>
   a \<in> set acc \<or> (\<exists>r. r \<in> set roots \<and> fs_abs fs (trim_space r) = Some a)"
proof (induction roots arbitrary: acc)
  case (Cons r roots)
  have step: "\<exists>b. fs_abs fs (trim_space r) = Some b \<and> absolute_roots fs allow (if b \<in> set acc then acc else acc @ [b]) roots = Inr rs"
    if "trim_space r \<noteq> []"
    using Cons.prems(1) that by (auto simp: Let_def bind_result_Inr_iff simp del: if_split split: option.splits if_split_asm)
  show ?case
  proof (cases "trim_space r = []")
    case True
    then show ?thesis using Cons by auto
  next
    case False
    then obtain b where b: "fs_abs fs (trim_space r) = Some b"
      "absolute_roots fs allow (if b \<in> set acc then acc else acc @ [b]) roots = Inr rs"
      using step by blast
    then have "a \<in> set acc \<or> a = b \<or> (\<exists>r. r \<in> set roots \<and> fs_abs fs (trim_space r) = Some a)"
      using Cons.IH [OF b(2) Cons.prems(2)] by (auto split: if_splits)
    then show ?thesis using b(1) by auto
  qed
qed simp

text \<open>C22. Every plugin that discovery registers was vetted: it speaks protocol 2, declares at least one command and only
  well-formed ones, and its resolved entrypoint is an executable file strictly below the resolved directory of the plugin
  (which is not world-writable) and below one of the configured roots, with no symbolic link on the way
  unless links are allowed.\<close>

theorem discovered_plugins_trusted:
  assumes "discover_many fs allow roots = Inr reg" and "map_get reg n = Some p"
  shows "pg_name p = n \<and> pg_protocol p = 2 \<and> well_formed_commands (pg_commands p) \<and>
    (\<exists>r dir re rp info dinfo. r \<in> set roots \<and> fs_abs fs (trim_space r) = Some dir \<and>
       fs_eval_symlinks fs (pg_entrypoint p) = Some re \<and> fs_eval_symlinks fs (pg_path p) = Some rp \<and> prefix (rp @ ''/'') re \<and>
       prefix (the (fs_eval_symlinks fs dir) @ ''/'') re \<and>
       fs_stat fs re = Some info \<and> fi_mode info AND 73 \<noteq> 0 \<and> fs_stat fs rp = Some dinfo \<and> fi_mode dinfo AND 2 = 0 \<and>
       (allow \<or> fs_clean fs re = fs_clean fs (pg_entrypoint p) \<and> fs_clean fs rp = fs_clean fs (pg_path p)))"
proof -
  obtain dirs where dirs: "absolute_roots fs allow [] roots = Inr dirs" "scan_roots fs allow dirs [] = Inr reg"
    using assms(1) by (auto simp: discover_many_def bind_result_Inr_iff split: if_splits)
  have "vetted fs allow dirs []" by (simp add: vetted_def)
  then have "vetted fs allow dirs reg" using scan_roots_vetted dirs(2) by blast
  then have v: "pg_name p = n" "pg_protocol p = 2" "well_formed_commands (pg_commands p)"
    and "list_ex (\<lambda>r. trusted_plugin fs allow r p) dirs"
    using assms(2) by (auto simp: vetted_def)
  then obtain dir where "dir \<in> set dirs" and dir: "trusted_plugin fs allow dir p" by (auto simp: list_ex_iff)
  then obtain r where "r \<in> set roots" "fs_abs fs (trim_space r) = Some dir" using absolute_roots_from [OF dirs(1)] by auto
  then show ?thesis using v dir unfolding trusted_plugin_def by (metis option.sel)
qed

section \<open>Aliases do not depend on the order, unless they are chained\<close>

definition alias_names :: "(string \<times> string) list \<Rightarrow> string set" where
  "alias_names ps = {n. \<exists>u. (n, u) \<in> set ps \<and> trim_space u \<noteq> []}"

definition unchained :: "(string \<times> string) list \<Rightarrow> bool" where
  "unchained ps \<longleftrightarrow> distinct (map fst ps) \<and> list_all (\<lambda>(n, u). trim_space u \<notin> alias_names ps) ps"

definition alias_ok :: "registry \<Rightarrow> string \<times> string \<Rightarrow> bool" where
  "alias_ok reg a \<longleftrightarrow> trim_space (snd a) = [] \<or> map_get reg (trim_space (snd a)) \<noteq> None \<and> map_get reg (fst a) = None"

definition aliased :: "(string \<times> string) list \<Rightarrow> registry \<Rightarrow> string \<Rightarrow> plugin_entry option" where
  "aliased ps reg n =
     (case map_of ps n of
        Some u \<Rightarrow> if trim_space u = [] then map_get reg n
                  else map_option (\<lambda>b. b\<lparr>pg_name := n\<rparr>) (map_get reg (trim_space u))
      | None \<Rightarrow> map_get reg n)"

lemma alias_names_Cons:
  "alias_names ((n, u) # ps) = (if trim_space u = [] then alias_names ps else insert n (alias_names ps))"
  by (auto simp: alias_names_def)

lemma unchained_Cons:
  "unchained ((n, u) # ps) \<Longrightarrow>
   unchained ps \<and> n \<notin> fst ` set ps \<and> trim_space u \<notin> alias_names ps \<and>
   (trim_space u \<noteq> [] \<longrightarrow> trim_space u \<noteq> n \<and> list_all (\<lambda>(m, w). trim_space w \<noteq> n) ps)"
  by (auto simp: unchained_def alias_names_Cons list_all_iff split: if_splits)

lemma apply_aliases_exact:
  assumes "unchained ps"
  shows "if list_all (alias_ok reg) ps then \<exists>reg' as. apply_aliases ps reg = Inr (reg', as) \<and> map_get reg' = aliased ps reg
         else \<exists>e. apply_aliases ps reg = Inl e"
  using assms
proof (induction ps arbitrary: reg)
  case Nil
  show ?case by (auto simp: aliased_def)
next
  case (Cons a ps)
  obtain n u where a: "a = (n, u)" by fastforce
  note un = unchained_Cons [OF Cons.prems [unfolded a]]
  show ?case
  proof (cases "trim_space u = []")
    case True
    moreover have "aliased ((n, u) # ps) reg = aliased ps reg"
      using un True by (auto simp: aliased_def fun_eq_iff dest: map_of_SomeD split: option.splits) (metis image_eqI fst_conv map_of_SomeD)
    ultimately show ?thesis using Cons.IH [of reg] un by (auto simp: a alias_ok_def [of reg "(n, u)"] split: if_splits)
  next
    case False
    show ?thesis
    proof (cases "alias_ok reg a")
      case bad: False
      then show ?thesis using False un by (auto simp: a alias_ok_def Let_def split: option.splits)
    next
      case True
      then obtain b where b: "map_get reg (trim_space u) = Some b" "map_get reg n = None" using False by (auto simp: a alias_ok_def)
      let ?reg = "map_put n (b\<lparr>pg_name := n\<rparr>) reg"
      have fresh: "n \<noteq> m \<and> trim_space w \<noteq> n" if "(m, w) \<in> set ps" for m w
        using un False that by (force simp: list_all_iff)
      then have "alias_ok ?reg x = alias_ok reg x" if "x \<in> set ps" for x
        using that by (cases x) (auto simp: alias_ok_def)
      then have ok: "list_all (alias_ok ?reg) ps = list_all (alias_ok reg) ps" by (simp add: list_all_iff)
      have "map_of ps n = None" using un by (simp add: map_of_eq_None_iff)
      then have "aliased (a # ps) reg = aliased ps ?reg"
        using b fresh False by (auto simp: a aliased_def fun_eq_iff dest: map_of_SomeD split: option.splits)
      moreover have "apply_aliases (a # ps) reg = bind_result (apply_aliases ps ?reg) (\<lambda>(reg2, as). Inr (reg2, (n, trim_space u) # as))"
        using False b un by (auto simp: a registry_add_def Let_def)
      ultimately show ?thesis using Cons.IH [of ?reg] un ok True by (auto split: if_splits)
    qed
  qed
qed

text \<open>Aliases that do not use each other give the same registry in whatever order the configuration map is walked: if one
  order succeeds, every order does, with the same plugins under the same names.\<close>

theorem aliases_order_irrelevant:
  assumes "unchained ps" and "mset ps' = mset ps" and "apply_aliases ps reg = Inr (reg1, as1)"
  shows "\<exists>reg2 as2. apply_aliases ps' reg = Inr (reg2, as2) \<and> (\<forall>n. map_get reg2 n = map_get reg1 n)"
proof -
  have set: "set ps' = set ps" using assms(2) by (metis set_mset_mset)
  then have "unchained ps'"
    using assms(1) mset_eq_imp_distinct_iff [of "map fst ps'" "map fst ps"] assms(2)
    by (auto simp: unchained_def alias_names_def list_all_iff)
  moreover have "list_all (alias_ok reg) ps" using apply_aliases_exact [OF assms(1), of reg] assms(3) by (auto split: if_splits)
  then have "list_all (alias_ok reg) ps'" using set by (simp add: list_all_iff)
  moreover have "map_of ps' = map_of ps"
    using assms(1) \<open>unchained ps'\<close> set by (intro map_of_inject_set [THEN iffD2]) (auto simp: unchained_def)
  ultimately show ?thesis
    using apply_aliases_exact [OF assms(1), of reg] apply_aliases_exact [of ps' reg] assms(3)
    by (auto simp: aliased_def split: if_splits)
qed

text \<open>A chain of aliases is accepted or refused depending on the order of the walk.\<close>

definition chain_registry :: registry where
  "chain_registry = [(''base'', \<lparr>pg_manifest_spec = ''ductile.plugin'', pg_manifest_version = 1, pg_name = ''base'', pg_path = ''/p/base'',
     pg_entrypoint = ''/p/base/run'', pg_protocol = 2, pg_version = ''1'', pg_description = [], pg_concurrency_safe = True,
     pg_commands = [], pg_fact_outputs = [], pg_config_keys = None, pg_stopwatch_max_subs = None\<rparr>)]"

lemma alias_chain_depends_on_order:
  "(\<exists>reg as. apply_aliases [(''a'', ''base''), (''b'', ''a'')] chain_registry = Inr (reg, as)) \<and>
   apply_aliases [(''b'', ''a''), (''a'', ''base'')] chain_registry = Inl (AliasTarget ''b'' ''a'')"
proof -
  have "trim_space ''a'' = ''a''" "trim_space ''base'' = ''base''" by code_simp+
  then show ?thesis by (simp add: chain_registry_def registry_add_def Let_def)
qed

theorem aliases_order_irrelevant_witness:
  "\<exists>reg as. apply_aliases [(''b'', ''base''), (''a'', ''base'')] chain_registry = Inr (reg, as) \<and> map_option pg_path (map_get reg ''b'') = Some ''/p/base''"
proof -
  have t: "trim_space ''base'' = ''base''" by code_simp
  have "unchained [(''a'', ''base''), (''b'', ''base'')]" by (simp add: unchained_def alias_names_def t)
  moreover obtain reg1 as1 where one: "apply_aliases [(''a'', ''base''), (''b'', ''base'')] chain_registry = Inr (reg1, as1)"
    "map_option pg_path (map_get reg1 ''b'') = Some ''/p/base''"
    by (simp add: chain_registry_def registry_add_def t Let_def)
  moreover have "mset [(''b'', ''base''), (''a'', ''base'')] = mset [(''a'', ''base''), (''b'', ''base'')]" by simp
  ultimately show ?thesis using aliases_order_irrelevant [of "[(''a'', ''base''), (''b'', ''base'')]"] by metis
qed

text \<open>A rule whose command is written with blanks around it passes validation, which trims it, and then never applies.\<close>

lemma padded_fact_rule_never_applies:
  "validate_fact_output_rule [c\<lparr>cm_name := ''poll''\<rparr>] \<lparr>fo_command = '' poll'', fo_from = ''state_updates'', fo_type = ''t'', fo_view = []\<rparr> = Inr () \<and>
   fact_output_rules_for_command
     (pd\<lparr>pd_fact_outputs := [\<lparr>fo_command = '' poll'', fo_from = ''state_updates'', fo_type = ''t'', fo_view = []\<rparr>]\<rparr>) ''poll'' = []"
proof -
  have "trim_space '' poll'' = ''poll''" "trim_space ''state_updates'' = ''state_updates''" "trim_space ''t'' = ''t''" "trim_space [] = []"
    by code_simp+
  then show ?thesis by (simp add: validate_fact_output_rule_def has_name_def fact_output_rules_for_command_def)
qed

section \<open>A plugin on disk\<close>

definition demo_manifest :: manifest where
  "demo_manifest = \<lparr>mf_spec = ''ductile.plugin'', mf_manifest_version = 1, mf_name = ''mail'', mf_version = ''1'', mf_protocol = 2,
     mf_entrypoint = ''run'', mf_description = [], mf_concurrency_safe = None,
     mf_commands = CommandsSequence [CommandNode (Some \<lparr>cm_name = ''poll'', cm_type = ''write'', cm_description = [],
       cm_input_schema = GNil, cm_output_schema = GNil, cm_values = None, cm_idempotent = None, cm_retry_safe = None\<rparr>)],
     mf_fact_outputs = [], mf_config_keys = None, mf_max_subs = None\<rparr>"

definition demo_fs :: fs_host where
  "demo_fs = \<lparr>fs_abs = Some, fs_stat = (\<lambda>_. Some \<lparr>fi_dir = True, fi_mode = 493\<rparr>), fs_eval_symlinks = Some, fs_clean = (\<lambda>p. p),
     fs_join = (\<lambda>a b. a @ ''/'' @ b), fs_parent = (\<lambda>_. ''/p/mail''), fs_walk = (\<lambda>_. Some [''/p/mail/manifest.yaml'']),
     fs_manifest = (\<lambda>_. Some demo_manifest)\<rparr>"

theorem discovered_plugins_trusted_witness:
  "\<exists>reg p. discover_many demo_fs False [''/p''] = Inr reg \<and> map_get reg ''mail'' = Some p \<and> pg_name p = ''mail'' \<and>
     well_formed_commands (pg_commands p)"
proof -
  have "(case discover_many demo_fs False [''/p''] of Inr reg \<Rightarrow> map_get reg ''mail'' \<noteq> None | Inl _ \<Rightarrow> False)" by code_simp
  then obtain reg p where "discover_many demo_fs False [''/p''] = Inr reg" "map_get reg ''mail'' = Some p"
    by (auto split: sum.splits)
  then show ?thesis using discovered_plugins_trusted [of demo_fs False "[''/p'']" reg "''mail''" p] by blast
qed

end
