(* ===== verification/Queue_Listings.thy ===== *)
theory Queue_Listings
  imports Queue_Invariants
begin

text \<open>
  The read-only listings of the job queue, \<^verbatim>\<open>src/internal/queue/queue.go\<close>: log search (\<^verbatim>\<open>ListJobLogs\<close>), metrics, the active
  polls of the scheduler and the transitions of a circuit breaker. The time bounds of a log search come as
  the text the query compares with (the source formats the given time in the zone it was given in, while the column is
  UTC). SQL's \<^verbatim>\<open>LIKE\<close> ignores the case of ASCII letters.
\<close>

section \<open>Log search\<close>

fun sql_like :: "string \<Rightarrow> string \<Rightarrow> bool" where
  "sql_like [] t \<longleftrightarrow> t = []"
| "sql_like (p # ps) [] \<longleftrightarrow> p = CHR 0x25 \<and> sql_like ps []"
| "sql_like (p # ps) (c # cs) \<longleftrightarrow>
     (if p = CHR 0x25 then sql_like ps (c # cs) \<or> sql_like (p # ps) cs
      else (p = CHR ''_'' \<or> lower_char p = lower_char c) \<and> sql_like ps cs)"

record job_log_filter =
  jf_job_id :: string
  jf_plugin :: string
  jf_command :: string
  jf_status :: "status option"
  jf_submitted_by :: string
  jf_since :: "string option"
  jf_until :: "string option"
  jf_query :: string
  jf_limit :: int
  jf_include_result :: bool

record job_log_entry =
  je_job_id :: string
  je_log_id :: string
  je_plugin :: string
  je_command :: string
  je_status :: status
  je_attempt :: int
  je_submitted_by :: string
  je_created_at :: instant
  je_completed_at :: instant
  je_last_error :: "string option"
  je_stderr :: "string option"
  je_result :: "string option"

text \<open>The row of the queue that the left join finds: the job at the attempt of the log row.\<close>

definition joined_job :: "queue_db \<Rightarrow> job_log_row \<Rightarrow> job option" where
  "joined_job db l = find (\<lambda>j. j_id j = jl_job_id l \<and> j_attempt j = jl_attempt l) (job_queue db)"

definition query_matches :: "string \<Rightarrow> job_log_row \<Rightarrow> bool" where
  "query_matches q l \<longleftrightarrow>
     (let needle = CHR 0x25 # to_lower (trim_space q) @ [CHR 0x25];
          like = (\<lambda>col. sql_like needle (to_lower (case col of None \<Rightarrow> [] | Some t \<Rightarrow> t)))
      in like (jl_last_error l) \<or> like (jl_stderr l) \<or> like (jl_result l))"

definition log_matches :: "job_log_filter \<Rightarrow> queue_db \<Rightarrow> job_log_row \<Rightarrow> bool" where
  "log_matches f db l \<longleftrightarrow>
     (jf_job_id f \<noteq> [] \<longrightarrow> map_option j_id (joined_job db l) = Some (jf_job_id f) \<or> sql_like (jf_job_id f @ ''-'' @ [CHR 0x25]) (jl_id l)) \<and>
     (jf_plugin f \<noteq> [] \<longrightarrow> jl_plugin l = jf_plugin f) \<and>
     (jf_command f \<noteq> [] \<longrightarrow> jl_command l = jf_command f) \<and>
     (jf_status f \<noteq> None \<longrightarrow> jf_status f = Some (jl_status l)) \<and>
     (jf_submitted_by f \<noteq> [] \<longrightarrow> jl_submitted_by l = jf_submitted_by f) \<and>
     (case jf_since f of None \<Rightarrow> True | Some t \<Rightarrow> t \<le> rfc3339nano (jl_completed_at l)) \<and>
     (case jf_until f of None \<Rightarrow> True | Some t \<Rightarrow> rfc3339nano (jl_completed_at l) \<le> t) \<and>
     (trim_space (jf_query f) \<noteq> [] \<longrightarrow> query_matches (jf_query f) l)"

definition log_entry :: "bool \<Rightarrow> job_log_row \<Rightarrow> job_log_entry" where
  "log_entry include_result l =
     \<lparr>je_job_id = jl_job_id l, je_log_id = jl_id l, je_plugin = jl_plugin l, je_command = jl_command l, je_status = jl_status l,
      je_attempt = jl_attempt l, je_submitted_by = jl_submitted_by l, je_created_at = jl_created_at l,
      je_completed_at = jl_completed_at l, je_last_error = jl_last_error l, je_stderr = jl_stderr l,
      je_result = (if include_result then jl_result l else None)\<rparr>"

definition list_job_logs :: "job_log_filter \<Rightarrow> queue_db \<Rightarrow> job_log_entry list \<times> nat" where
  "list_job_logs f db =
     (let limit = (if jf_limit f \<le> 0 then 50 else jf_limit f);
          matching = filter (log_matches f db) (job_log db)
      in (map (log_entry (jf_include_result f))
            (take (nat limit) (rev (sort_key (\<lambda>l. rfc3339nano (jl_completed_at l)) matching))),
          length matching))"

section \<open>Metrics\<close>

record active_job =
  aj_job_id :: string
  aj_plugin :: string
  aj_command :: string
  aj_started_at :: instant

record queue_metrics =
  qm_queue_depth :: nat
  qm_running_count :: nat
  qm_delayed_count :: nat
  qm_dead_count :: nat
  qm_active_jobs :: "active_job list"
  qm_plugin_lanes :: "(string \<times> nat) list"

definition status_count :: "status \<Rightarrow> queue_db \<Rightarrow> nat" where
  "status_count st db = length (filter (\<lambda>j. j_status j = st) (job_queue db))"

definition active_job_of :: "job \<Rightarrow> active_job" where
  "active_job_of j =
     \<lparr>aj_job_id = j_id j, aj_plugin = j_plugin j, aj_command = j_command j,
      aj_started_at = (case j_started_at j of None \<Rightarrow> zero_time | Some t \<Rightarrow> t)\<rparr>"

definition metrics :: "instant \<Rightarrow> queue_db \<Rightarrow> queue_metrics" where
  "metrics now db =
     (let running = filter (\<lambda>j. j_status j = StatusRunning) (job_queue db) in
      \<lparr>qm_queue_depth = status_count StatusQueued db, qm_running_count = status_count StatusRunning db,
       qm_delayed_count =
         length (filter (\<lambda>j. j_status j = StatusQueued \<and>
           (case j_next_retry_at j of None \<Rightarrow> False | Some t \<Rightarrow> rfc3339nano now < rfc3339nano t)) (job_queue db)),
       qm_dead_count = status_count StatusDead db,
       qm_active_jobs =
         map active_job_of (sort_key (\<lambda>j. case j_started_at j of None \<Rightarrow> [] | Some t \<Rightarrow> rfc3339nano t) running),
       qm_plugin_lanes =
         map (\<lambda>p. (p, length (filter (\<lambda>j. j_plugin j = p) running))) (sort (remdups (map j_plugin running)))\<rparr>)"

section \<open>Active polls and breaker transitions\<close>

record scheduler_active_poll =
  sa_job_id :: string
  sa_plugin :: string
  sa_dedupe_key :: "string option"
  sa_status :: status
  sa_attempt :: int
  sa_created_at :: instant
  sa_started_at :: "instant option"

definition list_scheduler_active_polls :: "string \<Rightarrow> queue_db \<Rightarrow> queue_error + scheduler_active_poll list" where
  "list_scheduler_active_polls submitted_by db =
     (if submitted_by = [] then Inl SubmittedByEmpty
      else Inr (map (\<lambda>j. \<lparr>sa_job_id = j_id j, sa_plugin = j_plugin j, sa_dedupe_key = j_dedupe_key j, sa_status = j_status j,
                         sa_attempt = j_attempt j, sa_created_at = j_created_at j, sa_started_at = j_started_at j\<rparr>)
             (sort_key (\<lambda>j. rfc3339nano (j_created_at j))
               (filter (\<lambda>j. j_command j = ''poll'' \<and> j_submitted_by j = submitted_by \<and> outstanding_status (j_status j))
                 (job_queue db)))))"

definition list_circuit_breaker_transitions ::
  "string \<Rightarrow> string \<Rightarrow> int \<Rightarrow> queue_db \<Rightarrow> queue_error + circuit_breaker_transition list" where
  "list_circuit_breaker_transitions p cmd limit db =
     (if p = [] then Inl PluginEmpty
      else if cmd = [] then Inl CommandEmpty
      else Inr (take (nat (if limit \<le> 0 then 20 else limit))
             (rev (sort_key (\<lambda>t. rfc3339nano (bt_created_at t))
               (filter (\<lambda>t. bt_plugin t = p \<and> bt_command t = cmd) (circuit_breaker_transitions db))))))"

section \<open>Facts\<close>

lemma sql_like_any: "sql_like [CHR 0x25] t"
  by (induction t) auto

text \<open>The counts of the metrics agree with one another and with the depth of the queue.\<close>

lemma metrics_consistent:
  "qm_queue_depth (metrics now db) + qm_running_count (metrics now db) = depth db"
  "qm_delayed_count (metrics now db) \<le> qm_queue_depth (metrics now db)"
  "length (qm_active_jobs (metrics now db)) = qm_running_count (metrics now db)"
proof -
  have "length (filter (\<lambda>j. j_status j = StatusQueued) js) + length (filter (\<lambda>j. j_status j = StatusRunning) js) =
      length (filter (\<lambda>j. outstanding_status (j_status j)) js)" for js
    by (induction js) (auto simp: outstanding_status_def)
  then show "qm_queue_depth (metrics now db) + qm_running_count (metrics now db) = depth db"
    by (simp add: metrics_def status_count_def depth_def Let_def)
  have "length (filter (\<lambda>j. j_status j = StatusQueued \<and> Q j) js) \<le> length (filter (\<lambda>j. j_status j = StatusQueued) js)" for Q js
    by (induction js) auto
  then show "qm_delayed_count (metrics now db) \<le> qm_queue_depth (metrics now db)"
    by (simp add: metrics_def status_count_def Let_def)
  show "length (qm_active_jobs (metrics now db)) = qm_running_count (metrics now db)"
    by (simp add: metrics_def status_count_def Let_def)
qed

end
