(* ===== verification/Api.thy ===== *)
theory Api
  imports Plugin_Registry Auth Queue_Listings
begin

text \<open>
  The HTTP API, \<^verbatim>\<open>src/internal/api\<close>: the authentication and policy gates of its routes (\<^verbatim>\<open>auth.go\<close>, \<^verbatim>\<open>server.go\<close>) and its
  handlers (\<^verbatim>\<open>handlers.go\<close>): starting a pipeline or a plugin command, and reading jobs, job trees and logs. A
  request reaches its route with the URL parameters; an answer is a value of \<open>api_response\<close>. Parameters:
  the policy engine, the decoders of a body and of a time, how many synchronous requests are running, how waiting for a
  job tree ends, what the runtime's reload does (\<open>ae_reload\<close>), whether the connection can stream (\<open>ae_flusher\<close>) and what the
  read-only routes that are not modelled answer (\<open>ae_other\<close>). The route of the relay receiver, which \<^verbatim>\<open>server.go\<close> mounts outside
  these gates, is \<open>handle_relay\<close> of the relay's theory, and the vault's routes are in \<open>Api_Vault\<close>. A missing router panics, which
  the recovery middleware answers with status 500. The text of an error keeps its fixed part.
\<close>

section \<open>Requests and answers\<close>

datatype api_route =
    RouteRoot | RouteHealthz
  | RouteListPlugins | RouteListSkills | RouteOpenAPIAll | RouteWellKnown | RouteOpenAPIPlugin string
  | RoutePluginTrigger string string | RouteGetPlugin string | RouteTopology | RoutePipelineTrigger string
  | RouteGetJob string | RouteGetJobTree string | RouteListJobs | RouteListJobLogs | RouteSchedulerJobs
  | RouteAnalyticsSummary | RouteQueueMetrics | RouteStopwatch string | RouteReload | RouteConfigView
  | RouteDoctor | RouteSelfcheck | RouteEvents

record api_request =
  aq_authorization :: string
  aq_query :: "(string \<times> string) list"
  aq_content_length :: int
  aq_body :: string
  aq_last_event_id :: string

record job_status_response =
  js_job_id :: string
  js_status :: string
  js_plugin :: string
  js_command :: string
  js_result :: "string option"
  js_started_at :: "instant option"
  js_completed_at :: "instant option"

record job_list_item =
  ji_job_id :: string
  ji_plugin :: string
  ji_command :: string
  ji_status :: string
  ji_created_at :: instant
  ji_started_at :: "instant option"
  ji_completed_at :: "instant option"
  ji_attempt :: int

record job_result_data =
  jd_job_id :: string
  jd_parent_job_id :: "string option"
  jd_plugin :: string
  jd_command :: string
  jd_status :: string
  jd_result :: "string option"
  jd_last_error :: "string option"
  jd_started_at :: "instant option"
  jd_completed_at :: "instant option"

record sync_response =
  sy_job_id :: string
  sy_status :: string
  sy_duration_ms :: int
  sy_result :: "string option"
  sy_tree :: "job_result_data list"

record skill_summary =
  sk_name :: string
  sk_kind :: string
  sk_description :: string
  sk_endpoint :: string
  sk_tier :: string
  sk_plugin :: string
  sk_command :: string
  sk_pipeline :: string
  sk_trigger :: string
  sk_execution_mode :: string
  sk_timeout_secs :: int

datatype api_response =
    ApiError int string
  | ApiOverlimit int int
  | ApiTriggered string string string
  | ApiTimeout string
  | ApiSync sync_response
  | ApiJob job_status_response
  | ApiJobTree "job_result_data list"
  | ApiJobList "job_list_item list" nat
  | ApiJobLogs "job_log_entry list" nat
  | ApiMetrics queue_metrics
  | ApiSummary "(string \<times> nat) list"
  | ApiHealth nat nat
  | ApiPlugins "(string \<times> string \<times> string \<times> string list) list"
  | ApiSkills "skill_summary list"
  | ApiPlugin string string string int "(string \<times> string \<times> string \<times> gval \<times> gval) list"
  | ApiOther int string

fun response_status :: "api_response \<Rightarrow> int" where
  "response_status (ApiError st msg) = st"
| "response_status (ApiOverlimit actual limit) = 413"
| "response_status (ApiTriggered jid plugin command) = 202"
| "response_status (ApiTimeout jid) = 202"
| "response_status (ApiOther st body) = st"
| "response_status r = 200"

record api_conf =
  ac_tokens :: "token_config list"
  ac_policy :: "policy option"
  ac_engine :: engine
  ac_registry :: registry
  ac_runtime_config :: bool
  ac_max_concurrent_sync :: int
  ac_max_sync_timeout :: int

record api_env =
  ae_trigger :: "string \<Rightarrow> string option"
  ae_time_text :: "string \<Rightarrow> string option"
  ae_busy :: int
  ae_wait :: "string \<Rightarrow> int \<Rightarrow> wait_error + job_result list"
  ae_elapsed_ms :: int
  ae_reload :: "(disp_state \<Rightarrow> disp_state \<times> (string + string)) option"
  ae_flusher :: bool
  ae_other :: "api_route \<Rightarrow> api_response"

text \<open>\<^verbatim>\<open>New\<close>: the bound on synchronous requests has a default, and a missing policy is built from the tokens; if that
  fails the server has none.\<close>

definition new_api :: "api_conf \<Rightarrow> api_conf" where
  "new_api a =
     a\<lparr>ac_max_concurrent_sync := (if ac_max_concurrent_sync a \<le> 0 then 10 else ac_max_concurrent_sync a),
       ac_policy := (case ac_policy a of
           Some p \<Rightarrow> Some p
         | None \<Rightarrow> (case new_policy (ac_tokens a) of Inr p \<Rightarrow> Some p | Inl _ \<Rightarrow> None))\<rparr>"

definition query_param :: "api_request \<Rightarrow> string \<Rightarrow> string" where
  "query_param r k = (case map_of (aq_query r) k of None \<Rightarrow> [] | Some v \<Rightarrow> v)"

section \<open>The gates\<close>

definition api_authenticate :: "api_conf \<Rightarrow> bool \<Rightarrow> api_request \<Rightarrow> api_response + string" where
  "api_authenticate a allow_query r =
     (case extract_bearer_token (aq_authorization r) (query_param r ''token'') allow_query of
        Inl _ \<Rightarrow> Inl (ApiError 401 ''bearer token required'')
      | Inr token \<Rightarrow>
         (case authenticate token (ac_tokens a) of
            None \<Rightarrow> Inl (ApiError 401 ''invalid token'')
          | Some prin \<Rightarrow> Inr prin))"

definition api_decide :: "api_conf \<Rightarrow> string \<Rightarrow> action \<Rightarrow> string \<Rightarrow> bool" where
  "api_decide a prin act cap =
     (case decide (ac_engine a) (ac_policy a) prin act cap of Inl _ \<Rightarrow> False | Inr d \<Rightarrow> dn_allow d)"

definition require :: "api_conf \<Rightarrow> string \<Rightarrow> action \<Rightarrow> string \<Rightarrow> api_response + unit" where
  "require a prin act cap = (if api_decide a prin act cap then Inr () else Inl (ApiError 403 ''insufficient scope''))"

definition can_see_job_results :: "api_conf \<Rightarrow> string \<Rightarrow> bool" where
  "can_see_job_results a prin = api_decide a prin ActionRead cap_jobs_result"

section \<open>Starting a pipeline\<close>

definition max_attempts_for_plugin :: "api_conf \<Rightarrow> disp_conf \<Rightarrow> string \<Rightarrow> int" where
  "max_attempts_for_plugin a c p = (if ac_runtime_config a then resolved_max_attempts (plugin_conf_of c p) else 0)"

definition api_event :: "string \<Rightarrow> gmap \<Rightarrow> event" where
  "api_event ty payload =
     \<lparr>ev_type = ty, ev_payload = payload, ev_dedupe_key = [], ev_source = [], ev_timestamp = zero_time, ev_event_id = []\<rparr>"

definition decode_trigger :: "api_env \<Rightarrow> api_request \<Rightarrow> api_response + string" where
  "decode_trigger e r =
     (if aq_content_length r > 0 then
        (case ae_trigger e (aq_body r) of None \<Rightarrow> Inl (ApiError 400 ''invalid JSON body'') | Some p \<Rightarrow> Inr p)
      else Inr [])"

definition payload_object :: "disp_host \<Rightarrow> string \<Rightarrow> api_response + gmap" where
  "payload_object h raw =
     (if raw = [] then Inr []
      else case dh_object h raw of
        None \<Rightarrow> Inl (ApiError 400 ''payload must be a JSON object'')
      | Some m \<Rightarrow> Inr (case m of None \<Rightarrow> [] | Some x \<Rightarrow> x))"

text \<open>The updates of an entry row, as the bytes the admission gate measures and as a value.\<close>

definition pipeline_entry_context_updates ::
  "disp_host \<Rightarrow> pipelines \<Rightarrow> string \<Rightarrow> string \<Rightarrow> gmap \<Rightarrow> api_response + string \<times> raw_json" where
  "pipeline_entry_context_updates h ps pl step payload =
     (case get_node ps pl step of
        Some nd \<Rightarrow>
          (case nd_baggage nd of
             Some sp \<Rightarrow>
               if spec_empty sp then Inr (''{}'', RawJSON (GMap []))
               else (case apply_claims payload (Some sp) [] of
                   Inl _ \<Rightarrow> Inl (ApiError 400 ''root baggage claims failed'')
                 | Inr m \<Rightarrow>
                    (case gh_marshal h (GMap m) of
                       None \<Rightarrow> Inl (ApiError 500 ''failed to create event context'')
                     | Some raw \<Rightarrow> Inr (raw, RawJSON (json_clone (GMap m)))))
           | None \<Rightarrow> Inr (''{}'', RawJSON (GMap [])))
      | None \<Rightarrow> Inr (''{}'', RawJSON (GMap [])))"

record entry_plan =
  pn_step_id :: string
  pn_raw :: string
  pn_updates :: raw_json

fun entry_plans :: "disp_host \<Rightarrow> pipelines \<Rightarrow> pipeline_info \<Rightarrow> gmap \<Rightarrow> dispatch list \<Rightarrow> api_response + entry_plan list" where
  "entry_plans h ps info payload [] = Inr []"
| "entry_plans h ps info payload (d # ds) =
     (let step = (if dp_step_id d = [] then pi_entry_step_id info else dp_step_id d) in
      bind_result (pipeline_entry_context_updates h ps (pi_name info) step payload) (\<lambda>(raw, u).
      bind_result (entry_plans h ps info payload ds) (\<lambda>pns.
        Inr (\<lparr>pn_step_id = step, pn_raw = raw, pn_updates = u\<rparr> # pns))))"

fun admit_plans :: "disp_host \<Rightarrow> disp_conf \<Rightarrow> entry_plan list \<Rightarrow> disp_state \<Rightarrow> api_response + unit" where
  "admit_plans h c [] s = Inr ()"
| "admit_plans h c (p # pns) s =
     (let r = admit (map_option (new_admitter (Some (\<lambda>pl cmd k. dedupe_status_of (gc_queue c) (gh_now h) pl cmd k (gw_queue s))))
                       (gc_admitter c))
                \<lparr>ai_dedupe_key = [], ai_plugin = [], ai_command = [], ai_accumulated_json = pn_raw p\<rparr>
      in if ar_decision r = AdmissionRejectOverlimit then Inl (ApiOverlimit (ar_bytes_actual r) (ar_bytes_limit r))
         else admit_plans h c pns s)"

definition draw_uuid :: "disp_host \<Rightarrow> disp_state \<Rightarrow> disp_state \<times> string" where
  "draw_uuid h s = (s\<lparr>gw_drawn := Suc (gw_drawn s)\<rparr>, gh_uuid h (gw_drawn s))"

definition create_pipeline_instance_context ::
  "disp_host \<Rightarrow> disp_conf \<Rightarrow> string \<Rightarrow> int \<Rightarrow> disp_state \<Rightarrow> disp_state \<times> (api_response + string option)" where
  "create_pipeline_instance_context h c pl max_depth s =
     (if \<not> gc_contexts c then (s, Inr None)
      else let (s1, iid) = draw_uuid h s in
      case bind_result (with_pipeline_instance_id RawEmpty iid) (\<lambda>u.
           bind_result (with_route_depth u 0) (\<lambda>u. if max_depth > 0 then with_route_max_depth u max_depth else Inr u)) of
        Inl _ \<Rightarrow> (s1, Inl (ApiError 500 ''failed to create pipeline context''))
      | Inr u \<Rightarrow>
         (case gw_create_context h c None pl [] u s1 of
            (s2, Inl _) \<Rightarrow> (s2, Inl (ApiError 500 ''failed to create pipeline context''))
          | (s2, Inr row) \<Rightarrow> (s2, Inr (Some (ec_id row)))))"

definition entry_updates ::
  "event_context list \<Rightarrow> string option \<Rightarrow> raw_json \<Rightarrow> int \<Rightarrow> int \<Rightarrow> raw_json option" where
  "entry_updates tab parent u0 route_depth max_depth =
     (let seeded = (case parent of
          None \<Rightarrow> Some u0
        | Some pid \<Rightarrow>
           (case get_context pid tab of
              Inl _ \<Rightarrow> None
            | Inr p \<Rightarrow>
               let iid = pipeline_instance_id_from_accumulated (RawJSON (GMap (ec_accumulated p))) in
               if iid = [] then Some u0
               else (case with_pipeline_instance_id u0 iid of Inl _ \<Rightarrow> None | Inr u \<Rightarrow> Some u)))
      in case seeded of
           None \<Rightarrow> None
         | Some u \<Rightarrow>
            (case bind_result (if route_depth > 0 then with_route_depth u route_depth else Inr u) (\<lambda>u.
                    if max_depth > 0 then with_route_max_depth u max_depth else Inr u) of
               Inl _ \<Rightarrow> None
             | Inr u \<Rightarrow> Some u))"

definition create_pipeline_entry_context ::
  "disp_host \<Rightarrow> disp_conf \<Rightarrow> string option \<Rightarrow> string \<Rightarrow> entry_plan \<Rightarrow> dispatch \<Rightarrow> disp_state \<Rightarrow> disp_state \<times> (api_response + string option)" where
  "create_pipeline_entry_context h c parent pl pn d s =
     (if \<not> gc_contexts c then (s, Inr None)
      else case entry_updates (gw_contexts s) parent (pn_updates pn) (dp_route_depth d) (dp_route_max_depth d) of
        None \<Rightarrow> (s, Inl (ApiError 500 ''failed to create event context''))
      | Some u \<Rightarrow>
         (case gw_create_context h c parent pl (pn_step_id pn) u s of
            (s1, Inl _) \<Rightarrow> (s1, Inl (ApiError 500 ''failed to create event context''))
          | (s1, Inr row) \<Rightarrow> (s1, Inr (Some (ec_id row)))))"

definition api_enqueue_request :: "api_conf \<Rightarrow> disp_conf \<Rightarrow> string \<Rightarrow> string \<Rightarrow> string \<Rightarrow> string option \<Rightarrow> enqueue_request" where
  "api_enqueue_request a c plugin command payload ctx =
     \<lparr>rq_plugin = plugin, rq_command = command, rq_payload = payload, rq_max_attempts = max_attempts_for_plugin a c plugin,
      rq_submitted_by = ''api'', rq_dedupe_key = None, rq_dedupe_ttl = None, rq_parent_job_id = None,
      rq_event_context_id = ctx, rq_source_event_id = None, rq_enqueued_config_snapshot_id = []\<rparr>"

definition trigger_payload :: "disp_host \<Rightarrow> string \<Rightarrow> string \<Rightarrow> event \<Rightarrow> string option" where
  "trigger_payload h command raw ev = (if command = ''handle'' then gh_marshal_event h ev else Some raw)"

text \<open>The loop over the entry dispatches, with their plans; the first error ends it.\<close>

fun enqueue_entries ::
  "api_conf \<Rightarrow> disp_host \<Rightarrow> disp_conf \<Rightarrow> string \<Rightarrow> string option \<Rightarrow> string \<Rightarrow> event \<Rightarrow> string list \<Rightarrow> (dispatch \<times> entry_plan) list
   \<Rightarrow> disp_state \<Rightarrow> disp_state \<times> (api_response + string list)" where
  "enqueue_entries a h c pl root_id raw ev ids [] s = (s, Inr ids)"
| "enqueue_entries a h c pl root_id raw ev ids ((d, pn) # ds) s =
     bind_step (create_pipeline_entry_context h c root_id pl pn d s) (\<lambda>ctx s1.
       case trigger_payload h (dp_command d) raw ev of
         None \<Rightarrow> (s1, Inl (ApiError 500 ''failed to marshal handle event payload''))
       | Some payload \<Rightarrow>
          (case gw_enqueue h c (api_enqueue_request a c (dp_plugin d) (dp_command d) payload ctx) s1 of
             (s2, Inl _) \<Rightarrow>
               (s2, Inl (ApiError 500 (if ids = [] then ''failed to enqueue job''
                                       else ''pipeline partially enqueued; check prior job status and retry'')))
           | (s2, Inr jid) \<Rightarrow> enqueue_entries a h c pl root_id raw ev (ids @ [jid]) ds s2))"

definition terminal_step_set :: "compiled_route list \<Rightarrow> string list \<Rightarrow> string list" where
  "terminal_step_set routes fallback =
     (let out = filter (\<lambda>t. t \<noteq> []) (map (\<lambda>r. trim_space (rs_step_id (cr_source r)))
                  (filter (\<lambda>r. cr_destination r = DestTerminal) routes))
      in if out \<noteq> [] then out else filter (\<lambda>t. t \<noteq> []) (map trim_space fallback))"

definition sync_result_data :: "job_result \<Rightarrow> job_result_data" where
  "sync_result_data r =
     \<lparr>jd_job_id = jr_job_id r, jd_parent_job_id = None, jd_plugin = jr_plugin r, jd_command = jr_command r,
      jd_status = status_text (jr_status r), jd_result = jr_result r, jd_last_error = jr_last_error r,
      jd_started_at = jr_started_at r, jd_completed_at = jr_completed_at r\<rparr>"

definition failing_status :: "status \<Rightarrow> bool" where
  "failing_status st \<longleftrightarrow> st = StatusFailed \<or> st = StatusTimedOut \<or> st = StatusDead"

text \<open>The last job that matches decides the status, the root result and the terminal result.\<close>

definition sync_response_of :: "string list \<Rightarrow> string \<Rightarrow> int \<Rightarrow> job_result list \<Rightarrow> sync_response" where
  "sync_response_of terminals jid ms results =
     (let root_result = fold (\<lambda>r acc. if jr_job_id r = jid then jr_result r else acc) results None;
          final = fold (\<lambda>r acc. if failing_status (jr_status r) then jr_status r else acc) results StatusSucceeded;
          terminal = fold (\<lambda>r acc. if jr_step_id r \<in> set terminals then jr_result r else acc) results None
      in \<lparr>sy_job_id = jid, sy_status = status_text final, sy_duration_ms = ms,
          sy_result = (case terminal of None \<Rightarrow> root_result | Some t \<Rightarrow> Some t),
          sy_tree = map sync_result_data results\<rparr>)"

definition sync_wait :: "api_env \<Rightarrow> api_conf \<Rightarrow> pipelines \<Rightarrow> string \<Rightarrow> pipeline_info \<Rightarrow> string \<Rightarrow> api_response" where
  "sync_wait e a ps name info jid =
     (if ae_busy e \<ge> ac_max_concurrent_sync a then ApiError 503 ''too many concurrent synchronous requests''
      else let timeout = (if ac_max_sync_timeout a > 0 \<and> pi_timeout info > ac_max_sync_timeout a
                          then ac_max_sync_timeout a else pi_timeout info)
      in case ae_wait e jid timeout of
           Inl WaitTimedOut \<Rightarrow> ApiTimeout jid
         | Inl _ \<Rightarrow> ApiError 500 ''wait failed''
         | Inr results \<Rightarrow>
            ApiSync (sync_response_of (terminal_step_set (get_compiled_routes ps name) (pi_terminal_step_ids info)) jid
              (ae_elapsed_ms e) results))"

definition publish_pipeline_enqueued :: "disp_host \<Rightarrow> string \<Rightarrow> string list \<Rightarrow> disp_state \<Rightarrow> disp_state" where
  "publish_pipeline_enqueued h name ids s =
     publish_event h ''pipeline.enqueued''
       [(''at'', GStr (rfc3339nano (gh_now h))), (''job_id'', GStr (hd ids)), (''job_ids'', GList (map GStr ids)),
        (''job_count'', GInt (int (length ids))), (''pipeline'', GStr name), (''submitted_by'', GStr ''api'')] s"

definition run_entries ::
  "api_env \<Rightarrow> api_conf \<Rightarrow> disp_host \<Rightarrow> disp_conf \<Rightarrow> pipelines \<Rightarrow> string \<Rightarrow> pipeline_info \<Rightarrow> bool \<Rightarrow> string \<Rightarrow> event
   \<Rightarrow> dispatch list \<Rightarrow> entry_plan list \<Rightarrow> disp_state \<Rightarrow> disp_state \<times> api_response" where
  "run_entries e a h c ps name info sync raw ev ds pns s =
     (case bind_step (create_pipeline_instance_context h c (pi_name info) (dp_route_max_depth (hd ds)) s) (\<lambda>root_id s1.
             enqueue_entries a h c (pi_name info) root_id raw ev [] (zip ds pns) s1) of
        (s1, Inl r) \<Rightarrow> (s1, r)
      | (s1, Inr ids) \<Rightarrow>
         if ids = [] then (s1, ApiError 500 ''failed to enqueue job'')
         else (publish_pipeline_enqueued h name ids s1,
               if sync then sync_wait e a ps name info (hd ids) else ApiTriggered (hd ids) ''pipeline'' name))"

definition zero_plan :: entry_plan where
  "zero_plan = \<lparr>pn_step_id = [], pn_raw = [], pn_updates = RawEmpty\<rparr>"

definition trigger_event_type :: "pipeline_info \<Rightarrow> string" where
  "trigger_event_type info =
     (if trim_space (pi_trigger info) = [] then ''api.pipeline.trigger'' else trim_space (pi_trigger info))"

text \<open>Everything that is decided before the first write.\<close>

definition prepare_entries ::
  "api_env \<Rightarrow> disp_host \<Rightarrow> disp_conf \<Rightarrow> pipelines \<Rightarrow> string \<Rightarrow> pipeline_info \<Rightarrow> bool \<Rightarrow> api_request \<Rightarrow> disp_state
   \<Rightarrow> api_response + string \<times> event \<times> dispatch list \<times> entry_plan list" where
  "prepare_entries e h c ps name info sync r s =
     bind_result (decode_trigger e r) (\<lambda>raw.
     bind_result (payload_object h raw) (\<lambda>payload.
       let ev = api_event (trigger_event_type info) payload in
       (case get_entry_dispatches ps name ev of
          Inl _ \<Rightarrow> Inl (ApiError 500 ''failed to resolve pipeline entry'')
        | Inr ds \<Rightarrow>
           if ds = [] then Inl (ApiError 500 ''pipeline has no entry points'')
           else if sync \<and> length ds \<noteq> 1
           then Inl (ApiError 400 ''synchronous pipeline trigger requires exactly one entry dispatch'')
           else bind_result (if gc_contexts c then entry_plans h ps info payload ds
                             else Inr (map (\<lambda>_. zero_plan) ds)) (\<lambda>pns.
                bind_result (if gc_contexts c then admit_plans h c pns s else Inr ()) (\<lambda>_.
                  Inr (raw, ev, ds, pns))))))"

definition handle_pipeline_trigger ::
  "api_env \<Rightarrow> api_conf \<Rightarrow> disp_host \<Rightarrow> disp_conf \<Rightarrow> string \<Rightarrow> string \<Rightarrow> api_request \<Rightarrow> disp_state \<Rightarrow> disp_state \<times> api_response" where
  "handle_pipeline_trigger e a h c prin name r s =
     (case gc_router c of
        None \<Rightarrow> (s, ApiError 500 [])
      | Some ps \<Rightarrow>
     (case get_pipeline_by_name ps name of
        None \<Rightarrow> (s, ApiError 404 ''pipeline not found'')
      | Some info \<Rightarrow>
         if \<not> api_decide a prin ActionWrite cap_pipeline_trigger
         then (s, ApiError 403 ''insufficient scope to trigger pipeline'')
         else let sync = (pi_execution_mode info = ''synchronous'' \<and> query_param r ''async'' \<noteq> ''true'') in
         (case prepare_entries e h c ps name info sync r s of
            Inl resp \<Rightarrow> (s, resp)
          | Inr (raw, ev, ds, pns) \<Rightarrow> run_entries e a h c ps name info sync raw ev ds pns s)))"

section \<open>Starting a plugin command\<close>

definition plugin_supports :: "plugin_entry \<Rightarrow> string \<Rightarrow> bool" where
  "plugin_supports p cmd = list_ex (\<lambda>c. cm_name c = cmd) (pg_commands p)"

definition plugin_trigger_payload :: "api_env \<Rightarrow> disp_host \<Rightarrow> string \<Rightarrow> api_request \<Rightarrow> api_response + string" where
  "plugin_trigger_payload e h command r =
     bind_result (decode_trigger e r) (\<lambda>raw.
       if command \<noteq> ''handle'' then Inr raw
       else bind_result (payload_object h raw) (\<lambda>payload.
         case gh_marshal_event h (api_event ''api.trigger'' payload) of
           None \<Rightarrow> Inl (ApiError 500 ''failed to marshal handle event payload'')
         | Some raw_ev \<Rightarrow> Inr raw_ev))"

definition handle_plugin_trigger ::
  "api_env \<Rightarrow> api_conf \<Rightarrow> disp_host \<Rightarrow> disp_conf \<Rightarrow> string \<Rightarrow> string \<Rightarrow> string \<Rightarrow> api_request \<Rightarrow> disp_state \<Rightarrow> disp_state \<times> api_response" where
  "handle_plugin_trigger e a h c prin plugin command r s =
     (case map_get (ac_registry a) plugin of
        None \<Rightarrow> (s, ApiError 400 ''plugin not found'')
      | Some p \<Rightarrow>
         if \<not> plugin_supports p command then (s, ApiError 400 ''command not supported by plugin'')
         else if command_type_for p command \<noteq> Some ''read'' \<and> \<not> api_decide a prin ActionWrite cap_plugin_invoke
         then (s, ApiError 403 ''insufficient scope'')
         else case plugin_trigger_payload e h command r of
           Inl resp \<Rightarrow> (s, resp)
         | Inr payload \<Rightarrow>
            (case gw_enqueue h c (api_enqueue_request a c plugin command payload None) s of
               (s1, Inl _) \<Rightarrow> (s1, ApiError 500 ''failed to enqueue job'')
             | (s1, Inr jid) \<Rightarrow>
                (publish_event h ''job.enqueued''
                   [(''at'', GStr (rfc3339nano (gh_now h))), (''job_id'', GStr jid), (''plugin'', GStr plugin),
                    (''command'', GStr command), (''submitted_by'', GStr ''api''), (''direct'', GBool True)] s1,
                 ApiTriggered jid plugin command)))"

end
