(* ===== verification/Api_Reads.thy ===== *)
theory Api_Reads
  imports Api Scheduler
begin

text \<open>
  The reading routes of the API, \<^verbatim>\<open>src/internal/api/handlers.go\<close>, \<^verbatim>\<open>scheduler_handler.go\<close> and \<^verbatim>\<open>events_handler.go\<close>, and the
  table of routes with the gate each one stands behind (\<^verbatim>\<open>setupRoutes\<close> in \<^verbatim>\<open>server.go\<close>). \<open>serve\<close> is one request
  from its header to its answer.
\<close>

section \<open>Jobs\<close>

definition handle_get_job :: "api_conf \<Rightarrow> string \<Rightarrow> string \<Rightarrow> disp_state \<Rightarrow> api_response" where
  "handle_get_job a prin jid s =
     (case get_job_by_id (step_of_contexts (gw_contexts s)) jid (gw_queue s) of
        Inl ErrJobNotFound \<Rightarrow> ApiError 404 ''job not found''
      | Inl _ \<Rightarrow> ApiError 500 ''failed to retrieve job''
      | Inr j \<Rightarrow>
         ApiJob \<lparr>js_job_id = jr_job_id j, js_status = status_text (jr_status j), js_plugin = jr_plugin j, js_command = jr_command j,
           js_result = (if can_see_job_results a prin then jr_result j else None),
           js_started_at = jr_started_at j, js_completed_at = jr_completed_at j\<rparr>)"

definition tree_result_data :: "bool \<Rightarrow> job_result \<Rightarrow> job_result_data" where
  "tree_result_data visible r =
     \<lparr>jd_job_id = jr_job_id r, jd_parent_job_id = jr_parent_job_id r, jd_plugin = jr_plugin r, jd_command = jr_command r,
      jd_status = status_text (jr_status r), jd_result = (if visible then jr_result r else None),
      jd_last_error = (if visible then jr_last_error r else None),
      jd_started_at = jr_started_at r, jd_completed_at = jr_completed_at r\<rparr>"

definition handle_get_job_tree :: "api_conf \<Rightarrow> string \<Rightarrow> string \<Rightarrow> disp_state \<Rightarrow> api_response" where
  "handle_get_job_tree a prin jid s =
     ApiJobTree (map (tree_result_data (can_see_job_results a prin))
       (get_job_tree (step_of_contexts (gw_contexts s)) jid (gw_queue s)))"

definition parse_job_status_filter :: "string \<Rightarrow> status option" where
  "parse_job_status_filter raw =
     (let t = to_lower (trim_space raw) in
      if t = ''pending'' then Some StatusQueued
      else if t = ''ok'' then Some StatusSucceeded
      else if t = ''error'' then Some StatusFailed
      else find (\<lambda>st. status_text st = t)
        [StatusQueued, StatusRunning, StatusSucceeded, StatusFailed, StatusTimedOut, StatusDead])"

definition parse_limit :: "api_request \<Rightarrow> api_response + int" where
  "parse_limit r =
     (let raw = trim_space (query_param r ''limit'') in
      if raw = [] then Inr 50
      else case atoi raw of
        None \<Rightarrow> Inl (ApiError 400 ''limit must be a positive integer'')
      | Some n \<Rightarrow>
         if n \<le> 0 then Inl (ApiError 400 ''limit must be a positive integer'')
         else if n > 200 then Inl (ApiError 400 ''limit must be <= 200'')
         else Inr n)"

definition parse_status :: "api_request \<Rightarrow> api_response + status option" where
  "parse_status r =
     (let raw = trim_space (query_param r ''status'') in
      if raw = [] then Inr None
      else case parse_job_status_filter raw of
        None \<Rightarrow> Inl (ApiError 400 ''invalid status filter'')
      | Some st \<Rightarrow> Inr (Some st))"

definition parse_time_param :: "api_env \<Rightarrow> api_request \<Rightarrow> string \<Rightarrow> string \<Rightarrow> api_response + string option" where
  "parse_time_param e r key msg =
     (let raw = trim_space (query_param r key) in
      if raw = [] then Inr None
      else case ae_time_text e raw of None \<Rightarrow> Inl (ApiError 400 msg) | Some t \<Rightarrow> Inr (Some t))"

definition job_list_item_of :: "job \<Rightarrow> job_list_item" where
  "job_list_item_of j =
     \<lparr>ji_job_id = j_id j, ji_plugin = j_plugin j, ji_command = j_command j, ji_status = status_text (j_status j),
      ji_created_at = j_created_at j, ji_started_at = j_started_at j, ji_completed_at = j_completed_at j, ji_attempt = j_attempt j\<rparr>"

definition handle_list_jobs :: "api_request \<Rightarrow> disp_state \<Rightarrow> api_response" where
  "handle_list_jobs r s =
     (case bind_result (parse_limit r) (\<lambda>n. bind_result (parse_status r) (\<lambda>st. Inr (n, st))) of
        Inl resp \<Rightarrow> resp
      | Inr (n, st) \<Rightarrow>
         (case list_jobs \<lparr>lf_plugin = trim_space (query_param r ''plugin''), lf_command = trim_space (query_param r ''command''),
                 lf_status = st, lf_limit = n\<rparr> (gw_queue s) of
            (js, n_all) \<Rightarrow> ApiJobList (map job_list_item_of js) n_all))"

definition job_log_filter_of :: "api_env \<Rightarrow> api_request \<Rightarrow> api_response + job_log_filter" where
  "job_log_filter_of e r =
     bind_result (parse_limit r) (\<lambda>n.
     bind_result (parse_status r) (\<lambda>st.
     bind_result (parse_time_param e r ''from'' ''invalid from timestamp'') (\<lambda>since.
     bind_result (parse_time_param e r ''to'' ''invalid to timestamp'') (\<lambda>until.
       Inr \<lparr>jf_job_id = trim_space (query_param r ''job_id''), jf_plugin = trim_space (query_param r ''plugin''),
            jf_command = trim_space (query_param r ''command''), jf_status = st,
            jf_submitted_by = trim_space (query_param r ''submitted_by''), jf_since = since, jf_until = until,
            jf_query = trim_space (query_param r ''query''), jf_limit = n,
            jf_include_result = (to_lower (trim_space (query_param r ''include_result'')) = ''true'')\<rparr>))))"

definition shape_log :: "bool \<Rightarrow> job_log_entry \<Rightarrow> job_log_entry" where
  "shape_log visible e =
     (if visible then e else e\<lparr>je_last_error := None, je_stderr := None, je_result := None\<rparr>)"

definition handle_list_job_logs :: "api_env \<Rightarrow> api_conf \<Rightarrow> string \<Rightarrow> api_request \<Rightarrow> disp_state \<Rightarrow> api_response" where
  "handle_list_job_logs e a prin r s =
     (case job_log_filter_of e r of
        Inl resp \<Rightarrow> resp
      | Inr f \<Rightarrow>
         (case list_job_logs f (gw_queue s) of
            (logs, n_all) \<Rightarrow> ApiJobLogs (map (shape_log (can_see_job_results a prin)) logs) n_all))"

definition handle_analytics_summary :: "disp_host \<Rightarrow> disp_state \<Rightarrow> api_response" where
  "handle_analytics_summary h s =
     (let cutoff = rfc3339nano (gh_now h - 24 * hour);
          recent = filter (\<lambda>l. cutoff \<le> rfc3339nano (jl_completed_at l)) (job_log (gw_queue s));
          stats = sort (remdups (map (\<lambda>l. status_text (jl_status l)) recent))
      in ApiSummary (map (\<lambda>t. (t, length (filter (\<lambda>l. status_text (jl_status l) = t) recent))) stats))"

definition handle_queue_metrics :: "disp_host \<Rightarrow> disp_state \<Rightarrow> api_response" where
  "handle_queue_metrics h s = ApiMetrics (metrics (gh_now h) (gw_queue s))"

definition handle_healthz :: "api_conf \<Rightarrow> disp_state \<Rightarrow> api_response" where
  "handle_healthz a s = ApiHealth (depth (gw_queue s)) (length (ac_registry a))"

section \<open>Catalogue\<close>

definition sorted_registry :: "api_conf \<Rightarrow> plugin_entry list" where
  "sorted_registry a = map snd (sort_key fst (ac_registry a))"

definition handle_list_plugins :: "api_conf \<Rightarrow> api_response" where
  "handle_list_plugins a =
     ApiPlugins (map (\<lambda>p. (pg_name p, pg_version p, pg_description p, map cm_name (pg_commands p))) (sorted_registry a))"

definition plugin_skill :: "plugin_entry \<Rightarrow> command \<Rightarrow> skill_summary" where
  "plugin_skill p c =
     \<lparr>sk_name = ''plugin.'' @ pg_name p @ ''.'' @ cm_name c, sk_kind = ''plugin'', sk_description = cm_description c,
      sk_endpoint = ''/plugin/'' @ pg_name p @ ''/'' @ cm_name c, sk_tier = (if cm_type c = ''read'' then ''READ'' else ''WRITE''),
      sk_plugin = pg_name p, sk_command = cm_name c, sk_pipeline = [], sk_trigger = [], sk_execution_mode = [], sk_timeout_secs = 0\<rparr>"

definition pipeline_skill :: "pipeline_info \<Rightarrow> skill_summary" where
  "pipeline_skill p =
     \<lparr>sk_name = ''pipeline.'' @ pi_name p, sk_kind = ''pipeline'', sk_description = [], sk_endpoint = ''/pipeline/'' @ pi_name p,
      sk_tier = [], sk_plugin = [], sk_command = [], sk_pipeline = pi_name p, sk_trigger = pi_trigger p,
      sk_execution_mode = (if trim_space (pi_execution_mode p) = [] then ''asynchronous'' else trim_space (pi_execution_mode p)),
      sk_timeout_secs = (if pi_timeout p > 0 then pi_timeout p div second else 0)\<rparr>"

definition handle_list_skills :: "api_conf \<Rightarrow> disp_conf \<Rightarrow> api_response" where
  "handle_list_skills a c =
     ApiSkills (concat (map (\<lambda>p. map (plugin_skill p) (sort_key cm_name (pg_commands p))) (sorted_registry a)) @
       (case gc_router c of None \<Rightarrow> [] | Some ps \<Rightarrow> map pipeline_skill (pipeline_summary ps)))"

definition handle_get_plugin :: "api_conf \<Rightarrow> string \<Rightarrow> api_response" where
  "handle_get_plugin a name =
     (case map_get (ac_registry a) name of
        None \<Rightarrow> ApiError 404 ''plugin not found''
      | Some p \<Rightarrow>
         ApiPlugin (pg_name p) (pg_version p) (pg_description p) (pg_protocol p)
           (map (\<lambda>c. (cm_name c, cm_type c, cm_description c, expand_schema (cm_input_schema c), expand_schema (cm_output_schema c)))
             (pg_commands p)))"

section \<open>The preview of the schedules\<close>

record scheduler_job =
  sj_plugin :: string
  sj_schedule_id :: string
  sj_command :: string
  sj_mode :: string
  sj_status :: string
  sj_timezone :: string
  sj_next_run_at :: "instant option"

definition schedule_mode :: "schedule_config \<Rightarrow> string" where
  "schedule_mode sc =
     (if trim_space (sc_every sc) \<noteq> [] then ''every''
      else if trim_space (sc_cron sc) \<noteq> [] then ''cron''
      else if trim_space (sc_at sc) \<noteq> [] then ''at''
      else if sc_after sc > 0 then ''after''
      else ''unknown'')"

text \<open>\<open>None\<close>: the schedule is invalid; \<open>Some None\<close>: no time to show.\<close>

definition projected_next_run :: "host \<Rightarrow> schedule_config \<Rightarrow> instant \<Rightarrow> instant \<Rightarrow> instant option option" where
  "projected_next_run ho sc now started_at =
     (let mode = schedule_mode sc in
      if mode = ''every'' then
        (case parse_interval (ho_parse_float ho) (ho_parse_duration ho) (sc_every sc) of
           Inl _ \<Rightarrow> None | Inr d \<Rightarrow> Some (Some (now + d)))
      else if mode = ''cron'' then
        (case parse_cron (sc_cron sc) of
           Inl _ \<Rightarrow> None
         | Inr expr \<Rightarrow>
            (case (if trim_space (sc_timezone sc) = [] then Some (ho_local ho) else ho_zone ho (trim_space (sc_timezone sc))) of
               None \<Rightarrow> None
             | Some off \<Rightarrow> (case next_after expr off now of None \<Rightarrow> None | Some t \<Rightarrow> Some (Some t))))
      else if mode = ''at'' then
        (case ho_parse_rfc3339 ho (sc_at sc) of None \<Rightarrow> None | Some t \<Rightarrow> Some (Some (max t now)))
      else if mode = ''after'' then Some (Some (max (started_at + sc_after sc) now))
      else Some None)"

definition handle_scheduler_jobs :: "host \<Rightarrow> bool \<Rightarrow> (string \<times> plugin_conf) list \<Rightarrow> instant \<Rightarrow> instant \<Rightarrow> scheduler_job list" where
  "handle_scheduler_jobs ho configured plugins now started_at =
     (if \<not> configured then []
      else concat (map (\<lambda>(name, pc).
        if \<not> pc_enabled pc then []
        else map (\<lambda>sc.
          let row = \<lparr>sj_plugin = name, sj_schedule_id = sc_id sc, sj_command = entry_command sc, sj_mode = schedule_mode sc,
                     sj_status = ''scheduled'', sj_timezone = trim_space (sc_timezone sc), sj_next_run_at = None\<rparr>
          in case projected_next_run ho sc now started_at of
               None \<Rightarrow> row\<lparr>sj_status := ''invalid''\<rparr>
             | Some t \<Rightarrow> row\<lparr>sj_next_run_at := t\<rparr>) (normalized_schedules pc)) (sort_key fst plugins)))"

section \<open>The event stream\<close>

definition parse_last_event_id :: "string \<Rightarrow> int" where
  "parse_last_event_id v = (if v = [] then 0 else case atoi v of None \<Rightarrow> 0 | Some n \<Rightarrow> if n < 0 then 0 else n)"

definition write_sse :: "hub_event \<Rightarrow> string" where
  "write_sse ev =
     ''id: '' @ int_str (he_id ev) @ [CHR 0x0A] @
     (if he_type ev = [] then [] else ''event: '' @ he_type ev @ [CHR 0x0A]) @
     ''data: '' @ he_data ev @ [CHR 0x0A, CHR 0x0A]"

text \<open>The buffered events are written first and the client is subscribed afterwards; whatever is published in between
  (\<open>between\<close>) happens to the hub in that gap.\<close>

definition open_event_stream :: "string \<Rightarrow> (hub \<Rightarrow> hub) \<Rightarrow> hub \<Rightarrow> string list \<times> hub \<times> nat" where
  "open_event_stream last_id between hb =
     (let backlog = map write_sse (snapshot_since (parse_last_event_id last_id) hb) in (backlog, subscribe (between hb)))"

text \<open>\<^verbatim>\<open>handleEvents\<close> up to its return, with no other publisher in the gap: the subscription is cancelled when the client
  leaves, and what is left of the stream in the hub is a subscriber number.\<close>

definition handle_events :: "api_env \<Rightarrow> api_request \<Rightarrow> disp_state \<Rightarrow> disp_state \<times> api_response" where
  "handle_events e r s =
     (if \<not> ae_flusher e then (s, ApiError 500 ''streaming unsupported'')
      else case open_event_stream (aq_last_event_id r) id (ds_hub s) of
        (backlog, hb, sub) \<Rightarrow> (s\<lparr>ds_hub := cancel_sub sub hb\<rparr>, ApiOther 200 (concat backlog)))"

section \<open>Reloading\<close>

text \<open>The reload function is the runtime's, outside this model: it may stop the runtime, replace the hub and re-queue orphaned
  jobs before it reports success or an error, so its effect on the state is a parameter of the environment.\<close>

definition handle_system_reload :: "api_env \<Rightarrow> disp_state \<Rightarrow> disp_state \<times> api_response" where
  "handle_system_reload e s =
     (case ae_reload e of
        None \<Rightarrow> (s, ApiError 501 ''reload not supported'')
      | Some reload_func \<Rightarrow>
         (case reload_func s of
            (s1, Inl err) \<Rightarrow> (s1, ApiError 409 err)
          | (s1, Inr resp) \<Rightarrow> (s1, ApiOther 200 resp)))"

section \<open>Cross-origin requests\<close>

text \<open>The headers the middleware adds, and whether it answers the request itself (a preflight, with status 204).\<close>

definition cors :: "string list \<Rightarrow> string \<Rightarrow> string \<Rightarrow> string \<Rightarrow> (string \<times> string) list \<times> bool" where
  "cors allowed_origins origin method request_method =
     (if origin = [] \<or> origin \<notin> set (filter (\<lambda>x. x \<noteq> []) allowed_origins) then ([], False)
      else
        let base = [(''Vary'', ''Origin''), (''Access-Control-Allow-Origin'', origin),
                    (''Access-Control-Allow-Credentials'', ''true''), (''Access-Control-Expose-Headers'', ''Link'')]
        in if method = ''OPTIONS'' \<and> request_method \<noteq> [] then
             (base @ [(''Vary'', ''Access-Control-Request-Method''), (''Vary'', ''Access-Control-Request-Headers''),
                (''Access-Control-Allow-Methods'', ''GET, POST, PUT, DELETE, OPTIONS''),
                (''Access-Control-Allow-Headers'', ''Accept, Authorization, Content-Type, X-CSRF-Token''),
                (''Access-Control-Max-Age'', ''300'')], True)
           else (base, False))"

lemma cors_credentials_listed:
  "(''Access-Control-Allow-Credentials'', v) \<in> set (fst (cors allowed origin method rm)) \<Longrightarrow>
   origin \<in> set allowed \<and> origin \<noteq> []"
  by (auto simp: cors_def Let_def split: if_splits)

section \<open>Routes\<close>

datatype gate = GateOpen | GateToken | GatePolicy bool action string

fun route_gate :: "api_route \<Rightarrow> gate" where
  "route_gate RouteRoot = GateOpen"
| "route_gate RouteHealthz = GateOpen"
| "route_gate RouteListPlugins = GateToken"
| "route_gate RouteListSkills = GateToken"
| "route_gate RouteOpenAPIAll = GateToken"
| "route_gate RouteWellKnown = GateToken"
| "route_gate (RouteOpenAPIPlugin p) = GateToken"
| "route_gate (RoutePluginTrigger p cmd) = GatePolicy False ActionRead cap_plugin_invoke"
| "route_gate (RouteGetPlugin p) = GatePolicy False ActionRead cap_plugin_catalog"
| "route_gate RouteTopology = GatePolicy False ActionRead cap_system_topology"
| "route_gate (RoutePipelineTrigger p) = GatePolicy False ActionWrite cap_pipeline_trigger"
| "route_gate (RouteGetJob j) = GatePolicy False ActionRead cap_jobs_status"
| "route_gate (RouteGetJobTree j) = GatePolicy False ActionRead cap_jobs_tree"
| "route_gate RouteListJobs = GatePolicy False ActionRead cap_jobs_status"
| "route_gate RouteListJobLogs = GatePolicy False ActionRead cap_jobs_logs"
| "route_gate RouteSchedulerJobs = GatePolicy False ActionRead cap_jobs_status"
| "route_gate RouteAnalyticsSummary = GatePolicy False ActionRead cap_jobs_status"
| "route_gate RouteQueueMetrics = GatePolicy False ActionRead cap_jobs_status"
| "route_gate (RouteStopwatch p) = GatePolicy False ActionRead cap_jobs_status"
| "route_gate RouteReload = GatePolicy False ActionWrite cap_system_reload"
| "route_gate RouteConfigView = GatePolicy False ActionRead cap_system_config"
| "route_gate RouteDoctor = GatePolicy False ActionRead cap_system_doctor"
| "route_gate RouteSelfcheck = GatePolicy False ActionRead cap_system_selfcheck"
| "route_gate RouteEvents = GatePolicy True ActionRead cap_events_stream"

fun handle_route ::
  "api_env \<Rightarrow> api_conf \<Rightarrow> disp_host \<Rightarrow> disp_conf \<Rightarrow> string \<Rightarrow> api_route \<Rightarrow> api_request \<Rightarrow> disp_state \<Rightarrow> disp_state \<times> api_response" where
  "handle_route e a h c prin (RoutePipelineTrigger name) r s = handle_pipeline_trigger e a h c prin name r s"
| "handle_route e a h c prin (RoutePluginTrigger p cmd) r s = handle_plugin_trigger e a h c prin p cmd r s"
| "handle_route e a h c prin (RouteGetJob jid) r s = (s, handle_get_job a prin jid s)"
| "handle_route e a h c prin (RouteGetJobTree jid) r s = (s, handle_get_job_tree a prin jid s)"
| "handle_route e a h c prin RouteListJobs r s = (s, handle_list_jobs r s)"
| "handle_route e a h c prin RouteListJobLogs r s = (s, handle_list_job_logs e a prin r s)"
| "handle_route e a h c prin RouteAnalyticsSummary r s = (s, handle_analytics_summary h s)"
| "handle_route e a h c prin RouteQueueMetrics r s = (s, handle_queue_metrics h s)"
| "handle_route e a h c prin RouteHealthz r s = (s, handle_healthz a s)"
| "handle_route e a h c prin RouteListPlugins r s = (s, handle_list_plugins a)"
| "handle_route e a h c prin RouteListSkills r s = (s, handle_list_skills a c)"
| "handle_route e a h c prin (RouteGetPlugin p) r s = (s, handle_get_plugin a p)"
| "handle_route e a h c prin RouteReload r s = handle_system_reload e s"
| "handle_route e a h c prin RouteEvents r s = handle_events e r s"
| "handle_route e a h c prin route r s = (s, ae_other e route)"

definition serve ::
  "api_env \<Rightarrow> api_conf \<Rightarrow> disp_host \<Rightarrow> disp_conf \<Rightarrow> api_route \<Rightarrow> api_request \<Rightarrow> disp_state \<Rightarrow> disp_state \<times> api_response" where
  "serve e a h c route r s =
     (case route_gate route of
        GateOpen \<Rightarrow> handle_route e a h c [] route r s
      | GateToken \<Rightarrow>
         (case api_authenticate a False r of Inl resp \<Rightarrow> (s, resp) | Inr prin \<Rightarrow> handle_route e a h c prin route r s)
      | GatePolicy allow_query act cap \<Rightarrow>
         (case api_authenticate a allow_query r of
            Inl resp \<Rightarrow> (s, resp)
          | Inr prin \<Rightarrow>
             (case require a prin act cap of Inl resp \<Rightarrow> (s, resp) | Inr _ \<Rightarrow> handle_route e a h c prin route r s)))"

end
