(* ===== verification/Api_Properties.thy ===== *)
theory Api_Properties
  imports Api_Reads Dispatcher_Properties
begin

text \<open>
  What the API guarantees: a refused request leaves the stores as they were (a reload that failed apart), work is created only for a token whose
  policy allows it, every job it adds is a queued job submitted by the API, and a token without the
  result capability learns nothing about results from the job routes (except through the text search of the logs).
\<close>

section \<open>Refused requests write nothing\<close>

definition client_error :: "api_response \<Rightarrow> bool" where
  "client_error r \<longleftrightarrow> 400 \<le> response_status r \<and> response_status r < 500"

lemma create_pipeline_instance_context_error:
  "create_pipeline_instance_context h c pl md s = (s1, Inl r) \<Longrightarrow> response_status r = 500"
  by (auto simp: create_pipeline_instance_context_def draw_uuid_def Let_def split: if_splits sum.splits prod.splits)

lemma create_pipeline_entry_context_error:
  "create_pipeline_entry_context h c parent pl pn d s = (s1, Inl r) \<Longrightarrow> response_status r = 500"
  by (auto simp: create_pipeline_entry_context_def split: if_splits option.splits sum.splits prod.splits)

lemma enqueue_entries_error:
  "enqueue_entries a h c pl root_id raw ev ids ds s = (s1, Inl r) \<Longrightarrow> response_status r = 500"
proof (induction ds arbitrary: ids s)
  case (Cons x ds)
  obtain d pn where x: "x = (d, pn)" by fastforce
  obtain s2 y where ctx: "create_pipeline_entry_context h c root_id pl pn d s = (s2, y)" by fastforce
  show ?case
  proof (cases y)
    case (Inl e)
    then show ?thesis using Cons.prems x ctx create_pipeline_entry_context_error by auto
  next
    case (Inr ctxid)
    then show ?thesis using Cons.prems Cons.IH x ctx by (auto split: option.splits prod.splits sum.splits)
  qed
qed simp

lemma run_entries_no_client_error: "\<not> client_error (snd (run_entries e a h c ps name info sync raw ev ds pns s))"
proof -
  obtain s1 x where run: "bind_step (create_pipeline_instance_context h c (pi_name info) (dp_route_max_depth (hd ds)) s) (\<lambda>root_id s1.
      enqueue_entries a h c (pi_name info) root_id raw ev [] (zip ds pns) s1) = (s1, x)" by fastforce
  show ?thesis
  proof (cases x)
    case (Inl r)
    then have "response_status r = 500"
      using run create_pipeline_instance_context_error enqueue_entries_error
      by (auto simp: bind_step_def split: prod.splits sum.splits)
    then show ?thesis using run Inl by (simp add: run_entries_def client_error_def)
  next
    case (Inr ids)
    have "\<not> client_error (sync_wait e a ps name info jid)" for jid
      by (auto simp: sync_wait_def client_error_def Let_def split: sum.splits wait_error.splits)
    then show ?thesis using run Inr by (simp add: run_entries_def client_error_def)
  qed
qed

lemma handle_pipeline_trigger_cases:
  "fst (handle_pipeline_trigger e a h c prin name r s) = s \<or>
   (\<exists>ps info sync raw ev ds pns. handle_pipeline_trigger e a h c prin name r s = run_entries e a h c ps name info sync raw ev ds pns s)"
  unfolding handle_pipeline_trigger_def Let_def by (auto split: option.splits sum.splits) blast

lemma handle_pipeline_trigger_refused:
  assumes "client_error (snd (handle_pipeline_trigger e a h c prin name r s))"
  shows "fst (handle_pipeline_trigger e a h c prin name r s) = s"
  using handle_pipeline_trigger_cases [of e a h c prin name r s]
proof
  assume "\<exists>ps info sync raw ev ds pns. handle_pipeline_trigger e a h c prin name r s = run_entries e a h c ps name info sync raw ev ds pns s"
  then obtain ps info sync raw ev ds pns where "handle_pipeline_trigger e a h c prin name r s = run_entries e a h c ps name info sync raw ev ds pns s"
    by blast
  then show ?thesis using assms run_entries_no_client_error [of e a h c ps name info sync raw ev ds pns s] by simp
qed

lemma handle_plugin_trigger_refused:
  "client_error (snd (handle_plugin_trigger e a h c prin p cmd r s)) \<Longrightarrow> fst (handle_plugin_trigger e a h c prin p cmd r s) = s"
  by (auto simp: handle_plugin_trigger_def client_error_def Let_def split: option.splits if_splits sum.splits prod.splits)

lemma handle_events_refused:
  "client_error (snd (handle_events e r s)) \<Longrightarrow> fst (handle_events e r s) = s"
  by (auto simp: handle_events_def client_error_def split: prod.splits)

lemma handle_events_queue [simp]: "gw_queue (fst (handle_events e r s)) = gw_queue s"
  by (auto simp: handle_events_def split: prod.splits)

lemma handle_system_reload_refused:
  assumes "handle_system_reload e s = (s', resp)" "client_error resp"
  shows "\<exists>reload_func err. ae_reload e = Some reload_func \<and> reload_func s = (s', Inl err) \<and> resp = ApiError 409 err"
  using assms by (auto simp: handle_system_reload_def client_error_def split: option.splits prod.splits sum.splits)

lemma handle_route_refused:
  "client_error (snd (handle_route e a h c prin route r s)) \<Longrightarrow> route \<noteq> RouteReload \<Longrightarrow>
   fst (handle_route e a h c prin route r s) = s"
  using handle_pipeline_trigger_refused handle_plugin_trigger_refused handle_events_refused by (cases route) simp_all

text \<open>C14. A request the API refuses with a status of the 400 class, for whatever reason, has changed nothing: not the job table,
  not the context ledger, not the event hub, and it has drawn no identifier. The one exception is a reload that
  was let through and then failed: it is answered 409, its caller held the write capability on the reload, and the state
  is the one the runtime's reload function left.\<close>

theorem api_refusal_writes_nothing:
  assumes "serve e a h c route r s = (s', resp)" and "client_error resp"
  shows "s' = s \<or>
    (route = RouteReload \<and> response_status resp = 409 \<and>
     (\<exists>prin reload_func err. api_authenticate a False r = Inr prin \<and> api_decide a prin ActionWrite cap_system_reload \<and>
        ae_reload e = Some reload_func \<and> reload_func s = (s', Inl err)))"
proof (cases "route = RouteReload")
  case True
  show ?thesis
    using assms handle_system_reload_refused [OF _ assms(2)] unfolding True
    by (fastforce simp: serve_def require_def split: sum.splits if_splits)
next
  case False
  then show ?thesis
    using assms handle_route_refused [OF _ False]
    by (auto simp: serve_def split: gate.splits sum.splits) (metis fst_conv snd_conv)+
qed

section \<open>Work needs an allowed token\<close>

definition api_work :: "enqueue_request \<Rightarrow> bool" where
  "api_work req \<longleftrightarrow> rq_submitted_by req = ''api'' \<and> rq_parent_job_id req = None \<and> rq_dedupe_key req = None"

lemma create_instance_frame:
  "create_pipeline_instance_context h c pl md s = (s1, x) \<Longrightarrow> gw_queue s1 = gw_queue s"
  by (auto simp: create_pipeline_instance_context_def draw_uuid_def Let_def dest!: gw_create_context_frame
      split: if_splits sum.splits prod.splits)

lemma create_entry_frame:
  "create_pipeline_entry_context h c parent pl pn d s = (s1, x) \<Longrightarrow> gw_queue s1 = gw_queue s"
  by (auto simp: create_pipeline_entry_context_def dest!: gw_create_context_frame
      split: if_splits option.splits sum.splits prod.splits)

lemma api_request_work: "api_work (api_enqueue_request a c p cmd payload ctx)"
  by (simp add: api_work_def api_enqueue_request_def)

lemma enqueue_entries_run:
  "enqueue_run api_work (gw_queue s) (gw_queue (fst (enqueue_entries a h c pl root_id raw ev ids ds s)))"
proof (induction ds arbitrary: ids s)
  case Nil
  show ?case by (simp add: enqueue_run.run_refl)
next
  case (Cons w ds)
  obtain d pn where w: "w = (d, pn)" by fastforce
  obtain s1 x where ctx: "create_pipeline_entry_context h c root_id pl pn d s = (s1, x)" by fastforce
  note frame = create_entry_frame [OF ctx]
  show ?case
  proof (cases x)
    case (Inl e)
    then show ?thesis using w ctx frame by (simp add: enqueue_run.run_refl)
  next
    case (Inr ctxid)
    show ?thesis
    proof (cases "trigger_payload h (dp_command d) raw ev")
      case None
      then show ?thesis using w ctx frame Inr by (simp add: enqueue_run.run_refl)
    next
      case (Some payload)
      let ?req = "api_enqueue_request a c (dp_plugin d) (dp_command d) payload ctxid"
      obtain s2 y where enq: "gw_enqueue h c ?req s1 = (s2, y)" by fastforce
      have one: "enqueue_run api_work (gw_queue s) (gw_queue s2)"
        using enqueue_run_gw_enqueue [of api_work ?req s1 h c] api_request_work frame enq by simp
      show ?thesis
      proof (cases y)
        case (Inl e)
        then show ?thesis using w ctx Inr Some enq one by simp
      next
        case (Inr jid)
        have "enqueue_run api_work (gw_queue s2) (gw_queue (fst (enqueue_entries a h c pl root_id raw ev (ids @ [jid]) ds s2)))"
          by (rule Cons.IH)
        then show ?thesis using w ctx \<open>x = Inr ctxid\<close> Some enq Inr enqueue_run_trans [OF _ one] by simp
      qed
    qed
  qed
qed

lemma publish_event_contexts [simp]: "gw_contexts (publish_event h ty data s) = gw_contexts s"
  by (simp add: publish_event_def)

lemma run_entries_run: "enqueue_run api_work (gw_queue s) (gw_queue (fst (run_entries e a h c ps name info sync raw ev ds pns s)))"
proof -
  obtain s1 x where root: "create_pipeline_instance_context h c (pi_name info) (dp_route_max_depth (hd ds)) s = (s1, x)" by fastforce
  note frame = create_instance_frame [OF root]
  show ?thesis
  proof (cases x)
    case (Inl r)
    then show ?thesis using root frame by (simp add: run_entries_def enqueue_run.run_refl)
  next
    case (Inr rid)
    have "enqueue_run api_work (gw_queue s) (gw_queue (fst (enqueue_entries a h c (pi_name info) rid raw ev [] (zip ds pns) s1)))"
      using enqueue_entries_run [of s1] frame by simp
    then show ?thesis
      using root Inr by (auto simp: run_entries_def publish_pipeline_enqueued_def split: prod.splits sum.splits)
  qed
qed

text \<open>What the policy must have allowed for a route to change the job table.\<close>

definition work_allowed :: "api_conf \<Rightarrow> string \<Rightarrow> api_route \<Rightarrow> bool" where
  "work_allowed a prin route \<longleftrightarrow>
     (case route of
        RoutePipelineTrigger name \<Rightarrow> api_decide a prin ActionWrite cap_pipeline_trigger
      | RoutePluginTrigger p cmd \<Rightarrow>
         api_decide a prin ActionRead cap_plugin_invoke \<and>
         (\<exists>pg. map_get (ac_registry a) p = Some pg \<and> plugin_supports pg cmd \<and>
            (command_type_for pg cmd = Some ''read'' \<or> api_decide a prin ActionWrite cap_plugin_invoke))
      | RouteReload \<Rightarrow> api_decide a prin ActionWrite cap_system_reload
      | _ \<Rightarrow> False)"

lemma handle_pipeline_trigger_run:
  "enqueue_run api_work (gw_queue s) (gw_queue (fst (handle_pipeline_trigger e a h c prin name r s)))"
  using handle_pipeline_trigger_cases [of e a h c prin name r s]
proof
  assume "fst (handle_pipeline_trigger e a h c prin name r s) = s"
  then show ?thesis by (simp add: enqueue_run.run_refl)
next
  assume "\<exists>ps info sync raw ev ds pns. handle_pipeline_trigger e a h c prin name r s = run_entries e a h c ps name info sync raw ev ds pns s"
  then show ?thesis using run_entries_run by metis
qed

lemma handle_plugin_trigger_run:
  "enqueue_run api_work (gw_queue s) (gw_queue (fst (handle_plugin_trigger e a h c prin p cmd r s)))"
proof -
  have "enqueue_run api_work (gw_queue s) (gw_queue s1)"
    if "gw_enqueue h c (api_enqueue_request a c p cmd payload None) s = (s1, y)" for payload s1 y
    using enqueue_run_gw_enqueue [of api_work "api_enqueue_request a c p cmd payload None" s h c] api_request_work that by simp
  then show ?thesis
    by (auto simp: handle_plugin_trigger_def Let_def enqueue_run.run_refl split: option.splits sum.splits prod.splits)
qed

lemma handle_plugin_trigger_needs:
  assumes "gw_queue (fst (handle_plugin_trigger e a h c prin p cmd r s)) \<noteq> gw_queue s"
  shows "\<exists>pg. map_get (ac_registry a) p = Some pg \<and> plugin_supports pg cmd \<and>
    (command_type_for pg cmd = Some ''read'' \<or> api_decide a prin ActionWrite cap_plugin_invoke)"
  using assms by (auto simp: handle_plugin_trigger_def split: option.splits if_splits)

lemma serve_changes_queue:
  assumes "serve e a h c route r s = (s', resp)" and "gw_queue s' \<noteq> gw_queue s"
  obtains prin where "api_authenticate a False r = Inr prin" "work_allowed a prin route"
    "route = RouteReload \<or> enqueue_run api_work (gw_queue s) (gw_queue s')"
proof (cases route)
  case (RoutePluginTrigger p cmd)
  then obtain prin where prin: "api_authenticate a False r = Inr prin" "api_decide a prin ActionRead cap_plugin_invoke"
    "handle_plugin_trigger e a h c prin p cmd r s = (s', resp)"
    using assms by (auto simp: serve_def require_def split: sum.splits if_splits)
  moreover from this have "work_allowed a prin route"
    using handle_plugin_trigger_needs [of e a h c prin p cmd r s] assms(2) by (simp add: work_allowed_def RoutePluginTrigger)
  ultimately show ?thesis using that handle_plugin_trigger_run [of s e a h c prin p cmd r] by simp
next
  case (RoutePipelineTrigger name)
  then obtain prin where prin: "api_authenticate a False r = Inr prin" "api_decide a prin ActionWrite cap_pipeline_trigger"
    "handle_pipeline_trigger e a h c prin name r s = (s', resp)"
    using assms by (auto simp: serve_def require_def split: sum.splits if_splits)
  then show ?thesis
    using that [of prin] handle_pipeline_trigger_run [of s e a h c prin name r] by (simp add: work_allowed_def RoutePipelineTrigger)
next
  case RouteReload
  then show ?thesis
    using assms that by (auto simp: serve_def require_def work_allowed_def split: sum.splits if_splits)
next
  case RouteEvents
  then show ?thesis
    using assms handle_events_queue [of e r s]
    by (auto simp: serve_def require_def simp del: handle_events_queue split: sum.splits if_splits)
qed (use assms in \<open>auto simp: serve_def split: sum.splits\<close>)

lemma authenticate_from_token:
  "authenticate_from k presented ts = Some prin \<Longrightarrow>
   \<exists>i. i < length ts \<and> tk_token (ts ! i) = presented \<and> presented \<noteq> [] \<and> prin = principal_name (k + i) (ts ! i)"
proof (induction k presented ts rule: authenticate_from.induct)
  case (2 k presented t ts)
  show ?case
  proof (cases "constant_time_equal presented (tk_token t)")
    case True
    then show ?thesis using 2(2) by (auto simp: constant_time_equal_def split: if_splits)
  next
    case False
    then obtain i where "i < length ts" "tk_token (ts ! i) = presented" "presented \<noteq> []" "prin = principal_name (Suc k + i) (ts ! i)"
      using 2 by auto
    then show ?thesis by (intro exI [of _ "Suc i"]) simp
  qed
qed simp

text \<open>A token holds a capability when one of its scopes leads to a grant of it.\<close>

definition token_holds :: "token_config \<Rightarrow> action \<Rightarrow> string \<Rightarrow> bool" where
  "token_holds t act cap \<longleftrightarrow>
     (\<exists>sc g k. sc \<in> set (tk_scopes t) \<and> trim_space sc \<noteq> [] \<and> (trim_space sc, g) \<in> (set inherits)\<^sup>* \<and>
        (g, act, k) \<in> set grants \<and> prefix k cap)"

lemma api_decide_holds:
  assumes "rbac_engine (ac_engine a)" "ac_policy a = Some p" "new_policy (ac_tokens a) = Inr p" "i < length (ac_tokens a)"
    and "api_decide a (principal_name i (ac_tokens a ! i)) act cap"
  shows "token_holds (ac_tokens a ! i) act cap"
proof -
  obtain d where d: "decide (ac_engine a) (Some p) (principal_name i (ac_tokens a ! i)) act cap = Inr d" "dn_allow d"
    using assms(2,5) by (auto simp: api_decide_def split: sum.splits)
  then show ?thesis using token_decision_exact_lemma [OF assms(1,3,4) d(1)] unfolding token_holds_def by simp
qed

lemma api_run_rows:
  assumes "enqueue_run api_work db db'"
  shows "\<exists>new. job_queue db' = job_queue db @ new \<and>
    list_all (\<lambda>j. j_status j = StatusQueued \<and> j_submitted_by j = ''api'' \<and> j_parent_job_id j = None) new"
proof -
  obtain new where new: "job_queue db' = job_queue db @ new"
    "\<And>x. x \<in> set new \<Longrightarrow> \<exists>q jid now req. api_work req \<and> x = enqueue_row q jid now req"
    using assms by (elim enqueue_run_rows) blast
  have "list_all (\<lambda>j. j_status j = StatusQueued \<and> j_submitted_by j = ''api'' \<and> j_parent_job_id j = None) new"
    using new(2) by (fastforce simp: list_all_iff api_work_def enqueue_row_def)
  with new(1) show ?thesis by blast
qed

text \<open>C13. Work enters through the API only with a configured token that holds the right to it: a request that changes the job
  table presents the secret of some token, and that token's scopes lead to a write grant for pipelines, or to the
  read grant for plugin commands and, unless the plugin's manifest declares the command read-only, to the write
  grant as well, and what it adds are queued jobs submitted by the API. The only other route that can change the table
  is a reload, whatever the runtime does then, and it needs the write grant for reloads. (The engine evaluates the
  documented role-based rules.)\<close>

theorem api_work_authorised:
  assumes "serve e a h c route r s = (s', resp)" and "gw_queue s' \<noteq> gw_queue s"
    and "rbac_engine (ac_engine a)" "ac_policy a = Some p" "new_policy (ac_tokens a) = Inr p"
  shows "\<exists>i. i < length (ac_tokens a) \<and>
    extract_bearer_token (aq_authorization r) (query_param r ''token'') False = Inr (tk_token (ac_tokens a ! i)) \<and>
    (case route of
       RoutePipelineTrigger name \<Rightarrow> token_holds (ac_tokens a ! i) ActionWrite cap_pipeline_trigger
     | RoutePluginTrigger pl cmd \<Rightarrow>
        token_holds (ac_tokens a ! i) ActionRead cap_plugin_invoke \<and>
        (\<exists>pg. map_get (ac_registry a) pl = Some pg \<and> plugin_supports pg cmd \<and>
           (command_type_for pg cmd = Some ''read'' \<or> token_holds (ac_tokens a ! i) ActionWrite cap_plugin_invoke))
     | RouteReload \<Rightarrow> token_holds (ac_tokens a ! i) ActionWrite cap_system_reload
     | _ \<Rightarrow> False) \<and>
    (route = RouteReload \<or>
     (\<exists>new. job_queue (gw_queue s') = job_queue (gw_queue s) @ new \<and>
        list_all (\<lambda>j. j_status j = StatusQueued \<and> j_submitted_by j = ''api'' \<and> j_parent_job_id j = None) new))"
  using assms(1,2)
proof (rule serve_changes_queue)
  fix prin
  assume auth: "api_authenticate a False r = Inr prin" and allowed: "work_allowed a prin route"
    and run: "route = RouteReload \<or> enqueue_run api_work (gw_queue s) (gw_queue s')"
  obtain i where i: "i < length (ac_tokens a)" "prin = principal_name i (ac_tokens a ! i)"
    "extract_bearer_token (aq_authorization r) (query_param r ''token'') False = Inr (tk_token (ac_tokens a ! i))"
    using auth authenticate_from_token [of 0 _ "ac_tokens a" prin]
    by (auto simp: api_authenticate_def authenticate_def split: sum.splits option.splits)
  note holds = api_decide_holds [OF assms(3-5) i(1)]
  have rows: "\<exists>new. job_queue (gw_queue s') = job_queue (gw_queue s) @ new \<and>
      list_all (\<lambda>j. j_status j = StatusQueued \<and> j_submitted_by j = ''api'' \<and> j_parent_job_id j = None) new"
    if "route \<noteq> RouteReload"
    using run that api_run_rows by blast
  have "case route of
       RoutePipelineTrigger name \<Rightarrow> token_holds (ac_tokens a ! i) ActionWrite cap_pipeline_trigger
     | RoutePluginTrigger pl cmd \<Rightarrow>
        token_holds (ac_tokens a ! i) ActionRead cap_plugin_invoke \<and>
        (\<exists>pg. map_get (ac_registry a) pl = Some pg \<and> plugin_supports pg cmd \<and>
           (command_type_for pg cmd = Some ''read'' \<or> token_holds (ac_tokens a ! i) ActionWrite cap_plugin_invoke))
     | RouteReload \<Rightarrow> token_holds (ac_tokens a ! i) ActionWrite cap_system_reload
     | _ \<Rightarrow> False"
    using allowed holds unfolding work_allowed_def i(2) by (cases route) auto
  then show ?thesis using i rows by blast
qed

section \<open>Results stay hidden\<close>

text \<open>The database with every field that carries plugin output removed.\<close>

definition redact_job :: "job \<Rightarrow> job" where
  "redact_job j = j\<lparr>j_last_error := None\<rparr>"

definition redact_log :: "job_log_row \<Rightarrow> job_log_row" where
  "redact_log l = l\<lparr>jl_result := None, jl_last_error := None, jl_stderr := None\<rparr>"

definition redact_db :: "queue_db \<Rightarrow> queue_db" where
  "redact_db db = db\<lparr>job_queue := map redact_job (job_queue db), job_log := map redact_log (job_log db)\<rparr>"

lemma redact_sel [simp]:
  "j_id (redact_job j) = j_id j" "j_status (redact_job j) = j_status j" "j_plugin (redact_job j) = j_plugin j"
  "j_command (redact_job j) = j_command j" "j_attempt (redact_job j) = j_attempt j" "j_created_at (redact_job j) = j_created_at j"
  "j_started_at (redact_job j) = j_started_at j" "j_completed_at (redact_job j) = j_completed_at j"
  "j_parent_job_id (redact_job j) = j_parent_job_id j" "j_event_context_id (redact_job j) = j_event_context_id j"
  "j_submitted_by (redact_job j) = j_submitted_by j" "j_next_retry_at (redact_job j) = j_next_retry_at j"
  "j_last_error (redact_job j) = None"
  by (simp_all add: redact_job_def)

lemma redact_log_sel [simp]:
  "jl_id (redact_log l) = jl_id l" "jl_job_id (redact_log l) = jl_job_id l" "jl_plugin (redact_log l) = jl_plugin l"
  "jl_command (redact_log l) = jl_command l" "jl_status (redact_log l) = jl_status l" "jl_attempt (redact_log l) = jl_attempt l"
  "jl_submitted_by (redact_log l) = jl_submitted_by l" "jl_created_at (redact_log l) = jl_created_at l"
  "jl_completed_at (redact_log l) = jl_completed_at l" "jl_result (redact_log l) = None"
  by (simp_all add: redact_log_def)

lemma redact_db_sel [simp]:
  "job_queue (redact_db db) = map redact_job (job_queue db)" "job_log (redact_db db) = map redact_log (job_log db)"
  by (simp_all add: redact_db_def)

lemma insort_key_map: "insort_key f (g x) (map g xs) = map g (insort_key (\<lambda>y. f (g y)) x xs)"
  by (induction xs) auto

lemma sort_key_map: "sort_key f (map g xs) = map g (sort_key (\<lambda>x. f (g x)) xs)"
  by (induction xs) (simp_all add: insort_key_map)

lemma find_map: "find P (map f xs) = map_option f (find (\<lambda>x. P (f x)) xs)"
  by (induction xs) auto

lemma find_job_redact: "find_job jid (redact_db db) = map_option redact_job (find_job jid db)"
  by (simp add: find_job_def find_map)

lemma log_result_redact [simp]: "log_result (redact_db db) j = None"
  by (auto simp: log_result_def find_map split: option.splits)

lemma job_result_redact:
  "job_result_of st sub (redact_db db) (redact_job j) = (job_result_of st sub db j)\<lparr>jr_result := None, jr_last_error := None\<rparr>"
  by (simp add: job_result_of_def)

lemma children_redact: "children_of (redact_db db) (redact_job j) = map redact_job (children_of db j)"
  by (simp add: children_of_def filter_map o_def)

lemma tree_levels_redact:
  "job_tree_levels n (redact_db db) (map redact_job js) = map redact_job (job_tree_levels n db js)"
proof (induction n arbitrary: js)
  case (Suc n)
  have "concat (map (children_of (redact_db db)) (map redact_job js)) = map redact_job (concat (map (children_of db) js))"
    by (induction js) (simp_all add: children_redact)
  then show ?case using Suc [of "concat (map (children_of db) js)"] by simp
qed simp

lemma get_job_redact:
  "\<not> can_see_job_results a prin \<Longrightarrow>
   handle_get_job a prin jid (s\<lparr>gw_queue := redact_db (gw_queue s)\<rparr>) = handle_get_job a prin jid s"
  by (auto simp: handle_get_job_def get_job_by_id_def find_job_redact job_result_redact split: option.splits)

lemma get_job_tree_redact:
  assumes "\<not> can_see_job_results a prin"
  shows "handle_get_job_tree a prin jid (s\<lparr>gw_queue := redact_db (gw_queue s)\<rparr>) = handle_get_job_tree a prin jid s"
proof -
  have "filter (\<lambda>j. j_id j = jid) (map redact_job js) = map redact_job (filter (\<lambda>j. j_id j = jid) js)" for js
    by (simp add: filter_map o_def)
  then show ?thesis
    using assms
    by (simp add: handle_get_job_tree_def get_job_tree_def tree_levels_redact job_result_redact tree_result_data_def o_def)
qed

lemma list_jobs_redact:
  "handle_list_jobs r (s\<lparr>gw_queue := redact_db (gw_queue s)\<rparr>) = handle_list_jobs r s"
proof -
  have "job_list_item_of (redact_job j) = job_list_item_of j" for j by (simp add: job_list_item_of_def)
  then show ?thesis
    by (simp add: handle_list_jobs_def list_jobs_def Let_def filter_map o_def sort_key_map rev_map take_map split: sum.splits)
qed

lemma log_matches_redact:
  "trim_space (jf_query f) = [] \<Longrightarrow> log_matches f (redact_db db) (redact_log l) = log_matches f db l"
  by (simp add: log_matches_def joined_job_def find_map option.map_comp o_def split: option.splits)

lemma list_job_logs_redact:
  assumes "\<not> can_see_job_results a prin" and "trim_space (query_param r ''query'') = []"
  shows "handle_list_job_logs e a prin r (s\<lparr>gw_queue := redact_db (gw_queue s)\<rparr>) = handle_list_job_logs e a prin r s"
proof -
  have shape: "shape_log False (log_entry b (redact_log l)) = shape_log False (log_entry b l)" for b l
    by (simp add: shape_log_def log_entry_def)
  have "handle_list_job_logs e a prin r (s\<lparr>gw_queue := redact_db (gw_queue s)\<rparr>) = handle_list_job_logs e a prin r s"
    if f: "job_log_filter_of e r = Inr f" for f
  proof -
    have "trim_space (jf_query f) = []" using f assms(2) by (auto simp: job_log_filter_of_def bind_result_Inr_iff)
    then show ?thesis
      using assms(1) shape
      by (simp add: handle_list_job_logs_def f list_job_logs_def Let_def filter_map o_def log_matches_redact sort_key_map rev_map take_map)
  qed
  then show ?thesis by (cases "job_log_filter_of e r") (simp_all add: handle_list_job_logs_def)
qed

lemma metrics_redact: "metrics now (redact_db db) = metrics now db"
proof -
  have "active_job_of (redact_job j) = active_job_of j" for j by (simp add: active_job_of_def)
  then show ?thesis by (simp add: metrics_def status_count_def Let_def filter_map o_def sort_key_map)
qed

lemma summary_redact: "handle_analytics_summary h (s\<lparr>gw_queue := redact_db (gw_queue s)\<rparr>) = handle_analytics_summary h s"
  by (simp add: handle_analytics_summary_def Let_def filter_map o_def)

definition job_read :: "api_route \<Rightarrow> bool" where
  "job_read route =
     (case route of RouteGetJob _ \<Rightarrow> True | RouteGetJobTree _ \<Rightarrow> True | RouteListJobs \<Rightarrow> True | RouteListJobLogs \<Rightarrow> True
      | RouteQueueMetrics \<Rightarrow> True | RouteAnalyticsSummary \<Rightarrow> True | _ \<Rightarrow> False)"

text \<open>C15. A token that the policy does not allow to read results learns nothing about plugin output from the job routes: the
  answers to reads of a job, a job tree, the job list, the logs (without a text search), the metrics and the summary are
  the same as if every result, error text and diagnostic in the database were erased.\<close>

theorem results_hidden:
  assumes "api_authenticate a False r = Inr prin" and "\<not> can_see_job_results a prin" and "job_read route"
    and "route = RouteListJobLogs \<longrightarrow> trim_space (query_param r ''query'') = []"
  shows "snd (serve e a h c route r (s\<lparr>gw_queue := redact_db (gw_queue s)\<rparr>)) = snd (serve e a h c route r s)"
  using assms get_job_redact [of a prin _ s] get_job_tree_redact [of a prin _ s] list_jobs_redact [of r s]
    list_job_logs_redact [of a prin r e s] summary_redact [of h s]
  by (cases route)
    (auto simp: serve_def job_read_def handle_queue_metrics_def metrics_redact split: sum.splits)

text \<open>The text search is the exception: whether a word occurs in a result shows in the number of rows found.\<close>

definition search_row :: job_log_row where
  "search_row = \<lparr>jl_id = ''j-1'', jl_job_id = ''j'', jl_plugin = ''mail'', jl_command = ''poll'', jl_status = StatusSucceeded,
     jl_result = Some ''pin 42'', jl_attempt = 1, jl_submitted_by = ''api'', jl_created_at = 0, jl_completed_at = 0,
     jl_last_error = None, jl_stderr = None, jl_parent_job_id = None, jl_source_event_id = None,
     jl_event_context_id = None, jl_enqueued_config_snapshot_id = None, jl_started_config_snapshot_id = None\<rparr>"

definition search_filter :: job_log_filter where
  "search_filter = \<lparr>jf_job_id = [], jf_plugin = [], jf_command = [], jf_status = None, jf_submitted_by = [], jf_since = None,
     jf_until = None, jf_query = ''42'', jf_limit = 50, jf_include_result = False\<rparr>"

lemma log_search_reveals_results:
  "snd (list_job_logs search_filter (empty_db\<lparr>job_log := [search_row]\<rparr>)) = 1 \<and>
   snd (list_job_logs search_filter (redact_db (empty_db\<lparr>job_log := [search_row]\<rparr>))) = 0"
  by code_simp

text \<open>A synchronous request that finds no free slot is answered 503 after its jobs were enqueued.\<close>

lemma busy_answer_after_enqueue:
  assumes "bind_step (create_pipeline_instance_context h c (pi_name info) (dp_route_max_depth (hd ds)) s) (\<lambda>root_id s1.
      enqueue_entries a h c (pi_name info) root_id raw ev [] (zip ds pns) s1) = (s1, Inr (jid # ids))"
    and "ae_busy e \<ge> ac_max_concurrent_sync a"
  shows "gw_queue (fst (run_entries e a h c ps name info True raw ev ds pns s)) = gw_queue s1 \<and>
    response_status (snd (run_entries e a h c ps name info True raw ev ds pns s)) = 503"
  using assms by (simp add: run_entries_def sync_wait_def publish_pipeline_enqueued_def)

text \<open>An event published between the backlog and the subscription of a stream reaches neither.\<close>

lemma gap_event_lost:
  assumes "hb_next_sub_id hb \<notin> fst ` set (hb_subs hb)"
  shows "\<exists>backlog hb' sub. open_event_stream last_id (publish ty data now) hb = (backlog, hb', sub) \<and>
    backlog = map write_sse (snapshot_since (parse_last_event_id last_id) hb) \<and> map_of (hb_subs hb') sub = Some []"
proof -
  have next_sub: "hb_next_sub_id (publish ty data now hb) = hb_next_sub_id hb"
    and subs: "fst ` set (hb_subs (publish ty data now hb)) = fst ` set (hb_subs hb)"
    by (auto simp: publish_def draw_id_def deliver_def push_locked_def Let_def image_image split_def)
  then have "map_of (hb_subs (publish ty data now hb)) (hb_next_sub_id hb) = None"
    using assms by (simp add: map_of_eq_None_iff)
  then show ?thesis
    by (auto simp: open_event_stream_def subscribe_def Let_def next_sub map_add_def)
qed

text \<open>A skipped job can be listed, but not filtered for.\<close>

lemma skipped_not_filterable: "parse_job_status_filter (status_text StatusSkipped) = None"
  by code_simp

section \<open>A server with two tokens\<close>

text \<open>One token may only read job states, the other holds the wildcard.\<close>

definition api_tokens :: "token_config list" where
  "api_tokens = [\<lparr>tk_name = ''watch'', tk_token = ''a'', tk_scopes = [''jobs:status:ro'']\<rparr>, \<lparr>tk_name = [], tk_token = ''b'', tk_scopes = [''*'']\<rparr>]"

definition api_demo :: api_conf where
  "api_demo = \<lparr>ac_tokens = api_tokens, ac_policy = (case new_policy api_tokens of Inr p \<Rightarrow> Some p | Inl _ \<Rightarrow> None), ac_engine = rule_engine,
     ac_registry = [(''mail'', \<lparr>pg_manifest_spec = ''ductile.plugin'', pg_manifest_version = 1, pg_name = ''mail'', pg_path = ''/p/mail'',
       pg_entrypoint = ''/p/mail/run'', pg_protocol = 2, pg_version = ''1'', pg_description = [], pg_concurrency_safe = True,
       pg_commands = [\<lparr>cm_name = ''poll'', cm_type = ''write'', cm_description = [], cm_input_schema = GNil, cm_output_schema = GNil,
         cm_values = None, cm_idempotent = None, cm_retry_safe = None\<rparr>],
       pg_fact_outputs = [], pg_config_keys = None, pg_stopwatch_max_subs = None\<rparr>)],
     ac_runtime_config = True, ac_max_concurrent_sync = 10, ac_max_sync_timeout = 0\<rparr>"

definition api_demo_env :: api_env where
  "api_demo_env = \<lparr>ae_trigger = (\<lambda>_. None), ae_time_text = (\<lambda>_. None), ae_busy = 0, ae_wait = (\<lambda>_ _. Inl WaitTimedOut), ae_elapsed_ms = 0,
     ae_reload = None, ae_flusher = True, ae_other = (\<lambda>_. ApiOther 200 [])\<rparr>"

definition request_with :: "string \<Rightarrow> api_request" where
  "request_with token = \<lparr>aq_authorization = ''Bearer '' @ token, aq_query = [], aq_content_length = 0, aq_body = [],
     aq_last_event_id = []\<rparr>"

definition api_demo_run :: "string \<Rightarrow> api_route \<Rightarrow> disp_state \<times> api_response" where
  "api_demo_run token route = serve api_demo_env api_demo run_host (run_conf (\<lambda>_. True)) route (request_with token) run_state"

lemma api_demo_allowed:
  "map (\<lambda>j. (j_plugin j, j_submitted_by j)) (job_queue (gw_queue (fst (api_demo_run ''b'' (RoutePluginTrigger ''mail'' ''poll''))))) =
   [(''mail'', ''cli''), (''mail'', ''api'')]"
  by code_simp

lemma api_demo_refused: "response_status (snd (api_demo_run ''a'' (RoutePluginTrigger ''mail'' ''poll''))) = 403"
  by code_simp

lemma api_demo_watch:
  "api_authenticate api_demo False (request_with ''a'') = Inr ''watch''" "\<not> can_see_job_results api_demo ''watch''"
  by code_simp+

lemma api_demo_policy: "\<exists>p. ac_policy api_demo = Some p \<and> new_policy (ac_tokens api_demo) = Inr p"
proof -
  have "case new_policy api_tokens of Inr _ \<Rightarrow> True | Inl _ \<Rightarrow> False" by code_simp
  then show ?thesis by (auto simp: api_demo_def split: sum.splits)
qed

theorem api_refusal_writes_nothing_witness: "fst (api_demo_run ''a'' (RoutePluginTrigger ''mail'' ''poll'')) = run_state"
proof -
  obtain s' resp where run: "api_demo_run ''a'' (RoutePluginTrigger ''mail'' ''poll'') = (s', resp)" by fastforce
  then have "client_error resp" using api_demo_refused by (simp add: client_error_def)
  then show ?thesis using api_refusal_writes_nothing [OF run [unfolded api_demo_run_def]] run by simp
qed

theorem api_work_authorised_witness:
  "\<exists>i. i < length api_tokens \<and> tk_token (api_tokens ! i) = ''b'' \<and> token_holds (api_tokens ! i) ActionWrite cap_plugin_invoke"
proof -
  let ?route = "RoutePluginTrigger ''mail'' ''poll''"
  obtain s' resp where run: "api_demo_run ''b'' ?route = (s', resp)" by fastforce
  obtain p where p: "ac_policy api_demo = Some p" "new_policy (ac_tokens api_demo) = Inr p" using api_demo_policy by blast
  have "job_queue (gw_queue s') \<noteq> job_queue (gw_queue run_state)"
  proof
    assume "job_queue (gw_queue s') = job_queue (gw_queue run_state)"
    then show False using api_demo_allowed run by (simp add: run_state_def)
  qed
  then have "gw_queue s' \<noteq> gw_queue run_state" by auto
  note work = api_work_authorised [OF run [unfolded api_demo_run_def] this _ p]
  have engine: "rbac_engine (ac_engine api_demo)" by (simp add: api_demo_def rule_engine_rbac)
  have "extract_bearer_token (aq_authorization (request_with ''b'')) (query_param (request_with ''b'') ''token'') False = Inr ''b''"
    by code_simp
  then show ?thesis
    using work [OF engine] by (auto simp: api_demo_def command_type_for_def)
qed

theorem results_hidden_witness:
  "snd (serve api_demo_env api_demo run_host (run_conf (\<lambda>_. True)) (RouteGetJob ''j1'') (request_with ''a'')
     (run_state\<lparr>gw_queue := redact_db (gw_queue run_state)\<rparr>)) = snd (api_demo_run ''a'' (RouteGetJob ''j1''))"
  unfolding api_demo_run_def by (rule results_hidden [OF api_demo_watch]) (simp_all add: job_read_def)

end
