(* ===== verification/Api_Vault.thy ===== *)
theory Api_Vault
  imports Vault_Properties Auth Dispatcher_Properties
begin

text \<open>
  The management routes of the vault, \<^verbatim>\<open>src/internal/api/vault.go\<close>: they stand behind the vault's own admin token, apply
  one owner operation each and record it in the audit log. The same routes are mounted by the gateway and by the
  management-only server (\<^verbatim>\<open>mountVaultRoutes\<close>); without a vault none is. A body is given decoded, \<open>None\<close> when it is not
  JSON; fresh tokens, the write outcome, the cipher and the hash are parameters as in the vault's theory. The audit log is best effort:
  there may be no auditor, or its append may fail.
\<close>

section \<open>Handlers\<close>

datatype vault_route =
    VaultRegisterPrincipal | VaultSet | VaultRoll | VaultRevoke | VaultRevokePrincipal | VaultPurgePrincipal | VaultRollPrincipal

record vault_body =
  vb_name :: string
  vb_value :: string
  vb_authorized_principals :: "string list option"
  vb_pattern :: string
  vb_kind :: string

record vault_mints =
  vm_one :: "string option"
  vm_many :: "string option list"

datatype vault_response =
    VaultFailed int string
  | VaultStatus string string
  | VaultRolled string "string list" "string list"

fun vault_response_status :: "vault_response \<Rightarrow> int" where
  "vault_response_status (VaultFailed st msg) = st"
| "vault_response_status (VaultStatus n st) = 200"
| "vault_response_status (VaultRolled n rolled skipped) = 200"

definition vault_admin_actor :: string where
  "vault_admin_actor = ''core-admin-token''"

text \<open>\<^verbatim>\<open>auditVault\<close>: without an auditor nothing is recorded, and a failed append is logged and dropped.\<close>

datatype auditor = NoAuditor | AppendFails | Appends

definition audit_vault :: "auditor \<Rightarrow> instant \<Rightarrow> vault_audit_event \<Rightarrow> disp_state \<Rightarrow> disp_state" where
  "audit_vault aud now ev s =
     (case aud of NoAuditor \<Rightarrow> s | AppendFails \<Rightarrow> s | Appends \<Rightarrow> append_vault_audit now ev s)"

type_synonym ('b, 'k) vault_reply = "('b, 'k) vault \<times> disp_state \<times> vault_response"

text \<open>The error branch every handler has in common, and what it does when the owner accepted the operation.\<close>

definition respond_vault ::
  "auditor \<Rightarrow> instant \<Rightarrow> ('r \<Rightarrow> vault_audit_event) \<Rightarrow> ('r \<Rightarrow> vault_response) \<Rightarrow> disp_state
   \<Rightarrow> ('b, 'k) vault \<times> (vault_error + 'r) \<Rightarrow> ('b, 'k) vault_reply" where
  "respond_vault aud now ev answer s result =
     (case result of
        (v1, Inl e) \<Rightarrow> (v1, s, VaultFailed 400 [])
      | (v1, Inr r) \<Rightarrow> (v1, audit_vault aud now (ev r) s, answer r))"

definition vault_set_detail :: "string \<Rightarrow> string" where
  "vault_set_detail pattern = (if pattern = [] then ''pattern=unchanged'' else ''pattern='' @ pattern)"

definition handle_vault_set ::
  "('b \<Rightarrow> string) \<Rightarrow> (vault_store \<Rightarrow> 'k list \<Rightarrow> 'b option) \<Rightarrow> write_outcome \<Rightarrow> auditor \<Rightarrow> instant \<Rightarrow> vault_body
   \<Rightarrow> ('b, 'k) vault \<Rightarrow> disp_state \<Rightarrow> ('b, 'k) vault_reply" where
  "handle_vault_set hash seal w aud now b v s =
     respond_vault aud now
       (\<lambda>_. \<lparr>va_op = ''set'', va_principal = [], va_secret_name = vb_name b, va_actor = vault_admin_actor, va_outcome = ''ok'',
             va_detail = vault_set_detail (vb_pattern b)\<rparr>)
       (\<lambda>_. VaultStatus (vb_name b) ''set'') s
       (vault_do hash seal w (OpSet (vb_name b) (vb_value b) (vb_authorized_principals b) (vb_pattern b) now) v)"

definition handle_vault_register_principal ::
  "('b \<Rightarrow> string) \<Rightarrow> (vault_store \<Rightarrow> 'k list \<Rightarrow> 'b option) \<Rightarrow> write_outcome \<Rightarrow> auditor \<Rightarrow> instant \<Rightarrow> vault_body
   \<Rightarrow> ('b, 'k) vault \<Rightarrow> disp_state \<Rightarrow> ('b, 'k) vault_reply" where
  "handle_vault_register_principal hash seal w aud now b v s =
     respond_vault aud now
       (\<lambda>_. \<lparr>va_op = ''register'', va_principal = vb_name b, va_secret_name = [], va_actor = vault_admin_actor, va_outcome = ''ok'',
             va_detail = ''kind='' @ vb_kind b\<rparr>)
       (\<lambda>_. VaultStatus (vb_name b) ''principal_registered'') s
       (vault_do hash seal w (OpRegister (vb_name b) (vb_kind b)) v)"

definition handle_vault_roll ::
  "('b \<Rightarrow> string) \<Rightarrow> (vault_store \<Rightarrow> 'k list \<Rightarrow> 'b option) \<Rightarrow> write_outcome \<Rightarrow> auditor \<Rightarrow> instant \<Rightarrow> string option
   \<Rightarrow> vault_body \<Rightarrow> ('b, 'k) vault \<Rightarrow> disp_state \<Rightarrow> ('b, 'k) vault_reply" where
  "handle_vault_roll hash seal w aud now minted b v s =
     respond_vault aud now
       (\<lambda>_. \<lparr>va_op = ''roll'', va_principal = [], va_secret_name = vb_name b, va_actor = vault_admin_actor, va_outcome = ''ok'',
             va_detail = []\<rparr>)
       (\<lambda>_. VaultStatus (vb_name b) ''rolled'') s
       (vault_do hash seal w (OpRoll minted (vb_name b) (vb_value b) now) v)"

definition handle_vault_revoke ::
  "('b \<Rightarrow> string) \<Rightarrow> (vault_store \<Rightarrow> 'k list \<Rightarrow> 'b option) \<Rightarrow> write_outcome \<Rightarrow> auditor \<Rightarrow> instant \<Rightarrow> vault_body
   \<Rightarrow> ('b, 'k) vault \<Rightarrow> disp_state \<Rightarrow> ('b, 'k) vault_reply" where
  "handle_vault_revoke hash seal w aud now b v s =
     respond_vault aud now
       (\<lambda>_. \<lparr>va_op = ''revoke'', va_principal = [], va_secret_name = vb_name b, va_actor = vault_admin_actor, va_outcome = ''ok'',
             va_detail = []\<rparr>)
       (\<lambda>_. VaultStatus (vb_name b) ''revoked'') s
       (vault_do hash seal w (OpRevoke (vb_name b) now) v)"

definition handle_vault_revoke_principal ::
  "('b \<Rightarrow> string) \<Rightarrow> (vault_store \<Rightarrow> 'k list \<Rightarrow> 'b option) \<Rightarrow> write_outcome \<Rightarrow> auditor \<Rightarrow> instant \<Rightarrow> vault_body
   \<Rightarrow> ('b, 'k) vault \<Rightarrow> disp_state \<Rightarrow> ('b, 'k) vault_reply" where
  "handle_vault_revoke_principal hash seal w aud now b v s =
     respond_vault aud now
       (\<lambda>_. \<lparr>va_op = ''revoke_principal'', va_principal = vb_name b, va_secret_name = [], va_actor = vault_admin_actor,
             va_outcome = ''ok'', va_detail = []\<rparr>)
       (\<lambda>_. VaultStatus (vb_name b) ''principal_revoked'') s
       (vault_do hash seal w (OpRevokePrincipal (vb_name b)) v)"

definition handle_vault_purge_principal ::
  "('b \<Rightarrow> string) \<Rightarrow> (vault_store \<Rightarrow> 'k list \<Rightarrow> 'b option) \<Rightarrow> write_outcome \<Rightarrow> auditor \<Rightarrow> instant \<Rightarrow> vault_body
   \<Rightarrow> ('b, 'k) vault \<Rightarrow> disp_state \<Rightarrow> ('b, 'k) vault_reply" where
  "handle_vault_purge_principal hash seal w aud now b v s =
     respond_vault aud now
       (\<lambda>_. \<lparr>va_op = ''purge_principal'', va_principal = vb_name b, va_secret_name = [], va_actor = vault_admin_actor,
             va_outcome = ''ok'', va_detail = []\<rparr>)
       (\<lambda>_. VaultStatus (vb_name b) ''principal_purged'') s
       (vault_do hash seal w (OpPurgePrincipal (vb_name b)) v)"

definition handle_vault_roll_principal ::
  "('b \<Rightarrow> string) \<Rightarrow> (vault_store \<Rightarrow> 'k list \<Rightarrow> 'b option) \<Rightarrow> write_outcome \<Rightarrow> auditor \<Rightarrow> instant \<Rightarrow> string option list
   \<Rightarrow> vault_body \<Rightarrow> ('b, 'k) vault \<Rightarrow> disp_state \<Rightarrow> ('b, 'k) vault_reply" where
  "handle_vault_roll_principal hash seal w aud now mints b v s =
     respond_vault aud now
       (\<lambda>(rolled, skipped). \<lparr>va_op = ''roll_principal'', va_principal = vb_name b, va_secret_name = [],
          va_actor = vault_admin_actor, va_outcome = ''ok'',
          va_detail = ''rolled='' @ int_str (int (length rolled)) @ '' skipped='' @ int_str (int (length skipped))\<rparr>)
       (\<lambda>(rolled, skipped). VaultRolled (vb_name b) rolled skipped) s
       (mutate_r hash seal w (roll_principal_model (vb_name b) now mints) v)"

text \<open>The routes of \<^verbatim>\<open>mountVaultRoutes\<close>; every handler first decodes its body.\<close>

definition handle_vault_route ::
  "('b \<Rightarrow> string) \<Rightarrow> (vault_store \<Rightarrow> 'k list \<Rightarrow> 'b option) \<Rightarrow> write_outcome \<Rightarrow> auditor \<Rightarrow> instant \<Rightarrow> vault_mints \<Rightarrow> vault_route
   \<Rightarrow> vault_body option \<Rightarrow> ('b, 'k) vault \<Rightarrow> disp_state \<Rightarrow> ('b, 'k) vault_reply" where
  "handle_vault_route hash seal w aud now m route body v s =
     (case body of
        None \<Rightarrow> (v, s, VaultFailed 400 ''invalid JSON body'')
      | Some b \<Rightarrow>
         (case route of
            VaultRegisterPrincipal \<Rightarrow> handle_vault_register_principal hash seal w aud now b v s
          | VaultSet \<Rightarrow> handle_vault_set hash seal w aud now b v s
          | VaultRoll \<Rightarrow> handle_vault_roll hash seal w aud now (vm_one m) b v s
          | VaultRevoke \<Rightarrow> handle_vault_revoke hash seal w aud now b v s
          | VaultRevokePrincipal \<Rightarrow> handle_vault_revoke_principal hash seal w aud now b v s
          | VaultPurgePrincipal \<Rightarrow> handle_vault_purge_principal hash seal w aud now b v s
          | VaultRollPrincipal \<Rightarrow> handle_vault_roll_principal hash seal w aud now (vm_many m) b v s))"

definition serve_vault ::
  "('b \<Rightarrow> string) \<Rightarrow> (vault_store \<Rightarrow> 'k list \<Rightarrow> 'b option) \<Rightarrow> write_outcome \<Rightarrow> auditor \<Rightarrow> instant \<Rightarrow> vault_mints \<Rightarrow> string
   \<Rightarrow> vault_route \<Rightarrow> vault_body option \<Rightarrow> ('b, 'k) vault option \<Rightarrow> disp_state
   \<Rightarrow> ('b, 'k) vault option \<times> disp_state \<times> vault_response" where
  "serve_vault hash seal w aud now m authorization route body vault s =
     (case vault of
        None \<Rightarrow> (None, s, VaultFailed 404 ''not found'')
      | Some v \<Rightarrow>
         (case extract_bearer_token authorization [] False of
            Inl _ \<Rightarrow> (Some v, s, VaultFailed 401 ''bearer token required'')
          | Inr token \<Rightarrow>
             if \<not> authenticate_admin token (va_store v) then (Some v, s, VaultFailed 401 ''invalid vault admin token'')
             else (case handle_vault_route hash seal w aud now m route body v s of
                     (v1, s1, resp) \<Rightarrow> (Some v1, s1, resp))))"

section \<open>What a route promises\<close>

text \<open>The contract of the management surface, written over the vault's document alone: what each route does to it, the value-free
  answer and the record of the audit log.\<close>

definition document_after ::
  "vault_route \<Rightarrow> vault_body \<Rightarrow> vault_mints \<Rightarrow> instant \<Rightarrow> vault_store \<Rightarrow> vault_store \<Rightarrow> string list \<Rightarrow> string list \<Rightarrow> bool" where
  "document_after route b m now doc doc' rolled skipped \<longleftrightarrow>
     (case route of
        VaultRegisterPrincipal \<Rightarrow> register_principal (vb_name b) (vb_kind b) doc = Inr doc'
      | VaultSet \<Rightarrow> set_secret (vb_name b) (vb_value b) (vb_authorized_principals b) (vb_pattern b) now doc = Inr doc'
      | VaultRoll \<Rightarrow>
         (\<exists>x fresh. map_get (vs_secrets doc) (vb_name b) = Some x \<and>
            (if sec_pattern x = ''auto'' then vm_one m = Some fresh else fresh = vb_value b) \<and>
            roll_secret (vb_name b) fresh now doc = Inr doc')
      | VaultRevoke \<Rightarrow> revoke_secret (vb_name b) now doc = Inr doc'
      | VaultRevokePrincipal \<Rightarrow> revoke_principal (vb_name b) doc = Inr doc'
      | VaultPurgePrincipal \<Rightarrow> purge_principal (vb_name b) doc = Inr doc'
      | VaultRollPrincipal \<Rightarrow> roll_principal_model (vb_name b) now (vm_many m) doc = (doc', Inr (rolled, skipped)))"

definition answer_promised :: "vault_route \<Rightarrow> string \<Rightarrow> string list \<Rightarrow> string list \<Rightarrow> vault_response" where
  "answer_promised route n rolled skipped =
     (case route of
        VaultRegisterPrincipal \<Rightarrow> VaultStatus n ''principal_registered''
      | VaultSet \<Rightarrow> VaultStatus n ''set''
      | VaultRoll \<Rightarrow> VaultStatus n ''rolled''
      | VaultRevoke \<Rightarrow> VaultStatus n ''revoked''
      | VaultRevokePrincipal \<Rightarrow> VaultStatus n ''principal_revoked''
      | VaultPurgePrincipal \<Rightarrow> VaultStatus n ''principal_purged''
      | VaultRollPrincipal \<Rightarrow> VaultRolled n rolled skipped)"

definition on_principal :: "vault_route \<Rightarrow> bool" where
  "on_principal route \<longleftrightarrow> route \<in> {VaultRegisterPrincipal, VaultRevokePrincipal, VaultPurgePrincipal, VaultRollPrincipal}"

definition record_promised :: "vault_route \<Rightarrow> vault_body \<Rightarrow> string list \<Rightarrow> string list \<Rightarrow> vault_audit_event" where
  "record_promised route b rolled skipped =
     \<lparr>va_op = (case route of
        VaultRegisterPrincipal \<Rightarrow> ''register'' | VaultSet \<Rightarrow> ''set'' | VaultRoll \<Rightarrow> ''roll'' | VaultRevoke \<Rightarrow> ''revoke''
      | VaultRevokePrincipal \<Rightarrow> ''revoke_principal'' | VaultPurgePrincipal \<Rightarrow> ''purge_principal''
      | VaultRollPrincipal \<Rightarrow> ''roll_principal''),
      va_principal = (if on_principal route then vb_name b else []),
      va_secret_name = (if on_principal route then [] else vb_name b),
      va_actor = ''core-admin-token'', va_outcome = ''ok'',
      va_detail = (case route of
        VaultRegisterPrincipal \<Rightarrow> ''kind='' @ vb_kind b
      | VaultSet \<Rightarrow> if vb_pattern b = [] then ''pattern=unchanged'' else ''pattern='' @ vb_pattern b
      | VaultRollPrincipal \<Rightarrow> ''rolled='' @ int_str (int (length rolled)) @ '' skipped='' @ int_str (int (length skipped))
      | _ \<Rightarrow> [])\<rparr>"

section \<open>Guarded and audited\<close>

text \<open>What the owner's transaction leaves in memory and on disk.\<close>

definition written ::
  "(vault_store \<Rightarrow> 'k list \<Rightarrow> 'b option) \<Rightarrow> vault_store \<Rightarrow> ('b, 'k) vault \<Rightarrow> ('b, 'k) vault \<Rightarrow> bool" where
  "written seal doc v v' \<longleftrightarrow> (\<exists>blob. seal doc (va_keys v) = Some blob \<and> va_disk v' = Some blob)"

lemma mutate_r_outcome:
  assumes "in_step v" and "mutate_r hash seal w fn v = (v', r)"
  shows "case r of
      Inl e \<Rightarrow> va_store v' = va_store v \<and>
        (va_disk v' = va_disk v \<or> w = WriteUnsynced \<and> (\<exists>doc x. fn (va_store v) = (doc, Inr x) \<and> written seal doc v v'))
    | Inr x \<Rightarrow> fn (va_store v) = (va_store v', Inr x) \<and>
        (va_store v' = va_store v \<and> va_disk v' = va_disk v \<or> written seal (va_store v') v v')"
proof -
  obtain doc y where fn: "fn (va_store v) = (doc, y)" by fastforce
  show ?thesis
  proof (cases y)
    case (Inl e)
    then show ?thesis using assms fn by (auto simp: mutate_r_def restore_from_last_def in_step_def)
  next
    case (Inr x)
    then show ?thesis
      using assms fn
      by (cases w) (auto simp: mutate_r_def save_def restore_from_last_def in_step_def written_def write_blob_def Let_def
          split: if_splits option.splits)
  qed
qed

lemma mutate_as_mutate_r:
  assumes "in_step v"
  shows "mutate hash seal w fn v =
    mutate_r hash seal w (\<lambda>s. case fn s of Inl e \<Rightarrow> (s, Inl e) | Inr s1 \<Rightarrow> (s1, Inr ())) v"
  using assms by (auto simp: mutate_def mutate_r_def restore_from_last_def in_step_def split: sum.splits prod.splits)

text \<open>A reply keeps a route's promise: either everything happened, or the request failed.\<close>

definition reply_kept ::
  "(vault_store \<Rightarrow> 'k list \<Rightarrow> 'b option) \<Rightarrow> write_outcome \<Rightarrow> auditor \<Rightarrow> instant \<Rightarrow> vault_mints \<Rightarrow> vault_route \<Rightarrow> vault_body
   \<Rightarrow> ('b, 'k) vault \<Rightarrow> disp_state \<Rightarrow> ('b, 'k) vault_reply \<Rightarrow> bool" where
  "reply_kept seal w aud now m route b v s reply \<longleftrightarrow>
     (case reply of (v', s', resp) \<Rightarrow>
       (\<exists>rolled skipped.
          document_after route b m now (va_store v) (va_store v') rolled skipped \<and>
          (va_store v' = va_store v \<and> va_disk v' = va_disk v \<or> written seal (va_store v') v v') \<and>
          resp = answer_promised route (vb_name b) rolled skipped \<and>
          s' = s\<lparr>ds_audit := ds_audit s @ (if aud = Appends then [(record_promised route b rolled skipped, now)] else [])\<rparr>) \<or>
       (vault_response_status resp = 400 \<and> va_store v' = va_store v \<and> s' = s \<and>
          (va_disk v' = va_disk v \<or>
           w = WriteUnsynced \<and>
           (\<exists>doc rolled skipped. document_after route b m now (va_store v) doc rolled skipped \<and> written seal doc v v'))))"

lemma audit_vault_row:
  "va_op ev \<noteq> [] \<Longrightarrow> va_outcome ev \<noteq> [] \<Longrightarrow>
   audit_vault aud now ev s = s\<lparr>ds_audit := ds_audit s @ (if aud = Appends then [(ev, now)] else [])\<rparr>"
  by (cases aud) (simp_all add: audit_vault_def append_vault_audit_def)

lemma respond_vault_kept:
  assumes "in_step v" and "mutate_r hash seal w fn v = res"
    and "\<And>doc x. fn (va_store v) = (doc, Inr x) \<Longrightarrow> \<exists>rolled skipped. document_after route b m now (va_store v) doc rolled skipped \<and>
      answer x = answer_promised route (vb_name b) rolled skipped \<and> ev x = record_promised route b rolled skipped"
  shows "reply_kept seal w aud now m route b v s (respond_vault aud now ev answer s res)"
proof -
  obtain v' r where res: "res = (v', r)" by fastforce
  note out = mutate_r_outcome [OF assms(1) assms(2) [unfolded res]]
  have row: "audit_vault aud now (record_promised route b rolled skipped) s =
      s\<lparr>ds_audit := ds_audit s @ (if aud = Appends then [(record_promised route b rolled skipped, now)] else [])\<rparr>" for rolled skipped
    by (rule audit_vault_row) (cases route; simp add: record_promised_def)+
  show ?thesis
  proof (cases r)
    case (Inl e)
    then show ?thesis using out assms(3) unfolding res reply_kept_def respond_vault_def by fastforce
  next
    case (Inr x)
    then obtain rolled skipped where "document_after route b m now (va_store v) (va_store v') rolled skipped"
      "answer x = answer_promised route (vb_name b) rolled skipped" "ev x = record_promised route b rolled skipped"
      using out assms(3) by fastforce
    then show ?thesis using out row unfolding res Inr reply_kept_def respond_vault_def by auto
  qed
qed

lemma roll_op_document:
  "roll_op (vm_one m) (vb_name b) (vb_value b) now doc = Inr doc' \<Longrightarrow> document_after VaultRoll b m now doc doc' rolled skipped"
  by (auto simp: document_after_def roll_op_def rolled_value_def bind_result_def split: option.splits if_splits)

lemmas promise_defs = document_after_def answer_promised_def record_promised_def on_principal_def vault_admin_actor_def

lemma handle_vault_route_kept:
  assumes "in_step v"
  shows "reply_kept seal w aud now m route b v s (handle_vault_route hash seal w aud now m route (Some b) v s)"
proof (cases route)
  case VaultRegisterPrincipal
  show ?thesis
    unfolding handle_vault_route_def VaultRegisterPrincipal option.case vault_route.case handle_vault_register_principal_def vault_do_def
      vault_op.case
    by (rule respond_vault_kept [OF assms mutate_as_mutate_r [OF assms, symmetric]]) (auto simp: promise_defs split: sum.splits)
next
  case VaultSet
  show ?thesis
    unfolding handle_vault_route_def VaultSet option.case vault_route.case handle_vault_set_def vault_do_def vault_op.case
    by (rule respond_vault_kept [OF assms mutate_as_mutate_r [OF assms, symmetric]])
      (auto simp: promise_defs vault_set_detail_def split: sum.splits)
next
  case VaultRoll
  show ?thesis
    unfolding handle_vault_route_def VaultRoll option.case vault_route.case handle_vault_roll_def vault_do_def vault_op.case
    by (rule respond_vault_kept [OF assms mutate_as_mutate_r [OF assms, symmetric]])
      (auto simp: answer_promised_def record_promised_def on_principal_def vault_admin_actor_def split: sum.splits,
       blast intro: roll_op_document)
next
  case VaultRevoke
  show ?thesis
    unfolding handle_vault_route_def VaultRevoke option.case vault_route.case handle_vault_revoke_def vault_do_def vault_op.case
    by (rule respond_vault_kept [OF assms mutate_as_mutate_r [OF assms, symmetric]]) (auto simp: promise_defs split: sum.splits)
next
  case VaultRevokePrincipal
  show ?thesis
    unfolding handle_vault_route_def VaultRevokePrincipal option.case vault_route.case handle_vault_revoke_principal_def vault_do_def
      vault_op.case
    by (rule respond_vault_kept [OF assms mutate_as_mutate_r [OF assms, symmetric]]) (auto simp: promise_defs split: sum.splits)
next
  case VaultPurgePrincipal
  show ?thesis
    unfolding handle_vault_route_def VaultPurgePrincipal option.case vault_route.case handle_vault_purge_principal_def vault_do_def
      vault_op.case
    by (rule respond_vault_kept [OF assms mutate_as_mutate_r [OF assms, symmetric]]) (auto simp: promise_defs split: sum.splits)
next
  case VaultRollPrincipal
  show ?thesis
    unfolding handle_vault_route_def VaultRollPrincipal option.case vault_route.case handle_vault_roll_principal_def
    by (rule respond_vault_kept [OF assms refl]) (auto simp: promise_defs)
qed

text \<open>C21. Over HTTP the vault changes only for the holder of its admin token. A request that presented the active admin token is
  answered 200 when it changed the resident document exactly as its route promises (set, register, roll, revoke, purge
  on the named secret or principal), with the new document sealed on disk unless nothing changed, and then the audit log has
  gained the one record of that route (operation, secret or principal, detail, the admin token as actor) if the
  auditor's append committed, and none if there is no auditor or the append failed, which does not change the answer. Every
  other request is answered 400 or 401 and leaves the resident document and the log alone, and the disk as well, unless
  an admitted request's blob was renamed into place and only then failed to sync, which leaves the promised document there.\<close>

theorem vault_api_guarded:
  assumes "serve_vault hash seal w aud now m authorization route body (Some v) s = (Some v', s', resp)" and "in_step v"
  shows "(\<exists>token b rolled skipped.
      extract_bearer_token authorization [] False = Inr token \<and> authenticate_admin token (va_store v) \<and> body = Some b \<and>
      document_after route b m now (va_store v) (va_store v') rolled skipped \<and>
      (va_store v' = va_store v \<and> va_disk v' = va_disk v \<or> written seal (va_store v') v v') \<and>
      resp = answer_promised route (vb_name b) rolled skipped \<and>
      s' = s\<lparr>ds_audit := ds_audit s @ (if aud = Appends then [(record_promised route b rolled skipped, now)] else [])\<rparr>) \<or>
    (vault_response_status resp \<in> {400, 401} \<and> va_store v' = va_store v \<and> s' = s \<and>
     (va_disk v' = va_disk v \<or>
      w = WriteUnsynced \<and>
      (\<exists>token b doc rolled skipped.
         extract_bearer_token authorization [] False = Inr token \<and> authenticate_admin token (va_store v) \<and> body = Some b \<and>
         document_after route b m now (va_store v) doc rolled skipped \<and> written seal doc v v')))"
proof (cases "\<exists>token b. extract_bearer_token authorization [] False = Inr token \<and> authenticate_admin token (va_store v) \<and> body = Some b")
  case False
  then show ?thesis
    using assms(1)
    by (cases "extract_bearer_token authorization [] False"; cases body)
      (auto simp: serve_vault_def handle_vault_route_def split: if_splits)
next
  case True
  then obtain token b where auth: "extract_bearer_token authorization [] False = Inr token" "authenticate_admin token (va_store v)"
    and b: "body = Some b" by blast
  then have "handle_vault_route hash seal w aud now m route (Some b) v s = (v', s', resp)"
    using assms(1) by (auto simp: serve_vault_def split: prod.splits)
  with handle_vault_route_kept [OF assms(2), of seal w aud now m route b s hash]
  have "reply_kept seal w aud now m route b v s (v', s', resp)" by simp
  then show ?thesis unfolding reply_kept_def prod.case
  proof
    assume "\<exists>rolled skipped.
          document_after route b m now (va_store v) (va_store v') rolled skipped \<and>
          (va_store v' = va_store v \<and> va_disk v' = va_disk v \<or> written seal (va_store v') v v') \<and>
          resp = answer_promised route (vb_name b) rolled skipped \<and>
          s' = s\<lparr>ds_audit := ds_audit s @ (if aud = Appends then [(record_promised route b rolled skipped, now)] else [])\<rparr>"
    then show ?thesis using auth b by blast
  qed (use auth b in blast)
qed

theorem vault_api_guarded_witness:
  "\<exists>v1 s1. serve_vault demo_hash demo_seal WriteOk Appends 5 \<lparr>vm_one = None, vm_many = []\<rparr> ''Bearer tok'' VaultRegisterPrincipal
     (Some \<lparr>vb_name = ''mailer'', vb_value = [], vb_authorized_principals = None, vb_pattern = [], vb_kind = ''plugin''\<rparr>)
     (Some demo_vault) run_state = (Some v1, s1, VaultStatus ''mailer'' ''principal_registered'') \<and>
   map (\<lambda>(ev, at_time). (va_op ev, va_principal ev, va_detail ev, at_time)) (ds_audit s1) = [(''register'', ''mailer'', ''kind=plugin'', 5)]"
proof -
  let ?b = "\<lparr>vb_name = ''mailer'', vb_value = [], vb_authorized_principals = None, vb_pattern = [], vb_kind = ''plugin''\<rparr>"
  let ?run = "serve_vault demo_hash demo_seal WriteOk Appends 5 \<lparr>vm_one = None, vm_many = []\<rparr> ''Bearer tok'' VaultRegisterPrincipal
     (Some ?b) (Some demo_vault) run_state"
  have ok: "vault_response_status (snd (snd ?run)) = 200" "fst ?run \<noteq> None" by code_simp+
  obtain v1 s' resp where run: "?run = (Some v1, s', resp)" using ok(2) by (metis option.exhaust prod_cases3 fst_conv)
  have "in_step demo_vault" by (simp add: in_step_def demo_vault_def Let_def)
  from vault_api_guarded [OF run this] ok run show ?thesis
    by (auto simp: answer_promised_def record_promised_def on_principal_def run_state_def)
qed

end
