(* ===== verification/Attestation.thy ===== *)
theory Attestation
  imports Dispatcher Host_Files
begin

text \<open>
  Attestation of plugins and configuration files. The \<^verbatim>\<open>.checksums\<close> manifest records a SHA-256 hash per configuration
  file and a keyed fingerprint per plugin: \<^verbatim>\<open>hash.go\<close>, \<^verbatim>\<open>integrity.go\<close>, \<^verbatim>\<open>plugin_fingerprint.go\<close>, \<^verbatim>\<open>plugin_lock.go\<close>,
  \<^verbatim>\<open>plugin_reverify.go\<close> and \<^verbatim>\<open>plugin_clearpass.go\<close> of \<^verbatim>\<open>src/internal/config\<close>; the check at each spawn, the commands
  that attest and the gateway's closer of clearpass windows: \<^verbatim>\<open>plugin_verifier.go\<close>, \<^verbatim>\<open>plugin_lock.go\<close>,
  \<^verbatim>\<open>plugin_clearpass.go\<close>, \<^verbatim>\<open>clearpass_closer.go\<close>, and \<^verbatim>\<open>config lock\<close> of \<^verbatim>\<open>config.go\<close>, of \<^verbatim>\<open>src/cmd/ductile\<close>.

  The digests (SHA-256, HMAC-SHA256), the reading of files and symbolic links and the parser of RFC 3339 times are
  fields of \<open>attest_host\<close>. The YAML text of the manifest stands for the manifest. Whether a write of the manifest or of
  an audit row succeeds is an argument of the operation that makes it.
\<close>

section \<open>The manifest\<close>

record clearpass =
  cp_id :: string
  cp_opened_at :: string
  cp_until :: string
  cp_note :: string
  cp_seal :: string

record plugin_fingerprint =
  fp_name :: string
  fp_enabled :: bool
  fp_uses :: string
  fp_manifest_path :: string
  fp_manifest_resolved :: string
  fp_manifest_hash :: string
  fp_entrypoint_path :: string
  fp_entrypoint_resolved :: string
  fp_entrypoint_hash :: string
  fp_clearpass :: "clearpass option"

record checksum_manifest =
  cm_version :: int
  cm_generated_at :: string
  cm_hashes :: "(string \<times> string) list"
  cm_fingerprints :: "plugin_fingerprint list"

text \<open>What \<^verbatim>\<open>.checksums\<close> is on disk.\<close>

datatype checksums_file = ChecksumsMissing | ChecksumsUnreadable | ChecksumsGarbled | ChecksumsAt checksum_manifest

record resolved_plugin =
  rp_name :: string
  rp_enabled :: bool
  rp_uses :: string
  rp_manifest_path :: string
  rp_entrypoint_path :: string

record attest_host =
  ah_read :: "string \<Rightarrow> string option"
  ah_symlinks :: "string \<Rightarrow> string option"
  ah_mode :: "string \<Rightarrow> nat option"
  ah_absent :: "string \<Rightarrow> bool"
  ah_sha256 :: "string \<Rightarrow> string"
  ah_hmac :: "string \<Rightarrow> string \<Rightarrow> string"
  ah_parse_time :: "string \<Rightarrow> instant option"

datatype attest_error =
    HashRead string | KeyLength nat | HashMismatch string
  | ManifestMissing | ManifestUnreadable | ManifestGarbled | ManifestLegacy | ManifestVersion int | NotLegacy int
  | NameRequired | NonceLength string nat | NotAbsolute string string | Unresolved string string | NotExecutable string string
  | FingerprintHash string attest_error | ManifestDiffers string | EntrypointDiffers string
  | ClearpassDuration | NoFingerprint string | NotDiscovered string | NoNonce string | Reverify string attest_error
  | SealInvalid attest_error | WindowExpired attest_error
  | NoClearpass string | Unwritable | CloseNotRecorded | WriteFailed | NotCommittable string
  | NotConfigured string | AuditFailed | CodeMismatch | NothingToAttest | ConfigFileHash string

section \<open>Hashes\<close>

definition digest_text :: "string \<Rightarrow> string" where
  "digest_text d = ''sha256:'' @ hex_encode d"

definition compute_file_hash :: "attest_host \<Rightarrow> string \<Rightarrow> attest_error + string" where
  "compute_file_hash h path =
     (case ah_read h path of None \<Rightarrow> Inl (HashRead path) | Some d \<Rightarrow> Inr (digest_text (ah_sha256 h d)))"

definition compute_keyed_file_hash :: "attest_host \<Rightarrow> string \<Rightarrow> string \<Rightarrow> attest_error + string" where
  "compute_keyed_file_hash h path key =
     (if length key \<noteq> 32 then Inl (KeyLength (length key))
      else case ah_read h path of None \<Rightarrow> Inl (HashRead path) | Some d \<Rightarrow> Inr (digest_text (ah_hmac h key d)))"

definition verify_file_hash :: "attest_host \<Rightarrow> string \<Rightarrow> string \<Rightarrow> attest_error + unit" where
  "verify_file_hash h path expected =
     bind_result (compute_file_hash h path) (\<lambda>actual. if actual \<noteq> expected then Inl (HashMismatch path) else Inr ())"

definition load_checksums :: "checksums_file \<Rightarrow> attest_error + checksum_manifest" where
  "load_checksums f =
     (case f of
        ChecksumsMissing \<Rightarrow> Inl ManifestMissing
      | ChecksumsUnreadable \<Rightarrow> Inl ManifestUnreadable
      | ChecksumsGarbled \<Rightarrow> Inl ManifestGarbled
      | ChecksumsAt m \<Rightarrow>
          if cm_version m = 2 then Inl ManifestLegacy
          else if cm_version m \<noteq> 3 then Inl (ManifestVersion (cm_version m)) else Inr m)"

definition legacy_plugin_names :: "checksums_file \<Rightarrow> attest_error + string list" where
  "legacy_plugin_names f =
     (case f of
        ChecksumsMissing \<Rightarrow> Inl ManifestUnreadable
      | ChecksumsUnreadable \<Rightarrow> Inl ManifestUnreadable
      | ChecksumsGarbled \<Rightarrow> Inl ManifestGarbled
      | ChecksumsAt m \<Rightarrow> if cm_version m \<noteq> 2 then Inl (NotLegacy (cm_version m)) else Inr (sort (map fp_name (cm_fingerprints m))))"

section \<open>Fingerprints\<close>

text \<open>\<^verbatim>\<open>info.Mode()&0111 == 0\<close>: no execute bit.\<close>

definition no_execute_bit :: "nat \<Rightarrow> bool" where
  "no_execute_bit m \<longleftrightarrow> \<not> (odd m \<or> odd (m div 8) \<or> odd (m div 64))"

definition compute_plugin_fingerprint :: "attest_host \<Rightarrow> resolved_plugin \<Rightarrow> string \<Rightarrow> attest_error + plugin_fingerprint" where
  "compute_plugin_fingerprint h rp nonce =
     (if rp_name rp = [] then Inl NameRequired
      else if length nonce \<noteq> 32 then Inl (NonceLength (rp_name rp) (length nonce))
      else if \<not> is_abs (rp_manifest_path rp) then Inl (NotAbsolute (rp_name rp) (rp_manifest_path rp))
      else if \<not> is_abs (rp_entrypoint_path rp) then Inl (NotAbsolute (rp_name rp) (rp_entrypoint_path rp))
      else case ah_symlinks h (rp_manifest_path rp) of
        None \<Rightarrow> Inl (Unresolved (rp_name rp) (rp_manifest_path rp))
      | Some mr \<Rightarrow>
        (case ah_symlinks h (rp_entrypoint_path rp) of
           None \<Rightarrow> Inl (Unresolved (rp_name rp) (rp_entrypoint_path rp))
         | Some er \<Rightarrow>
           (case ah_mode h er of
              None \<Rightarrow> Inl (Unresolved (rp_name rp) er)
            | Some m \<Rightarrow>
                if no_execute_bit m then Inl (NotExecutable (rp_name rp) er)
                else case compute_keyed_file_hash h mr nonce of
                  Inl e \<Rightarrow> Inl (FingerprintHash (rp_name rp) e)
                | Inr mh \<Rightarrow>
                  (case compute_keyed_file_hash h er nonce of
                     Inl e \<Rightarrow> Inl (FingerprintHash (rp_name rp) e)
                   | Inr eh \<Rightarrow>
                       Inr \<lparr>fp_name = rp_name rp, fp_enabled = rp_enabled rp, fp_uses = rp_uses rp,
                            fp_manifest_path = rp_manifest_path rp, fp_manifest_resolved = mr, fp_manifest_hash = mh,
                            fp_entrypoint_path = rp_entrypoint_path rp, fp_entrypoint_resolved = er, fp_entrypoint_hash = eh,
                            fp_clearpass = None\<rparr>))))"

definition match_plugin_fingerprint :: "plugin_fingerprint \<Rightarrow> plugin_fingerprint \<Rightarrow> attest_error + unit" where
  "match_plugin_fingerprint recorded live =
     (if fp_manifest_hash live \<noteq> fp_manifest_hash recorded then Inl (ManifestDiffers (fp_name live))
      else if fp_entrypoint_hash live \<noteq> fp_entrypoint_hash recorded then Inl (EntrypointDiffers (fp_name live))
      else Inr ())"

definition verify_resolved_plugin_fingerprint ::
  "attest_host \<Rightarrow> plugin_fingerprint \<Rightarrow> resolved_plugin \<Rightarrow> string \<Rightarrow> attest_error + unit" where
  "verify_resolved_plugin_fingerprint h recorded current nonce =
     (case compute_plugin_fingerprint h current nonce of
        Inl e \<Rightarrow> Inl (Reverify (rp_name current) e)
      | Inr live \<Rightarrow> match_plugin_fingerprint recorded live)"

definition find_plugin_fingerprint :: "checksum_manifest \<Rightarrow> string \<Rightarrow> plugin_fingerprint option" where
  "find_plugin_fingerprint m n = find (\<lambda>fp. fp_name fp = n) (cm_fingerprints m)"

text \<open>The sort of \<^verbatim>\<open>sort.Slice\<close> by name, which is not stable; the names of a manifest written by the program differ.\<close>

definition sort_by_name :: "plugin_fingerprint list \<Rightarrow> plugin_fingerprint list" where
  "sort_by_name fps = sort_key fp_name fps"

definition preserve_plugin_fingerprints :: "plugin_fingerprint list \<Rightarrow> (string \<times> bool) list \<Rightarrow> plugin_fingerprint list" where
  "preserve_plugin_fingerprints existing configured =
     sort_by_name (filter (\<lambda>fp. map_get configured (fp_name fp) \<noteq> None) existing)"

definition merge_plugin_fingerprint :: "plugin_fingerprint list \<Rightarrow> plugin_fingerprint \<Rightarrow> plugin_fingerprint list" where
  "merge_plugin_fingerprint existing fp =
     sort_by_name
       (map (\<lambda>e. if fp_name e = fp_name fp then fp else e) existing @
        (if list_ex (\<lambda>e. fp_name e = fp_name fp) existing then [] else [fp]))"

text \<open>The text hashed for the confirmation code: NUL-terminated fields and the enabled flag as a byte.\<close>

definition code_text :: "plugin_fingerprint \<Rightarrow> string" where
  "code_text fp =
     fp_name fp @ [CHR 0x00] @ fp_uses fp @ [CHR 0x00] @ fp_manifest_hash fp @ [CHR 0x00] @ fp_entrypoint_hash fp @ [CHR 0x00] @
     [if fp_enabled fp then CHR 0x01 else CHR 0x00]"

definition plugin_fingerprints_code :: "attest_host \<Rightarrow> plugin_fingerprint list \<Rightarrow> string" where
  "plugin_fingerprints_code h fps = take 5 (hex_encode (ah_sha256 h (concat (map code_text (sort_by_name fps)))))"

definition last_named :: "plugin_fingerprint list \<Rightarrow> string \<Rightarrow> plugin_fingerprint option" where
  "last_named fps n = find (\<lambda>fp. fp_name fp = n) (rev fps)"

definition diff_plugin_fingerprints ::
  "plugin_fingerprint list \<Rightarrow> plugin_fingerprint list \<Rightarrow> string list \<times> string list \<times> string list" where
  "diff_plugin_fingerprints existing proposed =
     (let next_names = sort (remdups (map fp_name proposed)); prev_names = sort (remdups (map fp_name existing)) in
      (filter (\<lambda>n. case (last_named existing n, last_named proposed n) of
          (Some old, Some np) \<Rightarrow> fp_manifest_hash old \<noteq> fp_manifest_hash np \<or> fp_entrypoint_hash old \<noteq> fp_entrypoint_hash np
        | _ \<Rightarrow> False) next_names,
       filter (\<lambda>n. last_named existing n = None) next_names,
       filter (\<lambda>n. last_named proposed n = None) prev_names))"

text \<open>Writing the manifest; \<open>ok\<close> is the outcome of the atomic write.\<close>

definition write_plugin_fingerprints ::
  "bool \<Rightarrow> instant \<Rightarrow> plugin_fingerprint list \<Rightarrow> bool \<Rightarrow> checksums_file \<Rightarrow> checksums_file \<times> (attest_error + unit)" where
  "write_plugin_fingerprints ok now fps dry_run f =
     (case load_checksums f of
        Inl e \<Rightarrow> (f, Inl e)
      | Inr m \<Rightarrow>
          if dry_run then (f, Inr ())
          else if \<not> ok then (f, Inl WriteFailed)
          else (ChecksumsAt (m\<lparr>cm_fingerprints := sort_by_name fps, cm_generated_at := rfc3339 now\<rparr>), Inr ()))"

fun hash_files :: "attest_host \<Rightarrow> string list \<Rightarrow> (string \<times> string) list \<Rightarrow> attest_error + (string \<times> string) list" where
  "hash_files h [] acc = Inr acc"
| "hash_files h (p # ps) acc =
     (case compute_file_hash h p of
        Inl e \<Rightarrow> Inl (ConfigFileHash p) | Inr d \<Rightarrow> hash_files h ps (map_put p d acc))"

definition generate_checksums_with_fingerprints ::
  "attest_host \<Rightarrow> bool \<Rightarrow> instant \<Rightarrow> string list \<Rightarrow> plugin_fingerprint list \<Rightarrow> bool \<Rightarrow> checksums_file
   \<Rightarrow> checksums_file \<times> (attest_error + unit)" where
  "generate_checksums_with_fingerprints h ok now files fps dry_run f =
     (case hash_files h files [] of
        Inl e \<Rightarrow> (f, Inl e)
      | Inr hs \<Rightarrow>
          if dry_run then (f, Inr ())
          else if \<not> ok then (f, Inl WriteFailed)
          else (ChecksumsAt \<lparr>cm_version = 3, cm_generated_at = rfc3339 now, cm_hashes = hs, cm_fingerprints = sort_by_name fps\<rparr>, Inr ()))"

fun fingerprint_all :: "attest_host \<Rightarrow> string \<Rightarrow> resolved_plugin list \<Rightarrow> attest_error + plugin_fingerprint list" where
  "fingerprint_all h nonce [] = Inr []"
| "fingerprint_all h nonce (rp # rps) =
     bind_result (compute_plugin_fingerprint h rp nonce) (\<lambda>fp.
     bind_result (fingerprint_all h nonce rps) (\<lambda>fps. Inr (fp # fps)))"

definition generate_checksums_with_plugins ::
  "attest_host \<Rightarrow> bool \<Rightarrow> instant \<Rightarrow> string list \<Rightarrow> resolved_plugin list \<Rightarrow> string \<Rightarrow> bool \<Rightarrow> checksums_file
   \<Rightarrow> checksums_file \<times> (attest_error + unit)" where
  "generate_checksums_with_plugins h ok now files plugins nonce dry_run f =
     (case fingerprint_all h nonce plugins of
        Inl e \<Rightarrow> (f, Inl e) | Inr fps \<Rightarrow> generate_checksums_with_fingerprints h ok now files fps dry_run f)"

definition generate_checksums_from_discovery ::
  "attest_host \<Rightarrow> bool \<Rightarrow> instant \<Rightarrow> string list \<Rightarrow> bool \<Rightarrow> checksums_file \<Rightarrow> checksums_file \<times> (attest_error + unit)" where
  "generate_checksums_from_discovery h ok now files dry_run f =
     generate_checksums_with_fingerprints h ok now files [] dry_run f"


text \<open>The scope files of a directory without \<^verbatim>\<open>config.yaml\<close>; a file that does not exist is skipped. The report lists
  name, path and hash of each, no hash for a skipped one.\<close>

fun hash_scope_files ::
  "attest_host \<Rightarrow> string \<Rightarrow> string list \<Rightarrow> (string \<times> string) list \<Rightarrow> (string \<times> string \<times> string option) list
   \<Rightarrow> attest_error + (string \<times> string) list \<times> (string \<times> string \<times> string option) list" where
  "hash_scope_files h abs_dir [] hs report = Inr (hs, report)"
| "hash_scope_files h abs_dir (n # ns) hs report =
     (let path = path_join abs_dir n in
      if ah_absent h path then hash_scope_files h abs_dir ns hs (report @ [(n, path, None)])
      else case compute_file_hash h path of
        Inl e \<Rightarrow> Inl (ConfigFileHash n)
      | Inr d \<Rightarrow> hash_scope_files h abs_dir ns (map_put path d hs) (report @ [(n, path, Some d)]))"

definition generate_checksums_with_report ::
  "attest_host \<Rightarrow> bool \<Rightarrow> instant \<Rightarrow> string \<Rightarrow> string list \<Rightarrow> bool \<Rightarrow> checksums_file
   \<Rightarrow> checksums_file \<times> (attest_error + bool \<times> (string \<times> string \<times> string option) list)" where
  "generate_checksums_with_report h ok now abs_dir names dry_run f =
     (case hash_scope_files h abs_dir names [] [] of
        Inl e \<Rightarrow> (f, Inl e)
      | Inr (hs, report) \<Rightarrow>
          if dry_run then (f, Inr (False, report))
          else if \<not> ok then (f, Inl WriteFailed)
          else (ChecksumsAt \<lparr>cm_version = 3, cm_generated_at = rfc3339 now, cm_hashes = hs, cm_fingerprints = []\<rparr>,
                Inr (True, report)))"

section \<open>Integrity of the configuration files\<close>

record config_files =
  dcf_root :: string
  dcf_config :: string
  dcf_plugins :: "string list"
  dcf_pipelines :: "string list"
  dcf_webhooks :: string
  dcf_routes :: string
  dcf_relay_instances :: string
  dcf_relay_ingress :: string
  dcf_scopes :: "string list"

datatype integrity_tier = TierOperational | TierHighSecurity

definition file_tier :: "config_files \<Rightarrow> string \<Rightarrow> integrity_tier" where
  "file_tier cf p = (if p = dcf_webhooks cf \<or> p \<in> set (dcf_scopes cf) then TierHighSecurity else TierOperational)"

definition present :: "string \<Rightarrow> string list" where
  "present p = (if p \<noteq> [] then [p] else [])"

definition all_files :: "config_files \<Rightarrow> string list" where
  "all_files cf = dcf_config cf # dcf_plugins cf @ dcf_pipelines cf @ present (dcf_webhooks cf) @ present (dcf_routes cf) @
     present (dcf_relay_instances cf) @ present (dcf_relay_ingress cf) @ dcf_scopes cf"

definition high_security_files :: "config_files \<Rightarrow> string list" where
  "high_security_files cf = present (dcf_webhooks cf) @ dcf_scopes cf"

datatype integrity_note =
    ManifestUnusable attest_error | NoManifest | FileNotRecorded string | FileUnhashed string | FileChanged string
  | NonceRequired nat | StaleEntry string | Undiscovered string | EnabledChanged string | UsesChanged string
  | Unfingerprinted string attest_error | ManifestHashChanged string | ManifestMoved string
  | EntrypointHashChanged string | EntrypointMoved string | Unattested string

record integrity_result =
  ir_passed :: bool
  ir_warnings :: "integrity_note list"
  ir_errors :: "integrity_note list"

definition clean_result :: integrity_result where
  "clean_result = \<lparr>ir_passed = True, ir_warnings = [], ir_errors = []\<rparr>"

definition add_warning :: "integrity_note \<Rightarrow> integrity_result \<Rightarrow> integrity_result" where
  "add_warning n r = r\<lparr>ir_warnings := ir_warnings r @ [n]\<rparr>"

definition add_finding :: "integrity_note \<Rightarrow> bool \<Rightarrow> integrity_result \<Rightarrow> integrity_result" where
  "add_finding n hard r =
     (if hard then r\<lparr>ir_passed := False, ir_errors := ir_errors r @ [n]\<rparr> else add_warning n r)"

definition verify_config_file :: "attest_host \<Rightarrow> config_files \<Rightarrow> checksum_manifest \<Rightarrow> string \<Rightarrow> integrity_result \<Rightarrow> integrity_result" where
  "verify_config_file h cf m path r =
     (let hard = file_tier cf path = TierHighSecurity in
      case map_get (cm_hashes m) path of
        None \<Rightarrow> add_finding (FileNotRecorded path) hard r
      | Some expected \<Rightarrow>
         (case compute_file_hash h path of
            Inl e \<Rightarrow> add_finding (FileUnhashed path) hard r
          | Inr actual \<Rightarrow> if actual \<noteq> expected then add_finding (FileChanged path) hard r else r))"

definition verify_integrity :: "attest_host \<Rightarrow> config_files \<Rightarrow> checksums_file \<Rightarrow> integrity_result" where
  "verify_integrity h cf f =
     (case load_checksums f of
        Inl e \<Rightarrow>
          if e \<noteq> ManifestMissing then add_finding (ManifestUnusable e) True clean_result
          else add_finding NoManifest (high_security_files cf \<noteq> []) clean_result
      | Inr m \<Rightarrow> fold (verify_config_file h cf m) (all_files cf) clean_result)"

section \<open>Attestation at boot and reload\<close>

definition compare_fingerprint ::
  "plugin_fingerprint \<Rightarrow> resolved_plugin \<Rightarrow> plugin_fingerprint \<Rightarrow> bool \<Rightarrow> integrity_result \<Rightarrow> integrity_result" where
  "compare_fingerprint fp current live enabled r =
     (let r1 = (if fp_manifest_hash live \<noteq> fp_manifest_hash fp then add_finding (ManifestHashChanged (fp_name fp)) enabled r
                else if rp_manifest_path current \<noteq> fp_manifest_path fp then add_warning (ManifestMoved (fp_name fp)) r
                else if fp_manifest_resolved fp \<noteq> [] \<and> fp_manifest_resolved live \<noteq> fp_manifest_resolved fp
                then add_warning (ManifestMoved (fp_name fp)) r else r)
      in if fp_entrypoint_hash live \<noteq> fp_entrypoint_hash fp then add_finding (EntrypointHashChanged (fp_name fp)) enabled r1
         else if rp_entrypoint_path current \<noteq> fp_entrypoint_path fp then add_warning (EntrypointMoved (fp_name fp)) r1
         else if fp_entrypoint_resolved fp \<noteq> [] \<and> fp_entrypoint_resolved live \<noteq> fp_entrypoint_resolved fp
         then add_warning (EntrypointMoved (fp_name fp)) r1 else r1)"

definition verify_recorded ::
  "attest_host \<Rightarrow> (string \<times> bool) list \<Rightarrow> (string \<times> resolved_plugin) list \<Rightarrow> string \<Rightarrow> plugin_fingerprint
   \<Rightarrow> integrity_result \<Rightarrow> integrity_result" where
  "verify_recorded h configured current nonce fp r =
     (case map_get configured (fp_name fp) of
        None \<Rightarrow> add_warning (StaleEntry (fp_name fp)) r
      | Some enabled \<Rightarrow>
         (case map_get current (fp_name fp) of
            None \<Rightarrow> add_finding (Undiscovered (fp_name fp)) enabled r
          | Some rp \<Rightarrow>
              let r1 = (if fp_enabled fp \<noteq> enabled then add_warning (EnabledChanged (fp_name fp)) r else r);
                  r2 = (if fp_uses fp \<noteq> rp_uses rp then add_warning (UsesChanged (fp_name fp)) r1 else r1)
              in case compute_plugin_fingerprint h rp nonce of
                   Inl e \<Rightarrow> add_finding (Unfingerprinted (fp_name fp) e) enabled r2
                 | Inr live \<Rightarrow> compare_fingerprint fp rp live enabled r2))"

definition verify_plugin_fingerprints ::
  "attest_host \<Rightarrow> plugin_fingerprint list \<Rightarrow> (string \<times> bool) list \<Rightarrow> (string \<times> resolved_plugin) list \<Rightarrow> string
   \<Rightarrow> integrity_result" where
  "verify_plugin_fingerprints h fps configured current nonce =
     (if fps = [] then clean_result
      else if length nonce \<noteq> 32 then add_finding (NonceRequired (length nonce)) True clean_result
      else
        fold (\<lambda>(n, enabled) r. if list_ex (\<lambda>fp. fp_name fp = n) fps then r else add_finding (Unattested n) enabled r) configured
          (fold (verify_recorded h configured current nonce) fps clean_result))"

end
