(* ===== verification/Clearpass.thy ===== *)
theory Clearpass
  imports Attestation
begin

text \<open>
  Clearpass windows: the operator's bounded permission to change the bytes of one attested plugin
  (\<^verbatim>\<open>src/internal/config/plugin_clearpass.go\<close>), the check of a plugin at each spawn (\<^verbatim>\<open>src/cmd/ductile/plugin_verifier.go\<close>),
  the gateway's closer (\<^verbatim>\<open>src/cmd/ductile/clearpass_closer.go\<close>) and the commands \<^verbatim>\<open>plugin clearpass\<close>, \<^verbatim>\<open>plugin lock\<close> and
  \<^verbatim>\<open>config lock\<close>. A window is kept in the manifest beside the fingerprint it relaxes; its life is told by the vault audit log.
\<close>

section \<open>Windows\<close>

definition max_clearpass :: duration where
  "max_clearpass = 24 * hour"

text \<open>\<open>rnd\<close> are the sixteen bytes drawn from the random source.\<close>

definition new_clearpass :: "instant \<Rightarrow> duration \<Rightarrow> string \<Rightarrow> string \<Rightarrow> attest_error + clearpass" where
  "new_clearpass now d note rnd =
     (if d \<le> 0 \<or> d > max_clearpass then Inl ClearpassDuration
      else let opened = now - now mod second in
        Inr \<lparr>cp_id = hex_encode rnd, cp_opened_at = rfc3339 opened, cp_until = rfc3339 (opened + d), cp_note = note, cp_seal = []\<rparr>)"

definition seal_text :: "clearpass \<Rightarrow> plugin_fingerprint \<Rightarrow> string" where
  "seal_text c fp = concat (map (\<lambda>s. s @ [CHR 0x00])
     [''clearpass'', fp_name fp, fp_manifest_hash fp, fp_entrypoint_hash fp, cp_id c, cp_opened_at c, cp_until c, cp_note c])"

definition clearpass_mac :: "attest_host \<Rightarrow> clearpass \<Rightarrow> plugin_fingerprint \<Rightarrow> string \<Rightarrow> string option" where
  "clearpass_mac h c fp nonce =
     (if length nonce \<noteq> 32 then None else Some (digest_text (ah_hmac h nonce (seal_text c fp))))"

definition sealed :: "attest_host \<Rightarrow> clearpass \<Rightarrow> plugin_fingerprint \<Rightarrow> string \<Rightarrow> attest_error + clearpass" where
  "sealed h c fp nonce =
     (case clearpass_mac h c fp nonce of None \<Rightarrow> Inl (KeyLength (length nonce)) | Some mac \<Rightarrow> Inr (c\<lparr>cp_seal := mac\<rparr>))"

definition seal_verifies :: "attest_host \<Rightarrow> clearpass option \<Rightarrow> plugin_fingerprint \<Rightarrow> string \<Rightarrow> bool" where
  "seal_verifies h co fp nonce =
     (case co of
        None \<Rightarrow> False
      | Some c \<Rightarrow> if cp_seal c = [] then False
                  else case clearpass_mac h c fp nonce of None \<Rightarrow> False | Some want \<Rightarrow> want = cp_seal c)"

definition deadline :: "attest_host \<Rightarrow> clearpass \<Rightarrow> instant option" where
  "deadline h c = ah_parse_time h (cp_until c)"

definition opened_at :: "attest_host \<Rightarrow> clearpass \<Rightarrow> instant option" where
  "opened_at h c = ah_parse_time h (cp_opened_at c)"

definition window_open :: "attest_host \<Rightarrow> clearpass option \<Rightarrow> instant \<Rightarrow> bool" where
  "window_open h co now =
     (case co of None \<Rightarrow> False | Some c \<Rightarrow> (case deadline h c of None \<Rightarrow> False | Some t \<Rightarrow> now < t))"

definition window_expired :: "attest_host \<Rightarrow> clearpass option \<Rightarrow> instant \<Rightarrow> bool" where
  "window_expired h co now =
     (case co of None \<Rightarrow> False | Some c \<Rightarrow> (case deadline h c of None \<Rightarrow> False | Some t \<Rightarrow> \<not> now < t))"

definition set_plugin_clearpass :: "plugin_fingerprint list \<Rightarrow> string \<Rightarrow> clearpass option \<Rightarrow> plugin_fingerprint list \<times> bool" where
  "set_plugin_clearpass existing n co =
     (sort_by_name (map (\<lambda>e. if fp_name e = n then e\<lparr>fp_clearpass := co\<rparr> else e) existing),
      list_ex (\<lambda>e. fp_name e = n) existing)"

section \<open>The check at a spawn\<close>

text \<open>The registry gives the directory and the entrypoint of a discovered plugin; \<open>nonce\<close> is the vault's answer.\<close>

type_synonym live_registry = "(string \<times> string \<times> string) list"

record clearpass_spawn =
  sp_plugin :: string
  sp_recorded :: plugin_fingerprint
  sp_live :: plugin_fingerprint
  sp_window :: clearpass

definition live_plugin :: "string \<Rightarrow> bool \<Rightarrow> string \<Rightarrow> string \<times> string \<Rightarrow> resolved_plugin" where
  "live_plugin n enabled uses p =
     \<lparr>rp_name = n, rp_enabled = enabled, rp_uses = uses, rp_manifest_path = path_join (fst p) ''manifest.yaml'',
      rp_entrypoint_path = snd p\<rparr>"

text \<open>Success with a window is a spawn that was let through on a mismatch, to be reported.\<close>

definition verify_identity ::
  "attest_host \<Rightarrow> live_registry \<Rightarrow> string option \<Rightarrow> checksums_file \<Rightarrow> instant \<Rightarrow> string
   \<Rightarrow> attest_error + clearpass_spawn option" where
  "verify_identity h reg nonce f now name =
     (case load_checksums f of
        Inl e \<Rightarrow> Inl e
      | Inr m \<Rightarrow>
         (case find_plugin_fingerprint m name of
            None \<Rightarrow> Inl (NoFingerprint name)
          | Some recorded \<Rightarrow>
             (case map_get reg name of
                None \<Rightarrow> Inl (NotDiscovered name)
              | Some p \<Rightarrow>
                 (case nonce of
                    None \<Rightarrow> Inl (NoNonce name)
                  | Some key \<Rightarrow>
                     (case compute_plugin_fingerprint h (live_plugin name False [] p) key of
                        Inl e \<Rightarrow> Inl (Reverify name e)
                      | Inr live \<Rightarrow>
                         (case match_plugin_fingerprint recorded live of
                            Inr _ \<Rightarrow> Inr None
                          | Inl mismatch \<Rightarrow>
                              if fp_clearpass recorded \<noteq> None \<and> \<not> seal_verifies h (fp_clearpass recorded) recorded key
                              then Inl (SealInvalid mismatch)
                              else if window_open h (fp_clearpass recorded) now then
                                Inr (Some \<lparr>sp_plugin = name, sp_recorded = recorded, sp_live = live,
                                           sp_window = the (fp_clearpass recorded)\<rparr>)
                              else if window_expired h (fp_clearpass recorded) now then Inl (WindowExpired mismatch)
                              else Inl mismatch))))))"

section \<open>The audit rows of a window\<close>

definition short_hash :: "string \<Rightarrow> string" where
  "short_hash s = (if length s < 12 then s else take 12 s)"

text \<open>The \<^verbatim>\<open>%q\<close> verb for ASCII text: quotes, backslashes and control characters are escaped.\<close>

definition quote_char :: "char \<Rightarrow> string" where
  "quote_char c =
     (let n = of_char c :: nat in
      if n = 34 \<or> n = 92 then [CHR 0x5C, c]
      else if n = 7 then [CHR 0x5C, CHR ''a''] else if n = 8 then [CHR 0x5C, CHR ''b'']
      else if n = 9 then [CHR 0x5C, CHR ''t''] else if n = 10 then [CHR 0x5C, CHR ''n'']
      else if n = 11 then [CHR 0x5C, CHR ''v''] else if n = 12 then [CHR 0x5C, CHR ''f'']
      else if n = 13 then [CHR 0x5C, CHR ''r'']
      else if n < 32 \<or> n = 127 then [CHR 0x5C, CHR ''x'', hex_digit (n div 16), hex_digit (n mod 16)]
      else [c])"

definition quoted :: "string \<Rightarrow> string" where
  "quoted s = [CHR 0x22] @ concat (map quote_char s) @ [CHR 0x22]"

definition id_tag :: "string \<Rightarrow> string" where
  "id_tag i = ''id='' @ i"

definition row_has_id :: "string \<Rightarrow> string \<Rightarrow> bool" where
  "row_has_id detail i \<longleftrightarrow> detail = id_tag i \<or> prefix (id_tag i @ '' '') detail"

definition open_detail :: "clearpass \<Rightarrow> string" where
  "open_detail c = id_tag (cp_id c) @ '' until '' @ cp_until c @ '' note='' @ quoted (cp_note c)"

definition audit_op_open :: string where "audit_op_open = ''clearpass_open''"
definition audit_op_spawn :: string where "audit_op_spawn = ''clearpass_spawn''"
definition audit_op_close :: string where "audit_op_close = ''clearpass_close''"

definition clearpass_row :: "string \<Rightarrow> string \<Rightarrow> string \<Rightarrow> string \<Rightarrow> string \<Rightarrow> vault_audit_event" where
  "clearpass_row op plugin actor outcome detail =
     \<lparr>va_op = op, va_principal = plugin, va_secret_name = [], va_actor = actor, va_outcome = outcome, va_detail = detail\<rparr>"

record clearpass_commit =
  cc_plugin :: string
  cc_window :: clearpass
  cc_previous :: plugin_fingerprint
  cc_committed :: plugin_fingerprint

definition commit_changed :: "clearpass_commit \<Rightarrow> bool" where
  "commit_changed c \<longleftrightarrow>
     fp_manifest_hash (cc_previous c) \<noteq> fp_manifest_hash (cc_committed c) \<or>
     fp_entrypoint_hash (cc_previous c) \<noteq> fp_entrypoint_hash (cc_committed c)"

definition pending_detail :: "clearpass_commit \<Rightarrow> string" where
  "pending_detail c = id_tag (cp_id (cc_window c)) @ '' plugin '' @ quoted (cc_plugin c) @ '' closing: will commit entrypoint '' @
     short_hash (fp_entrypoint_hash (cc_committed c)) @ '' (was '' @ short_hash (fp_entrypoint_hash (cc_previous c)) @
     ''), manifest '' @ short_hash (fp_manifest_hash (cc_committed c)) @ '' (was '' @
     short_hash (fp_manifest_hash (cc_previous c)) @ '')''"

definition close_detail :: "clearpass_commit \<Rightarrow> int \<Rightarrow> string" where
  "close_detail c observed =
     (let spawns = (if observed < 0 then ''observed spawns unknown''
                    else if observed = 1 then ''observed in 1 spawn''
                    else if observed > 1 then ''observed in '' @ int_str observed @ '' spawns'' else ''never spawned'');
          w = cc_window c
      in if \<not> commit_changed c then
           id_tag (cp_id w) @ '' plugin '' @ quoted (cc_plugin c) @ '' unchanged (entrypoint '' @
           short_hash (fp_entrypoint_hash (cc_committed c)) @ '', manifest '' @ short_hash (fp_manifest_hash (cc_committed c)) @
           ''), '' @ spawns @ ''; window '' @ cp_opened_at w @ '' to '' @ cp_until w
         else
           id_tag (cp_id w) @ '' plugin '' @ quoted (cc_plugin c) @ '' committed entrypoint '' @
           short_hash (fp_entrypoint_hash (cc_committed c)) @ '' (was '' @ short_hash (fp_entrypoint_hash (cc_previous c)) @
           ''), manifest '' @ short_hash (fp_manifest_hash (cc_committed c)) @ '' (was '' @
           short_hash (fp_manifest_hash (cc_previous c)) @ ''), '' @ spawns @ ''; window '' @ cp_opened_at w @ '' to '' @ cp_until w)"

definition spawn_detail :: "clearpass_spawn \<Rightarrow> string" where
  "spawn_detail sp = id_tag (cp_id (sp_window sp)) @ '' clearpass until '' @ cp_until (sp_window sp) @
     '': entrypoint recorded '' @ short_hash (fp_entrypoint_hash (sp_recorded sp)) @ '' live '' @
     short_hash (fp_entrypoint_hash (sp_live sp)) @ '', manifest recorded '' @ short_hash (fp_manifest_hash (sp_recorded sp)) @
     '' live '' @ short_hash (fp_manifest_hash (sp_live sp))"


section \<open>Closing a window\<close>

text \<open>What the surroundings answer during a close: whether the directory of the manifest can be written, whether the audit log
  can be read and written, and whether the write of the manifest succeeds.\<close>

record close_io =
  ci_probe :: bool
  ci_list :: bool
  ci_pending :: bool
  ci_write :: bool
  ci_result :: bool

text \<open>The manifest and the state that holds the audit log.\<close>

type_synonym attest_state = "checksums_file \<times> disp_state"

definition append_row :: "bool \<Rightarrow> instant \<Rightarrow> vault_audit_event \<Rightarrow> disp_state \<Rightarrow> disp_state" where
  "append_row ok now ev s = (if ok then append_vault_audit now ev s else s)"

definition close_failed_detail :: "string \<Rightarrow> string" where
  "close_failed_detail i = id_tag i @ '' commit failed, window reopened: clearpass close: write .checksums''"

definition commit_clearpass ::
  "attest_host \<Rightarrow> close_io \<Rightarrow> instant \<Rightarrow> string \<Rightarrow> (clearpass_commit \<Rightarrow> disp_state \<Rightarrow> int) \<Rightarrow> plugin_fingerprint \<Rightarrow> resolved_plugin
   \<Rightarrow> string \<Rightarrow> attest_state \<Rightarrow> attest_state \<times> (attest_error + clearpass_commit \<times> int)" where
  "commit_clearpass h io now actor observed recorded current nonce st =
     (case fp_clearpass recorded of
        None \<Rightarrow> (st, Inl (NoClearpass (fp_name recorded)))
      | Some w \<Rightarrow>
         (case compute_plugin_fingerprint h current nonce of
            Inl e \<Rightarrow> (st, Inl e)
          | Inr live \<Rightarrow>
              if \<not> ci_probe io then (st, Inl Unwritable)
              else case load_checksums (fst st) of
                Inl e \<Rightarrow> (st, Inl e)
              | Inr m \<Rightarrow>
                  let c = \<lparr>cc_plugin = fp_name recorded, cc_window = w, cc_previous = recorded, cc_committed = live\<rparr>;
                      row = clearpass_row audit_op_close (fp_name recorded) actor
                  in if \<not> ci_pending io then (st, Inl CloseNotRecorded)
                     else let s1 = append_vault_audit now (row ''pending'' (pending_detail c)) (snd st) in
                       case write_plugin_fingerprints (ci_write io) now (merge_plugin_fingerprint (cm_fingerprints m) live) False (fst st) of
                         (f1, Inl e) \<Rightarrow> ((f1, append_row (ci_result io) now (row ''error'' (close_failed_detail (cp_id w))) s1), Inl e)
                       | (f1, Inr _) \<Rightarrow>
                           let n = observed c s1 in
                           ((f1, append_row (ci_result io) now (row ''ok'' (close_detail c n)) s1), Inr (c, n))))"

section \<open>The gateway's closer\<close>

definition audit_scan :: int where "audit_scan = 10000"
definition commit_grace :: duration where "commit_grace = max_clearpass"

record closer_conf =
  kc_registry :: live_registry
  kc_nonce :: "string option"
  kc_audit :: bool

text \<open>\<open>cl_closed\<close> are the lines \<^verbatim>\<open>clearpass closed\<close> of the gateway's log: the commits whose manifest was written.\<close>

record closer_state =
  cl_checksums :: checksums_file
  cl_disp :: disp_state
  cl_refused :: "string list"
  cl_closed :: "clearpass_commit list"

text \<open>Reading the rows of a window, the newest first: opened, closed, decided, committed.\<close>

fun scan_rows :: "string \<Rightarrow> (vault_audit_event \<times> instant) list \<Rightarrow> bool \<times> bool \<times> bool \<times> bool \<Rightarrow> bool \<times> bool \<times> bool \<times> bool" where
  "scan_rows i [] v = v"
| "scan_rows i ((ev, written) # rows) (opened, shut, decided, committed) =
     (if \<not> row_has_id (va_detail ev) i then scan_rows i rows (opened, shut, decided, committed)
      else if va_op ev = audit_op_open then scan_rows i rows (True, shut, decided, committed)
      else if va_op ev = audit_op_close then
        (let committed1 = committed \<or> va_outcome ev = ''ok'' in
         if decided \<or> va_outcome ev = ''refused'' then scan_rows i rows (opened, shut, decided, committed1)
         else scan_rows i rows (opened, va_outcome ev \<noteq> ''error'', True, committed1))
      else scan_rows i rows (opened, shut, decided, committed))"

definition admit_close ::
  "attest_host \<Rightarrow> closer_conf \<Rightarrow> close_io \<Rightarrow> instant \<Rightarrow> plugin_fingerprint \<Rightarrow> clearpass \<Rightarrow> disp_state \<Rightarrow> attest_error + unit" where
  "admit_close h kc io now recorded w s =
     (case deadline h w of
        None \<Rightarrow> Inl (NotCommittable ''malformed deadline'')
      | Some t \<Rightarrow>
          if now - t > commit_grace then Inl (NotCommittable ''expired beyond the grace'')
          else if \<not> kc_audit kc then Inl (NotCommittable ''no audit log to confirm the window was opened'')
          else if \<not> ci_list io then Inl (NotCommittable ''cannot read the audit log'')
          else case scan_rows (cp_id w) (list_vault_audit (fp_name recorded) audit_scan s) (False, False, False, False) of
            (opened, shut, decided, committed) \<Rightarrow>
              if shut \<or> committed then Inl (NotCommittable ''already closed'')
              else if \<not> opened then Inl (NotCommittable ''no record of the window being opened'')
              else Inr ())"

definition observed_spawns :: "attest_host \<Rightarrow> closer_conf \<Rightarrow> close_io \<Rightarrow> clearpass_commit \<Rightarrow> disp_state \<Rightarrow> int" where
  "observed_spawns h kc io c s =
     (if \<not> kc_audit kc then 0
      else case opened_at h (cc_window c) of
        None \<Rightarrow> - 1
      | Some t \<Rightarrow>
          if \<not> ci_list io then - 1
          else int (length (filter (\<lambda>(ev, written). va_op ev = audit_op_spawn \<and> \<not> written < t) (list_vault_audit (cc_plugin c) audit_scan s))))"

definition closer_commit ::
  "attest_host \<Rightarrow> closer_conf \<Rightarrow> close_io \<Rightarrow> instant \<Rightarrow> plugin_fingerprint \<Rightarrow> attest_state
   \<Rightarrow> attest_state \<times> (attest_error + clearpass_commit \<times> int)" where
  "closer_commit h kc io now recorded st =
     (case map_get (kc_registry kc) (fp_name recorded) of
        None \<Rightarrow> (st, Inl (NotDiscovered (fp_name recorded)))
      | Some p \<Rightarrow>
         (case kc_nonce kc of
            None \<Rightarrow> (st, Inl (NoNonce (fp_name recorded)))
          | Some key \<Rightarrow>
              commit_clearpass h (io\<lparr>ci_pending := ci_pending io \<and> kc_audit kc, ci_result := ci_result io \<and> kc_audit kc\<rparr>) now ''core''
                (observed_spawns h kc io) recorded (live_plugin (fp_name recorded) (fp_enabled recorded) (fp_uses recorded) p) key st))"

definition refusal_kind :: "attest_error \<Rightarrow> string option" where
  "refusal_kind e = (case e of NotCommittable r \<Rightarrow> Some ''not-committable'' | Unwritable \<Rightarrow> Some ''unwritable'' | _ \<Rightarrow> None)"

definition audit_refusal_once :: "closer_conf \<Rightarrow> close_io \<Rightarrow> instant \<Rightarrow> string \<Rightarrow> string \<Rightarrow> string \<Rightarrow> closer_state \<Rightarrow> closer_state" where
  "audit_refusal_once kc io now plugin i kind cs =
     (let key = i @ [CHR 0x00] @ kind in
      if key \<in> set (cl_refused cs) then cs
      else cs\<lparr>cl_refused := key # cl_refused cs,
              cl_disp := append_row (ci_result io \<and> kc_audit kc) now
                (clearpass_row audit_op_close plugin ''core'' ''refused'' (id_tag i @ '' clearpass not committed'')) (cl_disp cs)\<rparr>)"

definition close_one ::
  "attest_host \<Rightarrow> disp_host \<Rightarrow> closer_conf \<Rightarrow> close_io \<Rightarrow> instant \<Rightarrow> plugin_fingerprint \<Rightarrow> clearpass \<Rightarrow> closer_state \<Rightarrow> closer_state" where
  "close_one h dh kc io now recorded w cs =
     (let attempt = (case admit_close h kc io now recorded w (cl_disp cs) of
                       Inl e \<Rightarrow> ((cl_checksums cs, cl_disp cs), Inl e)
                     | Inr _ \<Rightarrow> closer_commit h kc io now recorded (cl_checksums cs, cl_disp cs))
      in case attempt of
           ((f1, s1), Inl e) \<Rightarrow>
             let cs1 = cs\<lparr>cl_checksums := f1, cl_disp := s1\<rparr> in
             (case refusal_kind e of None \<Rightarrow> cs1 | Some kind \<Rightarrow> audit_refusal_once kc io now (fp_name recorded) (cp_id w) kind cs1)
         | ((f1, s1), Inr (c, observed)) \<Rightarrow>
             cs\<lparr>cl_checksums := f1, cl_closed := cl_closed cs @ [c],
                cl_disp := publish_event dh ''plugin.clearpass_closed''
                  [(''plugin'', GStr (cc_plugin c)), (''changed'', GBool (commit_changed c)), (''observed_spawns'', GInt observed),
                   (''detail'', GStr (close_detail c observed))] s1\<rparr>)"

text \<open>\<open>io\<close> gives what the surroundings answer for each plugin.\<close>

fun sweep_windows ::
  "attest_host \<Rightarrow> disp_host \<Rightarrow> closer_conf \<Rightarrow> (string \<Rightarrow> close_io) \<Rightarrow> instant \<Rightarrow> plugin_fingerprint list \<Rightarrow> closer_state \<Rightarrow> closer_state" where
  "sweep_windows h dh kc io now [] cs = cs"
| "sweep_windows h dh kc io now (fp # fps) cs =
     (case fp_clearpass fp of
        None \<Rightarrow> sweep_windows h dh kc io now fps cs
      | Some w \<Rightarrow>
         (case kc_nonce kc of
            None \<Rightarrow> cs
          | Some key \<Rightarrow>
              if \<not> seal_verifies h (Some w) fp key then sweep_windows h dh kc io now fps cs
              else if window_open h (Some w) now then sweep_windows h dh kc io now fps cs
              else if window_expired h (Some w) now
              then sweep_windows h dh kc io now fps (close_one h dh kc (io (fp_name fp)) now fp w cs)
              else sweep_windows h dh kc io now fps cs))"

definition sweep ::
  "attest_host \<Rightarrow> disp_host \<Rightarrow> closer_conf \<Rightarrow> (string \<Rightarrow> close_io) \<Rightarrow> instant \<Rightarrow> closer_state \<Rightarrow> closer_state" where
  "sweep h dh kc io now cs =
     (case load_checksums (cl_checksums cs) of
        Inl e \<Rightarrow> cs | Inr m \<Rightarrow> sweep_windows h dh kc io now (cm_fingerprints m) cs)"

definition report_spawn :: "disp_host \<Rightarrow> bool \<Rightarrow> instant \<Rightarrow> clearpass_spawn \<Rightarrow> disp_state \<Rightarrow> disp_state" where
  "report_spawn dh ok now sp s =
     append_row ok now (clearpass_row audit_op_spawn (sp_plugin sp) ''core'' ''ok'' (spawn_detail sp))
       (publish_event dh ''plugin.clearpass_spawn''
          [(''plugin'', GStr (sp_plugin sp)), (''until'', GStr (cp_until (sp_window sp))), (''note'', GStr (cp_note (sp_window sp))),
           (''detail'', GStr (spawn_detail sp))] s)"

end
