(* ===== verification/Attest_Commands.thy ===== *)
theory Attest_Commands
  imports Clearpass
begin

text \<open>
  The commands that write the manifest, \<^verbatim>\<open>src/cmd/ductile\<close>: \<^verbatim>\<open>plugin clearpass\<close> (\<^verbatim>\<open>plugin_clearpass.go\<close>), \<^verbatim>\<open>plugin lock\<close>
  (\<^verbatim>\<open>plugin_lock.go\<close>) and \<^verbatim>\<open>config lock\<close> (\<^verbatim>\<open>config.go\<close>), and the histories of a gateway in which these commands, the closer,
  tolerated spawns and other writers of the audit log follow each other in any order. The configured plugins as the live
  registry resolves them, and the nonce of the vault, are arguments; \<open>None\<close> is a failure to get them.
\<close>

section \<open>The commands\<close>

definition plugin_clearpass_open ::
  "attest_host \<Rightarrow> close_io \<Rightarrow> instant \<Rightarrow> string list \<Rightarrow> string option \<Rightarrow> string \<Rightarrow> duration \<Rightarrow> string \<Rightarrow> string \<Rightarrow> attest_state
   \<Rightarrow> attest_state \<times> (attest_error + clearpass)" where
  "plugin_clearpass_open h io now configured nonce name window note rnd st =
     (if name \<notin> set configured then (st, Inl (NotConfigured name))
      else case new_clearpass now window note rnd of
        Inl e \<Rightarrow> (st, Inl e)
      | Inr c \<Rightarrow>
        (case load_checksums (fst st) of
           Inl e \<Rightarrow> (st, Inl e)
         | Inr m \<Rightarrow>
           (case find_plugin_fingerprint m name of
              None \<Rightarrow> (st, Inl (NoFingerprint name))
            | Some recorded \<Rightarrow>
              (case nonce of
                 None \<Rightarrow> (st, Inl (NoNonce name))
               | Some key \<Rightarrow>
                 (case sealed h c recorded key of
                    Inl e \<Rightarrow> (st, Inl e)
                  | Inr w \<Rightarrow>
                      if \<not> ci_pending io then (st, Inl AuditFailed)
                      else let s1 = append_vault_audit now
                             (clearpass_row audit_op_open name ''cli'' ''ok'' (open_detail w)) (snd st) in
                        case write_plugin_fingerprints (ci_write io) now (fst (set_plugin_clearpass (cm_fingerprints m) name (Some w)))
                               False (fst st) of
                          (f1, Inl e) \<Rightarrow> ((f1, s1), Inl e)
                        | (f1, Inr _) \<Rightarrow> ((f1, s1), Inr w))))))"

definition plugin_clearpass_close ::
  "attest_host \<Rightarrow> close_io \<Rightarrow> instant \<Rightarrow> resolved_plugin list option \<Rightarrow> string option \<Rightarrow> string \<Rightarrow> attest_state
   \<Rightarrow> attest_state \<times> (attest_error + clearpass_commit \<times> int)" where
  "plugin_clearpass_close h io now resolved nonce name st =
     (case load_checksums (fst st) of
        Inl e \<Rightarrow> (st, Inl e)
      | Inr m \<Rightarrow>
        (case find_plugin_fingerprint m name of
           None \<Rightarrow> (st, Inl (NoClearpass name))
         | Some recorded \<Rightarrow>
             if fp_clearpass recorded = None then (st, Inl (NoClearpass name))
             else case resolved of
               None \<Rightarrow> (st, Inl (NotDiscovered name))
             | Some rps \<Rightarrow>
               (case find (\<lambda>rp. rp_name rp = name) rps of
                  None \<Rightarrow> (st, Inl (NotDiscovered name))
                | Some target \<Rightarrow>
                  (case nonce of
                     None \<Rightarrow> (st, Inl (NoNonce name))
                   | Some key \<Rightarrow> commit_clearpass h io now ''cli'' (\<lambda>c s. - 1) recorded target key st))))"

definition superseded_detail :: "string \<Rightarrow> string" where
  "superseded_detail i = id_tag i @ '' superseded by plugin lock''"

definition lock_failed_detail :: "string \<Rightarrow> string" where
  "lock_failed_detail i = id_tag i @ '' plugin lock failed, window reopened: ''"

definition plugin_lock_one ::
  "attest_host \<Rightarrow> close_io \<Rightarrow> instant \<Rightarrow> string list \<Rightarrow> resolved_plugin list option \<Rightarrow> string option \<Rightarrow> string \<Rightarrow> bool
   \<Rightarrow> attest_state \<Rightarrow> attest_state \<times> (attest_error + plugin_fingerprint)" where
  "plugin_lock_one h io now configured resolved nonce name dry_run st =
     (if name \<notin> set configured then (st, Inl (NotConfigured name))
      else case resolved of
        None \<Rightarrow> (st, Inl (NotDiscovered name))
      | Some rps \<Rightarrow>
        (case find (\<lambda>rp. rp_name rp = name) rps of
           None \<Rightarrow> (st, Inl (NotDiscovered name))
         | Some target \<Rightarrow>
           (case nonce of
              None \<Rightarrow> (st, Inl (NoNonce name))
            | Some key \<Rightarrow>
              (case compute_plugin_fingerprint h target key of
                 Inl e \<Rightarrow> (st, Inl e)
               | Inr fp \<Rightarrow>
                 (case load_checksums (fst st) of
                    Inl e \<Rightarrow> (st, Inl e)
                  | Inr m \<Rightarrow>
                      let window = Option.bind (find_plugin_fingerprint m name) fp_clearpass;
                          closing = window \<noteq> None \<and> \<not> dry_run;
                          row = clearpass_row audit_op_close name ''cli''
                      in if closing \<and> \<not> ci_pending io then (st, Inl AuditFailed)
                         else let s1 = (if closing then append_vault_audit now
                                          (row ''superseded'' (superseded_detail (cp_id (the window)))) (snd st) else snd st) in
                           case write_plugin_fingerprints (ci_write io) now (merge_plugin_fingerprint (cm_fingerprints m) fp) dry_run (fst st) of
                             (f1, Inl e) \<Rightarrow>
                               ((f1, if closing then append_row (ci_result io) now
                                       (row ''error'' (lock_failed_detail (cp_id (the window)))) s1 else s1), Inl e)
                           | (f1, Inr _) \<Rightarrow> ((f1, s1), Inr fp))))))"

datatype lock_outcome = NothingChanged | PreviewCode string | AttestedAll nat

definition plugin_lock_all ::
  "attest_host \<Rightarrow> close_io \<Rightarrow> instant \<Rightarrow> resolved_plugin list option \<Rightarrow> string option \<Rightarrow> string option \<Rightarrow> bool
   \<Rightarrow> attest_state \<Rightarrow> attest_state \<times> (attest_error + lock_outcome)" where
  "plugin_lock_all h io now resolved nonce supplied dry_run st =
     (case resolved of
        None \<Rightarrow> (st, Inl (NotDiscovered []))
      | Some rps \<Rightarrow>
          if rps \<noteq> [] \<and> nonce = None then (st, Inl (NoNonce []))
          else case fingerprint_all h (case nonce of None \<Rightarrow> [] | Some key \<Rightarrow> key) rps of
            Inl e \<Rightarrow> (st, Inl e)
          | Inr fps \<Rightarrow>
            (case load_checksums (fst st) of
               Inl e \<Rightarrow> (st, Inl e)
             | Inr m \<Rightarrow>
                 if diff_plugin_fingerprints (cm_fingerprints m) fps = ([], [], []) then (st, Inr NothingChanged)
                 else case supplied of
                   None \<Rightarrow> (st, Inr (PreviewCode (plugin_fingerprints_code h fps)))
                 | Some code \<Rightarrow>
                     if code \<noteq> plugin_fingerprints_code h fps then (st, Inl CodeMismatch)
                     else case write_plugin_fingerprints (ci_write io) now fps dry_run (fst st) of
                       (f1, Inl e) \<Rightarrow> ((f1, snd st), Inl e)
                     | (f1, Inr _) \<Rightarrow> ((f1, snd st), Inr (AttestedAll (length fps)))))"

text \<open>\<^verbatim>\<open>config lock\<close> on a directory with \<^verbatim>\<open>config.yaml\<close>: recorded fingerprints are carried over, those of a version 2 manifest
  are computed again, and any other failure to load the manifest starts from none.\<close>

definition carried_fingerprints ::
  "attest_host \<Rightarrow> (string \<times> bool) list \<Rightarrow> resolved_plugin list option \<Rightarrow> string option \<Rightarrow> checksums_file
   \<Rightarrow> attest_error + plugin_fingerprint list" where
  "carried_fingerprints h configured resolved nonce f =
     (case load_checksums f of
        Inr m \<Rightarrow> Inr (preserve_plugin_fingerprints (cm_fingerprints m) configured)
      | Inl e \<Rightarrow>
          if e \<noteq> ManifestLegacy then Inr []
          else bind_result (legacy_plugin_names f) (\<lambda>names.
            case resolved of
              None \<Rightarrow> Inl (NotDiscovered [])
            | Some rps \<Rightarrow>
                let migrate = filter (\<lambda>rp. rp_name rp \<in> set names) rps in
                if migrate = [] then Inr []
                else case nonce of
                  None \<Rightarrow> Inl (NoNonce [])
                | Some key \<Rightarrow> bind_result (fingerprint_all h key migrate) (\<lambda>fps. Inr (sort_by_name fps))))"

definition config_lock ::
  "attest_host \<Rightarrow> bool \<Rightarrow> instant \<Rightarrow> config_files \<Rightarrow> (string \<times> bool) list \<Rightarrow> resolved_plugin list option \<Rightarrow> string option \<Rightarrow> bool
   \<Rightarrow> checksums_file \<Rightarrow> checksums_file \<times> (attest_error + unit)" where
  "config_lock h ok now cf configured resolved nonce dry_run f =
     (case carried_fingerprints h configured resolved nonce f of
        Inl e \<Rightarrow> (f, Inl e)
      | Inr fps \<Rightarrow> generate_checksums_with_fingerprints h ok now (all_files cf) fps dry_run f)"

section \<open>Histories\<close>

definition on_attest :: "(attest_state \<Rightarrow> attest_state \<times> 'r) \<Rightarrow> closer_state \<Rightarrow> closer_state" where
  "on_attest run cs =
     (case run (cl_checksums cs, cl_disp cs) of ((f, s), r) \<Rightarrow> cs\<lparr>cl_checksums := f, cl_disp := s\<rparr>)"

definition unspaced :: "string \<Rightarrow> bool" where
  "unspaced i \<longleftrightarrow> CHR '' '' \<notin> set i"

definition windows_unspaced :: "checksums_file \<Rightarrow> bool" where
  "windows_unspaced f =
     (case f of
        ChecksumsAt m \<Rightarrow> list_all (\<lambda>fp. case fp_clearpass fp of None \<Rightarrow> True | Some w \<Rightarrow> unspaced (cp_id w)) (cm_fingerprints m)
      | _ \<Rightarrow> True)"

definition id_unused :: "string \<Rightarrow> disp_state \<Rightarrow> bool" where
  "id_unused i s \<longleftrightarrow> list_all (\<lambda>(ev, _). \<not> row_has_id (va_detail ev) i) (ds_audit s)"

text \<open>One step of a history. The manifest may be replaced at any moment by another one (an older copy, or an edited one) whose
  window ids are free of spaces, as the ids the program draws are. The id drawn for a new window is one the log does not
  hold.\<close>

inductive attest_step :: "attest_host \<Rightarrow> disp_host \<Rightarrow> closer_state \<Rightarrow> closer_state \<Rightarrow> bool" for h dh where
  Sweep: "attest_step h dh cs (sweep h dh kc io now cs)"
| Spawn: "attest_step h dh cs (cs\<lparr>cl_disp := report_spawn dh ok now sp (cl_disp cs)\<rparr>)"
| Open: "id_unused (hex_encode rnd) (cl_disp cs) \<Longrightarrow>
    attest_step h dh cs (on_attest (plugin_clearpass_open h cio now names nonce name window note rnd) cs)"
| Close: "attest_step h dh cs (on_attest (plugin_clearpass_close h cio now resolved nonce name) cs)"
| LockOne: "attest_step h dh cs (on_attest (plugin_lock_one h cio now names resolved nonce name dry) cs)"
| LockAll: "attest_step h dh cs (on_attest (plugin_lock_all h cio now resolved nonce code dry) cs)"
| ConfigLock: "attest_step h dh cs (cs\<lparr>cl_checksums := fst (config_lock h ok now cf configured resolved nonce dry (cl_checksums cs))\<rparr>)"
| Replaced: "windows_unspaced f \<Longrightarrow> attest_step h dh cs (cs\<lparr>cl_checksums := f\<rparr>)"
| OtherRow: "va_op ev \<notin> {audit_op_open, audit_op_close} \<Longrightarrow>
    attest_step h dh cs (cs\<lparr>cl_disp := append_vault_audit now ev (cl_disp cs)\<rparr>)"
| Restart: "attest_step h dh cs (cs\<lparr>cl_refused := []\<rparr>)"

definition attest_start :: "closer_state \<Rightarrow> bool" where
  "attest_start cs \<longleftrightarrow> ds_audit (cl_disp cs) = [] \<and> windows_unspaced (cl_checksums cs) \<and> cl_closed cs = []"

end
