(* ===== verification/Attestation_Properties.thy ===== *)
theory Attestation_Properties
  imports Attest_Commands
begin

text \<open>
  What attestation guarantees: a plugin receives secrets only while its bytes match its keyed fingerprint or inside a sealed
  window that has not ended; the gateway turns a window into an attestation at most once, only after its deadline, within the
  grace and when the log saw it opened; a routine lock never attests new bytes; a boot or reload that passes has matched every
  enabled plugin and every high-security file.
\<close>

section \<open>Fingerprints\<close>

definition live_bytes :: "attest_host \<Rightarrow> resolved_plugin \<Rightarrow> string \<Rightarrow> string \<Rightarrow> bool" where
  "live_bytes h rp md ed \<longleftrightarrow>
     (\<exists>mr er. ah_symlinks h (rp_manifest_path rp) = Some mr \<and> ah_symlinks h (rp_entrypoint_path rp) = Some er \<and>
        ah_read h mr = Some md \<and> ah_read h er = Some ed)"

lemma compute_plugin_fingerprint_Inr:
  assumes "compute_plugin_fingerprint h rp nonce = Inr fp"
  shows "rp_name rp \<noteq> []" "length nonce = 32" "fp_name fp = rp_name rp" "fp_clearpass fp = None"
    "\<exists>md ed. live_bytes h rp md ed \<and> fp_manifest_hash fp = digest_text (ah_hmac h nonce md) \<and>
       fp_entrypoint_hash fp = digest_text (ah_hmac h nonce ed)"
  using assms
  by (auto simp: compute_plugin_fingerprint_def compute_keyed_file_hash_def live_bytes_def
      split: if_splits option.splits sum.splits)

lemma match_plugin_fingerprint_Inr_iff:
  "match_plugin_fingerprint recorded live = Inr u \<longleftrightarrow>
   fp_manifest_hash live = fp_manifest_hash recorded \<and> fp_entrypoint_hash live = fp_entrypoint_hash recorded"
  by (auto simp: match_plugin_fingerprint_def)

lemma seal_verifies_Some:
  "seal_verifies h (Some w) fp key \<longleftrightarrow>
   cp_seal w \<noteq> [] \<and> length key = 32 \<and> cp_seal w = digest_text (ah_hmac h key (seal_text w fp))"
  by (auto simp: seal_verifies_def clearpass_mac_def split: option.splits)

lemma find_plugin_fingerprint_Some:
  "find_plugin_fingerprint m n = Some fp \<Longrightarrow> fp \<in> set (cm_fingerprints m) \<and> fp_name fp = n"
  by (auto simp: find_plugin_fingerprint_def find_Some_iff in_set_conv_nth)

lemma set_sort_by_name [simp]: "set (sort_by_name fps) = set fps"
  by (simp add: sort_by_name_def)

text \<open>A plugin passes the check at a spawn only with a recorded fingerprint and the vault's 32-byte nonce: either the keyed
  hashes of the bytes on disk are the recorded ones, or the record holds a window whose seal is the keyed hash of its
  fields, the plugin's name and the recorded hashes, and whose deadline has not passed; in that case the spawn is handed on
  for reporting.\<close>

theorem spawn_needs_attestation:
  assumes "verify_identity h reg nonce f now name = Inr r"
  shows "\<exists>m recorded key p md ed. load_checksums f = Inr m \<and> recorded \<in> set (cm_fingerprints m) \<and> fp_name recorded = name \<and>
    nonce = Some key \<and> length key = 32 \<and> map_of reg name = Some p \<and> live_bytes h (live_plugin name False [] p) md ed \<and>
    (r = None \<and> fp_manifest_hash recorded = digest_text (ah_hmac h key md) \<and>
       fp_entrypoint_hash recorded = digest_text (ah_hmac h key ed) \<or>
     (\<exists>w t sp. r = Some sp \<and> sp_plugin sp = name \<and> sp_window sp = w \<and> fp_clearpass recorded = Some w \<and>
       cp_seal w = digest_text (ah_hmac h key (seal_text w recorded)) \<and> ah_parse_time h (cp_until w) = Some t \<and> now < t))"
proof -
  from assms obtain m recorded p key live where
    m: "load_checksums f = Inr m" and rec: "find_plugin_fingerprint m name = Some recorded" and p: "map_get reg name = Some p" and
    key: "nonce = Some key" and live: "compute_plugin_fingerprint h (live_plugin name False [] p) key = Inr live"
    by (auto simp: verify_identity_def split: sum.splits option.splits)
  from compute_plugin_fingerprint_Inr [OF live] obtain md ed where
    bytes: "live_bytes h (live_plugin name False [] p) md ed" "fp_manifest_hash live = digest_text (ah_hmac h key md)"
      "fp_entrypoint_hash live = digest_text (ah_hmac h key ed)" and len: "length key = 32" by blast
  show ?thesis
  proof (cases "match_plugin_fingerprint recorded live")
    case (Inr u)
    then have "r = None" using assms m rec p key live by (simp add: verify_identity_def)
    moreover have "fp_manifest_hash recorded = digest_text (ah_hmac h key md)" "fp_entrypoint_hash recorded = digest_text (ah_hmac h key ed)"
      using Inr bytes match_plugin_fingerprint_Inr_iff by simp_all
    ultimately show ?thesis using m find_plugin_fingerprint_Some [OF rec] key len p bytes(1) by blast
  next
    case (Inl e)
    then obtain w where w: "fp_clearpass recorded = Some w" "seal_verifies h (Some w) recorded key" "window_open h (Some w) now"
      "r = Some \<lparr>sp_plugin = name, sp_recorded = recorded, sp_live = live, sp_window = w\<rparr>"
      using assms m rec p key live
      by (cases "fp_clearpass recorded") (auto simp: verify_identity_def window_open_def window_expired_def split: if_splits)
    then obtain t where "ah_parse_time h (cp_until w) = Some t" "now < t"
      by (auto simp: window_open_def deadline_def split: option.splits)
    then show ?thesis using m find_plugin_fingerprint_Some [OF rec] key len p bytes(1) w seal_verifies_Some by fastforce
  qed
qed

section \<open>Locks\<close>

text \<open>C18. A routine \<^verbatim>\<open>config lock\<close> never attests bytes: every plugin fingerprint of the manifest it writes is, window included, one
  of the manifest it read.\<close>

theorem config_lock_attests_nothing:
  assumes "load_checksums f = Inr m" "config_lock h ok now cf configured resolved nonce dry f = (f', Inr ())"
    "load_checksums f' = Inr m'"
  shows "set (cm_fingerprints m') \<subseteq> set (cm_fingerprints m)"
proof -
  have "f' = f \<or> cm_fingerprints m' = sort_by_name (preserve_plugin_fingerprints (cm_fingerprints m) configured)"
    using assms by (auto simp: config_lock_def carried_fingerprints_def generate_checksums_with_fingerprints_def
        load_checksums_def [of "ChecksumsAt x" for x] split: sum.splits if_splits)
  then show ?thesis using assms(1,3) by (auto simp: preserve_plugin_fingerprints_def)
qed

text \<open>Attesting one plugin leaves the record of every other one alone.\<close>

lemma merge_plugin_fingerprint_set:
  "set (merge_plugin_fingerprint existing fp) = insert fp {e \<in> set existing. fp_name e \<noteq> fp_name fp}"
  by (auto simp: merge_plugin_fingerprint_def list_ex_iff split: if_splits)

section \<open>Boot and reload\<close>

lemma add_warning_sel [simp]: "ir_passed (add_warning n r) = ir_passed r"
  by (simp add: add_warning_def)

lemma add_finding_sel [simp]: "ir_passed (add_finding n hard r) \<longleftrightarrow> \<not> hard \<and> ir_passed r"
  by (simp add: add_finding_def)

lemma clean_result_sel [simp]: "ir_passed clean_result"
  by (simp add: clean_result_def)

text \<open>A fold of checks passes exactly when each check passes, whatever came before it.\<close>

lemma fold_passes:
  assumes "\<And>x r. ir_passed (f x r) \<longleftrightarrow> P x \<and> ir_passed r"
  shows "ir_passed (fold f xs r) \<longleftrightarrow> (\<forall>x\<in>set xs. P x) \<and> ir_passed r"
  by (induction xs arbitrary: r) (auto simp: assms)

definition file_matches :: "attest_host \<Rightarrow> checksum_manifest \<Rightarrow> string \<Rightarrow> bool" where
  "file_matches h m path \<longleftrightarrow> (\<exists>d. ah_read h path = Some d \<and> map_get (cm_hashes m) path = Some (digest_text (ah_sha256 h d)))"

lemma verify_config_file_passes:
  "ir_passed (verify_config_file h cf m path r) \<longleftrightarrow> (file_tier cf path = TierHighSecurity \<longrightarrow> file_matches h m path) \<and> ir_passed r"
  by (auto simp: verify_config_file_def file_matches_def compute_file_hash_def Let_def split: option.splits)

lemma high_security_in_all: "p \<in> set (high_security_files cf) \<Longrightarrow> p \<in> set (all_files cf) \<and> file_tier cf p = TierHighSecurity"
  by (auto simp: high_security_files_def all_files_def file_tier_def present_def split: if_splits)

text \<open>A configuration passes its integrity check only if every high-security file (the webhooks file and the scope files)
  is recorded in a usable manifest with the hash of the bytes it has now; without a manifest, only if there is none.\<close>

theorem integrity_covers_high_security:
  assumes "ir_passed (verify_integrity h cf f)" "p \<in> set (high_security_files cf)"
  shows "\<exists>m. load_checksums f = Inr m \<and> file_matches h m p"
proof (cases "load_checksums f")
  case (Inl e)
  with assms show ?thesis by (auto simp: verify_integrity_def split: if_splits)
next
  case (Inr m)
  then have "\<forall>q\<in>set (all_files cf). file_tier cf q = TierHighSecurity \<longrightarrow> file_matches h m q"
    using assms(1) by (simp add: verify_integrity_def fold_passes [OF verify_config_file_passes])
  then show ?thesis using Inr high_security_in_all [OF assms(2)] by blast
qed

definition plugin_matches :: "attest_host \<Rightarrow> (string \<times> resolved_plugin) list \<Rightarrow> string \<Rightarrow> plugin_fingerprint \<Rightarrow> bool" where
  "plugin_matches h current nonce fp \<longleftrightarrow>
     (\<exists>rp live. map_get current (fp_name fp) = Some rp \<and> compute_plugin_fingerprint h rp nonce = Inr live \<and>
        match_plugin_fingerprint fp live = Inr ())"

lemma compare_fingerprint_passes:
  "ir_passed (compare_fingerprint fp rp live enabled r) \<longleftrightarrow> (enabled \<longrightarrow> match_plugin_fingerprint fp live = Inr ()) \<and> ir_passed r"
  by (auto simp: compare_fingerprint_def Let_def match_plugin_fingerprint_Inr_iff)

lemma verify_recorded_passes:
  "ir_passed (verify_recorded h configured current nonce fp r) \<longleftrightarrow>
   (map_get configured (fp_name fp) = Some True \<longrightarrow> plugin_matches h current nonce fp) \<and> ir_passed r"
  by (auto simp: verify_recorded_def plugin_matches_def Let_def compare_fingerprint_passes split: option.splits sum.splits)

lemma unattested_passes:
  "ir_passed ((\<lambda>(n, enabled) r. if list_ex (\<lambda>fp. fp_name fp = n) fps then r else add_finding (Unattested n) enabled r) x r) \<longleftrightarrow>
   (snd x \<longrightarrow> list_ex (\<lambda>fp. fp_name fp = fst x) fps) \<and> ir_passed r"
  by (auto split: prod.splits)

text \<open>C19. When plugin fingerprints are recorded, a boot or reload passes attestation only if every enabled plugin has a record
  and the bytes the live registry resolves it to give, under the vault's 32-byte nonce, the two recorded hashes.\<close>

theorem boot_attests_enabled_plugins:
  assumes "ir_passed (verify_plugin_fingerprints h fps configured current nonce)" "fps \<noteq> []" "map_of configured n = Some True"
  shows "\<exists>fp\<in>set fps. fp_name fp = n \<and> plugin_matches h current nonce fp \<and> length nonce = 32"
proof -
  have len: "length nonce = 32" using assms(1,2) by (simp add: verify_plugin_fingerprints_def split: if_splits)
  then have "ir_passed (fold (verify_recorded h configured current nonce) fps clean_result)"
    "\<forall>x\<in>set configured. snd x \<longrightarrow> list_ex (\<lambda>fp. fp_name fp = fst x) fps"
    using assms(1,2) by (simp_all add: verify_plugin_fingerprints_def fold_passes [OF unattested_passes] split: if_splits)
  moreover have "(n, True) \<in> set configured" using assms(3) by (rule map_of_SomeD)
  ultimately show ?thesis
    using len assms(3) by (fastforce simp: fold_passes [OF verify_recorded_passes] list_ex_iff)
qed

section \<open>An example\<close>

definition attest_demo_host :: attest_host where
  "attest_demo_host = \<lparr>ah_read = (\<lambda>p. Some ''v2''), ah_symlinks = Some, ah_mode = (\<lambda>_. Some 493), ah_absent = (\<lambda>_. False),
     ah_sha256 = (\<lambda>d. d), ah_hmac = (\<lambda>k d. take 2 d), ah_parse_time = (\<lambda>s. if s = rfc3339 0 then Some 0 else Some hour)\<rparr>"

definition attest_demo_nonce :: string where
  "attest_demo_nonce = replicate 32 (CHR ''n'')"

definition attest_demo_record :: "clearpass option \<Rightarrow> plugin_fingerprint" where
  "attest_demo_record w = \<lparr>fp_name = ''mail'', fp_enabled = True, fp_uses = [], fp_manifest_path = ''/p/mail/manifest.yaml'',
     fp_manifest_resolved = ''/p/mail/manifest.yaml'', fp_manifest_hash = digest_text ''v1'', fp_entrypoint_path = ''/p/mail/run'',
     fp_entrypoint_resolved = ''/p/mail/run'', fp_entrypoint_hash = digest_text ''v1'', fp_clearpass = w\<rparr>"

definition attest_demo_manifest :: "plugin_fingerprint list \<Rightarrow> checksum_manifest" where
  "attest_demo_manifest fps = \<lparr>cm_version = 3, cm_generated_at = [], cm_hashes = [(''/c/webhooks.yaml'', digest_text ''v2'')],
     cm_fingerprints = fps\<rparr>"

definition attest_demo_window :: clearpass where
  "attest_demo_window = 
     \<lparr>cp_id = ''61'', cp_opened_at = rfc3339 0, cp_until = rfc3339 hour, cp_note = ''card'', cp_seal = digest_text ''cl''\<rparr>"

definition attest_demo_registry :: live_registry where
  "attest_demo_registry = [(''mail'', ''/p/mail'', ''/p/mail/run'')]"

lemmas attest_demo_defs = attest_demo_host_def attest_demo_nonce_def attest_demo_record_def attest_demo_manifest_def attest_demo_registry_def

lemma attest_demo_spawn:
  "\<not> isl (verify_identity attest_demo_host attest_demo_registry (Some attest_demo_nonce)
     (ChecksumsAt (attest_demo_manifest [attest_demo_record (Some attest_demo_window)])) (30 * minute) ''mail'')"
  by code_simp

theorem spawn_needs_attestation_witness:
  "\<exists>r t. verify_identity attest_demo_host attest_demo_registry (Some attest_demo_nonce)
     (ChecksumsAt (attest_demo_manifest [attest_demo_record (Some attest_demo_window)])) (30 * minute) ''mail'' = Inr r \<and>
     (r = None \<or> ah_parse_time attest_demo_host (cp_until attest_demo_window) = Some t \<and> 30 * minute < t)"
proof -
  obtain r where r: "verify_identity attest_demo_host attest_demo_registry (Some attest_demo_nonce)
     (ChecksumsAt (attest_demo_manifest [attest_demo_record (Some attest_demo_window)])) (30 * minute) ''mail'' = Inr r"
    using attest_demo_spawn sum.collapse(2) by metis
  have loaded: "load_checksums (ChecksumsAt (attest_demo_manifest fps)) = Inr (attest_demo_manifest fps)" for fps
    by (simp add: load_checksums_def attest_demo_manifest_def)
  have only: "recorded = attest_demo_record (Some attest_demo_window)" if "load_checksums (ChecksumsAt (attest_demo_manifest [attest_demo_record (Some attest_demo_window)])) = Inr m"
    "recorded \<in> set (cm_fingerprints m)" for m recorded
    using that by (auto simp: loaded) (simp add: attest_demo_manifest_def)
  have window: "fp_clearpass (attest_demo_record (Some attest_demo_window)) = Some attest_demo_window" by (simp add: attest_demo_record_def)
  from spawn_needs_attestation [OF r] show ?thesis using r only window by (metis option.inject)
qed

definition attest_demo_files :: config_files where
  "attest_demo_files = \<lparr>dcf_root = ''/c'', dcf_config = ''/c/config.yaml'', dcf_plugins = [], dcf_pipelines = [],
     dcf_webhooks = ''/c/webhooks.yaml'', dcf_routes = [], dcf_relay_instances = [], dcf_relay_ingress = [], dcf_scopes = []\<rparr>"

theorem config_lock_attests_nothing_witness:
  "\<exists>f' m'. config_lock attest_demo_host True 0 attest_demo_files [(''mail'', True)] None None False
       (ChecksumsAt (attest_demo_manifest [attest_demo_record None])) = (f', Inr ()) \<and>
     load_checksums f' = Inr m' \<and> set (cm_fingerprints m') \<subseteq> {attest_demo_record None}"
proof -
  let ?f = "ChecksumsAt (attest_demo_manifest [attest_demo_record None])"
  obtain f' where lock: "config_lock attest_demo_host True 0 attest_demo_files [(''mail'', True)] None None False ?f = (f', Inr ())"
    "\<exists>m'. load_checksums f' = Inr m'"
    by (simp add: config_lock_def carried_fingerprints_def load_checksums_def generate_checksums_with_fingerprints_def all_files_def
        present_def compute_file_hash_def attest_demo_files_def attest_demo_defs)
  then obtain m' where m': "load_checksums f' = Inr m'" by blast
  have "load_checksums ?f = Inr (attest_demo_manifest [attest_demo_record None])" by (simp add: load_checksums_def attest_demo_manifest_def)
  from config_lock_attests_nothing [OF this lock(1) m'] show ?thesis using lock(1) m' by (auto simp: attest_demo_manifest_def)
qed

theorem integrity_covers_high_security_witness:
  "\<exists>m. load_checksums (ChecksumsAt (attest_demo_manifest [])) = Inr m \<and> file_matches attest_demo_host m ''/c/webhooks.yaml''"
proof (rule integrity_covers_high_security)
  show "ir_passed (verify_integrity attest_demo_host attest_demo_files (ChecksumsAt (attest_demo_manifest [])))"
    by (simp add: verify_integrity_def load_checksums_def all_files_def present_def verify_config_file_def compute_file_hash_def file_tier_def
        Let_def attest_demo_files_def attest_demo_defs)
  show "''/c/webhooks.yaml'' \<in> set (high_security_files attest_demo_files)"
    by (simp add: high_security_files_def present_def attest_demo_files_def)
qed

definition attest_demo_live :: plugin_fingerprint where
  "attest_demo_live = (attest_demo_record None)\<lparr>fp_manifest_hash := digest_text ''v2'', fp_entrypoint_hash := digest_text ''v2''\<rparr>"

theorem boot_attests_enabled_plugins_witness:
  "\<exists>fp\<in>set [attest_demo_live]. fp_name fp = ''mail'' \<and> plugin_matches attest_demo_host
     [(''mail'', live_plugin ''mail'' True [] (''/p/mail'', ''/p/mail/run''))] attest_demo_nonce fp \<and> length attest_demo_nonce = 32"
proof (rule boot_attests_enabled_plugins)
  show "ir_passed (verify_plugin_fingerprints attest_demo_host [attest_demo_live] [(''mail'', True)]
      [(''mail'', live_plugin ''mail'' True [] (''/p/mail'', ''/p/mail/run''))] attest_demo_nonce)"
    by code_simp
qed simp_all

end
