(* ===== verification/Clearpass_Histories.thy ===== *)
theory Clearpass_Histories
  imports Attestation_Properties Dispatcher_Properties
begin

text \<open>
  The life of a clearpass window over any history of commands, sweeps and tolerated spawns: an invariant of the audit log, kept
  by every step, from which the gateway commits a window at most once even if older copies of the manifest come back, unless
  the row of the first commit was lost and a later command failed for the same window.
\<close>

section \<open>Rows of a window\<close>

definition is_open_row :: "string \<Rightarrow> vault_audit_event \<times> instant \<Rightarrow> bool" where
  "is_open_row i r \<longleftrightarrow> va_op (fst r) = audit_op_open \<and> row_has_id (va_detail (fst r)) i"

definition is_ok_row :: "string \<Rightarrow> vault_audit_event \<times> instant \<Rightarrow> bool" where
  "is_ok_row i r \<longleftrightarrow> va_op (fst r) = audit_op_close \<and> va_outcome (fst r) = ''ok'' \<and> row_has_id (va_detail (fst r)) i"

definition by_gateway :: "vault_audit_event \<times> instant \<Rightarrow> bool" where
  "by_gateway r \<longleftrightarrow> va_actor (fst r) = ''core''"

definition rows_of :: "string \<Rightarrow> (vault_audit_event \<times> instant) list \<Rightarrow> (vault_audit_event \<times> instant) list" where
  "rows_of p rows = filter (\<lambda>r. va_principal (fst r) = p) rows"

definition is_close_row :: "string \<Rightarrow> vault_audit_event \<times> instant \<Rightarrow> bool" where
  "is_close_row i r \<longleftrightarrow> va_op (fst r) = audit_op_close \<and> row_has_id (va_detail (fst r)) i"

definition settles_row :: "string \<Rightarrow> vault_audit_event \<times> instant \<Rightarrow> bool" where
  "settles_row i r \<longleftrightarrow> is_close_row i r \<and> va_outcome (fst r) \<noteq> ''refused''"

text \<open>A row with which a command gives a window back after it could not write the manifest.\<close>

definition reopens_row :: "string \<Rightarrow> vault_audit_event \<times> instant \<Rightarrow> bool" where
  "reopens_row i r \<longleftrightarrow> is_close_row i r \<and> va_outcome (fst r) = ''error'' \<and> \<not> by_gateway r"

text \<open>The latest row that settles a window says whether it is used up.\<close>

definition shut_in :: "string \<Rightarrow> (vault_audit_event \<times> instant) list \<Rightarrow> bool" where
  "shut_in i rows = (case find (settles_row i) (rev rows) of None \<Rightarrow> False | Some r \<Rightarrow> va_outcome (fst r) \<noteq> ''error'')"

definition command_reopened :: "string \<Rightarrow> string \<Rightarrow> (vault_audit_event \<times> instant) list \<Rightarrow> bool" where
  "command_reopened p i rows \<longleftrightarrow> (\<exists>r\<in>set (rows_of p rows). reopens_row i r)"

definition recorded_commits :: "string \<Rightarrow> string \<Rightarrow> (vault_audit_event \<times> instant) list \<Rightarrow> nat" where
  "recorded_commits p i rows = length (filter (\<lambda>r. is_ok_row i r \<and> by_gateway r) (rows_of p rows))"

definition gateway_commits :: "string \<Rightarrow> string \<Rightarrow> clearpass_commit list \<Rightarrow> nat" where
  "gateway_commits p i made = length (filter (\<lambda>c. cc_plugin c = p \<and> cp_id (cc_window c) = i) made)"

definition audit_inv :: "clearpass_commit list \<Rightarrow> (vault_audit_event \<times> instant) list \<Rightarrow> bool" where
  "audit_inv made rows \<longleftrightarrow>
     (\<forall>p i. unspaced i \<longrightarrow>
        sorted_wrt (\<lambda>a b. \<not> (is_close_row i a \<and> is_open_row i b)) (rows_of p rows) \<and> recorded_commits p i rows \<le> 1 \<and>
        (command_reopened p i rows \<or>
         gateway_commits p i made \<le> 1 \<and> (gateway_commits p i made = 1 \<longrightarrow> shut_in i (rows_of p rows))))"

lemma rows_of_append [simp]: "rows_of p (xs @ ys) = rows_of p xs @ rows_of p ys"
  by (simp add: rows_of_def)

lemma commits_append:
  "recorded_commits p i (xs @ ys) = recorded_commits p i xs + recorded_commits p i ys"
  "gateway_commits p i (cs @ ds) = gateway_commits p i cs + gateway_commits p i ds"
  by (simp_all add: recorded_commits_def gateway_commits_def)

lemma rows_of_single: "rows_of p [r] = (if va_principal (fst r) = p then [r] else [])"
  by (simp add: rows_of_def)

lemma command_reopened_append [simp]:
  "command_reopened p i (xs @ ys) \<longleftrightarrow> command_reopened p i xs \<or> command_reopened p i ys"
  by (auto simp: command_reopened_def)

lemma shut_in_snoc: "shut_in i (rows @ [r]) = (if settles_row i r then va_outcome (fst r) \<noteq> ''error'' else shut_in i rows)"
  by (simp add: shut_in_def)

lemma op_names_differ [simp]:
  "audit_op_open \<noteq> audit_op_close" "audit_op_spawn \<noteq> audit_op_close" "audit_op_spawn \<noteq> audit_op_open"
  "audit_op_close \<noteq> audit_op_open" "audit_op_close \<noteq> audit_op_spawn" "audit_op_open \<noteq> audit_op_spawn"
  "audit_op_close \<noteq> []" "audit_op_open \<noteq> []" "audit_op_spawn \<noteq> []"
  by (simp_all add: audit_op_open_def audit_op_close_def audit_op_spawn_def)

lemma takeWhile_until: "x \<notin> set i \<Longrightarrow> takeWhile (\<lambda>c. c \<noteq> x) (i @ x # t) = i"
  by (induction i) auto

lemma row_id_unique:
  assumes "row_has_id d i" "unspaced i"
  shows "takeWhile (\<lambda>c. c \<noteq> CHR '' '') (drop 3 d) = i"
proof -
  have stop: "takeWhile (\<lambda>c. c \<noteq> CHR '' '') (i @ CHR '' '' # t) = i" "takeWhile (\<lambda>c. c \<noteq> CHR '' '') i = i" for t
    using assms(2) by (auto simp: unspaced_def takeWhile_until takeWhile_eq_all_conv)
  from assms(1) show ?thesis
    by (auto simp: row_has_id_def id_tag_def prefix_def stop)
qed

lemma row_has_tail: "row_has_id (id_tag i @ CHR '' '' # t) i"
  by (simp add: row_has_id_def)

lemma hex_digit_not_space: "n < 16 \<Longrightarrow> hex_digit n \<noteq> CHR '' ''"
proof -
  have "list_all (\<lambda>n. hex_digit n \<noteq> CHR '' '') [0..<16]" by code_simp
  then show "n < 16 \<Longrightarrow> hex_digit n \<noteq> CHR '' ''" by (simp only: list_all_iff set_upt) simp
qed

lemma unspaced_hex [simp]: "unspaced (hex_encode s)"
proof -
  have "(of_char c :: nat) mod 256 < 256" for c by simp
  then have "(of_char c :: nat) < 256" for c by (metis of_char_mod_256)
  then have "hex_digit (of_char c div 16) \<noteq> CHR '' ''" "hex_digit (of_char c mod 16) \<noteq> CHR '' ''" for c
    by (intro hex_digit_not_space; simp add: less_mult_imp_div_less)+
  then show ?thesis by (auto simp: unspaced_def hex_encode_def) (metis+)
qed

section \<open>Growth of the log\<close>

lemma audit_inv_Nil [simp]: "audit_inv [] []"
  by (simp add: audit_inv_def rows_of_def gateway_commits_def recorded_commits_def)

text \<open>A row that opens nothing: the gateway's \<^verbatim>\<open>ok\<close> is the first of its window, and the gateway's \<^verbatim>\<open>error\<close> comes before any
  commit of it.\<close>

lemma audit_inv_row:
  assumes inv: "audit_inv made rows" and op: "va_op (fst r) \<noteq> audit_op_open"
    and first: "\<And>j. unspaced j \<Longrightarrow> is_ok_row j r \<Longrightarrow> by_gateway r \<Longrightarrow> recorded_commits (va_principal (fst r)) j rows = 0"
    and failed: "\<And>j. unspaced j \<Longrightarrow> is_close_row j r \<Longrightarrow> va_outcome (fst r) = ''error'' \<Longrightarrow> by_gateway r \<Longrightarrow>
      gateway_commits (va_principal (fst r)) j made = 0 \<or> command_reopened (va_principal (fst r)) j rows"
  shows "audit_inv made (rows @ [r])"
  unfolding audit_inv_def
proof (intro allI impI)
  fix p i assume i: "unspaced i"
  note old = inv [unfolded audit_inv_def, rule_format, OF i, of p]
  have "sorted_wrt (\<lambda>a b. \<not> (is_close_row i a \<and> is_open_row i b)) (rows_of p (rows @ [r]))"
    using old op by (auto simp: sorted_wrt_append rows_of_single is_open_row_def)
  moreover have "recorded_commits p i (rows @ [r]) \<le> 1"
  proof (cases "va_principal (fst r) = p \<and> is_ok_row i r \<and> by_gateway r")
    case True
    then show ?thesis using first [OF i] by (simp add: commits_append) (simp add: recorded_commits_def rows_of_single)
  next
    case False
    then have "recorded_commits p i [r] = 0" by (auto simp: recorded_commits_def rows_of_single)
    then show ?thesis using old by (simp add: commits_append)
  qed
  moreover have "command_reopened p i (rows @ [r]) \<or> gateway_commits p i made \<le> 1 \<and>
      (gateway_commits p i made = 1 \<longrightarrow> shut_in i (rows_of p (rows @ [r])))"
  proof (cases "va_principal (fst r) = p \<and> settles_row i r \<and> va_outcome (fst r) = ''error''")
    case True
    then show ?thesis using failed [OF i] old
      by (cases "by_gateway r") (auto simp: settles_row_def reopens_row_def command_reopened_def rows_of_single)
  next
    case False
    then show ?thesis using old by (auto simp: rows_of_single shut_in_snoc)
  qed
  ultimately show "sorted_wrt (\<lambda>a b. \<not> (is_close_row i a \<and> is_open_row i b)) (rows_of p (rows @ [r])) \<and>
      recorded_commits p i (rows @ [r]) \<le> 1 \<and> (command_reopened p i (rows @ [r]) \<or> gateway_commits p i made \<le> 1 \<and>
      (gateway_commits p i made = 1 \<longrightarrow> shut_in i (rows_of p (rows @ [r]))))"
    by blast
qed

lemma audit_inv_open:
  assumes inv: "audit_inv made rows" and op: "va_op (fst r) = audit_op_open" "row_has_id (va_detail (fst r)) j" "unspaced j"
    and unused: "\<forall>r'\<in>set rows. \<not> row_has_id (va_detail (fst r')) j"
  shows "audit_inv made (rows @ [r])"
proof -
  have only: "i = j" if "is_open_row i r" "unspaced i" for i
    using row_id_unique [OF op(2,3)] row_id_unique [of "va_detail (fst r)" i] that by (simp add: is_open_row_def)
  have none: "\<not> is_close_row j r'" if "r' \<in> set (rows_of p rows)" for r' p
    using unused that by (simp add: is_close_row_def rows_of_def)
  have "recorded_commits p i [r] = 0" "\<not> settles_row i r" for p i
    using op(1) by (simp_all add: recorded_commits_def rows_of_single is_ok_row_def settles_row_def is_close_row_def)
  then show ?thesis
    using inv only none by (auto simp: audit_inv_def sorted_wrt_append commits_append rows_of_single shut_in_snoc)
qed

text \<open>A commit of a window that is used up by a row written before.\<close>

lemma audit_inv_closed:
  assumes "audit_inv made rows" "shut_in (cp_id (cc_window c)) (rows_of (cc_plugin c) rows)"
    and "gateway_commits (cc_plugin c) (cp_id (cc_window c)) made = 0 \<or> command_reopened (cc_plugin c) (cp_id (cc_window c)) rows"
  shows "audit_inv (made @ [c]) rows"
proof -
  have one: "gateway_commits p i [c] = (if cc_plugin c = p \<and> cp_id (cc_window c) = i then 1 else 0)" for p i
    by (simp add: gateway_commits_def)
  show ?thesis
    using assms by (auto simp: audit_inv_def commits_append one)
qed

section \<open>What the closer admits\<close>

lemma scan_rows_spec:
  "scan_rows i rows (opened, shut, decided, committed) = (o1, s1, d1, c1) \<Longrightarrow>
   (c1 \<longleftrightarrow> committed \<or> (\<exists>r\<in>set rows. is_ok_row i r)) \<and> (o1 \<longleftrightarrow> opened \<or> (\<exists>r\<in>set rows. is_open_row i r))"
proof (induction rows arbitrary: opened shut decided committed)
  case (Cons r rows)
  obtain ev t where r: "r = (ev, t)" by fastforce
  show ?case
  proof (cases "row_has_id (va_detail ev) i")
    case False
    then show ?thesis
      using Cons.IH [of opened shut decided committed] Cons.prems by (simp add: r is_ok_row_def is_open_row_def)
  next
    case id: True
    consider (op) "va_op ev = audit_op_open" | (final) "va_op ev = audit_op_close" "decided \<or> va_outcome ev = ''refused''"
      | (first) "va_op ev = audit_op_close" "\<not> (decided \<or> va_outcome ev = ''refused'')"
      | (other) "va_op ev \<noteq> audit_op_open" "va_op ev \<noteq> audit_op_close" by blast
    then show ?thesis
    proof cases
      case op
      then show ?thesis
        using Cons.IH [of True shut decided committed] Cons.prems id by (simp add: r is_ok_row_def is_open_row_def)
    next
      case final
      then show ?thesis
        using Cons.IH [of opened shut decided "committed \<or> va_outcome ev = ''ok''"] Cons.prems id
        by (auto simp: r is_ok_row_def is_open_row_def Let_def)
    next
      case first
      then show ?thesis
        using Cons.IH [of opened "va_outcome ev \<noteq> ''error''" True "committed \<or> va_outcome ev = ''ok''"] Cons.prems id
        by (auto simp: r is_ok_row_def is_open_row_def Let_def)
    next
      case other
      then show ?thesis
        using Cons.IH [of opened shut decided committed] Cons.prems id by (simp add: r is_ok_row_def is_open_row_def)
    qed
  qed
qed simp

lemma scan_rows_shut:
  "scan_rows i rows (opened, shut, decided, committed) = (o1, s1, d1, c1) \<Longrightarrow>
   s1 = (if decided then shut else case find (settles_row i) rows of None \<Rightarrow> shut | Some r \<Rightarrow> va_outcome (fst r) \<noteq> ''error'')"
proof (induction rows arbitrary: opened shut decided committed)
  case (Cons r rows)
  obtain ev t where r: "r = (ev, t)" by fastforce
  have settles: "settles_row i r \<longleftrightarrow> row_has_id (va_detail ev) i \<and> va_op ev = audit_op_close \<and> va_outcome ev \<noteq> ''refused''"
    by (auto simp: r settles_row_def is_close_row_def)
  show ?case
  proof (cases "settles_row i r \<and> \<not> decided")
    case True
    then show ?thesis using Cons.IH Cons.prems settles by (fastforce simp: r Let_def)
  next
    case False
    then have "\<exists>op cm. scan_rows i (r # rows) (opened, shut, decided, committed) = scan_rows i rows (op, shut, decided, cm)"
      using settles by (auto simp: r Let_def)
    then show ?thesis using Cons.IH Cons.prems False by (metis find.simps(2))
  qed
qed simp

lemma list_vault_audit_rows: "p \<noteq> [] \<Longrightarrow> list_vault_audit p audit_scan s = take 10000 (rev (rows_of p (ds_audit s)))"
  by (auto simp: list_vault_audit_def rows_of_def audit_scan_def case_prod_beta')

lemma in_recent:
  assumes "sorted_wrt R L" "x \<in> set (take n (rev L))" "y \<in> set L" "\<not> R y x"
  shows "y \<in> set (take n (rev L))"
proof -
  let ?k = "length L - n"
  have recent: "set (take n (rev L)) = set (drop ?k L)" by (simp add: take_rev)
  have "sorted_wrt R (take ?k L @ drop ?k L)" using assms(1) by simp
  then have "y \<notin> set (take ?k L)" using assms(2,4) recent unfolding sorted_wrt_append by blast
  then show ?thesis using assms(3) recent by (metis Un_iff append_take_drop_id set_append)
qed

lemma admit_close_Inr:
  assumes "admit_close h kc io now recorded w s = Inr u" "fp_name recorded \<noteq> []"
  shows "\<exists>t. deadline h w = Some t \<and> now - t \<le> commit_grace"
    "\<exists>r\<in>set (take 10000 (rev (rows_of (fp_name recorded) (ds_audit s)))). is_open_row (cp_id w) r"
    "\<forall>r\<in>set (take 10000 (rev (rows_of (fp_name recorded) (ds_audit s)))). \<not> is_ok_row (cp_id w) r"
    "\<And>r. find (settles_row (cp_id w)) (take 10000 (rev (rows_of (fp_name recorded) (ds_audit s)))) = Some r \<Longrightarrow> va_outcome (fst r) = ''error''"
proof -
  obtain o1 s1 d1 c1 where scan: "scan_rows (cp_id w) (take 10000 (rev (rows_of (fp_name recorded) (ds_audit s)))) (False, False, False, False) = (o1, s1, d1, c1)"
    using prod_cases4 by blast
  have adm: "\<not> s1" "\<not> c1" "o1" "\<exists>t. deadline h w = Some t \<and> now - t \<le> commit_grace"
    using assms scan by (auto simp: admit_close_def list_vault_audit_rows split: option.splits if_splits)
  show "\<exists>t. deadline h w = Some t \<and> now - t \<le> commit_grace"
    "\<exists>r\<in>set (take 10000 (rev (rows_of (fp_name recorded) (ds_audit s)))). is_open_row (cp_id w) r"
    "\<forall>r\<in>set (take 10000 (rev (rows_of (fp_name recorded) (ds_audit s)))). \<not> is_ok_row (cp_id w) r"
    using adm scan_rows_spec [OF scan] by auto
  show "va_outcome (fst r) = ''error''"
    if "find (settles_row (cp_id w)) (take 10000 (rev (rows_of (fp_name recorded) (ds_audit s)))) = Some r" for r
    using adm(1) scan_rows_shut [OF scan] that by simp
qed

lemma find_take:
  assumes "find P xs = Some x" "x \<in> set (take n xs)"
  shows "find P (take n xs) = Some x"
proof -
  have found: "find P ys = Some y \<Longrightarrow> find P (ys @ zs) = Some y" for ys zs y by (induction ys) auto
  have "P x" using assms(1) by (metis find_Some_iff)
  then obtain y where "find P (take n xs) = Some y" using assms(2) by (metis find_None_iff not_None_eq)
  then show ?thesis using found [of "take n xs" y "drop n xs"] assms(1) by simp
qed

lemma admitted_fresh:
  assumes "admit_close h kc io now recorded w s = Inr u" "fp_name recorded \<noteq> []" "audit_inv made (ds_audit s)" "unspaced (cp_id w)"
  shows "recorded_commits (fp_name recorded) (cp_id w) (ds_audit s) = 0"
    "\<not> shut_in (cp_id w) (rows_of (fp_name recorded) (ds_audit s))"
proof -
  let ?rows = "rows_of (fp_name recorded) (ds_audit s)"
  obtain x where x: "x \<in> set (take 10000 (rev ?rows))" "is_open_row (cp_id w) x"
    using admit_close_Inr(2) [OF assms(1,2)] by blast
  have order: "sorted_wrt (\<lambda>a b. \<not> (is_close_row (cp_id w) a \<and> is_open_row (cp_id w) b)) ?rows"
    using assms(3,4) by (simp add: audit_inv_def)
  have recent: "r \<in> set (take 10000 (rev ?rows))" if "r \<in> set ?rows" "is_close_row (cp_id w) r" for r
    using in_recent [OF order x(1) that(1)] x(2) that(2) by blast
  show "recorded_commits (fp_name recorded) (cp_id w) (ds_audit s) = 0"
    using recent admit_close_Inr(3) [OF assms(1,2)]
    by (fastforce simp: recorded_commits_def filter_empty_conv is_ok_row_def is_close_row_def)
  have "va_outcome (fst r) = ''error''" if r: "find (settles_row (cp_id w)) (rev ?rows) = Some r" for r
  proof -
    have "r \<in> set (rev ?rows) \<and> settles_row (cp_id w) r" using r by (metis find_Some_iff nth_mem)
    then have "r \<in> set ?rows" "is_close_row (cp_id w) r" by (auto simp: settles_row_def)
    then show ?thesis using find_take [OF r recent] admit_close_Inr(4) [OF assms(1,2)] by blast
  qed
  then show "\<not> shut_in (cp_id w) ?rows" by (simp add: shut_in_def split: option.split)
qed

text \<open>A window that is admitted has not been committed by the gateway, or a command has given it back.\<close>

lemma admitted_never_committed:
  assumes "admit_close h kc io now recorded w s = Inr u" "fp_name recorded \<noteq> []" "audit_inv made (ds_audit s)" "unspaced (cp_id w)"
  shows "gateway_commits (fp_name recorded) (cp_id w) made = 0 \<or> command_reopened (fp_name recorded) (cp_id w) (ds_audit s)"
  using admitted_fresh(2) [OF assms] assms(3,4) by (fastforce simp: audit_inv_def le_Suc_eq)

section \<open>Every step keeps the log in order\<close>

lemma publish_event_log [simp]: "ds_audit (publish_event dh ty data s) = ds_audit s"
  by (simp add: publish_event_def)

lemma append_vault_audit_log:
  "ds_audit (append_vault_audit now ev s) = (if va_op ev = [] \<or> va_outcome ev = [] then ds_audit s else ds_audit s @ [(ev, now)])"
  by (simp add: append_vault_audit_def)

lemma clearpass_row_sel [simp]:
  "va_op (clearpass_row op p a oc d) = op" "va_principal (clearpass_row op p a oc d) = p" "va_actor (clearpass_row op p a oc d) = a"
  "va_outcome (clearpass_row op p a oc d) = oc" "va_detail (clearpass_row op p a oc d) = d"
  by (simp_all add: clearpass_row_def)

text \<open>Rows that neither open a window nor say how a commit of the gateway went.\<close>

definition quiet_row :: "vault_audit_event \<Rightarrow> bool" where
  "quiet_row ev \<longleftrightarrow> va_op ev \<noteq> audit_op_open \<and>
     (va_op ev = audit_op_close \<and> va_actor ev = ''core'' \<longrightarrow> va_outcome ev \<noteq> ''ok'' \<and> va_outcome ev \<noteq> ''error'')"

lemma quiet_row_simps [simp]:
  "quiet_row (clearpass_row audit_op_close p a oc d) \<longleftrightarrow> oc \<noteq> ''ok'' \<and> oc \<noteq> ''error'' \<or> a \<noteq> ''core''"
  "quiet_row (clearpass_row audit_op_spawn p a oc d)"
  by (auto simp: quiet_row_def)

lemma audit_inv_quiet:
  "audit_inv made (ds_audit s) \<Longrightarrow> quiet_row ev \<Longrightarrow> audit_inv made (ds_audit (append_vault_audit now ev s))"
  by (auto simp: append_vault_audit_log quiet_row_def is_ok_row_def is_close_row_def by_gateway_def intro!: audit_inv_row)

lemma audit_inv_quiet_row:
  "audit_inv made (ds_audit s) \<Longrightarrow> quiet_row ev \<Longrightarrow> audit_inv made (ds_audit (append_row ok now ev s))"
  by (simp add: append_row_def audit_inv_quiet)

lemma reopened_stays: "command_reopened p i (ds_audit s) \<Longrightarrow> command_reopened p i (ds_audit (append_row ok now ev s))"
  by (simp add: append_row_def append_vault_audit_log)

text \<open>The row of the gateway about the outcome of a commit of window \<open>j\<close>.\<close>

lemma audit_inv_outcome:
  assumes "audit_inv made (ds_audit s)" "row_has_id d j" "unspaced j" "oc = ''ok'' \<or> oc = ''error''"
    and "recorded_commits p j (ds_audit s) = 0" "gateway_commits p j made = 0 \<or> command_reopened p j (ds_audit s)"
  shows "audit_inv made (ds_audit (append_row ok now (clearpass_row audit_op_close p a oc d) s))"
proof -
  have only: "i = j" if "row_has_id d i" "unspaced i" for i
    using row_id_unique [OF assms(2,3)] row_id_unique [OF that] by simp
  have "audit_inv made (ds_audit s @ [(clearpass_row audit_op_close p a oc d, now)])"
    using only assms(5,6) by (intro audit_inv_row [OF assms(1)]) (auto simp: is_ok_row_def is_close_row_def)
  then show ?thesis using assms(1,4) by (auto simp: append_row_def append_vault_audit_log)
qed

lemma close_detail_id: "row_has_id (close_detail c n) (cp_id (cc_window c))"
  by (simp add: close_detail_def Let_def row_has_id_def)

lemma pending_detail_id: "row_has_id (pending_detail c) (cp_id (cc_window c))"
  by (simp add: pending_detail_def row_has_id_def)

lemma close_failed_detail_id: "row_has_id (close_failed_detail i) i"
  by (simp add: close_failed_detail_def row_has_id_def)

lemma open_detail_id: "row_has_id (open_detail w) (cp_id w)"
  by (simp add: open_detail_def row_has_id_def)

text \<open>A window of the manifest has an id without spaces; so has every window the program writes.\<close>

definition fingerprints_unspaced :: "plugin_fingerprint list \<Rightarrow> bool" where
  "fingerprints_unspaced fps \<longleftrightarrow> (\<forall>fp\<in>set fps. \<forall>w. fp_clearpass fp = Some w \<longrightarrow> unspaced (cp_id w))"

lemma windows_unspaced_load:
  "windows_unspaced f \<Longrightarrow> load_checksums f = Inr m \<Longrightarrow> fingerprints_unspaced (cm_fingerprints m)"
  by (auto simp: load_checksums_def windows_unspaced_def fingerprints_unspaced_def list_all_iff split: checksums_file.splits if_splits option.splits)

lemma write_plugin_fingerprints_unspaced:
  assumes "windows_unspaced f" "fingerprints_unspaced fps"
  shows "windows_unspaced (fst (write_plugin_fingerprints ok now fps dry f))"
  using assms
  by (auto simp: write_plugin_fingerprints_def windows_unspaced_def [of "ChecksumsAt x" for x] fingerprints_unspaced_def list_all_iff
      split: sum.splits if_splits option.splits)

lemma merge_unspaced:
  "fingerprints_unspaced fps \<Longrightarrow> fp_clearpass fp = None \<Longrightarrow> fingerprints_unspaced (merge_plugin_fingerprint fps fp)"
  by (auto simp: fingerprints_unspaced_def merge_plugin_fingerprint_set)

definition attest_inv :: "clearpass_commit list \<Rightarrow> attest_state \<Rightarrow> bool" where
  "attest_inv made st \<longleftrightarrow> audit_inv made (ds_audit (snd st)) \<and> windows_unspaced (fst st)"

text \<open>A commit of the gateway appends the row that uses the window up, writes the manifest, and appends the row about the
  outcome; what a command commits is no commit of the gateway.\<close>

lemma commit_clearpass_keeps:
  assumes inv: "attest_inv made st" and run: "commit_clearpass h io now actor observed recorded current nonce st = (st1, r)"
    and fresh: "\<And>w. fp_clearpass recorded = Some w \<Longrightarrow> rp_name current \<noteq> [] \<Longrightarrow> actor = ''core'' \<Longrightarrow>
      unspaced (cp_id w) \<and> recorded_commits (fp_name recorded) (cp_id w) (ds_audit (snd st)) = 0 \<and>
      (gateway_commits (fp_name recorded) (cp_id w) made = 0 \<or> command_reopened (fp_name recorded) (cp_id w) (ds_audit (snd st)))"
  shows "attest_inv (case r of Inl e \<Rightarrow> made | Inr (c, n) \<Rightarrow> if actor = ''core'' then made @ [c] else made) st1"
proof (cases "\<exists>w live m. fp_clearpass recorded = Some w \<and> compute_plugin_fingerprint h current nonce = Inr live \<and> ci_probe io \<and>
    load_checksums (fst st) = Inr m \<and> ci_pending io")
  case False
  then have "st1 = st \<and> (\<exists>e. r = Inl e)" using run
    by (auto simp: commit_clearpass_def Let_def split: option.splits sum.splits if_splits)
  then show ?thesis using inv by auto
next
  case True
  then obtain w live m where w: "fp_clearpass recorded = Some w" and live: "compute_plugin_fingerprint h current nonce = Inr live"
    and io: "ci_probe io" "ci_pending io" and m: "load_checksums (fst st) = Inr m" by blast
  let ?c = "\<lparr>cc_plugin = fp_name recorded, cc_window = w, cc_previous = recorded, cc_committed = live\<rparr>"
  let ?row = "clearpass_row audit_op_close (fp_name recorded) actor"
  let ?s = "append_vault_audit now (?row ''pending'' (pending_detail ?c)) (snd st)"
  let ?w = "write_plugin_fingerprints (ci_write io) now (merge_plugin_fingerprint (cm_fingerprints m) live) False (fst st)"
  have pending: "ds_audit ?s = ds_audit (snd st) @ [(?row ''pending'' (pending_detail ?c), now)]"
    by (simp add: append_vault_audit_log)
  have s: "audit_inv made (ds_audit ?s)" using inv by (auto simp: attest_inv_def intro: audit_inv_quiet)
  have f: "windows_unspaced (fst ?w)"
    using inv m by (auto simp: attest_inv_def intro!: write_plugin_fingerprints_unspaced merge_unspaced windows_unspaced_load
        compute_plugin_fingerprint_Inr(4) [OF live])
  have free: "unspaced (cp_id w) \<and> recorded_commits (fp_name recorded) (cp_id w) (ds_audit ?s) = 0 \<and>
      (gateway_commits (fp_name recorded) (cp_id w) made = 0 \<or> command_reopened (fp_name recorded) (cp_id w) (ds_audit ?s))" if "actor = ''core''"
    using fresh [OF w compute_plugin_fingerprint_Inr(1) [OF live] that] unfolding pending
    by (auto simp: commits_append recorded_commits_def [of _ _ "[_]"] rows_of_single is_ok_row_def)
  have outcome: "audit_inv made (ds_audit (append_row b now (?row oc d) ?s))"
    if "oc = ''ok'' \<or> oc = ''error''" "row_has_id d (cp_id w)" for b oc d
  proof (cases "actor = ''core''")
    case True
    then show ?thesis using audit_inv_outcome [OF s that(2) _ that(1)] free by blast
  next
    case False
    then show ?thesis by (intro audit_inv_quiet_row [OF s]) simp
  qed
  have shut: "shut_in (cp_id w) (rows_of (fp_name recorded) (ds_audit (append_row b now (?row ''ok'' (close_detail ?c n)) ?s)))" for b n
    using pending_detail_id [of ?c] close_detail_id [of ?c n]
    by (auto simp: append_row_def append_vault_audit_log rows_of_single shut_in_snoc settles_row_def is_close_row_def
        append_assoc [symmetric] simp del: append_assoc)
  show ?thesis
  proof (cases "snd ?w")
    case (Inl e)
    then have "st1 = (fst ?w, append_row (ci_result io) now (?row ''error'' (close_failed_detail (cp_id w))) ?s) \<and> r = Inl e"
      using run w live io m by (auto simp: commit_clearpass_def Let_def split: prod.splits)
    then show ?thesis using f outcome close_failed_detail_id by (auto simp: attest_inv_def)
  next
    case (Inr u)
    then obtain n where st1: "st1 = (fst ?w, append_row (ci_result io) now (?row ''ok'' (close_detail ?c n)) ?s)" "r = Inr (?c, n)"
      using run w live io m by (auto simp: commit_clearpass_def Let_def split: prod.splits)
    have ok: "audit_inv made (ds_audit (snd st1))" using outcome close_detail_id [of ?c n] st1(1) by simp
    have "command_reopened (fp_name recorded) (cp_id w) (ds_audit ?s) \<Longrightarrow> command_reopened (fp_name recorded) (cp_id w) (ds_audit (snd st1))"
      unfolding st1(1) by (simp only: snd_conv) (rule reopened_stays)
    then have "actor = ''core'' \<Longrightarrow> audit_inv (made @ [?c]) (ds_audit (snd st1))"
      using free shut [of "ci_result io" n] st1(1) by (intro audit_inv_closed [OF ok]) auto
    then show ?thesis using ok f st1 by (auto simp: attest_inv_def)
  qed
qed

lemma append_row_unchanged: "append_row False now ev s = s"
  by (simp add: append_row_def)

abbreviation closer_inv :: "closer_state \<Rightarrow> bool" where
  "closer_inv cs \<equiv> attest_inv (cl_closed cs) (cl_checksums cs, cl_disp cs)"

lemma refusal_keeps: "closer_inv cs \<Longrightarrow> closer_inv (audit_refusal_once kc io now p i k cs)"
  by (auto simp: audit_refusal_once_def Let_def attest_inv_def intro!: audit_inv_quiet_row)

lemma close_one_keeps:
  assumes "closer_inv cs" "fp_clearpass fp = Some w" "unspaced (cp_id w)"
  shows "closer_inv (close_one h dh kc io now fp w cs)"
proof (cases "admit_close h kc io now fp w (cl_disp cs)")
  case (Inl e)
  then show ?thesis using assms(1) refusal_keeps by (auto simp: close_one_def Let_def split: option.splits)
next
  case (Inr u)
  obtain f1 s1 r where run: "closer_commit h kc io now fp (cl_checksums cs, cl_disp cs) = ((f1, s1), r)" by (metis prod.exhaust)
  have inv: "attest_inv (case r of Inl e \<Rightarrow> cl_closed cs | Inr (c, n) \<Rightarrow> cl_closed cs @ [c]) (f1, s1)"
  proof (cases "\<exists>p key. map_get (kc_registry kc) (fp_name fp) = Some p \<and> kc_nonce kc = Some key")
    case False
    then have "(f1, s1) = (cl_checksums cs, cl_disp cs) \<and> (\<exists>e. r = Inl e)" using run by (auto simp: closer_commit_def split: option.splits)
    then show ?thesis using assms(1) by auto
  next
    case True
    then obtain p key where "map_get (kc_registry kc) (fp_name fp) = Some p" "kc_nonce kc = Some key" by blast
    then have commit: "commit_clearpass h (io\<lparr>ci_pending := ci_pending io \<and> kc_audit kc, ci_result := ci_result io \<and> kc_audit kc\<rparr>) now ''core''
        (observed_spawns h kc io) fp (live_plugin (fp_name fp) (fp_enabled fp) (fp_uses fp) p) key (cl_checksums cs, cl_disp cs) = ((f1, s1), r)"
      using run by (simp add: closer_commit_def)
    have "unspaced (cp_id v) \<and> recorded_commits (fp_name fp) (cp_id v) (ds_audit (cl_disp cs)) = 0 \<and>
        (gateway_commits (fp_name fp) (cp_id v) (cl_closed cs) = 0 \<or> command_reopened (fp_name fp) (cp_id v) (ds_audit (cl_disp cs)))"
      if "fp_clearpass fp = Some v" "fp_name fp \<noteq> []" for v
      using admitted_fresh(1) [OF Inr that(2)] admitted_never_committed [OF Inr that(2)] assms that(1) by (auto simp: attest_inv_def)
    then show ?thesis
      using commit_clearpass_keeps [OF assms(1) commit] by (auto simp: live_plugin_def split: sum.splits prod.splits)
  qed
  show ?thesis
  proof (cases r)
    case (Inl e)
    then have "closer_inv (cs\<lparr>cl_checksums := f1, cl_disp := s1\<rparr>)" using inv by simp
    then show ?thesis using Inr run Inl refusal_keeps [of "cs\<lparr>cl_checksums := f1, cl_disp := s1\<rparr>"]
      by (auto simp: close_one_def Let_def split: option.split)
  next
    case (Inr x)
    then show ?thesis using inv run \<open>admit_close _ _ _ _ _ _ _ = _\<close> by (cases x) (auto simp: close_one_def Let_def attest_inv_def)
  qed
qed

lemma sweep_windows_keeps:
  assumes "fingerprints_unspaced fps" "closer_inv cs"
  shows "closer_inv (sweep_windows h dh kc io now fps cs)"
  using assms
proof (induction fps arbitrary: cs)
  case (Cons fp fps)
  then have rest: "fingerprints_unspaced fps" by (simp add: fingerprints_unspaced_def)
  have close: "closer_inv (close_one h dh kc (io (fp_name fp)) now fp w cs)" if "fp_clearpass fp = Some w" for w
    using that Cons.prems by (intro close_one_keeps) (auto simp: fingerprints_unspaced_def)
  show ?case using Cons.IH [OF rest] Cons.prems(2) close by (simp split: option.split)
qed simp

lemma open_same:
  assumes "\<not> (ci_pending io \<and> (\<exists>c m recorded key w. new_clearpass now window note rnd = Inr c \<and> load_checksums (fst st) = Inr m \<and>
    find_plugin_fingerprint m name = Some recorded \<and> nonce = Some key \<and> sealed h c recorded key = Inr w))"
  shows "fst (plugin_clearpass_open h io now names nonce name window note rnd st) = st"
  using assms
  by (cases "new_clearpass now window note rnd"; cases "load_checksums (fst st)"; cases nonce)
    (auto simp: plugin_clearpass_open_def split: option.split sum.split)

lemma open_writes:
  assumes "name \<in> set names" "ci_pending io" "new_clearpass now window note rnd = Inr c" "load_checksums (fst st) = Inr m"
    "find_plugin_fingerprint m name = Some recorded" "nonce = Some key" "sealed h c recorded key = Inr w"
  shows "fst (plugin_clearpass_open h io now names nonce name window note rnd st) =
      (fst (write_plugin_fingerprints (ci_write io) now (fst (set_plugin_clearpass (cm_fingerprints m) name (Some w))) False (fst st)),
       append_vault_audit now (clearpass_row audit_op_open name ''cli'' ''ok'' (open_detail w)) (snd st))"
  using assms by (simp add: plugin_clearpass_open_def Let_def split: prod.split sum.split)

lemma open_keeps:
  assumes "attest_inv made st" "id_unused (hex_encode rnd) (snd st)"
  shows "attest_inv made (fst (plugin_clearpass_open h io now names nonce name window note rnd st))"
proof (cases "name \<in> set names \<and> ci_pending io \<and> (\<exists>c m recorded key w. new_clearpass now window note rnd = Inr c \<and>
    load_checksums (fst st) = Inr m \<and> find_plugin_fingerprint m name = Some recorded \<and> nonce = Some key \<and> sealed h c recorded key = Inr w)")
  case False
  then have "fst (plugin_clearpass_open h io now names nonce name window note rnd st) = st"
    using open_same [of io now window _ rnd st name nonce h names] by (cases "name \<in> set names") (auto simp: plugin_clearpass_open_def)
  then show ?thesis using assms(1) by simp
next
  case True
  then obtain c m recorded key w where pre: "name \<in> set names" "ci_pending io" "new_clearpass now window note rnd = Inr c"
    "load_checksums (fst st) = Inr m" "find_plugin_fingerprint m name = Some recorded" "nonce = Some key" "sealed h c recorded key = Inr w"
    by blast
  from pre(3,7) have w: "cp_id w = hex_encode rnd"
    by (auto simp: new_clearpass_def sealed_def Let_def split: if_splits option.splits)
  let ?r = "(clearpass_row audit_op_open name ''cli'' ''ok'' (open_detail w), now)"
  have "audit_inv made (ds_audit (snd st) @ [?r])"
    using assms w open_detail_id [of w]
    by (intro audit_inv_open [where j = "hex_encode rnd"]) (auto simp: attest_inv_def id_unused_def list_all_iff)
  moreover have "fingerprints_unspaced (fst (set_plugin_clearpass (cm_fingerprints m) name (Some w)))"
    using windows_unspaced_load [OF _ pre(4)] assms(1) w
    by (auto simp: set_plugin_clearpass_def fingerprints_unspaced_def attest_inv_def)
  ultimately show ?thesis
    using open_writes [OF pre] assms(1) write_plugin_fingerprints_unspaced by (simp add: attest_inv_def append_vault_audit_log)
qed

lemma cli_close_keeps:
  assumes "attest_inv made st"
  shows "attest_inv made (fst (plugin_clearpass_close h io now resolved nonce name st))"
proof -
  have commit: "attest_inv made (fst (commit_clearpass h io now ''cli'' obs recorded target key st))" for obs recorded target key
    using commit_clearpass_keeps [OF assms surjective_pairing, where actor = "''cli''" and h = h and io = io and now = now
        and observed = obs and recorded = recorded and current = target and nonce = key]
    by (auto split: sum.splits prod.splits)
  show ?thesis using assms commit
    by (simp add: plugin_clearpass_close_def split: option.split sum.split)
qed

lemma lock_one_keeps:
  assumes "attest_inv made st"
  shows "attest_inv made (fst (plugin_lock_one h io now names resolved nonce name dry st))"
proof -
  have written: "windows_unspaced (fst (write_plugin_fingerprints ok now (merge_plugin_fingerprint (cm_fingerprints m) fp) dry (fst st)))"
    if "load_checksums (fst st) = Inr m" "compute_plugin_fingerprint h target key = Inr fp" for ok m fp target key
    using assms that by (auto simp: attest_inv_def intro!: write_plugin_fingerprints_unspaced merge_unspaced windows_unspaced_load
        compute_plugin_fingerprint_Inr(4))
  show ?thesis
  proof (cases "\<exists>rps target key fp m. resolved = Some rps \<and> find (\<lambda>rp. rp_name rp = name) rps = Some target \<and> nonce = Some key \<and>
      compute_plugin_fingerprint h target key = Inr fp \<and> load_checksums (fst st) = Inr m")
    case False
    then have "fst (plugin_lock_one h io now names resolved nonce name dry st) = st"
      by (cases resolved; cases nonce; cases "load_checksums (fst st)") (auto simp: plugin_lock_one_def split: option.split sum.split)
    then show ?thesis using assms by simp
  next
    case True
    then obtain rps target key fp m where *: "resolved = Some rps" "find (\<lambda>rp. rp_name rp = name) rps = Some target" "nonce = Some key"
      "compute_plugin_fingerprint h target key = Inr fp" "load_checksums (fst st) = Inr m" by blast
    let ?w = "write_plugin_fingerprints (ci_write io) now (merge_plugin_fingerprint (cm_fingerprints m) fp) dry (fst st)"
    obtain f1 r1 where w: "?w = (f1, r1)" by fastforce
    have f1: "windows_unspaced f1" using written [OF *(5,4), of "ci_write io"] w by simp
    show ?thesis
      using assms f1 *
      by (auto simp: plugin_lock_one_def Let_def w attest_inv_def split: sum.split intro!: audit_inv_quiet audit_inv_quiet_row)
  qed
qed

lemma fingerprint_all_plain: "fingerprint_all h key rps = Inr fps \<Longrightarrow> fp \<in> set fps \<Longrightarrow> fp_clearpass fp = None"
  by (induction rps arbitrary: fps) (auto simp: bind_result_Inr_iff dest: compute_plugin_fingerprint_Inr(4))

lemma lock_all_audit: "snd (fst (plugin_lock_all h io now resolved nonce code dry st)) = snd st"
  by (simp add: plugin_lock_all_def split: option.split sum.split prod.split)

lemma lock_all_writes:
  "fst (fst (plugin_lock_all h io now resolved nonce code dry st)) = fst st \<or>
   (\<exists>key rps fps. fingerprint_all h key rps = Inr fps \<and>
      fst (fst (plugin_lock_all h io now resolved nonce code dry st)) = fst (write_plugin_fingerprints (ci_write io) now fps dry (fst st)))"
proof (cases resolved)
  case None
  then show ?thesis by (simp add: plugin_lock_all_def)
next
  case (Some rps)
  let ?key = "case nonce of None \<Rightarrow> [] | Some key \<Rightarrow> key"
  show ?thesis
  proof (cases "fingerprint_all h ?key rps")
    case (Inl e)
    then show ?thesis using Some by (simp add: plugin_lock_all_def)
  next
    case (Inr fps)
    obtain f1 r1 where w: "write_plugin_fingerprints (ci_write io) now fps dry (fst st) = (f1, r1)" by fastforce
    have "fst (fst (plugin_lock_all h io now resolved nonce code dry st)) \<in> {fst st, f1}"
      using Some Inr w by (simp add: plugin_lock_all_def split: sum.split option.split)
    then show ?thesis using Inr w by (metis fst_conv insert_iff singletonD)
  qed
qed

lemma lock_all_keeps:
  assumes "attest_inv made st"
  shows "attest_inv made (fst (plugin_lock_all h io now resolved nonce code dry st))"
proof -
  have "windows_unspaced (fst (write_plugin_fingerprints ok now fps dry (fst st)))" if "fingerprint_all h key rps = Inr fps" for ok fps key rps
    using assms fingerprint_all_plain [OF that]
    by (intro write_plugin_fingerprints_unspaced) (auto simp: attest_inv_def fingerprints_unspaced_def)
  then have "windows_unspaced (fst (fst (plugin_lock_all h io now resolved nonce code dry st)))"
    using assms lock_all_writes [of h io now resolved nonce code dry st] by (auto simp: attest_inv_def)
  then show ?thesis using assms by (simp add: attest_inv_def lock_all_audit)
qed

lemma config_lock_keeps:
  assumes "windows_unspaced f"
  shows "windows_unspaced (fst (config_lock h ok now cf configured resolved nonce dry f))"
proof -
  have "fingerprints_unspaced fps" if "carried_fingerprints h configured resolved nonce f = Inr fps" for fps
    using that windows_unspaced_load [OF assms] fingerprint_all_plain
    by (fastforce simp: carried_fingerprints_def fingerprints_unspaced_def preserve_plugin_fingerprints_def bind_result_Inr_iff Let_def
        split: sum.splits if_splits option.splits)
  then show ?thesis
    using assms by (auto simp: config_lock_def generate_checksums_with_fingerprints_def windows_unspaced_def [of "ChecksumsAt x" for x]
        fingerprints_unspaced_def list_all_iff split: sum.split option.split)
qed

section \<open>The gateway commits a window once\<close>

lemma on_attest_keeps:
  "attest_inv (cl_closed cs) (fst (run (cl_checksums cs, cl_disp cs))) \<Longrightarrow> closer_inv (on_attest run cs)"
  by (auto simp: on_attest_def split: prod.splits)

lemma attest_step_keeps: "attest_step h dh cs cs' \<Longrightarrow> closer_inv cs \<Longrightarrow> closer_inv cs'"
proof (induction rule: attest_step.induct)
  case (Sweep cs kc io now)
  then show ?case
    by (auto simp: sweep_def split: sum.split intro!: sweep_windows_keeps) (auto simp: attest_inv_def dest: windows_unspaced_load)
next
  case (Spawn cs ok now sp)
  then show ?case by (auto simp: attest_inv_def report_spawn_def intro!: audit_inv_quiet_row)
next
  case (OtherRow ev cs now)
  then show ?case by (auto simp: attest_inv_def quiet_row_def intro!: audit_inv_quiet)
next
  case (ConfigLock cs ok now cf configured resolved nonce dry)
  then show ?case by (simp add: attest_inv_def config_lock_keeps)
next
  case (Open rnd cs cio now names nonce name window nt)
  then show ?case by (intro on_attest_keeps open_keeps) simp_all
next
  case (Close cs cio now resolved nonce name)
  then show ?case by (intro on_attest_keeps cli_close_keeps)
next
  case (LockOne cs cio now names resolved nonce name dry)
  then show ?case by (intro on_attest_keeps lock_one_keeps)
next
  case (LockAll cs cio now resolved nonce code dry)
  then show ?case by (intro on_attest_keeps lock_all_keeps)
qed (simp_all add: attest_inv_def)

lemma attest_reachable_inv:
  assumes "(attest_step h dh)\<^sup>*\<^sup>* start cs" "attest_start start"
  shows "closer_inv cs"
  using assms
proof (induction rule: rtranclp_induct)
  case base
  then show ?case by (simp add: attest_start_def attest_inv_def)
next
  case (step y z)
  then show ?case by (blast intro: attest_step_keeps)
qed

text \<open>C9. Whatever order commands, sweeps, tolerated spawns, restarts and other audit rows come in, whatever writes fail, and
  even if an older or edited copy of the manifest is put in place at any moment, the gateway writes the manifest for the window of a plugin at
  most once, with one exception: a \<^verbatim>\<open>plugin\<close> command failed to write the manifest for that window and gave it back, and the log
  has lost the \<^verbatim>\<open>ok\<close> row of a commit.\<close>

theorem window_committed_once:
  assumes "(attest_step h dh)\<^sup>*\<^sup>* start cs" "attest_start start" "unspaced i"
  shows "gateway_commits p i (cl_closed cs) \<le> 1 \<or>
    command_reopened p i (ds_audit (cl_disp cs)) \<and> recorded_commits p i (ds_audit (cl_disp cs)) < gateway_commits p i (cl_closed cs)"
proof -
  have "recorded_commits p i (ds_audit (cl_disp cs)) \<le> 1 \<and>
      (command_reopened p i (ds_audit (cl_disp cs)) \<or> gateway_commits p i (cl_closed cs) \<le> 1)"
    using attest_reachable_inv [OF assms(1,2)] assms(3) by (auto simp: attest_inv_def audit_inv_def)
  then show ?thesis by linarith
qed

section \<open>What the gateway commits\<close>

text \<open>A window that may be committed: sealed under the nonce, past its deadline by at most the grace, opened according to the log,
  with no commit among the rows read.\<close>

definition committable :: "attest_host \<Rightarrow> string \<Rightarrow> instant \<Rightarrow> (vault_audit_event \<times> instant) list \<Rightarrow> plugin_fingerprint \<Rightarrow> bool" where
  "committable h key now rows fp \<longleftrightarrow>
     (\<exists>w t. fp_clearpass fp = Some w \<and> cp_seal w = digest_text (ah_hmac h key (seal_text w fp)) \<and> deadline h w = Some t \<and>
        t \<le> now \<and> now \<le> t + 24 * hour \<and>
        (\<exists>r\<in>set (rows_of (fp_name fp) rows). is_open_row (cp_id w) r))"

text \<open>Closing appends rows about closes only, so it opens no window.\<close>

definition closes_added :: "disp_state \<Rightarrow> disp_state \<Rightarrow> bool" where
  "closes_added a b \<longleftrightarrow> (\<exists>new. ds_audit b = ds_audit a @ new \<and> (\<forall>r\<in>set new. va_op (fst r) = audit_op_close))"

lemma closes_added_refl [simp]: "closes_added a a" by (simp add: closes_added_def)

lemma closes_added_trans: "closes_added a b \<Longrightarrow> closes_added b c \<Longrightarrow> closes_added a c"
  by (fastforce simp: closes_added_def)

lemma committable_before:
  "closes_added a b \<Longrightarrow> committable h key now (ds_audit b) fp \<Longrightarrow> committable h key now (ds_audit a) fp"
  by (fastforce simp: closes_added_def committable_def rows_of_def is_open_row_def)

lemma append_closes [simp]:
  "closes_added s (append_vault_audit now (clearpass_row audit_op_close p a oc d) s)"
  "closes_added s (append_row ok now (clearpass_row audit_op_close p a oc d) s)"
  by (simp_all add: append_vault_audit_log append_row_def closes_added_def)

lemma commit_closes:
  assumes "commit_clearpass h io now actor observed recorded current nonce st = (st1, r)"
  shows "closes_added (snd st) (snd st1)"
  using assms closes_added_trans [OF append_closes(1) append_closes(2)]
  by (auto simp: commit_clearpass_def Let_def split: option.splits sum.splits if_splits prod.splits)

text \<open>The manifest after a commit: the same, or the record of the plugin replaced by its live fingerprint.\<close>

definition replaced_by :: "attest_host \<Rightarrow> resolved_plugin \<Rightarrow> string \<Rightarrow> checksums_file \<Rightarrow> checksums_file \<Rightarrow> bool" where
  "replaced_by h rp key f f1 \<longleftrightarrow>
     (\<exists>m m1 live. load_checksums f = Inr m \<and> load_checksums f1 = Inr m1 \<and> compute_plugin_fingerprint h rp key = Inr live \<and>
        set (cm_fingerprints m1) = insert live {e \<in> set (cm_fingerprints m). fp_name e \<noteq> fp_name live})"

lemma commit_replaces:
  assumes "commit_clearpass h io now actor observed recorded current nonce st = (st1, r)"
  shows "fst st1 = fst st \<or> replaced_by h current nonce (fst st) (fst st1)"
proof (cases "\<exists>live m. compute_plugin_fingerprint h current nonce = Inr live \<and> load_checksums (fst st) = Inr m \<and>
    fst st1 = fst (write_plugin_fingerprints (ci_write io) now (merge_plugin_fingerprint (cm_fingerprints m) live) False (fst st))")
  case False
  then have "fst st1 = fst st" using assms
    by (auto simp: commit_clearpass_def Let_def split: option.splits sum.splits if_splits prod.splits)
  then show ?thesis by simp
next
  case True
  then obtain live m where *: "compute_plugin_fingerprint h current nonce = Inr live" "load_checksums (fst st) = Inr m"
    "fst st1 = fst (write_plugin_fingerprints (ci_write io) now (merge_plugin_fingerprint (cm_fingerprints m) live) False (fst st))" by blast
  show ?thesis
  proof (cases "ci_write io")
    case False
    then show ?thesis using * by (simp add: write_plugin_fingerprints_def)
  next
    case True
    have "cm_version m = 3" using *(2) by (auto simp: load_checksums_def split: checksums_file.splits if_splits)
    then have "load_checksums (fst st1) = Inr (m\<lparr>cm_fingerprints := sort_by_name (merge_plugin_fingerprint (cm_fingerprints m) live), cm_generated_at := rfc3339 now\<rparr>)"
      using *(2,3) True by (simp add: write_plugin_fingerprints_def load_checksums_def [of "ChecksumsAt x" for x])
    then show ?thesis using * by (auto simp: replaced_by_def merge_plugin_fingerprint_set)
  qed
qed

lemma close_one_effect:
  assumes "kc_nonce kc = Some key" "fp_clearpass fp = Some w" "seal_verifies h (Some w) fp key" "window_expired h (Some w) now"
  shows "closes_added (cl_disp cs) (cl_disp (close_one h dh kc io now fp w cs))"
    "cl_checksums (close_one h dh kc io now fp w cs) = cl_checksums cs \<or>
     committable h key now (ds_audit (cl_disp cs)) fp \<and> (\<exists>p. map_get (kc_registry kc) (fp_name fp) = Some p \<and>
       replaced_by h (live_plugin (fp_name fp) (fp_enabled fp) (fp_uses fp) p) key (cl_checksums cs)
         (cl_checksums (close_one h dh kc io now fp w cs)))"
proof -
  have refusal: "closes_added (cl_disp cs1) (cl_disp (audit_refusal_once kc io now p i k cs1))"
    "cl_checksums (audit_refusal_once kc io now p i k cs1) = cl_checksums cs1" for p i k cs1
    by (simp_all add: audit_refusal_once_def Let_def)
  let ?out = "close_one h dh kc io now fp w cs"
  have "closes_added (cl_disp cs) (cl_disp ?out) \<and> (cl_checksums ?out = cl_checksums cs \<or>
     committable h key now (ds_audit (cl_disp cs)) fp \<and> (\<exists>p. map_get (kc_registry kc) (fp_name fp) = Some p \<and>
       replaced_by h (live_plugin (fp_name fp) (fp_enabled fp) (fp_uses fp) p) key (cl_checksums cs) (cl_checksums ?out)))"
  proof (cases "admit_close h kc io now fp w (cl_disp cs)")
    case (Inl e)
    then show ?thesis using refusal by (auto simp: close_one_def Let_def split: option.split)
  next
    case (Inr u)
    obtain f1 s1 r where run: "closer_commit h kc io now fp (cl_checksums cs, cl_disp cs) = ((f1, s1), r)" by (metis prod.exhaust)
    have out: "closes_added s1 (cl_disp ?out)" "cl_checksums ?out = f1"
      using Inr run refusal [where ?cs1.0 = "cs\<lparr>cl_checksums := f1, cl_disp := s1\<rparr>"]
      by (auto simp: close_one_def Let_def closes_added_def split: option.split sum.split)
    show ?thesis
    proof (cases "map_get (kc_registry kc) (fp_name fp)")
      case None
      then show ?thesis using run out by (auto simp: closer_commit_def)
    next
      case (Some p)
      then have commit: "commit_clearpass h (io\<lparr>ci_pending := ci_pending io \<and> kc_audit kc, ci_result := ci_result io \<and> kc_audit kc\<rparr>) now ''core''
          (observed_spawns h kc io) fp (live_plugin (fp_name fp) (fp_enabled fp) (fp_uses fp) p) key (cl_checksums cs, cl_disp cs) = ((f1, s1), r)"
        using run assms(1) by (simp add: closer_commit_def)
      have "committable h key now (ds_audit (cl_disp cs)) fp" if named: "fp_name fp \<noteq> []"
      proof -
        obtain x where "x \<in> set (rows_of (fp_name fp) (ds_audit (cl_disp cs)))" "is_open_row (cp_id w) x"
          using admit_close_Inr(2) [OF Inr named] in_set_takeD [of _ 10000 "rev (rows_of (fp_name fp) (ds_audit (cl_disp cs)))"] by auto
        then show ?thesis
          using admit_close_Inr(1) [OF Inr named] assms(2-4)
          by (auto simp: committable_def seal_verifies_Some window_expired_def commit_grace_def max_clearpass_def split: option.splits)
      qed
      moreover have "fp_name fp \<noteq> []" if "replaced_by h (live_plugin (fp_name fp) (fp_enabled fp) (fp_uses fp) p) key f f'" for f f'
        using that compute_plugin_fingerprint_Inr(1) by (fastforce simp: replaced_by_def live_plugin_def)
      ultimately show ?thesis
        using commit_replaces [OF commit] closes_added_trans [OF commit_closes [OF commit, simplified] out(1)] out(2) Some by auto
    qed
  qed
  then show "closes_added (cl_disp cs) (cl_disp ?out)" "cl_checksums ?out = cl_checksums cs \<or>
     committable h key now (ds_audit (cl_disp cs)) fp \<and> (\<exists>p. map_get (kc_registry kc) (fp_name fp) = Some p \<and>
       replaced_by h (live_plugin (fp_name fp) (fp_enabled fp) (fp_uses fp) p) key (cl_checksums cs) (cl_checksums ?out))"
    by blast+
qed

definition committed_from :: "attest_host \<Rightarrow> closer_conf \<Rightarrow> instant \<Rightarrow> disp_state \<Rightarrow> plugin_fingerprint \<Rightarrow> plugin_fingerprint \<Rightarrow> bool" where
  "committed_from h kc now s old fp \<longleftrightarrow>
     (\<exists>key p. kc_nonce kc = Some key \<and> fp_name old = fp_name fp \<and> committable h key now (ds_audit s) old \<and>
        map_get (kc_registry kc) (fp_name old) = Some p \<and>
        compute_plugin_fingerprint h (live_plugin (fp_name old) (fp_enabled old) (fp_uses old) p) key = Inr fp)"

lemma committed_before: "closes_added a b \<Longrightarrow> committed_from h kc now b old fp \<Longrightarrow> committed_from h kc now a old fp"
  by (auto simp: committed_from_def dest: committable_before)

lemma sweep_windows_effect:
  assumes "load_checksums (cl_checksums cs) = Inr m" "load_checksums (cl_checksums (sweep_windows h dh kc io now fps cs)) = Inr m'"
    "fp \<in> set (cm_fingerprints m')" "fp \<notin> set (cm_fingerprints m)"
  shows "\<exists>old\<in>set fps. committed_from h kc now (cl_disp cs) old fp"
  using assms
proof (induction fps arbitrary: cs m)
  case (Cons x fps)
  show ?case
  proof (cases "\<exists>w key. fp_clearpass x = Some w \<and> kc_nonce kc = Some key \<and> seal_verifies h (Some w) x key \<and> window_expired h (Some w) now")
    case False
    then have "sweep_windows h dh kc io now (x # fps) cs \<in> {cs, sweep_windows h dh kc io now fps cs}"
      by (auto split: option.split)
    then show ?thesis using Cons.prems Cons.IH [OF Cons.prems(1)] by auto
  next
    case True
    then obtain w key where x: "kc_nonce kc = Some key" "fp_clearpass x = Some w" "seal_verifies h (Some w) x key" "window_expired h (Some w) now"
      by blast
    have "\<not> window_open h (Some w) now" using x(4) by (auto simp: window_open_def window_expired_def split: option.splits)
    then have run: "sweep_windows h dh kc io now (x # fps) cs = sweep_windows h dh kc io now fps (close_one h dh kc (io (fp_name x)) now x w cs)"
      using x by simp
    let ?c1 = "close_one h dh kc (io (fp_name x)) now x w cs"
    note eff = close_one_effect [OF x, where cs = cs and dh = dh and io = "io (fp_name x)"]
    have later: "\<exists>old\<in>set fps. committed_from h kc now (cl_disp cs) old fp" if "load_checksums (cl_checksums ?c1) = Inr m1" "fp \<notin> set (cm_fingerprints m1)" for m1
      using Cons.IH [OF that(1) Cons.prems(2) [unfolded run] Cons.prems(3) that(2)] committed_before [OF eff(1)] by blast
    from eff(2) show ?thesis
    proof
      assume "cl_checksums ?c1 = cl_checksums cs"
      then show ?thesis using later Cons.prems(1,4) by simp
    next
      assume *: "committable h key now (ds_audit (cl_disp cs)) x \<and> (\<exists>p. map_get (kc_registry kc) (fp_name x) = Some p \<and>
       replaced_by h (live_plugin (fp_name x) (fp_enabled x) (fp_uses x) p) key (cl_checksums cs) (cl_checksums ?c1))"
      then obtain p m1 live where p: "map_get (kc_registry kc) (fp_name x) = Some p" "load_checksums (cl_checksums ?c1) = Inr m1"
        "compute_plugin_fingerprint h (live_plugin (fp_name x) (fp_enabled x) (fp_uses x) p) key = Inr live"
        "set (cm_fingerprints m1) = insert live {e \<in> set (cm_fingerprints m). fp_name e \<noteq> fp_name live}"
        using Cons.prems(1) by (auto simp: replaced_by_def)
      show ?thesis
      proof (cases "fp = live")
        case True
        then have "committed_from h kc now (cl_disp cs) x fp"
          using * p x(1) compute_plugin_fingerprint_Inr(3) [OF p(3)] by (auto simp: committed_from_def live_plugin_def)
        then show ?thesis by auto
      next
        case False
        then show ?thesis using later [OF p(2)] p(4) Cons.prems(4) by auto
      qed
    qed
  qed
qed auto

text \<open>C10. A fingerprint that a sweep of the gateway adds to the manifest is the live one of a discovered plugin whose recorded
  window was sealed under the vault's nonce, ended at most a day ago, and was opened according to the audit log.\<close>

theorem sweep_commits_admitted_windows:
  assumes "load_checksums (cl_checksums cs) = Inr m" "load_checksums (cl_checksums (sweep h dh kc io now cs)) = Inr m'"
    "fp \<in> set (cm_fingerprints m')" "fp \<notin> set (cm_fingerprints m)"
  shows "\<exists>old\<in>set (cm_fingerprints m). committed_from h kc now (cl_disp cs) old fp"
proof -
  have "sweep h dh kc io now cs = sweep_windows h dh kc io now (cm_fingerprints m) cs" using assms(1) by (simp add: sweep_def)
  with assms sweep_windows_effect [OF assms(1)] show ?thesis by simp
qed

section \<open>Windows and locks\<close>

text \<open>\<^verbatim>\<open>plugin lock\<close> of one plugin writes the row that stops its window from being committed later: after it, the closer refuses
  the window. \<^verbatim>\<open>plugin lock --all\<close> replaces every record but writes no row, so for the closer each window is as it was
  before: put back with an older copy of the manifest it is still committed.\<close>

lemma scan_rows_decided: "scan_rows i rows (op, True, True, c) = (o1, s1, d1, c1) \<Longrightarrow> s1"
proof (induction rows arbitrary: op c)
  case (Cons r rows)
  obtain ev t where r: "r = (ev, t)" by fastforce
  show ?case using Cons.prems Cons.IH by (auto simp: r Let_def split: if_splits)
qed simp

lemma lock_one_consumes_window:
  assumes "plugin_lock_one h io now names resolved nonce name False st = (st1, Inr fp)" "load_checksums (fst st) = Inr m"
    "find_plugin_fingerprint m name = Some recorded" "fp_clearpass recorded = Some w" "name \<noteq> []"
  shows "admit_close h kc io' now' recorded w (snd st1) \<noteq> Inr ()"
proof
  let ?ev = "clearpass_row audit_op_close name ''cli'' ''superseded'' (superseded_detail (cp_id w))"
  assume admit: "admit_close h kc io' now' recorded w (snd st1) = Inr ()"
  have name: "fp_name recorded = name" using find_plugin_fingerprint_Some [OF assms(3)] by simp
  have "ds_audit (snd st1) = ds_audit (snd st) @ [(?ev, now)]"
    using assms(1-4) by (auto simp: plugin_lock_one_def Let_def append_vault_audit_log split: option.splits sum.splits if_splits prod.splits)
  then have rows: "list_vault_audit name audit_scan (snd st1) = (?ev, now) # take 9999 (rev (rows_of name (ds_audit (snd st))))"
    using assms(5) by (simp add: list_vault_audit_rows rows_of_def)
  have own: "row_has_id (superseded_detail (cp_id w)) (cp_id w)" by (simp add: superseded_detail_def row_has_id_def)
  obtain o1 s1 d1 c1 where scan: "scan_rows (cp_id w) (take 9999 (rev (rows_of name (ds_audit (snd st))))) (False, True, True, False) = (o1, s1, d1, c1)"
    using prod_cases4 by blast
  show False
    using admit scan_rows_decided [OF scan] own
    by (simp add: admit_close_def name rows scan split: option.splits if_splits)
qed

lemma lock_all_leaves_window:
  "admit_close h kc io' now' recorded w (snd (fst (plugin_lock_all h io now resolved nonce code dry st))) =
   admit_close h kc io' now' recorded w (snd st)"
  by (simp add: lock_all_audit)

section \<open>An example\<close>

definition attest_demo_conf :: closer_conf where
  "attest_demo_conf = \<lparr>kc_registry = attest_demo_registry, kc_nonce = Some attest_demo_nonce, kc_audit = True\<rparr>"

definition attest_demo_io :: close_io where
  "attest_demo_io = \<lparr>ci_probe = True, ci_list = True, ci_pending = True, ci_write = True, ci_result = True\<rparr>"

definition attest_demo_start :: closer_state where
  "attest_demo_start = \<lparr>cl_checksums = ChecksumsAt (attest_demo_manifest [attest_demo_record None]), cl_disp = run_state, cl_refused = [],
     cl_closed = []\<rparr>"

definition attest_demo_opened :: closer_state where
  "attest_demo_opened =
     on_attest (plugin_clearpass_open attest_demo_host attest_demo_io 0 [''mail''] (Some attest_demo_nonce) ''mail'' hour ''card'' ''a'')
       attest_demo_start"

definition attest_demo_later :: instant where
  "attest_demo_later = 2 * hour"

definition attest_demo_swept :: closer_state where
  "attest_demo_swept = sweep attest_demo_host run_host attest_demo_conf (\<lambda>_. attest_demo_io) attest_demo_later attest_demo_opened"

lemma attest_demo_steps:
  "(attest_step attest_demo_host run_host)\<^sup>*\<^sup>* attest_demo_start attest_demo_swept" "attest_start attest_demo_start"
proof -
  have "attest_step attest_demo_host run_host attest_demo_start attest_demo_opened"
    unfolding attest_demo_opened_def by (rule Open) (simp add: attest_demo_start_def run_state_def id_unused_def)
  moreover have "attest_step attest_demo_host run_host attest_demo_opened attest_demo_swept"
    unfolding attest_demo_swept_def by (rule Sweep)
  ultimately show "(attest_step attest_demo_host run_host)\<^sup>*\<^sup>* attest_demo_start attest_demo_swept" by simp
  show "attest_start attest_demo_start"
    by (simp add: attest_start_def attest_demo_start_def run_state_def windows_unspaced_def attest_demo_manifest_def attest_demo_record_def)
qed

lemma on_attest_sel:
  "cl_checksums (on_attest run cs) = fst (fst (run (cl_checksums cs, cl_disp cs)))"
  "cl_disp (on_attest run cs) = snd (fst (run (cl_checksums cs, cl_disp cs)))"
  by (simp_all add: on_attest_def split: prod.split)

lemma attest_demo_sealing:
  "new_clearpass 0 hour ''card'' ''a'' = Inr (attest_demo_window\<lparr>cp_seal := []\<rparr>)"
  "sealed attest_demo_host (attest_demo_window\<lparr>cp_seal := []\<rparr>) (attest_demo_record None) attest_demo_nonce = Inr attest_demo_window"
  by code_simp+

lemma attest_demo_names [simp]: "fp_name (attest_demo_record w) = ''mail''" "fp_clearpass (attest_demo_record w) = w"
  "fp_name attest_demo_live = ''mail''" "(attest_demo_record v)\<lparr>fp_clearpass := w\<rparr> = attest_demo_record w"
  by (simp_all add: attest_demo_record_def attest_demo_live_def)

lemma attest_demo_load: "load_checksums (ChecksumsAt (attest_demo_manifest fps)) = Inr (attest_demo_manifest fps)"
  "find_plugin_fingerprint (attest_demo_manifest [attest_demo_record w]) ''mail'' = Some (attest_demo_record w)"
  by (simp_all add: load_checksums_def find_plugin_fingerprint_def attest_demo_manifest_def)

lemma attest_demo_opened_eq:
  "cl_checksums attest_demo_opened =
     ChecksumsAt ((attest_demo_manifest [attest_demo_record (Some attest_demo_window)])\<lparr>cm_generated_at := rfc3339 0\<rparr>)"
  "ds_audit (cl_disp attest_demo_opened) = [(clearpass_row audit_op_open ''mail'' ''cli'' ''ok'' (open_detail attest_demo_window), 0)]"
proof -
  note run = open_writes [where st = "(cl_checksums attest_demo_start, cl_disp attest_demo_start)" and io = attest_demo_io and names = "[''mail'']"
      and name = "''mail''", OF _ _ attest_demo_sealing(1) _ attest_demo_load(2) refl attest_demo_sealing(2)]
  have pre: "load_checksums (cl_checksums attest_demo_start) = Inr (attest_demo_manifest [attest_demo_record None])"
    by (simp add: attest_demo_start_def attest_demo_load)
  show "cl_checksums attest_demo_opened =
     ChecksumsAt ((attest_demo_manifest [attest_demo_record (Some attest_demo_window)])\<lparr>cm_generated_at := rfc3339 0\<rparr>)"
    using pre unfolding attest_demo_opened_def on_attest_sel
    by (subst run) (simp_all add: attest_demo_io_def write_plugin_fingerprints_def set_plugin_clearpass_def sort_by_name_def attest_demo_manifest_def)
  show "ds_audit (cl_disp attest_demo_opened) = [(clearpass_row audit_op_open ''mail'' ''cli'' ''ok'' (open_detail attest_demo_window), 0)]"
    using pre unfolding attest_demo_opened_def on_attest_sel
    by (subst run) (simp_all add: attest_demo_io_def append_vault_audit_log attest_demo_start_def run_state_def)
qed

lemmas attest_demo_opened_manifest = attest_demo_opened_eq(1) and attest_demo_opened_log = attest_demo_opened_eq(2)

lemma attest_demo_window_facts:
  "seal_verifies attest_demo_host (Some attest_demo_window) (attest_demo_record (Some attest_demo_window)) attest_demo_nonce"
  "deadline attest_demo_host attest_demo_window = Some hour" "cp_id attest_demo_window = ''61''"
  by code_simp+

lemma attest_demo_live_fingerprint:
  "compute_plugin_fingerprint attest_demo_host (live_plugin ''mail'' True [] (''/p/mail'', ''/p/mail/run'')) attest_demo_nonce = Inr attest_demo_live"
  by code_simp

lemma attest_demo_admitted:
  "admit_close attest_demo_host attest_demo_conf attest_demo_io attest_demo_later (attest_demo_record (Some attest_demo_window)) attest_demo_window
     (cl_disp attest_demo_opened) = Inr ()"
  using open_detail_id [of attest_demo_window]
  by (simp add: admit_close_def attest_demo_window_facts commit_grace_def max_clearpass_def attest_demo_later_def attest_demo_conf_def attest_demo_io_def
      attest_demo_record_def list_vault_audit_rows rows_of_def attest_demo_opened_log)

lemma attest_demo_outcome:
  "cl_checksums attest_demo_swept = ChecksumsAt ((attest_demo_manifest [attest_demo_live])\<lparr>cm_generated_at := rfc3339 attest_demo_later\<rparr>)"
  "gateway_commits ''mail'' ''61'' (cl_closed attest_demo_swept) = 1" "\<not> command_reopened ''mail'' ''61'' (ds_audit (cl_disp attest_demo_swept))"
proof -
  let ?rec = "attest_demo_record (Some attest_demo_window)"
  have rec: "fp_name ?rec = ''mail''" "fp_clearpass ?rec = Some attest_demo_window" "fp_enabled ?rec" "fp_uses ?rec = []"
    by (simp_all add: attest_demo_record_def)
  have run: "attest_demo_swept = close_one attest_demo_host run_host attest_demo_conf attest_demo_io attest_demo_later ?rec attest_demo_window attest_demo_opened"
    by (simp add: attest_demo_swept_def sweep_def attest_demo_opened_manifest load_checksums_def attest_demo_manifest_def rec
        attest_demo_conf_def attest_demo_window_facts window_open_def window_expired_def attest_demo_later_def)
  obtain c n where commit: "closer_commit attest_demo_host attest_demo_conf attest_demo_io attest_demo_later ?rec
      (cl_checksums attest_demo_opened, cl_disp attest_demo_opened) =
    ((ChecksumsAt ((attest_demo_manifest [attest_demo_live])\<lparr>cm_generated_at := rfc3339 attest_demo_later\<rparr>),
      append_vault_audit attest_demo_later (clearpass_row audit_op_close ''mail'' ''core'' ''ok'' (close_detail c n))
       (append_vault_audit attest_demo_later (clearpass_row audit_op_close ''mail'' ''core'' ''pending'' (pending_detail c)) (cl_disp attest_demo_opened))),
     Inr (c, n))" "cc_window c = attest_demo_window" "cc_plugin c = ''mail''"
    by (simp add: closer_commit_def attest_demo_conf_def attest_demo_registry_def rec commit_clearpass_def attest_demo_live_fingerprint
        attest_demo_io_def attest_demo_opened_manifest load_checksums_def attest_demo_manifest_def Let_def write_plugin_fingerprints_def
        merge_plugin_fingerprint_def sort_by_name_def append_row_def)
  show "cl_checksums attest_demo_swept = ChecksumsAt ((attest_demo_manifest [attest_demo_live])\<lparr>cm_generated_at := rfc3339 attest_demo_later\<rparr>)"
    unfolding run by (simp add: close_one_def attest_demo_admitted commit)
  have "cl_closed attest_demo_opened = []"
    by (simp add: attest_demo_opened_def on_attest_def attest_demo_start_def split: prod.split)
  then show "gateway_commits ''mail'' ''61'' (cl_closed attest_demo_swept) = 1"
    unfolding run by (simp add: close_one_def attest_demo_admitted commit gateway_commits_def attest_demo_window_facts)
  show "\<not> command_reopened ''mail'' ''61'' (ds_audit (cl_disp attest_demo_swept))"
    unfolding run by (simp add: close_one_def attest_demo_admitted commit append_vault_audit_log attest_demo_opened_log command_reopened_def
        rows_of_def reopens_row_def by_gateway_def is_close_row_def)
qed

theorem window_committed_once_witness:
  "gateway_commits ''mail'' ''61'' (cl_closed attest_demo_swept) = 1 \<and> gateway_commits ''mail'' ''61'' (cl_closed attest_demo_swept) \<le> 1"
  using window_committed_once [OF attest_demo_steps, of "''61''" "''mail''"] attest_demo_outcome(2,3) by (simp add: unspaced_def)

theorem sweep_commits_admitted_windows_witness:
  "committed_from attest_demo_host attest_demo_conf attest_demo_later (cl_disp attest_demo_opened)
     (attest_demo_record (Some attest_demo_window)) attest_demo_live"
proof -
  let ?m = "(attest_demo_manifest [attest_demo_record (Some attest_demo_window)])\<lparr>cm_generated_at := rfc3339 0\<rparr>"
  have m: "load_checksums (cl_checksums attest_demo_opened) = Inr ?m"
    by (simp add: attest_demo_opened_manifest load_checksums_def attest_demo_manifest_def)
  have m': "load_checksums (cl_checksums attest_demo_swept) = Inr ((attest_demo_manifest [attest_demo_live])\<lparr>cm_generated_at := rfc3339 attest_demo_later\<rparr>)"
    by (simp add: attest_demo_outcome load_checksums_def attest_demo_manifest_def)
  have "\<exists>old\<in>set (cm_fingerprints ?m). committed_from attest_demo_host attest_demo_conf attest_demo_later (cl_disp attest_demo_opened) old attest_demo_live"
    by (rule sweep_commits_admitted_windows [OF m m' [unfolded attest_demo_swept_def]])
      (auto simp: attest_demo_manifest_def attest_demo_live_def attest_demo_record_def)
  then show ?thesis by (simp add: attest_demo_manifest_def)
qed

section \<open>A window committed twice\<close>

text \<open>The exception: the row of the first commit is lost, the manifest is put back from a copy, \<^verbatim>\<open>plugin clearpass --close\<close> cannot
  write the manifest and gives the window back, and the next sweep commits it again.\<close>

definition lost_row_io :: close_io where
  "lost_row_io = attest_demo_io\<lparr>ci_result := False\<rparr>"

definition full_disk_io :: close_io where
  "full_disk_io = attest_demo_io\<lparr>ci_write := False\<rparr>"

definition attest_demo_lost :: closer_state where
  "attest_demo_lost = sweep attest_demo_host run_host attest_demo_conf (\<lambda>_. lost_row_io) attest_demo_later attest_demo_opened"

definition attest_demo_back :: closer_state where
  "attest_demo_back = attest_demo_lost\<lparr>cl_checksums := cl_checksums attest_demo_opened\<rparr>"

definition attest_demo_failed :: closer_state where
  "attest_demo_failed = on_attest (plugin_clearpass_close attest_demo_host full_disk_io attest_demo_later
     (Some [live_plugin ''mail'' True [] (''/p/mail'', ''/p/mail/run'')]) (Some attest_demo_nonce) ''mail'') attest_demo_back"

definition attest_demo_twice :: closer_state where
  "attest_demo_twice = sweep attest_demo_host run_host attest_demo_conf (\<lambda>_. attest_demo_io) attest_demo_later attest_demo_failed"

lemma window_committed_twice:
  "(attest_step attest_demo_host run_host)\<^sup>*\<^sup>* attest_demo_start attest_demo_twice"
  "gateway_commits ''mail'' ''61'' (cl_closed attest_demo_twice) = 2"
proof -
  let ?step = "attest_step attest_demo_host run_host"
  have "?step attest_demo_start attest_demo_opened"
    unfolding attest_demo_opened_def by (rule Open) (simp add: attest_demo_start_def run_state_def id_unused_def)
  moreover have "?step attest_demo_opened attest_demo_lost" unfolding attest_demo_lost_def by (rule Sweep)
  moreover have "?step attest_demo_lost attest_demo_back"
    unfolding attest_demo_back_def attest_demo_opened_manifest
    by (rule Replaced) (simp add: windows_unspaced_def attest_demo_manifest_def attest_demo_window_facts unspaced_def)
  moreover have "?step attest_demo_back attest_demo_failed" unfolding attest_demo_failed_def by (rule Close)
  moreover have "?step attest_demo_failed attest_demo_twice" unfolding attest_demo_twice_def by (rule Sweep)
  ultimately show "?step\<^sup>*\<^sup>* attest_demo_start attest_demo_twice" by (meson converse_rtranclp_into_rtranclp rtranclp.rtrancl_refl)
  show "gateway_commits ''mail'' ''61'' (cl_closed attest_demo_twice) = 2" by code_simp
qed

end
