(* ===== verification/Attested_Delivery.thy ===== *)
theory Attested_Delivery
  imports Attestation_Properties
begin

text \<open>
  The dispatcher and the check of plugin identities meet at the Go interface \<^verbatim>\<open>PluginVerifier\<close> of
  \<^verbatim>\<open>src/internal/dispatch\<close>: before secrets are delivered and before a granted account is used, the dispatcher asks whether
  the plugin's live bytes are the attested ones. The locale \<open>identity_verifier\<close> states what it relies on; the interpretation
  discharges it for the check of \<^verbatim>\<open>src/cmd/ductile/plugin_verifier.go\<close>, and the theorem joins it to the vault.
\<close>

section \<open>The interface\<close>

locale identity_verifier =
  fixes verify :: "string \<Rightarrow> bool" and attested :: "string \<Rightarrow> bool"
  assumes verify_attested: "verify p \<Longrightarrow> attested p"
begin

lemma delivery_attested:
  assumes "compose_plugin_secrets composer (Some verify) plugin prin requires_vault = Inr secrets" and "secrets \<noteq> []"
  shows "attested plugin \<and> (\<exists>query c. composer = Some query \<and> query prin = Inr c \<and> secrets = co_secrets c)"
  using assms verify_attested
  by (auto simp: compose_plugin_secrets_def split: option.splits sum.splits if_splits)

lemma account_attested:
  assumes "bind_account_to_fingerprint r accounts plugin (Some verify) = Inr q" and "drops r"
  shows "attested plugin \<and> q = r \<or> most_restricted_account accounts = Some q"
  using assms verify_attested by (auto simp: bind_account_to_fingerprint_def split: option.splits if_splits)

lemma unattested_spawn:
  assumes "\<not> attested plugin" and "resolve_account accounts run_as plugin = Inr r" and "drops r"
  shows "spawn_plugin True accounts run_as (Some verify) unmarshal plugin os =
     (case most_restricted_account accounts of
        None \<Rightarrow> spawn_failure (NoDowngradeTarget plugin) | Some q \<Rightarrow> execute unmarshal q (os q))"
  using assms verify_attested [of plugin]
  by (auto simp: spawn_plugin_def bind_account_to_fingerprint_def split: option.split)

end

section \<open>The gateway's verifier\<close>

definition gateway_verifier ::
  "attest_host \<Rightarrow> live_registry \<Rightarrow> string option \<Rightarrow> checksums_file \<Rightarrow> instant \<Rightarrow> string \<Rightarrow> bool" where
  "gateway_verifier h reg nonce f now name = (case verify_identity h reg nonce f now name of Inl _ \<Rightarrow> False | Inr _ \<Rightarrow> True)"

text \<open>The bytes of a plugin are the recorded ones under the vault's nonce, or its record holds a window that is sealed under
  the nonce and has not ended.\<close>

definition attested_bytes ::
  "attest_host \<Rightarrow> live_registry \<Rightarrow> string option \<Rightarrow> checksums_file \<Rightarrow> instant \<Rightarrow> string \<Rightarrow> bool" where
  "attested_bytes h reg nonce f now name \<longleftrightarrow>
     (\<exists>m recorded key p md ed. load_checksums f = Inr m \<and> recorded \<in> set (cm_fingerprints m) \<and> fp_name recorded = name \<and>
        nonce = Some key \<and> length key = 32 \<and> map_of reg name = Some p \<and> live_bytes h (live_plugin name False [] p) md ed \<and>
        (fp_manifest_hash recorded = digest_text (ah_hmac h key md) \<and> fp_entrypoint_hash recorded = digest_text (ah_hmac h key ed) \<or>
         (\<exists>w t. fp_clearpass recorded = Some w \<and> cp_seal w = digest_text (ah_hmac h key (seal_text w recorded)) \<and>
            ah_parse_time h (cp_until w) = Some t \<and> now < t)))"

interpretation gateway: identity_verifier "gateway_verifier h reg nonce f now" "attested_bytes h reg nonce f now"
  for h reg nonce f now
proof unfold_locales
  fix p
  assume "gateway_verifier h reg nonce f now p"
  then obtain r where "verify_identity h reg nonce f now p = Inr r" by (auto simp: gateway_verifier_def split: sum.splits)
  then show "attested_bytes h reg nonce f now p" unfolding attested_bytes_def by (blast dest: spawn_needs_attestation)
qed

text \<open>C8. The vault's secrets reach a plugin only if its bytes are attested: when the dispatcher composes a delivery with the
  gateway's verifier and anything is delivered, then the live bytes of the plugin have the recorded keyed hashes, or the record
  holds a window sealed under the vault's nonce whose deadline has not passed; and every value delivered is that of an
  active secret of the vault granted to the plugin's principal.\<close>

theorem secrets_need_attestation:
  assumes "compose_plugin_secrets (Some (\<lambda>p. compose p store)) (Some (gateway_verifier h reg nonce f now)) plugin prin requires_vault
     = Inr secrets" and "(n, v) \<in> set secrets"
  shows "attested_bytes h reg nonce f now plugin \<and>
     (\<exists>x. (n, x) \<in> set (vs_secrets store) \<and> sec_status x = ''active'' \<and> prin \<in> set (sec_authorized x) \<and> v = sec_value x)"
proof -
  have "secrets \<noteq> []" using assms(2) by auto
  from gateway.delivery_attested [OF assms(1) this] obtain c where
    "attested_bytes h reg nonce f now plugin" "compose prin store = Inr c" "secrets = co_secrets c" by auto
  moreover from this(2,3) assms(2) have
    "\<exists>x. (n, x) \<in> set (vs_secrets store) \<and> sec_status x = ''active'' \<and> prin \<in> set (sec_authorized x) \<and> v = sec_value x"
    by (auto simp: compose_def Let_def split: option.splits if_splits)
  ultimately show ?thesis by blast
qed

text \<open>A plugin whose bytes are not attested never runs under the account it was granted: with an enforcing gate and the
  gateway's verifier it runs as the untrusted account, or it is not started when there is none.\<close>

theorem unattested_plugin_downgraded:
  assumes "\<not> attested_bytes h reg nonce f now plugin" and "resolve_account accounts run_as plugin = Inr r" and "drops r"
  shows "spawn_plugin True accounts run_as (Some (gateway_verifier h reg nonce f now)) unmarshal plugin os =
     (case most_restricted_account accounts of
        None \<Rightarrow> spawn_failure (NoDowngradeTarget plugin) | Some q \<Rightarrow> execute unmarshal q (os q))"
  by (rule gateway.unattested_spawn [OF assms])

section \<open>An example\<close>

definition delivery_demo_store :: vault_store where
  "delivery_demo_store = \<lparr>vs_secrets = [(''api'', \<lparr>sec_value = ''s'', sec_authorized = [''mail''], sec_status = ''active'',
       sec_pattern = [], sec_roll_count = 0, sec_created_at = [], sec_updated_at = [], sec_revoked_at = []\<rparr>)],
     vs_principals = [(''mail'', \<lparr>pr_kind = ''plugin'', pr_status = ''active'', pr_nonce = []\<rparr>)]\<rparr>"

lemma delivery_demo_composes:
  "compose_plugin_secrets (Some (\<lambda>p. compose p delivery_demo_store)) (Some (gateway_verifier attest_demo_host attest_demo_registry
     (Some attest_demo_nonce) (ChecksumsAt (attest_demo_manifest [attest_demo_record (Some attest_demo_window)])) (30 * minute)))
     ''mail'' ''mail'' True = Inr [(''api'', ''s'')]"
proof -
  have "gateway_verifier attest_demo_host attest_demo_registry (Some attest_demo_nonce)
      (ChecksumsAt (attest_demo_manifest [attest_demo_record (Some attest_demo_window)])) (30 * minute) ''mail''"
    using attest_demo_spawn by (auto simp: gateway_verifier_def split: sum.split)
  then show ?thesis by (simp add: compose_plugin_secrets_def compose_def delivery_demo_store_def)
qed

theorem secrets_need_attestation_witness:
  "attested_bytes attest_demo_host attest_demo_registry (Some attest_demo_nonce)
     (ChecksumsAt (attest_demo_manifest [attest_demo_record (Some attest_demo_window)])) (30 * minute) ''mail''"
  using secrets_need_attestation [OF delivery_demo_composes, of "''api''" "''s''"] by simp

end
