(* ===== verification/Config_Types.thy ===== *)
theory Config_Types
  imports Attestation Webhook Auth
begin

text \<open>
  The configuration document, \<^verbatim>\<open>src/internal/config/types.go\<close>, with its defaults, the merge of an included document
  (\<^verbatim>\<open>deepMergeConfig\<close> of \<^verbatim>\<open>loader.go\<close>), the boot posture (\<^verbatim>\<open>boot_posture.go\<close>) and the resolution of API tokens
  (\<^verbatim>\<open>api_tokens.go\<close>). A nil slice or map is an empty list. A plugin stanza is the plugin configuration of the
  scheduler and the dispatcher extended by what only the loader and the plugin registry read.
\<close>

section \<open>The document\<close>

record admission_config =
  adm_verify_integrity_on_boot :: bool
  adm_fail_on_drift :: bool
  adm_validate_config_on_boot :: bool
  adm_require_api_auth :: bool
  adm_fail_on_side_door :: bool

record service_section =
  srv_name :: string
  srv_tick_interval :: duration
  srv_log_level :: string
  srv_log_format :: string
  srv_dedupe_ttl :: duration
  srv_job_log_retention :: duration
  srv_job_queue_retention :: duration
  srv_job_transitions_retention :: duration
  srv_job_attempts_retention :: duration
  srv_breaker_transitions_retention :: duration
  srv_max_workers :: int
  srv_plugin_env_passthrough :: "string list"
  srv_admission :: "admission_config option"
  srv_strict_mode :: bool
  srv_allow_symlinks :: bool
  srv_hook_max_depth :: int
  srv_unconfined :: bool

record api_token =
  at_token :: string
  at_secret_ref :: string
  at_scopes :: "string list"

record api_section =
  as_enabled :: bool
  as_listen :: string
  as_tokens :: "api_token list"
  as_max_concurrent_sync :: int
  as_max_sync_timeout :: duration
  as_allowed_origins :: "string list"
  as_management_socket :: string

record route_config =
  rt_from :: string
  rt_event_type :: string
  rt_to :: string

record plugin_stanza = plugin_conf +
  ps_uses :: string
  ps_schedule :: "schedule_config option"

record config =
  cf_include :: "string list"
  cf_env_include :: "string list"
  cf_service :: service_section
  cf_state_path :: string
  cf_database_path :: string
  cf_age_key_file :: string
  cf_vault_file :: string
  cf_api :: api_section
  cf_plugin_roots :: "string list"
  cf_tcc_paths :: "string list"
  cf_plugins :: "(string \<times> plugin_stanza) list"
  cf_accounts :: "(string \<times> account_conf) list"
  cf_relay_instances :: "relay_instance_config list"
  cf_remote_ingress :: "remote_ingress_config option"
  cf_routes :: "route_config list"
  cf_webhooks :: "webhooks_config option"
  cf_source_files :: "string list"
  cf_resolved_secrets :: "(string \<times> string) list"

abbreviation stanza_conf :: "plugin_stanza \<Rightarrow> plugin_conf" where
  "stanza_conf p \<equiv> plugin_conf.truncate p"

definition admission_policy :: "service_section \<Rightarrow> admission_config" where
  "admission_policy s =
     (case srv_admission s of
        Some a \<Rightarrow> a
      | None \<Rightarrow>
          let v = srv_strict_mode s in
          \<lparr>adm_verify_integrity_on_boot = v, adm_fail_on_drift = v, adm_validate_config_on_boot = v, adm_require_api_auth = v,
           adm_fail_on_side_door = v\<rparr>)"

fun dedupe_roots :: "string list \<Rightarrow> string list \<Rightarrow> string list" where
  "dedupe_roots seen [] = []"
| "dedupe_roots seen (r # rs) =
     (let t = trim_space r in
      if t = [] \<or> t \<in> set seen then dedupe_roots seen rs else t # dedupe_roots (t # seen) rs)"

definition effective_plugin_roots :: "config \<Rightarrow> string list" where
  "effective_plugin_roots c = dedupe_roots [] (cf_plugin_roots c)"

section \<open>Defaults\<close>

definition zero_api :: api_section where
  "zero_api = \<lparr>as_enabled = False, as_listen = [], as_tokens = [], as_max_concurrent_sync = 0, as_max_sync_timeout = 0,
     as_allowed_origins = [], as_management_socket = []\<rparr>"

text \<open>\<^verbatim>\<open>Defaults()\<close> on a machine with \<open>cpus\<close> processors.\<close>

definition default_service :: "int \<Rightarrow> service_section" where
  "default_service cpus = \<lparr>srv_name = ''ductile'', srv_tick_interval = 60 * second, srv_log_level = ''info'', srv_log_format = ''json'',
     srv_dedupe_ttl = 24 * hour, srv_job_log_retention = 30 * 24 * hour, srv_job_queue_retention = 24 * hour,
     srv_job_transitions_retention = 30 * 24 * hour, srv_job_attempts_retention = 30 * 24 * hour,
     srv_breaker_transitions_retention = 90 * 24 * hour, srv_max_workers = max 1 (cpus - 1), srv_plugin_env_passthrough = [],
     srv_admission = None, srv_strict_mode = False, srv_allow_symlinks = False, srv_hook_max_depth = default_hook_max_depth,
     srv_unconfined = False\<rparr>"

definition default_state_path :: string where "default_state_path = ''./data/state.db''"

definition default_api :: api_section where
  "default_api = zero_api\<lparr>as_listen := ''127.0.0.1:8080''\<rparr>"

definition or_default :: "'a \<Rightarrow> 'a \<Rightarrow> 'a \<Rightarrow> 'a" where
  "or_default zero x d = (if x = zero then d else x)"

definition default_service_fields :: "int \<Rightarrow> service_section \<Rightarrow> service_section" where
  "default_service_fields cpus s =
     (let d = default_service cpus in
      s\<lparr>srv_name := or_default [] (srv_name s) (srv_name d),
        srv_tick_interval := or_default 0 (srv_tick_interval s) (srv_tick_interval d),
        srv_log_level := or_default [] (srv_log_level s) (srv_log_level d),
        srv_log_format := or_default [] (srv_log_format s) (srv_log_format d),
        srv_dedupe_ttl := or_default 0 (srv_dedupe_ttl s) (srv_dedupe_ttl d),
        srv_job_log_retention := or_default 0 (srv_job_log_retention s) (srv_job_log_retention d),
        srv_job_queue_retention := or_default 0 (srv_job_queue_retention s) (srv_job_queue_retention d),
        srv_job_transitions_retention := or_default 0 (srv_job_transitions_retention s) (srv_job_transitions_retention d),
        srv_job_attempts_retention := or_default 0 (srv_job_attempts_retention s) (srv_job_attempts_retention d),
        srv_breaker_transitions_retention := or_default 0 (srv_breaker_transitions_retention s) (srv_breaker_transitions_retention d),
        srv_max_workers := or_default 0 (srv_max_workers s) (srv_max_workers d),
        srv_hook_max_depth := or_default 0 (srv_hook_max_depth s) (srv_hook_max_depth d)\<rparr>)"

definition default_api_fields :: "api_section \<Rightarrow> api_section" where
  "default_api_fields a0 =
     (let a = (if \<not> as_enabled a0 \<and> as_listen a0 = [] then default_api else a0) in
      a\<lparr>as_max_concurrent_sync := or_default 0 (as_max_concurrent_sync a) 10,
        as_max_sync_timeout := or_default 0 (as_max_sync_timeout a) (5 * minute)\<rparr>)"

definition apply_config_defaults :: "int \<Rightarrow> config \<Rightarrow> config" where
  "apply_config_defaults cpus c =
     (let alias = (if cf_state_path c = [] \<and> cf_database_path c \<noteq> [] then cf_database_path c else cf_state_path c) in
      c\<lparr>cf_service := default_service_fields cpus (cf_service c),
        cf_state_path := or_default [] alias default_state_path,
        cf_api := default_api_fields (cf_api c)\<rparr>)"

definition resolve_state_path :: "string \<Rightarrow> config \<Rightarrow> config" where
  "resolve_state_path base c =
     (if trim_space base = [] \<or> cf_state_path c = [] \<or> is_abs (cf_state_path c) then c
      else c\<lparr>cf_state_path := clean_path (path_join base (cf_state_path c))\<rparr>)"

definition merge_plugin_defaults :: "int \<Rightarrow> plugin_stanza \<Rightarrow> plugin_stanza" where
  "merge_plugin_defaults max_workers p =
     p\<lparr>pc_retry := (case pc_retry p of None \<Rightarrow> pc_retry default_plugin_conf | Some r \<Rightarrow> Some r),
       pc_timeouts := (case pc_timeouts p of None \<Rightarrow> pc_timeouts default_plugin_conf | Some t \<Rightarrow> Some t),
       pc_breaker := (case pc_breaker p of None \<Rightarrow> pc_breaker default_plugin_conf | Some b \<Rightarrow> Some b),
       pc_max_outstanding_polls := or_default 0 (pc_max_outstanding_polls p) (pc_max_outstanding_polls default_plugin_conf),
       pc_parallelism := or_default 0 (pc_parallelism p) max_workers\<rparr>"

section \<open>Merging an included document\<close>

definition merge_service :: "service_section \<Rightarrow> service_section \<Rightarrow> service_section" where
  "merge_service d s =
     d\<lparr>srv_name := or_default [] (srv_name s) (srv_name d),
       srv_tick_interval := or_default 0 (srv_tick_interval s) (srv_tick_interval d),
       srv_log_level := or_default [] (srv_log_level s) (srv_log_level d),
       srv_log_format := or_default [] (srv_log_format s) (srv_log_format d),
       srv_dedupe_ttl := or_default 0 (srv_dedupe_ttl s) (srv_dedupe_ttl d),
       srv_job_log_retention := or_default 0 (srv_job_log_retention s) (srv_job_log_retention d),
       srv_job_queue_retention := or_default 0 (srv_job_queue_retention s) (srv_job_queue_retention d),
       srv_job_transitions_retention := or_default 0 (srv_job_transitions_retention s) (srv_job_transitions_retention d),
       srv_job_attempts_retention := or_default 0 (srv_job_attempts_retention s) (srv_job_attempts_retention d),
       srv_breaker_transitions_retention := or_default 0 (srv_breaker_transitions_retention s) (srv_breaker_transitions_retention d)\<rparr>"

definition merge_api :: "api_section \<Rightarrow> api_section \<Rightarrow> api_section" where
  "merge_api d s =
     d\<lparr>as_enabled := as_enabled s \<or> as_enabled d,
       as_listen := or_default [] (as_listen s) (as_listen d),
       as_management_socket := or_default [] (as_management_socket s) (as_management_socket d),
       as_max_concurrent_sync := or_default 0 (as_max_concurrent_sync s) (as_max_concurrent_sync d),
       as_max_sync_timeout := or_default 0 (as_max_sync_timeout s) (as_max_sync_timeout d),
       as_tokens := as_tokens d @ as_tokens s,
       as_allowed_origins := as_allowed_origins d @ as_allowed_origins s\<rparr>"

definition zero_ingress :: remote_ingress_config where
  "zero_ingress = \<lparr>ig_listen_path = [], ig_max_body_size = [], ig_allowed_clock_skew = 0, ig_require_key_id = False, ig_trusted_peers = []\<rparr>"

definition merge_ingress :: "remote_ingress_config option \<Rightarrow> remote_ingress_config option \<Rightarrow> remote_ingress_config option" where
  "merge_ingress d s =
     (case s of
        None \<Rightarrow> d
      | Some x \<Rightarrow>
          let b = (case d of None \<Rightarrow> zero_ingress | Some y \<Rightarrow> y) in
          Some (b\<lparr>ig_listen_path := or_default [] (ig_listen_path x) (ig_listen_path b),
                  ig_max_body_size := or_default [] (ig_max_body_size x) (ig_max_body_size b),
                  ig_allowed_clock_skew := or_default 0 (ig_allowed_clock_skew x) (ig_allowed_clock_skew b),
                  ig_require_key_id := ig_require_key_id x \<or> ig_require_key_id b,
                  ig_trusted_peers := ig_trusted_peers b @ ig_trusted_peers x\<rparr>))"

definition merge_webhooks :: "webhooks_config option \<Rightarrow> webhooks_config option \<Rightarrow> webhooks_config option" where
  "merge_webhooks d s =
     (case s of
        None \<Rightarrow> d
      | Some x \<Rightarrow>
          let b = (case d of None \<Rightarrow> \<lparr>wc_listen = [], wc_endpoints = []\<rparr> | Some y \<Rightarrow> y) in
          Some (b\<lparr>wc_listen := or_default [] (wc_listen x) (wc_listen b), wc_endpoints := wc_endpoints b @ wc_endpoints x\<rparr>))"

definition deep_merge_config :: "config \<Rightarrow> config \<Rightarrow> config" where
  "deep_merge_config d s =
     d\<lparr>cf_service := merge_service (cf_service d) (cf_service s),
       cf_state_path := or_default [] (cf_state_path s) (cf_state_path d),
       cf_api := merge_api (cf_api d) (cf_api s),
       cf_plugin_roots := cf_plugin_roots d @ cf_plugin_roots s,
       cf_plugins := fold (\<lambda>(n, p). map_put n p) (cf_plugins s) (cf_plugins d),
       cf_routes := cf_routes d @ cf_routes s,
       cf_relay_instances := cf_relay_instances d @ cf_relay_instances s,
       cf_remote_ingress := merge_ingress (cf_remote_ingress d) (cf_remote_ingress s),
       cf_webhooks := merge_webhooks (cf_webhooks d) (cf_webhooks s)\<rparr>"

section \<open>Posture and tokens\<close>

datatype boot_posture = PostureClosed | PostureGateway | PostureManagementOnly

definition api_enabled_without_token :: "config \<Rightarrow> bool \<Rightarrow> bool" where
  "api_enabled_without_token c has_vault \<longleftrightarrow> as_enabled (cf_api c) \<and> as_tokens (cf_api c) = [] \<and> \<not> has_vault"

definition decide_boot_posture :: "config \<Rightarrow> bool \<Rightarrow> boot_posture" where
  "decide_boot_posture c has_owner =
     (if \<not> as_enabled (cf_api c) then PostureClosed
      else if as_tokens (cf_api c) = [] \<and> has_owner then PostureManagementOnly
      else PostureGateway)"

datatype token_error = LiteralToken nat | RefRequired nat | RefMissing nat string | RefEmpty nat string

fun resolve_tokens_from :: "(string \<times> string) list \<Rightarrow> nat \<Rightarrow> api_token list \<Rightarrow> token_error + token_config list" where
  "resolve_tokens_from secrets i [] = Inr []"
| "resolve_tokens_from secrets i (t # ts) =
     (if at_token t \<noteq> [] then Inl (LiteralToken i)
      else if at_secret_ref t = [] then Inl (RefRequired i)
      else case map_get secrets (at_secret_ref t) of
        None \<Rightarrow> Inl (RefMissing i (at_secret_ref t))
      | Some v \<Rightarrow>
          if v = [] then Inl (RefEmpty i (at_secret_ref t))
          else bind_result (resolve_tokens_from secrets (Suc i) ts) (\<lambda>rest.
            Inr (\<lparr>tk_name = at_secret_ref t, tk_token = v, tk_scopes = at_scopes t\<rparr> # rest)))"

definition resolve_api_tokens :: "config \<Rightarrow> token_error + token_config list" where
  "resolve_api_tokens c = resolve_tokens_from (cf_resolved_secrets c) 0 (as_tokens (cf_api c))"

end
