(* ===== verification/Config_Loader.thy ===== *)
theory Config_Loader
  imports Config_Types Scheduler
begin

text \<open>
  Loading the configuration, \<^verbatim>\<open>src/internal/config\<close>: the age key ring (\<^verbatim>\<open>secrets.go\<close>, \<^verbatim>\<open>src/internal/secrets\<close>), home
  directories in paths (\<^verbatim>\<open>tilde.go\<close>), environment files, interpolation, the include tree, vault secrets
  (\<^verbatim>\<open>vault_secrets.go\<close>) and the load itself (\<^verbatim>\<open>loader.go\<close>). The host is a record: its files and directories (finitely
  many), what the YAML decoder makes of a text, the age library, the number of processors. The process environment is a
  list of variables that loading extends.
\<close>

section \<open>The host\<close>

type_synonym environment = "(string \<times> string) list"
type_synonym keyring = "string list"

datatype file_status = StatMissing | StatDenied | StatFile | StatDir

record loader_host =
  lh_cwd :: string
  lh_home :: "string option"
  lh_files :: "(string \<times> string option) list"
  lh_dirs :: "(string \<times> (string \<times> bool) list option) list"
  lh_denied :: "string list"
  lh_mode :: "string \<Rightarrow> nat"
  lh_identities :: "string \<Rightarrow> keyring option"
  lh_age_decrypt :: "keyring \<Rightarrow> string \<Rightarrow> string option"
  lh_decode :: "string \<Rightarrow> config option"
  lh_decode_env :: "string \<Rightarrow> string list option"
  lh_decode_node :: "string \<Rightarrow> bool"
  lh_cpus :: int
  lh_vault :: "keyring \<Rightarrow> string \<Rightarrow> vault_store option"
  lh_checksums :: "string \<Rightarrow> checksums_file"
  lh_attest :: attest_host
  lh_parse_byte_size :: "string \<Rightarrow> int option"
  lh_parse_url :: "string \<Rightarrow> (string \<times> string) option"
  lh_sched :: host

datatype load_error =
    ConfigNotFound string | ConfigYamlMissing string | KeyFile string | KeyFileMode string | KeyFileParse string
  | ReadFailed string | NoDecryptionKey string | DecryptFailed string
  | TildeUser string | EnvDecode string | EnvMissing nat string | EnvLine nat string | EnvTooLong string | EnvSet string
  | YamlInvalid string | IncludeMissing nat string | IncludeDenied nat string | IncludeDir nat string | IncludeCycle nat string
  | IncludesExhausted | VaultStat string | VaultBroken string | ScopeChecksums string attest_error | ScopeUnlisted string
  | ScopeTampered string attest_error

definition os_stat :: "loader_host \<Rightarrow> string \<Rightarrow> file_status" where
  "os_stat h p =
     (if p \<in> set (lh_denied h) then StatDenied
      else if map_get (lh_dirs h) p \<noteq> None then StatDir
      else if map_get (lh_files h) p \<noteq> None then StatFile else StatMissing)"

text \<open>Whether \<^verbatim>\<open>os.Stat\<close> succeeds.\<close>

definition stat_ok :: "loader_host \<Rightarrow> string \<Rightarrow> bool" where
  "stat_ok h p \<longleftrightarrow> os_stat h p = StatFile \<or> os_stat h p = StatDir"

definition read_file :: "loader_host \<Rightarrow> string \<Rightarrow> string option" where
  "read_file h p = (case map_get (lh_files h) p of None \<Rightarrow> None | Some d \<Rightarrow> d)"

definition getenv :: "environment \<Rightarrow> string \<Rightarrow> string" where
  "getenv env k = (case map_get env k of None \<Rightarrow> [] | Some v \<Rightarrow> v)"

section \<open>Environment variables\<close>

definition env_name_start :: "char \<Rightarrow> bool" where
  "env_name_start c \<longleftrightarrow> (let n = of_char c :: nat in 65 \<le> n \<and> n \<le> 90 \<or> 97 \<le> n \<and> n \<le> 122 \<or> n = 95)"

definition env_name_char :: "char \<Rightarrow> bool" where
  "env_name_char c \<longleftrightarrow> env_name_start c \<or> is_digit c"

text \<open>A match of \<^verbatim>\<open>\$\{([A-Za-z_][A-Za-z0-9_]*)\}\<close> at the start of a text: the name and the rest.\<close>

definition placeholder :: "string \<Rightarrow> (string \<times> string) option" where
  "placeholder s =
     (if take 2 s \<noteq> ''${'' then None
      else let n = takeWhile env_name_char (drop 2 s); r = dropWhile env_name_char (drop 2 s)
           in if n \<noteq> [] \<and> env_name_start (hd n) \<and> r \<noteq> [] \<and> hd r = CHR ''}'' then Some (n, tl r) else None)"

datatype env_piece = Lit char | Var string

lemma placeholder_Some:
  "placeholder s = Some (n, r) \<longleftrightarrow>
     take 2 s = ''${'' \<and> n = takeWhile env_name_char (drop 2 s) \<and> n \<noteq> [] \<and> env_name_start (hd n) \<and>
     dropWhile env_name_char (drop 2 s) = CHR ''}'' # r"
proof (cases "dropWhile env_name_char (drop 2 s)")
  case Nil
  show ?thesis unfolding placeholder_def Let_def Nil by simp
next
  case (Cons c rest)
  show ?thesis unfolding placeholder_def Let_def Cons by (cases "take 2 s = ''${''") auto
qed

lemma placeholder_text:
  assumes "placeholder s = Some (n, r)"
  shows "s = ''${'' @ n @ ''}'' @ r"
proof -
  from assms have "take 2 s = ''${''" and "drop 2 s = n @ CHR ''}'' # r"
    by (metis placeholder_Some takeWhile_dropWhile_id)+
  then have "take 2 s @ drop 2 s = ''${'' @ n @ ''}'' @ r" by simp
  then show ?thesis by (simp only: append_take_drop_id)
qed

lemma placeholder_shorter:
  assumes "placeholder s = Some (n, r)"
  shows "length r < length s"
proof -
  have "length s = length (''${'' @ n @ ''}'' @ r)" using placeholder_text [OF assms] by (rule arg_cong)
  then show ?thesis by simp
qed

function env_pieces :: "string \<Rightarrow> env_piece list" where
  "env_pieces s =
     (case s of
        [] \<Rightarrow> []
      | c # cs \<Rightarrow> (case placeholder s of Some (n, r) \<Rightarrow> Var n # env_pieces r | None \<Rightarrow> Lit c # env_pieces cs))"
  by pat_completeness auto
termination
  by (relation "measure length") (auto dest: placeholder_shorter)

declare env_pieces.simps [simp del]

fun piece_text :: "env_piece \<Rightarrow> string" where
  "piece_text (Lit c) = [c]"
| "piece_text (Var n) = ''${'' @ n @ ''}''"

fun piece_value :: "environment \<Rightarrow> env_piece \<Rightarrow> string" where
  "piece_value env (Lit c) = [c]"
| "piece_value env (Var n) = (case map_get env n of Some v \<Rightarrow> v | None \<Rightarrow> piece_text (Var n))"

definition interpolate_env :: "environment \<Rightarrow> string \<Rightarrow> string" where
  "interpolate_env env s = concat (map (piece_value env) (env_pieces s))"

definition first_placeholder :: "string \<Rightarrow> string option" where
  "first_placeholder s =
     (case filter (\<lambda>p. case p of Var _ \<Rightarrow> True | Lit _ \<Rightarrow> False) (env_pieces s) of Var n # _ \<Rightarrow> Some n | _ \<Rightarrow> None)"

section \<open>Paths under the home directory\<close>

definition is_tilde_user_form :: "string \<Rightarrow> bool" where
  "is_tilde_user_form p \<longleftrightarrow>
     (case p of a # c # _ \<Rightarrow> a = CHR ''~'' \<and> (env_name_char c \<or> c = CHR ''.'' \<or> c = CHR ''-'') | _ \<Rightarrow> False)"

definition expand_tilde :: "loader_host \<Rightarrow> string \<Rightarrow> load_error + string" where
  "expand_tilde h p =
     (if is_tilde_user_form p then Inl (TildeUser p)
      else if p \<noteq> ''~'' \<and> \<not> prefix ''~/'' p then Inr p
      else case lh_home h of
        None \<Rightarrow> Inr p
      | Some home \<Rightarrow> if home = [] then Inr p else if p = ''~'' then Inr home else Inr (path_join home (drop 2 p)))"

fun expand_tilde_list :: "loader_host \<Rightarrow> string list \<Rightarrow> load_error + string list" where
  "expand_tilde_list h [] = Inr []"
| "expand_tilde_list h (p # ps) =
     bind_result (expand_tilde h p) (\<lambda>q. bind_result (expand_tilde_list h ps) (\<lambda>qs. Inr (q # qs)))"

definition expand_tilde_paths :: "loader_host \<Rightarrow> config \<Rightarrow> load_error + config" where
  "expand_tilde_paths h c =
     bind_result (expand_tilde h (cf_state_path c)) (\<lambda>state.
     bind_result (expand_tilde h (cf_database_path c)) (\<lambda>database.
     bind_result (expand_tilde h (cf_age_key_file c)) (\<lambda>key.
     bind_result (expand_tilde h (cf_vault_file c)) (\<lambda>vault.
     bind_result (expand_tilde h (as_management_socket (cf_api c))) (\<lambda>socket.
     bind_result (expand_tilde_list h (cf_plugin_roots c)) (\<lambda>roots.
     bind_result (expand_tilde_list h (cf_tcc_paths c)) (\<lambda>tcc.
     bind_result (expand_tilde_list h (cf_env_include c)) (\<lambda>envs.
       Inr (c\<lparr>cf_state_path := state, cf_database_path := database, cf_age_key_file := key, cf_vault_file := vault,
              cf_api := (cf_api c)\<lparr>as_management_socket := socket\<rparr>, cf_plugin_roots := roots, cf_tcc_paths := tcc,
              cf_env_include := envs\<rparr>)))))))))"

section \<open>Encrypted files\<close>

definition left_blank :: "char \<Rightarrow> bool" where
  "left_blank c \<longleftrightarrow> (of_char c :: nat) \<in> {32, 9, 13, 10}"

definition is_encrypted :: "string \<Rightarrow> bool" where
  "is_encrypted d \<longleftrightarrow>
     (let t = dropWhile left_blank d in
      prefix ''age-encryption.org/v1'' t \<or> prefix ''-----BEGIN AGE ENCRYPTED FILE-----'' t)"

definition keyring_decrypt :: "loader_host \<Rightarrow> keyring \<Rightarrow> string \<Rightarrow> string \<Rightarrow> load_error + string" where
  "keyring_decrypt h kr path d =
     (if kr = [] then Inl (NoDecryptionKey path)
      else case lh_age_decrypt h kr d of None \<Rightarrow> Inl (DecryptFailed path) | Some t \<Rightarrow> Inr t)"

text \<open>A key file others may access (\<^verbatim>\<open>mode&0o077 != 0\<close>) is refused.\<close>

definition load_keyring_from_file :: "loader_host \<Rightarrow> string \<Rightarrow> load_error + keyring" where
  "load_keyring_from_file h path =
     (if \<not> stat_ok h path then Inl (KeyFile path)
      else if lh_mode h path mod 64 \<noteq> 0 then Inl (KeyFileMode path)
      else case read_file h path of
        None \<Rightarrow> Inl (KeyFile path)
      | Some d \<Rightarrow> (case lh_identities h d of None \<Rightarrow> Inl (KeyFileParse path)
                     | Some ids \<Rightarrow> if ids = [] then Inl (KeyFileParse path) else Inr ids))"

definition default_key_paths :: "loader_host \<Rightarrow> string \<Rightarrow> string list" where
  "default_key_paths h dir =
     path_join dir ''age.key'' #
     (case lh_home h of None \<Rightarrow> [] | Some home \<Rightarrow> [path_join (path_join (path_join home ''.config'') ''ductile'') ''age.key''])"

definition resolve_age_key_path :: "loader_host \<Rightarrow> environment \<Rightarrow> string \<Rightarrow> config option \<Rightarrow> string" where
  "resolve_age_key_path h env dir co =
     (if getenv env ''DUCTILE_AGE_KEY_FILE'' \<noteq> [] then getenv env ''DUCTILE_AGE_KEY_FILE''
      else case co of
        Some c \<Rightarrow>
          if cf_age_key_file c \<noteq> [] then path_under dir (interpolate_env env (cf_age_key_file c))
          else (case find (stat_ok h) (default_key_paths h dir) of None \<Rightarrow> [] | Some p \<Rightarrow> p)
      | None \<Rightarrow> (case find (stat_ok h) (default_key_paths h dir) of None \<Rightarrow> [] | Some p \<Rightarrow> p))"

definition resolve_keyring :: "loader_host \<Rightarrow> environment \<Rightarrow> string \<Rightarrow> config option \<Rightarrow> load_error + keyring" where
  "resolve_keyring h env dir co =
     (let path = resolve_age_key_path h env dir co in if path = [] then Inr [] else load_keyring_from_file h path)"

definition read_config_bytes :: "loader_host \<Rightarrow> keyring \<Rightarrow> string \<Rightarrow> load_error + string" where
  "read_config_bytes h kr path =
     (case read_file h path of
        None \<Rightarrow> Inl (ReadFailed path)
      | Some d \<Rightarrow> if \<not> is_encrypted d then Inr d else keyring_decrypt h kr path d)"

section \<open>Environment files\<close>

text \<open>One line of a \<^verbatim>\<open>.env\<close> file: nothing, or a variable and its value; \<open>None\<close> is a malformed line.\<close>

definition unquote_value :: "string \<Rightarrow> string" where
  "unquote_value v =
     (if length v \<ge> 2 \<and> (hd v = CHR 0x22 \<and> last v = CHR 0x22 \<or> hd v = CHR 0x27 \<and> last v = CHR 0x27) then butlast (tl v) else v)"

definition env_line :: "string \<Rightarrow> (string \<times> string) option option" where
  "env_line raw =
     (let l0 = trim_space raw in
      if l0 = [] \<or> hd l0 = CHR ''#'' then Some None
      else let l = (if prefix ''export '' l0 then trim_space (drop 7 l0) else l0);
               key = takeWhile (\<lambda>c. c \<noteq> CHR ''='') l; rest = dropWhile (\<lambda>c. c \<noteq> CHR ''='') l
           in if rest = [] \<or> trim_space key = [] then None
              else Some (Some (trim_space key, unquote_value (trim_space (tl rest)))))"

text \<open>\<^verbatim>\<open>bufio.Scanner\<close> refuses a line of 64 KiB; \<^verbatim>\<open>os.Setenv\<close> refuses a NUL byte.\<close>

fun load_env_lines :: "string \<Rightarrow> nat \<Rightarrow> string list \<Rightarrow> environment \<Rightarrow> environment \<times> load_error option" where
  "load_env_lines path n [] env = (env, None)"
| "load_env_lines path n (l # ls) env =
     (if length l \<ge> 65536 then (env, Some (EnvTooLong path))
      else case env_line l of
        None \<Rightarrow> (env, Some (EnvLine n path))
      | Some None \<Rightarrow> load_env_lines path (Suc n) ls env
      | Some (Some (k, v)) \<Rightarrow>
          if map_get env k \<noteq> None then load_env_lines path (Suc n) ls env
          else if CHR 0x00 \<in> set k \<or> CHR 0x00 \<in> set v then (env, Some (EnvSet path))
          else load_env_lines path (Suc n) ls ((k, v) # env))"

definition load_env_file :: "loader_host \<Rightarrow> keyring \<Rightarrow> string \<Rightarrow> environment \<Rightarrow> environment \<times> load_error option" where
  "load_env_file h kr path env =
     (case read_config_bytes h kr path of
        Inl e \<Rightarrow> (env, Some e) | Inr d \<Rightarrow> load_env_lines path 1 (split_on (CHR 0x0A) d) env)"

fun load_env_paths :: "loader_host \<Rightarrow> keyring \<Rightarrow> string \<Rightarrow> nat \<Rightarrow> string list \<Rightarrow> environment \<Rightarrow> environment \<times> load_error option" where
  "load_env_paths h kr base i [] env = (env, None)"
| "load_env_paths h kr base i (p # ps) env =
     (case expand_tilde h (interpolate_env env p) of
        Inl e \<Rightarrow> (env, Some e)
      | Inr q \<Rightarrow>
          let path = path_abs (lh_cwd h) (path_under base q) in
          if \<not> stat_ok h path then (env, Some (EnvMissing i path))
          else case load_env_file h kr path env of
            (env1, Some e) \<Rightarrow> (env1, Some e)
          | (env1, None) \<Rightarrow> load_env_paths h kr base (Suc i) ps env1)"

definition load_env_includes :: "loader_host \<Rightarrow> keyring \<Rightarrow> string \<Rightarrow> string \<Rightarrow> environment \<Rightarrow> environment \<times> load_error option" where
  "load_env_includes h kr path d env =
     (case lh_decode_env h d of
        None \<Rightarrow> (env, Some (EnvDecode path)) | Some ps \<Rightarrow> load_env_paths h kr (path_dir path) 0 ps env)"

definition load_config_file :: "loader_host \<Rightarrow> keyring \<Rightarrow> string \<Rightarrow> environment \<Rightarrow> environment \<times> (load_error + config)" where
  "load_config_file h kr path env =
     (case read_config_bytes h kr path of
        Inl e \<Rightarrow> (env, Inl e)
      | Inr d \<Rightarrow>
         (case load_env_includes h kr path d env of
            (env1, Some e) \<Rightarrow> (env1, Inl e)
          | (env1, None) \<Rightarrow>
             (case lh_decode h (interpolate_env env1 d) of
                None \<Rightarrow> (env1, Inl (YamlInvalid path)) | Some c \<Rightarrow> (env1, Inr c))))"

section \<open>Includes\<close>

record loader_state =
  ls_env :: environment
  ls_visited :: "string list"
  ls_config :: config

definition has_suffix :: "string \<Rightarrow> string \<Rightarrow> bool" where
  "has_suffix s x \<longleftrightarrow> suffix x s"

definition walk_dir_with_ext :: "loader_host \<Rightarrow> string \<Rightarrow> string \<Rightarrow> string list option" where
  "walk_dir_with_ext h dir ext =
     (if os_stat h dir \<noteq> StatDir then Some []
      else case map_get (lh_dirs h) dir of
        Some (Some entries) \<Rightarrow>
          Some (sort (map (\<lambda>e. path_join dir (fst e)) (filter (\<lambda>(n, is_dir). \<not> is_dir \<and> has_suffix n ext) entries)))
      | _ \<Rightarrow> None)"

text \<open>The files an entry of the include list names: itself, or the \<^verbatim>\<open>.yaml\<close> files of a directory.\<close>

definition include_targets :: "loader_host \<Rightarrow> environment \<Rightarrow> string \<Rightarrow> nat \<Rightarrow> string \<Rightarrow> load_error + string list" where
  "include_targets h env base i inc =
     (let path = path_abs (lh_cwd h) (path_under base (interpolate_env env inc)) in
      case os_stat h path of
        StatMissing \<Rightarrow> Inl (IncludeMissing i path)
      | StatDenied \<Rightarrow> Inl (IncludeDenied i path)
      | StatDir \<Rightarrow> (case walk_dir_with_ext h path ''.yaml'' of None \<Rightarrow> Inl (IncludeDir i path) | Some files \<Rightarrow> Inr files)
      | StatFile \<Rightarrow> Inr [path])"

text \<open>A loop that stops at the first error.\<close>

fun run_each :: "('a \<Rightarrow> 's \<Rightarrow> 's \<times> 'e option) \<Rightarrow> 'a list \<Rightarrow> 's \<Rightarrow> 's \<times> 'e option" where
  "run_each f [] s = (s, None)"
| "run_each f (x # xs) s = (case f x s of (s1, Some e) \<Rightarrow> (s1, Some e) | (s1, None) \<Rightarrow> run_each f xs s1)"

text \<open>\<open>nested\<close> loads the includes of the included file.\<close>

definition load_include_file ::
  "(string \<Rightarrow> string list \<Rightarrow> loader_state \<Rightarrow> loader_state \<times> load_error option) \<Rightarrow> loader_host \<Rightarrow> keyring \<Rightarrow> nat \<Rightarrow> string
   \<Rightarrow> loader_state \<Rightarrow> loader_state \<times> load_error option" where
  "load_include_file nested h kr i path s =
     (if path \<in> set (ls_visited s) then (s, Some (IncludeCycle i path))
      else
        let s1 = s\<lparr>ls_visited := path # ls_visited s\<rparr>;
            d = (case read_config_bytes h kr path of Inl _ \<Rightarrow> [] | Inr t \<Rightarrow> t);
            s2 = (if lh_decode_node h d then s1\<lparr>ls_config := (ls_config s1)\<lparr>cf_source_files := path # cf_source_files (ls_config s1)\<rparr>\<rparr> else s1)
        in case load_config_file h kr path (ls_env s2) of
             (env1, Inl e) \<Rightarrow> (s2\<lparr>ls_env := env1\<rparr>, Some e)
           | (env1, Inr inc) \<Rightarrow>
               let s3 = s2\<lparr>ls_env := env1, ls_config := deep_merge_config (ls_config s2) inc\<rparr> in
               if cf_include inc = [] then (s3, None) else nested (path_dir path) (cf_include inc) s3)"

primrec load_includes ::
  "nat \<Rightarrow> loader_host \<Rightarrow> keyring \<Rightarrow> string \<Rightarrow> string list \<Rightarrow> loader_state \<Rightarrow> loader_state \<times> load_error option" where
  "load_includes 0 h kr base incs s = (s, Some IncludesExhausted)"
| "load_includes (Suc n) h kr base incs s =
     run_each (\<lambda>(i, inc) s.
         case include_targets h (ls_env s) base i inc of
           Inl e \<Rightarrow> (s, Some e)
         | Inr files \<Rightarrow> run_each (load_include_file (load_includes n h kr) h kr i) files s)
       (enumerate 0 incs) s"

text \<open>As many levels as there are files, and one more, are enough.\<close>

definition include_fuel :: "loader_host \<Rightarrow> nat" where
  "include_fuel h = length (lh_files h) + 1"

section \<open>Vault secrets\<close>

definition resolve_vault_path :: "environment \<Rightarrow> string \<Rightarrow> config \<Rightarrow> string" where
  "resolve_vault_path env dir c =
     (if cf_vault_file c \<noteq> [] then path_under dir (interpolate_env env (cf_vault_file c)) else path_join dir ''vault.age'')"

definition load_vault_owner :: "loader_host \<Rightarrow> environment \<Rightarrow> string \<Rightarrow> config \<Rightarrow> keyring \<Rightarrow> load_error + vault_store option" where
  "load_vault_owner h env dir c kr =
     (let path = resolve_vault_path env dir c in
      if path = [] then Inr None
      else case os_stat h path of
        StatMissing \<Rightarrow> Inr None
      | StatDenied \<Rightarrow> Inl (VaultStat path)
      | _ \<Rightarrow> if kr = [] then Inr None
             else (case lh_vault h kr path of None \<Rightarrow> Inl (VaultBroken path) | Some v \<Rightarrow> Inr (Some v)))"

definition unregistered_grantee :: "vault_store \<Rightarrow> secret \<Rightarrow> string option" where
  "unregistered_grantee s x = find (\<lambda>p. map_get (vs_principals s) p = None) (sec_authorized x)"

definition plugin_scoped_secret :: "vault_store \<Rightarrow> secret \<Rightarrow> bool" where
  "plugin_scoped_secret s x \<longleftrightarrow>
     sec_authorized x \<noteq> [] \<and>
     list_all (\<lambda>n. case map_get (vs_principals s) n of None \<Rightarrow> False | Some p \<Rightarrow> pr_kind p = ''plugin'') (sec_authorized x)"

text \<open>The projected secrets, and the names whose grants name an unregistered principal.\<close>

definition active_vault_secrets :: "vault_store \<Rightarrow> (string \<times> string) list \<times> (string \<times> string) list" where
  "active_vault_secrets s =
     (let visible = filter (\<lambda>(n, x). sec_status x = ''active'' \<and> \<not> plugin_scoped_secret s x) (vs_secrets s) in
      (map (\<lambda>(n, x). (n, sec_value x)) visible,
       concat (map (\<lambda>(n, x). case unregistered_grantee s x of None \<Rightarrow> [] | Some g \<Rightarrow> if g = [] then [] else [(n, g)]) visible)))"

definition project_vault_secrets ::
  "loader_host \<Rightarrow> environment \<Rightarrow> string \<Rightarrow> keyring \<Rightarrow> config \<Rightarrow> load_error + config \<times> vault_store option \<times> (string \<times> string) list" where
  "project_vault_secrets h env dir kr c =
     bind_result (load_vault_owner h env dir c kr) (\<lambda>owner.
       case owner of
         None \<Rightarrow> Inr (c, None, [])
       | Some s \<Rightarrow> (case active_vault_secrets s of (table, warnings) \<Rightarrow> Inr (c\<lparr>cf_resolved_secrets := table\<rparr>, Some s, warnings)))"

definition vault_blind :: "loader_host \<Rightarrow> environment \<Rightarrow> string \<Rightarrow> config \<Rightarrow> keyring \<Rightarrow> bool" where
  "vault_blind h env dir c kr \<longleftrightarrow>
     (let path = resolve_vault_path env dir c in path \<noteq> [] \<and> stat_ok h path \<and> kr = [])"

section \<open>Scope files\<close>

fun verify_scope_files :: "loader_host \<Rightarrow> string list \<Rightarrow> load_error option" where
  "verify_scope_files h [] = None"
| "verify_scope_files h (p # ps) =
     (if path_base p \<noteq> ''webhooks.yaml'' then verify_scope_files h ps
      else case load_checksums (lh_checksums h (path_dir p)) of
        Inl e \<Rightarrow> Some (ScopeChecksums (path_dir p) e)
      | Inr m \<Rightarrow>
         (case map_get (cm_hashes m) (path_abs (lh_cwd h) p) of
            None \<Rightarrow> Some (ScopeUnlisted p)
          | Some expected \<Rightarrow>
             (case verify_file_hash (lh_attest h) p expected of
                Inl e \<Rightarrow> Some (ScopeTampered p e) | Inr _ \<Rightarrow> verify_scope_files h ps)))"

end
