(* ===== verification/Config_Validation.thy ===== *)
theory Config_Validation
  imports Config_Loader
begin

text \<open>
  Validation of a merged configuration: \<^verbatim>\<open>validate\<close> and its helpers of \<^verbatim>\<open>src/internal/config/loader.go\<close>, the relay
  section (\<^verbatim>\<open>relay_validation.go\<close>), the references between files (\<^verbatim>\<open>validator.go\<close>), and the load that runs them.
  Each check is a value, a fault or nothing, and a list of checks reports the first fault, as the sequence of early
  returns does. Go visits a map in no fixed order; the model visits it in key order, so only the choice between
  several faults is fixed by the model.
\<close>

section \<open>Checks in order\<close>

fun first_fault :: "'e option list \<Rightarrow> 'e option" where
  "first_fault [] = None"
| "first_fault (None # xs) = first_fault xs"
| "first_fault (Some e # xs) = Some e"

definition refuse :: "bool \<Rightarrow> 'e \<Rightarrow> 'e option" where
  "refuse b e = (if b then Some e else None)"

fun left_fault :: "('a \<Rightarrow> 'e) \<Rightarrow> 'a + 'b \<Rightarrow> 'e option" where
  "left_fault f (Inl x) = Some (f x)"
| "left_fault f (Inr _) = None"

lemma first_fault_None [simp]: "first_fault xs = None \<longleftrightarrow> list_all (\<lambda>x. x = None) xs"
  by (induction xs rule: first_fault.induct) auto

lemma first_fault_in: "first_fault xs = Some e \<Longrightarrow> Some e \<in> set xs"
  by (induction xs rule: first_fault.induct) auto

lemma refuse_None [simp]: "refuse b e = None \<longleftrightarrow> \<not> b"
  by (simp add: refuse_def)

lemma left_fault_None [simp]: "left_fault f r = None \<longleftrightarrow> (\<exists>y. r = Inr y)"
  by (cases r) auto

section \<open>Schedules\<close>

datatype schedule_fault =
    NoMode | ManyModes | BadEvery interval_error | BadCron cron_error | BadAt string | NegativeAfter
  | BadCatchUp string | CatchUpNeedsEvery string | BadIfRunning string | BadTimezone string | BadWindow string
  | BadClock | EqualWindow | BadWeekday nat | HandleScheduled

definition parse_clock_minute :: "string \<Rightarrow> int option" where
  "parse_clock_minute raw =
     (let s = trim_space raw in
      if s = [] then None
      else case split_on (CHR '':'') s of
        [h, m] \<Rightarrow>
          if (length h = 1 \<or> length h = 2) \<and> length m = 2 \<and> list_all is_digit h \<and> list_all is_digit m
          then parse_clock_digits h m else None
      | _ \<Rightarrow> None)"

definition parse_weekday_int :: "int \<Rightarrow> int option" where
  "parse_weekday_int v = (if v = 7 then Some 0 else if v < 0 \<or> v > 6 then None else Some v)"

definition parse_weekday_string :: "string \<Rightarrow> int option" where
  "parse_weekday_string raw =
     (let s = to_lower (trim_space raw) in
      if s \<in> {''sun'', ''sunday''} then Some 0
      else if s \<in> {''mon'', ''monday''} then Some 1
      else if s \<in> {''tue'', ''tues'', ''tuesday''} then Some 2
      else if s \<in> {''wed'', ''wednesday''} then Some 3
      else if s \<in> {''thu'', ''thurs'', ''thursday''} then Some 4
      else if s \<in> {''fri'', ''friday''} then Some 5
      else if s \<in> {''sat'', ''saturday''} then Some 6
      else None)"

fun parse_weekday_token :: "gval \<Rightarrow> int option" where
  "parse_weekday_token (GInt v) = parse_weekday_int v"
| "parse_weekday_token (GFloat r) =
     (if r \<noteq> of_int (f64_of_int (int_of_f64 r)) then None else parse_weekday_int (int_of_f64 r))"
| "parse_weekday_token (GStr s) = parse_weekday_string s"
| "parse_weekday_token _ = None"

definition validate_window :: "string \<Rightarrow> schedule_fault option" where
  "validate_window only_between =
     (let window = trim_space only_between in
      if window = [] then None
      else case split_on (CHR ''-'') window of
        [a, b] \<Rightarrow>
          (case (parse_clock_minute a, parse_clock_minute b) of
             (Some start_min, Some end_min) \<Rightarrow> refuse (start_min = end_min) EqualWindow
           | _ \<Rightarrow> Some BadClock)
      | _ \<Rightarrow> Some (BadWindow only_between))"

definition validate_schedule_constraints :: "host \<Rightarrow> schedule_config \<Rightarrow> schedule_fault option" where
  "validate_schedule_constraints ho sc =
     first_fault
       [refuse (trim_space (sc_timezone sc) \<noteq> [] \<and> ho_zone ho (trim_space (sc_timezone sc)) = None) (BadTimezone (sc_timezone sc)),
        validate_window (sc_only_between sc),
        first_fault (map (\<lambda>(i, t). refuse (parse_weekday_token t = None) (BadWeekday i)) (enumerate 0 (sc_not_on sc)))]"

definition schedule_mode_count :: "schedule_config \<Rightarrow> nat" where
  "schedule_mode_count sc =
     length (filter id [trim_space (sc_every sc) \<noteq> [], trim_space (sc_cron sc) \<noteq> [], trim_space (sc_at sc) \<noteq> [], sc_after sc > 0])"

definition validate_schedule_config :: "host \<Rightarrow> schedule_config \<Rightarrow> schedule_fault option" where
  "validate_schedule_config ho sc =
     (let has_every = trim_space (sc_every sc) \<noteq> []; has_cron = trim_space (sc_cron sc) \<noteq> []; has_at = trim_space (sc_at sc) \<noteq> [];
          catch_up = trim_space (sc_catch_up sc); if_running = trim_space (sc_if_running sc);
          command = (if trim_space (sc_command sc) = [] then ''poll'' else trim_space (sc_command sc))
      in first_fault
           [refuse (schedule_mode_count sc = 0) NoMode,
            refuse (schedule_mode_count sc > 1) ManyModes,
            (if has_every then left_fault BadEvery (parse_interval (ho_parse_float ho) (ho_parse_duration ho) (sc_every sc)) else None),
            (if has_cron then left_fault BadCron (parse_cron (sc_cron sc)) else None),
            refuse (has_at \<and> ho_parse_rfc3339 ho (sc_at sc) = None) (BadAt (sc_at sc)),
            refuse (sc_after sc < 0) NegativeAfter,
            refuse (catch_up \<noteq> [] \<and> catch_up \<notin> {''skip'', ''run_once'', ''run_all''}) (BadCatchUp (sc_catch_up sc)),
            refuse (catch_up \<noteq> [] \<and> \<not> has_every \<and> catch_up \<noteq> ''skip'') (CatchUpNeedsEvery catch_up),
            refuse (if_running \<noteq> [] \<and> if_running \<notin> {''skip'', ''queue'', ''cancel''}) (BadIfRunning (sc_if_running sc)),
            validate_schedule_constraints ho sc,
            refuse (command = ''handle'') HandleScheduled])"

section \<open>Relay\<close>

datatype relay_fault =
    ServiceNameMissing | ServiceNameForm string | NameMissing nat | NameForm nat string | DuplicateName string
  | BaseURLMissing nat | BaseURLForm nat | BaseURLScheme nat | PathMissing | PathForm | PathSpaces
  | RelaySecretMissing nat | NegativeTimeout nat | EventEmpty nat nat | EventForm nat nat | EventDuplicate nat string
  | BadBodySize | NegativeSkew | KeyIdMissing nat | BaggageEmpty nat nat

definition validate_listen_path :: "string \<Rightarrow> relay_fault option" where
  "validate_listen_path path =
     (let p = trim_space path in
      first_fault [refuse (p = []) PathMissing, refuse (\<not> prefix ''/'' p) PathForm, refuse (CHR '' '' \<in> set p) PathSpaces])"

text \<open>\<open>i\<close> is the instance or peer, \<open>j\<close> the entry.\<close>

fun validate_event_type_list :: "nat \<Rightarrow> nat \<Rightarrow> string list \<Rightarrow> string list \<Rightarrow> relay_fault option" where
  "validate_event_type_list i j seen [] = None"
| "validate_event_type_list i j seen (e # es) =
     (let t = trim_space e in
      first_fault
        [refuse (t = []) (EventEmpty i j), refuse (\<not> event_type_pattern t) (EventForm i j), refuse (t \<in> set seen) (EventDuplicate i t),
         validate_event_type_list i (Suc j) (t # seen) es])"

definition validate_base_url :: "loader_host \<Rightarrow> nat \<Rightarrow> string \<Rightarrow> relay_fault option" where
  "validate_base_url h i raw =
     (if trim_space raw = [] then Some (BaseURLMissing i)
      else case lh_parse_url h (trim_space raw) of
        None \<Rightarrow> Some (BaseURLForm i)
      | Some (scheme, host) \<Rightarrow>
          if scheme = [] \<or> host = [] then Some (BaseURLForm i)
          else refuse (scheme \<notin> {''http'', ''https''}) (BaseURLScheme i))"

fun validate_relay_instances :: "loader_host \<Rightarrow> nat \<Rightarrow> string list \<Rightarrow> relay_instance_config list \<Rightarrow> relay_fault option" where
  "validate_relay_instances h i seen [] = None"
| "validate_relay_instances h i seen (r # rs) =
     (let name = trim_space (ric_name r) in
      first_fault
        [refuse (name = []) (NameMissing i), refuse (\<not> separated_name ''-'' name) (NameForm i (ric_name r)),
         refuse (name \<in> set seen) (DuplicateName name), validate_base_url h i (ric_base_url r),
         validate_listen_path (ric_ingress_path r), refuse (trim_space (ric_secret_ref r) = []) (RelaySecretMissing i),
         refuse (ric_timeout r < 0) (NegativeTimeout i), validate_event_type_list i 0 [] (ric_allow r),
         validate_relay_instances h (Suc i) (name # seen) rs])"

fun validate_relay_peers :: "bool \<Rightarrow> nat \<Rightarrow> string list \<Rightarrow> relay_peer_config list \<Rightarrow> relay_fault option" where
  "validate_relay_peers need_key i seen [] = None"
| "validate_relay_peers need_key i seen (p # ps) =
     (let name = trim_space (rpc_name p) in
      first_fault
        [refuse (name = []) (NameMissing i), refuse (\<not> separated_name ''-'' name) (NameForm i (rpc_name p)),
         refuse (name \<in> set seen) (DuplicateName name), refuse (trim_space (rpc_secret_ref p) = []) (RelaySecretMissing i),
         refuse (need_key \<and> trim_space (rpc_key_id p) = []) (KeyIdMissing i), validate_event_type_list i 0 [] (rpc_accept p),
         first_fault (map (\<lambda>(j, k). refuse (trim_space k = []) (BaggageEmpty i j)) (enumerate 0 (rpc_baggage_allow p))),
         validate_relay_peers need_key (Suc i) (name # seen) ps])"

definition validate_relay_config :: "loader_host \<Rightarrow> config \<Rightarrow> relay_fault option" where
  "validate_relay_config h c =
     (let configured = (cf_relay_instances c \<noteq> [] \<or> cf_remote_ingress c \<noteq> None); name = trim_space (srv_name (cf_service c)) in
      first_fault
        [refuse (configured \<and> name = []) ServiceNameMissing,
         refuse (configured \<and> \<not> separated_name ''-'' name) (ServiceNameForm (srv_name (cf_service c))),
         validate_relay_instances h 0 [] (cf_relay_instances c),
         (case cf_remote_ingress c of
            None \<Rightarrow> None
          | Some g \<Rightarrow>
              first_fault
                [validate_listen_path (ig_listen_path g),
                 refuse (trim_space (ig_max_body_size g) \<noteq> [] \<and> lh_parse_byte_size h (ig_max_body_size g) = None) BadBodySize,
                 refuse (ig_allowed_clock_skew g < 0) NegativeSkew,
                 validate_relay_peers (ig_require_key_id g) 0 [] (ig_trusted_peers g)])])"

section \<open>The configuration\<close>

datatype config_fault =
    TickNotPositive | TickBelowMinimum duration | HookDepthNegative int | WorkersNotPositive | QueueRetentionShort
  | BadLogLevel string | StatePathMissing | PluginRootsMissing | ApiTokensMissing
  | TokenLiteral nat | TokenRefMissing nat | UnknownScope nat string
  | OldSchedule string | ParallelismSmall string | ParallelismLarge string | BadSchedule string nat schedule_fault
  | DuplicateSchedule string string | UnresolvedEnv string string | BadAccount account_fault | BadRelay relay_fault

definition min_tick_interval :: duration where "min_tick_interval = 100 * 1000000"

text \<open>Only strings and nested maps are searched for placeholders; an element of a list is not.\<close>

function (sequential) check_unresolved_env_vars :: "gmap \<Rightarrow> string option" where
  "check_unresolved_env_vars [] = None"
| "check_unresolved_env_vars ((k, GStr s) # m) =
     (case first_placeholder s of Some n \<Rightarrow> Some n | None \<Rightarrow> check_unresolved_env_vars m)"
| "check_unresolved_env_vars ((k, GMap w) # m) =
     (case check_unresolved_env_vars w of Some n \<Rightarrow> Some n | None \<Rightarrow> check_unresolved_env_vars m)"
| "check_unresolved_env_vars ((k, v) # m) = check_unresolved_env_vars m"
  by pat_completeness auto
termination
  by (relation "measure (size_list (size_prod (\<lambda>_. 0) size))") auto

fun validate_schedules :: "host \<Rightarrow> string \<Rightarrow> nat \<Rightarrow> string list \<Rightarrow> schedule_config list \<Rightarrow> config_fault option" where
  "validate_schedules ho name i seen [] = None"
| "validate_schedules ho name i seen (sc # scs) =
     (let sid = trim_space (sc_id sc) in
      first_fault
        [map_option (BadSchedule name i) (validate_schedule_config ho sc), refuse (sid \<in> set seen) (DuplicateSchedule name sid),
         validate_schedules ho name (Suc i) (sid # seen) scs])"

definition validate_plugin :: "host \<Rightarrow> int \<Rightarrow> string \<times> plugin_stanza \<Rightarrow> config_fault option" where
  "validate_plugin ho max_workers e =
     (case e of (name, p) \<Rightarrow>
        if \<not> pc_enabled p then None
        else let parallelism = or_default 0 (pc_parallelism p) (pc_parallelism default_plugin_conf) in
          first_fault
            [refuse (ps_schedule p \<noteq> None) (OldSchedule name),
             refuse (parallelism < 1) (ParallelismSmall name),
             refuse (parallelism > max_workers) (ParallelismLarge name),
             validate_schedules ho name 0 [] (normalized_schedules (stanza_conf p)),
             map_option (UnresolvedEnv name) (check_unresolved_env_vars (pc_config p))])"

definition validate_api_token :: "nat \<Rightarrow> api_token \<Rightarrow> config_fault option" where
  "validate_api_token i t =
     first_fault
       [refuse (at_token t \<noteq> []) (TokenLiteral i), refuse (at_secret_ref t = []) (TokenRefMissing i),
        map_option (UnknownScope i) (find (\<lambda>s. trim_space s \<noteq> [] \<and> \<not> known_scope s) (at_scopes t))]"

definition validate_settings :: "loader_host \<Rightarrow> config \<Rightarrow> bool \<Rightarrow> config_fault option" where
  "validate_settings h c has_vault =
     (let s = cf_service c in
      first_fault
        [refuse (srv_tick_interval s \<le> 0) TickNotPositive,
         refuse (srv_tick_interval s < min_tick_interval) (TickBelowMinimum (srv_tick_interval s)),
         refuse (srv_hook_max_depth s < 0) (HookDepthNegative (srv_hook_max_depth s)),
         refuse (srv_max_workers s \<le> 0) WorkersNotPositive,
         refuse (srv_dedupe_ttl s > 0 \<and> srv_job_queue_retention s > 0 \<and> srv_job_queue_retention s < srv_dedupe_ttl s)
           QueueRetentionShort,
         refuse (srv_log_level s \<notin> {''debug'', ''info'', ''warn'', ''error''}) (BadLogLevel (srv_log_level s)),
         refuse (cf_state_path c = []) StatePathMissing,
         refuse (effective_plugin_roots c = []) PluginRootsMissing,
         refuse (api_enabled_without_token c has_vault) ApiTokensMissing,
         (if as_enabled (cf_api c)
          then first_fault (map (\<lambda>(i, t). validate_api_token i t) (enumerate 0 (as_tokens (cf_api c)))) else None),
         first_fault (map (validate_plugin (lh_sched h) (srv_max_workers s)) (cf_plugins c)),
         map_option BadAccount (validate_accounts [] (sort_key fst (cf_accounts c))),
         map_option BadAccount (validate_account_grants (cf_accounts c)
           (map (\<lambda>(n, p). (n, pc_run_as p)) (sort_key fst (cf_plugins c)))),
         map_option BadRelay (validate_relay_config h c)])"

section \<open>References between files\<close>

datatype cross_fault =
    RouteFrom nat string | RouteTo nat string | WebhookPlugin nat string | WebhookSecretMissing nat | WebhookHeaderMissing nat
  | InstanceSecretMissing nat | PeerSecretMissing nat | ApiTokenLiteral nat | ApiTokenSecretMissing nat
  | PluginRefForm string string | SecretNotMinted string

record config_validator =
  cv_config :: config
  cv_tokens :: "(string \<times> string) list"
  cv_vault_blind :: bool
  cv_bootstrap :: bool

definition check_secret_ref :: "config_validator \<Rightarrow> string \<Rightarrow> cross_fault option" where
  "check_secret_ref v ref =
     (if map_get (cv_tokens v) ref \<noteq> None then None
      else if cv_vault_blind v then None
      else if cv_bootstrap v then None
      else Some (SecretNotMinted ref))"

definition validate_routes :: "config_validator \<Rightarrow> cross_fault option" where
  "validate_routes v =
     first_fault (map (\<lambda>(i, r). first_fault
         [refuse (map_get (cf_plugins (cv_config v)) (rt_from r) = None) (RouteFrom i (rt_from r)),
          refuse (map_get (cf_plugins (cv_config v)) (rt_to r) = None) (RouteTo i (rt_to r))])
       (enumerate 0 (cf_routes (cv_config v))))"

definition validate_webhooks :: "config_validator \<Rightarrow> cross_fault option" where
  "validate_webhooks v =
     (case cf_webhooks (cv_config v) of
        None \<Rightarrow> None
      | Some w \<Rightarrow>
          first_fault (map (\<lambda>(i, ep). first_fault
              [refuse (map_get (cf_plugins (cv_config v)) (we_plugin ep) = None) (WebhookPlugin i (we_plugin ep)),
               refuse (we_secret_ref ep = []) (WebhookSecretMissing i),
               check_secret_ref v (we_secret_ref ep),
               refuse (we_signature_header ep = []) (WebhookHeaderMissing i)])
            (enumerate 0 (wc_endpoints w))))"

definition validate_relay :: "config_validator \<Rightarrow> cross_fault option" where
  "validate_relay v =
     first_fault
       [first_fault (map (\<lambda>(i, r). first_fault
            [refuse (trim_space (ric_secret_ref r) = []) (InstanceSecretMissing i), check_secret_ref v (ric_secret_ref r)])
          (enumerate 0 (cf_relay_instances (cv_config v)))),
        (case cf_remote_ingress (cv_config v) of
           None \<Rightarrow> None
         | Some g \<Rightarrow>
             first_fault (map (\<lambda>(i, p). first_fault
                 [refuse (trim_space (rpc_secret_ref p) = []) (PeerSecretMissing i), check_secret_ref v (rpc_secret_ref p)])
               (enumerate 0 (ig_trusted_peers g))))]"

definition validate_api_tokens :: "config_validator \<Rightarrow> cross_fault option" where
  "validate_api_tokens v =
     first_fault (map (\<lambda>(i, t). first_fault
         [refuse (at_token t \<noteq> []) (ApiTokenLiteral i), refuse (trim_space (at_secret_ref t) = []) (ApiTokenSecretMissing i),
          check_secret_ref v (at_secret_ref t)])
       (enumerate 0 (as_tokens (cf_api (cv_config v)))))"

definition validate_plugin_token_refs :: "config_validator \<Rightarrow> cross_fault option" where
  "validate_plugin_token_refs v =
     first_fault (concat (map (\<lambda>(n, p). map (\<lambda>(k, x).
           if \<not> suffix ''_ref'' k then None
           else case x of GStr s \<Rightarrow> check_secret_ref v s | _ \<Rightarrow> Some (PluginRefForm n k)) (pc_config p))
       (cf_plugins (cv_config v))))"

definition validate_cross_references :: "config_validator \<Rightarrow> cross_fault option" where
  "validate_cross_references v =
     first_fault [validate_routes v, validate_webhooks v, validate_relay v, validate_api_tokens v, validate_plugin_token_refs v]"

section \<open>The load\<close>

datatype boot_error = LoadFailed load_error | CrossInvalid cross_fault | ConfigInvalid config_fault

definition locate_config :: "loader_host \<Rightarrow> string \<Rightarrow> load_error + string" where
  "locate_config h path =
     (let p = path_abs (lh_cwd h) path in
      case os_stat h p of
        StatFile \<Rightarrow> Inr p
      | StatDir \<Rightarrow> (let q = path_join p ''config.yaml'' in if stat_ok h q then Inr q else Inl (ConfigYamlMissing q))
      | _ \<Rightarrow> Inl (ConfigNotFound p))"

definition open_root :: "loader_host \<Rightarrow> string \<Rightarrow> environment \<Rightarrow> environment \<times> (load_error + string \<times> keyring \<times> config)" where
  "open_root h path env =
     (case locate_config h path of
        Inl e \<Rightarrow> (env, Inl e)
      | Inr p \<Rightarrow>
         (case resolve_keyring h env (path_dir p) None of
            Inl e \<Rightarrow> (env, Inl e)
          | Inr kr \<Rightarrow>
             (case load_config_file h kr p env of
                (env1, Inl e) \<Rightarrow> (env1, Inl e)
              | (env1, Inr c) \<Rightarrow> (env1, Inr (p, kr, c\<lparr>cf_source_files := []\<rparr>)))))"

text \<open>The key ring the includes are read with: a key file the root configuration names is used when no other was found.\<close>

definition include_keyring :: "loader_host \<Rightarrow> environment \<Rightarrow> string \<Rightarrow> keyring \<Rightarrow> config \<Rightarrow> load_error + keyring" where
  "include_keyring h env dir kr c =
     (if kr = [] \<and> cf_age_key_file c \<noteq> [] then resolve_keyring h env dir (Some c) else Inr kr)"

definition add_root_source :: "loader_host \<Rightarrow> keyring \<Rightarrow> string \<Rightarrow> config \<Rightarrow> config" where
  "add_root_source h kr p c =
     (if lh_decode_node h (case read_config_bytes h kr p of Inl _ \<Rightarrow> [] | Inr t \<Rightarrow> t)
      then c\<lparr>cf_source_files := p # cf_source_files c\<rparr> else c)"

definition load_tree :: "loader_host \<Rightarrow> keyring \<Rightarrow> string \<Rightarrow> environment \<Rightarrow> config \<Rightarrow> loader_state \<times> load_error option" where
  "load_tree h kr p env c =
     (if cf_include c = [] then (\<lparr>ls_env = env, ls_visited = [], ls_config = c\<rparr>, None)
      else load_includes (include_fuel h) h kr (path_dir p) (cf_include c) \<lparr>ls_env = env, ls_visited = [p], ls_config = c\<rparr>)"

text \<open>The merged configuration with its paths expanded, its defaults and the vault's secrets.\<close>

definition complete_config :: "loader_host \<Rightarrow> environment \<Rightarrow> string \<Rightarrow> keyring \<Rightarrow> config \<Rightarrow> load_error + config \<times> vault_store option" where
  "complete_config h env dir kr c =
     bind_result (expand_tilde_paths h c) (\<lambda>c1.
     bind_result (project_vault_secrets h env dir kr (resolve_state_path dir (apply_config_defaults (lh_cpus h) c1))) (\<lambda>(c2, owner, _).
       Inr (c2, owner)))"

definition validator_for :: "loader_host \<Rightarrow> environment \<Rightarrow> string \<Rightarrow> keyring \<Rightarrow> config \<Rightarrow> bool \<Rightarrow> config_validator" where
  "validator_for h env dir kr c has_owner =
     \<lparr>cv_config = c, cv_tokens = cf_resolved_secrets c, cv_vault_blind = vault_blind h env dir c kr,
      cv_bootstrap = (decide_boot_posture c has_owner = PostureManagementOnly)\<rparr>"

definition check_loaded :: "loader_host \<Rightarrow> environment \<Rightarrow> string \<Rightarrow> keyring \<Rightarrow> config \<Rightarrow> bool \<Rightarrow> boot_error option" where
  "check_loaded h env dir kr c has_owner =
     first_fault
       [(if cf_include c = [] then None
         else map_option CrossInvalid (validate_cross_references (validator_for h env dir kr c has_owner))),
        map_option ConfigInvalid (validate_settings h c has_owner)]"

definition fold_plugin_defaults :: "config \<Rightarrow> config" where
  "fold_plugin_defaults c =
     c\<lparr>cf_plugins := map (\<lambda>(n, p). (n, merge_plugin_defaults (srv_max_workers (cf_service c)) p)) (cf_plugins c)\<rparr>"

text \<open>What \<^verbatim>\<open>load\<close> does once the tree is merged.\<close>

definition finish_load ::
  "loader_host \<Rightarrow> bool \<Rightarrow> bool \<Rightarrow> bool \<Rightarrow> string \<Rightarrow> keyring \<Rightarrow> loader_state \<Rightarrow> boot_error + config \<times> vault_store option" where
  "finish_load h verify_scopes validate_config apply_plugin_defaults dir kr s =
     (case complete_config h (ls_env s) dir kr (ls_config s) of
        Inl e \<Rightarrow> Inl (LoadFailed e)
      | Inr (c, owner) \<Rightarrow>
         (case first_fault
                 [(if verify_scopes then map_option LoadFailed (verify_scope_files h (ls_visited s)) else None),
                  (if validate_config then check_loaded h (ls_env s) dir kr c (owner \<noteq> None) else None)] of
            Some e \<Rightarrow> Inl e
          | None \<Rightarrow> Inr (if apply_plugin_defaults then fold_plugin_defaults c else c, owner)))"

definition load ::
  "loader_host \<Rightarrow> bool \<Rightarrow> bool \<Rightarrow> bool \<Rightarrow> string \<Rightarrow> environment \<Rightarrow> environment \<times> (boot_error + config \<times> vault_store option)" where
  "load h verify_scopes validate_config apply_plugin_defaults path env =
     (case open_root h path env of
        (env1, Inl e) \<Rightarrow> (env1, Inl (LoadFailed e))
      | (env1, Inr (p, kr0, c0)) \<Rightarrow>
         (case expand_tilde h (cf_age_key_file c0) of
            Inl e \<Rightarrow> (env1, Inl (LoadFailed e))
          | Inr key \<Rightarrow>
             (case include_keyring h env1 (path_dir p) kr0 (c0\<lparr>cf_age_key_file := key\<rparr>) of
                Inl e \<Rightarrow> (env1, Inl (LoadFailed e))
              | Inr kr \<Rightarrow>
                 (case load_tree h kr p env1 (add_root_source h kr p (c0\<lparr>cf_age_key_file := key\<rparr>)) of
                    (s, Some e) \<Rightarrow> (ls_env s, Inl (LoadFailed e))
                  | (s, None) \<Rightarrow> (ls_env s, finish_load h verify_scopes validate_config apply_plugin_defaults (path_dir p) kr s)))))"

definition load_with_vault :: "loader_host \<Rightarrow> string \<Rightarrow> environment \<Rightarrow> environment \<times> (boot_error + config \<times> vault_store option)" where
  "load_with_vault h = load h True True True"

definition load_config :: "loader_host \<Rightarrow> string \<Rightarrow> environment \<Rightarrow> environment \<times> (boot_error + config)" where
  "load_config h path env = apsnd (map_sum id fst) (load h True True True path env)"

definition load_raw :: "loader_host \<Rightarrow> string \<Rightarrow> environment \<Rightarrow> environment \<times> (boot_error + config)" where
  "load_raw h path env = apsnd (map_sum id fst) (load h True True False path env)"

definition load_lenient :: "loader_host \<Rightarrow> string \<Rightarrow> environment \<Rightarrow> environment \<times> (boot_error + config)" where
  "load_lenient h path env = apsnd (map_sum id fst) (load h False False False path env)"

definition load_for_lock :: "loader_host \<Rightarrow> string \<Rightarrow> environment \<Rightarrow> environment \<times> (boot_error + config)" where
  "load_for_lock h path env = apsnd (map_sum id fst) (load h False False True path env)"

definition discover_config_dir :: "loader_host \<Rightarrow> environment \<Rightarrow> string option" where
  "discover_config_dir h env =
     (let dir = getenv env ''DUCTILE_CONFIG_DIR'' in
      if dir \<noteq> [] \<and> stat_ok h dir then Some dir
      else let user = (case lh_home h of None \<Rightarrow> None | Some home \<Rightarrow>
                         let d = path_join (path_join home ''.config'') ''ductile'' in if stat_ok h d then Some d else None)
           in case user of
                Some d \<Rightarrow> Some d
              | None \<Rightarrow> if stat_ok h ''/etc/ductile'' then Some ''/etc/ductile'' else None)"

definition discover_scope_dirs :: "loader_host \<Rightarrow> string \<Rightarrow> environment \<Rightarrow> environment \<times> (load_error + string list)" where
  "discover_scope_dirs h path env =
     (case open_root h path env of
        (env1, Inl e) \<Rightarrow> (env1, Inl e)
      | (env1, Inr (p, kr0, c)) \<Rightarrow>
         (case include_keyring h env1 (path_dir p) kr0 c of
            Inl e \<Rightarrow> (env1, Inl e)
          | Inr kr \<Rightarrow>
             (case load_tree h kr p env1 c of
                (s, Some e) \<Rightarrow> (ls_env s, Inl e)
              | (s, None) \<Rightarrow>
                  (ls_env s,
                   let dirs = map path_dir (filter (\<lambda>q. path_base q = ''webhooks.yaml'') (ls_visited s)) in
                   Inr (if dirs = [] then [path_dir p] else sort (remdups dirs))))))"

end
