(* ===== verification/Config_Properties.thy ===== *)
theory Config_Properties
  imports Config_Validation Scheduler_Laws
begin

text \<open>
  What a successful load promises to the rest of the gateway: schedules the scheduler can run, bounds the dispatcher
  relies on, API tokens that are live vault secrets; that loading ends on every include tree, and that environment
  files never replace a variable.
\<close>

section \<open>Schedules\<close>

lemma parse_clock_minute_eq: "parse_clock_minute raw = Some m \<longleftrightarrow> parse_clock_constraint raw = Inr m"
  unfolding parse_clock_minute_def parse_clock_constraint_def Let_def
  by (cases "trim_space raw = []") (auto split: list.splits option.splits if_splits)

lemma parse_weekday_int_eq: "parse_weekday_int v = Some d \<longleftrightarrow> parse_weekday_int_constraint v = Inr d"
  by (auto simp: parse_weekday_int_def parse_weekday_int_constraint_def)

lemma parse_weekday_string_eq: "parse_weekday_string s = Some d \<longleftrightarrow> parse_weekday_string_constraint s = Inr d"
  by (simp add: parse_weekday_string_def parse_weekday_string_constraint_def weekday_tokens_def Let_def)

lemma parse_weekday_token_eq: "parse_weekday_token t = Some d \<longleftrightarrow> parse_weekday_constraint t = Inr d"
  by (cases t) (simp_all add: parse_weekday_int_eq parse_weekday_string_eq)

lemma excluded_day_Inr:
  assumes "list_all (\<lambda>t. parse_weekday_token t \<noteq> None) ts"
  shows "\<exists>b. excluded_day ts wd = Inr b"
  using assms
proof (induction ts)
  case (Cons t ts)
  then obtain d b where "parse_weekday_constraint t = Inr d" "excluded_day ts wd = Inr b"
    by (auto simp: parse_weekday_token_eq)
  then have "excluded_day (t # ts) wd = Inr (d = wd \<or> b)" by simp
  then show ?case ..
qed (simp; blast)

lemma list_all_enumerate: "list_all (\<lambda>(i, x). P x) (enumerate n xs) \<longleftrightarrow> list_all P xs"
  by (induction xs arbitrary: n) auto

lemma valid_constraints_allow:
  assumes "validate_schedule_constraints ho sc = None"
  shows "\<exists>r. schedule_constraints_allow_at ho sc now = Inr r"
proof -
  have zone: "\<exists>off. resolve_zone ho sc fallback = Inr off" for fallback
    using assms by (auto simp: validate_schedule_constraints_def resolve_zone_def split: option.splits)
  from zone [of 0] obtain off where off: "resolve_zone ho sc 0 = Inr off" by blast
  have "list_all (\<lambda>t. parse_weekday_token t \<noteq> None) (sc_not_on sc)"
    using assms list_all_enumerate [of "\<lambda>t. parse_weekday_token t \<noteq> None" 0 "sc_not_on sc"]
    by (simp add: validate_schedule_constraints_def list_all_iff split_beta)
  then obtain ex where ex: "excluded_day (sc_not_on sc) (t_weekday (now + off)) = Inr ex" using excluded_day_Inr by blast
  show ?thesis
  proof (cases "ex \<or> trim_space (sc_only_between sc) = []")
    case True
    then show ?thesis by (auto simp: schedule_constraints_allow_at_def off ex Let_def)
  next
    case False
    have "validate_window (sc_only_between sc) = None" using assms by (simp add: validate_schedule_constraints_def)
    with False obtain a b s e where "split_on (CHR ''-'') (trim_space (sc_only_between sc)) = [a, b]"
        "parse_clock_minute a = Some s" "parse_clock_minute b = Some e" "s \<noteq> e"
      by (auto simp: validate_window_def Let_def split: list.splits option.splits)
    with False show ?thesis
      by (simp add: schedule_constraints_allow_at_def off ex parse_clock_minute_eq Let_def)
  qed
qed

lemma valid_resolve_zone:
  "validate_schedule_constraints ho sc = None \<Longrightarrow> \<exists>off. resolve_zone ho sc fallback = Inr off"
  by (auto simp: validate_schedule_constraints_def resolve_zone_def split: option.splits)

text \<open>How many of the three kinds of timing an entry has.\<close>

definition timing_modes :: "timing \<Rightarrow> nat" where
  "timing_modes tm = length (filter id [tm_every tm \<noteq> None, tm_cron tm \<noteq> None, tm_one_shot tm \<noteq> None])"

lemmas timing_simps = read_timing_def parse_schedule_interval_def query_def bind_st_def

lemma valid_read_timing:
  assumes "validate_schedule_config (sh_host sh) sc = None"
  shows "\<exists>tm. read_timing sh now p sc e st = (st, Inr tm) \<and> timing_modes tm = 1"
proof -
  note v = assms [unfolded validate_schedule_config_def Let_def, simplified]
  consider (every) "trim_space (sc_every sc) \<noteq> []" "trim_space (sc_cron sc) = []" "trim_space (sc_at sc) = []" "\<not> sc_after sc > 0"
    | (cron) "trim_space (sc_every sc) = []" "trim_space (sc_cron sc) \<noteq> []" "trim_space (sc_at sc) = []" "\<not> sc_after sc > 0"
    | (at_time) "trim_space (sc_every sc) = []" "trim_space (sc_cron sc) = []" "trim_space (sc_at sc) \<noteq> []" "\<not> sc_after sc > 0"
    | (after) "trim_space (sc_every sc) = []" "trim_space (sc_cron sc) = []" "trim_space (sc_at sc) = []" "sc_after sc > 0"
    using v by (auto simp: schedule_mode_count_def split: if_splits)
  then show ?thesis
  proof cases
    case every
    with v obtain d where "parse_interval (ho_parse_float (sh_host sh)) (ho_parse_duration (sh_host sh)) (sc_every sc) = Inr d" by auto
    with every have "read_timing sh now p sc e st = (st, Inr \<lparr>tm_every = Some d, tm_cron = None, tm_one_shot = None\<rparr>)"
      by (simp add: timing_simps)
    then show ?thesis by (simp add: timing_modes_def)
  next
    case cron
    with v obtain c where "parse_cron (sc_cron sc) = Inr c" by auto
    with cron have "read_timing sh now p sc e st = (st, Inr \<lparr>tm_every = None, tm_cron = Some c, tm_one_shot = None\<rparr>)"
      by (simp add: timing_simps)
    then show ?thesis by (simp add: timing_modes_def)
  next
    case at_time
    with v obtain t where "ho_parse_rfc3339 (sh_host sh) (sc_at sc) = Some t" by auto
    with at_time have "read_timing sh now p sc e st = (st, Inr \<lparr>tm_every = None, tm_cron = None, tm_one_shot = Some t\<rparr>)"
      by (simp add: timing_simps)
    then show ?thesis by (simp add: timing_modes_def)
  next
    case after
    then have "read_timing sh now p sc e st = (st, Inr \<lparr>tm_every = None, tm_cron = None, tm_one_shot = Some (now + sc_after sc)\<rparr>)"
      by (simp add: timing_simps)
    then show ?thesis by (simp add: timing_modes_def)
  qed
qed

section \<open>Errors that are not the end of the fuel\<close>

lemma read_config_bytes_file: "read_config_bytes h kr p = Inr d \<Longrightarrow> p \<in> fst ` set (lh_files h)"
  by (force simp: read_config_bytes_def read_file_def dest: map_of_SomeD split: option.splits)

lemma keyring_decrypt_error: "keyring_decrypt h kr p d = Inl e \<Longrightarrow> e \<noteq> IncludesExhausted"
  by (auto simp: keyring_decrypt_def split: option.splits if_splits)

lemma read_config_bytes_error: "read_config_bytes h kr p = Inl e \<Longrightarrow> e \<noteq> IncludesExhausted"
  by (auto simp: read_config_bytes_def keyring_decrypt_error split: option.splits if_splits)

lemma expand_tilde_error: "expand_tilde h p = Inl e \<Longrightarrow> e \<noteq> IncludesExhausted"
  by (auto simp: expand_tilde_def split: option.splits if_splits)

lemma load_env_lines_error: "snd (load_env_lines path n ls env) \<noteq> Some IncludesExhausted"
  by (induction path n ls env rule: load_env_lines.induct) (auto split: option.splits)

lemma load_env_file_error: "snd (load_env_file h kr path env) \<noteq> Some IncludesExhausted"
  by (auto simp: load_env_file_def load_env_lines_error read_config_bytes_error split: sum.splits)

lemma load_env_paths_error: "snd (load_env_paths h kr base i ps env) \<noteq> Some IncludesExhausted"
proof (induction ps arbitrary: i env)
  case (Cons p ps)
  show ?case
  proof (cases "expand_tilde h (interpolate_env env p)")
    case (Inl e)
    then show ?thesis using expand_tilde_error by simp
  next
    case (Inr q)
    obtain env1 e where f: "load_env_file h kr (path_abs (lh_cwd h) (path_under base q)) env = (env1, e)" by fastforce
    then have "e \<noteq> Some IncludesExhausted" using load_env_file_error by (metis snd_conv)
    then show ?thesis by (cases e) (auto simp: Inr f Let_def Cons)
  qed
qed simp

lemma load_config_file_error: "snd (load_config_file h kr path env) \<noteq> Inl IncludesExhausted"
proof (cases "read_config_bytes h kr path")
  case (Inl e)
  then show ?thesis using read_config_bytes_error by (simp add: load_config_file_def)
next
  case (Inr d)
  obtain env1 e where i: "load_env_includes h kr path d env = (env1, e)" by fastforce
  moreover have "snd (load_env_includes h kr path d env) \<noteq> Some IncludesExhausted"
    by (auto simp: load_env_includes_def load_env_paths_error split: option.split)
  ultimately have "e \<noteq> Some IncludesExhausted" by simp
  then show ?thesis by (cases e) (auto simp: load_config_file_def Inr i split: option.split)
qed

lemma include_targets_error: "include_targets h env base i inc \<noteq> Inl IncludesExhausted"
  by (auto simp: include_targets_def Let_def split: file_status.splits option.splits)

section \<open>What loading adds\<close>

lemma load_env_lines_le: "map_of env \<subseteq>\<^sub>m map_of (fst (load_env_lines path n ls env))"
proof (induction ls arbitrary: n env)
  case (Cons l ls)
  have put: "map_of env \<subseteq>\<^sub>m map_of ((k, v) # env)" if "map_of env k = None" for k v
    using that by (auto simp: map_le_def)
  show ?case
    by (auto simp: Cons simp del: map_of.simps split: option.split prod.split intro: map_le_trans [OF put Cons])
qed simp

lemma load_env_file_le: "map_of env \<subseteq>\<^sub>m map_of (fst (load_env_file h kr path env))"
  by (auto simp: load_env_file_def load_env_lines_le split: sum.splits)

lemma load_env_paths_le: "map_of env \<subseteq>\<^sub>m map_of (fst (load_env_paths h kr base i ps env))"
proof (induction h kr base i ps env rule: load_env_paths.induct)
  case (2 h kr base i p ps env)
  show ?case
  proof (cases "expand_tilde h (interpolate_env env p)")
    case (Inr q)
    obtain env1 e where f: "load_env_file h kr (path_abs (lh_cwd h) (path_under base q)) env = (env1, e)" by fastforce
    then have "map_of env \<subseteq>\<^sub>m map_of env1" using load_env_file_le by (metis fst_conv)
    then show ?thesis using 2 [OF Inr refl] f by (cases e) (auto simp: Inr Let_def intro: map_le_trans)
  qed simp
qed simp

lemma load_config_file_le: "map_of env \<subseteq>\<^sub>m map_of (fst (load_config_file h kr path env))"
proof -
  have "map_of env \<subseteq>\<^sub>m map_of (fst (load_env_includes h kr path d env))" for d
    by (auto simp: load_env_includes_def load_env_paths_le split: option.splits)
  note inc = this
  show ?thesis
  proof (cases "read_config_bytes h kr path")
    case (Inr d)
    obtain env1 e where i: "load_env_includes h kr path d env = (env1, e)" by fastforce
    with inc [of d] have "map_of env \<subseteq>\<^sub>m map_of env1" by simp
    then show ?thesis by (cases e) (auto simp: load_config_file_def Inr i split: option.split)
  qed (simp add: load_config_file_def)
qed

lemma run_each_rel:
  assumes "\<And>x s. x \<in> set xs \<Longrightarrow> R s (fst (f x s))" and "\<And>s. R s s" and "\<And>a b c. R a b \<Longrightarrow> R b c \<Longrightarrow> R a c"
  shows "R s (fst (run_each f xs s))"
  using assms(1)
proof (induction xs arbitrary: s)
  case (Cons x xs)
  obtain s1 e where x: "f x s = (s1, e)" by fastforce
  with Cons.prems [of x s] have "R s s1" by simp
  with Cons x show ?case by (cases e) (auto intro: assms(3))
qed (simp add: assms(2))

lemma run_each_error:
  assumes "\<And>x s. x \<in> set xs \<Longrightarrow> P s \<Longrightarrow> snd (f x s) \<noteq> Some e \<and> P (fst (f x s))" and "P s"
  shows "snd (run_each f xs s) \<noteq> Some e"
  using assms
proof (induction xs arbitrary: s)
  case (Cons x xs)
  obtain s1 r where x: "f x s = (s1, r)" by fastforce
  with Cons.prems(1) [of x s] Cons.prems(2) have "r \<noteq> Some e" "P s1" by auto
  with Cons x show ?case by (cases r) auto
qed simp

definition loads_more :: "loader_state \<Rightarrow> loader_state \<Rightarrow> bool" where
  "loads_more s t \<longleftrightarrow>
     map_of (ls_env s) \<subseteq>\<^sub>m map_of (ls_env t) \<and> set (ls_visited s) \<subseteq> set (ls_visited t) \<and>
     (distinct (ls_visited s) \<longrightarrow> distinct (ls_visited t))"

lemma loads_more_refl [simp]: "loads_more s s"
  by (simp add: loads_more_def)

lemma loads_more_trans: "loads_more a b \<Longrightarrow> loads_more b c \<Longrightarrow> loads_more a c"
  by (auto simp: loads_more_def intro: map_le_trans)

lemma load_include_file_outcome:
  "load_include_file nested h kr i path s =
     (if path \<in> set (ls_visited s) then (s, Some (IncludeCycle i path))
      else case load_config_file h kr path (ls_env s) of
        (env1, Inl e) \<Rightarrow>
          (s\<lparr>ls_visited := path # ls_visited s, ls_env := env1,
             ls_config := ls_config (fst (load_include_file nested h kr i path s))\<rparr>, Some e)
      | (env1, Inr inc) \<Rightarrow>
          let s3 = s\<lparr>ls_visited := path # ls_visited s, ls_env := env1,
                     ls_config := deep_merge_config
                       (if lh_decode_node h (case read_config_bytes h kr path of Inl _ \<Rightarrow> [] | Inr t \<Rightarrow> t)
                        then (ls_config s)\<lparr>cf_source_files := path # cf_source_files (ls_config s)\<rparr> else ls_config s) inc\<rparr> in
          if cf_include inc = [] then (s3, None) else nested (path_dir path) (cf_include inc) s3)"
  by (simp add: load_include_file_def Let_def split: prod.split sum.split)

lemma load_include_file_more:
  assumes "\<And>base incs s. loads_more s (fst (nested base incs s))"
  shows "loads_more s (fst (load_include_file nested h kr i path s))"
proof (cases "path \<in> set (ls_visited s)")
  case False
  obtain env1 r where l: "load_config_file h kr path (ls_env s) = (env1, r)" by fastforce
  then have "map_of (ls_env s) \<subseteq>\<^sub>m map_of env1" using load_config_file_le by (metis fst_conv)
  then have step: "loads_more s (s\<lparr>ls_visited := path # ls_visited s, ls_env := env1, ls_config := c\<rparr>)" for c
    using False by (auto simp: loads_more_def)
  show ?thesis
  proof (cases r)
    case (Inl e)
    show ?thesis by (subst load_include_file_outcome) (use False step in \<open>simp add: l Inl\<close>)
  next
    case (Inr inc)
    show ?thesis
      by (subst load_include_file_outcome) (use False in \<open>auto simp: l Inr Let_def intro: step loads_more_trans [OF step assms]\<close>)
  qed
qed (simp add: load_include_file_def)

lemma load_includes_more: "loads_more s (fst (load_includes n h kr base incs s))"
proof (induction n arbitrary: base incs s)
  case (Suc n)
  have inner: "loads_more s (fst (run_each (load_include_file (load_includes n h kr) h kr i) files s))" for i files s
    by (rule run_each_rel [where R = loads_more]) (auto intro: load_include_file_more Suc loads_more_trans)
  show ?case
    unfolding load_includes.simps
    by (rule run_each_rel [where R = loads_more]) (auto intro: inner loads_more_trans split: sum.split)
qed simp

section \<open>Loading ends\<close>

definition unvisited :: "loader_host \<Rightarrow> loader_state \<Rightarrow> nat" where
  "unvisited h s = card (fst ` set (lh_files h) - set (ls_visited s))"

lemma unvisited_more: "loads_more s t \<Longrightarrow> unvisited h t \<le> unvisited h s"
  unfolding unvisited_def loads_more_def by (rule card_mono) auto

lemma load_include_file_ends:
  assumes nested: "\<And>base incs s. unvisited h s < n \<Longrightarrow> snd (nested base incs s) \<noteq> Some IncludesExhausted"
    and u: "unvisited h s < Suc n"
  shows "snd (load_include_file nested h kr i path s) \<noteq> Some IncludesExhausted"
proof (cases "path \<in> set (ls_visited s)")
  case False
  obtain env1 r where l: "load_config_file h kr path (ls_env s) = (env1, r)" by fastforce
  show ?thesis
  proof (cases r)
    case (Inl e)
    with l have "e \<noteq> IncludesExhausted" using load_config_file_error [of h kr path "ls_env s"] by auto
    then show ?thesis by (subst load_include_file_outcome) (use False in \<open>simp add: l Inl\<close>)
  next
    case (Inr inc)
    from l Inr have "path \<in> fst ` set (lh_files h)"
      by (auto simp: load_config_file_def split: sum.splits prod.splits option.splits intro: read_config_bytes_file)
    then have "card (fst ` set (lh_files h) - insert path (set (ls_visited s))) < unvisited h s"
      unfolding unvisited_def using False by (intro psubset_card_mono) auto
    then have "unvisited h (s\<lparr>ls_visited := path # ls_visited s, ls_env := env1, ls_config := c\<rparr>) < n" for c
      using u by (simp add: unvisited_def)
    then show ?thesis
      by (subst load_include_file_outcome) (use False nested in \<open>simp add: l Inr Let_def\<close>)
  qed
qed (simp add: load_include_file_def)

lemma load_includes_ends: "unvisited h s < n \<Longrightarrow> snd (load_includes n h kr base incs s) \<noteq> Some IncludesExhausted"
proof (induction n arbitrary: base incs s)
  case (Suc n)
  let ?P = "\<lambda>s. unvisited h s < Suc n" and ?f = "\<lambda>i. load_include_file (load_includes n h kr) h kr i"
  have keep: "?P (fst (run_each (?f i) files s))" if "?P s" for i files s
  proof -
    have "loads_more s (fst (run_each (?f i) files s))"
      by (rule run_each_rel [where R = loads_more]) (auto intro: load_include_file_more load_includes_more loads_more_trans)
    then show ?thesis using unvisited_more that by (metis le_less_trans)
  qed
  have one: "?P (fst (?f i path s))" if "?P s" for i path s
    using keep [of s i "[path]"] that by (auto split: prod.splits option.splits)
  have inner: "snd (run_each (?f i) files s) \<noteq> Some IncludesExhausted" if "?P s" for i files s
  proof (rule run_each_error [where P = ?P, OF _ that])
    fix path s
    assume "?P s"
    then show "snd (?f i path s) \<noteq> Some IncludesExhausted \<and> ?P (fst (?f i path s))"
      using load_include_file_ends [where nested = "load_includes n h kr" and n = n and h = h] Suc.IH one by blast
  qed
  show ?case
    unfolding load_includes.simps
    by (rule run_each_error [where P = ?P])
       (use Suc.prems keep inner include_targets_error in \<open>auto split: sum.splits\<close>)
qed simp

lemma resolve_keyring_error: "resolve_keyring h env dir co \<noteq> Inl IncludesExhausted"
  by (auto simp: resolve_keyring_def load_keyring_from_file_def Let_def split: option.splits if_splits)

lemma expand_tilde_list_error: "expand_tilde_list h ps \<noteq> Inl IncludesExhausted"
  by (induction ps) (auto simp: bind_result_def expand_tilde_error split: sum.split)

lemma complete_config_error: "complete_config h env dir kr c \<noteq> Inl IncludesExhausted"
proof -
  have "expand_tilde_paths h c \<noteq> Inl IncludesExhausted"
    using expand_tilde_error expand_tilde_list_error
    by (fastforce simp: expand_tilde_paths_def bind_result_def split: sum.splits)
  moreover have "project_vault_secrets h env dir kr c1 \<noteq> Inl IncludesExhausted" for c1
    by (auto simp: project_vault_secrets_def load_vault_owner_def bind_result_def Let_def
        split: sum.splits option.splits if_splits file_status.splits prod.splits)
  ultimately show ?thesis by (auto simp: complete_config_def bind_result_def split: sum.splits prod.splits)
qed

lemma verify_scope_files_error: "verify_scope_files h ps \<noteq> Some IncludesExhausted"
  by (induction ps) (auto split: sum.splits option.splits)

lemma load_tree_ends: "snd (load_tree h kr p env c) \<noteq> Some IncludesExhausted"
proof -
  have "card (fst ` set (lh_files h) - X) \<le> length (lh_files h)" for X
    by (meson Diff_subset List.finite_set card_image_le card_length card_mono finite_imageI le_trans)
  then have "unvisited h s < include_fuel h" for s
    by (simp add: unvisited_def include_fuel_def less_Suc_eq_le)
  then show ?thesis by (simp add: load_tree_def load_includes_ends)
qed

section \<open>The load as a whole\<close>

text \<open>The stages of a load that succeeds.\<close>

lemma load_finishes:
  "load h verify check defaults path env = (env', Inr r) \<Longrightarrow>
   \<exists>dir kr s. finish_load h verify check defaults dir kr s = Inr r \<and> env' = ls_env s"
  by (auto simp: load_def split: prod.splits sum.splits option.splits)

lemma finish_load_Inr:
  "finish_load h verify check defaults dir kr s = Inr (c, owner) \<longleftrightarrow>
   (\<exists>c1. complete_config h (ls_env s) dir kr (ls_config s) = Inr (c1, owner) \<and>
      (verify \<longrightarrow> verify_scope_files h (ls_visited s) = None) \<and>
      (check \<longrightarrow> check_loaded h (ls_env s) dir kr c1 (owner \<noteq> None) = None) \<and>
      c = (if defaults then fold_plugin_defaults c1 else c1))"
proof (cases "complete_config h (ls_env s) dir kr (ls_config s)")
  case (Inr r)
  obtain c1 o1 where "r = (c1, o1)" by (cases r)
  then show ?thesis unfolding finish_load_def Inr by (cases verify; cases check) (auto split: option.splits)
qed (simp add: finish_load_def)

lemma load_stages:
  assumes "load h verify check defaults path env = (env', Inr (c, owner))"
  obtains dir kr env1 c0 c1 visited where "complete_config h env1 dir kr c0 = Inr (c1, owner)"
    and "verify \<longrightarrow> verify_scope_files h visited = None"
    and "check \<longrightarrow> check_loaded h env1 dir kr c1 (owner \<noteq> None) = None"
    and "c = (if defaults then fold_plugin_defaults c1 else c1)"
  using load_finishes [OF assms] unfolding finish_load_Inr by blast

lemma load_env_le: "map_of env \<subseteq>\<^sub>m map_of (fst (load h verify check defaults path env))"
proof -
  have root: "map_of env \<subseteq>\<^sub>m map_of (fst (open_root h path env))"
  proof -
    have "map_of env \<subseteq>\<^sub>m map_of (fst (load_config_file h kr p env))" for kr p by (rule load_config_file_le)
    then show ?thesis by (auto simp: open_root_def split: sum.split prod.split) (metis fst_conv)+
  qed
  have tree: "map_of e \<subseteq>\<^sub>m map_of (ls_env (fst (load_tree h kr p e c)))" for kr p e c
    using load_includes_more [of "\<lparr>ls_env = e, ls_visited = [p], ls_config = c\<rparr>" "include_fuel h" h kr "path_dir p" "cf_include c"]
    by (auto simp: load_tree_def loads_more_def)
  obtain env1 r where o: "open_root h path env = (env1, r)" by fastforce
  with root have le: "map_of env \<subseteq>\<^sub>m map_of env1" by simp
  show ?thesis
  proof (cases r)
    case (Inr q)
    obtain p kr0 c0 where q: "q = (p, kr0, c0)" by (cases q) auto
    show ?thesis
      using le tree [of env1] unfolding load_def o Inr q
      by (auto split: sum.split prod.split option.split intro: map_le_trans) (metis fst_conv map_le_trans)+
  qed (simp add: load_def o le)
qed

lemma checks_error:
  "first_fault [if verify then map_option LoadFailed (verify_scope_files h ps) else None,
     if check then check_loaded h env dir kr c b else None] \<noteq> Some (LoadFailed IncludesExhausted)" (is "?checks \<noteq> _")
proof
  assume "?checks = Some (LoadFailed IncludesExhausted)"
  from first_fault_in [OF this] have "check_loaded h env dir kr c b = Some (LoadFailed IncludesExhausted)"
    using verify_scope_files_error [of h ps] by (cases "verify_scope_files h ps") (auto split: if_splits)
  then show False
    unfolding check_loaded_def by (auto simp: map_option_case dest!: first_fault_in split: if_splits option.splits)
qed

lemma fault_case: "f \<noteq> Some e \<Longrightarrow> (case f of Some x \<Rightarrow> Inl x | None \<Rightarrow> Inr y) \<noteq> Inl e"
  by (cases f) auto

lemma finish_load_error: "finish_load h verify check defaults dir kr s \<noteq> Inl (LoadFailed IncludesExhausted)"
proof (cases "complete_config h (ls_env s) dir kr (ls_config s)")
  case (Inl e)
  then show ?thesis using complete_config_error by (auto simp: finish_load_def)
next
  case (Inr r)
  obtain c owner where "r = (c, owner)" by (cases r)
  then show ?thesis
    unfolding finish_load_def Inr by (simp only: sum.case prod.case) (rule fault_case [OF checks_error])
qed

text \<open>C12. Loading the configuration always ends: whatever the include tree of the host's files, cycles and files that
  include one another included, the loader returns a configuration or one of the errors it names; it never runs out of
  the levels of nesting the model allows.\<close>

theorem load_ends: "snd (load h verify check defaults path env) \<noteq> Inl (LoadFailed IncludesExhausted)"
proof -
  have root: "snd (open_root h path env) \<noteq> Inl IncludesExhausted"
    using load_config_file_error [of h] resolve_keyring_error [of h]
    by (auto simp: open_root_def locate_config_def Let_def split: sum.splits prod.splits file_status.splits if_splits)
      (metis snd_conv)+
  have ring: "include_keyring h e d k c \<noteq> Inl IncludesExhausted" for e d k c
    using resolve_keyring_error by (simp add: include_keyring_def)
  obtain env1 r where o: "open_root h path env = (env1, r)" by fastforce
  show ?thesis
  proof (cases r)
    case (Inl e)
    then show ?thesis using root o by (auto simp: load_def)
  next
    case (Inr q)
    obtain p kr0 c0 where q: "q = (p, kr0, c0)" by (cases q) auto
    show ?thesis
      using expand_tilde_error [of h] ring finish_load_error load_tree_ends [of h] unfolding load_def o Inr q
      by (auto split: sum.split prod.split option.split) (metis snd_conv)+
  qed
qed

text \<open>Environment files never override the environment: every variable that is set when a load starts has the
  same value after it, whatever the files define and whether or not the load succeeds.\<close>

theorem load_keeps_environment: "map_get env k = Some v \<Longrightarrow> map_get (fst (load h verify check defaults path env)) k = Some v"
  using load_env_le [of env h verify check defaults path] by (auto simp: map_le_def dom_def)

lemma list_all_first_fault: "list_all (\<lambda>x. x = None) (map f xs) \<longleftrightarrow> list_all (\<lambda>x. f x = None) xs"
  by (simp add: list_all_iff)

lemma valid_schedules:
  assumes "validate_schedules ho name i seen scs = None"
  shows "list_all (\<lambda>sc. validate_schedule_config ho sc = None) scs \<and>
     distinct (map (\<lambda>sc. trim_space (sc_id sc)) scs) \<and>
     list_all (\<lambda>sc. trim_space (sc_id sc) \<notin> set seen) scs"
  using assms
proof (induction scs arbitrary: i seen)
  case (Cons sc scs)
  then show ?case using Cons.IH [of "Suc i" "trim_space (sc_id sc) # seen"] by (auto simp: Let_def list_all_iff)
qed simp

text \<open>What the fold of plugin defaults keeps.\<close>

lemma merge_keeps_schedules [simp]:
  "normalized_schedules (stanza_conf (merge_plugin_defaults w p)) = normalized_schedules (stanza_conf p)"
  "pc_enabled (merge_plugin_defaults w p) = pc_enabled p"
  by (simp_all add: normalized_schedules_def merge_plugin_defaults_def plugin_conf.truncate_def)

lemma project_vault_secrets_Inr:
  "project_vault_secrets h env dir kr c = Inr (c1, owner, ws) \<longleftrightarrow>
     load_vault_owner h env dir c kr = Inr owner \<and>
     c1 = (case owner of None \<Rightarrow> c | Some v \<Rightarrow> c\<lparr>cf_resolved_secrets := fst (active_vault_secrets v)\<rparr>) \<and>
     ws = (case owner of None \<Rightarrow> [] | Some v \<Rightarrow> snd (active_vault_secrets v))"
  by (auto simp: project_vault_secrets_def bind_result_Inr_iff split_beta split: option.splits)

lemma complete_config_service:
  assumes "complete_config h env dir kr c = Inr (c1, owner)"
  obtains s where "cf_service c1 = default_service_fields (lh_cpus h) s"
proof -
  obtain c2 ws where "project_vault_secrets h env dir kr (resolve_state_path dir (apply_config_defaults (lh_cpus h) c2)) = Inr (c1, owner, ws)"
    using assms by (auto simp: complete_config_def bind_result_Inr_iff)
  then have "cf_service c1 = cf_service (resolve_state_path dir (apply_config_defaults (lh_cpus h) c2))"
    by (auto simp: project_vault_secrets_Inr split: option.splits)
  also have "\<dots> = default_service_fields (lh_cpus h) (cf_service c2)"
    by (simp add: resolve_state_path_def apply_config_defaults_def Let_def)
  finally show ?thesis using that by blast
qed

text \<open>A loaded and validated configuration: its settings before and after the fold of plugin defaults.\<close>

lemma loaded_valid:
  assumes "load h verify True True path env = (env', Inr (c, owner))"
  obtains c1 where "c = fold_plugin_defaults c1" and "validate_settings h c1 (owner \<noteq> None) = None"
    and "cf_service c = cf_service c1" and "srv_hook_max_depth (cf_service c1) \<noteq> 0"
proof -
  obtain dir kr env1 c0 c1 where l: "complete_config h env1 dir kr c0 = Inr (c1, owner)"
      "check_loaded h env1 dir kr c1 (owner \<noteq> None) = None" "c = fold_plugin_defaults c1"
    using assms by (rule load_stages) simp
  obtain s where "cf_service c1 = default_service_fields (lh_cpus h) s" using l(1) by (rule complete_config_service)
  then have "srv_hook_max_depth (cf_service c1) \<noteq> 0"
    by (simp add: default_service_fields_def default_service_def or_default_def default_hook_max_depth_def Let_def)
  with l show ?thesis by (intro that [of c1]) (auto simp: check_loaded_def fold_plugin_defaults_def)
qed

lemma loaded_plugin:
  assumes "load h verify True True path env = (env', Inr (c, owner))" and "(name, p) \<in> set (cf_plugins c)" and "pc_enabled p"
  obtains q where "p = merge_plugin_defaults (srv_max_workers (cf_service c)) q" and "pc_enabled q"
    and "validate_plugin (lh_sched h) (srv_max_workers (cf_service c)) (name, q) = None"
proof -
  obtain c1 where c1: "c = fold_plugin_defaults c1" "validate_settings h c1 (owner \<noteq> None) = None" "cf_service c = cf_service c1"
    using assms(1) by (rule loaded_valid) blast
  from assms(2) c1(1) obtain q where "p = merge_plugin_defaults (srv_max_workers (cf_service c1)) q" "(name, q) \<in> set (cf_plugins c1)"
    by (auto simp: fold_plugin_defaults_def)
  moreover from c1(2) have "list_all (\<lambda>e. validate_plugin (lh_sched h) (srv_max_workers (cf_service c1)) e = None) (cf_plugins c1)"
    by (simp add: validate_settings_def Let_def list_all_first_fault)
  ultimately show ?thesis using that assms(3) by (auto simp: c1(3) list_all_iff)
qed

section \<open>What a loaded configuration promises\<close>

text \<open>C17. A configuration that loads is safe to run: the tick is at least 100 ms, there is at least one worker, the
  hook depth is positive, finished jobs stay in the table for as long as the dedupe window looks back, and every
  enabled plugin has between one and \<^verbatim>\<open>max_workers\<close> lanes and schedules with pairwise distinct ids.\<close>

theorem loaded_config_bounds:
  assumes "load h verify True True path env = (env', Inr (c, owner))"
  shows "100 * 1000000 \<le> srv_tick_interval (cf_service c) \<and> 1 \<le> srv_max_workers (cf_service c) \<and>
     0 < srv_hook_max_depth (cf_service c) \<and>
     (0 < srv_dedupe_ttl (cf_service c) \<and> 0 < srv_job_queue_retention (cf_service c) \<longrightarrow>
        srv_dedupe_ttl (cf_service c) \<le> srv_job_queue_retention (cf_service c)) \<and>
     (\<forall>(name, p) \<in> set (cf_plugins c). pc_enabled p \<longrightarrow>
        1 \<le> pc_parallelism p \<and> pc_parallelism p \<le> srv_max_workers (cf_service c) \<and>
        distinct (map (\<lambda>sc. trim_space (sc_id sc)) (normalized_schedules (stanza_conf p))))"
proof -
  obtain c1 where c1: "validate_settings h c1 (owner \<noteq> None) = None" "cf_service c = cf_service c1"
      "srv_hook_max_depth (cf_service c1) \<noteq> 0"
    using assms by (rule loaded_valid) blast
  then have base: "100 * 1000000 \<le> srv_tick_interval (cf_service c)" "1 \<le> srv_max_workers (cf_service c)"
      "0 < srv_hook_max_depth (cf_service c)"
      "0 < srv_dedupe_ttl (cf_service c) \<and> 0 < srv_job_queue_retention (cf_service c) \<longrightarrow>
        srv_dedupe_ttl (cf_service c) \<le> srv_job_queue_retention (cf_service c)"
    by (auto simp: validate_settings_def Let_def min_tick_interval_def)
  have "1 \<le> pc_parallelism p \<and> pc_parallelism p \<le> srv_max_workers (cf_service c) \<and>
        distinct (map (\<lambda>sc. trim_space (sc_id sc)) (normalized_schedules (stanza_conf p)))"
    if p: "(name, p) \<in> set (cf_plugins c)" "pc_enabled p" for name p
  proof -
    obtain q where q: "p = merge_plugin_defaults (srv_max_workers (cf_service c)) q" "pc_enabled q"
        "validate_plugin (lh_sched h) (srv_max_workers (cf_service c)) (name, q) = None"
      using assms p by (rule loaded_plugin)
    from q(2,3) valid_schedules have "distinct (map (\<lambda>sc. trim_space (sc_id sc)) (normalized_schedules (stanza_conf q)))"
      by (fastforce simp: validate_plugin_def Let_def)
    with q base show ?thesis by (auto simp: validate_plugin_def Let_def merge_plugin_defaults_def or_default_def normalized_schedules_def
        plugin_conf.truncate_def split: if_splits)
  qed
  with base show ?thesis by blast
qed

text \<open>C11. The scheduler can run every schedule of a configuration that loads: for each schedule of an enabled plugin
  the scheduler reads exactly one kind of timing from it without changing its state, its zone resolves, its time and
  weekday constraints give a verdict at every instant, and its command is not the handler the scheduler refuses.\<close>

theorem loaded_schedules_run:
  assumes "load h verify True True path env = (env', Inr (c, owner))" and "(name, p) \<in> set (cf_plugins c)" and "pc_enabled p"
    and "sc \<in> set (normalized_schedules (stanza_conf p))" and "sh_host sh = lh_sched h"
  shows "(\<exists>tm. read_timing sh now name sc e st = (st, Inr tm) \<and> timing_modes tm = 1) \<and>
     (\<exists>off. resolve_zone (lh_sched h) sc fallback = Inr off) \<and>
     (\<exists>verdict. schedule_constraints_allow_at (lh_sched h) sc now = Inr verdict) \<and>
     entry_command sc \<noteq> ''handle''"
proof -
  obtain q where q: "p = merge_plugin_defaults (srv_max_workers (cf_service c)) q" "pc_enabled q"
      "validate_plugin (lh_sched h) (srv_max_workers (cf_service c)) (name, q) = None"
    using assms(1-3) by (rule loaded_plugin)
  with assms(4) valid_schedules have v: "validate_schedule_config (lh_sched h) sc = None"
    by (fastforce simp: validate_plugin_def Let_def list_all_iff)
  then have "validate_schedule_constraints (lh_sched h) sc = None" "entry_command sc \<noteq> ''handle''"
    by (simp_all add: validate_schedule_config_def Let_def entry_command_def)
  then show ?thesis using valid_read_timing [of sh sc now name e st] v assms(5) valid_constraints_allow valid_resolve_zone by simp
qed

lemma active_vault_secrets_live:
  assumes "(n, v) \<in> set (fst (active_vault_secrets s))"
  shows "\<exists>x. (n, x) \<in> set (vs_secrets s) \<and> sec_status x = ''active'' \<and> \<not> plugin_scoped_secret s x \<and> v = sec_value x"
  using assms by (auto simp: active_vault_secrets_def Let_def)

lemma resolve_tokens_from_live:
  assumes "resolve_tokens_from secrets i toks = Inr ts"
  shows "list_all2 (\<lambda>a t. at_token a = [] \<and> tk_name t = at_secret_ref a \<and> tk_scopes t = at_scopes a \<and> tk_token t \<noteq> [] \<and>
     (tk_name t, tk_token t) \<in> set secrets) toks ts"
  using assms
proof (induction toks arbitrary: i ts)
  case (Cons a toks)
  then show ?case by (auto simp: bind_result_Inr_iff dest: map_of_SomeD split: if_splits option.splits)
qed simp

lemma complete_config_secrets:
  assumes "complete_config h env dir kr c = Inr (c1, Some s)"
  shows "cf_resolved_secrets c1 = fst (active_vault_secrets s)"
  using assms by (auto simp: complete_config_def bind_result_Inr_iff project_vault_secrets_Inr)

text \<open>C16. The API only ever accepts live vault secrets: when a configuration loads with a vault and its tokens
  resolve, each configured token becomes one credential with the same name and scopes, whose value is the non-empty value of
  an active secret of that name in the vault, never a literal of the configuration file and never a secret granted to
  plugins alone.\<close>

theorem loaded_tokens_live:
  assumes "load h verify check defaults path env = (env', Inr (c, Some s))" and "resolve_api_tokens c = Inr ts"
  shows "list_all2 (\<lambda>a t. at_token a = [] \<and> tk_name t = at_secret_ref a \<and> tk_scopes t = at_scopes a \<and> tk_token t \<noteq> [] \<and>
     (\<exists>x. (tk_name t, x) \<in> set (vs_secrets s) \<and> sec_status x = ''active'' \<and> \<not> plugin_scoped_secret s x \<and> tk_token t = sec_value x))
     (as_tokens (cf_api c)) ts"
proof -
  obtain dir kr env1 c0 c1 where c1: "complete_config h env1 dir kr c0 = Inr (c1, Some s)"
      "c = (if defaults then fold_plugin_defaults c1 else c1)"
    using assms(1) by (rule load_stages) blast
  from complete_config_secrets [OF c1(1)] c1(2) have "cf_resolved_secrets c = fst (active_vault_secrets s)"
    by (simp add: fold_plugin_defaults_def)
  with assms(2) show ?thesis
    using active_vault_secrets_live
    by (auto simp: resolve_api_tokens_def dest!: resolve_tokens_from_live elim!: list_all2_mono)
qed

section \<open>Interpolation\<close>

lemma env_pieces_text: "concat (map piece_text (env_pieces s)) = s"
proof (induction s rule: env_pieces.induct)
  case (1 s)
  show ?case
  proof (cases s)
    case (Cons c cs)
    show ?thesis
    proof (cases "placeholder s")
      case None
      then show ?thesis using 1 Cons by (subst env_pieces.simps) simp
    next
      case (Some e)
      obtain n r where e: "e = (n, r)" by (cases e)
      with Some have "s = ''${'' @ n @ ''}'' @ r" using placeholder_text by simp
      then show ?thesis using 1(2) [OF Cons Some e [symmetric]] Some e Cons by (subst env_pieces.simps) simp
    qed
  qed (simp add: env_pieces.simps)
qed

text \<open>Interpolation replaces set variables and nothing else: a text is the concatenation of its pieces, and one
  none of whose placeholders names a set variable is returned as it is, dollar signs, braces and malformed placeholders included.\<close>

theorem interpolate_env_exact:
  "concat (map piece_text (env_pieces s)) = s \<and>
   (list_all (\<lambda>p. case p of Var n \<Rightarrow> map_get env n = None | Lit c \<Rightarrow> True) (env_pieces s) \<longrightarrow> interpolate_env env s = s)"
proof -
  have "map (piece_value env) ps = map piece_text ps"
    if "list_all (\<lambda>p. case p of Var n \<Rightarrow> map_get env n = None | Lit c \<Rightarrow> True) ps" for ps
    using that by (induction ps) (auto split: env_piece.splits)
  then show ?thesis unfolding interpolate_env_def by (metis env_pieces_text)
qed

section \<open>What a load does not carry over\<close>

text \<open>Limits and grants of an included file are not merged.\<close>

lemma merge_ignores_included_limits:
  "cf_accounts (deep_merge_config d s) = cf_accounts d"
  "srv_max_workers (cf_service (deep_merge_config d s)) = srv_max_workers (cf_service d)"
  "srv_hook_max_depth (cf_service (deep_merge_config d s)) = srv_hook_max_depth (cf_service d)"
  "admission_policy (cf_service (deep_merge_config d s)) = admission_policy (cf_service d)"
  by (simp_all add: deep_merge_config_def merge_service_def admission_policy_def Let_def split: option.split)

text \<open>The defaults replace the whole section of a disabled API without an address.\<close>

lemma disabled_api_loses_settings:
  assumes "\<not> as_enabled a" "as_listen a = []"
  shows "as_tokens (default_api_fields a) = [] \<and> as_management_socket (default_api_fields a) = []"
  using assms by (simp add: default_api_fields_def default_api_def zero_api_def Let_def)

text \<open>A placeholder in a list is not found.\<close>

lemma placeholder_in_list_accepted: "check_unresolved_env_vars [(''hosts'', GList [GStr ''${HOST}''])] = None"
  by simp

section \<open>A host with a configuration and a vault\<close>

definition config_demo_sched :: host where
  "config_demo_sched = \<lparr>ho_uuid = (\<lambda>n. ''id''), ho_int63n = (\<lambda>_ _. 0), ho_zone = (\<lambda>_. None), ho_local = 0,
     ho_parse_rfc3339 = (\<lambda>_. Some 0), ho_marshal = (\<lambda>_. None), ho_parse_float = (\<lambda>_. None), ho_parse_duration = (\<lambda>_. None)\<rparr>"

definition config_demo_schedule :: schedule_config where
  "config_demo_schedule = \<lparr>sc_id = ''s'', sc_every = ''hourly'', sc_cron = [], sc_at = [], sc_after = 0, sc_jitter = 0, sc_catch_up = [],
     sc_if_running = [], sc_only_between = [], sc_timezone = [], sc_not_on = [], sc_command = [], sc_payload = None\<rparr>"

definition config_demo_plugin :: plugin_stanza where
  "config_demo_plugin = plugin_conf.extend (default_plugin_conf\<lparr>pc_parallelism := 0, pc_schedules := [config_demo_schedule]\<rparr>)
     \<lparr>ps_uses = [], ps_schedule = None\<rparr>"

definition config_demo_service :: service_section where
  "config_demo_service = \<lparr>srv_name = [], srv_tick_interval = 0, srv_log_level = [], srv_log_format = [], srv_dedupe_ttl = 0,
     srv_job_log_retention = 0, srv_job_queue_retention = 0, srv_job_transitions_retention = 0, srv_job_attempts_retention = 0,
     srv_breaker_transitions_retention = 0, srv_max_workers = 0, srv_plugin_env_passthrough = [], srv_admission = None,
     srv_strict_mode = False, srv_allow_symlinks = False, srv_hook_max_depth = 0, srv_unconfined = False\<rparr>"

definition config_demo :: config where
  "config_demo = \<lparr>cf_include = [], cf_env_include = [], cf_service = config_demo_service, cf_state_path = [], cf_database_path = [],
     cf_age_key_file = [], cf_vault_file = [],
     cf_api = zero_api\<lparr>as_enabled := True, as_listen := ''l'', as_tokens := [\<lparr>at_token = [], at_secret_ref = ''api'', at_scopes = []\<rparr>]\<rparr>,
     cf_plugin_roots = [''/p''], cf_tcc_paths = [], cf_plugins = [(''m'', config_demo_plugin)], cf_accounts = [],
     cf_relay_instances = [], cf_remote_ingress = None, cf_routes = [], cf_webhooks = None, cf_source_files = [],
     cf_resolved_secrets = []\<rparr>"

definition config_demo_vault :: vault_store where
  "config_demo_vault = \<lparr>vs_secrets = [(''api'', \<lparr>sec_value = ''t'', sec_authorized = [], sec_status = ''active'', sec_pattern = [],
     sec_roll_count = 0, sec_created_at = [], sec_updated_at = [], sec_revoked_at = []\<rparr>)], vs_principals = []\<rparr>"

definition config_demo_host :: loader_host where
  "config_demo_host = \<lparr>lh_cwd = ''/'', lh_home = None, lh_files = [(''/c'', Some ''x''), (''/age.key'', Some ''k''), (''/vault.age'', Some ''v'')],
     lh_dirs = [], lh_denied = [], lh_mode = (\<lambda>_. 0), lh_identities = (\<lambda>d. Some [d]), lh_age_decrypt = (\<lambda>_ _. None),
     lh_decode = (\<lambda>_. Some config_demo), lh_decode_env = (\<lambda>_. Some []), lh_decode_node = (\<lambda>_. True), lh_cpus = 4,
     lh_vault = (\<lambda>_ _. Some config_demo_vault), lh_checksums = (\<lambda>_. ChecksumsMissing),
     lh_attest = \<lparr>ah_read = (\<lambda>_. None), ah_symlinks = Some, ah_mode = (\<lambda>_. None), ah_absent = (\<lambda>_. True), ah_sha256 = id,
       ah_hmac = (\<lambda>_ d. d), ah_parse_time = (\<lambda>_. None)\<rparr>,
     lh_parse_byte_size = (\<lambda>_. None), lh_parse_url = (\<lambda>_. None), lh_sched = config_demo_sched\<rparr>"

definition config_demo_loaded :: config where
  "config_demo_loaded = config_demo\<lparr>cf_service := default_service 4, cf_state_path := ''/data/state.db'',
     cf_api := (cf_api config_demo)\<lparr>as_max_concurrent_sync := 10, as_max_sync_timeout := 5 * minute\<rparr>,
     cf_plugins := [(''m'', merge_plugin_defaults 3 config_demo_plugin)], cf_source_files := [''/c''],
     cf_resolved_secrets := [(''api'', ''t'')]\<rparr>"

lemma config_demo_loads:
  "load config_demo_host True True True ''/c'' [(''HOME'', ''/r'')] = ([(''HOME'', ''/r'')], Inr (config_demo_loaded, Some config_demo_vault))"
  by code_simp

definition config_demo_scheduler :: "queue_db scheduler" where
  "config_demo_scheduler = \<lparr>sh_cfg = \<lparr>sv_name = ''svc'', sv_tick_interval = minute, sv_job_log_retention = 0,
       sv_job_queue_retention = 0, sv_job_transitions_retention = 0, sv_job_attempts_retention = 0,
       sv_breaker_transitions_retention = 0, sv_plugins = []\<rparr>,
     sh_queue = job_queue_service \<lparr>dedupe_ttl = hour, snapshot_provider = None\<rparr>,
     sh_supports_command = None, sh_recovery_hook = None, sh_host = config_demo_sched\<rparr>"

definition config_demo_entry :: schedule_entry_state where
  "config_demo_entry = \<lparr>se_plugin = ''m'', se_schedule_id = ''s'', se_command = ''poll'', se_status = EntryActive, se_reason = None,
     se_last_fired_at = None, se_last_success_job_id = None, se_last_success_at = None, se_next_run_at = None, se_updated_at = 0\<rparr>"

definition config_demo_state :: "queue_db sched_state" where
  "config_demo_state = \<lparr>sd_db = empty_db, sd_events = [], sd_draws = 0, sd_tick_count = 0, sd_panicked = False\<rparr>"

theorem load_keeps_environment_witness:
  "map_get (fst (load config_demo_host True True True ''/c'' [(''HOME'', ''/r'')])) ''HOME'' = Some ''/r''"
  by (rule load_keeps_environment) simp

theorem loaded_config_bounds_witness:
  "100 * 1000000 \<le> srv_tick_interval (cf_service config_demo_loaded) \<and> 1 \<le> srv_max_workers (cf_service config_demo_loaded)"
  using loaded_config_bounds [OF config_demo_loads] by blast

theorem loaded_schedules_run_witness:
  "(\<exists>tm. read_timing config_demo_scheduler 0 ''m'' (apply_schedule_defaults config_demo_schedule) config_demo_entry config_demo_state
      = (config_demo_state, Inr tm) \<and> timing_modes tm = 1) \<and> entry_command (apply_schedule_defaults config_demo_schedule) \<noteq> ''handle''"
proof -
  have "(''m'', merge_plugin_defaults 3 config_demo_plugin) \<in> set (cf_plugins config_demo_loaded)"
    by (simp add: config_demo_loaded_def)
  moreover have "pc_enabled (merge_plugin_defaults 3 config_demo_plugin)"
    by (simp add: config_demo_plugin_def plugin_conf.extend_def default_plugin_conf_def)
  moreover have "apply_schedule_defaults config_demo_schedule \<in> set (normalized_schedules (stanza_conf (merge_plugin_defaults 3 config_demo_plugin)))"
    by code_simp
  moreover have "sh_host config_demo_scheduler = lh_sched config_demo_host"
    by (simp add: config_demo_scheduler_def config_demo_host_def)
  ultimately show ?thesis
    using loaded_schedules_run [OF config_demo_loads, of "''m''" "merge_plugin_defaults 3 config_demo_plugin"] by blast
qed

theorem loaded_tokens_live_witness:
  "\<exists>ts. resolve_api_tokens config_demo_loaded = Inr ts \<and> map tk_token ts = [''t''] \<and>
     list_all2 (\<lambda>a t. tk_name t = at_secret_ref a) (as_tokens (cf_api config_demo_loaded)) ts"
proof -
  have r: "resolve_api_tokens config_demo_loaded = Inr [\<lparr>tk_name = ''api'', tk_token = ''t'', tk_scopes = []\<rparr>]" by code_simp
  from loaded_tokens_live [OF config_demo_loads r] r show ?thesis by (auto elim: list_all2_mono)
qed

theorem interpolate_env_exact_witness: "interpolate_env [(''A'', ''b'')] ''x${C}'' = ''x${C}''"
proof -
  have "list_all (\<lambda>p. case p of Var n \<Rightarrow> map_get [(''A'', ''b'')] n = None | Lit c \<Rightarrow> True) (env_pieces ''x${C}'')" by code_simp
  then show ?thesis using interpolate_env_exact [of "''x${C}''" "[(''A'', ''b'')]"] by blast
qed

end
