(* ===== verification/Spec2Isabelle.thy ===== *)
theory Spec2Isabelle
  imports Queue_Properties Condition_Properties Admission Ledger_Properties Baggage Router_Properties
    Cron Scheduler_Properties Event_Hub Plugin_Store Stopwatch
    Vault_Properties Plugin_Process Dispatch_Policy Relay_Properties Dispatcher_Properties
    Auth Webhook Plugin_Registry Queue_Listings Api_Properties Api_Vault
    Clearpass_Histories Attested_Delivery Config_Properties
begin

text \<open>
  A verification library for Ductile, an integration gateway written in Go (\<^verbatim>\<open>src/internal\<close>, \<^verbatim>\<open>src/cmd/ductile\<close>). Ductile loads a
  configuration, discovers plugins on disk, and runs their commands as jobs. Jobs come from schedules, from the HTTP API,
  from signed webhooks, from other instances over a relay, and from the events other jobs emit, which pipelines route to
  further steps. A job is a row of a SQLite table that a pool of workers claims; running it spawns the plugin under an
  account with less privilege, hands it its configuration, state and vault secrets, and turns its answer into facts, routed
  jobs, hooks, retries and timings. Each theory models one part; this one imports them all.

  \<^bold>\<open>Vocabulary.\<close> \<open>Ductile_Prelude\<close> has the part of Go's string library the sources use, results (\<open>error + value\<close> with
  \<open>bind_result\<close>), selection from ordered tables and the collections of rewrite rules; \<open>Go_Value\<close> the dynamically typed values
  of JSON and YAML; \<open>Go_Time\<close> instants, durations and timestamp texts; \<open>Host_Files\<close> the lexical part of \<^verbatim>\<open>path/filepath\<close>.

  \<^bold>\<open>The job queue\<close> (\<^verbatim>\<open>queue/queue.go\<close>, \<^verbatim>\<open>queue/types.go\<close>). \<open>Job_Queue\<close> models the tables as a record of lists and every method of
  \<^verbatim>\<open>Queue\<close> as a function on it; \<open>Queue_Listings\<close> the reports. \<open>Queue_Invariants\<close> proves that every operation keeps primary keys
  and the source-event index unique, attempts within their counters, one running job per keyed target, and the transition
  log in step with the status column; \<open>Queue_Properties\<close> has the order of claims, progress, deduplication and redelivery.
  \<open>Admission\<close> (\<^verbatim>\<open>state/admission.go\<close>) is the gate in front of context creation, over the locale \<open>admission_probe\<close>.

  \<^bold>\<open>Contexts, conditions and pipelines.\<close> \<open>Context_Ledger\<close> and \<open>Ledger_Properties\<close> (\<^verbatim>\<open>state/context_store.go\<close>,
  \<^verbatim>\<open>state/pipeline_instance.go\<close>): baggage is immutable along a lineage. \<open>Conditions\<close>, \<open>Condition_Properties\<close>
  (\<^verbatim>\<open>router/conditions\<close>): the evaluator refines the boolean reading of a tree and a validated tree fails only on operand
  types. \<open>Baggage\<close> (\<^verbatim>\<open>baggage\<close>, \<^verbatim>\<open>dispatch/with.go\<close>). \<open>Pipeline_DSL\<close>, \<open>Compiler_Properties\<close> (\<^verbatim>\<open>router/dsl\<close>): compiled graphs are
  closed and acyclic and their depth bounds every path. \<open>Router\<close>, \<open>Router_Properties\<close> (\<^verbatim>\<open>router/engine.go\<close>): routing is
  total, goes to executable nodes, and chains of transitions respect their budget.

  \<^bold>\<open>Time.\<close> \<open>Cron\<close> (\<^verbatim>\<open>scheduleexpr\<close>): the next matching minute is the least one. \<open>Plugin_Config\<close> (\<^verbatim>\<open>config/types.go\<close>): plugin
  settings and their resolver. \<open>Scheduler\<close>, \<open>Scheduler_Laws\<close>, \<open>Scheduler_Properties\<close> (\<^verbatim>\<open>scheduler\<close>): the tick, catch-up, crash
  recovery and circuit breaker (with its histories of ticks, completions and resets) over the interface \<^verbatim>\<open>QueueService\<close>, whose laws are the locale \<open>scheduler_queue\<close>, interpreted on the
  job queue.

  \<^bold>\<open>Stores.\<close> \<open>Event_Hub\<close> (\<^verbatim>\<open>events/hub.go\<close>): the ring buffer refines a bounded log, locale \<open>bounded_log\<close>;
  publishers draw their numbers before they take the lock, so runs interleave the two. \<open>Plugin_Store\<close>
  (\<^verbatim>\<open>state/store.go\<close>): plugin state and facts. \<open>Stopwatch\<close> (\<^verbatim>\<open>stopwatch\<close>, \<^verbatim>\<open>state/stopwatch*.go\<close>): timings and their pruning.
  \<open>Vault\<close>, \<open>Vault_Properties\<close> (\<^verbatim>\<open>vault\<close>): the document, the guarded owner whose memory matches the disk, revocation, and key
  rotation that survives a crash at any point where the rename of the key file is durable.

  \<^bold>\<open>Execution.\<close> \<open>Plugin_Registry\<close> (\<^verbatim>\<open>plugin\<close>): manifests, trust checks, discovery, aliases. \<open>Plugin_Process\<close>
  (\<^verbatim>\<open>dispatch/account.go\<close>, \<^verbatim>\<open>env.go\<close>, \<^verbatim>\<open>subprocess_executor.go\<close>, \<dots>): the account, environment, secrets and output of a
  process. \<open>Dispatch_Policy\<close>: retries, worker lanes as a step relation interleaved with the other writers of the queue, hook
  depth. \<open>Gateway_State\<close>: the stores all creators of work share. \<open>Dispatcher\<close>, \<open>Job_Execution\<close>, \<open>Dispatcher_Properties\<close>
  (\<^verbatim>\<open>dispatch/dispatcher.go\<close>): routing, completion, hooks, waiting for a job tree, and the execution of a job on every branch:
  it settles the job unless the store refuses the last write, and changes no other row.

  \<^bold>\<open>Ways in.\<close> \<open>Auth\<close> (\<^verbatim>\<open>auth\<close>): tokens, scopes and the policy, exact with respect to the lattice of scopes. \<open>Api\<close>, \<open>Api_Reads\<close>,
  \<open>Api_Vault\<close>, \<open>Api_Properties\<close> (\<^verbatim>\<open>api\<close>): routes with their gates; only authorised requests create work, refused ones write
  nothing (what a reload does is a parameter), results stay hidden, the vault's routes keep their contract. \<open>Webhook\<close> (\<^verbatim>\<open>webhook\<close>), \<open>Relay\<close>, \<open>Relay_Properties\<close> (\<^verbatim>\<open>relay\<close>): only signed requests create work, and
  what a sender signs its peer accepts.

  \<^bold>\<open>Attestation.\<close> \<open>Attestation\<close> (\<^verbatim>\<open>config/hash.go\<close>, \<^verbatim>\<open>integrity.go\<close>, \<^verbatim>\<open>plugin_fingerprint.go\<close>, \<^verbatim>\<open>plugin_lock.go\<close>): hashes of
  configuration files and keyed fingerprints of plugins. \<open>Clearpass\<close> (\<^verbatim>\<open>config/plugin_clearpass.go\<close>, \<^verbatim>\<open>plugin_verifier.go\<close> and
  \<^verbatim>\<open>clearpass_closer.go\<close> of \<^verbatim>\<open>cmd/ductile\<close>): windows in which changed bytes are tolerated, the check at a spawn, and the closer.
  \<open>Attest_Commands\<close>: \<^verbatim>\<open>plugin clearpass\<close>, \<^verbatim>\<open>plugin lock\<close>, \<^verbatim>\<open>config lock\<close>, and histories as the step relation \<open>attest_step\<close>.
  \<open>Attestation_Properties\<close>, \<open>Clearpass_Histories\<close>: a window is committed at most once in every history, even if older manifests
  come back, unless a command that failed to write the manifest gave the window back. \<open>Attested_Delivery\<close>: the dispatcher's use of the verifier as the locale \<open>identity_verifier\<close>, interpreted on the gateway's
  check, so that secrets reach attested bytes only.

  \<^bold>\<open>Configuration.\<close> \<open>Config_Types\<close> (\<^verbatim>\<open>config/types.go\<close>, \<^verbatim>\<open>boot_posture.go\<close>, \<^verbatim>\<open>api_tokens.go\<close>), \<open>Config_Loader\<close>,
  \<open>Config_Validation\<close> (\<^verbatim>\<open>config/loader.go\<close>, \<^verbatim>\<open>validator.go\<close>, \<^verbatim>\<open>relay_validation.go\<close>, \<^verbatim>\<open>vault_secrets.go\<close>, \<^verbatim>\<open>secrets.go\<close>, \<^verbatim>\<open>tilde.go\<close>):
  the load from the root file to the validated configuration. \<open>Config_Properties\<close>: loading ends on every include tree; what
  loads has schedules the scheduler accepts, bounds the dispatcher relies on, and API tokens that are live vault secrets.

  \<^bold>\<open>Conventions.\<close> State is passed explicitly, errors are values, one early return is one branch. Machine integers are \<open>int\<close>
  with the wrap-around written out where it can be reached (cron steps, backoff, credentials, body limits). A Go map is an
  association list, in key order where an order matters; map iteration order is otherwise a fixed choice. A string is its
  bytes, with the ASCII notion of case, space and letter. An operation reads the clock once, through its argument \<open>now\<close> or
  the host; UUIDs are drawn from the host by a counter in the state.

  \<^bold>\<open>Parameters.\<close> What the sources call and do not define is an argument: the regular expression engine, the JSON encoder and
  decoder with the length of its output, the formatter of \<^verbatim>\<open>%v\<close>, the parsers of floats, durations, RFC 3339 times, byte
  sizes and URLs, time zones (fixed offsets), the policy engine, the age cipher, SHA-256 and HMAC-SHA256, the YAML decoder, the file
  system, and the outcome of a process, of an HTTP delivery and of a write. Where a theorem relies on one of them, the
  assumption is in its statement and its witness instantiates it.

  \<^bold>\<open>Bounds and fuel.\<close> Fresh node ids are searched among as many candidates as there are nodes; Kahn's algorithm, the node depths, the
  walks over calls, routes and pipelines have one unit more than there are nodes or pipelines, and lineages and job trees as
  many as there are rows: the lemmas about them show that a larger bound changes nothing. The include tree has one level more than
  the host has files, and \<open>load_ends\<close> proves the bound is never met. Constants of the code are kept: 1024 hops of
  the hook walk, 8 attempts to start a process, 10000 rows of an audit scan, 5 years of the cron search.

  \<^bold>\<open>Not modelled.\<close> Failures of SQLite statements and of the disk below the atomic writers (except in the vault, the
  manifest, the audit log and the last writes of the dispatcher), signals, pipes and the scheduling of goroutines (except the interleaving of the worker pool
  and of publishers), the HTTP
  listeners, log lines, the command line with its flags and console output, backups and state inspection, database migrations,
  the snapshot of a configuration for audit, OpenAPI and topology documents, doctor reports, ownership of files, and the rendering
  of times and numbers in reports. They carry no decisions the modelled parts depend on, or are input and output alone.
\<close>

end
